(* ===== verification/Js_Prelude.thy ===== *)
theory Js_Prelude
  imports Complex_Main "HOL-Library.AList" "HOL-Library.Char_ord" "HOL-Library.List_Lexorder"
begin

text \<open>
  What the components share: the part of JavaScript's string, array, Set and Map library that
  the sources use, and results that carry the exceptions of the sources as values.

  Strings are \<^typ>\<open>string\<close>s: one HOL character is one UTF-16 code unit below 256, so the model
  covers Latin-1 text. A JavaScript \<^verbatim>\<open>Map\<close> is an association list in insertion order
  with distinct keys; \<^verbatim>\<open>set\<close> is \<^const>\<open>AList.update\<close> (in place, or at the end) and
  \<^verbatim>\<open>delete\<close> is \<^const>\<open>AList.delete\<close>.
\<close>

named_theorems text_simps
named_theorems result_simps

section \<open>Results: exceptions as values\<close>

type_synonym ('e, 'a) result = "'e + 'a"

definition ebind :: "('e, 'a) result \<Rightarrow> ('a \<Rightarrow> ('e, 'b) result) \<Rightarrow> ('e, 'b) result" where
  "ebind m f = (case m of Inl e \<Rightarrow> Inl e | Inr x \<Rightarrow> f x)"

definition require :: "bool \<Rightarrow> 'e \<Rightarrow> ('e, unit) result" where
  "require b e = (if b then Inr () else Inl e)"

lemma ebind_simps [simp]: "ebind (Inl e) f = Inl e" "ebind (Inr x) f = f x"
  by (simp_all add: ebind_def)

lemma require_simps [simp]: "require True e = Inr ()" "require False e = Inl e"
  by (simp_all add: require_def)

lemma ebind_eq_Inr [result_simps]: "ebind m f = Inr y \<longleftrightarrow> (\<exists>x. m = Inr x \<and> f x = Inr y)"
  by (cases m) auto

lemma ebind_eq_Inl [result_simps]:
  "ebind m f = Inl e \<longleftrightarrow> m = Inl e \<or> (\<exists>x. m = Inr x \<and> f x = Inl e)"
  by (cases m) auto

lemma require_eq_Inr [result_simps]: "require b e = Inr u \<longleftrightarrow> b"
  by (simp add: require_def)

lemma require_eq_Inl [result_simps]: "require b e = Inl e' \<longleftrightarrow> \<not> b \<and> e' = e"
  by (auto simp: require_def)

text \<open>A loop over an array whose body can throw: the first exception ends it.\<close>

fun emap :: "('a \<Rightarrow> ('e, 'b) result) \<Rightarrow> 'a list \<Rightarrow> ('e, 'b list) result" where
  "emap f [] = Inr []"
| "emap f (x # xs) = ebind (f x) (\<lambda>y. ebind (emap f xs) (\<lambda>ys. Inr (y # ys)))"

lemma emap_eq_Inr: "emap f xs = Inr ys \<longleftrightarrow> list_all2 (\<lambda>x y. f x = Inr y) xs ys"
  by (induction xs arbitrary: ys) (auto simp: result_simps list_all2_Cons1)

lemma emap_Inr_set: "emap f xs = Inr ys \<Longrightarrow> y \<in> set ys \<Longrightarrow> \<exists>x \<in> set xs. f x = Inr y"
  by (induction xs arbitrary: ys) (auto simp: result_simps)

lemma emap_Inr_mem: "emap f xs = Inr ys \<Longrightarrow> x \<in> set xs \<Longrightarrow> \<exists>y \<in> set ys. f x = Inr y"
  by (induction xs arbitrary: ys) (auto simp: result_simps)

lemma emap_map_Inr: "(\<And>x. x \<in> set xs \<Longrightarrow> f (g x) = Inr x) \<Longrightarrow> emap f (map g xs) = Inr xs"
  by (induction xs) auto

text \<open>Association lists with distinct keys and the same entries are the same map.\<close>

lemma map_of_same_set: "distinct (map fst xs) \<Longrightarrow> distinct (map fst ys) \<Longrightarrow> set xs = set ys \<Longrightarrow> map_of xs = map_of ys"
  by (rule ext) (metis map_of_eq_Some_iff not_Some_eq)

text \<open>The same for a loop that carries a state.\<close>

fun efold :: "('a \<Rightarrow> 's \<Rightarrow> ('e, 's) result) \<Rightarrow> 'a list \<Rightarrow> 's \<Rightarrow> ('e, 's) result" where
  "efold f [] s = Inr s"
| "efold f (x # xs) s = ebind (f x s) (efold f xs)"

lemma efold_invariant:
  assumes "efold f xs s = Inr s'" "P s" "\<And>x s s'. x \<in> set xs \<Longrightarrow> P s \<Longrightarrow> f x s = Inr s' \<Longrightarrow> P s'"
  shows "P s'"
  using assms by (induction xs arbitrary: s) (auto simp: result_simps)

section \<open>Characters\<close>

text \<open>The characters of \<^verbatim>\<open>\s\<close> and of \<^verbatim>\<open>trim\<close> below code point 256.\<close>

definition is_ws :: "char \<Rightarrow> bool" where
  "is_ws c \<longleftrightarrow> c \<in> set [CHR 0x09, CHR 0x0A, CHR 0x0B, CHR 0x0C, CHR 0x0D, CHR 0x20, CHR 0xA0]"

definition is_digit :: "char \<Rightarrow> bool" where
  "is_digit c \<longleftrightarrow> CHR ''0'' \<le> c \<and> c \<le> CHR ''9''"

definition is_lower :: "char \<Rightarrow> bool" where
  "is_lower c \<longleftrightarrow> CHR ''a'' \<le> c \<and> c \<le> CHR ''z''"

definition is_upper :: "char \<Rightarrow> bool" where
  "is_upper c \<longleftrightarrow> CHR ''A'' \<le> c \<and> c \<le> CHR ''Z''"

text \<open>\<^verbatim>\<open>[A-Za-z0-9]\<close> and \<^verbatim>\<open>[A-Za-z0-9._-]\<close>\<close>

definition is_alnum :: "char \<Rightarrow> bool" where
  "is_alnum c \<longleftrightarrow> is_digit c \<or> is_lower c \<or> is_upper c"

definition is_name_char :: "char \<Rightarrow> bool" where
  "is_name_char c \<longleftrightarrow> is_alnum c \<or> c \<in> set ''._-''"

lemmas char_class_defs = is_ws_def is_digit_def is_lower_def is_upper_def is_alnum_def is_name_char_def

text \<open>ASCII lower case, which is what header names and host names need.\<close>

definition lower_char :: "char \<Rightarrow> char" where
  "lower_char c = (if is_upper c then char_of (of_char c + 32 :: nat) else c)"

definition to_lower :: "string \<Rightarrow> string" where
  "to_lower s = map lower_char s"

section \<open>Text\<close>

definition starts_with :: "string \<Rightarrow> string \<Rightarrow> bool" where
  "starts_with p s \<longleftrightarrow> take (length p) s = p"

definition ends_with :: "string \<Rightarrow> string \<Rightarrow> bool" where
  "ends_with p s \<longleftrightarrow> starts_with (rev p) (rev s)"

fun index_of :: "string \<Rightarrow> string \<Rightarrow> nat option" where
  "index_of p [] = (if p = [] then Some 0 else None)"
| "index_of p (c # cs) =
     (if starts_with p (c # cs) then Some 0 else map_option Suc (index_of p cs))"

definition trim_start :: "string \<Rightarrow> string" where
  "trim_start s = dropWhile is_ws s"

definition trim :: "string \<Rightarrow> string" where
  "trim s = rev (dropWhile is_ws (rev (dropWhile is_ws s)))"

text \<open>\<^verbatim>\<open>s.split(/\s+/)\<close>, with the empty pieces before a leading and after a trailing run.\<close>

function split_ws :: "string \<Rightarrow> string list" where
  "split_ws [] = [[]]"
| "split_ws (c # cs) =
     (if is_ws c then [] # split_ws (dropWhile is_ws cs)
      else case split_ws cs of [] \<Rightarrow> [[c]] | w # ws \<Rightarrow> (c # w) # ws)"
  by pat_completeness auto
termination
  by (relation "measure length") (auto simp: le_imp_less_Suc length_dropWhile_le)

text \<open>\<^verbatim>\<open>s.split(/\s+/).filter(Boolean)\<close>\<close>

definition words :: "string \<Rightarrow> string list" where
  "words s = filter (\<lambda>w. w \<noteq> []) (split_ws s)"

fun join :: "string \<Rightarrow> string list \<Rightarrow> string" where
  "join sep [] = []"
| "join sep [w] = w"
| "join sep (w # v # ws) = w @ sep @ join sep (v # ws)"

text \<open>A natural number in decimal, as a template literal prints it.\<close>

fun nat_text :: "nat \<Rightarrow> string" where
  "nat_text n = (if n < 10 then [char_of (48 + n)] else nat_text (n div 10) @ [char_of (48 + n mod 10)])"

declare nat_text.simps [simp del]

text \<open>\<^verbatim>\<open>s.split(d)\<close> for a one-character separator.\<close>

fun split_char :: "char \<Rightarrow> string \<Rightarrow> string list" where
  "split_char d [] = [[]]"
| "split_char d (c # cs) =
     (if c = d then [] # split_char d cs
      else case split_char d cs of [] \<Rightarrow> [[c]] | w # ws \<Rightarrow> (c # w) # ws)"

text \<open>\<^verbatim>\<open>[...new Set(xs)]\<close> keeps the first occurrence of each element.\<close>

definition uniq :: "'a list \<Rightarrow> 'a list" where
  "uniq xs = rev (remdups (rev xs))"

text \<open>\<^verbatim>\<open>[...new Set(xs)].sort()\<close>: by code unit, which on Latin-1 text is the lexicographic order.\<close>

definition canonical :: "'a::linorder list \<Rightarrow> 'a list" where
  "canonical xs = sort (uniq xs)"

lemma set_uniq [simp]: "set (uniq xs) = set xs"
  by (simp add: uniq_def)

lemma distinct_uniq [simp]: "distinct (uniq xs)"
  by (simp add: uniq_def)

lemma set_canonical [simp]: "set (canonical xs) = set xs"
  by (simp add: canonical_def)

lemma distinct_canonical [simp]: "distinct (canonical xs)"
  by (simp add: canonical_def)

lemma sorted_canonical [simp]: "sorted (canonical xs)"
  by (simp add: canonical_def)

lemma canonical_eq_Nil [simp]: "canonical xs = [] \<longleftrightarrow> xs = []"
  by (metis set_canonical set_empty2)

text \<open>Two canonical lists with the same elements are the same list.\<close>

lemma canonical_cong: "set xs = set ys \<Longrightarrow> canonical xs = canonical ys"
  by (metis distinct_canonical set_canonical sorted_canonical sorted_distinct_set_unique)

lemma canonical_id: "sorted xs \<Longrightarrow> distinct xs \<Longrightarrow> canonical xs = xs"
  by (metis distinct_canonical set_canonical sorted_canonical sorted_distinct_set_unique)

subsection \<open>Facts about text\<close>

lemma split_ws_not_Nil [simp]: "split_ws s \<noteq> []"
  by (induction s rule: split_ws.induct) (auto split: list.splits)

lemma split_ws_no_ws: "w \<in> set (split_ws s) \<Longrightarrow> c \<in> set w \<Longrightarrow> \<not> is_ws c"
proof (induction s arbitrary: w c rule: split_ws.induct)
  case 1
  then show ?case by simp
next
  case (2 d cs)
  show ?case
  proof (cases "is_ws d")
    case True
    with "2.prems" have "w \<in> set (split_ws (dropWhile is_ws cs))" by auto
    from "2.IH"(1) [OF True this "2.prems"(2)] show ?thesis .
  next
    case False
    then obtain v vs where v: "split_ws cs = v # vs" by (cases "split_ws cs") auto
    with False "2.prems" consider "w = d # v" | "w \<in> set vs" by auto
    then show ?thesis
    proof cases
      case 1
      with "2.prems" False "2.IH"(2) [OF False, of v c] v show ?thesis by auto
    next
      case 2
      with "2.prems" "2.IH"(2) [OF False, of w c] v show ?thesis by simp
    qed
  qed
qed

lemma words_no_ws: "w \<in> set (words s) \<Longrightarrow> list_all (\<lambda>c. \<not> is_ws c) w"
  by (auto simp: words_def list_all_iff dest: split_ws_no_ws)

lemma words_not_Nil: "w \<in> set (words s) \<Longrightarrow> w \<noteq> []"
  by (simp add: words_def)

lemma split_ws_word: "list_all (\<lambda>c. \<not> is_ws c) w \<Longrightarrow> split_ws w = [w]"
  by (induction w) auto

lemma split_ws_word_sep:
  "list_all (\<lambda>c. \<not> is_ws c) w \<Longrightarrow> is_ws c \<Longrightarrow>
   split_ws (w @ c # s) = w # split_ws (dropWhile is_ws s)"
  by (induction w) auto

lemma words_Nil [simp]: "words [] = []"
  by (simp add: words_def)

lemma words_skip_ws: "is_ws c \<Longrightarrow> words (c # s) = words (dropWhile is_ws s)"
  by (simp add: words_def)

lemma words_dropWhile [simp]: "words (dropWhile is_ws s) = words s"
  by (cases s) (auto simp: words_skip_ws)

lemma words_Cons_word:
  "list_all (\<lambda>c. \<not> is_ws c) w \<Longrightarrow> w \<noteq> [] \<Longrightarrow> is_ws c \<Longrightarrow> words (w @ c # s) = w # words s"
  using words_dropWhile [of s] by (simp add: words_def split_ws_word_sep)

lemma words_word: "list_all (\<lambda>c. \<not> is_ws c) w \<Longrightarrow> w \<noteq> [] \<Longrightarrow> words w = [w]"
  by (simp add: words_def split_ws_word)

lemma words_Cons_ws [simp]: "is_ws c \<Longrightarrow> words (c # s) = words s"
  by (simp add: words_skip_ws)

lemma dropWhile_all: "list_all P xs \<Longrightarrow> dropWhile P xs = []"
  by (simp add: list_all_iff)

lemma split_ws_append_ws:
  assumes "list_all is_ws t"
  shows "hd (split_ws (s @ t)) = hd (split_ws s) \<and>
         filter (\<lambda>w. w \<noteq> []) (tl (split_ws (s @ t))) = filter (\<lambda>w. w \<noteq> []) (tl (split_ws s))"
proof (induction s rule: split_ws.induct)
  case 1
  with assms show ?case by (cases t) (auto simp: dropWhile_all)
next
  case (2 c cs)
  show ?case
  proof (cases "is_ws c")
    case True
    show ?thesis
    proof (cases "list_all is_ws cs")
      case all: True
      with assms have "dropWhile is_ws (cs @ t) = []" "dropWhile is_ws cs = []"
        by (auto simp: list_all_iff)
      with True show ?thesis by (simp del: dropWhile_eq_Nil_conv)
    next
      case False
      then have "dropWhile is_ws (cs @ t) = dropWhile is_ws cs @ t"
        by (auto simp: list_all_iff)
      with True 2(1) show ?thesis
        by (cases "split_ws (dropWhile is_ws cs)"; cases "split_ws (dropWhile is_ws cs @ t)")
           auto
    qed
  next
    case False
    with 2(2) show ?thesis
      by (cases "split_ws cs"; cases "split_ws (cs @ t)") auto
  qed
qed

lemma words_append_ws: "list_all is_ws t \<Longrightarrow> words (s @ t) = words s"
  using split_ws_append_ws [of t s]
  by (cases "split_ws s"; cases "split_ws (s @ t)") (auto simp: words_def)

lemma words_trim [simp, text_simps]: "words (trim s) = words s"
proof -
  let ?m = "dropWhile is_ws s"
  have "rev ?m = takeWhile is_ws (rev ?m) @ dropWhile is_ws (rev ?m)" by simp
  then have "?m = trim s @ rev (takeWhile is_ws (rev ?m))"
    unfolding trim_def by (metis rev_append rev_rev_ident)
  moreover have "list_all is_ws (rev (takeWhile is_ws (rev ?m)))"
    by (auto simp: list_all_iff dest: set_takeWhileD)
  ultimately have "words ?m = words (trim s)" by (metis words_append_ws)
  then show ?thesis by simp
qed

definition is_word :: "string \<Rightarrow> bool" where
  "is_word w \<longleftrightarrow> w \<noteq> [] \<and> list_all (\<lambda>c. \<not> is_ws c) w"

lemma words_is_word: "w \<in> set (words s) \<Longrightarrow> is_word w"
  by (simp add: is_word_def words_no_ws words_not_Nil)

text \<open>Joining words with a space and splitting again gives the words back.\<close>

lemma words_join_space [text_simps]: "list_all is_word ws \<Longrightarrow> words (join '' '' ws) = ws"
  by (induction "'' ''" ws rule: join.induct)
     (auto simp: is_word_def words_word words_Cons_word is_ws_def)

subsection \<open>Prefixes and positions\<close>

lemma starts_with_append [simp]: "starts_with p (p @ s)"
  by (simp add: starts_with_def)

lemma starts_with_Nil [simp]: "starts_with [] s"
  by (simp add: starts_with_def)

lemma starts_with_iff: "starts_with p s \<longleftrightarrow> (\<exists>r. s = p @ r)"
  unfolding starts_with_def by (metis append_eq_conv_conj append_take_drop_id)

lemma index_of_Some:
  "index_of p s = Some i \<Longrightarrow> i + length p \<le> length s \<and> s = take i s @ p @ drop (i + length p) s"
proof (induction p s arbitrary: i rule: index_of.induct)
  case (1 p)
  then show ?case by (auto split: if_splits)
next
  case (2 p c cs)
  show ?case
  proof (cases "starts_with p (c # cs)")
    case True
    then obtain r where r: "c # cs = p @ r" by (auto simp: starts_with_iff)
    then have "length (c # cs) = length p + length r" by (metis length_append)
    moreover from True "2.prems" have "i = 0" by simp
    ultimately show ?thesis using r by simp
  next
    case False
    with "2.prems" obtain j where j: "index_of p cs = Some j" "i = Suc j" by auto
    with "2.IH" [OF False j(1)] show ?thesis by simp
  qed
qed

lemma index_of_first:
  "index_of p s = Some i \<Longrightarrow> j < i \<Longrightarrow> \<not> starts_with p (drop j s)"
proof (induction p s arbitrary: i j rule: index_of.induct)
  case (1 p)
  then show ?case by (auto split: if_splits)
next
  case (2 p c cs)
  then show ?case by (cases j) (auto split: if_splits)
qed

lemma index_of_None: "index_of p s = None \<Longrightarrow> \<not> starts_with p (drop j s)"
proof (induction p s arbitrary: j rule: index_of.induct)
  case (1 p)
  then show ?case by (cases p) (auto simp: starts_with_def)
next
  case (2 p c cs)
  then show ?case by (cases j) (auto split: if_splits)
qed

text \<open>Splitting at a character is undone by joining.\<close>

lemma split_char_length: "length (split_char d s) = Suc (length (filter (\<lambda>c. c = d) s))"
  by (induction s) (auto split: list.splits)

lemma split_char_join: "join [d] (split_char d s) = s"
proof (induction s)
  case (Cons c cs)
  then show ?case by (cases "split_char d cs"; cases "tl (split_char d cs)") auto
qed simp

lemma split_three:
  "length (split_char d s) = 3 \<Longrightarrow> s = split_char d s ! 0 @ [d] @ split_char d s ! 1 @ [d] @ split_char d s ! 2"
  using split_char_join [of d s] by (auto simp: numeral_3_eq_3 length_Suc_conv)

end
