(* ===== verification/Js_Value.thy ===== *)
theory Js_Value
  imports Js_Prelude
begin

text \<open>
  JavaScript values as the sources see them: numbers, parsed JSON, URLs and HTTP headers.

  A \<^verbatim>\<open>number\<close> is an exact rational or one of the three non-finite values (JSON text such
  as \<^verbatim>\<open>1e999\<close> parses to infinity, which is what the \<^verbatim>\<open>Number.isFinite\<close> guards are
  for); rounding of large doubles is not modelled. An \<^verbatim>\<open>unknown\<close> value is a
  \<open>json option\<close>, with \<^const>\<open>None\<close> for \<^verbatim>\<open>undefined\<close>. Object fields are listed in property
  order with distinct names. \<^verbatim>\<open>new URL\<close> belongs to the platform and is a parameter of the
  definitions that need it; \<open>url\<close> is the record of the fields the sources read.
\<close>

section \<open>Numbers and JSON values\<close>

datatype js_number = Finite rat | Pos_Inf | Neg_Inf | Not_A_Number

datatype json =
    JNull
  | JBool bool
  | JNum js_number
  | JStr string
  | JArr "json list"
  | JObj "(string \<times> json) list"

type_synonym unknown = "json option"

fun as_string :: "unknown \<Rightarrow> string option" where
  "as_string (Some (JStr s)) = Some s"
| "as_string _ = None"

text \<open>\<^verbatim>\<open>value && typeof value === "object" && !Array.isArray(value)\<close>\<close>

fun as_record :: "unknown \<Rightarrow> (string \<times> json) list option" where
  "as_record (Some (JObj fs)) = Some fs"
| "as_record _ = None"

text \<open>\<^verbatim>\<open>typeof value === "number" && Number.isFinite(value)\<close>\<close>

fun as_finite :: "unknown \<Rightarrow> rat option" where
  "as_finite (Some (JNum (Finite q))) = Some q"
| "as_finite _ = None"

definition is_integer :: "rat \<Rightarrow> bool" where
  "is_integer q \<longleftrightarrow> of_int \<lfloor>q\<rfloor> = q"

text \<open>\<^verbatim>\<open>value.every((item) => typeof item === "string")\<close>, with the strings.\<close>

fun all_strings :: "json list \<Rightarrow> string list option" where
  "all_strings [] = Some []"
| "all_strings (JStr s # vs) = map_option ((#) s) (all_strings vs)"
| "all_strings (_ # vs) = None"

text \<open>A string claim or an array of strings, and the empty array for anything else.\<close>

fun string_or_strings :: "unknown \<Rightarrow> string list" where
  "string_or_strings (Some (JStr s)) = [s]"
| "string_or_strings (Some (JArr vs)) = (case all_strings vs of None \<Rightarrow> [] | Some ss \<Rightarrow> ss)"
| "string_or_strings _ = []"

lemma as_string_Some [simp]: "as_string v = Some s \<longleftrightarrow> v = Some (JStr s)"
  by (cases v rule: as_string.cases) auto

lemma as_record_Some [simp]: "as_record v = Some fs \<longleftrightarrow> v = Some (JObj fs)"
  by (cases v rule: as_record.cases) auto

lemma as_finite_Some [simp]: "as_finite v = Some q \<longleftrightarrow> v = Some (JNum (Finite q))"
  by (cases v rule: as_finite.cases) auto

lemma all_strings_map [simp]: "all_strings (map JStr ss) = Some ss"
  by (induction ss) auto

lemma all_strings_Some: "all_strings vs = Some ss \<longleftrightarrow> vs = map JStr ss"
  by (induction vs arbitrary: ss rule: all_strings.induct) (auto simp: Cons_eq_map_conv)

text \<open>The property names that every object inherits: methods, and the accessor of the prototype.\<close>

definition inherited_names :: "string list" where
  "inherited_names = [''constructor'', ''__defineGetter__'', ''__defineSetter__'', ''hasOwnProperty'', ''__lookupGetter__'',
     ''__lookupSetter__'', ''isPrototypeOf'', ''propertyIsEnumerable'', ''toString'', ''valueOf'', ''__proto__'', ''toLocaleString'']"

section \<open>JSON text of strings and arrays of strings\<close>

definition hex_digit :: "nat \<Rightarrow> char" where
  "hex_digit n = char_of (if n < 10 then 48 + n else 87 + n)"

definition json_char :: "char \<Rightarrow> string" where
  "json_char c =
     (if c = CHR 0x22 then [CHR 0x5C, CHR 0x22]
      else if c = CHR 0x5C then [CHR 0x5C, CHR 0x5C]
      else if c = CHR 0x08 then CHR 0x5C # ''b''
      else if c = CHR 0x09 then CHR 0x5C # ''t''
      else if c = CHR 0x0A then CHR 0x5C # ''n''
      else if c = CHR 0x0C then CHR 0x5C # ''f''
      else if c = CHR 0x0D then CHR 0x5C # ''r''
      else if of_char c < (32 :: nat)
      then CHR 0x5C # ''u00'' @ [hex_digit (of_char c div 16), hex_digit (of_char c mod 16)]
      else [c])"

definition json_string :: "string \<Rightarrow> string" where
  "json_string s = CHR 0x22 # concat (map json_char s) @ [CHR 0x22]"

definition json_strings :: "string list \<Rightarrow> string" where
  "json_strings ss = ''['' @ join '','' (map json_string ss) @ '']''"

text \<open>Reading one encoded character back shows that the encoding is injective.\<close>

definition unhex :: "char \<Rightarrow> nat" where
  "unhex c = (if of_char c < (58 :: nat) then of_char c - 48 else of_char c - 87)"

definition read_json_char :: "string \<Rightarrow> char \<times> string" where
  "read_json_char s =
     (if hd s \<noteq> CHR 0x5C then (hd s, tl s)
      else if s ! 1 = CHR ''b'' then (CHR 0x08, drop 2 s)
      else if s ! 1 = CHR ''t'' then (CHR 0x09, drop 2 s)
      else if s ! 1 = CHR ''n'' then (CHR 0x0A, drop 2 s)
      else if s ! 1 = CHR ''f'' then (CHR 0x0C, drop 2 s)
      else if s ! 1 = CHR ''r'' then (CHR 0x0D, drop 2 s)
      else if s ! 1 = CHR ''u'' then (char_of (16 * unhex (s ! 4) + unhex (s ! 5)), drop 6 s)
      else (s ! 1, drop 2 s))"

lemma unhex_hex_digit: "n < 16 \<Longrightarrow> unhex (hex_digit n) = n"
  by (simp add: unhex_def hex_digit_def)

lemma read_json_char_encode: "read_json_char (json_char c @ r) = (c, r)"
proof -
  have "of_char c < (32 :: nat) \<Longrightarrow>
    char_of (16 * unhex (hex_digit (of_char c div 16)) + unhex (hex_digit (of_char c mod 16))) = c"
    by (simp add: unhex_hex_digit)
  then show ?thesis
    by (simp add: json_char_def read_json_char_def)
qed

lemma json_char_inj: "json_char c @ r = json_char d @ q \<Longrightarrow> c = d \<and> r = q"
  by (metis prod.inject read_json_char_encode)

lemma json_char_not_quote: "json_char c @ r \<noteq> CHR 0x22 # q"
  by (simp add: json_char_def)

lemma json_string_append_inj:
  "json_string s @ r = json_string t @ q \<Longrightarrow> s = t \<and> r = q"
proof -
  have "concat (map json_char s) @ CHR 0x22 # r = concat (map json_char t) @ CHR 0x22 # q
        \<Longrightarrow> s = t \<and> r = q"
  proof (induction s arbitrary: t)
    case Nil
    then show ?case by (cases t) (auto simp: json_char_not_quote [symmetric])
  next
    case (Cons c s)
    show ?case
    proof (cases t)
      case Nil
      with Cons.prems show ?thesis by (simp add: json_char_not_quote)
    next
      case (Cons d u)
      with Cons.prems have "c = d"
        "concat (map json_char s) @ CHR 0x22 # r = concat (map json_char u) @ CHR 0x22 # q"
        using json_char_inj by fastforce+
      with Cons.IH Cons show ?thesis by blast
    qed
  qed
  then show "json_string s @ r = json_string t @ q \<Longrightarrow> s = t \<and> r = q"
    by (simp add: json_string_def)
qed

definition json_tail :: "string list \<Rightarrow> string" where
  "json_tail ss = concat (map (\<lambda>s. CHR '','' # json_string s) ss) @ '']''"

lemma json_strings_Cons: "json_strings (s # ss) = CHR ''['' # json_string s @ json_tail ss"
proof -
  have "join '','' (map json_string (s # ss)) @ '']'' = json_string s @ json_tail ss"
    by (induction ss arbitrary: s) (simp_all add: json_tail_def)
  then show ?thesis by (simp add: json_strings_def)
qed

lemma json_strings_Nil: "json_strings [] = ''[]''"
  by (simp add: json_strings_def)

lemma json_string_first: "json_string s @ r \<noteq> CHR '']'' # q"
  by (simp add: json_string_def)

lemma json_tail_append_inj: "json_tail ss @ r = json_tail ts @ q \<Longrightarrow> ss = ts \<and> r = q"
proof (induction ss arbitrary: ts)
  case Nil
  then show ?case by (cases ts) (auto simp: json_tail_def)
next
  case (Cons s ss)
  show ?case
  proof (cases ts)
    case Nil
    with Cons.prems show ?thesis by (simp add: json_tail_def)
  next
    case (Cons t us)
    with Cons.prems have "json_string s @ (json_tail ss @ r) = json_string t @ (json_tail us @ q)"
      by (simp add: json_tail_def)
    from json_string_append_inj [OF this] Cons.IH Cons show ?thesis by blast
  qed
qed

lemma json_strings_append_inj:
  "json_strings ss @ r = json_strings ts @ q \<Longrightarrow> ss = ts \<and> r = q"
proof (cases ss; cases ts)
  fix s ss' t ts'
  assume eq: "json_strings ss @ r = json_strings ts @ q" and "ss = s # ss'" "ts = t # ts'"
  then have "json_string s @ (json_tail ss' @ r) = json_string t @ (json_tail ts' @ q)"
    by (simp add: json_strings_Cons)
  from json_string_append_inj [OF this] \<open>ss = s # ss'\<close> \<open>ts = t # ts'\<close> show ?thesis
    using json_tail_append_inj by blast
qed (auto simp: json_strings_Cons json_strings_Nil json_string_first json_string_first [symmetric])

section \<open>URLs and HTTP headers\<close>

record url =
  url_protocol :: string
  url_username :: string
  url_password :: string
  url_hostname :: string
  url_host :: string
  url_pathname :: string
  url_search :: string
  url_hash :: string

subsection \<open>Assigning a path\<close>

text \<open>
  \<^verbatim>\<open>url.pathname = v\<close> runs the URL parser on \<open>v\<close>, which for an http(s) URL reads a backslash as
  a slash and carries out the dot segments, written out or percent-encoded. What is assigned
  here was put together from the paths of parsed URLs, so its characters are encoded already.
\<close>

definition single_dot :: "string \<Rightarrow> bool" where
  "single_dot s \<longleftrightarrow> s = ''.'' \<or> to_lower s = ''%2e''"

definition double_dot :: "string \<Rightarrow> bool" where
  "double_dot s \<longleftrightarrow> s = ''..'' \<or> to_lower s = ''.%2e'' \<or> to_lower s = ''%2e.'' \<or> to_lower s = ''%2e%2e''"

text \<open>The path so far, last segment first, and the segments to come.\<close>

fun walk_segments :: "string list \<Rightarrow> string list \<Rightarrow> string list" where
  "walk_segments path [] = rev path"
| "walk_segments path (s # rest) =
     (let path' = (if double_dot s then tl path else if single_dot s then path else s # path)
      in if rest = [] \<and> (double_dot s \<or> single_dot s) then walk_segments ([] # path') rest
         else walk_segments path' rest)"

definition normal_pathname :: "string \<Rightarrow> string" where
  "normal_pathname v =
     (let w = map (\<lambda>c. if c = CHR 0x5C then CHR ''/'' else c) v;
          segments = split_char (CHR ''/'') (if starts_with ''/'' w then tl w else w)
      in concat (map (\<lambda>s. CHR ''/'' # s) (walk_segments [] segments)))"

definition set_pathname :: "string \<Rightarrow> url \<Rightarrow> url" where
  "set_pathname v u = u\<lparr>url_pathname := normal_pathname v\<rparr>"

text \<open>The paths the parser gives out: one slash first, no backslash, no dot segment.\<close>

definition settled_segment :: "string \<Rightarrow> bool" where
  "settled_segment s \<longleftrightarrow> \<not> single_dot s \<and> \<not> double_dot s \<and> CHR ''/'' \<notin> set s \<and> CHR 0x5C \<notin> set s"

definition settled_path :: "string \<Rightarrow> bool" where
  "settled_path v \<longleftrightarrow> starts_with ''/'' v \<and> list_all settled_segment (split_char (CHR ''/'') (tl v))"

lemma split_char_not_Nil [simp]: "split_char d s \<noteq> []"
  by (induction s) (auto split: list.splits)

lemma split_char_append: "split_char d (a @ d # b) = split_char d a @ split_char d b"
  by (induction a) (auto split: list.splits)

lemma split_char_word: "d \<notin> set s \<Longrightarrow> split_char d s = [s]"
  by (induction s) auto

lemma split_char_no_sep: "s \<in> set (split_char d v) \<Longrightarrow> d \<notin> set s"
  by (induction v arbitrary: s) (auto split: list.splits if_splits)

lemma split_char_chars: "s \<in> set (split_char d v) \<Longrightarrow> set s \<subseteq> set v"
  by (induction v arbitrary: s) (fastforce split: list.splits if_splits)+

lemma concat_split_char: "concat (map (\<lambda>s. d # s) (split_char d v)) = d # v"
  by (induction v) (auto split: list.splits)

lemma walk_plain: "list_all settled_segment ss \<Longrightarrow> walk_segments path ss = rev path @ ss"
  by (induction ss arbitrary: path) (auto simp: settled_segment_def)

lemma walk_plain_append:
  "list_all settled_segment ss \<Longrightarrow> walk_segments path (ss @ ts) = walk_segments (rev ss @ path) ts"
  by (induction ss arbitrary: path) (auto simp: settled_segment_def)

lemma settled_no_backslash: "settled_path v \<Longrightarrow> CHR 0x5C \<notin> set v"
proof -
  assume v: "settled_path v"
  then obtain w where w: "v = CHR ''/'' # w" by (auto simp: settled_path_def starts_with_iff)
  with v have "list_all (\<lambda>s. CHR 0x5C \<notin> set s) (split_char (CHR ''/'') w)"
    by (auto simp: settled_path_def settled_segment_def list_all_iff)
  then have "CHR 0x5C \<notin> set (concat (map (\<lambda>s. CHR ''/'' # s) (split_char (CHR ''/'') w)))"
    by (auto simp: list_all_iff)
  then show ?thesis unfolding concat_split_char w .
qed

lemma normal_pathname_slashed:
  assumes "CHR 0x5C \<notin> set v"
  shows "normal_pathname (CHR ''/'' # v)
    = concat (map (\<lambda>s. CHR ''/'' # s) (walk_segments [] (split_char (CHR ''/'') v)))"
proof -
  have "map (\<lambda>c. if c = CHR 0x5C then CHR ''/'' else c) (CHR ''/'' # v) = CHR ''/'' # v"
    using assms by (intro map_idI) auto
  then show ?thesis by (simp add: normal_pathname_def starts_with_def Let_def)
qed

text \<open>Assigning a settled path keeps it as it is, and whatever is assigned, the result is settled.\<close>

lemma normal_pathname_settled [simp]: "settled_path v \<Longrightarrow> normal_pathname v = v"
  using settled_no_backslash [of v]
  by (auto simp: settled_path_def starts_with_iff normal_pathname_slashed walk_plain concat_split_char)

lemma walk_segments_plain:
  assumes "list_all (\<lambda>s. CHR ''/'' \<notin> set s \<and> CHR 0x5C \<notin> set s) ss" "list_all settled_segment path"
  shows "list_all settled_segment (walk_segments path ss)"
  using assms
proof (induction ss arbitrary: path)
  case (Cons s ss)
  have "list_all settled_segment (tl p)" if "list_all settled_segment p" for p
    using that by (cases p) auto
  moreover have "settled_segment []" by (simp add: settled_segment_def single_dot_def double_dot_def to_lower_def)
  moreover have "settled_segment s" if "\<not> double_dot s" "\<not> single_dot s"
    using that Cons.prems by (simp add: settled_segment_def)
  ultimately show ?case using Cons by (auto simp: Let_def)
qed simp

lemma walk_segments_not_Nil: "ss \<noteq> [] \<Longrightarrow> walk_segments path ss \<noteq> []"
proof (induction ss arbitrary: path)
  case (Cons s ss)
  then show ?case by (cases ss) (auto simp: Let_def)
qed simp

lemma settled_concat:
  assumes "list_all settled_segment ss" "ss \<noteq> []"
  shows "settled_path (concat (map (\<lambda>s. CHR ''/'' # s) ss))"
proof -
  have "split_char (CHR ''/'') (tl (concat (map (\<lambda>s. CHR ''/'' # s) ss))) = ss"
    using assms
  proof (induction ss)
    case (Cons s ss)
    then show ?case
      by (cases ss) (auto simp: settled_segment_def split_char_word split_char_append)
  qed simp
  with assms show ?thesis by (cases ss) (auto simp: settled_path_def starts_with_def)
qed

lemma settled_normal_pathname: "settled_path (normal_pathname v)"
proof -
  let ?w = "map (\<lambda>c. if c = CHR 0x5C then CHR ''/'' else c) v"
  let ?x = "if starts_with ''/'' ?w then tl ?w else ?w"
  have "set ?x \<subseteq> set ?w" by (cases ?w) (auto simp: starts_with_def)
  then have "CHR 0x5C \<notin> set ?x" by auto
  then have "list_all (\<lambda>s. CHR ''/'' \<notin> set s \<and> CHR 0x5C \<notin> set s) (split_char (CHR ''/'') ?x)"
    using split_char_chars split_char_no_sep unfolding list_all_iff by blast
  then have "list_all settled_segment (walk_segments [] (split_char (CHR ''/'') ?x))"
    by (rule walk_segments_plain) simp
  then show ?thesis
    unfolding normal_pathname_def Let_def by (intro settled_concat walk_segments_not_Nil) simp_all
qed

text \<open>An incoming header is one string or several; Node reports the names in lower case.\<close>

datatype header_value = One_Value string | Many_Values "string list"

type_synonym in_headers = "(string \<times> header_value) list"

type_synonym out_headers = "(string \<times> string) list"

text \<open>\<^verbatim>\<open>headers.set(name, value)\<close>: names are compared without case.\<close>

definition set_header :: "string \<Rightarrow> string \<Rightarrow> out_headers \<Rightarrow> out_headers" where
  "set_header name v hs = AList.update (to_lower name) v hs"

definition header :: "out_headers \<Rightarrow> string \<Rightarrow> string option" where
  "header hs name = map_of hs (to_lower name)"

text \<open>\<^verbatim>\<open>Array.isArray(value) ? value.join(", ") : value\<close>\<close>

fun header_text :: "header_value \<Rightarrow> string" where
  "header_text (One_Value s) = s"
| "header_text (Many_Values ss) = join '', '' ss"

text \<open>\<^verbatim>\<open>!value\<close> for a header value: an array is never falsy.\<close>

fun header_missing :: "header_value \<Rightarrow> bool" where
  "header_missing (One_Value s) = (s = [])"
| "header_missing (Many_Values ss) = False"

lemma header_set_header: "header (set_header n v hs) m = (if to_lower n = to_lower m then Some v else header hs m)"
  by (simp add: header_def set_header_def update_conv')

text \<open>
  The platform functions that are not modelled: URL parsing and printing (WHATWG), one
  \<^verbatim>\<open>searchParams.set\<close>, form and component encoding, and the base64url SHA-256 digest.
\<close>

record platform =
  pf_parse_url :: "string \<Rightarrow> url option"
  pf_url_string :: "url \<Rightarrow> string"
  pf_set_param :: "url \<Rightarrow> string \<Rightarrow> string \<Rightarrow> url"
  pf_form :: "(string \<times> string) list \<Rightarrow> string"
  pf_component :: "string \<Rightarrow> string"
  pf_sha256 :: "string \<Rightarrow> string"

text \<open>Replies of the HTTP handlers.\<close>

datatype reply_body = Json_Body json | Text_Body string | Empty_Body

record reply =
  rp_status :: int
  rp_headers :: out_headers
  rp_body :: reply_body

definition reply_json :: "int \<Rightarrow> out_headers \<Rightarrow> json \<Rightarrow> reply" where
  "reply_json code hs v = \<lparr>rp_status = code, rp_headers = hs, rp_body = Json_Body v\<rparr>"

definition reply_text :: "int \<Rightarrow> out_headers \<Rightarrow> string \<Rightarrow> reply" where
  "reply_text code hs t = \<lparr>rp_status = code, rp_headers = hs, rp_body = Text_Body t\<rparr>"

definition reply_redirect :: "out_headers \<Rightarrow> string \<Rightarrow> reply" where
  "reply_redirect hs location =
     \<lparr>rp_status = 302, rp_headers = hs @ [(''location'', location)], rp_body = Empty_Body\<rparr>"

lemma reply_fields [simp]:
  "rp_status (reply_json code hs v) = code" "rp_headers (reply_json code hs v) = hs"
  "rp_body (reply_json code hs v) = Json_Body v"
  "rp_status (reply_text code hs t) = code" "rp_headers (reply_text code hs t) = hs"
  "rp_body (reply_text code hs t) = Text_Body t"
  "rp_status (reply_redirect hs l) = 302" "rp_headers (reply_redirect hs l) = hs @ [(''location'', l)]"
  by (simp_all add: reply_json_def reply_text_def reply_redirect_def)

text \<open>\<^verbatim>\<open>response.setHeader("cache-control", "no-store")\<close>\<close>

definition no_store :: "string \<times> string" where
  "no_store = (''cache-control'', ''no-store'')"

end
