(* ===== verification/Gateway_Env.thy ===== *)
theory Gateway_Env
  imports Js_Value
begin

text \<open>
  \<^verbatim>\<open>mcp-gateway/src/config/env.ts\<close>: the settings of the gateway, read once from the process
  environment (an argument). A missing or malformed required setting is an error of the whole
  load, as the exception at module initialisation is.
\<close>

type_synonym process_env = "string \<Rightarrow> string option"

text \<open>\<^verbatim>\<open>value.replace(/\/+$/, "")\<close>\<close>

definition without_trailing_slash :: "string \<Rightarrow> string" where
  "without_trailing_slash v = rev (dropWhile (\<lambda>c. c = CHR ''/'') (rev v))"

text \<open>\<^verbatim>\<open>Number.parseInt(value, 10)\<close>: blanks, a sign, the longest run of digits.\<close>

definition digits_value :: "string \<Rightarrow> int" where
  "digits_value ds = foldl (\<lambda>n c. 10 * n + (of_char c - 48)) 0 ds"

text \<open>
  A whole number of at most fifteen digits, as every sensible setting is, is the same as a double; a
  longer one the source rounds, and one of hundreds of digits it replaces by the fallback.
\<close>

definition parse_int :: "string \<Rightarrow> int option" where
  "parse_int v =
     (let s = trim_start v;
          (neg, t) = (case s of [] \<Rightarrow> (False, []) | c # cs \<Rightarrow>
             if c = CHR ''-'' then (True, cs) else if c = CHR ''+'' then (False, cs) else (False, s));
          ds = takeWhile is_digit t
      in if ds = [] then None else Some (if neg then - digits_value ds else digits_value ds))"

definition positive_integer :: "string option \<Rightarrow> int \<Rightarrow> int" where
  "positive_integer v fallback =
     (case parse_int (case v of None \<Rightarrow> [] | Some s \<Rightarrow> s) of
        None \<Rightarrow> fallback
      | Some n \<Rightarrow> if 0 < n then n else fallback)"

definition boolean_value :: "string option \<Rightarrow> bool \<Rightarrow> bool" where
  "boolean_value v fallback = (case v of None \<Rightarrow> fallback | Some s \<Rightarrow> s = ''true'')"

definition required_url ::
  "platform \<Rightarrow> process_env \<Rightarrow> bool \<Rightarrow> string \<Rightarrow> bool \<Rightarrow> (string, string) result" where
  "required_url pf env allowInsecureHttp name allowInternalHttp =
     (case env name of
        None \<Rightarrow> Inl (name @ '' must be set to a full externally reachable URL'')
      | Some v \<Rightarrow>
          if v = [] then Inl (name @ '' must be set to a full externally reachable URL'')
          else case pf_parse_url pf v of
            None \<Rightarrow> Inl ''Invalid URL''
          | Some u \<Rightarrow>
              let loopback = url_hostname u = ''localhost'' \<or> url_hostname u = ''127.0.0.1'' in
              if url_protocol u \<noteq> ''https:'' \<and> \<not> loopback \<and> \<not> allowInternalHttp \<and> \<not> allowInsecureHttp
              then Inl (name @ '' must use HTTPS unless it is a loopback development URL'')
              else if url_protocol u \<noteq> ''https:'' \<and> url_protocol u \<noteq> ''http:''
              then Inl (name @ '' must use HTTP or HTTPS'')
              else Inr (without_trailing_slash (pf_url_string pf u)))"

definition required_string :: "process_env \<Rightarrow> string \<Rightarrow> string \<Rightarrow> (string, string) result" where
  "required_string env name fallback =
     (let v = trim (case env name of None \<Rightarrow> fallback | Some s \<Rightarrow> s)
      in if v = [] then Inl (name @ '' must not be empty'') else Inr v)"

text \<open>\<^verbatim>\<open>process.env[name] ?? fallback\<close> and \<^verbatim>\<open>process.env[name] ? ... : fallback\<close>\<close>

definition env_or :: "process_env \<Rightarrow> string \<Rightarrow> string \<Rightarrow> string" where
  "env_or env name fallback = (case env name of None \<Rightarrow> fallback | Some s \<Rightarrow> s)"

definition env_set :: "process_env \<Rightarrow> string \<Rightarrow> bool" where
  "env_set env name = (case env name of None \<Rightarrow> False | Some s \<Rightarrow> s \<noteq> [])"

record gateway_env =
  PORT :: int
  PUBLIC_BASE_URL :: string
  KEYCLOAK_PUBLIC_URL :: string
  KEYCLOAK_URL :: string
  KEYCLOAK_REALM :: string
  KEYCLOAK_CLIENT_ID :: string
  KEYCLOAK_CLIENT_SECRET :: "string option"
  KEYCLOAK_ISSUER :: string
  MCP_HUB_REGISTRY_URL :: string
  MCP_HUB_REGISTRY_TOKEN :: "string option"
  MCP_HUB_REGISTRY_CACHE_TTL_MS :: int
  MCP_GATEWAY_ACCESS_SCOPE :: string
  ATHENZ_ZTS_URL :: string
  ATHENZ_ZTS_AUDIENCE :: string
  ATHENZ_REJECT_UNAUTHORIZED :: bool
  ATHENZ_ACCESS_TOKEN_EXPIRES_IN :: int
  ATHENZ_REQUEST_TIMEOUT_MS :: int
  AUTHORIZATION_TRANSACTION_TTL_SECONDS :: int
  AUTHORIZATION_CODE_TTL_SECONDS :: int
  IDP_LOGOUT_TICKET_TTL_SECONDS :: int
  GATEWAY_SESSION_TTL_SECONDS :: int
  KEYCLOAK_TOKEN_ENDPOINT :: string
  KEYCLOAK_AUTHORIZATION_ENDPOINT :: string
  KEYCLOAK_END_SESSION_ENDPOINT :: string
  KEYCLOAK_POST_LOGOUT_REDIRECT_URI :: string
  KEYCLOAK_JWKS_ENDPOINT :: string

definition gateway_settings ::
  "process_env \<Rightarrow> string \<Rightarrow> string \<Rightarrow> string \<Rightarrow> string \<Rightarrow> string \<Rightarrow> string \<Rightarrow> string \<Rightarrow> gateway_env" where
  "gateway_settings env base keycloakPublic keycloak registry accessScope endSession postLogout =
     (let realm = env_or env ''KEYCLOAK_REALM'' ''master'';
          zts = without_trailing_slash
                  (env_or env ''ATHENZ_ZTS_URL'' ''https://athenz-zts-server.athenz:4443/zts/v1'');
          oidc = ''/realms/'' @ realm @ ''/protocol/openid-connect/'' in
      \<lparr>PORT = positive_integer (env ''PORT'') 3103,
       PUBLIC_BASE_URL = base,
       KEYCLOAK_PUBLIC_URL = keycloakPublic,
       KEYCLOAK_URL = keycloak,
       KEYCLOAK_REALM = realm,
       KEYCLOAK_CLIENT_ID = env_or env ''KEYCLOAK_CLIENT_ID'' ''mcp-gateway'',
       KEYCLOAK_CLIENT_SECRET = env ''KEYCLOAK_CLIENT_SECRET'',
       KEYCLOAK_ISSUER = without_trailing_slash
         (env_or env ''KEYCLOAK_ISSUER'' (keycloakPublic @ ''/realms/'' @ realm)),
       MCP_HUB_REGISTRY_URL = registry,
       MCP_HUB_REGISTRY_TOKEN = env ''MCP_HUB_REGISTRY_TOKEN'',
       MCP_HUB_REGISTRY_CACHE_TTL_MS = positive_integer (env ''MCP_HUB_REGISTRY_CACHE_TTL_MS'') 5000,
       MCP_GATEWAY_ACCESS_SCOPE = accessScope,
       ATHENZ_ZTS_URL = zts,
       ATHENZ_ZTS_AUDIENCE = env_or env ''ATHENZ_ZTS_AUDIENCE'' zts,
       ATHENZ_REJECT_UNAUTHORIZED = boolean_value (env ''ATHENZ_REJECT_UNAUTHORIZED'') True,
       ATHENZ_ACCESS_TOKEN_EXPIRES_IN = positive_integer (env ''ATHENZ_ACCESS_TOKEN_EXPIRES_IN'') 3600,
       ATHENZ_REQUEST_TIMEOUT_MS = positive_integer (env ''ATHENZ_REQUEST_TIMEOUT_MS'') 10000,
       AUTHORIZATION_TRANSACTION_TTL_SECONDS =
         positive_integer (env ''AUTHORIZATION_TRANSACTION_TTL_SECONDS'') 300,
       AUTHORIZATION_CODE_TTL_SECONDS = positive_integer (env ''AUTHORIZATION_CODE_TTL_SECONDS'') 60,
       IDP_LOGOUT_TICKET_TTL_SECONDS = positive_integer (env ''IDP_LOGOUT_TICKET_TTL_SECONDS'') 60,
       GATEWAY_SESSION_TTL_SECONDS = positive_integer (env ''GATEWAY_SESSION_TTL_SECONDS'') 28800,
       KEYCLOAK_TOKEN_ENDPOINT = keycloak @ oidc @ ''token'',
       KEYCLOAK_AUTHORIZATION_ENDPOINT = keycloakPublic @ oidc @ ''auth'',
       KEYCLOAK_END_SESSION_ENDPOINT = endSession,
       KEYCLOAK_POST_LOGOUT_REDIRECT_URI = postLogout,
       KEYCLOAK_JWKS_ENDPOINT = keycloak @ oidc @ ''certs''\<rparr>)"

definition load_gateway_env :: "platform \<Rightarrow> process_env \<Rightarrow> (string, gateway_env) result" where
  "load_gateway_env pf env =
     (let insecure = boolean_value (env ''ALLOW_INSECURE_HTTP'') False;
          url_of = (\<lambda>name. required_url pf env insecure name False);
          url_or = (\<lambda>name fallback. if env_set env name then url_of name else Inr fallback) in
      ebind (url_of ''PUBLIC_BASE_URL'') (\<lambda>base.
      ebind (url_of ''KEYCLOAK_PUBLIC_URL'') (\<lambda>keycloakPublic.
      ebind (url_or ''KEYCLOAK_URL'' keycloakPublic) (\<lambda>keycloak.
      ebind (if env_set env ''MCP_HUB_REGISTRY_URL''
             then required_url pf env insecure ''MCP_HUB_REGISTRY_URL'' True
             else Inr ''http://127.0.0.1:3102/api/mcp-servers'') (\<lambda>registry.
      ebind (required_string env ''MCP_GATEWAY_ACCESS_SCOPE''
               ''api:role.mcp-accessor api:role.docs-getter'') (\<lambda>accessScope.
      ebind (url_or ''KEYCLOAK_END_SESSION_ENDPOINT'' (keycloakPublic @ ''/realms/''
               @ env_or env ''KEYCLOAK_REALM'' ''master'' @ ''/protocol/openid-connect/logout'')) (\<lambda>endSession.
      ebind (url_or ''KEYCLOAK_POST_LOGOUT_REDIRECT_URI'' (base @ ''/oauth/idp-logout/complete'')) (\<lambda>postLogout.
      Inr (gateway_settings env base keycloakPublic keycloak registry accessScope endSession postLogout)))))))))"

section \<open>What a loaded configuration guarantees\<close>

lemma positive_integer_pos: "0 < fallback \<Longrightarrow> 0 < positive_integer v fallback"
  by (simp add: positive_integer_def split: option.splits)

lemma without_trailing_slash_last: "s = without_trailing_slash v \<Longrightarrow> s \<noteq> [] \<Longrightarrow> last s \<noteq> CHR ''/''"
  unfolding without_trailing_slash_def
  by (metis (mono_tags, lifting) hd_dropWhile last_rev rev_is_Nil_conv)

text \<open>The settings the protocol's safety depends on.\<close>

definition env_wf :: "gateway_env \<Rightarrow> bool" where
  "env_wf e \<longleftrightarrow>
     0 < AUTHORIZATION_TRANSACTION_TTL_SECONDS e \<and> 0 < AUTHORIZATION_CODE_TTL_SECONDS e \<and>
     0 < IDP_LOGOUT_TICKET_TTL_SECONDS e \<and> 0 < GATEWAY_SESSION_TTL_SECONDS e \<and>
     0 < ATHENZ_ACCESS_TOKEN_EXPIRES_IN e \<and> 0 < ATHENZ_REQUEST_TIMEOUT_MS e \<and>
     0 < MCP_HUB_REGISTRY_CACHE_TTL_MS e \<and> 0 < PORT e \<and>
     MCP_GATEWAY_ACCESS_SCOPE e \<noteq> []"

lemma required_url_Inr:
  "required_url pf env insecure name internal = Inr s \<Longrightarrow>
   \<exists>v u. env name = Some v \<and> pf_parse_url pf v = Some u
     \<and> s = without_trailing_slash (pf_url_string pf u)
     \<and> (url_protocol u = ''https:'' \<or> url_protocol u = ''http:'')
     \<and> (url_protocol u = ''https:'' \<or> url_hostname u = ''localhost'' \<or> url_hostname u = ''127.0.0.1''
         \<or> internal \<or> insecure)"
  by (auto simp: required_url_def Let_def split: option.splits if_splits)

lemma gateway_settings_wf:
  "accessScope \<noteq> [] \<Longrightarrow>
   env_wf (gateway_settings env base keycloakPublic keycloak registry accessScope endSession postLogout)"
  by (simp add: gateway_settings_def Let_def env_wf_def positive_integer_pos)

lemma required_string_Inr: "required_string env name fallback = Inr v \<Longrightarrow> v \<noteq> []"
  by (auto simp: required_string_def Let_def split: if_splits)

lemma load_gateway_env_wf: "load_gateway_env pf env = Inr e \<Longrightarrow> env_wf e"
  unfolding load_gateway_env_def Let_def
  by (auto simp only: ebind_eq_Inr sum.inject intro!: gateway_settings_wf dest!: required_string_Inr)

end
