(* ===== verification/Expiring_Store.thy ===== *)
theory Expiring_Store
  imports Js_Prelude
begin

text \<open>
  The interface the gateway's one-time credentials share: OAuth transactions, authorization
  codes, logout tickets and the sessions that the logout route consumes. A value is put under a
  fresh key with an expiry time and is taken back at most once. The laws are the ones a client
  of the stores relies on; the stores of the gateway are interpretations.
\<close>

datatype ('k, 'v) store_op = Put rat 'k 'v | Take rat 'k

text \<open>A run of a store: the values handed out, with their keys and times, and the final store.\<close>

fun run_store ::
  "(rat \<Rightarrow> 'k \<Rightarrow> 'v \<Rightarrow> 's \<Rightarrow> 's) \<Rightarrow> (rat \<Rightarrow> 'k \<Rightarrow> 's \<Rightarrow> 'v option \<times> 's) \<Rightarrow> 's
   \<Rightarrow> ('k, 'v) store_op list \<Rightarrow> (rat \<times> 'k \<times> 'v) list \<times> 's" where
  "run_store put redeem s [] = ([], s)"
| "run_store put redeem s (Put t k v # ops) = run_store put redeem (put t k v s) ops"
| "run_store put redeem s (Take t k # ops) =
     (let (r, s') = redeem t k s;
          (out, s'') = run_store put redeem s' ops
      in (case r of None \<Rightarrow> out | Some v \<Rightarrow> (t, k, v) # out, s''))"

fun puts_of :: "'k \<Rightarrow> ('k, 'v) store_op list \<Rightarrow> nat" where
  "puts_of k [] = 0"
| "puts_of k (Put t k' v # ops) = (if k' = k then 1 else 0) + puts_of k ops"
| "puts_of k (Take t k' # ops) = puts_of k ops"

definition handed_out :: "'k \<Rightarrow> (rat \<times> 'k \<times> 'v) list \<Rightarrow> nat" where
  "handed_out k out = length (filter (\<lambda>(t, k', v). k' = k) out)"

lemma handed_out_simps [simp]:
  "handed_out k [] = 0"
  "handed_out k ((t, k', v) # out) = (if k' = k then 1 else 0) + handed_out k out"
  by (simp_all add: handed_out_def)

locale expiring_store =
  fixes lookup :: "'s \<Rightarrow> 'k \<Rightarrow> 'v option"
    and put :: "rat \<Rightarrow> 'k \<Rightarrow> 'v \<Rightarrow> 's \<Rightarrow> 's"
    and redeem :: "rat \<Rightarrow> 'k \<Rightarrow> 's \<Rightarrow> 'v option \<times> 's"
    and expires :: "'v \<Rightarrow> rat"
    and invar :: "'s \<Rightarrow> bool"
  assumes put_invar: "invar s \<Longrightarrow> invar (put t k v s)"
    and redeem_invar: "invar s \<Longrightarrow> invar (snd (redeem t k s))"
    and put_same: "invar s \<Longrightarrow> lookup (put t k v s) k = Some v"
    and put_other: "invar s \<Longrightarrow> k' \<noteq> k \<Longrightarrow>
          lookup (put t k v s) k' = None \<or> lookup (put t k v s) k' = lookup s k'"
    and put_live: "invar s \<Longrightarrow> k' \<noteq> k \<Longrightarrow> lookup s k' = Some v' \<Longrightarrow> t < expires v' \<Longrightarrow>
          lookup (put t k v s) k' = Some v'"
    and redeem_value: "invar s \<Longrightarrow> fst (redeem t k s) =
          (case lookup s k of None \<Rightarrow> None | Some v \<Rightarrow> if expires v \<le> t then None else Some v)"
    and redeem_gone: "invar s \<Longrightarrow> lookup (snd (redeem t k s)) k = None"
    and redeem_other: "invar s \<Longrightarrow> k' \<noteq> k \<Longrightarrow> lookup (snd (redeem t k s)) k' = lookup s k'"
begin

lemmas laws = put_invar redeem_invar put_same put_other put_live redeem_value redeem_gone redeem_other

lemma redeem_Some:
  "invar s \<Longrightarrow> fst (redeem t k s) = Some v \<longleftrightarrow> lookup s k = Some v \<and> t < expires v"
  by (auto simp: redeem_value split: option.splits)

lemma redeem_after_put: "invar s \<Longrightarrow> t' < expires v \<Longrightarrow> fst (redeem t' k (put t k v s)) = Some v"
  by (simp add: redeem_Some put_same put_invar)

lemma redeem_twice: "invar s \<Longrightarrow> fst (redeem t' k (snd (redeem t k s))) = None"
  by (simp add: redeem_value redeem_gone redeem_invar)

text \<open>In any run a key is redeemed at most as often as it was issued.\<close>

lemma redeemed_at_most_issued:
  "invar s \<Longrightarrow> handed_out k (fst (run_store put redeem s ops))
     \<le> puts_of k ops + (if lookup s k = None then 0 else 1)"
proof (induction ops arbitrary: s)
  case Nil
  then show ?case by simp
next
  case (Cons op ops)
  note inv = Cons.prems
  show ?case
  proof (cases op)
    case (Put t k' v)
    note IH = Cons.IH [OF put_invar [OF inv, of t k' v]]
    show ?thesis
    proof (cases "k' = k")
      case True
      with Put IH inv show ?thesis by (auto simp: put_same split: if_splits)
    next
      case False
      with Put IH put_other [OF inv, of k k' t v] show ?thesis
        by (auto split: if_splits)
    qed
  next
    case (Take t k')
    obtain r s' where rs: "redeem t k' s = (r, s')" by (cases "redeem t k' s")
    with redeem_invar [OF inv, of t k'] have inv': "invar s'" by simp
    show ?thesis
    proof (cases "k' = k")
      case True
      with rs redeem_gone [OF inv, of t k] have "lookup s' k = None" by simp
      moreover from rs True redeem_Some [OF inv, of t k] have "r = None \<or> lookup s k \<noteq> None"
        by (cases r) auto
      ultimately show ?thesis using Take rs True Cons.IH [OF inv']
        by (auto simp: split_beta split: option.splits if_splits)
    next
      case False
      with rs redeem_other [OF inv, of k k' t] have "lookup s' k = lookup s k" by simp
      with Take rs False Cons.IH [OF inv'] show ?thesis
        by (auto simp: split_beta split: option.splits if_splits)
    qed
  qed
qed

text \<open>What is handed out was put in before (or was there), and had not expired.\<close>

lemma redeemed_was_issued:
  "invar s \<Longrightarrow> (t, k, v) \<in> set (fst (run_store put redeem s ops)) \<Longrightarrow>
     t < expires v \<and> (lookup s k = Some v \<or> (\<exists>t'. Put t' k v \<in> set ops))"
proof (induction ops arbitrary: s)
  case Nil
  then show ?case by simp
next
  case (Cons op ops)
  note inv = Cons.prems(1)
  show ?case
  proof (cases op)
    case (Put t' k' v')
    with Cons.prems have "(t, k, v) \<in> set (fst (run_store put redeem (put t' k' v' s) ops))" by simp
    from Cons.IH [OF put_invar [OF inv] this] show ?thesis
      using Put put_same [OF inv, of t' k' v'] put_other [OF inv, of k k' t' v']
      by (cases "k = k'") auto
  next
    case (Take t' k')
    obtain r s' where rs: "redeem t' k' s = (r, s')" by (cases "redeem t' k' s")
    with redeem_invar [OF inv, of t' k'] have inv': "invar s'" by simp
    have keep: "lookup s' k = Some v \<Longrightarrow> lookup s k = Some v"
      using rs redeem_gone [OF inv, of t' k'] redeem_other [OF inv, of k k' t']
      by (cases "k = k'") auto
    have now: "r = Some u \<Longrightarrow> lookup s k' = Some u \<and> t' < expires u" for u
      using rs redeem_Some [OF inv, of t' k' u] by simp
    from Cons.prems Take rs consider "r = Some v" "t = t'" "k = k'"
      | "(t, k, v) \<in> set (fst (run_store put redeem s' ops))"
      by (auto simp: split_beta split: option.splits)
    then show ?thesis
      using now keep Cons.IH [OF inv'] Take by cases auto
  qed
qed

end

text \<open>
  A store whose values can also be read without being consumed, as the gateway's sessions are:
  reading gives what redeeming would give and forgets an expired value.
\<close>

locale readable_store = expiring_store lookup put redeem expires invar
  for lookup :: "'s \<Rightarrow> 'k \<Rightarrow> 'v option"
    and put :: "rat \<Rightarrow> 'k \<Rightarrow> 'v \<Rightarrow> 's \<Rightarrow> 's"
    and redeem :: "rat \<Rightarrow> 'k \<Rightarrow> 's \<Rightarrow> 'v option \<times> 's"
    and expires :: "'v \<Rightarrow> rat"
    and invar :: "'s \<Rightarrow> bool" +
  fixes peek :: "rat \<Rightarrow> 'k \<Rightarrow> 's \<Rightarrow> 'v option \<times> 's"
  assumes peek_value: "invar s \<Longrightarrow> fst (peek t k s) = fst (redeem t k s)"
    and peek_keeps: "invar s \<Longrightarrow> fst (peek t k s) = Some v \<Longrightarrow> snd (peek t k s) = s"
    and peek_other: "invar s \<Longrightarrow> k' \<noteq> k \<Longrightarrow> lookup (snd (peek t k s)) k' = lookup s k'"
    and peek_invar: "invar s \<Longrightarrow> invar (snd (peek t k s))"
begin

lemma peek_Some:
  "invar s \<Longrightarrow> fst (peek t k s) = Some v \<longleftrightarrow> lookup s k = Some v \<and> t < expires v"
  by (simp add: peek_value redeem_Some)

lemma peek_after_put: "invar s \<Longrightarrow> t' < expires v \<Longrightarrow> fst (peek t' k (put t k v s)) = Some v"
  by (simp add: peek_Some put_same put_invar)

lemma peek_after_redeem: "invar s \<Longrightarrow> fst (peek t' k (snd (redeem t k s))) = None"
  by (simp add: peek_value redeem_twice redeem_invar)

end

text \<open>Keys are unique: the invariant of a JavaScript \<^verbatim>\<open>Map\<close> as an association list.\<close>

definition keys_unique :: "('k \<times> 'v) list \<Rightarrow> bool" where
  "keys_unique m \<longleftrightarrow> distinct (map fst m)"

lemma keys_unique_Nil [simp, intro]: "keys_unique []"
  by (simp add: keys_unique_def)

lemma keys_unique_update [intro]: "keys_unique m \<Longrightarrow> keys_unique (AList.update k v m)"
  by (simp add: keys_unique_def distinct_update)

lemma keys_unique_delete [intro]: "keys_unique m \<Longrightarrow> keys_unique (AList.delete k m)"
  by (simp add: keys_unique_def distinct_delete)

lemma keys_unique_filter [intro]: "keys_unique m \<Longrightarrow> keys_unique (filter P m)"
  by (simp add: keys_unique_def distinct_map_filter)

lemma map_of_filter_unique:
  "keys_unique m \<Longrightarrow>
     map_of (filter P m) k = (case map_of m k of None \<Rightarrow> None | Some v \<Rightarrow> if P (k, v) then Some v else None)"
proof (induction m)
  case Nil
  then show ?case by simp
next
  case (Cons kv m)
  obtain k' v' where kv: "kv = (k', v')" by (cases kv)
  from Cons.prems kv have m: "keys_unique m" "k' \<notin> fst ` set m" by (auto simp: keys_unique_def)
  have "map_of (filter P m) k' = None"
    using m(2) by (auto simp: map_of_eq_None_iff)
  moreover have "map_of m k' = None" using m(2) by (simp add: map_of_eq_None_iff)
  ultimately show ?case using Cons.IH [OF m(1)] kv by (cases "k = k'") auto
qed

text \<open>Every entry of a map has a property: kept by every way the stores change.\<close>

definition entries :: "('k \<Rightarrow> 'v \<Rightarrow> bool) \<Rightarrow> ('k \<times> 'v) list \<Rightarrow> bool" where
  "entries P m \<longleftrightarrow> (\<forall>(k, v) \<in> set m. P k v)"

lemma entries_Nil [simp, intro]: "entries P []"
  by (simp add: entries_def)

lemma entries_Cons [simp]: "entries P ((k, v) # m) \<longleftrightarrow> P k v \<and> entries P m"
  by (simp add: entries_def)

lemma entries_update [intro]: "entries P m \<Longrightarrow> P k v \<Longrightarrow> entries P (AList.update k v m)"
  by (induction m) auto

lemma entries_filter [intro]: "entries P m \<Longrightarrow> entries P (filter Q m)"
  by (auto simp: entries_def)

lemma entries_delete [intro]: "entries P m \<Longrightarrow> entries P (AList.delete k m)"
  by (induction m) auto

lemma entries_mono: "entries P m \<Longrightarrow> (\<And>k v. P k v \<Longrightarrow> Q k v) \<Longrightarrow> entries Q m"
  by (auto simp: entries_def)

lemma entries_lookup: "map_of m k = Some v \<Longrightarrow> entries P m \<Longrightarrow> P k v"
  by (auto simp: entries_def dest: map_of_SomeD)

end
