(* ===== verification/Gateway_Session_Store.thy ===== *)
theory Gateway_Session_Store
  imports Js_Value Expiring_Store
begin

text \<open>
  \<^verbatim>\<open>mcp-gateway/src/utils/sessionStore.ts\<close>: the gateway's server-side sessions. The opaque
  token a client holds is never stored; the map is keyed by its hash. The hash function and the
  random tokens come from Node's \<^verbatim>\<open>crypto\<close> and are arguments. Times are in seconds, as
  \<^verbatim>\<open>now()\<close> gives them. \<open>gs_ref\<close> is the identity of the session object, which the weak maps of
  \<^verbatim>\<open>services/athenz.ts\<close> compare.
\<close>

record gateway_session =
  gs_ref :: nat
  gs_idToken :: string
  gs_idTokenExpiresAt :: rat
  gs_subject :: string
  gs_username :: string
  gs_expiresAt :: rat

type_synonym session_map = "(string \<times> gateway_session) list"

text \<open>\<^verbatim>\<open>Math.floor(Date.now() / 1000)\<close>\<close>

definition now_seconds :: "int \<Rightarrow> rat" where
  "now_seconds ms = of_int (ms div 1000)"

definition session_create ::
  "(string \<Rightarrow> string) \<Rightarrow> rat \<Rightarrow> string \<Rightarrow> gateway_session \<Rightarrow> session_map
   \<Rightarrow> (string, string \<times> session_map) result" where
  "session_create tokenHash now token session sessions =
     (if gs_idTokenExpiresAt session \<le> now
      then Inl ''Cannot create a session with an expired ID token''
      else if gs_expiresAt session \<le> now
      then Inl ''Cannot create an already-expired session''
      else Inr (token, AList.update (tokenHash token) session sessions))"

definition session_get ::
  "(string \<Rightarrow> string) \<Rightarrow> rat \<Rightarrow> string \<Rightarrow> session_map \<Rightarrow> gateway_session option \<times> session_map" where
  "session_get tokenHash now token sessions =
     (let key = tokenHash token in
      case map_of sessions key of
        None \<Rightarrow> (None, sessions)
      | Some session \<Rightarrow>
          if gs_expiresAt session \<le> now then (None, AList.delete key sessions)
          else (Some session, sessions))"

definition session_delete ::
  "(string \<Rightarrow> string) \<Rightarrow> string \<Rightarrow> session_map \<Rightarrow> bool \<times> session_map" where
  "session_delete tokenHash token sessions =
     (map_of sessions (tokenHash token) \<noteq> None, AList.delete (tokenHash token) sessions)"

definition session_consume ::
  "(string \<Rightarrow> string) \<Rightarrow> rat \<Rightarrow> string \<Rightarrow> session_map \<Rightarrow> gateway_session option \<times> session_map" where
  "session_consume tokenHash now token sessions =
     (let key = tokenHash token; session = map_of sessions key; sessions' = AList.delete key sessions in
      case session of
        None \<Rightarrow> (None, sessions')
      | Some s \<Rightarrow> if gs_expiresAt s \<le> now then (None, sessions') else (Some s, sessions'))"

fun list_active :: "rat \<Rightarrow> session_map \<Rightarrow> gateway_session list \<times> session_map" where
  "list_active now [] = ([], [])"
| "list_active now ((key, session) # rest) =
     (let (active, kept) = list_active now rest in
      if gs_expiresAt session \<le> now then (active, kept)
      else (session # active, (key, session) # kept))"

definition session_clear :: "session_map \<Rightarrow> session_map" where
  "session_clear sessions = []"

lemmas session_store_defs =
  session_create_def session_get_def session_delete_def session_consume_def Let_def

section \<open>The contract\<close>

text \<open>
  What \<^verbatim>\<open>create\<close> writes once its two guards have passed, and the store as the interface
  sees it: keyed by the token's hash, which is the operations at the identity hash.
\<close>

definition session_put :: "rat \<Rightarrow> string \<Rightarrow> gateway_session \<Rightarrow> session_map \<Rightarrow> session_map" where
  "session_put now key session sessions = AList.update key session sessions"

lemma session_create_Inr:
  "session_create h now token session sessions = Inr (tk, sessions') \<longleftrightarrow>
     now < gs_idTokenExpiresAt session \<and> now < gs_expiresAt session \<and> tk = token \<and>
     sessions' = session_put now (h token) session sessions"
  by (auto simp: session_create_def session_put_def)

lemma session_ops_at_hash:
  "session_get h now token sessions = session_get id now (h token) sessions"
  "session_consume h now token sessions = session_consume id now (h token) sessions"
  by (simp_all add: session_store_defs)

interpretation sessions: readable_store
  "map_of :: session_map \<Rightarrow> string \<Rightarrow> gateway_session option"
  session_put "session_consume id" gs_expiresAt keys_unique "session_get id"
  by unfold_locales
     (auto simp: session_put_def session_store_defs update_conv' delete_conv' split: option.splits)

lemma list_active_eq:
  "list_active now sessions =
     (let kept = filter (\<lambda>(k, s). now < gs_expiresAt s) sessions in (map snd kept, kept))"
  by (induction sessions) (auto simp: Let_def split: prod.splits)

lemma session_deleted: "fst (session_get h now token (snd (session_delete h token sessions))) = None"
  by (simp add: session_store_defs delete_conv')

end
