(* ===== verification/Gateway_OAuth_Store.thy ===== *)
theory Gateway_OAuth_Store
  imports Gateway_Session_Store
begin

text \<open>
  \<^verbatim>\<open>mcp-gateway/src/utils/oauthStore.ts\<close>: registered clients, login transactions,
  authorization codes and logout tickets. Random values (tokens and the client's UUID), the
  S256 digest and the URL parser are arguments. Lifetimes are those of \<^verbatim>\<open>config/env.ts\<close>.
\<close>

record registered_client =
  rc_clientId :: string
  rc_redirectUris :: "string list"

record authorization_transaction =
  at_clientId :: string
  at_clientState :: string
  at_redirectUri :: string
  at_clientCodeChallenge :: string
  at_keycloakCodeVerifier :: string
  at_nonce :: string
  at_expiresAt :: rat

record authorization_code =
  ac_clientId :: string
  ac_redirectUri :: string
  ac_clientCodeChallenge :: string
  ac_idToken :: string
  ac_subject :: string
  ac_username :: string
  ac_identityExpiresAt :: rat
  ac_expiresAt :: rat

record logout_ticket =
  lt_idToken :: string
  lt_expiresAt :: rat

type_synonym client_map = "(string \<times> registered_client) list"
type_synonym transaction_map = "(string \<times> authorization_transaction) list"
type_synonym code_map = "(string \<times> authorization_code) list"
type_synonym ticket_map = "(string \<times> logout_ticket) list"

section \<open>Clients\<close>

definition register_client :: "string \<Rightarrow> string list \<Rightarrow> client_map \<Rightarrow> registered_client \<times> client_map" where
  "register_client uuid redirectUris clients =
     (let client = \<lparr>rc_clientId = ''mcp-client-'' @ uuid, rc_redirectUris = redirectUris\<rparr>
      in (client, AList.update (rc_clientId client) client clients))"

definition get_client :: "string \<Rightarrow> client_map \<Rightarrow> registered_client option" where
  "get_client clientId clients = map_of clients clientId"

section \<open>Login transactions\<close>

definition create_authorization_transaction ::
  "rat \<Rightarrow> rat \<Rightarrow> string \<Rightarrow> string \<Rightarrow> string \<Rightarrow> string \<Rightarrow> string \<Rightarrow> string \<Rightarrow> string
   \<Rightarrow> transaction_map \<Rightarrow> string \<times> authorization_transaction \<times> transaction_map" where
  "create_authorization_transaction ttl now upstreamState keycloakCodeVerifier nonce
     clientId clientState redirectUri clientCodeChallenge transactions =
     (let stored = \<lparr>at_clientId = clientId, at_clientState = clientState,
            at_redirectUri = redirectUri, at_clientCodeChallenge = clientCodeChallenge,
            at_keycloakCodeVerifier = keycloakCodeVerifier, at_nonce = nonce,
            at_expiresAt = now + ttl\<rparr>
      in (upstreamState, stored, AList.update upstreamState stored transactions))"

definition consume_authorization_transaction ::
  "rat \<Rightarrow> string \<Rightarrow> transaction_map \<Rightarrow> authorization_transaction option \<times> transaction_map" where
  "consume_authorization_transaction now upstreamState transactions =
     (let transaction = map_of transactions upstreamState;
          transactions' = AList.delete upstreamState transactions
      in case transaction of
           None \<Rightarrow> (None, transactions')
         | Some tr \<Rightarrow> if at_expiresAt tr \<le> now then (None, transactions') else (Some tr, transactions'))"

section \<open>Authorization codes\<close>

text \<open>The code lives as long as the setting says, but never longer than the identity behind it.\<close>

definition create_authorization_code ::
  "rat \<Rightarrow> rat \<Rightarrow> string \<Rightarrow> authorization_code \<Rightarrow> code_map \<Rightarrow> string \<times> code_map" where
  "create_authorization_code ttl now code input codes =
     (code, AList.update code
        (input\<lparr>ac_expiresAt := min (ac_identityExpiresAt input) (now + ttl)\<rparr>) codes)"

definition consume_authorization_code ::
  "rat \<Rightarrow> string \<Rightarrow> code_map \<Rightarrow> authorization_code option \<times> code_map" where
  "consume_authorization_code now code codes =
     (let authorizationCode = map_of codes code; codes' = AList.delete code codes
      in case authorizationCode of
           None \<Rightarrow> (None, codes')
         | Some ac \<Rightarrow> if ac_expiresAt ac \<le> now then (None, codes') else (Some ac, codes'))"

section \<open>Identity-provider logout tickets\<close>

text \<open>Creating a ticket first sweeps the expired ones.\<close>

fun purge_tickets :: "rat \<Rightarrow> ticket_map \<Rightarrow> ticket_map" where
  "purge_tickets now [] = []"
| "purge_tickets now ((ticket, entry) # rest) =
     (if lt_expiresAt entry \<le> now then purge_tickets now rest
      else (ticket, entry) # purge_tickets now rest)"

definition create_logout_ticket :: "rat \<Rightarrow> rat \<Rightarrow> string \<Rightarrow> string \<Rightarrow> ticket_map \<Rightarrow> string \<times> ticket_map" where
  "create_logout_ticket ttl now ticket idToken tickets =
     (ticket, AList.update ticket \<lparr>lt_idToken = idToken, lt_expiresAt = now + ttl\<rparr>
        (purge_tickets now tickets))"

definition consume_logout_ticket :: "rat \<Rightarrow> string \<Rightarrow> ticket_map \<Rightarrow> string option \<times> ticket_map" where
  "consume_logout_ticket now ticket tickets =
     (let entry = map_of tickets ticket; tickets' = AList.delete ticket tickets
      in case entry of
           None \<Rightarrow> (None, tickets')
         | Some e \<Rightarrow> if lt_expiresAt e \<le> now then (None, tickets') else (Some (lt_idToken e), tickets'))"

section \<open>PKCE and redirect URIs\<close>

definition verify_s256_code_challenge :: "(string \<Rightarrow> string) \<Rightarrow> string \<Rightarrow> string \<Rightarrow> bool" where
  "verify_s256_code_challenge deriveS256CodeChallenge verifier expectedChallenge =
     (let actual = deriveS256CodeChallenge verifier
      in length actual = length expectedChallenge \<and> actual = expectedChallenge)"

definition is_allowed_redirect_uri :: "(string \<Rightarrow> url option) \<Rightarrow> string \<Rightarrow> bool" where
  "is_allowed_redirect_uri parseUrl v =
     (case parseUrl v of
        None \<Rightarrow> False
      | Some u \<Rightarrow>
          if url_hash u \<noteq> [] \<or> url_username u \<noteq> [] \<or> url_password u \<noteq> [] then False
          else if url_protocol u = ''https:'' then True
          else url_protocol u = ''http:''
               \<and> (url_hostname u = ''127.0.0.1'' \<or> url_hostname u = ''localhost''))"

lemmas oauth_store_defs =
  register_client_def get_client_def create_authorization_transaction_def
  consume_authorization_transaction_def create_authorization_code_def
  consume_authorization_code_def create_logout_ticket_def consume_logout_ticket_def Let_def

section \<open>The contracts\<close>

text \<open>The stores as the one-time-credential interface sees them.\<close>

definition transaction_put ::
  "rat \<Rightarrow> string \<Rightarrow> authorization_transaction \<Rightarrow> transaction_map \<Rightarrow> transaction_map" where
  "transaction_put now state tr transactions = AList.update state tr transactions"

definition code_put :: "rat \<Rightarrow> string \<Rightarrow> authorization_code \<Rightarrow> code_map \<Rightarrow> code_map" where
  "code_put now code ac codes = AList.update code ac codes"

definition ticket_put :: "rat \<Rightarrow> string \<Rightarrow> logout_ticket \<Rightarrow> ticket_map \<Rightarrow> ticket_map" where
  "ticket_put now ticket entry tickets = AList.update ticket entry (purge_tickets now tickets)"

definition ticket_redeem :: "rat \<Rightarrow> string \<Rightarrow> ticket_map \<Rightarrow> logout_ticket option \<times> ticket_map" where
  "ticket_redeem now ticket tickets =
     (case map_of tickets ticket of
        None \<Rightarrow> (None, AList.delete ticket tickets)
      | Some e \<Rightarrow> (if lt_expiresAt e \<le> now then None else Some e, AList.delete ticket tickets))"

lemma consume_logout_ticket_redeem:
  "consume_logout_ticket now ticket tickets =
     map_prod (map_option lt_idToken) id (ticket_redeem now ticket tickets)"
  by (simp add: consume_logout_ticket_def ticket_redeem_def Let_def split: option.splits)

lemma purge_tickets_eq: "purge_tickets now tickets = filter (\<lambda>(k, e). now < lt_expiresAt e) tickets"
  by (induction tickets) auto

interpretation transactions: expiring_store
  "map_of :: transaction_map \<Rightarrow> string \<Rightarrow> authorization_transaction option"
  transaction_put consume_authorization_transaction at_expiresAt keys_unique
  by unfold_locales
     (auto simp: transaction_put_def oauth_store_defs update_conv' delete_conv' split: option.splits)

interpretation codes: expiring_store
  "map_of :: code_map \<Rightarrow> string \<Rightarrow> authorization_code option"
  code_put consume_authorization_code ac_expiresAt keys_unique
  by unfold_locales
     (auto simp: code_put_def oauth_store_defs update_conv' delete_conv' split: option.splits)

interpretation tickets: expiring_store
  "map_of :: ticket_map \<Rightarrow> string \<Rightarrow> logout_ticket option"
  ticket_put ticket_redeem lt_expiresAt keys_unique
  by unfold_locales
     (auto simp: ticket_put_def ticket_redeem_def purge_tickets_eq update_conv' delete_conv'
        map_of_filter_unique split: option.splits)

end
