(* ===== verification/Gateway_OAuth_Routes.thy ===== *)
theory Gateway_OAuth_Routes
  imports Gateway_Env Gateway_OAuth_Store
begin

text \<open>
  \<^verbatim>\<open>mcp-gateway/src/routes/oauth.ts\<close> and \<^verbatim>\<open>services/keycloak.ts\<close>: the authorization-code
  flow of the gateway. One definition per route; a route returns the reply (or the exception
  that Express reports) and the next state. The callback route awaits Keycloak, so it is two
  definitions, before and after the wait; other requests run in between. Random values, clock
  readings and what Keycloak answers are arguments.
\<close>

record oauth_state =
  os_clients :: client_map
  os_transactions :: transaction_map
  os_codes :: code_map
  os_tickets :: ticket_map
  os_sessions :: session_map

definition clear_oauth_stores :: "oauth_state \<Rightarrow> oauth_state" where
  "clear_oauth_stores st =
     st\<lparr>os_clients := [], os_transactions := [], os_codes := [], os_tickets := []\<rparr>"

type_synonym query = "string \<Rightarrow> unknown"
type_synonym route_reply = "(string, reply) result"

definition query_value :: "query \<Rightarrow> string \<Rightarrow> string option" where
  "query_value q name = as_string (q name)"

definition body_value :: "unknown \<Rightarrow> string \<Rightarrow> string option" where
  "body_value body name =
     (case as_record body of None \<Rightarrow> None | Some fs \<Rightarrow> as_string (map_of fs name))"

text \<open>\<^verbatim>\<open>!value\<close> for an optional string: missing or empty.\<close>

definition truthy :: "string option \<Rightarrow> bool" where
  "truthy v = (case v of None \<Rightarrow> False | Some s \<Rightarrow> s \<noteq> [])"

lemma truthy_Some [simp]: "truthy (Some s) \<longleftrightarrow> s \<noteq> []" "\<not> truthy None"
  by (simp_all add: truthy_def)

lemma truthyE: "truthy v \<Longrightarrow> \<exists>s. v = Some s \<and> s \<noteq> []"
  by (cases v) auto

section \<open>Keycloak\<close>

text \<open>The claims of a verified ID token, with the types that \<^verbatim>\<open>jose\<close> documents.\<close>

record jwt_payload =
  jp_sub :: "string option"
  jp_exp :: "rat option"
  jp_nonce :: unknown
  jp_preferred_username :: unknown

datatype jose_error =
    Claim_Validation_Failed string unknown string   \<comment> \<open>the claim, the token's own \<open>iss\<close> and the message\<close>
  | Other_Jose_Error string

record identity =
  id_subject :: string
  id_username :: string
  id_expiresAt :: rat

definition keycloak_exchange_form :: "gateway_env \<Rightarrow> string \<Rightarrow> string \<Rightarrow> (string \<times> string) list" where
  "keycloak_exchange_form env code codeVerifier =
     [(''grant_type'', ''authorization_code''),
      (''client_id'', KEYCLOAK_CLIENT_ID env),
      (''code'', code),
      (''redirect_uri'', PUBLIC_BASE_URL env @ ''/oauth/callback''),
      (''code_verifier'', codeVerifier)]
     @ (case KEYCLOAK_CLIENT_SECRET env of
          None \<Rightarrow> [] | Some secret \<Rightarrow> if secret = [] then [] else [(''client_secret'', secret)])"

text \<open>What the token endpoint answers: a failure with its text, or a body that is JSON or not.\<close>

datatype keycloak_response =
    Token_Http_Error string string          \<comment> \<open>status and body text\<close>
  | Token_Json "(string \<times> json) list"
  | Token_Failure string                    \<comment> \<open>network error, timeout or malformed JSON\<close>

fun keycloak_exchange_result :: "keycloak_response \<Rightarrow> (string, string) result" where
  "keycloak_exchange_result (Token_Http_Error code detail) =
     Inl (''Keycloak token exchange failed ('' @ code @ ''): '' @ take 500 detail)"
| "keycloak_exchange_result (Token_Json fs) =
     (case as_string (map_of fs ''id_token'') of
        None \<Rightarrow> Inl ''Keycloak did not return an ID token''
      | Some t \<Rightarrow> Inr t)"
| "keycloak_exchange_result (Token_Failure m) = Inl m"

definition verify_keycloak_id_token ::
  "gateway_env \<Rightarrow> (string \<Rightarrow> (jose_error, jwt_payload) result) \<Rightarrow> string \<Rightarrow> string
   \<Rightarrow> (string, identity) result" where
  "verify_keycloak_id_token env jwtVerify idToken nonce =
     (case jwtVerify idToken of
        Inl (Claim_Validation_Failed claim iss m) \<Rightarrow>
          if claim = ''iss''
          then Inl (''Keycloak ID token issuer mismatch: expected '' @ KEYCLOAK_ISSUER env @ '', received ''
                    @ (case as_string iss of None \<Rightarrow> ''<missing>'' | Some i \<Rightarrow> i))
          else Inl m
      | Inl (Other_Jose_Error m) \<Rightarrow> Inl m
      | Inr payload \<Rightarrow>
          if jp_nonce payload \<noteq> Some (JStr nonce)
          then Inl ''Keycloak ID token nonce did not match the login transaction''
          else case (jp_sub payload, jp_exp payload) of
            (Some subject, Some expiry) \<Rightarrow>
              if subject = [] \<or> expiry = 0 then Inl ''Keycloak ID token is missing sub or exp''
              else Inr \<lparr>id_subject = subject,
                        id_username = (case as_string (jp_preferred_username payload) of
                                         None \<Rightarrow> subject | Some n \<Rightarrow> n),
                        id_expiresAt = expiry\<rparr>
          | _ \<Rightarrow> Inl ''Keycloak ID token is missing sub or exp'')"

section \<open>The routes\<close>

definition oauth_metadata :: "gateway_env \<Rightarrow> reply" where
  "oauth_metadata env =
     (let base = PUBLIC_BASE_URL env in
      reply_json 200 [] (JObj
        [(''issuer'', JStr base),
         (''authorization_endpoint'', JStr (base @ ''/oauth/authorize'')),
         (''token_endpoint'', JStr (base @ ''/oauth/token'')),
         (''registration_endpoint'', JStr (base @ ''/oauth/register'')),
         (''revocation_endpoint'', JStr (base @ ''/oauth/revoke'')),
         (''end_session_endpoint'', JStr (base @ ''/oauth/idp-logout'')),
         (''idp_logout_ticket_endpoint'', JStr (base @ ''/oauth/idp-logout-ticket'')),
         (''response_types_supported'', JArr [JStr ''code'']),
         (''grant_types_supported'', JArr [JStr ''authorization_code'']),
         (''code_challenge_methods_supported'', JArr [JStr ''S256''])]))"

definition requested_redirect_uris :: "unknown \<Rightarrow> string list" where
  "requested_redirect_uris body =
     (case as_record body of
        None \<Rightarrow> []
      | Some fs \<Rightarrow> (case map_of fs ''redirect_uris'' of
          Some (JArr vs) \<Rightarrow> List.map_filter (\<lambda>v. as_string (Some v)) vs
        | _ \<Rightarrow> []))"

definition oauth_register ::
  "platform \<Rightarrow> int \<Rightarrow> string \<Rightarrow> unknown \<Rightarrow> oauth_state \<Rightarrow> route_reply \<times> oauth_state" where
  "oauth_register pf nowMs uuid body st =
     (let redirectUris = requested_redirect_uris body in
      if redirectUris = []
         \<or> list_ex (\<lambda>v. \<not> is_allowed_redirect_uri (pf_parse_url pf) v) redirectUris
      then (Inr (reply_json 400 [] (JObj
              [(''error'', JStr ''invalid_redirect_uri''),
               (''error_description'', JStr ''Use an HTTPS redirect URI or an HTTP loopback redirect URI.'')])),
            st)
      else let (client, clients) = register_client uuid redirectUris (os_clients st) in
           (Inr (reply_json 201 [] (JObj
              [(''client_id'', JStr (rc_clientId client)),
               (''client_id_issued_at'', JNum (Finite (now_seconds nowMs))),
               (''redirect_uris'', JArr (map JStr (rc_redirectUris client))),
               (''grant_types'', JArr [JStr ''authorization_code'']),
               (''response_types'', JArr [JStr ''code'']),
               (''token_endpoint_auth_method'', JStr ''none'')])),
            st\<lparr>os_clients := clients\<rparr>))"

text \<open>The guard of the authorization route: what it needs from the query, or \<^const>\<open>None\<close>.\<close>

definition authorize_handler ::
  "query \<Rightarrow> client_map \<Rightarrow> (registered_client \<times> string \<times> string \<times> string) option" where
  "authorize_handler q clients =
     (case (query_value q ''client_id'', query_value q ''redirect_uri'',
            query_value q ''state'', query_value q ''code_challenge'') of
        (Some clientId, Some redirectUri, Some clientState, Some codeChallenge) \<Rightarrow>
          (case (if clientId = [] then None else get_client clientId clients) of
             None \<Rightarrow> None
           | Some client \<Rightarrow>
               if redirectUri \<noteq> [] \<and> redirectUri \<in> set (rc_redirectUris client)
                  \<and> query_value q ''response_type'' = Some ''code'' \<and> clientState \<noteq> []
                  \<and> codeChallenge \<noteq> [] \<and> query_value q ''code_challenge_method'' = Some ''S256''
               then Some (client, redirectUri, clientState, codeChallenge)
               else None)
      | _ \<Rightarrow> None)"

definition oauth_authorize ::
  "platform \<Rightarrow> gateway_env \<Rightarrow> int \<Rightarrow> string \<Rightarrow> string \<Rightarrow> string \<Rightarrow> query \<Rightarrow> oauth_state
   \<Rightarrow> route_reply \<times> oauth_state" where
  "oauth_authorize pf env nowMs upstreamState verifier nonce q st =
     (case authorize_handler q (os_clients st) of
        None \<Rightarrow> (Inr (reply_text 400 [] ''Invalid OAuth authorization request''), st)
      | Some (client, redirectUri, clientState, codeChallenge) \<Rightarrow>
          let (state, tr, transactions) =
                create_authorization_transaction
                  (of_int (AUTHORIZATION_TRANSACTION_TTL_SECONDS env)) (now_seconds nowMs)
                  upstreamState verifier nonce
                  (rc_clientId client) clientState redirectUri codeChallenge (os_transactions st);
              parameters =
                [(''client_id'', KEYCLOAK_CLIENT_ID env),
                 (''response_type'', ''code''),
                 (''redirect_uri'', PUBLIC_BASE_URL env @ ''/oauth/callback''),
                 (''scope'', ''openid email profile''),
                 (''state'', state),
                 (''nonce'', at_nonce tr),
                 (''code_challenge'', pf_sha256 pf (at_keycloakCodeVerifier tr)),
                 (''code_challenge_method'', ''S256'')]
          in (Inr (reply_redirect [] (KEYCLOAK_AUTHORIZATION_ENDPOINT env @ ''?'' @ pf_form pf parameters)),
              st\<lparr>os_transactions := transactions\<rparr>))"

definition redirect_with_parameters ::
  "platform \<Rightarrow> string \<Rightarrow> (string \<times> string) list \<Rightarrow> route_reply" where
  "redirect_with_parameters pf redirectUri parameters =
     (case pf_parse_url pf redirectUri of
        None \<Rightarrow> Inl ''Invalid URL''
      | Some u \<Rightarrow> Inr (reply_redirect []
          (pf_url_string pf (foldl (\<lambda>u (name, v). pf_set_param pf u name v) u parameters))))"

datatype callback_start =
    Callback_Done route_reply
  | Callback_Wait authorization_transaction string    \<comment> \<open>the transaction and Keycloak's code\<close>

definition oauth_callback_start ::
  "platform \<Rightarrow> int \<Rightarrow> query \<Rightarrow> oauth_state \<Rightarrow> callback_start \<times> oauth_state" where
  "oauth_callback_start pf nowMs q st =
     (let (transaction, transactions) =
            (case query_value q ''state'' of
               None \<Rightarrow> (None, os_transactions st)
             | Some s \<Rightarrow> if s = [] then (None, os_transactions st)
                         else consume_authorization_transaction (now_seconds nowMs) s (os_transactions st));
          st' = st\<lparr>os_transactions := transactions\<rparr>
      in case transaction of
           None \<Rightarrow> (Callback_Done (Inr (reply_text 400 [] ''Invalid or expired OAuth state'')), st')
         | Some tr \<Rightarrow>
             if truthy (query_value q ''error'')
             then (Callback_Done (redirect_with_parameters pf (at_redirectUri tr)
                     [(''error'', the (query_value q ''error'')), (''state'', at_clientState tr)]), st')
             else if \<not> truthy (query_value q ''code'')
             then (Callback_Done (Inr (reply_text 400 []
                     ''Keycloak callback did not contain an authorization code'')), st')
             else (Callback_Wait tr (the (query_value q ''code'')), st'))"

definition code_of_login ::
  "authorization_transaction \<Rightarrow> string \<Rightarrow> identity \<Rightarrow> authorization_code" where
  "code_of_login tr idToken identity =
     \<lparr>ac_clientId = at_clientId tr, ac_redirectUri = at_redirectUri tr,
      ac_clientCodeChallenge = at_clientCodeChallenge tr, ac_idToken = idToken,
      ac_subject = id_subject identity, ac_username = id_username identity,
      ac_identityExpiresAt = id_expiresAt identity, ac_expiresAt = 0\<rparr>"

text \<open>The two awaited calls of the callback: the token exchange and the check of the ID token.\<close>

definition keycloak_login ::
  "gateway_env \<Rightarrow> (string \<Rightarrow> (jose_error, jwt_payload) result) \<Rightarrow> keycloak_response
   \<Rightarrow> authorization_transaction \<Rightarrow> (string, string \<times> identity) result" where
  "keycloak_login env jwtVerify response tr =
     ebind (keycloak_exchange_result response) (\<lambda>idToken.
     ebind (verify_keycloak_id_token env jwtVerify idToken (at_nonce tr)) (\<lambda>identity.
     Inr (idToken, identity)))"

definition oauth_callback_finish ::
  "platform \<Rightarrow> gateway_env \<Rightarrow> (string \<Rightarrow> (jose_error, jwt_payload) result) \<Rightarrow> int \<Rightarrow> string
   \<Rightarrow> keycloak_response \<Rightarrow> authorization_transaction \<Rightarrow> oauth_state \<Rightarrow> route_reply \<times> oauth_state" where
  "oauth_callback_finish pf env jwtVerify nowMs gatewayCode response tr st =
     (case keycloak_login env jwtVerify response tr of
        Inl message \<Rightarrow> (Inr (reply_text 502 [] message), st)
      | Inr (idToken, identity) \<Rightarrow>
          let (code, codes) = create_authorization_code
                (of_int (AUTHORIZATION_CODE_TTL_SECONDS env)) (now_seconds nowMs) gatewayCode
                (code_of_login tr idToken identity) (os_codes st);
              st' = st\<lparr>os_codes := codes\<rparr>
          in case redirect_with_parameters pf (at_redirectUri tr)
                    [(''code'', code), (''state'', at_clientState tr)] of
               Inl message \<Rightarrow> (Inr (reply_text 502 [] message), st')
             | Inr r \<Rightarrow> (Inr r, st'))"

text \<open>The guard of the token route, after the code has been consumed.\<close>

definition code_grant_valid ::
  "platform \<Rightarrow> unknown \<Rightarrow> authorization_code option \<Rightarrow> bool" where
  "code_grant_valid pf body ac =
     (case ac of
        None \<Rightarrow> False
      | Some ac \<Rightarrow>
          body_value body ''grant_type'' = Some ''authorization_code''
          \<and> body_value body ''client_id'' = Some (ac_clientId ac)
          \<and> body_value body ''redirect_uri'' = Some (ac_redirectUri ac)
          \<and> (case body_value body ''code_verifier'' of
               None \<Rightarrow> False
             | Some verifier \<Rightarrow> verifier \<noteq> []
                 \<and> verify_s256_code_challenge (pf_sha256 pf) verifier (ac_clientCodeChallenge ac)))"

definition session_of_code :: "nat \<Rightarrow> rat \<Rightarrow> authorization_code \<Rightarrow> gateway_session" where
  "session_of_code ref expiresAt ac =
     \<lparr>gs_ref = ref, gs_idToken = ac_idToken ac, gs_idTokenExpiresAt = ac_identityExpiresAt ac,
      gs_subject = ac_subject ac, gs_username = ac_username ac, gs_expiresAt = expiresAt\<rparr>"

text \<open>\<^verbatim>\<open>code ? consumeAuthorizationCode(code) : null\<close>\<close>

definition code_presented ::
  "rat \<Rightarrow> unknown \<Rightarrow> code_map \<Rightarrow> authorization_code option \<times> code_map" where
  "code_presented now body codes =
     (case body_value body ''code'' of
        None \<Rightarrow> (None, codes)
      | Some c \<Rightarrow> if c = [] then (None, codes) else consume_authorization_code now c codes)"

text \<open>\<^verbatim>\<open>now()\<close> is read three times: to consume the code, for the expiry, and in \<^verbatim>\<open>create\<close>.\<close>

definition oauth_token ::
  "platform \<Rightarrow> gateway_env \<Rightarrow> (string \<Rightarrow> string) \<Rightarrow> int \<Rightarrow> int \<Rightarrow> int \<Rightarrow> nat \<Rightarrow> string \<Rightarrow> unknown
   \<Rightarrow> oauth_state \<Rightarrow> route_reply \<times> oauth_state" where
  "oauth_token pf env tokenHash ms1 ms2 ms3 ref token body st =
     (let (ac, codes) = code_presented (now_seconds ms1) body (os_codes st);
          st' = st\<lparr>os_codes := codes\<rparr>
      in if \<not> code_grant_valid pf body ac
         then (Inr (reply_json 400 [] (JObj
                 [(''error'', JStr ''invalid_grant''),
                  (''error_description'', JStr ''Authorization code validation failed.'')])), st')
         else let expiresAt = now_seconds ms2 + of_int (GATEWAY_SESSION_TTL_SECONDS env) in
           case session_create tokenHash (now_seconds ms3) token
                  (session_of_code ref expiresAt (the ac)) (os_sessions st') of
             Inl message \<Rightarrow> (Inl message, st')
           | Inr (accessToken, sessions) \<Rightarrow>
               (Inr (reply_json 200 [no_store, (''pragma'', ''no-cache'')] (JObj
                  [(''access_token'', JStr accessToken),
                   (''token_type'', JStr ''Bearer''),
                   (''expires_in'', JNum (Finite (of_int (GATEWAY_SESSION_TTL_SECONDS env)))),
                   (''scope'', JStr ''openid email profile'')])),
                st'\<lparr>os_sessions := sessions\<rparr>))"

definition oauth_revoke ::
  "(string \<Rightarrow> string) \<Rightarrow> unknown \<Rightarrow> oauth_state \<Rightarrow> route_reply \<times> oauth_state" where
  "oauth_revoke tokenHash body st =
     (Inr (reply_text 200 [] ''OK''),
      if truthy (body_value body ''token'')
      then st\<lparr>os_sessions := snd (session_delete tokenHash (the (body_value body ''token'')) (os_sessions st))\<rparr>
      else st)"

definition oauth_idp_logout_ticket ::
  "platform \<Rightarrow> gateway_env \<Rightarrow> (string \<Rightarrow> string) \<Rightarrow> int \<Rightarrow> int \<Rightarrow> string \<Rightarrow> unknown \<Rightarrow> oauth_state
   \<Rightarrow> route_reply \<times> oauth_state" where
  "oauth_idp_logout_ticket pf env tokenHash ms1 ms2 ticket body st =
     (let (session, sessions) =
            (case body_value body ''token'' of
               None \<Rightarrow> (None, os_sessions st)
             | Some t \<Rightarrow> if t = [] then (None, os_sessions st)
                         else session_consume tokenHash (now_seconds ms1) t (os_sessions st));
          st' = st\<lparr>os_sessions := sessions\<rparr>
      in case session of
           None \<Rightarrow> (Inr (reply_json 401 [no_store] (JObj [(''error'', JStr ''invalid_token'')])), st')
         | Some s \<Rightarrow>
             let (tk, tickets) = create_logout_ticket (of_int (IDP_LOGOUT_TICKET_TTL_SECONDS env))
                   (now_seconds ms2) ticket (gs_idToken s) (os_tickets st');
                 st'' = st'\<lparr>os_tickets := tickets\<rparr>
             in case pf_parse_url pf (PUBLIC_BASE_URL env @ ''/oauth/idp-logout'') of
                  None \<Rightarrow> (Inl ''Invalid URL'', st'')
                | Some u \<Rightarrow>
                    (Inr (reply_json 200 [no_store, (''pragma'', ''no-cache'')] (JObj
                       [(''logout_url'', JStr (pf_url_string pf (pf_set_param pf u ''ticket'' tk)))])), st''))"

definition oauth_idp_logout ::
  "platform \<Rightarrow> gateway_env \<Rightarrow> int \<Rightarrow> query \<Rightarrow> oauth_state \<Rightarrow> route_reply \<times> oauth_state" where
  "oauth_idp_logout pf env nowMs q st =
     (let (idToken, tickets) =
            (case query_value q ''ticket'' of
               None \<Rightarrow> (None, os_tickets st)
             | Some t \<Rightarrow> if t = [] then (None, os_tickets st)
                         else consume_logout_ticket (now_seconds nowMs) t (os_tickets st));
          st' = st\<lparr>os_tickets := tickets\<rparr>
      in if \<not> truthy idToken
         then (Inr (reply_text 400 [no_store] ''Invalid or expired identity-provider logout ticket''), st')
         else case pf_parse_url pf (KEYCLOAK_END_SESSION_ENDPOINT env) of
           None \<Rightarrow> (Inl ''Invalid URL'', st')
         | Some u \<Rightarrow>
             (Inr (reply_redirect [no_store] (pf_url_string pf
                (pf_set_param pf (pf_set_param pf (pf_set_param pf u
                   ''id_token_hint'' (the idToken))
                   ''client_id'' (KEYCLOAK_CLIENT_ID env))
                   ''post_logout_redirect_uri'' (KEYCLOAK_POST_LOGOUT_REDIRECT_URI env)))), st'))"

definition oauth_idp_logout_complete :: reply where
  "oauth_idp_logout_complete =
     reply_text 200 [no_store]
       (''<!doctype html><html><head><meta charset='' @ [CHR 0x22] @ ''utf-8'' @ [CHR 0x22]
        @ ''><title>Signed out</title></head>''
        @ ''<body><main><h1>Signed out</h1><p>You may close this window and return to your terminal.</p></main></body></html>'')"

section \<open>What each route does\<close>

lemma keycloak_login_Inr:
  "keycloak_login env jwtVerify response tr = Inr (idToken, identity) \<longleftrightarrow>
     keycloak_exchange_result response = Inr idToken \<and>
     verify_keycloak_id_token env jwtVerify idToken (at_nonce tr) = Inr identity"
  by (auto simp: keycloak_login_def result_simps)

lemma verify_keycloak_id_token_Inr:
  "verify_keycloak_id_token env jwtVerify idToken nonce = Inr identity \<Longrightarrow>
   \<exists>payload. jwtVerify idToken = Inr payload \<and> jp_nonce payload = Some (JStr nonce)
     \<and> jp_sub payload = Some (id_subject identity) \<and> id_subject identity \<noteq> []
     \<and> jp_exp payload = Some (id_expiresAt identity)"
  by (auto simp: verify_keycloak_id_token_def
        split: sum.splits jose_error.splits option.splits if_splits prod.splits)

lemma authorize_request_Some:
  "authorize_handler q clients = Some (client, redirectUri, clientState, codeChallenge) \<Longrightarrow>
   \<exists>clientId. query_value q ''client_id'' = Some clientId \<and> map_of clients clientId = Some client
     \<and> query_value q ''redirect_uri'' = Some redirectUri \<and> redirectUri \<in> set (rc_redirectUris client)
     \<and> query_value q ''code_challenge'' = Some codeChallenge \<and> codeChallenge \<noteq> []
     \<and> query_value q ''state'' = Some clientState
     \<and> query_value q ''code_challenge_method'' = Some ''S256''"
  by (auto simp: authorize_handler_def get_client_def split: option.splits if_splits)

lemma code_presented_Some:
  "code_presented now body codes = (Some ac, codes') \<Longrightarrow>
   \<exists>c. body_value body ''code'' = Some c \<and> c \<noteq> [] \<and> consume_authorization_code now c codes = (Some ac, codes')"
  by (auto simp: code_presented_def split: option.splits if_splits)

lemma code_presented_sub: "snd (code_presented now body codes) = codes \<or>
   (\<exists>c. snd (code_presented now body codes) = AList.delete c codes)"
  by (auto simp: code_presented_def consume_authorization_code_def Let_def split: option.splits)

text \<open>A session is created exactly when the presented code passes every check.\<close>

definition token_granted ::
  "platform \<Rightarrow> rat \<Rightarrow> unknown \<Rightarrow> code_map \<Rightarrow> authorization_code option" where
  "token_granted pf now body codes =
     (let ac = fst (code_presented now body codes) in if code_grant_valid pf body ac then ac else None)"

lemma token_granted_Some:
  "token_granted pf now body codes = Some ac \<longleftrightarrow>
     fst (code_presented now body codes) = Some ac \<and> code_grant_valid pf body (Some ac)"
  by (auto simp: token_granted_def Let_def)

lemma oauth_token_cases:
  "oauth_token pf env tokenHash ms1 ms2 ms3 ref token body st =
     (let st' = st\<lparr>os_codes := snd (code_presented (now_seconds ms1) body (os_codes st))\<rparr>;
          expiresAt = now_seconds ms2 + of_int (GATEWAY_SESSION_TTL_SECONDS env)
      in case token_granted pf (now_seconds ms1) body (os_codes st) of
        None \<Rightarrow> (Inr (reply_json 400 [] (JObj
                  [(''error'', JStr ''invalid_grant''),
                   (''error_description'', JStr ''Authorization code validation failed.'')])), st')
      | Some ac \<Rightarrow>
          case session_create tokenHash (now_seconds ms3) token
                 (session_of_code ref expiresAt ac) (os_sessions st) of
            Inl message \<Rightarrow> (Inl message, st')
          | Inr (accessToken, sessions) \<Rightarrow>
              (Inr (reply_json 200 [no_store, (''pragma'', ''no-cache'')] (JObj
                 [(''access_token'', JStr accessToken),
                  (''token_type'', JStr ''Bearer''),
                  (''expires_in'', JNum (Finite (of_int (GATEWAY_SESSION_TTL_SECONDS env)))),
                  (''scope'', JStr ''openid email profile'')])),
               st'\<lparr>os_sessions := sessions\<rparr>))"
  by (cases "code_presented (now_seconds ms1) body (os_codes st)")
     (auto simp: oauth_token_def token_granted_def Let_def code_grant_valid_def split: option.splits)

end
