(* ===== verification/Samples.thy ===== *)
theory Samples
  imports Gateway_Env Gateway_Session_Store
begin

text \<open>
  Concrete stand-ins for the platform functions, at which the witnesses evaluate the theorems:
  an absolute URL is split at its scheme, parameters are appended, and the digest is a prefix.
  Nothing but the witnesses uses them.
\<close>

definition sample_parse :: "string \<Rightarrow> url option" where
  "sample_parse s =
     (case index_of ''://'' s of
        None \<Rightarrow> None
      | Some i \<Rightarrow>
          let rest = drop (i + 3) s; host = takeWhile (\<lambda>c. c \<noteq> CHR ''/'') rest;
              path = dropWhile (\<lambda>c. c \<noteq> CHR ''/'') rest
          in Some \<lparr>url_protocol = take i s @ '':'', url_username = [], url_password = [],
                   url_hostname = host, url_host = host,
                   url_pathname = (if path = [] then ''/'' else path), url_search = [], url_hash = []\<rparr>)"

definition sample_print :: "url \<Rightarrow> string" where
  "sample_print u = url_protocol u @ ''//'' @ url_host u @ url_pathname u @ url_search u"

definition sample_set_param :: "url \<Rightarrow> string \<Rightarrow> string \<Rightarrow> url" where
  "sample_set_param u name v =
     u\<lparr>url_search := (if url_search u = [] then ''?'' else url_search u @ ''&'') @ name @ ''='' @ v\<rparr>"

definition sample_platform :: platform where
  "sample_platform =
     \<lparr>pf_parse_url = sample_parse, pf_url_string = sample_print, pf_set_param = sample_set_param,
      pf_form = (\<lambda>fs. join ''&'' (map (\<lambda>(n, v). n @ ''='' @ v) fs)), pf_component = (\<lambda>s. s),
      pf_sha256 = (\<lambda>s. ''sha:'' @ s)\<rparr>"

lemmas sample_defs = sample_parse_def sample_print_def sample_set_param_def sample_platform_def

text \<open>The gateway's default settings, and a session.\<close>

definition sample_env :: gateway_env where
  "sample_env = gateway_settings (\<lambda>_. None) ''https://gw'' ''https://kc'' ''https://kc'' ''http://hub''
     ''api:role.reader'' ''https://kc/logout'' ''https://gw/done''"

definition sample_session :: gateway_session where
  "sample_session = \<lparr>gs_ref = 7, gs_idToken = ''idt'', gs_idTokenExpiresAt = 9000, gs_subject = ''ann'',
            gs_username = ''ann'', gs_expiresAt = 28804\<rparr>"

end
