(* ===== verification/Gateway_OAuth_Flow.thy ===== *)
theory Gateway_OAuth_Flow
  imports Gateway_OAuth_Routes Samples
begin

text \<open>
  The OAuth routes under interleaving: requests arrive in any order, and a callback that waits
  for Keycloak is answered at any later time or never. A run is a list of events; every clock
  reading, random value and answer is part of its event. The flow records, beside the stores,
  the callbacks that wait and a history that no operation reads: clients registered, logins that
  Keycloak confirmed, codes issued and codes redeemed.
\<close>

record oauth_config =
  oc_platform :: platform
  oc_env :: gateway_env
  oc_jwtVerify :: "string \<Rightarrow> (jose_error, jwt_payload) result"
  oc_tokenHash :: "string \<Rightarrow> string"

type_synonym login = "authorization_transaction \<times> string \<times> identity"

record oauth_flow =
  of_state :: oauth_state
  of_waiting :: "(authorization_transaction \<times> string) list"
  of_registered :: "registered_client list"
  of_logins :: "login list"
  of_issued :: "string list"
  of_redeemed :: "string list"

datatype oauth_event =
    Ev_Register int string unknown
  | Ev_Authorize int string string string query
  | Ev_Callback int query
  | Ev_Keycloak nat int string keycloak_response   \<comment> \<open>the answer for a waiting callback\<close>
  | Ev_Token int int int nat string unknown
  | Ev_Revoke unknown
  | Ev_Logout_Ticket int int string unknown
  | Ev_Logout int query
  | Ev_Session_Read int string                     \<comment> \<open>\<open>requireSession\<close> of the protected routes\<close>
  | Ev_Session_List int                            \<comment> \<open>the internal cache-status route\<close>

definition oauth_start :: oauth_flow where
  "oauth_start = \<lparr>of_state = \<lparr>os_clients = [], os_transactions = [], os_codes = [], os_tickets = [],
                              os_sessions = []\<rparr>,
                  of_waiting = [], of_registered = [], of_logins = [], of_issued = [], of_redeemed = []\<rparr>"

fun oauth_do :: "oauth_config \<Rightarrow> oauth_event \<Rightarrow> oauth_flow \<Rightarrow> oauth_flow" where
  "oauth_do cfg (Ev_Register ms uuid body) fl =
     (let st' = snd (oauth_register (oc_platform cfg) ms uuid body (of_state fl)) in
      fl\<lparr>of_state := st',
         of_registered := map snd (os_clients st') @ of_registered fl\<rparr>)"
| "oauth_do cfg (Ev_Authorize ms upstreamState verifier nonce q) fl =
     fl\<lparr>of_state := snd (oauth_authorize (oc_platform cfg) (oc_env cfg) ms upstreamState verifier nonce q
                           (of_state fl))\<rparr>"
| "oauth_do cfg (Ev_Callback ms q) fl =
     (let (start, st') = oauth_callback_start (oc_platform cfg) ms q (of_state fl) in
      fl\<lparr>of_state := st',
         of_waiting := (case start of Callback_Done r \<Rightarrow> of_waiting fl
                                    | Callback_Wait tr code \<Rightarrow> (tr, code) # of_waiting fl)\<rparr>)"
| "oauth_do cfg (Ev_Keycloak i ms gatewayCode response) fl =
     (if i < length (of_waiting fl)
      then let tr = fst (of_waiting fl ! i);
               done = keycloak_login (oc_env cfg) (oc_jwtVerify cfg) response tr
           in fl\<lparr>of_state := snd (oauth_callback_finish (oc_platform cfg) (oc_env cfg) (oc_jwtVerify cfg)
                                   ms gatewayCode response tr (of_state fl)),
                 of_waiting := take i (of_waiting fl) @ drop (Suc i) (of_waiting fl),
                 of_logins := (case done of Inl m \<Rightarrow> of_logins fl
                                          | Inr (idToken, ident) \<Rightarrow> (tr, idToken, ident) # of_logins fl),
                 of_issued := (case done of Inl m \<Rightarrow> of_issued fl
                                          | Inr l \<Rightarrow> gatewayCode # of_issued fl)\<rparr>
      else fl)"
| "oauth_do cfg (Ev_Token ms1 ms2 ms3 ref token body) fl =
     fl\<lparr>of_state := snd (oauth_token (oc_platform cfg) (oc_env cfg) (oc_tokenHash cfg)
                           ms1 ms2 ms3 ref token body (of_state fl)),
        of_redeemed := (case token_granted (oc_platform cfg) (now_seconds ms1) body (os_codes (of_state fl)) of
                          None \<Rightarrow> of_redeemed fl
                        | Some ac \<Rightarrow> the (body_value body ''code'') # of_redeemed fl)\<rparr>"
| "oauth_do cfg (Ev_Revoke body) fl =
     fl\<lparr>of_state := snd (oauth_revoke (oc_tokenHash cfg) body (of_state fl))\<rparr>"
| "oauth_do cfg (Ev_Logout_Ticket ms1 ms2 ticket body) fl =
     fl\<lparr>of_state := snd (oauth_idp_logout_ticket (oc_platform cfg) (oc_env cfg) (oc_tokenHash cfg)
                           ms1 ms2 ticket body (of_state fl))\<rparr>"
| "oauth_do cfg (Ev_Logout ms q) fl =
     fl\<lparr>of_state := snd (oauth_idp_logout (oc_platform cfg) (oc_env cfg) ms q (of_state fl))\<rparr>"
| "oauth_do cfg (Ev_Session_Read ms token) fl =
     fl\<lparr>of_state := (of_state fl)\<lparr>os_sessions :=
          snd (session_get (oc_tokenHash cfg) (now_seconds ms) token (os_sessions (of_state fl)))\<rparr>\<rparr>"
| "oauth_do cfg (Ev_Session_List ms) fl =
     fl\<lparr>of_state := (of_state fl)\<lparr>os_sessions :=
          snd (list_active (now_seconds ms) (os_sessions (of_state fl)))\<rparr>\<rparr>"

definition oauth_run :: "oauth_config \<Rightarrow> oauth_event list \<Rightarrow> oauth_flow" where
  "oauth_run cfg evs = fold (oauth_do cfg) evs oauth_start"

section \<open>Where everything in the stores comes from\<close>

definition client_ok :: "oauth_config \<Rightarrow> registered_client \<Rightarrow> bool" where
  "client_ok cfg c \<longleftrightarrow> list_all (is_allowed_redirect_uri (pf_parse_url (oc_platform cfg))) (rc_redirectUris c)"

definition transaction_from :: "registered_client list \<Rightarrow> authorization_transaction \<Rightarrow> bool" where
  "transaction_from registered tr \<longleftrightarrow>
     (\<exists>c \<in> set registered. rc_clientId c = at_clientId tr \<and> at_redirectUri tr \<in> set (rc_redirectUris c))
     \<and> at_clientCodeChallenge tr \<noteq> []"

text \<open>A login that Keycloak confirmed: the verified token carries the transaction's nonce.\<close>

definition login_confirmed :: "oauth_config \<Rightarrow> login \<Rightarrow> bool" where
  "login_confirmed cfg l \<longleftrightarrow>
     (case l of (tr, idToken, ident) \<Rightarrow>
        case oc_jwtVerify cfg idToken of
          Inl e \<Rightarrow> False
        | Inr payload \<Rightarrow>
            jp_nonce payload = Some (JStr (at_nonce tr)) \<and> jp_sub payload = Some (id_subject ident)
            \<and> id_subject ident \<noteq> [] \<and> jp_exp payload = Some (id_expiresAt ident))"

definition code_from :: "login list \<Rightarrow> authorization_code \<Rightarrow> bool" where
  "code_from logins ac \<longleftrightarrow>
     ac_expiresAt ac \<le> ac_identityExpiresAt ac \<and>
     (\<exists>(tr, idToken, ident) \<in> set logins.
        ac\<lparr>ac_expiresAt := 0\<rparr> = code_of_login tr idToken ident)"

definition session_from :: "login list \<Rightarrow> gateway_session \<Rightarrow> bool" where
  "session_from logins s \<longleftrightarrow>
     (\<exists>(tr, idToken, ident) \<in> set logins.
        gs_idToken s = idToken \<and> gs_idTokenExpiresAt s = id_expiresAt ident
        \<and> gs_subject s = id_subject ident \<and> gs_username s = id_username ident)"

definition ticket_from :: "login list \<Rightarrow> logout_ticket \<Rightarrow> bool" where
  "ticket_from logins t \<longleftrightarrow> (\<exists>(tr, idToken, ident) \<in> set logins. lt_idToken t = idToken)"

definition stores_ok :: "oauth_config \<Rightarrow> oauth_flow \<Rightarrow> bool" where
  "stores_ok cfg fl \<longleftrightarrow>
     list_all (client_ok cfg) (of_registered fl) \<and>
     entries (\<lambda>k c. k = rc_clientId c \<and> c \<in> set (of_registered fl)) (os_clients (of_state fl)) \<and>
     entries (\<lambda>k. transaction_from (of_registered fl)) (os_transactions (of_state fl)) \<and>
     list_all (\<lambda>(tr, c). transaction_from (of_registered fl) tr) (of_waiting fl) \<and>
     list_all (\<lambda>l. login_confirmed cfg l \<and> transaction_from (of_registered fl) (fst l)) (of_logins fl) \<and>
     entries (\<lambda>k. code_from (of_logins fl)) (os_codes (of_state fl)) \<and>
     entries (\<lambda>k. session_from (of_logins fl)) (os_sessions (of_state fl)) \<and>
     entries (\<lambda>k. ticket_from (of_logins fl)) (os_tickets (of_state fl))"

section \<open>Every event keeps the stores sound\<close>

lemma transaction_from_mono:
  "transaction_from r tr \<Longrightarrow> set r \<subseteq> set r' \<Longrightarrow> transaction_from r' tr"
  by (auto simp: transaction_from_def)

lemma from_more_logins:
  "code_from ls ac \<Longrightarrow> code_from (l # ls) ac"
  "session_from ls s \<Longrightarrow> session_from (l # ls) s"
  "ticket_from ls t \<Longrightarrow> ticket_from (l # ls) t"
  by (auto simp: code_from_def session_from_def ticket_from_def)

lemma requested_uris_ok:
  "\<not> list_ex (\<lambda>v. \<not> is_allowed_redirect_uri p v) us \<longleftrightarrow> list_all (is_allowed_redirect_uri p) us"
  by (simp add: list_ex_iff list_all_iff)

lemma transaction_of_request:
  assumes "stores_ok cfg fl"
    and "authorize_handler q (os_clients (of_state fl)) = Some (client, redirectUri, clientState, challenge)"
    and "at_clientId tr = rc_clientId client" "at_redirectUri tr = redirectUri"
      "at_clientCodeChallenge tr = challenge"
  shows "transaction_from (of_registered fl) tr"
proof -
  from authorize_request_Some [OF assms(2)] obtain k
    where k: "map_of (os_clients (of_state fl)) k = Some client" "redirectUri \<in> set (rc_redirectUris client)"
      "challenge \<noteq> []" by blast
  with entries_lookup [OF k(1)] assms(1) have "client \<in> set (of_registered fl)"
    unfolding stores_ok_def by fast
  with k assms(3-5) show ?thesis by (auto simp: transaction_from_def)
qed

lemma authorize_ok: "stores_ok cfg fl \<Longrightarrow> stores_ok cfg (oauth_do cfg (Ev_Authorize ms us v n q) fl)"
  using transaction_of_request [of cfg fl q]
  by (auto simp: oauth_authorize_def create_authorization_transaction_def Let_def
        split: option.splits prod.splits) (simp add: stores_ok_def entries_update)

lemma callback_ok: "stores_ok cfg fl \<Longrightarrow> stores_ok cfg (oauth_do cfg (Ev_Callback ms q) fl)"
  by (auto simp: stores_ok_def oauth_callback_start_def consume_authorization_transaction_def Let_def
        split: option.splits prod.splits if_splits dest: entries_lookup)

lemma revoke_ok: "stores_ok cfg fl \<Longrightarrow> stores_ok cfg (oauth_do cfg (Ev_Revoke body) fl)"
  by (auto simp: stores_ok_def oauth_revoke_def session_delete_def)

lemma logout_ok: "stores_ok cfg fl \<Longrightarrow> stores_ok cfg (oauth_do cfg (Ev_Logout ms q) fl)"
  by (auto simp: stores_ok_def oauth_idp_logout_def consume_logout_ticket_def Let_def
        split: option.splits if_splits prod.splits)

lemma session_read_ok: "stores_ok cfg fl \<Longrightarrow> stores_ok cfg (oauth_do cfg (Ev_Session_Read ms t) fl)"
  by (auto simp: stores_ok_def session_get_def Let_def split: option.splits)

lemma session_list_ok: "stores_ok cfg fl \<Longrightarrow> stores_ok cfg (oauth_do cfg (Ev_Session_List ms) fl)"
  by (auto simp: stores_ok_def list_active_eq Let_def)

lemma register_clients:
  assumes "entries (\<lambda>k c. k = rc_clientId c \<and> client_ok cfg c) (os_clients st)"
  obtains cs where "snd (oauth_register (oc_platform cfg) ms uuid body st) = st\<lparr>os_clients := cs\<rparr>"
    and "entries (\<lambda>k c. k = rc_clientId c \<and> client_ok cfg c) cs"
proof
  let ?cs = "os_clients (snd (oauth_register (oc_platform cfg) ms uuid body st))"
  show "snd (oauth_register (oc_platform cfg) ms uuid body st) = st\<lparr>os_clients := ?cs\<rparr>"
    by (simp add: oauth_register_def register_client_def Let_def)
  show "entries (\<lambda>k c. k = rc_clientId c \<and> client_ok cfg c) ?cs"
    using assms
    by (auto simp: oauth_register_def register_client_def Let_def client_ok_def requested_uris_ok
          intro!: entries_update)
qed

lemma register_ok:
  assumes ok: "stores_ok cfg fl"
  shows "stores_ok cfg (oauth_do cfg (Ev_Register ms uuid body) fl)"
proof -
  from ok have "entries (\<lambda>k c. k = rc_clientId c \<and> client_ok cfg c) (os_clients (of_state fl))"
    by (auto simp: stores_ok_def list_all_iff elim!: entries_mono)
  from register_clients [OF this] obtain cs where
    st: "snd (oauth_register (oc_platform cfg) ms uuid body (of_state fl)) = (of_state fl)\<lparr>os_clients := cs\<rparr>"
    and new: "entries (\<lambda>k c. k = rc_clientId c \<and> client_ok cfg c) cs" by blast
  have "entries (\<lambda>k c. k = rc_clientId c \<and> (c \<in> snd ` set cs \<or> c \<in> set (of_registered fl))) cs"
    using new by (force simp: entries_def)
  moreover have "list_all (client_ok cfg) (map snd cs)"
    using new by (auto simp: list_all_iff entries_def)
  moreover have "transaction_from (of_registered fl) tr \<Longrightarrow>
                 transaction_from (map snd cs @ of_registered fl) tr" for tr
    by (erule transaction_from_mono) simp
  ultimately show ?thesis using ok
    by (simp add: Let_def stores_ok_def st) (auto elim!: entries_mono list.pred_mono_strong)
qed

lemma keycloak_ok:
  assumes ok: "stores_ok cfg fl"
  shows "stores_ok cfg (oauth_do cfg (Ev_Keycloak i ms c r) fl)"
proof (cases "i < length (of_waiting fl)")
  case False
  with ok show ?thesis by simp
next
  case True
  obtain tr kc where w: "of_waiting fl ! i = (tr, kc)" by (cases "of_waiting fl ! i")
  have tr: "transaction_from (of_registered fl) tr"
    using ok True w by (auto simp: stores_ok_def list_all_length)
  have rest: "list_all (\<lambda>(tr, c). transaction_from (of_registered fl) tr)
                (take i (of_waiting fl) @ drop (Suc i) (of_waiting fl))"
    using ok by (auto simp: stores_ok_def list_all_iff dest!: in_set_takeD in_set_dropD)
  show ?thesis
  proof (cases "keycloak_login (oc_env cfg) (oc_jwtVerify cfg) r tr")
    case (Inl m)
    with ok True w rest show ?thesis by (simp add: stores_ok_def oauth_callback_finish_def)
  next
    case (Inr l)
    obtain idToken ident where l: "l = (idToken, ident)" by (cases l)
    let ?l = "(tr, idToken, ident)"
    let ?fl = "oauth_do cfg (Ev_Keycloak i ms c r) fl"
    have login: "login_confirmed cfg ?l"
      using Inr l by (auto simp: keycloak_login_Inr login_confirmed_def dest!: verify_keycloak_id_token_Inr)
    have code: "code_from (?l # of_logins fl) ((code_of_login tr idToken ident)
                  \<lparr>ac_expiresAt := min (ac_identityExpiresAt (code_of_login tr idToken ident)) e\<rparr>)" for e
      by (simp add: code_from_def code_of_login_def)
    have st: "of_state ?fl = (of_state fl)\<lparr>os_codes := snd (create_authorization_code
                (of_int (AUTHORIZATION_CODE_TTL_SECONDS (oc_env cfg))) (now_seconds ms) c
                (code_of_login tr idToken ident) (os_codes (of_state fl)))\<rparr>"
      using True w Inr l
      by (auto simp: oauth_callback_finish_def Let_def split: prod.splits sum.splits)
    have "of_logins ?fl = ?l # of_logins fl"
      "of_waiting ?fl = take i (of_waiting fl) @ drop (Suc i) (of_waiting fl)"
      "of_registered ?fl = of_registered fl"
      using True w Inr l by (simp_all add: Let_def)
    with ok st login tr rest code show ?thesis
      by (auto simp: stores_ok_def create_authorization_code_def from_more_logins
            elim!: entries_mono intro!: entries_update simp del: oauth_do.simps)
  qed
qed

lemma presented_code_from:
  "entries (\<lambda>k. code_from ls) codes \<Longrightarrow>
   entries (\<lambda>k. code_from ls) (snd (code_presented now body codes))"
  "entries (\<lambda>k. code_from ls) codes \<Longrightarrow> token_granted pf now body codes = Some ac \<Longrightarrow> code_from ls ac"
  using code_presented_sub [of now body codes]
  by (auto simp: token_granted_Some code_presented_def consume_authorization_code_def Let_def
        dest: entries_lookup split: option.splits if_splits)

lemma session_from_code: "code_from ls ac \<Longrightarrow> session_from ls (session_of_code ref e ac)"
proof -
  assume "code_from ls ac"
  then obtain tr idToken ident where l: "(tr, idToken, ident) \<in> set ls"
    and eq: "ac\<lparr>ac_expiresAt := 0\<rparr> = code_of_login tr idToken ident" by (auto simp: code_from_def)
  from arg_cong [OF eq, of ac_idToken] arg_cong [OF eq, of ac_identityExpiresAt]
    arg_cong [OF eq, of ac_subject] arg_cong [OF eq, of ac_username] l
  show ?thesis by (auto simp: session_from_def session_of_code_def code_of_login_def)
qed

lemma token_ok: "stores_ok cfg fl \<Longrightarrow> stores_ok cfg (oauth_do cfg (Ev_Token ms1 ms2 ms3 ref token body) fl)"
  by (auto simp: stores_ok_def oauth_token_cases Let_def session_create_Inr session_put_def
        split: option.splits sum.splits
        intro: presented_code_from intro!: entries_update session_from_code)

lemma logout_ticket_ok: "stores_ok cfg fl \<Longrightarrow> stores_ok cfg (oauth_do cfg (Ev_Logout_Ticket ms1 ms2 t body) fl)"
proof -
  have tk: "session_from ls s \<Longrightarrow> ticket_from ls \<lparr>lt_idToken = gs_idToken s, lt_expiresAt = e\<rparr>" for ls s e
    by (force simp: session_from_def ticket_from_def)
  assume "stores_ok cfg fl"
  then show ?thesis
    by (auto simp: stores_ok_def oauth_idp_logout_ticket_def session_consume_def create_logout_ticket_def
          purge_tickets_eq Let_def split: option.splits if_splits prod.splits
          intro!: entries_update entries_filter tk dest: entries_lookup)
qed

theorem oauth_run_ok: "stores_ok cfg (oauth_run cfg evs)"
proof -
  have step: "stores_ok cfg fl \<Longrightarrow> stores_ok cfg (oauth_do cfg ev fl)" for ev fl
    by (cases ev) (simp_all only: register_ok authorize_ok callback_ok keycloak_ok token_ok revoke_ok
        logout_ticket_ok logout_ok session_read_ok session_list_ok)
  have "stores_ok cfg fl \<Longrightarrow> stores_ok cfg (fold (oauth_do cfg) evs fl)" for fl
    by (induction evs arbitrary: fl) (simp_all add: step)
  moreover have "stores_ok cfg oauth_start" by (simp add: stores_ok_def oauth_start_def)
  ultimately show ?thesis by (simp add: oauth_run_def)
qed

section \<open>Codes are single use\<close>

definition codes_counted :: "oauth_flow \<Rightarrow> string \<Rightarrow> bool" where
  "codes_counted fl c \<longleftrightarrow>
     count_list (of_redeemed fl) c + (if map_of (os_codes (of_state fl)) c = None then 0 else 1)
     \<le> count_list (of_issued fl) c"

lemma codes_unchanged:
  "os_codes (snd (oauth_register pf ms uuid body st)) = os_codes st"
  "os_codes (snd (oauth_authorize pf env ms us v n q st)) = os_codes st"
  "os_codes (snd (oauth_callback_start pf ms q st)) = os_codes st"
  "os_codes (snd (oauth_revoke h body st)) = os_codes st"
  "os_codes (snd (oauth_idp_logout_ticket pf env h ms1 ms2 t body st)) = os_codes st"
  "os_codes (snd (oauth_idp_logout pf env ms q st)) = os_codes st"
  by (simp_all add: oauth_register_def oauth_authorize_def oauth_callback_start_def oauth_revoke_def
      oauth_idp_logout_ticket_def oauth_idp_logout_def register_client_def Let_def
      split: option.splits prod.splits)

lemma keycloak_counted:
  assumes "codes_counted fl c"
  shows "codes_counted (oauth_do cfg (Ev_Keycloak i ms code r) fl) c"
proof (cases "i < length (of_waiting fl)")
  case False
  with assms show ?thesis by simp
next
  case True
  with assms show ?thesis
    by (auto simp: codes_counted_def oauth_callback_finish_def create_authorization_code_def Let_def
          update_conv' split: sum.splits prod.splits if_splits)
qed

lemma presented_codes:
  "os_codes (snd (oauth_token pf env h ms1 ms2 ms3 ref tk body st))
     = snd (code_presented (now_seconds ms1) body (os_codes st))"
  by (simp add: oauth_token_cases Let_def split: option.splits sum.splits prod.splits)

lemma token_counted:
  assumes "codes_counted fl c"
  shows "codes_counted (oauth_do cfg (Ev_Token ms1 ms2 ms3 ref tk body) fl) c"
proof (cases "token_granted (oc_platform cfg) (now_seconds ms1) body (os_codes (of_state fl))")
  case None
  have "map_of (snd (code_presented (now_seconds ms1) body (os_codes (of_state fl)))) c \<noteq> None \<Longrightarrow>
        map_of (os_codes (of_state fl)) c \<noteq> None"
    using code_presented_sub [of "now_seconds ms1" body "os_codes (of_state fl)"]
    by (auto simp: delete_conv' split: if_splits)
  with None assms show ?thesis
    by (auto simp: codes_counted_def presented_codes split: if_splits)
next
  case (Some ac)
  then obtain k where k: "body_value body ''code'' = Some k"
    and ac: "code_presented (now_seconds ms1) body (os_codes (of_state fl)) =
               consume_authorization_code (now_seconds ms1) k (os_codes (of_state fl))"
    and v: "fst (consume_authorization_code (now_seconds ms1) k (os_codes (of_state fl))) = Some ac"
    by (auto simp: token_granted_Some code_presented_def split: option.splits if_splits)
  have "map_of (os_codes (of_state fl)) k \<noteq> None"
    using v by (auto simp: consume_authorization_code_def Let_def split: option.splits)
  moreover have "snd (consume_authorization_code (now_seconds ms1) k (os_codes (of_state fl)))
                   = AList.delete k (os_codes (of_state fl))"
    by (simp add: consume_authorization_code_def Let_def split: option.splits)
  ultimately show ?thesis using assms Some k ac
    by (auto simp: codes_counted_def presented_codes delete_conv' split: if_splits)
qed

lemma run_counted: "codes_counted (oauth_run cfg evs) c"
proof -
  have step: "codes_counted fl c \<Longrightarrow> codes_counted (oauth_do cfg ev fl) c" for fl ev
  proof (cases ev)
    case (Ev_Keycloak i ms code r)
    then show "codes_counted fl c \<Longrightarrow> ?thesis" using keycloak_counted by blast
  next
    case (Ev_Token ms1 ms2 ms3 ref tk body)
    then show "codes_counted fl c \<Longrightarrow> ?thesis" using token_counted by blast
  qed (simp_all add: codes_counted_def codes_unchanged Let_def split_beta)
  have "codes_counted fl c \<Longrightarrow> codes_counted (fold (oauth_do cfg) evs fl) c" for fl
    by (induction evs arbitrary: fl) (simp_all add: step)
  moreover have "codes_counted oauth_start c" by (simp add: codes_counted_def oauth_start_def)
  ultimately show ?thesis by (simp add: oauth_run_def)
qed

section \<open>The properties\<close>

text \<open>A configuration and a run for the witnesses: one client logs in and redeems its code.\<close>

definition sample_config :: oauth_config where
  "sample_config =
     \<lparr>oc_platform = sample_platform, oc_env = sample_env,
      oc_jwtVerify = (\<lambda>t. if t = ''idt'' then Inr \<lparr>jp_sub = Some ''ann'', jp_exp = Some 9000,
          jp_nonce = Some (JStr ''n''), jp_preferred_username = None\<rparr> else Inl (Other_Jose_Error ''bad'')),
      oc_tokenHash = (\<lambda>t. ''#'' @ t)\<rparr>"

definition sample_query :: "(string \<times> string) list \<Rightarrow> query" where
  "sample_query fs = (\<lambda>n. map_option JStr (map_of fs n))"

definition sample_events :: "oauth_event list" where
  "sample_events =
     [Ev_Register 0 ''u'' (Some (JObj [(''redirect_uris'', JArr [JStr ''https://app/cb''])])),
      Ev_Authorize 1000 ''us'' ''ver'' ''n'' (sample_query [(''client_id'', ''mcp-client-u''),
        (''redirect_uri'', ''https://app/cb''), (''response_type'', ''code''), (''state'', ''s''),
        (''code_challenge'', ''sha:v''), (''code_challenge_method'', ''S256'')]),
      Ev_Callback 2000 (sample_query [(''state'', ''us''), (''code'', ''kc-code'')]),
      Ev_Keycloak 0 3000 ''gc'' (Token_Json [(''id_token'', JStr ''idt'')]),
      Ev_Token 4000 4000 4000 7 ''tok'' (Some (JObj [(''code'', JStr ''gc''),
        (''grant_type'', JStr ''authorization_code''), (''client_id'', JStr ''mcp-client-u''),
        (''redirect_uri'', JStr ''https://app/cb''), (''code_verifier'', JStr ''v'')]))]"

lemma sample_run_session:
  "os_sessions (of_state (oauth_run sample_config sample_events)) =
     [(''#tok'', \<lparr>gs_ref = 7, gs_idToken = ''idt'', gs_idTokenExpiresAt = 9000, gs_subject = ''ann'',
                 gs_username = ''ann'', gs_expiresAt = 28804\<rparr>)]"
  by code_simp

text \<open>
  C1: every session the gateway holds, after any interleaving of requests and Keycloak answers,
  comes from a login that Keycloak confirmed: its ID token verified, carried the nonce of the
  login transaction, and names the session's subject and expiry; and that transaction was started
  for a redirect URI that its client had registered and that the redirect policy allows.
\<close>

theorem session_stems_from_confirmed_login:
  assumes "(k, s) \<in> set (os_sessions (of_state (oauth_run cfg evs)))"
  shows "\<exists>tr ident payload client.
     (tr, gs_idToken s, ident) \<in> set (of_logins (oauth_run cfg evs)) \<and>
     oc_jwtVerify cfg (gs_idToken s) = Inr payload \<and>
     jp_nonce payload = Some (JStr (at_nonce tr)) \<and>
     jp_sub payload = Some (gs_subject s) \<and> jp_exp payload = Some (gs_idTokenExpiresAt s) \<and>
     client \<in> set (of_registered (oauth_run cfg evs)) \<and> rc_clientId client = at_clientId tr \<and>
     at_redirectUri tr \<in> set (rc_redirectUris client) \<and>
     is_allowed_redirect_uri (pf_parse_url (oc_platform cfg)) (at_redirectUri tr)"
proof -
  let ?fl = "oauth_run cfg evs"
  note ok = oauth_run_ok [of cfg evs, unfolded stores_ok_def]
  from ok assms have "session_from (of_logins ?fl) s" by (auto simp: entries_def)
  then obtain tr ident where l: "(tr, gs_idToken s, ident) \<in> set (of_logins ?fl)"
    and id: "gs_idTokenExpiresAt s = id_expiresAt ident" "gs_subject s = id_subject ident"
    by (auto simp: session_from_def)
  from ok l have c: "login_confirmed cfg (tr, gs_idToken s, ident)" "transaction_from (of_registered ?fl) tr"
    by (auto simp: list_all_iff)
  from c(2) ok obtain client where "client \<in> set (of_registered ?fl)" "client_ok cfg client"
    "rc_clientId client = at_clientId tr" "at_redirectUri tr \<in> set (rc_redirectUris client)"
    by (auto simp: transaction_from_def list_all_iff)
  with l id c(1) show ?thesis
    by (auto simp: login_confirmed_def client_ok_def list_all_iff split: sum.splits)
qed

theorem session_stems_from_confirmed_login_witness:
  "\<exists>tr ident payload. (tr, ''idt'', ident) \<in> set (of_logins (oauth_run sample_config sample_events)) \<and>
     oc_jwtVerify sample_config ''idt'' = Inr payload \<and> jp_nonce payload = Some (JStr (at_nonce tr)) \<and>
     jp_sub payload = Some ''ann''"
  using session_stems_from_confirmed_login [of "''#tok''" _ sample_config sample_events,
      unfolded sample_run_session, OF list.set_intros(1)]
  by auto

text \<open>
  C2: an authorization code opens at most as many sessions as it was issued, in every run: a
  redeemed code is gone, also when a later check of the token request fails.
\<close>

theorem code_redeemed_at_most_as_issued:
  "count_list (of_redeemed (oauth_run cfg evs)) code \<le> count_list (of_issued (oauth_run cfg evs)) code"
  using run_counted [of cfg evs code] by (auto simp: codes_counted_def split: if_splits)

text \<open>
  C3: the token route answers 200 exactly when the code is stored and has not expired, the grant
  type, client and redirect URI are the ones of the login, the verifier hashes to the client's
  challenge, and neither the identity nor the new session has expired already.
\<close>

theorem token_route_grants_iff:
  "(\<exists>r st'. oauth_token pf env h ms1 ms2 ms3 ref token body st = (Inr r, st') \<and> rp_status r = 200) \<longleftrightarrow>
   (\<exists>code ac verifier.
      body_value body ''code'' = Some code \<and> code \<noteq> [] \<and> map_of (os_codes st) code = Some ac \<and>
      now_seconds ms1 < ac_expiresAt ac \<and>
      body_value body ''grant_type'' = Some ''authorization_code'' \<and>
      body_value body ''client_id'' = Some (ac_clientId ac) \<and>
      body_value body ''redirect_uri'' = Some (ac_redirectUri ac) \<and>
      body_value body ''code_verifier'' = Some verifier \<and> verifier \<noteq> [] \<and>
      pf_sha256 pf verifier = ac_clientCodeChallenge ac \<and>
      now_seconds ms3 < ac_identityExpiresAt ac \<and>
      now_seconds ms3 < now_seconds ms2 + of_int (GATEWAY_SESSION_TTL_SECONDS env))"
  (is "?granted \<longleftrightarrow> ?checks")
proof -
  have "?granted \<longleftrightarrow> (\<exists>ac. token_granted pf (now_seconds ms1) body (os_codes st) = Some ac \<and>
      now_seconds ms3 < ac_identityExpiresAt ac \<and>
      now_seconds ms3 < now_seconds ms2 + of_int (GATEWAY_SESSION_TTL_SECONDS env))"
    by (auto simp: oauth_token_cases Let_def session_create_def session_of_code_def
        split: option.splits sum.splits prod.splits)
  also have "\<dots> \<longleftrightarrow> ?checks"
    by (auto simp: token_granted_Some code_presented_def consume_authorization_code_def
        code_grant_valid_def verify_s256_code_challenge_def Let_def split: option.splits if_splits)
  finally show ?thesis .
qed

text \<open>The steps of one login, each read off the route that performs it.\<close>

lemma authorize_stores:
  assumes "authorize_handler q (os_clients st) = Some (client, redirectUri, clientState, challenge)"
  shows "snd (oauth_authorize pf env ms us v n q st) = st\<lparr>os_transactions := AList.update us
     \<lparr>at_clientId = rc_clientId client, at_clientState = clientState, at_redirectUri = redirectUri,
      at_clientCodeChallenge = challenge, at_keycloakCodeVerifier = v, at_nonce = n,
      at_expiresAt = now_seconds ms + of_int (AUTHORIZATION_TRANSACTION_TTL_SECONDS env)\<rparr> (os_transactions st)\<rparr>"
  using assms by (simp add: oauth_authorize_def create_authorization_transaction_def Let_def)

lemma callback_waits:
  assumes "map_of (os_transactions st) us = Some tr" "now_seconds ms < at_expiresAt tr"
    and "query_value q ''state'' = Some us" "us \<noteq> []" "\<not> truthy (query_value q ''error'')"
    and "query_value q ''code'' = Some kc" "kc \<noteq> []"
  shows "oauth_callback_start pf ms q st =
           (Callback_Wait tr kc, st\<lparr>os_transactions := AList.delete us (os_transactions st)\<rparr>)"
  using assms by (simp add: oauth_callback_start_def consume_authorization_transaction_def Let_def)

lemma keycloak_issues:
  assumes "keycloak_login env jwtVerify response tr = Inr (idToken, ident)"
  shows "snd (oauth_callback_finish pf env jwtVerify ms code response tr st) =
     st\<lparr>os_codes := AList.update code ((code_of_login tr idToken ident)\<lparr>ac_expiresAt :=
        min (id_expiresAt ident) (now_seconds ms + of_int (AUTHORIZATION_CODE_TTL_SECONDS env))\<rparr>) (os_codes st)\<rparr>"
  using assms
  by (simp add: oauth_callback_finish_def create_authorization_code_def code_of_login_def Let_def split: sum.splits)

lemma token_opens_session:
  assumes "token_granted pf (now_seconds ms1) body (os_codes st) = Some ac"
    and "now_seconds ms3 < ac_identityExpiresAt ac"
    and "now_seconds ms3 < now_seconds ms2 + of_int (GATEWAY_SESSION_TTL_SECONDS env)"
  shows "os_sessions (snd (oauth_token pf env h ms1 ms2 ms3 ref token body st)) =
     AList.update (h token) (session_of_code ref
       (now_seconds ms2 + of_int (GATEWAY_SESSION_TTL_SECONDS env)) ac) (os_sessions st)"
  using assms by (simp add: oauth_token_cases session_create_def session_of_code_def Let_def)

text \<open>
  C4: a login that follows the protocol in time succeeds: from a registered client and redirect
  URI, through the callback and Keycloak's verified answer with the transaction's nonce, to the
  redeemed code, and the session then read with the token is the one of the verified subject.
\<close>

theorem login_completes:
  fixes cfg fl
  defines "env \<equiv> oc_env cfg" and "st \<equiv> of_state fl"
  assumes client: "authorize_handler q1 (os_clients st) = Some (client, redirectUri, clientState, challenge)"
    and callback: "query_value q2 ''state'' = Some us" "us \<noteq> []" "\<not> truthy (query_value q2 ''error'')"
      "query_value q2 ''code'' = Some kc" "kc \<noteq> []"
    and keycloak: "keycloak_exchange_result response = Inr idToken"
      "verify_keycloak_id_token env (oc_jwtVerify cfg) idToken n = Inr ident"
    and token: "body_value body ''code'' = Some code" "code \<noteq> []"
      "body_value body ''grant_type'' = Some ''authorization_code''"
      "body_value body ''client_id'' = Some (rc_clientId client)"
      "body_value body ''redirect_uri'' = Some redirectUri"
      "body_value body ''code_verifier'' = Some verifier" "verifier \<noteq> []"
      "pf_sha256 (oc_platform cfg) verifier = challenge"
    and times: "now_seconds ms2 < now_seconds ms1 + of_int (AUTHORIZATION_TRANSACTION_TTL_SECONDS env)"
      "now_seconds ms4 < id_expiresAt ident"
      "now_seconds ms4 < now_seconds ms3 + of_int (AUTHORIZATION_CODE_TTL_SECONDS env)"
      "now_seconds ms6 < id_expiresAt ident"
      "now_seconds ms6 < now_seconds ms5 + of_int (GATEWAY_SESSION_TTL_SECONDS env)"
      "now_seconds ms7 < now_seconds ms5 + of_int (GATEWAY_SESSION_TTL_SECONDS env)"
  shows "\<exists>s. fst (session_get (oc_tokenHash cfg) (now_seconds ms7) tk (os_sessions (of_state
      (fold (oauth_do cfg) [Ev_Authorize ms1 us v n q1, Ev_Callback ms2 q2, Ev_Keycloak 0 ms3 code response,
         Ev_Token ms4 ms5 ms6 ref tk body] fl)))) = Some s \<and>
    gs_subject s = id_subject ident \<and> gs_idToken s = idToken \<and> gs_idTokenExpiresAt s = id_expiresAt ident"
proof -
  define tr where "tr = \<lparr>at_clientId = rc_clientId client, at_clientState = clientState,
      at_redirectUri = redirectUri, at_clientCodeChallenge = challenge, at_keycloakCodeVerifier = v,
      at_nonce = n, at_expiresAt = now_seconds ms1 + of_int (AUTHORIZATION_TRANSACTION_TTL_SECONDS env)\<rparr>"
  define ac where "ac = (code_of_login tr idToken ident)\<lparr>ac_expiresAt :=
      min (id_expiresAt ident) (now_seconds ms3 + of_int (AUTHORIZATION_CODE_TTL_SECONDS env))\<rparr>"
  define st1 where "st1 = st\<lparr>os_transactions := AList.update us tr (os_transactions st)\<rparr>"
  define st2 where "st2 = st1\<lparr>os_transactions := AList.delete us (os_transactions st1)\<rparr>"
  define st3 where "st3 = st2\<lparr>os_codes := AList.update code ac (os_codes st2)\<rparr>"
  have 1: "snd (oauth_authorize (oc_platform cfg) env ms1 us v n q1 st) = st1"
    using authorize_stores [OF client] by (simp add: st1_def tr_def)
  have 2: "oauth_callback_start (oc_platform cfg) ms2 q2 st1 = (Callback_Wait tr kc, st2)"
    using callback_waits [of st1 us tr ms2 q2 kc] callback times(1)
    by (simp add: st1_def st2_def tr_def update_conv')
  have login: "keycloak_login env (oc_jwtVerify cfg) response tr = Inr (idToken, ident)"
    using keycloak by (simp add: keycloak_login_Inr tr_def)
  have 3: "snd (oauth_callback_finish (oc_platform cfg) env (oc_jwtVerify cfg) ms3 code response tr st2) = st3"
    using keycloak_issues [OF login] by (simp add: st3_def ac_def)
  have granted: "token_granted (oc_platform cfg) (now_seconds ms4) body (os_codes st3) = Some ac"
    using token times(2,3)
    by (simp add: token_granted_Some code_presented_def consume_authorization_code_def code_grant_valid_def
        verify_s256_code_challenge_def st3_def ac_def tr_def code_of_login_def update_conv' Let_def)
  have 4: "os_sessions (snd (oauth_token (oc_platform cfg) env (oc_tokenHash cfg) ms4 ms5 ms6 ref tk body st3)) =
      AList.update (oc_tokenHash cfg tk) (session_of_code ref
        (now_seconds ms5 + of_int (GATEWAY_SESSION_TTL_SECONDS env)) ac) (os_sessions st3)"
    using times(4,5) by (intro token_opens_session [OF granted]) (simp_all add: ac_def code_of_login_def)
  show ?thesis
    using 1 2 3 4 times(6) unfolding env_def st_def
    by (simp add: Let_def session_get_def update_conv' session_of_code_def ac_def code_of_login_def)
qed

text \<open>The sample login as the parameters of the theorem.\<close>

definition sample_authorize_query :: query where
  "sample_authorize_query = sample_query [(''client_id'', ''mcp-client-u''),
     (''redirect_uri'', ''https://app/cb''), (''response_type'', ''code''), (''state'', ''s''),
     (''code_challenge'', ''sha:v''), (''code_challenge_method'', ''S256'')]"

definition sample_callback_query :: query where
  "sample_callback_query = sample_query [(''state'', ''us''), (''code'', ''kc-code'')]"

definition sample_token_body :: unknown where
  "sample_token_body = Some (JObj [(''code'', JStr ''gc''), (''grant_type'', JStr ''authorization_code''),
     (''client_id'', JStr ''mcp-client-u''), (''redirect_uri'', JStr ''https://app/cb''),
     (''code_verifier'', JStr ''v'')])"

definition sample_registered :: oauth_flow where
  "sample_registered = oauth_run sample_config [Ev_Register 0 ''u''
     (Some (JObj [(''redirect_uris'', JArr [JStr ''https://app/cb''])]))]"

definition sample_identity :: identity where
  "sample_identity = \<lparr>id_subject = ''ann'', id_username = ''ann'', id_expiresAt = 9000\<rparr>"

theorem login_completes_witness:
  "\<exists>s. fst (session_get (oc_tokenHash sample_config) (now_seconds 5000) ''tok'' (os_sessions (of_state
      (fold (oauth_do sample_config) [Ev_Authorize 1000 ''us'' ''ver'' ''n'' sample_authorize_query,
         Ev_Callback 2000 sample_callback_query,
         Ev_Keycloak 0 3000 ''gc'' (Token_Json [(''id_token'', JStr ''idt'')]),
         Ev_Token 4000 4000 4000 7 ''tok'' sample_token_body] sample_registered)))) = Some s \<and>
    gs_subject s = id_subject sample_identity \<and> gs_idToken s = ''idt'' \<and>
    gs_idTokenExpiresAt s = id_expiresAt sample_identity"
  by (rule login_completes [where client = "\<lparr>rc_clientId = ''mcp-client-u'', rc_redirectUris = [''https://app/cb'']\<rparr>"
        and redirectUri = "''https://app/cb''" and clientState = "''s''" and challenge = "''sha:v''"
        and kc = "''kc-code''" and verifier = "''v''"]; code_simp)

text \<open>
  Signing out. A session that is alive is revoked by the logout-ticket route; the ticket it
  hands over redirects exactly one browser to the end-session endpoint, with the session's ID
  token as hint, and a second use of the ticket is refused.
\<close>

theorem logout_ticket_is_single_use:
  fixes pf env h st
  assumes session: "body_value body ''token'' = Some token" "token \<noteq> []"
      "fst (session_get h (now_seconds ms1) token (os_sessions st)) = Some s" "gs_idToken s \<noteq> []"
    and urls: "pf_parse_url pf (PUBLIC_BASE_URL env @ ''/oauth/idp-logout'') = Some u"
      "pf_parse_url pf (KEYCLOAK_END_SESSION_ENDPOINT env) = Some v"
    and ticket: "query_value q ''ticket'' = Some ticket" "ticket \<noteq> []"
    and time: "now_seconds ms3 < now_seconds ms2 + of_int (IDP_LOGOUT_TICKET_TTL_SECONDS env)"
  shows "let (r1, st1) = oauth_idp_logout_ticket pf env h ms1 ms2 ticket body st;
             (r2, st2) = oauth_idp_logout pf env ms3 q st1;
             (r3, st3) = oauth_idp_logout pf env ms4 q st2
         in fst (session_get h t token (os_sessions st1)) = None \<and>
            r1 = Inr (reply_json 200 [no_store, (''pragma'', ''no-cache'')] (JObj
                   [(''logout_url'', JStr (pf_url_string pf (pf_set_param pf u ''ticket'' ticket)))])) \<and>
            r2 = Inr (reply_redirect [no_store] (pf_url_string pf
                   (pf_set_param pf (pf_set_param pf (pf_set_param pf v ''id_token_hint'' (gs_idToken s))
                      ''client_id'' (KEYCLOAK_CLIENT_ID env))
                      ''post_logout_redirect_uri'' (KEYCLOAK_POST_LOGOUT_REDIRECT_URI env)))) \<and>
            r3 = Inr (reply_text 400 [no_store] ''Invalid or expired identity-provider logout ticket'')"
proof -
  have s: "map_of (os_sessions st) (h token) = Some s" "now_seconds ms1 < gs_expiresAt s"
    using session(3) by (auto simp: session_get_def Let_def split: option.splits if_splits)
  with session urls ticket time show ?thesis
    by (simp add: oauth_idp_logout_ticket_def oauth_idp_logout_def session_consume_def
        create_logout_ticket_def consume_logout_ticket_def session_get_def update_conv' delete_conv' Let_def)
qed

definition sample_logout_body :: unknown where
  "sample_logout_body = Some (JObj [(''token'', JStr ''tok'')])"

definition sample_logout_query :: query where
  "sample_logout_query = sample_query [(''ticket'', ''tk'')]"

theorem logout_ticket_is_single_use_witness:
  "let (r1, st1) = oauth_idp_logout_ticket sample_platform sample_env (oc_tokenHash sample_config)
                     5000 5000 ''tk'' sample_logout_body (of_state (oauth_run sample_config sample_events));
       (r2, st2) = oauth_idp_logout sample_platform sample_env 6000 sample_logout_query st1;
       (r3, st3) = oauth_idp_logout sample_platform sample_env 7000 sample_logout_query st2
   in fst (session_get (oc_tokenHash sample_config) 6 ''tok'' (os_sessions st1)) = None \<and>
      r1 = Inr (reply_json 200 [no_store, (''pragma'', ''no-cache'')] (JObj
             [(''logout_url'', JStr (pf_url_string sample_platform (pf_set_param sample_platform
                (the (sample_parse ''https://gw/oauth/idp-logout'')) ''ticket'' ''tk'')))])) \<and>
      r2 = Inr (reply_redirect [no_store] (pf_url_string sample_platform
             (pf_set_param sample_platform (pf_set_param sample_platform (pf_set_param sample_platform
                (the (sample_parse ''https://kc/logout'')) ''id_token_hint'' (gs_idToken sample_session))
                ''client_id'' (KEYCLOAK_CLIENT_ID sample_env))
                ''post_logout_redirect_uri'' (KEYCLOAK_POST_LOGOUT_REDIRECT_URI sample_env)))) \<and>
      r3 = Inr (reply_text 400 [no_store] ''Invalid or expired identity-provider logout ticket'')"
  by (rule logout_ticket_is_single_use; code_simp)

end
