(* ===== verification/Gateway_Athenz_Scopes.thy ===== *)
theory Gateway_Athenz_Scopes
  imports Gateway_Session_Store "HOL-Library.Multiset"
begin

text \<open>
  The pure part of \<^verbatim>\<open>mcp-gateway/src/services/athenz.ts\<close>: scopes, audiences, the checks on
  a granted token and the classification of failures. The two error fields of an answer are
  strings or absent, as the source declares them; its other fields are any JSON. \<^verbatim>\<open>decodeJwt\<close> (of \<^verbatim>\<open>jose\<close>) is an argument that gives
  the claims of a token or the reason why it cannot be decoded.
\<close>

type_synonym claims = "(string \<times> json) list"

datatype athenz_error =
    Reauthentication_Required string
  | Insufficient_Scope "string list" "string list" string   \<comment> \<open>requested, granted, token name\<close>
  | Athenz_Error string

record token_response =
  tr_access_token :: unknown
  tr_expires_in :: unknown
  tr_scope :: unknown
  tr_error :: "string option"
  tr_error_description :: "string option"

record token_grant =
  tg_token :: string
  tg_audiences :: "string list"
  tg_scopes :: "string list"
  tg_expiresAtMs :: rat

text \<open>\<^verbatim>\<open>TOKEN_EXPIRY_SKEW_MS\<close>\<close>

definition token_expiry_skew_ms :: rat where
  "token_expiry_skew_ms = 60000"

definition role_marker :: string where
  "role_marker = '':role.''"

section \<open>Scopes and audiences\<close>

definition scope_values :: "string \<Rightarrow> string list" where
  "scope_values scope = canonical (words (trim scope))"

definition normalize_scope :: "string \<Rightarrow> (athenz_error, string) result" where
  "normalize_scope scope =
     (let values = scope_values scope in
      if values = [] then Inl (Athenz_Error ''An Athenz scope is required for MCP forwarding'')
      else Inr (join '' '' values))"

text \<open>The domain of a fully qualified scope, and the exception for anything else.\<close>

definition qualified_domain :: "string \<Rightarrow> (athenz_error, string) result" where
  "qualified_domain scope =
     (case index_of role_marker scope of
        None \<Rightarrow> Inl (Athenz_Error (''Athenz scope must be fully qualified as <domain>:role.<role>: '' @ scope))
      | Some i \<Rightarrow>
          if i = 0 \<or> i + length role_marker = length scope
          then Inl (Athenz_Error (''Athenz scope must be fully qualified as <domain>:role.<role>: '' @ scope))
          else Inr (take i scope))"

text \<open>The domain of a scope that may be missing or empty.\<close>

definition scope_domain :: "string option \<Rightarrow> (athenz_error, string option) result" where
  "scope_domain scope =
     (case scope of
        None \<Rightarrow> Inr None
      | Some s \<Rightarrow> if s = [] then Inr None else ebind (qualified_domain s) (\<lambda>d. Inr (Some d)))"

definition requested_audiences :: "string list \<Rightarrow> (athenz_error, string list) result" where
  "requested_audiences scopes = ebind (emap qualified_domain scopes) (\<lambda>ds. Inr (canonical ds))"

definition access_token_audience :: "string \<Rightarrow> string option \<Rightarrow> (athenz_error, string) result" where
  "access_token_audience scope configuredAudience =
     ebind (requested_audiences (scope_values scope)) (\<lambda>requestedDomains.
     ebind (case configuredAudience of
              None \<Rightarrow> scope_domain (Some (hd (split_ws (trim scope))))
            | Some a \<Rightarrow> if trim a \<noteq> [] then Inr (Some (trim a))
                        else scope_domain (Some (hd (split_ws (trim scope))))) (\<lambda>audience.
     case audience of
       None \<Rightarrow> Inl (Athenz_Error ''Athenz access-token audience must match one of the requested scope domains'')
     | Some a \<Rightarrow>
         if a = [] \<or> a \<notin> set requestedDomains
         then Inl (Athenz_Error ''Athenz access-token audience must match one of the requested scope domains'')
         else Inr a))"

definition role_name :: "string \<Rightarrow> string option" where
  "role_name scope =
     (case index_of role_marker scope of None \<Rightarrow> None | Some i \<Rightarrow> Some (drop (i + length role_marker) scope))"

definition equivalent_scope :: "string \<Rightarrow> string \<Rightarrow> bool" where
  "equivalent_scope l r \<longleftrightarrow> l = r \<or> role_name l = Some r \<or> role_name r = Some l"

text \<open>\<^verbatim>\<open>findIndex\<close> and \<^verbatim>\<open>splice(match, 1)\<close>: the list without its first match.\<close>

fun without_first :: "('a \<Rightarrow> bool) \<Rightarrow> 'a list \<Rightarrow> 'a list option" where
  "without_first P [] = None"
| "without_first P (x # xs) = (if P x then Some xs else map_option ((#) x) (without_first P xs))"

fun scopes_cover :: "string list \<Rightarrow> string list \<Rightarrow> bool" where
  "scopes_cover available [] = True"
| "scopes_cover available (scope # requested) =
     (case without_first (\<lambda>candidate. equivalent_scope candidate scope) available of
        None \<Rightarrow> False
      | Some rest \<Rightarrow> scopes_cover rest requested)"

definition scopes_exactly_match :: "string list \<Rightarrow> string list \<Rightarrow> bool" where
  "scopes_exactly_match l r \<longleftrightarrow> length l = length r \<and> scopes_cover l r"

definition audiences_exactly_match :: "string list \<Rightarrow> string list \<Rightarrow> bool" where
  "audiences_exactly_match l r \<longleftrightarrow> length l = length r \<and> list_all2 (=) l r"

text \<open>\<^verbatim>\<open>JSON.stringify([audiences, scopes])\<close>\<close>

definition cache_key :: "string list \<Rightarrow> string list \<Rightarrow> string" where
  "cache_key audiences scopes = ''['' @ json_strings audiences @ '','' @ json_strings scopes @ '']''"

section \<open>The grant in a token\<close>

definition js_truthy :: "unknown \<Rightarrow> bool" where
  "js_truthy v \<longleftrightarrow>
     (case v of
        None \<Rightarrow> False | Some JNull \<Rightarrow> False | Some (JBool b) \<Rightarrow> b | Some (JStr s) \<Rightarrow> s \<noteq> []
      | Some (JNum q) \<Rightarrow> q \<noteq> Finite 0 \<and> q \<noteq> Not_A_Number
      | Some (JArr vs) \<Rightarrow> True | Some (JObj fs) \<Rightarrow> True)"

definition require_access_token :: "token_response \<Rightarrow> string \<Rightarrow> (athenz_error, json) result" where
  "require_access_token response tokenName =
     (if js_truthy (tr_access_token response) then Inr (the (tr_access_token response))
      else Inl (Athenz_Error (''Failed to obtain '' @ tokenName @ '': '' @
          (case tr_error_description response of Some d \<Rightarrow> d
           | None \<Rightarrow> (case tr_error response of Some e \<Rightarrow> e
                      | None \<Rightarrow> ''ZTS returned no access_token'')))))"

definition decode_claims ::
  "(string \<Rightarrow> (string, claims) result) \<Rightarrow> json \<Rightarrow> string \<Rightarrow> (athenz_error, string \<times> claims) result" where
  "decode_claims decodeJwt token tokenName =
     (case token of
        JStr t \<Rightarrow> (case decodeJwt t of
            Inl m \<Rightarrow> Inl (Athenz_Error (''Failed to decode '' @ tokenName @ '': '' @ m))
          | Inr cs \<Rightarrow> Inr (t, cs))
      | _ \<Rightarrow> Inl (Athenz_Error (''Failed to decode '' @ tokenName
                    @ '': JWTs must use Compact JWS serialization, JWT must be a string'')))"

text \<open>The scopes of one claim: a string or an array of strings, and none for anything else.\<close>

definition granted_scope_claim :: "unknown \<Rightarrow> string list" where
  "granted_scope_claim v =
     (case v of
        Some (JStr s) \<Rightarrow> scope_values s
      | Some (JArr vs) \<Rightarrow> (case all_strings vs of None \<Rightarrow> [] | Some ss \<Rightarrow> scope_values (join '' '' ss))
      | _ \<Rightarrow> [])"

definition token_scopes :: "claims \<Rightarrow> string \<Rightarrow> (athenz_error, string list) result" where
  "token_scopes claims tokenName =
     (if granted_scope_claim (map_of claims ''scp'') \<noteq> [] then Inr (granted_scope_claim (map_of claims ''scp''))
      else if granted_scope_claim (map_of claims ''scope'') \<noteq> [] then Inr (granted_scope_claim (map_of claims ''scope''))
      else Inl (Athenz_Error (tokenName @ '' does not contain valid scp or scope claims'')))"

definition token_audiences :: "unknown \<Rightarrow> string \<Rightarrow> bool \<Rightarrow> (athenz_error, string list) result" where
  "token_audiences v tokenName required =
     (let normalized = canonical (filter (\<lambda>a. a \<noteq> []) (map trim (string_or_strings v))) in
      if required \<and> normalized = []
      then Inl (Athenz_Error (tokenName @ '' does not contain a valid aud claim''))
      else Inr normalized)"

definition valid_expires_in :: "unknown \<Rightarrow> string \<Rightarrow> (athenz_error, rat option) result" where
  "valid_expires_in v tokenName =
     (if v = None then Inr None
      else case as_finite v of
        None \<Rightarrow> Inl (Athenz_Error (tokenName @ '' response contains an invalid expires_in''))
      | Some q \<Rightarrow> if q \<le> 0 then Inl (Athenz_Error (tokenName @ '' response contains an invalid expires_in''))
                  else Inr (Some q))"

text \<open>\<^verbatim>\<open>response.scope\<close>, when there is one, must name the scopes of the token.\<close>

definition check_response_scope :: "unknown \<Rightarrow> string list \<Rightarrow> string \<Rightarrow> (athenz_error, unit) result" where
  "check_response_scope v scopes tokenName =
     (case v of
        None \<Rightarrow> Inr ()
      | Some (JStr s) \<Rightarrow> require (scopes_exactly_match scopes (scope_values s))
          (Athenz_Error (tokenName @ '' response scope does not match the token's granted scope''))
      | Some _ \<Rightarrow> Inl (Athenz_Error ''scope.trim is not a function''))"

definition claim_expiry :: "claims \<Rightarrow> string \<Rightarrow> (athenz_error, rat) result" where
  "claim_expiry cs tokenName =
     (case as_finite (map_of cs ''exp'') of
        None \<Rightarrow> Inl (Athenz_Error (tokenName @ '' does not contain a valid exp claim''))
      | Some e \<Rightarrow> Inr e)"

text \<open>\<^verbatim>\<open>Math.min(claims.exp * 1000, responseExpiresAt, sessionExpiresAt * 1000)\<close>\<close>

definition grant_expires_at :: "rat \<Rightarrow> rat \<Rightarrow> rat \<Rightarrow> rat option \<Rightarrow> rat" where
  "grant_expires_at now sessionExpiresAt expiry expiresIn =
     (let own = min (expiry * 1000) (sessionExpiresAt * 1000)
      in case expiresIn of None \<Rightarrow> own | Some n \<Rightarrow> min own (now + n * 1000))"

definition read_token_grant ::
  "(string \<Rightarrow> (string, claims) result) \<Rightarrow> token_response \<Rightarrow> string \<Rightarrow> rat \<Rightarrow> rat \<Rightarrow> bool
   \<Rightarrow> (athenz_error, token_grant) result" where
  "read_token_grant decodeJwt response tokenName now sessionExpiresAt requireAudience =
     ebind (require_access_token response tokenName) (\<lambda>accessToken.
     ebind (decode_claims decodeJwt accessToken tokenName) (\<lambda>(token, claims).
     ebind (token_scopes claims tokenName) (\<lambda>scopes.
     ebind (check_response_scope (tr_scope response) scopes tokenName) (\<lambda>_.
     ebind (token_audiences (map_of claims ''aud'') tokenName requireAudience) (\<lambda>audiences.
     ebind (claim_expiry claims tokenName) (\<lambda>expiry.
     ebind (valid_expires_in (tr_expires_in response) tokenName) (\<lambda>expiresIn.
     let expiresAtMs = grant_expires_at now sessionExpiresAt expiry expiresIn
     in if expiresAtMs \<le> now + token_expiry_skew_ms
        then Inl (Athenz_Error (tokenName @ '' is expired or too close to expiry''))
        else Inr \<lparr>tg_token = token, tg_audiences = audiences, tg_scopes = scopes,
                  tg_expiresAtMs = expiresAtMs\<rparr>)))))))"

section \<open>Failures of the identity token\<close>

fun tails :: "'a list \<Rightarrow> 'a list list" where
  "tails [] = [[]]"
| "tails (x # xs) = (x # xs) # tails xs"

text \<open>\<^verbatim>\<open>.\<close> does not match a line end.\<close>

definition this_line :: "string \<Rightarrow> string" where
  "this_line s = takeWhile (\<lambda>c. c \<noteq> CHR 0x0A \<and> c \<noteq> CHR 0x0D) s"

text \<open>\<^verbatim>\<open>(?:id|subject)[-_ ]?token\<close> at the start, and what follows it.\<close>

definition after_token_name :: "string \<Rightarrow> string option" where
  "after_token_name s =
     (case (if starts_with ''id'' s then Some (drop 2 s)
            else if starts_with ''subject'' s then Some (drop 7 s) else None) of
        None \<Rightarrow> None
      | Some r \<Rightarrow>
          let t = (case r of [] \<Rightarrow> [] | c # cs \<Rightarrow> if c \<in> set ''-_ '' then cs else r)
          in if starts_with ''token'' t then Some (drop 5 t) else None)"

definition starts_bad :: "string \<Rightarrow> bool" where
  "starts_bad s \<longleftrightarrow> starts_with ''expired'' s \<or> starts_with ''invalid'' s"

definition blames_identity_token :: "string \<Rightarrow> bool" where
  "blames_identity_token message =
     (let s = to_lower message in
      list_ex (\<lambda>t. case after_token_name t of None \<Rightarrow> False
                 | Some r \<Rightarrow> list_ex starts_bad (tails (this_line r))) (tails s)
      \<or> list_ex (\<lambda>t. starts_bad t \<and>
            list_ex (\<lambda>u. after_token_name u \<noteq> None) (tails (this_line (drop 7 t)))) (tails s))"

text \<open>What \<^verbatim>\<open>postTokenForm\<close> gives: an answer, an error of the endpoint, or another exception.\<close>

datatype post_result =
    Post_Response token_response
  | Post_Endpoint_Error string string    \<comment> \<open>error code and message\<close>
  | Post_Failure string

fun post_message :: "post_result \<Rightarrow> string" where
  "post_message (Post_Response r) = (case tr_error_description r of None \<Rightarrow> [] | Some d \<Rightarrow> d)"
| "post_message (Post_Endpoint_Error errorCode m) = m"
| "post_message (Post_Failure m) = m"

fun post_code :: "post_result \<Rightarrow> string" where
  "post_code (Post_Response r) = (case tr_error r of None \<Rightarrow> [] | Some e \<Rightarrow> e)"
| "post_code (Post_Endpoint_Error errorCode m) = errorCode"
| "post_code (Post_Failure m) = []"

definition is_identity_token_failure :: "post_result \<Rightarrow> bool" where
  "is_identity_token_failure v \<longleftrightarrow>
     post_code v = ''invalid_grant'' \<or> post_code v = ''invalid_token'' \<or>
     blames_identity_token (post_message v)"

text \<open>
  The end of a response of the token endpoint, for a JSON parser and a status (0 when there is
  none): the error's code and the first usable detail, or the answer. An \<open>error\<close> or
  \<open>error_description\<close> that is no string, which OAuth does not allow, counts as missing; the
  source prints it into the text of its message.
\<close>

definition response_of_json :: "json \<Rightarrow> token_response" where
  "response_of_json v =
     (let field = (\<lambda>name. case as_record (Some v) of None \<Rightarrow> None | Some fs \<Rightarrow> map_of fs name) in
      \<lparr>tr_access_token = field ''access_token'', tr_expires_in = field ''expires_in'',
       tr_scope = field ''scope'', tr_error = as_string (field ''error''),
       tr_error_description = as_string (field ''error_description'')\<rparr>)"

definition endpoint_error :: "(string, json) result \<Rightarrow> nat \<Rightarrow> string \<Rightarrow> post_result" where
  "endpoint_error parsed code responseBody =
     (let field = (\<lambda>name. case parsed of Inl m \<Rightarrow> None
            | Inr v \<Rightarrow> (case as_record (Some v) of None \<Rightarrow> None | Some fs \<Rightarrow> as_string (map_of fs name)));
          details = filter (\<lambda>d. d \<noteq> []) (List.map_filter field [''error_description'', ''message'', ''error''])
      in Post_Endpoint_Error (case field ''error'' of None \<Rightarrow> [] | Some e \<Rightarrow> e)
           (''ZTS returned '' @ nat_text code @ '': '' @
            (case details of [] \<Rightarrow> take 1000 responseBody | d # ds \<Rightarrow> d)))"

definition zts_reply :: "(string \<Rightarrow> (string, json) result) \<Rightarrow> nat \<Rightarrow> string \<Rightarrow> post_result" where
  "zts_reply parseJson code responseBody =
     (if code = 0 \<or> 400 \<le> code then endpoint_error (parseJson responseBody) code responseBody
      else case parseJson responseBody of
             Inl m \<Rightarrow> Post_Failure m
           | Inr JNull \<Rightarrow> Post_Failure ''Cannot read properties of null (reading 'access_token')''
           | Inr v \<Rightarrow> Post_Response (response_of_json v))"

section \<open>Facts about scopes\<close>

lemma set_scope_values [simp]: "set (scope_values s) = set (words s)"
  by (simp add: scope_values_def)

lemma scope_values_canonical: "sorted (scope_values s)" "distinct (scope_values s)"
  by (simp_all add: scope_values_def)

lemma scope_values_words: "list_all is_word (scope_values s)"
  by (auto simp: list_all_iff words_is_word)

text \<open>Joining canonical scopes with spaces and reading them again changes nothing.\<close>

lemma scope_values_join [text_simps]: "scope_values (join '' '' (scope_values s)) = scope_values s"
  using words_join_space [OF scope_values_words, of s]
  by (simp add: scope_values_def canonical_id)

lemma scope_values_join_filter [text_simps]:
  "scope_values (join '' '' (filter P (scope_values s))) = filter P (scope_values s)"
proof -
  have "list_all is_word (filter P (scope_values s))"
    using scope_values_words [of s] by (auto simp: list_all_iff)
  from words_join_space [OF this]
  have "scope_values (join '' '' (filter P (scope_values s))) = canonical (filter P (scope_values s))"
    by (simp add: scope_values_def [of "join _ _"])
  also have "\<dots> = filter P (scope_values s)"
    using scope_values_canonical [of s] by (intro canonical_id sorted_wrt_filter distinct_filter)
  finally show ?thesis .
qed

lemma normalize_scope_Inr:
  "normalize_scope s = Inr t \<Longrightarrow> scope_values t = scope_values s \<and> scope_values s \<noteq> []"
  by (auto simp: normalize_scope_def Let_def text_simps split: if_splits)

lemma scope_values_cong: "set (words s) = set (words t) \<Longrightarrow> scope_values s = scope_values t"
  unfolding scope_values_def by (rule canonical_cong) simp

lemma qualified_domain_Inr:
  assumes "qualified_domain s = Inr d"
  shows "\<exists>r. s = d @ role_marker @ r \<and> d \<noteq> [] \<and> r \<noteq> []"
proof -
  from assms obtain i where i: "index_of role_marker s = Some i" "i \<noteq> 0"
    "i + length role_marker \<noteq> length s" "d = take i s"
    by (auto simp: qualified_domain_def split: option.splits if_splits)
  note first = index_of_Some [OF i(1)]
  from first have "s = take i s @ role_marker @ drop (i + length role_marker) s" by (rule conjunct2)
  with i(4) have "s = d @ role_marker @ drop (i + length role_marker) s" by metis
  moreover have "d \<noteq> []" "drop (i + length role_marker) s \<noteq> []"
    using conjunct1 [OF first] i(2,3) by (auto simp: i(4) role_marker_def)
  ultimately show ?thesis by blast
qed

lemma requested_audiences_Inr:
  "requested_audiences scopes = Inr ds \<Longrightarrow> d \<in> set ds \<longleftrightarrow> (\<exists>s \<in> set scopes. qualified_domain s = Inr d)"
  by (auto simp: requested_audiences_def result_simps dest: emap_Inr_set emap_Inr_mem)

lemma access_token_audience_Inr:
  assumes "access_token_audience scope audience = Inr a"
  shows "a \<noteq> []" "\<exists>s \<in> set (scope_values scope). qualified_domain s = Inr a"
    "\<forall>s \<in> set (scope_values scope). \<exists>d. qualified_domain s = Inr d"
proof -
  from assms obtain ds where ds: "requested_audiences (scope_values scope) = Inr ds" and a: "a \<noteq> []" "a \<in> set ds"
    unfolding access_token_audience_def ebind_eq_Inr
    by (elim exE conjE) (simp split: option.splits if_splits)
  show "a \<noteq> []" by fact
  show "\<exists>s \<in> set (scope_values scope). qualified_domain s = Inr a"
    using requested_audiences_Inr [OF ds, of a] a(2) by simp
  show "\<forall>s \<in> set (scope_values scope). \<exists>d. qualified_domain s = Inr d"
    using ds emap_Inr_mem [of qualified_domain "scope_values scope"]
    by (auto simp: requested_audiences_def result_simps)
qed

lemma without_first_Some:
  "without_first P xs = Some ys \<Longrightarrow> \<exists>x. P x \<and> x \<in> set xs \<and> mset xs = add_mset x (mset ys)"
  by (induction xs arbitrary: ys) (auto split: if_splits)

lemma without_first_head [simp]: "P x \<Longrightarrow> without_first P (x # xs) = Some xs"
  by simp

text \<open>
  A covering pairs every requested scope with its own granted scope; when the lengths agree,
  nothing is granted beyond what was requested.
\<close>

lemma scopes_cover_pairing:
  "scopes_cover granted requested \<Longrightarrow>
   \<exists>used rest. mset granted = mset used + mset rest \<and> list_all2 equivalent_scope used requested"
proof (induction granted requested rule: scopes_cover.induct)
  case (1 available)
  then show ?case by (intro exI [of _ "[]"] exI [of _ available]) simp
next
  case (2 available scope requested)
  then obtain left where left: "without_first (\<lambda>c. equivalent_scope c scope) available = Some left"
    and cover: "scopes_cover left requested" by (auto split: option.splits)
  from 2(1) [OF left cover] obtain used rest where
    "mset left = mset used + mset rest" "list_all2 equivalent_scope used requested" by blast
  moreover from without_first_Some [OF left] obtain x where
    "equivalent_scope x scope" "mset available = add_mset x (mset left)" by blast
  ultimately show ?case by (intro exI [of _ "x # used"] exI [of _ rest]) simp
qed

lemma scopes_exactly_match_pairing:
  assumes "scopes_exactly_match granted requested"
  shows "\<exists>used. mset used = mset granted \<and> list_all2 equivalent_scope used requested"
proof -
  from assms scopes_cover_pairing [of granted requested] obtain used rest where
    eq: "mset granted = mset used + mset rest" and pair: "list_all2 equivalent_scope used requested"
    and len: "length granted = length requested"
    by (auto simp: scopes_exactly_match_def)
  from arg_cong [OF eq, of size] len list_all2_lengthD [OF pair] have "rest = []" by simp
  with eq pair show ?thesis by auto
qed

lemma scopes_cover_refl: "scopes_cover xs xs"
  by (induction xs) (auto simp: equivalent_scope_def)

lemma scopes_exactly_match_refl [simp]: "scopes_exactly_match xs xs"
  by (simp add: scopes_exactly_match_def scopes_cover_refl)

lemma audiences_exactly_match_iff [simp]: "audiences_exactly_match l r \<longleftrightarrow> l = r"
  by (auto simp: audiences_exactly_match_def list.rel_eq)

lemma cache_key_inj: "cache_key a s = cache_key b t \<longleftrightarrow> a = b \<and> s = t"
proof
  assume "cache_key a s = cache_key b t"
  then have "json_strings a @ ('','' @ json_strings s @ '']'') = json_strings b @ ('','' @ json_strings t @ '']'')"
    by (simp add: cache_key_def)
  from json_strings_append_inj [OF this] have "a = b" "json_strings s @ '']'' = json_strings t @ '']''" by simp_all
  with json_strings_append_inj show "a = b \<and> s = t" by blast
qed simp

text \<open>What a grant that was read guarantees.\<close>

lemma decode_claims_Inr:
  "decode_claims decodeJwt token name = Inr (t, cs) \<longleftrightarrow> token = JStr t \<and> decodeJwt t = Inr cs"
  by (auto simp: decode_claims_def split: json.splits sum.splits)

lemma require_access_token_Inr:
  "require_access_token response name = Inr v \<Longrightarrow> tr_access_token response = Some v"
  by (auto simp: require_access_token_def js_truthy_def split: if_splits option.splits)

lemma token_scopes_Inr: "token_scopes cs name = Inr ss \<Longrightarrow> ss \<noteq> []"
  by (auto simp: token_scopes_def split: if_splits)

lemma token_audiences_Inr: "token_audiences v name True = Inr as \<Longrightarrow> as \<noteq> []"
  by (auto simp: token_audiences_def Let_def split: if_splits)

lemma claim_expiry_Inr: "claim_expiry cs name = Inr e \<Longrightarrow> map_of cs ''exp'' = Some (JNum (Finite e))"
  by (auto simp: claim_expiry_def split: option.splits)

lemma grant_expires_at_le:
  "grant_expires_at now se e n \<le> se * 1000" "grant_expires_at now se e n \<le> e * 1000"
  by (auto simp: grant_expires_at_def Let_def split: option.splits)

lemma read_token_grant_Inr:
  assumes "read_token_grant decodeJwt response name now sessionExpiresAt True = Inr g"
  shows "now + token_expiry_skew_ms < tg_expiresAtMs g" "tg_expiresAtMs g \<le> sessionExpiresAt * 1000"
    "tg_audiences g \<noteq> []" "tg_scopes g \<noteq> []"
    "\<exists>cs e. tr_access_token response = Some (JStr (tg_token g)) \<and> decodeJwt (tg_token g) = Inr cs \<and>
       token_scopes cs name = Inr (tg_scopes g) \<and>
       token_audiences (map_of cs ''aud'') name True = Inr (tg_audiences g) \<and>
       map_of cs ''exp'' = Some (JNum (Finite e)) \<and> tg_expiresAtMs g \<le> e * 1000"
proof -
  obtain v tk cs scopes audiences e n where
    parts: "require_access_token response name = Inr v" "decode_claims decodeJwt v name = Inr (tk, cs)"
      "token_scopes cs name = Inr scopes" "token_audiences (map_of cs ''aud'') name True = Inr audiences"
      "claim_expiry cs name = Inr e"
    and g: "(if grant_expires_at now sessionExpiresAt e n \<le> now + token_expiry_skew_ms
             then Inl (Athenz_Error (name @ '' is expired or too close to expiry''))
             else Inr \<lparr>tg_token = tk, tg_audiences = audiences, tg_scopes = scopes,
                       tg_expiresAtMs = grant_expires_at now sessionExpiresAt e n\<rparr>) = Inr g"
    using assms unfolding read_token_grant_def Let_def
    by (auto simp only: ebind_eq_Inr split_paired_Ex prod.case)
  then show "now + token_expiry_skew_ms < tg_expiresAtMs g" "tg_expiresAtMs g \<le> sessionExpiresAt * 1000"
    "tg_audiences g \<noteq> []" "tg_scopes g \<noteq> []"
    "\<exists>cs e. tr_access_token response = Some (JStr (tg_token g)) \<and> decodeJwt (tg_token g) = Inr cs \<and>
       token_scopes cs name = Inr (tg_scopes g) \<and>
       token_audiences (map_of cs ''aud'') name True = Inr (tg_audiences g) \<and>
       map_of cs ''exp'' = Some (JNum (Finite e)) \<and> tg_expiresAtMs g \<le> e * 1000"
    using token_scopes_Inr [of cs name scopes] token_audiences_Inr [of _ name audiences]
      require_access_token_Inr [of response name v] claim_expiry_Inr [of cs name e]
      grant_expires_at_le [of now sessionExpiresAt e n]
    by (auto simp: decode_claims_Inr split: if_splits)
qed

lemma read_token_grant_token:
  assumes "read_token_grant decodeJwt response name now sessionExpiresAt required = Inr g"
  shows "tg_token g \<noteq> []"
proof -
  from assms obtain v tk cs where "require_access_token response name = Inr v"
    and "decode_claims decodeJwt v name = Inr (tk, cs)" and "tg_token g = tk"
    unfolding read_token_grant_def Let_def
    by (auto simp only: ebind_eq_Inr split_paired_Ex prod.case split: if_split_asm) auto
  then show ?thesis
    by (auto simp: require_access_token_def js_truthy_def decode_claims_Inr split: if_splits option.splits)
qed

text \<open>
  The covering takes the first match it finds. With a bare role name among the granted scopes
  it can take the wrong one, and rejects a grant whose scopes could be paired off.
\<close>

lemma greedy_cover_can_miss:
  "\<not> scopes_cover [''a'', ''x:role.a''] [''x:role.a'', ''z:role.a''] \<and>
   list_all2 equivalent_scope [''x:role.a'', ''a''] [''x:role.a'', ''z:role.a'']"
  by code_simp

end
