(* ===== verification/Gateway_Registry.thy ===== *)
theory Gateway_Registry
  imports Samples Gateway_Athenz_Scopes
begin

text \<open>
  \<^verbatim>\<open>mcp-gateway/src/services/mcpRegistry.ts\<close>: the table of MCP servers that the gateway
  fetches from the hub and keeps for a while. Every field of the answer is checked; an answer
  with one bad entry is refused as a whole, an entry that is not an HTTP server is skipped. The
  fetch is awaited, so a lookup is cut in two, and the cache is written by the second part.
\<close>

datatype tool_permission = Permission_None | Permission_Not_Defined

record mcp_route =
  rt_proxyUrl :: string
  rt_accessAudience :: "string option"
  rt_accessScope :: "string option"
  rt_defaultToolPermission :: "tool_permission option"
  rt_toolScopes :: "(string \<times> string) list option"

type_synonym route_table = "(string \<times> mcp_route) list"

datatype registry_error =
    Server_Not_Found string
  | Registry_Error string

record registry_cache =
  rg_expiresAt :: int
  rg_routes :: route_table

definition registry_cache_start :: registry_cache where
  "registry_cache_start = \<lparr>rg_expiresAt = 0, rg_routes = []\<rparr>"

section \<open>Parsing an entry\<close>

text \<open>\<^verbatim>\<open>/^[A-Za-z0-9][A-Za-z0-9._-]*$/\<close>\<close>

definition valid_audience :: "string \<Rightarrow> bool" where
  "valid_audience a \<longleftrightarrow> a \<noteq> [] \<and> is_alnum (hd a) \<and> list_all is_name_char (tl a)"

text \<open>\<^verbatim>\<open>typeof value === "string" && value.trim() ? value.trim() : undefined\<close>\<close>

definition trimmed_string :: "unknown \<Rightarrow> string option" where
  "trimmed_string v =
     (case as_string v of None \<Rightarrow> None | Some s \<Rightarrow> if trim s = [] then None else Some (trim s))"

definition first_scope_domain :: "unknown \<Rightarrow> string option" where
  "first_scope_domain v =
     (case as_string v of
        None \<Rightarrow> None
      | Some s \<Rightarrow> (case words (trim s) of
          [] \<Rightarrow> None
        | firstScope # rest \<Rightarrow> (case index_of role_marker firstScope of
            None \<Rightarrow> None
          | Some i \<Rightarrow> if 0 < i then Some (take i firstScope) else None)))"

definition parse_access_audience :: "unknown \<Rightarrow> unknown \<Rightarrow> string \<Rightarrow> (string, string option) result" where
  "parse_access_audience v accessScope serverId =
     (let audience = (case trimmed_string v of None \<Rightarrow> first_scope_domain accessScope | Some a \<Rightarrow> Some a)
      in case audience of
           None \<Rightarrow> Inr None
         | Some a \<Rightarrow> if valid_audience a then Inr (Some a)
                     else Inl (''MCP Hub registry returned invalid accessAudience for '' @ serverId))"

definition parse_default_tool_permission :: "unknown \<Rightarrow> string \<Rightarrow> (string, tool_permission option) result" where
  "parse_default_tool_permission v serverId =
     (if v = None then Inr None
      else if v = Some (JStr ''none'') then Inr (Some Permission_None)
      else if v = Some (JStr ''not-defined'') then Inr (Some Permission_Not_Defined)
      else Inl (''MCP Hub registry returned invalid defaultToolPermission for '' @ serverId))"

definition parse_tool_scope :: "string \<Rightarrow> string \<times> json \<Rightarrow> (string, string \<times> string) result" where
  "parse_tool_scope serverId = (\<lambda>(toolName, configuredScope).
     case as_string (Some configuredScope) of
       None \<Rightarrow> Inl (''MCP Hub registry returned invalid toolScopes for '' @ serverId)
     | Some s \<Rightarrow>
         if trim toolName = [] then Inl (''MCP Hub registry returned invalid toolScopes for '' @ serverId)
         else let scope = join '' '' (canonical (words s)) in
              if scope = [] then Inl (''MCP Hub registry returned an empty scope for '' @ serverId @ ''/'' @ toolName)
              else Inr (toolName, scope))"

definition parse_tool_scopes :: "unknown \<Rightarrow> string \<Rightarrow> (string, (string \<times> string) list option) result" where
  "parse_tool_scopes v serverId =
     (if v = None then Inr None
      else case as_record v of
        None \<Rightarrow> Inl (''MCP Hub registry returned invalid toolScopes for '' @ serverId)
      | Some fs \<Rightarrow> ebind (emap (parse_tool_scope serverId) fs) (\<lambda>scopes. Inr (Some scopes)))"

text \<open>One server: skipped (\<^const>\<open>None\<close>), a route, or the exception that refuses the answer.\<close>

definition parse_server :: "platform \<Rightarrow> json \<Rightarrow> (string, (string \<times> mcp_route) option) result" where
  "parse_server pf server =
     (if server = JNull then Inl ''Cannot read properties of null (reading 'routeId')''
      else let field = (\<lambda>name. case as_record (Some server) of None \<Rightarrow> None | Some fs \<Rightarrow> map_of fs name) in
        case (as_string (field ''routeId''), as_string (field ''proxyUrl'')) of
          (Some routeId, Some rawUrl) \<Rightarrow>
            (case pf_parse_url pf rawUrl of
               None \<Rightarrow> Inl ''Invalid URL''
             | Some u \<Rightarrow>
                 if url_protocol u \<noteq> ''http:'' \<and> url_protocol u \<noteq> ''https:'' then Inr None
                 else
                   ebind (parse_default_tool_permission (field ''defaultToolPermission'') routeId) (\<lambda>permission.
                   ebind (parse_access_audience (field ''accessAudience'') (field ''accessScope'') routeId) (\<lambda>audience.
                   ebind (parse_tool_scopes (field ''toolScopes'') routeId) (\<lambda>toolScopes.
                   Inr (Some (routeId,
                     \<lparr>rt_proxyUrl = pf_url_string pf u, rt_accessAudience = audience,
                      rt_accessScope = trimmed_string (field ''accessScope''),
                      rt_defaultToolPermission = permission, rt_toolScopes = toolScopes\<rparr>))))))
        | _ \<Rightarrow> Inr None)"

fun add_servers :: "platform \<Rightarrow> json list \<Rightarrow> route_table \<Rightarrow> (string, route_table) result" where
  "add_servers pf [] routes = Inr routes"
| "add_servers pf (server # servers) routes =
     ebind (parse_server pf server) (\<lambda>r.
       case r of None \<Rightarrow> add_servers pf servers routes
               | Some (routeId, route) \<Rightarrow> add_servers pf servers (AList.update routeId route routes))"

text \<open>\<^verbatim>\<open>payload.servers ?? []\<close>, iterated.\<close>

definition registry_servers :: "json \<Rightarrow> (string, json list) result" where
  "registry_servers payload =
     (case payload of
        JNull \<Rightarrow> Inl ''Cannot read properties of null (reading 'servers')''
      | JObj fs \<Rightarrow> (case map_of fs ''servers'' of
          None \<Rightarrow> Inr [] | Some JNull \<Rightarrow> Inr [] | Some (JArr vs) \<Rightarrow> Inr vs
        | Some (JStr s) \<Rightarrow> Inr (map (\<lambda>c. JStr [c]) s)
        | Some v \<Rightarrow> Inl ''payload.servers is not iterable'')
      | _ \<Rightarrow> Inr [])"

section \<open>The client\<close>

definition registry_request_headers :: "string option \<Rightarrow> out_headers" where
  "registry_request_headers registryToken =
     (''Accept'', ''application/json'') #
     (case registryToken of None \<Rightarrow> [] | Some t \<Rightarrow> if t = [] then [] else [(''Authorization'', ''Bearer '' @ t)])"

datatype registry_answer =
    Registry_Status nat               \<comment> \<open>not ok\<close>
  | Registry_Payload json
  | Registry_Failure string           \<comment> \<open>network error, timeout, malformed JSON\<close>

definition route_of :: "route_table \<Rightarrow> string \<Rightarrow> (registry_error, mcp_route) result" where
  "route_of routes serverId =
     (case map_of routes serverId of None \<Rightarrow> Inl (Server_Not_Found serverId) | Some r \<Rightarrow> Inr r)"

text \<open>From a fresh cache at once; otherwise the time of the request, for the fetch that follows.\<close>

definition resolve_route_begin ::
  "int \<Rightarrow> string \<Rightarrow> registry_cache \<Rightarrow> (registry_error, mcp_route) result + int" where
  "resolve_route_begin now serverId cache =
     (if now < rg_expiresAt cache then Inl (route_of (rg_routes cache) serverId) else Inr now)"

definition fetched_routes :: "platform \<Rightarrow> registry_answer \<Rightarrow> (string, route_table) result" where
  "fetched_routes pf answer =
     (case answer of
        Registry_Status code \<Rightarrow> Inl (''MCP Hub registry returned '' @ nat_text code)
      | Registry_Failure m \<Rightarrow> Inl m
      | Registry_Payload payload \<Rightarrow> ebind (registry_servers payload) (\<lambda>servers. add_servers pf servers []))"

definition resolve_route_finish ::
  "platform \<Rightarrow> int \<Rightarrow> int \<Rightarrow> string \<Rightarrow> registry_answer \<Rightarrow> registry_cache
   \<Rightarrow> (registry_error, mcp_route) result \<times> registry_cache" where
  "resolve_route_finish pf cacheTtlMs startedAt serverId answer cache =
     (case fetched_routes pf answer of
        Inl m \<Rightarrow> (Inl (Registry_Error m), cache)
      | Inr routes \<Rightarrow> (route_of routes serverId, \<lparr>rg_expiresAt = startedAt + cacheTtlMs, rg_routes = routes\<rparr>))"

section \<open>What a route guarantees\<close>

definition route_wf :: "platform \<Rightarrow> mcp_route \<Rightarrow> bool" where
  "route_wf pf r \<longleftrightarrow>
     (\<exists>u. rt_proxyUrl r = pf_url_string pf u \<and> (url_protocol u = ''http:'' \<or> url_protocol u = ''https:'')) \<and>
     (case rt_accessAudience r of None \<Rightarrow> True | Some a \<Rightarrow> valid_audience a) \<and>
     (case rt_accessScope r of None \<Rightarrow> True | Some s \<Rightarrow> s \<noteq> []) \<and>
     (case rt_toolScopes r of None \<Rightarrow> True
      | Some ts \<Rightarrow> list_all (\<lambda>(name, scope). trim name \<noteq> [] \<and> scope \<noteq> [] \<and>
          scope = join '' '' (scope_values scope)) ts)"

lemma join_canonical_words: "join '' '' (canonical (words s)) = join '' '' (scope_values (join '' '' (canonical (words s))))"
proof -
  have "list_all is_word (canonical (words s))" by (auto simp: list_all_iff words_is_word)
  from words_join_space [OF this] show ?thesis by (simp add: scope_values_def canonical_id)
qed

lemma parse_tool_scope_Inr:
  "parse_tool_scope serverId f = Inr (name, scope) \<Longrightarrow>
   trim name \<noteq> [] \<and> scope \<noteq> [] \<and> scope = join '' '' (scope_values scope)"
  using join_canonical_words
  by (auto simp: parse_tool_scope_def Let_def split: prod.splits option.splits if_splits)

lemma parse_tool_scopes_Inr:
  "parse_tool_scopes v serverId = Inr (Some ts) \<Longrightarrow>
   list_all (\<lambda>(name, scope). trim name \<noteq> [] \<and> scope \<noteq> [] \<and> scope = join '' '' (scope_values scope)) ts"
  unfolding list_all_iff
  by (auto simp: parse_tool_scopes_def result_simps split: option.splits if_splits
      dest!: emap_Inr_set parse_tool_scope_Inr)

lemma parse_access_audience_Inr:
  "parse_access_audience v sc serverId = Inr (Some a) \<Longrightarrow> valid_audience a"
  by (auto simp: parse_access_audience_def Let_def split: option.splits if_splits)

lemma trimmed_string_Some: "trimmed_string v = Some s \<Longrightarrow> s \<noteq> []"
  by (auto simp: trimmed_string_def split: option.splits if_splits)

lemma parse_server_wf:
  assumes "parse_server pf server = Inr (Some (routeId, r))"
  shows "route_wf pf r"
proof -
  let ?field = "\<lambda>name. case as_record (Some server) of None \<Rightarrow> None | Some fs \<Rightarrow> map_of fs name"
  from assms obtain u where u: "url_protocol u = ''http:'' \<or> url_protocol u = ''https:''"
    and permission: "parse_default_tool_permission (?field ''defaultToolPermission'') routeId
          = Inr (rt_defaultToolPermission r)"
    and audience: "parse_access_audience (?field ''accessAudience'') (?field ''accessScope'') routeId = Inr (rt_accessAudience r)"
    and tools: "parse_tool_scopes (?field ''toolScopes'') routeId = Inr (rt_toolScopes r)"
    and r: "rt_accessScope r = trimmed_string (?field ''accessScope'')" "rt_proxyUrl r = pf_url_string pf u"
    unfolding parse_server_def Let_def
    by (auto simp only: ebind_eq_Inr split: if_split_asm option.split_asm prod.split_asm) auto
  show ?thesis
    unfolding route_wf_def r(2)
    using u parse_access_audience_Inr audience trimmed_string_Some r(1) parse_tool_scopes_Inr tools
    by (auto split: option.splits)
qed

lemma add_servers_wf:
  "add_servers pf servers routes = Inr routes' \<Longrightarrow> entries (\<lambda>k. route_wf pf) routes \<Longrightarrow>
   entries (\<lambda>k. route_wf pf) routes'"
proof (induction pf servers routes arbitrary: routes' rule: add_servers.induct)
  case (1 pf routes)
  then show ?case by simp
next
  case (2 pf server servers routes)
  from "2.prems"(1) obtain r where r: "parse_server pf server = Inr r"
    and rest: "(case r of None \<Rightarrow> add_servers pf servers routes
      | Some (routeId, route) \<Rightarrow> add_servers pf servers (AList.update routeId route routes)) = Inr routes'"
    by (auto simp: ebind_eq_Inr)
  show ?case
  proof (cases r)
    case None
    with 2 rest show ?thesis by simp
  next
    case (Some kr)
    obtain k route where kr: "kr = (k, route)" by (cases kr)
    with Some r have "route_wf pf route" by (auto dest: parse_server_wf)
    with "2.prems"(2) have "entries (\<lambda>k. route_wf pf) (AList.update k route routes)" by auto
    with "2.IH" kr Some rest show ?thesis by simp
  qed
qed

lemma fetched_routes_wf: "fetched_routes pf answer = Inr routes \<Longrightarrow> entries (\<lambda>k. route_wf pf) routes"
  by (auto simp: fetched_routes_def result_simps split: registry_answer.splits dest: add_servers_wf)

section \<open>Runs of the registry client\<close>

text \<open>
  Lookups and answers in any order. A lookup that finds the cache stale waits with the time it
  started; several may wait at once. The run remembers the tables fetched and the cache hits.
\<close>

record registry_run =
  rr_cache :: registry_cache
  rr_waiting :: "(int \<times> string) list"
  rr_fetched :: "(int \<times> route_table) list"
  rr_hits :: "(int \<times> string \<times> (registry_error, mcp_route) result) list"

datatype registry_event =
    Lookup int string
  | Fetched nat registry_answer

definition registry_start :: registry_run where
  "registry_start = \<lparr>rr_cache = registry_cache_start, rr_waiting = [], rr_fetched = [], rr_hits = []\<rparr>"

fun registry_do :: "platform \<Rightarrow> int \<Rightarrow> registry_event \<Rightarrow> registry_run \<Rightarrow> registry_run" where
  "registry_do pf ttl (Lookup now serverId) r =
     (case resolve_route_begin now serverId (rr_cache r) of
        Inl res \<Rightarrow> r\<lparr>rr_hits := (now, serverId, res) # rr_hits r\<rparr>
      | Inr startedAt \<Rightarrow> r\<lparr>rr_waiting := (startedAt, serverId) # rr_waiting r\<rparr>)"
| "registry_do pf ttl (Fetched i answer) r =
     (if i < length (rr_waiting r)
      then let (startedAt, serverId) = rr_waiting r ! i;
               (res, cache) = resolve_route_finish pf ttl startedAt serverId answer (rr_cache r)
           in r\<lparr>rr_cache := cache,
                rr_waiting := take i (rr_waiting r) @ drop (Suc i) (rr_waiting r),
                rr_fetched := (case fetched_routes pf answer of Inl m \<Rightarrow> rr_fetched r
                                 | Inr routes \<Rightarrow> (startedAt, routes) # rr_fetched r)\<rparr>
      else r)"

definition registry_runs :: "platform \<Rightarrow> int \<Rightarrow> registry_event list \<Rightarrow> registry_run" where
  "registry_runs pf ttl evs = fold (registry_do pf ttl) evs registry_start"

definition hit_ok :: "int \<Rightarrow> (int \<times> route_table) list \<Rightarrow> int \<times> string \<times> (registry_error, mcp_route) result \<Rightarrow> bool" where
  "hit_ok ttl fetched = (\<lambda>(now, serverId, res). \<forall>route. res = Inr route \<longrightarrow>
     (\<exists>startedAt routes. (startedAt, routes) \<in> set fetched \<and> now < startedAt + ttl \<and> map_of routes serverId = Some route))"

definition cache_ok :: "int \<Rightarrow> (int \<times> route_table) list \<Rightarrow> registry_cache \<Rightarrow> bool" where
  "cache_ok ttl fetched cache \<longleftrightarrow> rg_routes cache = [] \<or>
     (\<exists>startedAt. rg_expiresAt cache = startedAt + ttl \<and> (startedAt, rg_routes cache) \<in> set fetched)"

definition registry_inv :: "platform \<Rightarrow> int \<Rightarrow> registry_run \<Rightarrow> bool" where
  "registry_inv pf ttl r \<longleftrightarrow> cache_ok ttl (rr_fetched r) (rr_cache r) \<and>
     list_all (\<lambda>(startedAt, routes). entries (\<lambda>k. route_wf pf) routes) (rr_fetched r) \<and>
     list_all (hit_ok ttl (rr_fetched r)) (rr_hits r)"

lemma route_of_Inr [simp]: "route_of routes k = Inr route \<longleftrightarrow> map_of routes k = Some route"
  by (simp add: route_of_def split: option.splits)

lemma cached_hit_ok:
  "cache_ok ttl fetched cache \<Longrightarrow> now < rg_expiresAt cache \<Longrightarrow>
   hit_ok ttl fetched (now, serverId, route_of (rg_routes cache) serverId)"
  unfolding cache_ok_def hit_ok_def prod.case route_of_Inr by (metis map_of.simps(1) option.distinct(1))

lemma hit_ok_more: "hit_ok ttl fetched h \<Longrightarrow> hit_ok ttl (x # fetched) h"
  by (cases h) (simp add: hit_ok_def, blast)

lemma registry_lookup_inv:
  "registry_inv pf ttl r \<Longrightarrow> registry_inv pf ttl (registry_do pf ttl (Lookup now serverId) r)"
  by (auto simp: registry_inv_def resolve_route_begin_def cached_hit_ok)

lemma registry_fetched_inv:
  assumes inv: "registry_inv pf ttl r"
  shows "registry_inv pf ttl (registry_do pf ttl (Fetched i answer) r)"
proof (cases "i < length (rr_waiting r)")
  case True
  obtain startedAt serverId where w: "rr_waiting r ! i = (startedAt, serverId)" by fastforce
  show ?thesis
  proof (cases "fetched_routes pf answer")
    case (Inl m)
    with True w inv show ?thesis by (simp add: registry_inv_def resolve_route_finish_def)
  next
    case (Inr routes)
    have "cache_ok ttl ((startedAt, routes) # rr_fetched r) \<lparr>rg_expiresAt = startedAt + ttl, rg_routes = routes\<rparr>"
      by (simp add: cache_ok_def)
    moreover have "list_all (hit_ok ttl ((startedAt, routes) # rr_fetched r)) (rr_hits r)"
      using inv by (auto simp: registry_inv_def list_all_iff intro: hit_ok_more)
    ultimately show ?thesis
      using Inr True w inv fetched_routes_wf [OF Inr] by (simp add: registry_inv_def resolve_route_finish_def)
  qed
qed (use inv in simp)

lemma registry_runs_inv: "registry_inv pf ttl (registry_runs pf ttl evs)"
proof -
  have step: "registry_inv pf ttl r \<Longrightarrow> registry_inv pf ttl (registry_do pf ttl ev r)" for r ev
    by (cases ev) (simp_all only: registry_lookup_inv registry_fetched_inv)
  have run: "registry_inv pf ttl r \<Longrightarrow> registry_inv pf ttl (fold (registry_do pf ttl) evs r)" for r
    by (induction evs arbitrary: r) (simp_all add: step)
  have "registry_inv pf ttl registry_start"
    by (simp add: registry_inv_def registry_start_def registry_cache_start_def cache_ok_def)
  from run [OF this] show ?thesis by (simp add: registry_runs_def)
qed

section \<open>The property\<close>

text \<open>
  A route that the gateway takes from its cache was in an answer of the hub whose request
  started less than the cache lifetime ago, and it is well formed: an HTTP address, an audience
  of the allowed characters, and for every tool a canonical, non-empty scope.
\<close>

theorem cached_route_is_fresh_and_sound:
  assumes "(now, serverId, Inr route) \<in> set (rr_hits (registry_runs pf ttl evs))"
  shows "\<exists>startedAt routes. (startedAt, routes) \<in> set (rr_fetched (registry_runs pf ttl evs)) \<and>
     now < startedAt + ttl \<and> map_of routes serverId = Some route \<and> route_wf pf route"
proof -
  from registry_runs_inv [of pf ttl evs] assms obtain startedAt routes where
    r: "(startedAt, routes) \<in> set (rr_fetched (registry_runs pf ttl evs))" "now < startedAt + ttl"
      "map_of routes serverId = Some route"
    and wf: "entries (\<lambda>k. route_wf pf) routes"
    by (fastforce simp: registry_inv_def list_all_iff hit_ok_def)
  from entries_lookup [OF r(3) wf] r show ?thesis by blast
qed

definition sample_servers :: json where
  "sample_servers = JObj [(''servers'', JArr [JObj [(''routeId'', JStr ''docs''), (''proxyUrl'', JStr ''http://core/docs''),
     (''accessScope'', JStr ''api:role.reader''), (''toolScopes'', JObj [(''read'', JStr ''api:role.reader'')])]])]"

definition sample_registry :: registry_run where
  "sample_registry = registry_runs sample_platform 5000
     [Lookup 1000 ''docs'', Fetched 0 (Registry_Payload sample_servers), Lookup 2000 ''docs'']"

definition sample_route :: mcp_route where
  "sample_route = \<lparr>rt_proxyUrl = ''http://core/docs'', rt_accessAudience = Some ''api'', rt_accessScope = Some ''api:role.reader'',
     rt_defaultToolPermission = None, rt_toolScopes = Some [(''read'', ''api:role.reader'')]\<rparr>"

theorem cached_route_is_fresh_and_sound_witness:
  "\<exists>startedAt routes. (startedAt, routes) \<in> set (rr_fetched sample_registry) \<and>
     2000 < startedAt + 5000 \<and> map_of routes ''docs'' = Some sample_route \<and> route_wf sample_platform sample_route"
proof -
  have "rr_hits sample_registry = [(2000, ''docs'', Inr sample_route)]" by code_simp
  then show ?thesis
    using cached_route_is_fresh_and_sound [of 2000 "''docs''" sample_route sample_platform 5000]
    by (simp add: sample_registry_def)
qed

end
