(* ===== verification/Gateway_Athenz_Manager.thy ===== *)
theory Gateway_Athenz_Manager
  imports Gateway_Env Gateway_Athenz_Scopes
begin

text \<open>
  \<^verbatim>\<open>AthenzAccessTokenManager\<close> of \<^verbatim>\<open>mcp-gateway/src/services/athenz.ts\<close>: per-session caches
  of ID-JAGs and access tokens, and one running issuance per session and request.

  The weak maps are association lists from the identity of a session. An asynchronous call is cut
  at its awaits: a call runs to the first await in one step, each answer of ZTS continues the
  issuance that waits for it, and the caller's \<^verbatim>\<open>finally\<close> is a step of its own; between two
  steps anything else may run. An issuance is a task; a promise is the number of its task. The
  clock is an argument, once per reading.
\<close>

record cached_token =
  ct_token :: string
  ct_audiences :: "string list"
  ct_cachedAtMs :: rat
  ct_expiresAtMs :: rat
  ct_scopes :: "string list"

type_synonym token_cache = "(string \<times> cached_token) list"
type_synonym form = "(string \<times> string) list"

record athenz_config =
  az_env :: gateway_env
  az_decode :: "string \<Rightarrow> (string, claims) result"

datatype issuance =
    Wait_Id_Jag form                               \<comment> \<open>the posted form whose answer is awaited\<close>
  | Wait_Access form
  | Settled "(athenz_error, string) result"

record task =
  tk_session :: gateway_session
  tk_scopes :: "string list"
  tk_audience :: string
  tk_phase :: issuance
  tk_finished :: bool                              \<comment> \<open>the owner's \<open>finally\<close> has run\<close>

record athenz_manager =
  am_tokens :: "(nat \<times> token_cache) list"
  am_idJags :: "(nat \<times> token_cache) list"
  am_inFlight :: "(nat \<times> (string \<times> nat) list) list"
  am_tasks :: "task list"

definition athenz_manager_start :: athenz_manager where
  "athenz_manager_start = \<lparr>am_tokens = [], am_idJags = [], am_inFlight = [], am_tasks = []\<rparr>"

definition of_session :: "(nat \<times> ('k \<times> 'v) list) list \<Rightarrow> gateway_session \<Rightarrow> ('k \<times> 'v) list" where
  "of_session m session = (case map_of m (gs_ref session) of None \<Rightarrow> [] | Some c \<Rightarrow> c)"

definition set_session ::
  "gateway_session \<Rightarrow> ('k \<times> 'v) list \<Rightarrow> (nat \<times> ('k \<times> 'v) list) list \<Rightarrow> (nat \<times> ('k \<times> 'v) list) list" where
  "set_session session c m = AList.update (gs_ref session) c m"

section \<open>Looking into the caches\<close>

text \<open>Stale entries met on the way are deleted; the search stops at the first match.\<close>

fun find_access_token ::
  "rat \<Rightarrow> string list \<Rightarrow> string \<Rightarrow> token_cache \<Rightarrow> cached_token option \<times> token_cache" where
  "find_access_token now requestedScopes audience [] = (None, [])"
| "find_access_token now requestedScopes audience ((key, entry) # cache) =
     (if ct_expiresAtMs entry \<le> now + token_expiry_skew_ms
      then find_access_token now requestedScopes audience cache
      else if audiences_exactly_match (ct_audiences entry) [audience]
              \<and> scopes_exactly_match (ct_scopes entry) requestedScopes
      then (Some entry, (key, entry) # cache)
      else let (found, rest) = find_access_token now requestedScopes audience cache
           in (found, (key, entry) # rest))"

definition live_entries :: "rat \<Rightarrow> token_cache \<Rightarrow> token_cache" where
  "live_entries now cache = filter (\<lambda>(k, e). \<not> ct_expiresAtMs e \<le> now + token_expiry_skew_ms) cache"

text \<open>The narrowest cached ID-JAG that covers the request.\<close>

definition find_id_jag ::
  "string \<Rightarrow> rat \<Rightarrow> string list \<Rightarrow> token_cache \<Rightarrow> cached_token option \<times> token_cache" where
  "find_id_jag ztsAudience now requestedScopes cache =
     (let live = live_entries now cache;
          matches = filter (\<lambda>e. ztsAudience \<in> set (ct_audiences e) \<and> scopes_cover (ct_scopes e) requestedScopes)
                      (map snd live)
      in (case sort_key (\<lambda>e. length (ct_scopes e)) matches of [] \<Rightarrow> None | e # es \<Rightarrow> Some e, live))"

section \<open>Issuing\<close>

definition id_jag_form :: "gateway_env \<Rightarrow> gateway_session \<Rightarrow> string list \<Rightarrow> form" where
  "id_jag_form env session requestedScopes =
     [(''grant_type'', ''urn:ietf:params:oauth:grant-type:token-exchange''),
      (''requested_token_type'', ''urn:ietf:params:oauth:token-type:id-jag''),
      (''subject_token_type'', ''urn:ietf:params:oauth:token-type:id_token''),
      (''subject_token'', gs_idToken session),
      (''scope'', join '' '' requestedScopes),
      (''audience'', ATHENZ_ZTS_AUDIENCE env),
      (''expires_in'', nat_text (nat (ATHENZ_ACCESS_TOKEN_EXPIRES_IN env)))]"

definition access_token_form :: "gateway_env \<Rightarrow> string \<Rightarrow> string list \<Rightarrow> string \<Rightarrow> form" where
  "access_token_form env idJag requestedScopes audience =
     [(''grant_type'', ''urn:ietf:params:oauth:grant-type:jwt-bearer''),
      (''assertion'', idJag),
      (''audience'', audience),
      (''scope'', join '' '' requestedScopes),
      (''expires_in'', nat_text (nat (ATHENZ_ACCESS_TOKEN_EXPIRES_IN env)))]"

definition cache_grant :: "token_grant \<Rightarrow> rat \<Rightarrow> token_cache \<Rightarrow> token_cache" where
  "cache_grant grant now cache =
     AList.update (cache_key (tg_audiences grant) (tg_scopes grant))
       \<lparr>ct_token = tg_token grant, ct_audiences = tg_audiences grant, ct_cachedAtMs = now,
        ct_expiresAtMs = tg_expiresAtMs grant, ct_scopes = tg_scopes grant\<rparr> cache"

text \<open>\<^verbatim>\<open>issueAccessToken\<close> up to its first await, with the check of \<^verbatim>\<open>issueIdJag\<close>.\<close>

definition issue_begin ::
  "athenz_config \<Rightarrow> rat \<Rightarrow> rat \<Rightarrow> gateway_session \<Rightarrow> string list \<Rightarrow> string \<Rightarrow> athenz_manager
   \<Rightarrow> issuance \<times> athenz_manager" where
  "issue_begin cfg now1 now2 session requestedScopes audience st =
     (let (cached, jags) = find_id_jag (ATHENZ_ZTS_AUDIENCE (az_env cfg)) now1 requestedScopes
                             (of_session (am_idJags st) session);
          st' = st\<lparr>am_idJags := set_session session jags (am_idJags st)\<rparr>
      in case cached of
           Some c \<Rightarrow> (Wait_Access (access_token_form (az_env cfg) (ct_token c) requestedScopes audience), st')
         | None \<Rightarrow>
             if gs_idTokenExpiresAt session * 1000 \<le> now2 + token_expiry_skew_ms
             then (Settled (Inl (Reauthentication_Required ''A fresh identity-provider ID token is required'')), st')
             else (Wait_Id_Jag (id_jag_form (az_env cfg) session requestedScopes), st'))"

text \<open>\<^verbatim>\<open>issueIdJag\<close> after its await, and on to the next one.\<close>

definition id_jag_answer ::
  "athenz_config \<Rightarrow> rat \<Rightarrow> rat \<Rightarrow> gateway_session \<Rightarrow> string list \<Rightarrow> string \<Rightarrow> post_result \<Rightarrow> athenz_manager
   \<Rightarrow> issuance \<times> athenz_manager" where
  "id_jag_answer cfg now1 now2 session requestedScopes audience answer st =
     (if is_identity_token_failure answer
      then (Settled (Inl (Reauthentication_Required
              ''The identity-provider ID token can no longer issue an ID-JAG'')), st)
      else case answer of
        Post_Endpoint_Error errorCode m \<Rightarrow> (Settled (Inl (Athenz_Error m)), st)
      | Post_Failure m \<Rightarrow> (Settled (Inl (Athenz_Error m)), st)
      | Post_Response r \<Rightarrow>
          (case read_token_grant (az_decode cfg) r ''ID-JAG'' now1 (gs_expiresAt session) True of
             Inl e \<Rightarrow> (Settled (Inl e), st)
           | Inr grant \<Rightarrow>
               if ATHENZ_ZTS_AUDIENCE (az_env cfg) \<notin> set (tg_audiences grant)
               then (Settled (Inl (Athenz_Error (''ID-JAG audience ['' @ join '' '' (tg_audiences grant)
                       @ ''] does not include requested audience ['' @ ATHENZ_ZTS_AUDIENCE (az_env cfg) @ '']''))), st)
               else let st' = st\<lparr>am_idJags := set_session session
                          (cache_grant grant now2 (of_session (am_idJags st) session)) (am_idJags st)\<rparr>
                    in if \<not> scopes_cover (tg_scopes grant) requestedScopes
                       then (Settled (Inl (Insufficient_Scope requestedScopes (tg_scopes grant) ''ID-JAG'')), st')
                       else (Wait_Access (access_token_form (az_env cfg) (tg_token grant) requestedScopes audience), st')))"

text \<open>\<^verbatim>\<open>issueAccessToken\<close> after the access token has been answered.\<close>

definition access_answer ::
  "athenz_config \<Rightarrow> rat \<Rightarrow> rat \<Rightarrow> gateway_session \<Rightarrow> string list \<Rightarrow> string \<Rightarrow> post_result \<Rightarrow> athenz_manager
   \<Rightarrow> (athenz_error, string) result \<times> athenz_manager" where
  "access_answer cfg now1 now2 session requestedScopes audience answer st =
     (case answer of
        Post_Endpoint_Error errorCode m \<Rightarrow> (Inl (Athenz_Error m), st)
      | Post_Failure m \<Rightarrow> (Inl (Athenz_Error m), st)
      | Post_Response r \<Rightarrow>
          (case read_token_grant (az_decode cfg) r ''Athenz access token'' now1 (gs_expiresAt session) True of
             Inl e \<Rightarrow> (Inl e, st)
           | Inr grant \<Rightarrow>
               if \<not> audiences_exactly_match (tg_audiences grant) [audience]
               then (Inl (Athenz_Error (''Athenz access token audience ['' @ join '' '' (tg_audiences grant)
                       @ ''] does not match requested audience ['' @ join '' '' [audience] @ '']'')), st)
               else let st' = st\<lparr>am_tokens := set_session session
                          (cache_grant grant now2 (of_session (am_tokens st) session)) (am_tokens st)\<rparr>
                    in if \<not> scopes_exactly_match (tg_scopes grant) requestedScopes
                       then (Inl (Insufficient_Scope requestedScopes (tg_scopes grant) ''Athenz access token''), st')
                       else (Inr (tg_token grant), st')))"

section \<open>The public operation\<close>

datatype begun =
    Answered "(athenz_error, string) result"    \<comment> \<open>from the cache, or an exception\<close>
  | Awaits nat                                  \<comment> \<open>joined the issuance of another caller\<close>
  | Owns nat                                    \<comment> \<open>started this issuance\<close>

definition get_access_token_begin ::
  "athenz_config \<Rightarrow> rat \<Rightarrow> rat \<Rightarrow> rat \<Rightarrow> gateway_session \<Rightarrow> string \<Rightarrow> string option \<Rightarrow> athenz_manager
   \<Rightarrow> begun \<times> athenz_manager" where
  "get_access_token_begin cfg now1 now2 now3 session scope audience st =
     (case access_token_audience scope audience of
        Inl e \<Rightarrow> (Answered (Inl e), st)
      | Inr selectedAudience \<Rightarrow>
     (case normalize_scope scope of
        Inl e \<Rightarrow> (Answered (Inl e), st)
      | Inr normalizedScope \<Rightarrow>
          let requestedScopes = scope_values normalizedScope;
              (cached, tokens) = find_access_token now1 requestedScopes selectedAudience
                                   (of_session (am_tokens st) session);
              st1 = st\<lparr>am_tokens := set_session session tokens (am_tokens st)\<rparr>
          in case cached of
               Some c \<Rightarrow> (Answered (Inr (ct_token c)), st1)
             | None \<Rightarrow>
                 let requestKey = cache_key [selectedAudience] requestedScopes;
                     requests = of_session (am_inFlight st1) session
                 in case map_of requests requestKey of
                      Some i \<Rightarrow> (Awaits i, st1)
                    | None \<Rightarrow>
                        let (phase, st2) = issue_begin cfg now2 now3 session requestedScopes selectedAudience st1;
                            i = length (am_tasks st2)
                        in (Owns i, st2\<lparr>am_tasks := am_tasks st2 @ [\<lparr>tk_session = session,
                              tk_scopes = requestedScopes, tk_audience = selectedAudience,
                              tk_phase = phase, tk_finished = False\<rparr>],
                            am_inFlight := set_session session (AList.update requestKey i requests)
                              (am_inFlight st2)\<rparr>)))"

definition task_key :: "task \<Rightarrow> string" where
  "task_key t = cache_key [tk_audience t] (tk_scopes t)"

text \<open>An answer of ZTS for task \<open>i\<close>, and the \<^verbatim>\<open>finally\<close> of its owner.\<close>

definition task_answered ::
  "athenz_config \<Rightarrow> rat \<Rightarrow> rat \<Rightarrow> nat \<Rightarrow> post_result \<Rightarrow> athenz_manager \<Rightarrow> athenz_manager" where
  "task_answered cfg now1 now2 i answer st =
     (let t = am_tasks st ! i in
      case tk_phase t of
        Wait_Id_Jag form \<Rightarrow>
          let (phase, st') = id_jag_answer cfg now1 now2 (tk_session t) (tk_scopes t) (tk_audience t) answer st
          in st'\<lparr>am_tasks := (am_tasks st')[i := t\<lparr>tk_phase := phase\<rparr>]\<rparr>
      | Wait_Access form \<Rightarrow>
          let (r, st') = access_answer cfg now1 now2 (tk_session t) (tk_scopes t) (tk_audience t) answer st
          in st'\<lparr>am_tasks := (am_tasks st')[i := t\<lparr>tk_phase := Settled r\<rparr>]\<rparr>
      | Settled r \<Rightarrow> st)"

definition task_finally :: "nat \<Rightarrow> athenz_manager \<Rightarrow> athenz_manager" where
  "task_finally i st =
     (let t = am_tasks st ! i in
      st\<lparr>am_inFlight := set_session (tk_session t)
           (AList.delete (task_key t) (of_session (am_inFlight st) (tk_session t))) (am_inFlight st),
         am_tasks := (am_tasks st)[i := t\<lparr>tk_finished := True\<rparr>]\<rparr>)"

section \<open>Cache status\<close>

datatype entry_status = Valid_Entry | Refresh_Required | Expired_Entry

definition entry_status :: "rat \<Rightarrow> cached_token \<Rightarrow> entry_status" where
  "entry_status now c =
     (if ct_expiresAtMs c \<le> now then Expired_Entry
      else if ct_expiresAtMs c \<le> now + token_expiry_skew_ms then Refresh_Required
      else Valid_Entry)"

record status_row =
  sr_audiences :: "string list"
  sr_scope :: string
  sr_cachedAtMs :: rat
  sr_expiresAtMs :: rat
  sr_status :: entry_status

record cache_status =
  cs_entryCount :: nat
  cs_usableEntryCount :: nat
  cs_refreshRequiredEntryCount :: nat
  cs_expiredEntryCount :: nat
  cs_expirySkewSeconds :: rat
  cs_entries :: "status_row list"

definition status_row_of :: "rat \<Rightarrow> cached_token \<Rightarrow> status_row" where
  "status_row_of now c =
     \<lparr>sr_audiences = ct_audiences c, sr_scope = join '' '' (ct_scopes c), sr_cachedAtMs = ct_cachedAtMs c,
      sr_expiresAtMs = ct_expiresAtMs c, sr_status = entry_status now c\<rparr>"

text \<open>The loop keeps three counters.\<close>

fun count_entries :: "rat \<Rightarrow> cached_token list \<Rightarrow> nat \<times> nat \<times> nat" where
  "count_entries now [] = (0, 0, 0)"
| "count_entries now (c # cs) =
     (let (usable, refresh, expired) = count_entries now cs
      in case entry_status now c of
           Expired_Entry \<Rightarrow> (usable, refresh, expired + 1)
         | Refresh_Required \<Rightarrow> (usable, refresh + 1, expired)
         | Valid_Entry \<Rightarrow> (usable + 1, refresh, expired))"

definition status_of_cache :: "rat \<Rightarrow> token_cache \<Rightarrow> cache_status" where
  "status_of_cache now cache =
     (let cs = map snd cache; (usable, refresh, expired) = count_entries now cs
      in \<lparr>cs_entryCount = length cs, cs_usableEntryCount = usable, cs_refreshRequiredEntryCount = refresh,
          cs_expiredEntryCount = expired, cs_expirySkewSeconds = token_expiry_skew_ms / 1000,
          cs_entries = map (status_row_of now) cs\<rparr>)"

definition get_cache_status :: "rat \<Rightarrow> gateway_session \<Rightarrow> athenz_manager \<Rightarrow> cache_status" where
  "get_cache_status now session st = status_of_cache now (of_session (am_tokens st) session)"

definition get_id_jag_cache_status :: "rat \<Rightarrow> gateway_session \<Rightarrow> athenz_manager \<Rightarrow> cache_status" where
  "get_id_jag_cache_status now session st = status_of_cache now (of_session (am_idJags st) session)"

end
