(* ===== verification/Gateway_Athenz_Runs.thy ===== *)
theory Gateway_Athenz_Runs
  imports Gateway_Athenz_Manager Samples
begin

text \<open>
  Runs of the access-token manager: calls, answers of ZTS and \<^verbatim>\<open>finally\<close> blocks in any order.
  A run also remembers the calls that were made, which no operation reads. Two sessions with the
  same identity are the same object: that is what \<^const>\<open>gs_ref\<close> stands for.
\<close>

record call =
  cl_session :: gateway_session
  cl_scope :: string
  cl_audience :: "string option"
  cl_time :: rat
  cl_begun :: begun

record manager_run =
  mr_manager :: athenz_manager
  mr_calls :: "call list"

definition run_start :: manager_run where
  "run_start = \<lparr>mr_manager = athenz_manager_start, mr_calls = []\<rparr>"

definition same_object :: "gateway_session \<Rightarrow> call list \<Rightarrow> bool" where
  "same_object session calls \<longleftrightarrow>
     list_all (\<lambda>c. gs_ref (cl_session c) = gs_ref session \<longrightarrow> cl_session c = session) calls"

inductive athenz_step :: "athenz_config \<Rightarrow> manager_run \<Rightarrow> manager_run \<Rightarrow> bool" for cfg where
  step_call: "same_object session (mr_calls r) \<Longrightarrow>
     get_access_token_begin cfg now1 now2 now3 session scope audience (mr_manager r) = (b, st) \<Longrightarrow>
     athenz_step cfg r \<lparr>mr_manager = st, mr_calls = \<lparr>cl_session = session, cl_scope = scope,
       cl_audience = audience, cl_time = now1, cl_begun = b\<rparr> # mr_calls r\<rparr>"
| step_answer: "i < length (am_tasks (mr_manager r)) \<Longrightarrow>
     athenz_step cfg r (r\<lparr>mr_manager := task_answered cfg now1 now2 i answer (mr_manager r)\<rparr>)"
| step_finally: "i < length (am_tasks (mr_manager r)) \<Longrightarrow>
     tk_phase (am_tasks (mr_manager r) ! i) = Settled result \<Longrightarrow>
     \<not> tk_finished (am_tasks (mr_manager r) ! i) \<Longrightarrow>
     athenz_step cfg r (r\<lparr>mr_manager := task_finally i (mr_manager r)\<rparr>)"

inductive_cases athenz_stepE [consumes 1, case_names call answer settle]: "athenz_step cfg r r'"

definition athenz_reachable :: "athenz_config \<Rightarrow> manager_run \<Rightarrow> bool" where
  "athenz_reachable cfg r \<longleftrightarrow> (athenz_step cfg)\<^sup>*\<^sup>* run_start r"

lemma reachable_induct [consumes 1, case_names start step]:
  assumes "athenz_reachable cfg r" and "P run_start"
    and "\<And>r r'. athenz_reachable cfg r \<Longrightarrow> P r \<Longrightarrow> athenz_step cfg r r' \<Longrightarrow> P r'"
  shows "P r"
  using assms(1) unfolding athenz_reachable_def
  by (induction rule: rtranclp_induct) (use assms(2,3) in \<open>auto simp: athenz_reachable_def\<close>)

text \<open>What a call has been given so far.\<close>

definition call_result :: "manager_run \<Rightarrow> call \<Rightarrow> (athenz_error, string) result option" where
  "call_result r c =
     (let settled = (\<lambda>i. case tk_phase (am_tasks (mr_manager r) ! i) of Settled res \<Rightarrow> Some res | _ \<Rightarrow> None)
      in case cl_begun c of Answered res \<Rightarrow> Some res | Awaits i \<Rightarrow> settled i | Owns i \<Rightarrow> settled i)"

section \<open>Caches of sessions\<close>

lemma of_session_set_session:
  "of_session (set_session s c m) s' = (if gs_ref s = gs_ref s' then c else of_session m s')"
  by (simp add: of_session_def set_session_def update_conv')

definition caches :: "(nat \<Rightarrow> 'k \<Rightarrow> 'v \<Rightarrow> bool) \<Rightarrow> (nat \<times> ('k \<times> 'v) list) list \<Rightarrow> bool" where
  "caches P m \<longleftrightarrow> entries (\<lambda>ref. entries (P ref)) m"

lemma caches_Nil [simp]: "caches P []"
  by (simp add: caches_def)

lemma caches_of_session: "caches P m \<Longrightarrow> entries (P (gs_ref s)) (of_session m s)"
  by (auto simp: caches_def of_session_def split: option.splits dest: entries_lookup)

lemma caches_set_session: "caches P m \<Longrightarrow> entries (P (gs_ref s)) c \<Longrightarrow> caches P (set_session s c m)"
  by (auto simp: caches_def set_session_def)

lemma caches_mono: "caches P m \<Longrightarrow> (\<And>ref k v. P ref k v \<Longrightarrow> Q ref k v) \<Longrightarrow> caches Q m"
  unfolding caches_def by (erule entries_mono, erule entries_mono)

section \<open>What the caches hold\<close>

text \<open>The token really carries what its entry says.\<close>

definition carries :: "athenz_config \<Rightarrow> string \<Rightarrow> cached_token \<Rightarrow> bool" where
  "carries cfg name c \<longleftrightarrow> ct_token c \<noteq> [] \<and>
     (\<exists>cs e. az_decode cfg (ct_token c) = Inr cs \<and> token_scopes cs name = Inr (ct_scopes c) \<and>
        token_audiences (map_of cs ''aud'') name True = Inr (ct_audiences c) \<and>
        map_of cs ''exp'' = Some (JNum (Finite e)) \<and> ct_expiresAtMs c \<le> e * 1000)"

definition within_session :: "call list \<Rightarrow> nat \<Rightarrow> cached_token \<Rightarrow> bool" where
  "within_session calls ref c \<longleftrightarrow>
     (\<exists>cl \<in> set calls. gs_ref (cl_session cl) = ref \<and> ct_expiresAtMs c \<le> gs_expiresAt (cl_session cl) * 1000)"

definition access_entry :: "athenz_config \<Rightarrow> call list \<Rightarrow> nat \<Rightarrow> string \<Rightarrow> cached_token \<Rightarrow> bool" where
  "access_entry cfg calls ref key c \<longleftrightarrow>
     carries cfg ''Athenz access token'' c \<and> key = cache_key (ct_audiences c) (ct_scopes c) \<and> within_session calls ref c"

definition id_jag_entry :: "athenz_config \<Rightarrow> call list \<Rightarrow> nat \<Rightarrow> string \<Rightarrow> cached_token \<Rightarrow> bool" where
  "id_jag_entry cfg calls ref key c \<longleftrightarrow>
     carries cfg ''ID-JAG'' c \<and> key = cache_key (ct_audiences c) (ct_scopes c) \<and> within_session calls ref c \<and>
     ATHENZ_ZTS_AUDIENCE (az_env cfg) \<in> set (ct_audiences c)"

text \<open>A token serves a request: exactly its audience, and scopes that match one to one.\<close>

definition token_serves :: "athenz_config \<Rightarrow> string \<Rightarrow> string \<Rightarrow> string list \<Rightarrow> bool" where
  "token_serves cfg token audience requested \<longleftrightarrow> token \<noteq> [] \<and>
     (\<exists>cs scopes. az_decode cfg token = Inr cs \<and>
        token_scopes cs ''Athenz access token'' = Inr scopes \<and> scopes_exactly_match scopes requested \<and>
        token_audiences (map_of cs ''aud'') ''Athenz access token'' True = Inr [audience])"

definition task_sound :: "athenz_config \<Rightarrow> call list \<Rightarrow> task \<Rightarrow> bool" where
  "task_sound cfg calls t \<longleftrightarrow>
     (\<exists>c \<in> set calls. cl_session c = tk_session t) \<and>
     (\<forall>tk. tk_phase t = Settled (Inr tk) \<longrightarrow> token_serves cfg tk (tk_audience t) (tk_scopes t))"

definition tokens_inv :: "athenz_config \<Rightarrow> call list \<Rightarrow> athenz_manager \<Rightarrow> bool" where
  "tokens_inv cfg calls st \<longleftrightarrow>
     caches (access_entry cfg calls) (am_tokens st) \<and> caches (id_jag_entry cfg calls) (am_idJags st) \<and>
     list_all (task_sound cfg calls) (am_tasks st)"

lemma find_access_token_sub: "entries P cache \<Longrightarrow> entries P (snd (find_access_token now req aud cache))"
  by (induction now req aud cache rule: find_access_token.induct) (auto simp: Let_def split: prod.splits)

lemma find_access_token_Some:
  "fst (find_access_token now req aud cache) = Some c \<Longrightarrow>
     (\<exists>k. (k, c) \<in> set cache) \<and> now + token_expiry_skew_ms < ct_expiresAtMs c \<and>
     ct_audiences c = [aud] \<and> scopes_exactly_match (ct_scopes c) req"
  by (induction now req aud cache rule: find_access_token.induct)
     (auto simp: Let_def split: prod.splits if_splits)

lemma find_id_jag_sub: "entries P cache \<Longrightarrow> entries P (snd (find_id_jag aud now req cache))"
  by (auto simp: find_id_jag_def live_entries_def Let_def)

lemma find_id_jag_Some:
  assumes "fst (find_id_jag aud now req cache) = Some c"
  shows "(\<exists>k. (k, c) \<in> set cache) \<and> now + token_expiry_skew_ms < ct_expiresAtMs c \<and>
     aud \<in> set (ct_audiences c) \<and> scopes_cover (ct_scopes c) req"
proof -
  let ?ms = "filter (\<lambda>e. aud \<in> set (ct_audiences e) \<and> scopes_cover (ct_scopes e) req) (map snd (live_entries now cache))"
  obtain es where "sort_key (\<lambda>e. length (ct_scopes e)) ?ms = c # es"
    using assms unfolding find_id_jag_def Let_def
    by (cases "sort_key (\<lambda>e. length (ct_scopes e)) ?ms") simp_all
  from arg_cong [OF this, of set] have "c \<in> set ?ms" by auto
  then show ?thesis by (auto simp: live_entries_def)
qed

lemma entries_member: "entries P m \<Longrightarrow> (k, v) \<in> set m \<Longrightarrow> P k v"
  by (auto simp: entries_def)

text \<open>A grant that was read becomes a sound entry.\<close>

lemma grant_entry:
  assumes "read_token_grant (az_decode cfg) r name now (gs_expiresAt session) True = Inr g"
  shows "carries cfg name \<lparr>ct_token = tg_token g, ct_audiences = tg_audiences g, ct_cachedAtMs = m,
            ct_expiresAtMs = tg_expiresAtMs g, ct_scopes = tg_scopes g\<rparr>"
    and "cl \<in> set calls \<Longrightarrow> cl_session cl = session \<Longrightarrow>
         within_session calls (gs_ref session) \<lparr>ct_token = tg_token g, ct_audiences = tg_audiences g,
            ct_cachedAtMs = m, ct_expiresAtMs = tg_expiresAtMs g, ct_scopes = tg_scopes g\<rparr>"
  using read_token_grant_Inr [OF assms] read_token_grant_token [OF assms]
  by (auto simp: carries_def within_session_def)

section \<open>Every step keeps the caches sound\<close>

lemma inv_more_calls:
  "tokens_inv cfg calls st \<Longrightarrow> tokens_inv cfg (c # calls) st"
  unfolding tokens_inv_def
  by (auto simp: access_entry_def id_jag_entry_def within_session_def task_sound_def
      elim!: caches_mono list.pred_mono_strong)

lemma issue_begin_inv:
  assumes inv: "tokens_inv cfg calls st" and st': "issue_begin cfg now1 now2 session req aud st = (p, st')"
  shows "tokens_inv cfg calls st'" "am_tokens st' = am_tokens st" "am_tasks st' = am_tasks st"
    "am_inFlight st' = am_inFlight st" "p \<noteq> Settled (Inr tk)"
proof -
  obtain cached jags where found: "find_id_jag (ATHENZ_ZTS_AUDIENCE (az_env cfg)) now1 req
     (of_session (am_idJags st) session) = (cached, jags)" by fastforce
  have "entries (id_jag_entry cfg calls (gs_ref session)) (of_session (am_idJags st) session)"
    using inv by (auto simp: tokens_inv_def intro: caches_of_session)
  from find_id_jag_sub [OF this] found have "entries (id_jag_entry cfg calls (gs_ref session)) jags"
    by (metis snd_conv)
  with inv st' found show "tokens_inv cfg calls st'" "am_tokens st' = am_tokens st"
    "am_tasks st' = am_tasks st" "am_inFlight st' = am_inFlight st" "p \<noteq> Settled (Inr tk)"
    by (auto simp: issue_begin_def tokens_inv_def Let_def intro: caches_set_session split: option.splits if_splits)
qed

lemma id_jag_answer_inv:
  assumes inv: "tokens_inv cfg calls st" and cl: "cl \<in> set calls" "cl_session cl = session"
    and st': "id_jag_answer cfg now1 now2 session req aud answer st = (p, st')"
  shows "tokens_inv cfg calls st'" "am_tokens st' = am_tokens st" "am_tasks st' = am_tasks st"
    "am_inFlight st' = am_inFlight st" "p \<noteq> Settled (Inr tk)"
proof -
  have "entries (id_jag_entry cfg calls (gs_ref session)) (cache_grant g now2 (of_session (am_idJags st) session))"
    if "read_token_grant (az_decode cfg) r ''ID-JAG'' now1 (gs_expiresAt session) True = Inr g"
      "ATHENZ_ZTS_AUDIENCE (az_env cfg) \<in> set (tg_audiences g)" for r g
    using inv grant_entry [OF that(1)] cl that(2)
    by (auto simp: tokens_inv_def cache_grant_def id_jag_entry_def intro!: entries_update caches_of_session)
  with inv st' show "tokens_inv cfg calls st'" "am_tokens st' = am_tokens st"
    "am_tasks st' = am_tasks st" "am_inFlight st' = am_inFlight st" "p \<noteq> Settled (Inr tk)"
    by (auto simp: id_jag_answer_def tokens_inv_def Let_def intro!: caches_set_session
        split: if_splits post_result.splits sum.splits)
qed

lemma access_answer_inv:
  assumes inv: "tokens_inv cfg calls st" and cl: "cl \<in> set calls" "cl_session cl = session"
    and st': "access_answer cfg now1 now2 session req aud answer st = (p, st')"
  shows "tokens_inv cfg calls st'" "am_tasks st' = am_tasks st" "am_inFlight st' = am_inFlight st"
    "p = Inr tk \<Longrightarrow> token_serves cfg tk aud req"
proof -
  have ent: "entries (access_entry cfg calls (gs_ref session)) (cache_grant g now2 (of_session (am_tokens st) session))"
    if "read_token_grant (az_decode cfg) r ''Athenz access token'' now1 (gs_expiresAt session) True = Inr g" for r g
    using inv grant_entry [OF that(1)] cl
    by (auto simp: tokens_inv_def cache_grant_def access_entry_def intro!: entries_update caches_of_session)
  with inv st' show "tokens_inv cfg calls st'" "am_tasks st' = am_tasks st" "am_inFlight st' = am_inFlight st"
    by (auto simp: access_answer_def tokens_inv_def Let_def intro!: caches_set_session
        split: if_splits post_result.splits sum.splits)
  show "p = Inr tk \<Longrightarrow> token_serves cfg tk aud req"
    using st'
    by (auto simp: access_answer_def token_serves_def read_token_grant_token Let_def dest: read_token_grant_Inr(5)
        split: if_splits post_result.splits sum.splits)
qed

lemma task_answered_inv:
  assumes inv: "tokens_inv cfg calls st" and i: "i < length (am_tasks st)"
  shows "tokens_inv cfg calls (task_answered cfg now1 now2 i answer st)"
proof -
  let ?t = "am_tasks st ! i"
  from inv i have t: "task_sound cfg calls ?t" by (simp add: tokens_inv_def list_all_length)
  then obtain cl where cl: "cl \<in> set calls" "cl_session cl = tk_session ?t" by (auto simp: task_sound_def)
  have put: "tokens_inv cfg calls (st'\<lparr>am_tasks := (am_tasks st')[i := ?t\<lparr>tk_phase := ph\<rparr>]\<rparr>)"
    if "tokens_inv cfg calls st'" "\<And>tk. ph = Settled (Inr tk) \<Longrightarrow> token_serves cfg tk (tk_audience ?t) (tk_scopes ?t)"
    for st' ph
    using that t
    by (auto simp: tokens_inv_def task_sound_def list_all_iff dest!: set_update_subset_insert [THEN subsetD])
  show ?thesis
  proof (cases "tk_phase ?t")
    case (Wait_Id_Jag form)
    obtain ph st' where a: "id_jag_answer cfg now1 now2 (tk_session ?t) (tk_scopes ?t) (tk_audience ?t) answer st = (ph, st')"
      by fastforce
    from put [OF id_jag_answer_inv(1) [OF inv cl a], of ph] id_jag_answer_inv(5) [OF inv cl a] Wait_Id_Jag a
    show ?thesis by (simp add: task_answered_def Let_def)
  next
    case (Wait_Access form)
    obtain r st' where a: "access_answer cfg now1 now2 (tk_session ?t) (tk_scopes ?t) (tk_audience ?t) answer st = (r, st')"
      by fastforce
    from put [OF access_answer_inv(1) [OF inv cl a], of "Settled r"] access_answer_inv(4) [OF inv cl a] Wait_Access a
    show ?thesis by (simp add: task_answered_def Let_def)
  next
    case (Settled r)
    with inv show ?thesis by (simp add: task_answered_def Let_def)
  qed
qed

lemma task_finally_inv:
  assumes "tokens_inv cfg calls st" "i < length (am_tasks st)"
  shows "tokens_inv cfg calls (task_finally i st)"
  using assms
  by (auto simp: tokens_inv_def task_finally_def task_sound_def list_all_length nth_list_update Let_def)

text \<open>The four ways a call can begin.\<close>

lemma get_access_token_begin_cases:
  assumes "get_access_token_begin cfg now1 now2 now3 session scope audience st = (b, st')"
  obtains (error) e where "b = Answered (Inl e)" "st' = st"
  | (cached) aud c tokens where "access_token_audience scope audience = Inr aud"
      "find_access_token now1 (scope_values scope) aud (of_session (am_tokens st) session) = (Some c, tokens)"
      "b = Answered (Inr (ct_token c))" "st' = st\<lparr>am_tokens := set_session session tokens (am_tokens st)\<rparr>"
  | (joins) aud tokens i where "access_token_audience scope audience = Inr aud"
      "find_access_token now1 (scope_values scope) aud (of_session (am_tokens st) session) = (None, tokens)"
      "map_of (of_session (am_inFlight st) session) (cache_key [aud] (scope_values scope)) = Some i"
      "b = Awaits i" "st' = st\<lparr>am_tokens := set_session session tokens (am_tokens st)\<rparr>"
  | (issues) aud tokens ph st2 where "access_token_audience scope audience = Inr aud"
      "find_access_token now1 (scope_values scope) aud (of_session (am_tokens st) session) = (None, tokens)"
      "map_of (of_session (am_inFlight st) session) (cache_key [aud] (scope_values scope)) = None"
      "issue_begin cfg now2 now3 session (scope_values scope) aud
         (st\<lparr>am_tokens := set_session session tokens (am_tokens st)\<rparr>) = (ph, st2)"
      "b = Owns (length (am_tasks st2))"
      "st' = st2\<lparr>am_tasks := am_tasks st2 @ [\<lparr>tk_session = session, tk_scopes = scope_values scope,
         tk_audience = aud, tk_phase = ph, tk_finished = False\<rparr>],
       am_inFlight := set_session session (AList.update (cache_key [aud] (scope_values scope))
         (length (am_tasks st2)) (of_session (am_inFlight st) session)) (am_inFlight st2)\<rparr>"
proof (cases "access_token_audience scope audience")
  case (Inl e)
  with assms show ?thesis by (intro that(1) [of e]) (auto simp: get_access_token_begin_def)
next
  case (Inr aud)
  note aud = this
  show ?thesis
  proof (cases "normalize_scope scope")
    case (Inl e)
    with assms aud show ?thesis by (intro that(1) [of e]) (auto simp: get_access_token_begin_def)
  next
    case (Inr n)
    with normalize_scope_Inr have n: "scope_values n = scope_values scope" by blast
    obtain found tokens where f: "find_access_token now1 (scope_values scope) aud (of_session (am_tokens st) session) = (found, tokens)"
      by fastforce
    show ?thesis
    proof (cases found)
      case (Some c)
      with assms aud Inr n f show ?thesis
          by (intro that(2) [of aud c tokens]) (auto simp: get_access_token_begin_def Let_def)
    next
      case None
      show ?thesis
      proof (cases "map_of (of_session (am_inFlight st) session) (cache_key [aud] (scope_values scope))")
        case (Some i)
        with assms aud Inr n f None show ?thesis
          by (intro that(3) [of aud tokens i]) (auto simp: get_access_token_begin_def Let_def)
      next
        case none: None
        obtain ph st2 where ib: "issue_begin cfg now2 now3 session (scope_values scope) aud
            (st\<lparr>am_tokens := set_session session tokens (am_tokens st)\<rparr>) = (ph, st2)" by fastforce
        with assms aud Inr n f None none show ?thesis
          by (intro that(4) [of aud tokens ph st2]) (auto simp: get_access_token_begin_def Let_def)
      qed
    qed
  qed
qed

section \<open>What running issuances are registered\<close>

definition registered_at :: "athenz_manager \<Rightarrow> gateway_session \<Rightarrow> string \<Rightarrow> nat option" where
  "registered_at st s k = map_of (of_session (am_inFlight st) s) k"

definition in_flight_inv :: "athenz_manager \<Rightarrow> bool" where
  "in_flight_inv st \<longleftrightarrow>
     (\<forall>s k i. registered_at st s k = Some i \<longrightarrow> i < length (am_tasks st) \<and>
        gs_ref (tk_session (am_tasks st ! i)) = gs_ref s \<and> task_key (am_tasks st ! i) = k) \<and>
     (\<forall>i < length (am_tasks st). \<not> tk_finished (am_tasks st ! i) \<longrightarrow>
        registered_at st (tk_session (am_tasks st ! i)) (task_key (am_tasks st ! i)) = Some i)"

text \<open>What identifies a task never changes.\<close>

definition same_task :: "task \<Rightarrow> task \<Rightarrow> bool" where
  "same_task t t' \<longleftrightarrow> tk_session t' = tk_session t \<and> tk_scopes t' = tk_scopes t \<and> tk_audience t' = tk_audience t"

lemma same_task_refl [simp]: "same_task t t"
  by (simp add: same_task_def)

lemma task_answered_tasks:
  "length (am_tasks (task_answered cfg now1 now2 i answer st)) = length (am_tasks st) \<and>
   am_inFlight (task_answered cfg now1 now2 i answer st) = am_inFlight st \<and>
   (j < length (am_tasks st) \<longrightarrow>
      same_task (am_tasks st ! j) (am_tasks (task_answered cfg now1 now2 i answer st) ! j) \<and>
      tk_finished (am_tasks (task_answered cfg now1 now2 i answer st) ! j) = tk_finished (am_tasks st ! j))"
proof -
  have jag: "am_tasks (snd (id_jag_answer cfg now1 now2 s req aud answer st)) = am_tasks st \<and>
    am_inFlight (snd (id_jag_answer cfg now1 now2 s req aud answer st)) = am_inFlight st" for s req aud
    by (simp add: id_jag_answer_def Let_def split: post_result.splits sum.splits)
  have acc: "am_tasks (snd (access_answer cfg now1 now2 s req aud answer st)) = am_tasks st \<and>
    am_inFlight (snd (access_answer cfg now1 now2 s req aud answer st)) = am_inFlight st" for s req aud
    by (simp add: access_answer_def Let_def split: post_result.splits sum.splits)
  show ?thesis
    by (cases "tk_phase (am_tasks st ! i)"; cases "i = j")
       (auto simp: task_answered_def Let_def split_beta jag acc same_task_def)
qed

lemma same_task_key: "same_task t t' \<Longrightarrow> task_key t' = task_key t \<and> tk_session t' = tk_session t"
  by (simp add: same_task_def task_key_def)

lemma in_flight_answered:
  assumes "in_flight_inv st"
  shows "in_flight_inv (task_answered cfg now1 now2 i answer st)"
proof -
  note step = task_answered_tasks [of cfg now1 now2 i answer st]
  have "registered_at (task_answered cfg now1 now2 i answer st) = registered_at st"
    by (intro ext) (simp add: registered_at_def step)
  moreover have "task_key (am_tasks (task_answered cfg now1 now2 i answer st) ! j) = task_key (am_tasks st ! j) \<and>
      tk_session (am_tasks (task_answered cfg now1 now2 i answer st) ! j) = tk_session (am_tasks st ! j)"
    if "j < length (am_tasks st)" for j
    using step [of j] that by (auto dest: same_task_key)
  ultimately show ?thesis using assms step
    unfolding in_flight_inv_def by (metis (no_types, lifting))
qed

lemma in_flight_finally:
  assumes inv: "in_flight_inv st" and i: "i < length (am_tasks st)" "\<not> tk_finished (am_tasks st ! i)"
  shows "in_flight_inv (task_finally i st)"
proof -
  let ?t = "am_tasks st ! i" and ?st = "task_finally i st"
  have reg: "registered_at ?st s k =
      (if gs_ref s = gs_ref (tk_session ?t) \<and> k = task_key ?t then None else registered_at st s k)" for s k
  proof (cases "gs_ref (tk_session ?t) = gs_ref s")
    case True
    then have "of_session (am_inFlight st) s = of_session (am_inFlight st) (tk_session ?t)"
      by (simp add: of_session_def)
    with True show ?thesis
      by (simp add: registered_at_def task_finally_def Let_def of_session_set_session delete_conv')
  next
    case False
    then show ?thesis by (simp add: registered_at_def task_finally_def Let_def of_session_set_session)
  qed
  have len: "length (am_tasks ?st) = length (am_tasks st)" by (simp add: task_finally_def Let_def)
  have same: "tk_session (am_tasks ?st ! j) = tk_session (am_tasks st ! j)"
    "task_key (am_tasks ?st ! j) = task_key (am_tasks st ! j)"
    "tk_finished (am_tasks ?st ! j) \<longleftrightarrow> tk_finished (am_tasks st ! j) \<or> j = i"
    if "j < length (am_tasks st)" for j
    using that i by (auto simp: task_finally_def Let_def nth_list_update task_key_def)
  have own: "registered_at st (tk_session ?t) (task_key ?t) = Some i"
    using inv i by (auto simp: in_flight_inv_def)
  have clash: "registered_at st s (task_key ?t) = Some i" if "gs_ref s = gs_ref (tk_session ?t)" for s
  proof -
    from that have "of_session (am_inFlight st) s = of_session (am_inFlight st) (tk_session ?t)"
      by (simp only: of_session_def)
    with own show ?thesis by (simp only: registered_at_def)
  qed
  have fwd: "registered_at ?st s k = Some j \<Longrightarrow> registered_at st s k = Some j" for s k j
    by (simp add: reg split: if_splits)
  have bwd: "registered_at ?st (tk_session (am_tasks st ! j)) (task_key (am_tasks st ! j)) = Some j"
    if "j < length (am_tasks st)" "\<not> tk_finished (am_tasks st ! j)" "j \<noteq> i" for j
  proof -
    have own': "registered_at st (tk_session (am_tasks st ! j)) (task_key (am_tasks st ! j)) = Some j"
      using inv that(1,2) unfolding in_flight_inv_def by blast
    have "\<not> (gs_ref (tk_session (am_tasks st ! j)) = gs_ref (tk_session ?t) \<and> task_key (am_tasks st ! j) = task_key ?t)"
      using clash [of "tk_session (am_tasks st ! j)"] own' that(3) by (metis option.inject)
    with own' show ?thesis by (simp only: reg if_False)
  qed
  have a: "j < length (am_tasks st) \<and> gs_ref (tk_session (am_tasks st ! j)) = gs_ref s \<and> task_key (am_tasks st ! j) = k"
    if "registered_at ?st s k = Some j" for s k j
    using fwd [OF that] inv by (auto simp: in_flight_inv_def)
  show ?thesis
    unfolding in_flight_inv_def len
  proof (intro conjI allI impI)
    fix s k j assume "registered_at ?st s k = Some j"
    from a [OF this] same [of j] show "j < length (am_tasks st)"
      "gs_ref (tk_session (am_tasks ?st ! j)) = gs_ref s" "task_key (am_tasks ?st ! j) = k" by auto
  next
    fix j assume j: "j < length (am_tasks st)" "\<not> tk_finished (am_tasks ?st ! j)"
    with bwd [of j] same [OF j(1)]
    show "registered_at ?st (tk_session (am_tasks ?st ! j)) (task_key (am_tasks ?st ! j)) = Some j" by simp
  qed
qed

lemma in_flight_begin:
  assumes inv: "in_flight_inv st"
    and b: "get_access_token_begin cfg now1 now2 now3 session scope audience st = (b, st')"
  shows "in_flight_inv st'"
  using b
proof (cases rule: get_access_token_begin_cases)
  case (issues aud tokens ph st2)
  let ?k = "cache_key [aud] (scope_values scope)"
  let ?new = "\<lparr>tk_session = session, tk_scopes = scope_values scope, tk_audience = aud, tk_phase = ph, tk_finished = False\<rparr>"
  have st2: "am_tasks st2 = am_tasks st" "am_inFlight st2 = am_inFlight st"
    using issues(4) by (auto simp: issue_begin_def Let_def split: prod.splits option.splits if_splits)
  have tasks: "am_tasks st' = am_tasks st @ [?new]" using issues(6) st2 by simp
  have reg: "registered_at st' s k =
      (if gs_ref s = gs_ref session \<and> k = ?k then Some (length (am_tasks st)) else registered_at st s k)" for s k
  proof (cases "gs_ref session = gs_ref s")
    case True
    then have "of_session (am_inFlight st) s = of_session (am_inFlight st) session" by (simp add: of_session_def)
    with True issues(6) st2 show ?thesis
      by (simp add: registered_at_def of_session_set_session update_conv')
  next
    case False
    with issues(6) st2 show ?thesis by (simp add: registered_at_def of_session_set_session)
  qed
  have key: "task_key ?new = ?k" by (simp add: task_key_def)
  have free: "registered_at st s k = None" if "gs_ref s = gs_ref session" "k = ?k" for s k
    using issues(3) that by (simp add: registered_at_def of_session_def)
  have old: "registered_at st' (tk_session (am_tasks st ! j)) (task_key (am_tasks st ! j)) = Some j"
    if "j < length (am_tasks st)" "\<not> tk_finished (am_tasks st ! j)" for j
  proof -
    from inv that have "registered_at st (tk_session (am_tasks st ! j)) (task_key (am_tasks st ! j)) = Some j"
      by (auto simp: in_flight_inv_def)
    with free [of "tk_session (am_tasks st ! j)" "task_key (am_tasks st ! j)"] show ?thesis by (auto simp: reg)
  qed
  show ?thesis
    unfolding in_flight_inv_def
  proof (intro conjI allI impI)
    fix s k i assume r: "registered_at st' s k = Some i"
    show "i < length (am_tasks st')"
      using r inv unfolding reg tasks in_flight_inv_def by (auto split: if_splits simp: less_Suc_eq)
    show "gs_ref (tk_session (am_tasks st' ! i)) = gs_ref s"
      using r inv unfolding reg tasks in_flight_inv_def by (auto split: if_splits simp: nth_append)
    show "task_key (am_tasks st' ! i) = k"
      using r inv key unfolding reg tasks in_flight_inv_def by (auto split: if_splits simp: nth_append)
  next
    fix i assume "i < length (am_tasks st')" "\<not> tk_finished (am_tasks st' ! i)"
    then show "registered_at st' (tk_session (am_tasks st' ! i)) (task_key (am_tasks st' ! i)) = Some i"
      using old [of i] key by (auto simp: tasks nth_append reg less_Suc_eq)
  qed
qed (use inv in \<open>simp_all add: in_flight_inv_def registered_at_def\<close>)

section \<open>What a call is given\<close>

definition on_task :: "athenz_manager \<Rightarrow> call \<Rightarrow> nat \<Rightarrow> bool" where
  "on_task st c i \<longleftrightarrow> i < length (am_tasks st) \<and> tk_session (am_tasks st ! i) = cl_session c \<and>
     tk_scopes (am_tasks st ! i) = scope_values (cl_scope c) \<and>
     access_token_audience (cl_scope c) (cl_audience c) = Inr (tk_audience (am_tasks st ! i))"

definition call_sound :: "athenz_config \<Rightarrow> athenz_manager \<Rightarrow> call \<Rightarrow> bool" where
  "call_sound cfg st c \<longleftrightarrow>
     (case cl_begun c of
        Answered (Inl e) \<Rightarrow> True
      | Answered (Inr tk) \<Rightarrow> \<exists>aud. access_token_audience (cl_scope c) (cl_audience c) = Inr aud \<and>
          token_serves cfg tk aud (scope_values (cl_scope c))
      | Awaits i \<Rightarrow> on_task st c i
      | Owns i \<Rightarrow> on_task st c i)"

definition run_inv :: "athenz_config \<Rightarrow> manager_run \<Rightarrow> bool" where
  "run_inv cfg r \<longleftrightarrow>
     tokens_inv cfg (mr_calls r) (mr_manager r) \<and> in_flight_inv (mr_manager r) \<and>
     list_all (call_sound cfg (mr_manager r)) (mr_calls r)"

definition extends_tasks :: "athenz_manager \<Rightarrow> athenz_manager \<Rightarrow> bool" where
  "extends_tasks st st' \<longleftrightarrow> length (am_tasks st) \<le> length (am_tasks st') \<and>
     (\<forall>i < length (am_tasks st). same_task (am_tasks st ! i) (am_tasks st' ! i))"

lemma call_sound_extends: "extends_tasks st st' \<Longrightarrow> call_sound cfg st c \<Longrightarrow> call_sound cfg st' c"
  by (auto simp: call_sound_def on_task_def extends_tasks_def same_task_def split: begun.splits sum.splits)

lemma extends_answered: "extends_tasks st (task_answered cfg now1 now2 i answer st)"
  using task_answered_tasks [of cfg now1 now2 i answer st] by (simp add: extends_tasks_def)

lemma extends_finally: "i < length (am_tasks st) \<Longrightarrow> extends_tasks st (task_finally i st)"
  by (auto simp: extends_tasks_def task_finally_def Let_def nth_list_update same_task_def)

lemma begin_tokens_inv:
  assumes inv: "tokens_inv cfg calls st" and cl: "cl \<in> set calls" "cl_session cl = session"
    and b: "get_access_token_begin cfg now1 now2 now3 session scope audience st = (b, st')"
  shows "tokens_inv cfg calls st'"
proof -
  have found: "tokens_inv cfg calls (st\<lparr>am_tokens := set_session session tokens (am_tokens st)\<rparr>)"
    if "find_access_token now1 req aud (of_session (am_tokens st) session) = (found, tokens)" for req aud found tokens
  proof -
    have "entries (access_entry cfg calls (gs_ref session)) (of_session (am_tokens st) session)"
      using inv by (auto simp: tokens_inv_def intro: caches_of_session)
    from find_access_token_sub [OF this, of now1 req aud] that inv show ?thesis
      by (auto simp: tokens_inv_def intro: caches_set_session)
  qed
  from b show ?thesis
  proof (cases rule: get_access_token_begin_cases)
    case (issues aud tokens ph st2)
    note st2 = issue_begin_inv [OF found [OF issues(2)] issues(4)]
    with issues(6) cl show ?thesis by (auto simp: tokens_inv_def task_sound_def)
  qed (use inv found in \<open>simp_all\<close>)
qed

lemma begin_extends:
  assumes "get_access_token_begin cfg now1 now2 now3 session scope audience st = (b, st')"
  shows "extends_tasks st st'"
  using assms
proof (cases rule: get_access_token_begin_cases)
  case (issues aud tokens ph st2)
  have "am_tasks st2 = am_tasks st"
    using issues(4) by (auto simp: issue_begin_def Let_def split: prod.splits option.splits if_splits)
  with issues(6) show ?thesis by (auto simp: extends_tasks_def nth_append)
qed (auto simp: extends_tasks_def)

text \<open>The key of a joined issuance determines its audience and scopes, and so the request.\<close>

lemma begin_call_sound:
  assumes inv: "tokens_inv cfg calls st" "in_flight_inv st" and same: "same_object session calls"
    and b: "get_access_token_begin cfg now1 now2 now3 session scope audience st = (b, st')"
  shows "call_sound cfg st' \<lparr>cl_session = session, cl_scope = scope, cl_audience = audience,
           cl_time = now1, cl_begun = b\<rparr>"
  using b
proof (cases rule: get_access_token_begin_cases)
  case (error e)
  then show ?thesis by (simp add: call_sound_def)
next
  case (cached aud c tokens)
  from find_access_token_Some [of now1 "scope_values scope" aud _ c] cached(2) obtain k
    where c: "(k, c) \<in> set (of_session (am_tokens st) session)" "ct_audiences c = [aud]"
      "scopes_exactly_match (ct_scopes c) (scope_values scope)" by (metis fst_conv)
  have "entries (access_entry cfg calls (gs_ref session)) (of_session (am_tokens st) session)"
    using inv(1) by (auto simp: tokens_inv_def intro: caches_of_session)
  from entries_member [OF this c(1)] c(2,3) cached show ?thesis
    by (auto simp: call_sound_def access_entry_def carries_def token_serves_def)
next
  case (joins aud tokens i)
  from joins(3) have r: "registered_at st session (cache_key [aud] (scope_values scope)) = Some i"
    by (simp add: registered_at_def)
  with inv(2) have i: "i < length (am_tasks st)" "gs_ref (tk_session (am_tasks st ! i)) = gs_ref session"
    "task_key (am_tasks st ! i) = cache_key [aud] (scope_values scope)"
    by (auto simp: in_flight_inv_def)
  from i(1) inv(1) obtain cl where cl: "cl \<in> set calls" "cl_session cl = tk_session (am_tasks st ! i)"
    by (auto simp: tokens_inv_def list_all_length task_sound_def)
  with same i(2) have "tk_session (am_tasks st ! i) = session"
    by (auto simp: same_object_def list_all_iff)
  with joins i show ?thesis
    by (simp add: call_sound_def on_task_def task_key_def cache_key_inj)
next
  case (issues aud tokens ph st2)
  then show ?thesis by (simp add: call_sound_def on_task_def)
qed

lemma run_inv_step:
  assumes inv: "run_inv cfg r" and step: "athenz_step cfg r r'"
  shows "run_inv cfg r'"
  using step
proof (cases rule: athenz_stepE)
  case (call session now1 now2 now3 scope audience b st)
  let ?c = "\<lparr>cl_session = session, cl_scope = scope, cl_audience = audience, cl_time = now1, cl_begun = b\<rparr>"
  from inv have toks: "tokens_inv cfg (mr_calls r) (mr_manager r)" and fl: "in_flight_inv (mr_manager r)"
    and calls: "list_all (call_sound cfg (mr_manager r)) (mr_calls r)" by (auto simp: run_inv_def)
  have "tokens_inv cfg (?c # mr_calls r) st"
    by (rule begin_tokens_inv [OF inv_more_calls [OF toks], of ?c, OF _ _ call(3)]) auto
  moreover have "in_flight_inv st" by (rule in_flight_begin [OF fl call(3)])
  moreover have "call_sound cfg st ?c" by (rule begin_call_sound [OF toks fl call(2,3)])
  moreover have "list_all (call_sound cfg st) (mr_calls r)"
    using calls call_sound_extends [OF begin_extends [OF call(3)]] by (auto simp: list_all_iff)
  ultimately show ?thesis by (simp add: run_inv_def call(1))
next
  case (answer i now1 now2 answer)
  with inv show ?thesis
    using task_answered_inv in_flight_answered call_sound_extends [OF extends_answered]
    by (auto simp: run_inv_def list_all_iff)
next
  case (settle i result)
  with inv show ?thesis
    using task_finally_inv in_flight_finally call_sound_extends [OF extends_finally]
    by (auto simp: run_inv_def list_all_iff)
qed

lemma run_inv_start: "run_inv cfg run_start"
  by (auto simp: run_start_def run_inv_def tokens_inv_def in_flight_inv_def athenz_manager_start_def
      registered_at_def of_session_def)

lemma reachable_inv: "athenz_reachable cfg r \<Longrightarrow> run_inv cfg r"
  by (induction rule: reachable_induct) (auto intro: run_inv_step run_inv_start)

lemma call_token_serves:
  assumes "athenz_reachable cfg r" and "c \<in> set (mr_calls r)" and "call_result r c = Some (Inr tk)"
  shows "\<exists>aud. access_token_audience (cl_scope c) (cl_audience c) = Inr aud \<and>
      token_serves cfg tk aud (scope_values (cl_scope c))"
proof -
  from reachable_inv [OF assms(1)] assms(2)
  have c: "call_sound cfg (mr_manager r) c" and t: "list_all (task_sound cfg (mr_calls r)) (am_tasks (mr_manager r))"
    by (auto simp: run_inv_def tokens_inv_def list_all_iff)
  then show ?thesis
    using assms(3)
    by (auto simp: call_sound_def call_result_def on_task_def task_sound_def list_all_length Let_def
        split: begun.splits issuance.splits)
qed

section \<open>The properties\<close>

text \<open>A sample run: one call, answered by an ID-JAG and an access token.\<close>

definition do_call ::
  "athenz_config \<Rightarrow> rat \<Rightarrow> gateway_session \<Rightarrow> string \<Rightarrow> string option \<Rightarrow> manager_run \<Rightarrow> manager_run" where
  "do_call cfg now session scope audience r =
     (let (b, st) = get_access_token_begin cfg now now now session scope audience (mr_manager r)
      in \<lparr>mr_manager = st, mr_calls = \<lparr>cl_session = session, cl_scope = scope,
            cl_audience = audience, cl_time = now, cl_begun = b\<rparr> # mr_calls r\<rparr>)"

lemma reach_call:
  "athenz_reachable cfg r \<Longrightarrow> same_object session (mr_calls r) \<Longrightarrow>
   athenz_reachable cfg (do_call cfg now session scope audience r)"
  unfolding athenz_reachable_def do_call_def Let_def
  by (rule rtranclp.rtrancl_into_rtrancl, assumption) (auto split: prod.splits intro: step_call)

lemma reach_answer:
  "athenz_reachable cfg r \<Longrightarrow> i < length (am_tasks (mr_manager r)) \<Longrightarrow>
   athenz_reachable cfg (r\<lparr>mr_manager := task_answered cfg now1 now2 i answer (mr_manager r)\<rparr>)"
  unfolding athenz_reachable_def by (blast intro: rtranclp.rtrancl_into_rtrancl step_answer)

lemma reach_start: "athenz_reachable cfg run_start"
  by (simp add: athenz_reachable_def)

definition sample_decode :: "string \<Rightarrow> (string, claims) result" where
  "sample_decode t =
     (if t = ''jag'' then Inr [(''aud'', JStr (ATHENZ_ZTS_AUDIENCE sample_env)),
        (''scp'', JArr [JStr ''api:role.reader'']), (''exp'', JNum (Finite 9000))]
      else if t = ''at'' then Inr [(''aud'', JStr ''api''), (''scp'', JArr [JStr ''reader'']),
        (''exp'', JNum (Finite 9000))]
      else Inl ''Invalid JWT'')"

definition sample_athenz :: athenz_config where
  "sample_athenz = \<lparr>az_env = sample_env, az_decode = sample_decode\<rparr>"

definition sample_response :: "string \<Rightarrow> token_response" where
  "sample_response token = \<lparr>tr_access_token = Some (JStr token), tr_expires_in = None,
     tr_scope = None, tr_error = None, tr_error_description = None\<rparr>"

definition sample_run1 :: manager_run where
  "sample_run1 = do_call sample_athenz 1000 sample_session ''api:role.reader'' (Some ''api'') run_start"

definition sample_run2 :: manager_run where
  "sample_run2 = sample_run1\<lparr>mr_manager := task_answered sample_athenz 2000 2000 0
     (Post_Response (sample_response ''jag'')) (mr_manager sample_run1)\<rparr>"

definition sample_run3 :: manager_run where
  "sample_run3 = sample_run2\<lparr>mr_manager := task_answered sample_athenz 3000 3000 0
     (Post_Response (sample_response ''at'')) (mr_manager sample_run2)\<rparr>"

definition sample_grant :: "string \<Rightarrow> string \<Rightarrow> string \<Rightarrow> token_grant" where
  "sample_grant token aud scope = \<lparr>tg_token = token, tg_audiences = [aud], tg_scopes = [scope], tg_expiresAtMs = 9000000\<rparr>"

lemma sample_values:
  "access_token_audience ''api:role.reader'' (Some ''api'') = Inr ''api''"
  "normalize_scope ''api:role.reader'' = Inr ''api:role.reader''"
  "scope_values ''api:role.reader'' = [''api:role.reader'']"
  "is_identity_token_failure (Post_Response (sample_response ''jag'')) = False"
  "scopes_cover [''api:role.reader''] [''api:role.reader'']"
  "scopes_exactly_match [''reader''] [''api:role.reader'']"
  by code_simp+

lemma sample_grants:
  "read_token_grant sample_decode (sample_response ''jag'') ''ID-JAG'' 2000 28804 True
     = Inr (sample_grant ''jag'' (ATHENZ_ZTS_AUDIENCE sample_env) ''api:role.reader'')"
  "read_token_grant sample_decode (sample_response ''at'') ''Athenz access token'' 3000 28804 True
     = Inr (sample_grant ''at'' ''api'' ''reader'')"
  by code_simp+

lemma sample_run1_manager:
  "mr_manager sample_run1 = \<lparr>am_tokens = [(7, [])], am_idJags = [(7, [])],
     am_inFlight = [(7, [(cache_key [''api''] [''api:role.reader''], 0)])],
     am_tasks = [\<lparr>tk_session = sample_session, tk_scopes = [''api:role.reader''], tk_audience = ''api'',
        tk_phase = Wait_Id_Jag (id_jag_form sample_env sample_session [''api:role.reader'']),
        tk_finished = False\<rparr>]\<rparr>"
  by (simp add: sample_run1_def do_call_def run_start_def athenz_manager_start_def
      get_access_token_begin_def issue_begin_def find_id_jag_def live_entries_def of_session_def set_session_def
      sample_values sample_athenz_def sample_session_def token_expiry_skew_ms_def Let_def split_beta)

lemma sample_run2_task:
  "am_tasks (mr_manager sample_run2) ! 0 = \<lparr>tk_session = sample_session, tk_scopes = [''api:role.reader''],
     tk_audience = ''api'', tk_phase = Wait_Access (access_token_form sample_env ''jag'' [''api:role.reader''] ''api''),
     tk_finished = False\<rparr>"
  "length (am_tasks (mr_manager sample_run2)) = 1"
  by (simp_all add: sample_run2_def sample_run1_manager task_answered_def id_jag_answer_def sample_values
      sample_athenz_def sample_grants [simplified sample_grant_def] sample_session_def equivalent_scope_def
      Let_def split_beta)

lemma sample_run3_task:
  "tk_phase (am_tasks (mr_manager sample_run3) ! 0) = Settled (Inr ''at'')"
  "length (am_tasks (mr_manager sample_run3)) = 1"
proof -
  have "access_answer sample_athenz 3000 3000 sample_session [''api:role.reader''] ''api''
          (Post_Response (sample_response ''at'')) st =
        (Inr ''at'', st\<lparr>am_tokens := set_session sample_session (cache_grant (sample_grant ''at'' ''api'' ''reader'') 3000
            (of_session (am_tokens st) sample_session)) (am_tokens st)\<rparr>)" for st
    by (simp add: access_answer_def sample_athenz_def sample_session_def sample_grants Let_def)
       (simp add: sample_grant_def sample_values)
  with sample_run2_task show "tk_phase (am_tasks (mr_manager sample_run3) ! 0) = Settled (Inr ''at'')"
    "length (am_tasks (mr_manager sample_run3)) = 1"
    by (simp_all add: sample_run3_def task_answered_def Let_def)
qed

lemma sample_reachable: "athenz_reachable sample_athenz sample_run1" "athenz_reachable sample_athenz sample_run3"
proof -
  show 1: "athenz_reachable sample_athenz sample_run1"
    unfolding sample_run1_def by (rule reach_call [OF reach_start]) (simp add: same_object_def run_start_def)
  have "athenz_reachable sample_athenz sample_run2"
    unfolding sample_run2_def by (rule reach_answer [OF 1]) (simp add: sample_run1_manager)
  then show "athenz_reachable sample_athenz sample_run3"
    unfolding sample_run3_def by (rule reach_answer) (simp add: sample_run2_task)
qed

text \<open>
  C5: whatever happens in between, a token that a call is given, from the cache, from its own
  issuance or from one it joined, was issued for exactly one audience, the domain of a scope the
  call asked for, and its granted scopes match the requested ones one to one: none is missing and
  none is granted beyond the request.
\<close>

theorem token_of_a_call_serves_it:
  assumes "athenz_reachable cfg r" and "c \<in> set (mr_calls r)" and "call_result r c = Some (Inr tk)"
  shows "\<exists>aud claims granted used.
     access_token_audience (cl_scope c) (cl_audience c) = Inr aud \<and>
     az_decode cfg tk = Inr claims \<and>
     token_audiences (map_of claims ''aud'') ''Athenz access token'' True = Inr [aud] \<and>
     token_scopes claims ''Athenz access token'' = Inr granted \<and>
     mset used = mset granted \<and> list_all2 equivalent_scope used (scope_values (cl_scope c))"
  using call_token_serves [OF assms] scopes_exactly_match_pairing unfolding token_serves_def by fast

definition sample_call :: call where
  "sample_call = \<lparr>cl_session = sample_session, cl_scope = ''api:role.reader'', cl_audience = Some ''api'', cl_time = 1000,
     cl_begun = fst (get_access_token_begin sample_athenz 1000 1000 1000 sample_session ''api:role.reader'' (Some ''api'')
       athenz_manager_start)\<rparr>"

lemma sample_call_result: "sample_call \<in> set (mr_calls sample_run3)" "call_result sample_run3 sample_call = Some (Inr ''at'')"
proof -
  show "sample_call \<in> set (mr_calls sample_run3)"
    by (simp add: sample_run3_def sample_run2_def sample_run1_def sample_call_def do_call_def run_start_def
        split_beta Let_def)
  have "cl_begun sample_call = Owns 0"
    by (simp add: sample_call_def athenz_manager_start_def get_access_token_begin_def issue_begin_def
        find_id_jag_def live_entries_def of_session_def set_session_def sample_values sample_athenz_def
        sample_session_def token_expiry_skew_ms_def Let_def split_beta)
  then show "call_result sample_run3 sample_call = Some (Inr ''at'')"
    by (simp add: call_result_def sample_run3_task)
qed

theorem token_of_a_call_serves_it_witness:
  "\<exists>aud claims granted used.
     access_token_audience ''api:role.reader'' (Some ''api'') = Inr aud \<and> sample_decode ''at'' = Inr claims \<and>
     token_audiences (map_of claims ''aud'') ''Athenz access token'' True = Inr [aud] \<and>
     token_scopes claims ''Athenz access token'' = Inr granted \<and>
     mset used = mset granted \<and> list_all2 equivalent_scope used (scope_values ''api:role.reader'')"
proof -
  show ?thesis
    using token_of_a_call_serves_it [OF sample_reachable(2) sample_call_result]
    by (simp add: sample_athenz_def sample_call_def)
qed

text \<open>
  C6: at any time at most one issuance runs for a session, an audience and a set of scopes:
  concurrent calls for the same token share one exchange with ZTS.
\<close>

theorem one_issuance_per_request:
  assumes "athenz_reachable cfg r" "i < length (am_tasks (mr_manager r))" "j < length (am_tasks (mr_manager r))"
    and "\<not> tk_finished (am_tasks (mr_manager r) ! i)" "\<not> tk_finished (am_tasks (mr_manager r) ! j)"
    and "gs_ref (tk_session (am_tasks (mr_manager r) ! i)) = gs_ref (tk_session (am_tasks (mr_manager r) ! j))"
    and "tk_audience (am_tasks (mr_manager r) ! i) = tk_audience (am_tasks (mr_manager r) ! j)"
    and "tk_scopes (am_tasks (mr_manager r) ! i) = tk_scopes (am_tasks (mr_manager r) ! j)"
  shows "i = j"
proof -
  let ?st = "mr_manager r"
  from reachable_inv [OF assms(1)] assms(2-5)
  have "registered_at ?st (tk_session (am_tasks ?st ! i)) (task_key (am_tasks ?st ! i)) = Some i"
    and "registered_at ?st (tk_session (am_tasks ?st ! j)) (task_key (am_tasks ?st ! j)) = Some j"
    by (auto simp: run_inv_def in_flight_inv_def)
  with assms(6-8) show ?thesis
    by (simp add: registered_at_def of_session_def task_key_def)
qed

theorem one_issuance_per_request_witness:
  "(0 :: nat) < length (am_tasks (mr_manager sample_run1)) \<and> \<not> tk_finished (am_tasks (mr_manager sample_run1) ! 0)
   \<and> (0 :: nat) = 0"
proof -
  have a: "0 < length (am_tasks (mr_manager sample_run1))" by (simp add: sample_run1_manager)
  have b: "\<not> tk_finished (am_tasks (mr_manager sample_run1) ! 0)" by (simp add: sample_run1_manager)
  from one_issuance_per_request [OF sample_reachable(1) a a b b refl refl refl] a b show ?thesis by simp
qed

text \<open>
  An issuance needs at most two answers of ZTS: after two, whatever they are, it has settled
  and every caller that waits for it has a result.
\<close>

theorem issuance_settles_after_two_answers:
  assumes "i < length (am_tasks st)"
  shows "\<exists>result. tk_phase (am_tasks (task_answered cfg t3 t4 i answer2
           (task_answered cfg t1 t2 i answer1 st)) ! i) = Settled result"
proof -
  have phase: "\<exists>ph. tk_phase (am_tasks (task_answered cfg now1 now2 i answer st') ! i) = ph \<and>
      (case tk_phase (am_tasks st' ! i) of Wait_Id_Jag f \<Rightarrow> \<forall>g. ph \<noteq> Wait_Id_Jag g
       | _ \<Rightarrow> \<exists>res. ph = Settled res)"
    if i: "i < length (am_tasks st')" for st' now1 now2 answer
  proof (cases "tk_phase (am_tasks st' ! i)")
    case (Wait_Id_Jag f)
    have "am_tasks (snd (id_jag_answer cfg now1 now2 s req aud answer st')) = am_tasks st'" for s req aud
      by (simp add: id_jag_answer_def Let_def split: post_result.splits sum.splits)
    moreover have "fst (id_jag_answer cfg now1 now2 s req aud answer st') \<noteq> Wait_Id_Jag g" for s req aud g
      by (simp add: id_jag_answer_def Let_def split: post_result.splits sum.splits)
    ultimately show ?thesis using Wait_Id_Jag i by (simp add: task_answered_def Let_def split_beta)
  next
    case (Wait_Access f)
    have "am_tasks (snd (access_answer cfg now1 now2 s req aud answer st')) = am_tasks st'" for s req aud
      by (simp add: access_answer_def Let_def split: post_result.splits sum.splits)
    with Wait_Access i show ?thesis by (simp add: task_answered_def Let_def split_beta)
  qed (simp add: task_answered_def Let_def)
  let ?st = "task_answered cfg t1 t2 i answer1 st"
  have "i < length (am_tasks ?st)" using assms task_answered_tasks by simp
  from phase [OF this, of t3 t4 answer2] phase [OF assms, of t1 t2 answer1] show ?thesis
    by (auto split: issuance.splits)
qed

theorem issuance_settles_after_two_answers_witness:
  "\<exists>result. tk_phase (am_tasks (task_answered sample_athenz 3 4 0 (Post_Response (sample_response ''at''))
           (task_answered sample_athenz 1 2 0 (Post_Failure ''down'') (mr_manager sample_run1))) ! 0) = Settled result"
  by (rule issuance_settles_after_two_answers) (simp add: sample_run1_manager)

lemma find_access_token_hit:
  "(k, c) \<in> set cache \<Longrightarrow> now + token_expiry_skew_ms < ct_expiresAtMs c \<Longrightarrow> ct_audiences c = [aud] \<Longrightarrow>
   scopes_exactly_match (ct_scopes c) req \<Longrightarrow> \<exists>c'. fst (find_access_token now req aud cache) = Some c'"
proof (induction now req aud cache rule: find_access_token.induct)
  case (2 now req aud key entry cache)
  then show ?case
    by (cases "ct_expiresAtMs entry \<le> now + token_expiry_skew_ms") (auto simp: Let_def split_beta)
qed simp

lemma update_member: "(k, v) \<in> set (AList.update k v m)"
  by (induction m) auto

text \<open>
  A token that has been issued is used again: until a minute before its expiry the same
  request of the same session is answered at once from the cache, without contacting ZTS.
\<close>

theorem issued_token_is_reused:
  assumes audience: "access_token_audience scope audience = Inr aud"
    and issued: "access_answer cfg now1 now2 session (scope_values scope) aud (Post_Response r) st = (Inr tk, st')"
    and grant: "read_token_grant (az_decode cfg) r ''Athenz access token'' now1 (gs_expiresAt session) True = Inr g"
    and later: "now3 + token_expiry_skew_ms < tg_expiresAtMs g"
  shows "\<exists>tk'. fst (get_access_token_begin cfg now3 now4 now5 session scope audience st') = Answered (Inr tk')"
proof -
  let ?c = "\<lparr>ct_token = tg_token g, ct_audiences = tg_audiences g, ct_cachedAtMs = now2,
             ct_expiresAtMs = tg_expiresAtMs g, ct_scopes = tg_scopes g\<rparr>"
  from issued grant have g: "tg_audiences g = [aud]" "scopes_exactly_match (tg_scopes g) (scope_values scope)"
    and st': "of_session (am_tokens st') session = cache_grant g now2 (of_session (am_tokens st) session)"
    by (auto simp: access_answer_def Let_def of_session_set_session split: if_splits)
  have "(cache_key (tg_audiences g) (tg_scopes g), ?c) \<in> set (of_session (am_tokens st') session)"
    unfolding st' cache_grant_def by (rule update_member)
  from find_access_token_hit [OF this, of now3 aud "scope_values scope"] g later obtain c' where
    hit: "fst (find_access_token now3 (scope_values scope) aud (of_session (am_tokens st') session)) = Some c'" by auto
  from access_token_audience_Inr(2) [OF audience] have "scope_values scope \<noteq> []"
    by (metis empty_iff list.set(1))
  then have "normalize_scope scope = Inr (join '' '' (scope_values scope))" by (simp add: normalize_scope_def Let_def)
  with hit audience show ?thesis
    by (auto simp: get_access_token_begin_def text_simps Let_def split: prod.splits)
qed

theorem issued_token_is_reused_witness:
  "\<exists>tk'. fst (get_access_token_begin sample_athenz 60000 60000 60000 sample_session ''api:role.reader'' (Some ''api'')
     (snd (access_answer sample_athenz 3000 3000 sample_session (scope_values ''api:role.reader'') ''api''
        (Post_Response (sample_response ''at'')) athenz_manager_start))) = Answered (Inr tk')"
proof (rule issued_token_is_reused)
  show "access_token_audience ''api:role.reader'' (Some ''api'') = Inr ''api''" by (rule sample_values)
  show "read_token_grant (az_decode sample_athenz) (sample_response ''at'') ''Athenz access token'' 3000
          (gs_expiresAt sample_session) True = Inr (sample_grant ''at'' ''api'' ''reader'')"
    using sample_grants by (simp add: sample_athenz_def sample_session_def)
  then show "access_answer sample_athenz 3000 3000 sample_session (scope_values ''api:role.reader'') ''api''
      (Post_Response (sample_response ''at'')) athenz_manager_start =
    (Inr ''at'', snd (access_answer sample_athenz 3000 3000 sample_session (scope_values ''api:role.reader'') ''api''
        (Post_Response (sample_response ''at'')) athenz_manager_start))"
    by (simp add: access_answer_def Let_def) (simp add: sample_grant_def sample_values)
  show "60000 + token_expiry_skew_ms < tg_expiresAtMs (sample_grant ''at'' ''api'' ''reader'')"
    by (simp add: sample_grant_def token_expiry_skew_ms_def)
qed

text \<open>
  C10: the identity token is used only when it must be and can be. An issuance starts from a
  cached ID-JAG exactly when one is alive, addressed to ZTS and covers the request; otherwise it
  exchanges the ID token if that outlives the next minute, and asks for a new login if not.
\<close>

definition usable_id_jag :: "athenz_config \<Rightarrow> rat \<Rightarrow> gateway_session \<Rightarrow> string list \<Rightarrow> athenz_manager \<Rightarrow> bool" where
  "usable_id_jag cfg now session req st \<longleftrightarrow>
     list_ex (\<lambda>(k, c). now + token_expiry_skew_ms < ct_expiresAtMs c
       \<and> ATHENZ_ZTS_AUDIENCE (az_env cfg) \<in> set (ct_audiences c) \<and> scopes_cover (ct_scopes c) req)
       (of_session (am_idJags st) session)"

theorem issuance_starts_from:
  "((\<exists>form. fst (issue_begin cfg now1 now2 session req aud st) = Wait_Access form)
      \<longleftrightarrow> usable_id_jag cfg now1 session req st)
   \<and> ((fst (issue_begin cfg now1 now2 session req aud st) = Wait_Id_Jag (id_jag_form (az_env cfg) session req))
      \<longleftrightarrow> \<not> usable_id_jag cfg now1 session req st
          \<and> now2 + token_expiry_skew_ms < gs_idTokenExpiresAt session * 1000)
   \<and> ((fst (issue_begin cfg now1 now2 session req aud st)
        = Settled (Inl (Reauthentication_Required ''A fresh identity-provider ID token is required'')))
      \<longleftrightarrow> \<not> usable_id_jag cfg now1 session req st
          \<and> gs_idTokenExpiresAt session * 1000 \<le> now2 + token_expiry_skew_ms)"
proof -
  let ?cache = "of_session (am_idJags st) session"
  let ?zts = "ATHENZ_ZTS_AUDIENCE (az_env cfg)"
  have usable: "usable_id_jag cfg now1 session req st \<longleftrightarrow> fst (find_id_jag ?zts now1 req ?cache) \<noteq> None"
  proof
    assume "fst (find_id_jag ?zts now1 req ?cache) \<noteq> None"
    then obtain c where "fst (find_id_jag ?zts now1 req ?cache) = Some c" by blast
    from find_id_jag_Some [OF this] show "usable_id_jag cfg now1 session req st" by (auto simp: usable_id_jag_def list_ex_iff)
  next
    assume "usable_id_jag cfg now1 session req st"
    then obtain k c where c: "(k, c) \<in> set ?cache" "now1 + token_expiry_skew_ms < ct_expiresAtMs c"
      "?zts \<in> set (ct_audiences c)" "scopes_cover (ct_scopes c) req"
      by (auto simp: usable_id_jag_def list_ex_iff)
    define ms where "ms = filter (\<lambda>e. ?zts \<in> set (ct_audiences e) \<and> scopes_cover (ct_scopes e) req)
                            (map snd (live_entries now1 ?cache))"
    from c have "c \<in> set ms" by (force simp: ms_def live_entries_def)
    then have "c \<in> set (sort_key (\<lambda>e. length (ct_scopes e)) ms)" by simp
    then obtain e es where "sort_key (\<lambda>e. length (ct_scopes e)) ms = e # es"
      by (cases "sort_key (\<lambda>e. length (ct_scopes e)) ms") auto
    then show "fst (find_id_jag ?zts now1 req ?cache) \<noteq> None"
      by (simp add: find_id_jag_def Let_def flip: ms_def)
  qed
  obtain found jags where f: "find_id_jag ?zts now1 req ?cache = (found, jags)" by fastforce
  show ?thesis
    using usable f
    by (cases found) (auto simp: issue_begin_def Let_def)
qed

text \<open>
  The reported cache status adds up: every entry is counted once, as valid, due for refresh
  or expired, and the valid ones are exactly those that the lookup still uses.
\<close>

lemma count_entries_eq:
  "count_entries now cs =
     (length (filter (\<lambda>c. entry_status now c = Valid_Entry) cs),
      length (filter (\<lambda>c. entry_status now c = Refresh_Required) cs),
      length (filter (\<lambda>c. entry_status now c = Expired_Entry) cs))"
  by (induction cs) (auto split: entry_status.splits)

theorem cache_status_adds_up:
  "let s = get_cache_status now session st; cache = of_session (am_tokens st) session in
     cs_usableEntryCount s + cs_refreshRequiredEntryCount s + cs_expiredEntryCount s = cs_entryCount s
   \<and> cs_usableEntryCount s = length (live_entries now cache)
   \<and> length (cs_entries s) = cs_entryCount s \<and> map sr_status (cs_entries s) = map (\<lambda>(k, c). entry_status now c) cache"
proof -
  have pos: "(0 :: rat) < token_expiry_skew_ms" by (simp add: token_expiry_skew_ms_def)
  have split: "length (filter (\<lambda>c. entry_status now c = Valid_Entry) cs)
     + length (filter (\<lambda>c. entry_status now c = Refresh_Required) cs)
     + length (filter (\<lambda>c. entry_status now c = Expired_Entry) cs) = length cs" for cs
  proof (induction cs)
    case (Cons c cs)
    then show ?case by (cases "entry_status now c") simp_all
  qed simp
  have valid: "entry_status now c = Valid_Entry \<longleftrightarrow> \<not> ct_expiresAtMs c \<le> now + token_expiry_skew_ms" for c
    using pos by (auto simp: entry_status_def)
  have live: "length (filter (\<lambda>x. entry_status now (snd x) = Valid_Entry) cache) = length (live_entries now cache)"
    for cache :: token_cache
    by (induction cache) (auto simp: live_entries_def valid)
  show ?thesis
    using split [of "map snd (of_session (am_tokens st) session)"]
    by (simp add: get_cache_status_def status_of_cache_def count_entries_eq live Let_def status_row_of_def
        split_beta comp_def)
qed

end
