(* ===== verification/Gateway_Protected.thy ===== *)
theory Gateway_Protected
  imports Gateway_Registry Gateway_OAuth_Routes Gateway_Athenz_Runs
begin

text \<open>
  \<^verbatim>\<open>mcp-gateway/src/routes/protected.ts\<close>: the routes that need a session, and the forwarding
  of \<^verbatim>\<open>/mcp/{serverId}\<close>. The handler awaits the registry, the access token and the upstream; it
  is cut there into definitions that \<open>mcp_handler\<close> composes, with the awaited outcomes as
  arguments. Relative URL resolution and JSON printing belong to the platform and are arguments.
\<close>

record request =
  rq_method :: string
  rq_originalUrl :: string
  rq_headers :: in_headers
  rq_body :: unknown

datatype mcp_error =
    Mcp_Registry registry_error
  | Invalid_Tool_Call string
  | Tool_Scope_Not_Configured string
  | Mcp_Athenz athenz_error
  | Mcp_Failure string

definition mcp_downstream_scope_header :: string where
  "mcp_downstream_scope_header = ''x-idthw-mcp-downstream-scope''"

section \<open>Sessions\<close>

definition authorization_of :: "request \<Rightarrow> string option" where
  "authorization_of req =
     (case map_of (rq_headers req) ''authorization'' of Some (One_Value s) \<Rightarrow> Some s | _ \<Rightarrow> None)"

definition bearer_token :: "request \<Rightarrow> string" where
  "bearer_token req =
     (case authorization_of req of
        None \<Rightarrow> []
      | Some a \<Rightarrow> if starts_with ''Bearer '' a then drop (length ''Bearer '') a else [])"

definition authentication_challenge :: "platform \<Rightarrow> gateway_env \<Rightarrow> string option \<Rightarrow> string \<times> string" where
  "authentication_challenge pf env serverId =
     (let metadataPath = (case serverId of
            None \<Rightarrow> ''/.well-known/oauth-protected-resource''
          | Some s \<Rightarrow> if s = [] then ''/.well-known/oauth-protected-resource''
                      else ''/.well-known/oauth-protected-resource/mcp/'' @ pf_component pf s)
      in (''www-authenticate'', ''Bearer realm='' @ [CHR 0x22] @ PUBLIC_BASE_URL env @ [CHR 0x22]
            @ '', resource_metadata='' @ [CHR 0x22] @ PUBLIC_BASE_URL env @ metadataPath @ [CHR 0x22]))"

definition unauthorized_reply :: "platform \<Rightarrow> gateway_env \<Rightarrow> string option \<Rightarrow> reply" where
  "unauthorized_reply pf env serverId =
     reply_json 401 [authentication_challenge pf env serverId]
       (JObj [(''error'', JStr ''unauthorized''),
              (''message'', JStr ''Authenticate through the MCP Gateway OAuth flow.'')])"

definition require_session ::
  "platform \<Rightarrow> gateway_env \<Rightarrow> (string \<Rightarrow> string) \<Rightarrow> rat \<Rightarrow> request \<Rightarrow> string option \<Rightarrow> session_map
   \<Rightarrow> (reply, gateway_session) result \<times> session_map" where
  "require_session pf env tokenHash now req serverId sessions =
     (let token = bearer_token req;
          (session, sessions') = (if token = [] then (None, sessions)
                                  else session_get tokenHash now token sessions)
      in case session of
           Some s \<Rightarrow> (Inr s, sessions')
         | None \<Rightarrow> (Inl (unauthorized_reply pf env serverId), sessions'))"

section \<open>Metadata and session routes\<close>

definition protected_resource_metadata :: "gateway_env \<Rightarrow> string \<Rightarrow> json" where
  "protected_resource_metadata env resource =
     JObj [(''resource'', JStr resource), (''authorization_servers'', JArr [JStr (PUBLIC_BASE_URL env)]),
           (''bearer_methods_supported'', JArr [JStr ''header''])]"

definition protected_resource_route :: "gateway_env \<Rightarrow> reply" where
  "protected_resource_route env = reply_json 200 [] (protected_resource_metadata env (PUBLIC_BASE_URL env))"

definition protected_server_route :: "platform \<Rightarrow> gateway_env \<Rightarrow> string \<Rightarrow> reply" where
  "protected_server_route pf env serverId =
     reply_json 200 [] (protected_resource_metadata env
       (PUBLIC_BASE_URL env @ ''/mcp/'' @ pf_component pf serverId))"

definition session_route ::
  "platform \<Rightarrow> gateway_env \<Rightarrow> (string \<Rightarrow> string) \<Rightarrow> rat \<Rightarrow> request \<Rightarrow> session_map \<Rightarrow> reply \<times> session_map" where
  "session_route pf env tokenHash now req sessions =
     (case require_session pf env tokenHash now req None sessions of
        (Inl r, sessions') \<Rightarrow> (r, sessions')
      | (Inr s, sessions') \<Rightarrow>
          (reply_json 200 [no_store] (JObj
             [(''authenticated'', JBool True), (''subject'', JStr (gs_subject s)),
              (''username'', JStr (gs_username s)), (''expires_at'', JNum (Finite (gs_expiresAt s)))]), sessions'))"

definition mcp_without_id_route :: reply where
  "mcp_without_id_route = reply_json 404 [] (JObj
     [(''error'', JStr ''missing_server_id''), (''message'', JStr ''Use /mcp/{server-id}.'')])"

section \<open>What a request needs\<close>

text \<open>\<^verbatim>\<open>/^[a-z0-9](?:[a-z0-9._-]{0,251}[a-z0-9])?$/i\<close>\<close>

definition is_valid_server_id :: "string \<Rightarrow> bool" where
  "is_valid_server_id s \<longleftrightarrow>
     s \<noteq> [] \<and> is_alnum (hd s) \<and>
     (length s = 1 \<or> length s \<le> 253 \<and> is_alnum (last s) \<and> list_all is_name_char (butlast (tl s)))"

text \<open>The body of a POST as an object, if it is one.\<close>

definition posted_object :: "request \<Rightarrow> (string \<times> json) list option" where
  "posted_object req = (if rq_method req \<noteq> ''POST'' then None else as_record (rq_body req))"

definition public_mcp_methods :: "string list" where
  "public_mcp_methods = [''initialize'', ''notifications/initialized'', ''ping'', ''tools/list'']"

definition is_public_mcp_discovery_request :: "request \<Rightarrow> bool" where
  "is_public_mcp_discovery_request req =
     (case posted_object req of
        None \<Rightarrow> False
      | Some fs \<Rightarrow> (case as_string (map_of fs ''method'') of
          None \<Rightarrow> False | Some m \<Rightarrow> m \<in> set public_mcp_methods))"

definition route_scope :: "mcp_route \<Rightarrow> string \<Rightarrow> string" where
  "route_scope route fallbackScope = (case rt_accessScope route of None \<Rightarrow> fallbackScope | Some s \<Rightarrow> s)"

definition tool_name :: "(string \<times> json) list \<Rightarrow> (mcp_error, string) result" where
  "tool_name message =
     (case as_record (map_of message ''params'') of
        None \<Rightarrow> Inl (Invalid_Tool_Call ''tools/call params must be an object'')
      | Some params \<Rightarrow> (case as_string (map_of params ''name'') of
          None \<Rightarrow> Inl (Invalid_Tool_Call ''tools/call params.name must be a non-empty string'')
        | Some n \<Rightarrow> if trim n = []
                    then Inl (Invalid_Tool_Call ''tools/call params.name must be a non-empty string'')
                    else Inr n))"

text \<open>The scope of a named tool: configured, or the route's where that is allowed.\<close>

definition tool_scope :: "mcp_route \<Rightarrow> string \<Rightarrow> string \<Rightarrow> (mcp_error, string) result" where
  "tool_scope route routeScope toolName =
     (case rt_toolScopes route of
        None \<Rightarrow> Inr routeScope
      | Some toolScopes \<Rightarrow>
          let configured = (case map_of toolScopes toolName of None \<Rightarrow> [] | Some s \<Rightarrow> s) in
          if configured \<noteq> [] then Inr configured
          else if rt_defaultToolPermission route = Some Permission_None then Inr routeScope
          else Inl (Tool_Scope_Not_Configured toolName))"

definition access_scope_for_request :: "request \<Rightarrow> mcp_route \<Rightarrow> string \<Rightarrow> (mcp_error, string) result" where
  "access_scope_for_request req route fallbackScope =
     (let routeScope = route_scope route fallbackScope in
      case posted_object req of
        None \<Rightarrow> Inr routeScope
      | Some message \<Rightarrow>
          if map_of message ''method'' \<noteq> Some (JStr ''tools/call'') then Inr routeScope
          else ebind (tool_name message) (tool_scope route routeScope))"

definition downstream_scope_for_request :: "request \<Rightarrow> mcp_route \<Rightarrow> string \<Rightarrow> string \<Rightarrow> string option" where
  "downstream_scope_for_request req route selectedScope fallbackScope =
     (case posted_object req of
        None \<Rightarrow> None
      | Some message \<Rightarrow>
          if map_of message ''method'' \<noteq> Some (JStr ''tools/call'') \<or> rt_toolScopes route = None then None
          else let routeScopes = scope_values (route_scope route fallbackScope);
                   downstreamScopes = filter (\<lambda>s. s \<notin> set routeScopes) (scope_values selectedScope)
               in if downstreamScopes = [] then None else Some (join '' '' downstreamScopes))"

section \<open>Forwarding\<close>

definition hop_by_hop_headers :: "string list" where
  "hop_by_hop_headers =
     [''connection'', ''content-length'', ''content-encoding'', ''keep-alive'', ''proxy-authenticate'',
      ''proxy-authorization'', ''te'', ''trailer'', ''transfer-encoding'', ''upgrade'']"

text \<open>The loop over the incoming headers, then the two headers of the gateway.\<close>

definition copied_header :: "string \<times> header_value \<Rightarrow> bool" where
  "copied_header = (\<lambda>(key, v). \<not> header_missing v \<and> to_lower key \<notin> set hop_by_hop_headers
     \<and> to_lower key \<noteq> ''host'' \<and> to_lower key \<noteq> ''authorization'' \<and> to_lower key \<noteq> mcp_downstream_scope_header)"

fun copy_headers :: "in_headers \<Rightarrow> out_headers \<Rightarrow> out_headers" where
  "copy_headers [] headers = headers"
| "copy_headers ((key, v) # rest) headers =
     copy_headers rest (if copied_header (key, v) then set_header key (header_text v) headers else headers)"

definition forwarded_request_headers :: "request \<Rightarrow> string option \<Rightarrow> string option \<Rightarrow> out_headers" where
  "forwarded_request_headers req accessToken downstreamScope =
     (let h0 = copy_headers (rq_headers req) [];
          h1 = (if truthy accessToken then set_header ''authorization'' (''Bearer '' @ the accessToken) h0 else h0)
      in if truthy downstreamScope then set_header mcp_downstream_scope_header (the downstreamScope) h1 else h1)"

definition drop_slashes :: "string \<Rightarrow> string" where
  "drop_slashes s = dropWhile (\<lambda>c. c = CHR ''/'') s"

text \<open>The address of the request: the registered one, with what follows the prefix appended.\<close>

definition proxied_url :: "string \<Rightarrow> url \<Rightarrow> url \<Rightarrow> url" where
  "proxied_url gatewayBasePath upstreamUrl requestedUrl =
     (let suffix = (if starts_with gatewayBasePath (url_pathname requestedUrl)
                    then drop (length gatewayBasePath) (url_pathname requestedUrl) else []);
          withPath = (if suffix \<noteq> [] \<and> suffix \<noteq> ''/''
             then set_pathname (without_trailing_slash (url_pathname upstreamUrl) @ ''/'' @ drop_slashes suffix) upstreamUrl
             else upstreamUrl)
      in withPath\<lparr>url_search := url_search requestedUrl\<rparr>)"

definition build_proxy_url ::
  "platform \<Rightarrow> (string \<Rightarrow> url option) \<Rightarrow> string \<Rightarrow> string \<Rightarrow> string \<Rightarrow> (mcp_error, url) result" where
  "build_proxy_url pf resolveUrl proxyUrl originalUrl serverId =
     (case (pf_parse_url pf proxyUrl, resolveUrl originalUrl) of
        (Some upstreamUrl, Some requestedUrl) \<Rightarrow>
          Inr (proxied_url (''/mcp/'' @ pf_component pf serverId) upstreamUrl requestedUrl)
      | _ \<Rightarrow> Inl (Mcp_Failure ''Invalid URL''))"

text \<open>A body that a parser has set is never a Node buffer here, so that branch does not arise.\<close>

definition request_body :: "(json \<Rightarrow> string) \<Rightarrow> request \<Rightarrow> string option" where
  "request_body stringify req =
     (if rq_method req = ''GET'' \<or> rq_method req = ''HEAD'' then None
      else case rq_body req of None \<Rightarrow> None | Some (JStr s) \<Rightarrow> Some s | Some v \<Rightarrow> Some (stringify v))"

record upstream_request =
  up_url :: url
  up_method :: string
  up_headers :: out_headers
  up_body :: "string option"

datatype upstream_answer =
    Upstream_Response int out_headers string
  | Upstream_Failure string

definition upstream_request_for ::
  "platform \<Rightarrow> (string \<Rightarrow> url option) \<Rightarrow> (json \<Rightarrow> string) \<Rightarrow> request \<Rightarrow> string option \<Rightarrow> string option \<Rightarrow> string
   \<Rightarrow> mcp_route \<Rightarrow> (mcp_error, upstream_request) result" where
  "upstream_request_for pf resolveUrl stringify req accessToken downstreamScope serverId route =
     ebind (build_proxy_url pf resolveUrl (rt_proxyUrl route) (rq_originalUrl req) serverId) (\<lambda>u.
     Inr \<lparr>up_url = u, up_method = rq_method req,
          up_headers = forwarded_request_headers req accessToken downstreamScope,
          up_body = request_body stringify req\<rparr>)"

definition upstream_reply :: "string \<Rightarrow> upstream_answer \<Rightarrow> (mcp_error, reply) result" where
  "upstream_reply serverId answer =
     (case answer of
        Upstream_Failure m \<Rightarrow> Inl (Mcp_Failure m)
      | Upstream_Response code headers body \<Rightarrow>
          Inr (reply_text code (set_header ''x-mcp-gateway-server-id'' serverId
                 (fold (\<lambda>(k, v) hs. set_header k v hs)
                    (filter (\<lambda>(k, v). to_lower k \<notin> set hop_by_hop_headers) headers) [])) body))"

section \<open>Errors\<close>

fun athenz_message :: "athenz_error \<Rightarrow> string" where
  "athenz_message (Reauthentication_Required m) = m"
| "athenz_message (Insufficient_Scope requested granted tokenName) =
     tokenName @ '' granted scopes ['' @ join '' '' granted @ ''] do not cover requested scopes ['' @ join '' '' requested @ '']''"
| "athenz_message (Athenz_Error m) = m"

fun mcp_error_message :: "mcp_error \<Rightarrow> string" where
  "mcp_error_message (Mcp_Registry (Server_Not_Found s)) = ''MCP server is not registered: '' @ s"
| "mcp_error_message (Mcp_Registry (Registry_Error m)) = m"
| "mcp_error_message (Invalid_Tool_Call m) = m"
| "mcp_error_message (Tool_Scope_Not_Configured t) = ''No Athenz access scope is configured for MCP tool: '' @ t"
| "mcp_error_message (Mcp_Athenz e) = athenz_message e"
| "mcp_error_message (Mcp_Failure m) = m"

fun mcp_error_status :: "mcp_error \<Rightarrow> int" where
  "mcp_error_status (Mcp_Registry (Server_Not_Found s)) = 404"
| "mcp_error_status (Invalid_Tool_Call m) = 400"
| "mcp_error_status (Tool_Scope_Not_Configured t) = 403"
| "mcp_error_status (Mcp_Athenz (Insufficient_Scope r g n)) = 403"
| "mcp_error_status e = 502"

definition mcp_error_code :: "mcp_error \<Rightarrow> string" where
  "mcp_error_code e =
     (let code = mcp_error_status e in
      if code = 404 then ''mcp_server_not_found''
      else if code = 400 then ''invalid_tool_call''
      else if code = 403 then (case e of Mcp_Athenz ae \<Rightarrow> ''insufficient_scope'' | _ \<Rightarrow> ''tool_scope_not_configured'')
      else ''mcp_gateway_forwarding_failed'')"

definition mcp_error_reply ::
  "platform \<Rightarrow> gateway_env \<Rightarrow> (string \<Rightarrow> string) \<Rightarrow> request \<Rightarrow> string \<Rightarrow> mcp_error \<Rightarrow> session_map
   \<Rightarrow> reply \<times> session_map" where
  "mcp_error_reply pf env tokenHash req serverId e sessions =
     (case e of
        Mcp_Athenz (Reauthentication_Required m) \<Rightarrow>
          (reply_json 401 [authentication_challenge pf env (Some serverId), no_store] (JObj
             [(''error'', JStr ''reauth_required''),
              (''message'', JStr ''A fresh identity-provider login is required before requesting this Athenz scope.'')]),
           if bearer_token req \<noteq> [] then snd (session_delete tokenHash (bearer_token req) sessions) else sessions)
      | _ \<Rightarrow> (reply_json (mcp_error_status e) [] (JObj
             [(''error'', JStr (mcp_error_code e)), (''message'', JStr (mcp_error_message e))]), sessions))"

section \<open>The handler\<close>

definition mcp_access_scope :: "request \<Rightarrow> mcp_route \<Rightarrow> string \<Rightarrow> (mcp_error, string option) result" where
  "mcp_access_scope req route fallbackScope =
     (if is_public_mcp_discovery_request req then Inr None
      else ebind (access_scope_for_request req route fallbackScope) (\<lambda>s. Inr (Some s)))"

text \<open>
  The awaited outcomes: the registry's for a server, the token source's for a session, a scope
  and an audience, and the upstream's for a request. \<open>sessions1\<close> is the session store when the
  handler starts, \<open>sessions2\<close> when it ends. The result also holds the upstream request, if one is sent.
\<close>

record mcp_world =
  mw_pf :: platform
  mw_env :: gateway_env
  mw_tokenHash :: "string \<Rightarrow> string"
  mw_resolveUrl :: "string \<Rightarrow> url option"
  mw_stringify :: "json \<Rightarrow> string"
  mw_route :: "string \<Rightarrow> (registry_error, mcp_route) result"
  mw_access_token :: "gateway_session \<Rightarrow> string \<Rightarrow> string option \<Rightarrow> (athenz_error, string) result"
  mw_upstream :: "upstream_request \<Rightarrow> upstream_answer"

definition mcp_resolve :: "mcp_world \<Rightarrow> string \<Rightarrow> (mcp_error, mcp_route) result" where
  "mcp_resolve w serverId = (case mw_route w serverId of Inl e \<Rightarrow> Inl (Mcp_Registry e) | Inr r \<Rightarrow> Inr r)"

definition mcp_token ::
  "mcp_world \<Rightarrow> gateway_session \<Rightarrow> mcp_route \<Rightarrow> string option \<Rightarrow> (mcp_error, string option) result" where
  "mcp_token w session route accessScope =
     (if truthy accessScope
      then case mw_access_token w session (the accessScope) (rt_accessAudience route) of
             Inl e \<Rightarrow> Inl (Mcp_Athenz e) | Inr t \<Rightarrow> Inr (Some t)
      else Inr None)"

definition mcp_prepare ::
  "mcp_world \<Rightarrow> request \<Rightarrow> string \<Rightarrow> gateway_session \<Rightarrow> (mcp_error, upstream_request \<times> string option) result" where
  "mcp_prepare w req serverId session =
     ebind (mcp_resolve w serverId) (\<lambda>route.
     ebind (mcp_access_scope req route (MCP_GATEWAY_ACCESS_SCOPE (mw_env w))) (\<lambda>accessScope.
     ebind (mcp_token w session route accessScope) (\<lambda>accessToken.
     ebind (upstream_request_for (mw_pf w) (mw_resolveUrl w) (mw_stringify w) req accessToken
              (if truthy accessScope
               then downstream_scope_for_request req route (the accessScope) (MCP_GATEWAY_ACCESS_SCOPE (mw_env w))
               else None)
              serverId route) (\<lambda>up. Inr (up, accessScope)))))"

definition mcp_forward ::
  "mcp_world \<Rightarrow> request \<Rightarrow> string \<Rightarrow> gateway_session
   \<Rightarrow> (mcp_error, reply) result \<times> (upstream_request \<times> string option) option" where
  "mcp_forward w req serverId session =
     (case mcp_prepare w req serverId session of
        Inl e \<Rightarrow> (Inl e, None)
      | Inr (up, accessScope) \<Rightarrow> (upstream_reply serverId (mw_upstream w up), Some (up, accessScope)))"

definition mcp_handler ::
  "mcp_world \<Rightarrow> rat \<Rightarrow> request \<Rightarrow> string \<Rightarrow> session_map \<Rightarrow> (session_map \<Rightarrow> session_map)
   \<Rightarrow> reply \<times> session_map \<times> (upstream_request \<times> string option) option" where
  "mcp_handler w now req serverId sessions1 others =
     (if \<not> is_valid_server_id serverId
      then (reply_json 400 [] (JObj [(''error'', JStr ''invalid_server_id'')]), sessions1, None)
      else case require_session (mw_pf w) (mw_env w) (mw_tokenHash w) now req (Some serverId) sessions1 of
        (Inl r, sessions) \<Rightarrow> (r, sessions, None)
      | (Inr session, sessions) \<Rightarrow>
          let (result, sent) = mcp_forward w req serverId session; sessions2 = others sessions
          in case result of
               Inr r \<Rightarrow> (r, sessions2, sent)
             | Inl e \<Rightarrow> let (r, sessions3) = mcp_error_reply (mw_pf w) (mw_env w) (mw_tokenHash w) req serverId e sessions2
                        in (r, sessions3, sent))"

section \<open>The interface to the token source\<close>

text \<open>
  What the router relies on: a token that the source gives for a session, a scope and an audience
  serves that request. The access-token manager, in any of its runs, is such a source.
\<close>

locale token_source =
  fixes issues :: "gateway_session \<Rightarrow> string \<Rightarrow> string option \<Rightarrow> string \<Rightarrow> bool"
    and serves :: "string \<Rightarrow> string \<Rightarrow> string list \<Rightarrow> bool"
  assumes issued_serves: "issues session scope audience token \<Longrightarrow>
      \<exists>aud. access_token_audience scope audience = Inr aud \<and> serves token aud (scope_values scope)"
    and issued_nonempty: "issues session scope audience token \<Longrightarrow> token \<noteq> []"
begin

definition supplies :: "mcp_world \<Rightarrow> bool" where
  "supplies w \<longleftrightarrow> (\<forall>s sc a t. mw_access_token w s sc a = Inr t \<longrightarrow> issues s sc a t)"

lemma prepared_token:
  assumes "supplies w" "scope \<noteq> []" "mw_access_token w s scope a = Inr t"
  shows "issues s scope a t \<and> t \<noteq> [] \<and>
    (\<exists>aud. access_token_audience scope a = Inr aud \<and> serves t aud (scope_values scope))"
  using assms issued_serves issued_nonempty unfolding supplies_def by blast

end

definition manager_issues :: "athenz_config \<Rightarrow> gateway_session \<Rightarrow> string \<Rightarrow> string option \<Rightarrow> string \<Rightarrow> bool" where
  "manager_issues cfg session scope audience token \<longleftrightarrow>
     (\<exists>r c. athenz_reachable cfg r \<and> c \<in> set (mr_calls r) \<and> cl_session c = session \<and> cl_scope c = scope
        \<and> cl_audience c = audience \<and> call_result r c = Some (Inr token))"

interpretation athenz: token_source "manager_issues cfg" "token_serves cfg" for cfg
  by unfold_locales (auto simp: manager_issues_def token_serves_def dest!: call_token_serves)

section \<open>Facts about forwarding\<close>

lemma to_lower_fixed:
  "to_lower ''authorization'' = ''authorization''"
  "to_lower mcp_downstream_scope_header = mcp_downstream_scope_header"
  "mcp_downstream_scope_header \<noteq> ''authorization''"
  by (simp_all add: to_lower_def lower_char_def is_upper_def mcp_downstream_scope_header_def less_eq_char_def)

lemma copy_headers_other:
  assumes "\<And>key v. copied_header (key, v) \<Longrightarrow> to_lower key \<noteq> to_lower name"
  shows "header (copy_headers hs h0) name = header h0 name"
  using assms by (induction hs h0 rule: copy_headers.induct) (auto simp: header_set_header)

lemma header_Nil [simp]: "header [] name = None"
  by (simp add: header_def)

text \<open>The client cannot set the gateway's own headers, and hop-by-hop headers end here.\<close>

lemma forwarded_own_headers:
  "header (forwarded_request_headers req tk ds) ''authorization''
     = (if truthy tk then Some (''Bearer '' @ the tk) else None)"
  "header (forwarded_request_headers req tk ds) mcp_downstream_scope_header = (if truthy ds then ds else None)"
proof -
  have a: "header (copy_headers hs []) ''authorization'' = None" for hs
    using copy_headers_other [of "''authorization''" hs "[]"] by (auto simp: copied_header_def to_lower_fixed)
  have d: "header (copy_headers hs []) mcp_downstream_scope_header = None" for hs
    using copy_headers_other [of mcp_downstream_scope_header hs "[]"] by (auto simp: copied_header_def to_lower_fixed)
  show "header (forwarded_request_headers req tk ds) ''authorization''
     = (if truthy tk then Some (''Bearer '' @ the tk) else None)"
    using to_lower_fixed(3) by (auto simp: forwarded_request_headers_def Let_def header_set_header to_lower_fixed a)
  show "header (forwarded_request_headers req tk ds) mcp_downstream_scope_header = (if truthy ds then ds else None)"
    using to_lower_fixed(3) to_lower_fixed(3) [symmetric]
    by (auto simp: forwarded_request_headers_def Let_def header_set_header to_lower_fixed d dest: truthyE)
qed

lemma require_session_Inr:
  "require_session pf env h now req sid sessions = (Inr s, sessions') \<Longrightarrow>
   bearer_token req \<noteq> [] \<and> map_of sessions (h (bearer_token req)) = Some s \<and> now < gs_expiresAt s"
  by (auto simp: require_session_def session_get_def Let_def split: if_splits option.splits prod.splits)

lemma tool_scope_nonempty: "tool_scope route rs n = Inr sc \<Longrightarrow> rs \<noteq> [] \<Longrightarrow> sc \<noteq> []"
  by (auto simp: tool_scope_def Let_def split: option.splits if_splits)

lemma access_scope_nonempty:
  assumes "access_scope_for_request req route fallback = Inr sc" "route_wf pf route" "fallback \<noteq> []"
  shows "sc \<noteq> []"
proof -
  have "route_scope route fallback \<noteq> []"
    using assms(2,3) by (auto simp: route_scope_def route_wf_def split: option.splits)
  with assms(1) show ?thesis
    by (auto simp: access_scope_for_request_def result_simps Let_def dest: tool_scope_nonempty
        split: option.splits if_splits)
qed

text \<open>What was prepared when a request is sent.\<close>

lemma mcp_forward_sent:
  assumes "mcp_forward w req serverId session = (res, Some (up, scope))"
  obtains route tk where "mw_route w serverId = Inr route"
    "mcp_access_scope req route (MCP_GATEWAY_ACCESS_SCOPE (mw_env w)) = Inr scope"
    "(if truthy scope then \<exists>t. tk = Some t \<and> mw_access_token w session (the scope) (rt_accessAudience route) = Inr t
      else tk = None)"
    "upstream_request_for (mw_pf w) (mw_resolveUrl w) (mw_stringify w) req tk
       (if truthy scope then downstream_scope_for_request req route (the scope) (MCP_GATEWAY_ACCESS_SCOPE (mw_env w))
        else None) serverId route = Inr up"
proof -
  from assms obtain route tk where "mcp_resolve w serverId = Inr route"
    "mcp_access_scope req route (MCP_GATEWAY_ACCESS_SCOPE (mw_env w)) = Inr scope"
    "mcp_token w session route scope = Inr tk"
    "upstream_request_for (mw_pf w) (mw_resolveUrl w) (mw_stringify w) req tk
       (if truthy scope then downstream_scope_for_request req route (the scope) (MCP_GATEWAY_ACCESS_SCOPE (mw_env w))
        else None) serverId route = Inr up"
    unfolding mcp_forward_def mcp_prepare_def by (auto simp: ebind_eq_Inr split: sum.splits)
  with that show ?thesis
    by (auto simp: mcp_resolve_def mcp_token_def split: sum.splits if_splits)
qed

lemma upstream_request_for_headers:
  "upstream_request_for pf ru sf req tk ds serverId route = Inr up \<Longrightarrow>
   up_headers up = forwarded_request_headers req tk ds"
  by (auto simp: upstream_request_for_def result_simps)

lemma mcp_handler_sent:
  assumes "mcp_handler w now req serverId sessions others = (r, sessions', Some sent)"
  obtains session where "is_valid_server_id serverId" "bearer_token req \<noteq> []"
    "map_of sessions (mw_tokenHash w (bearer_token req)) = Some session" "now < gs_expiresAt session"
    "snd (mcp_forward w req serverId session) = Some sent"
proof -
  from assms have valid: "is_valid_server_id serverId" by (auto simp: mcp_handler_def split: if_splits)
  obtain res ss where rs: "require_session (mw_pf w) (mw_env w) (mw_tokenHash w) now req (Some serverId) sessions = (res, ss)"
    by fastforce
  show ?thesis
  proof (cases res)
    case (Inl e)
    with assms valid rs show ?thesis by (simp add: mcp_handler_def)
  next
    case (Inr session)
    with assms valid rs have "snd (mcp_forward w req serverId session) = Some sent"
      by (auto simp: mcp_handler_def Let_def split_beta split: sum.splits)
    with that valid require_session_Inr rs Inr show ?thesis by blast
  qed
qed

section \<open>The address of a forwarded request\<close>














section \<open>The properties\<close>

text \<open>A world for the witnesses: the sample route, and the token of the sample manager run.\<close>

definition sample_world :: mcp_world where
  "sample_world = \<lparr>mw_pf = sample_platform, mw_env = sample_env, mw_tokenHash = (\<lambda>t. ''#'' @ t),
     mw_resolveUrl = (\<lambda>p. sample_parse (''http://mcp-gateway.invalid'' @ p)), mw_stringify = (\<lambda>v. ''json''),
     mw_route = (\<lambda>i. if i = ''docs'' then Inr sample_route else Inl (Server_Not_Found i)),
     mw_access_token = (\<lambda>s sc a. if s = sample_session \<and> sc = ''api:role.reader'' \<and> a = Some ''api''
                                  then Inr ''at'' else Inl (Athenz_Error ''no'')),
     mw_upstream = (\<lambda>u. Upstream_Response 200 [] ''ok'')\<rparr>"

definition sample_call_request :: "string \<Rightarrow> request" where
  "sample_call_request tool = \<lparr>rq_method = ''POST'', rq_originalUrl = ''/mcp/docs/x'',
     rq_headers = [(''authorization'', One_Value ''Bearer tok''), (''accept'', One_Value ''*'')],
     rq_body = Some (JObj [(''method'', JStr ''tools/call''), (''params'', JObj [(''name'', JStr tool)])])\<rparr>"

definition sample_sessions :: session_map where
  "sample_sessions = [(''#tok'', sample_session)]"

text \<open>
  C7: nothing reaches an MCP server without authority. When the handler sends a request
  upstream, the server id is valid and registered and the bearer token belongs to a live session;
  and unless the request is one of the public discovery methods, it carries a token that the
  access-token manager issued to that session, for the scope the request needs, with exactly one
  audience and scopes that match that scope.
\<close>

theorem forwarded_requests_are_authorized:
  assumes sent: "mcp_handler w now req serverId sessions others = (r, sessions', Some (up, scope))"
    and source: "\<And>s sc a t. mw_access_token w s sc a = Inr t \<Longrightarrow> manager_issues cfg s sc a t"
    and routes: "\<And>route. mw_route w serverId = Inr route \<Longrightarrow> route_wf (mw_pf w) route"
    and env: "env_wf (mw_env w)"
  shows "is_valid_server_id serverId \<and>
    (\<exists>session route. map_of sessions (mw_tokenHash w (bearer_token req)) = Some session \<and>
      now < gs_expiresAt session \<and> mw_route w serverId = Inr route \<and>
      (if is_public_mcp_discovery_request req then header (up_headers up) ''authorization'' = None
       else \<exists>sc t aud.
         access_scope_for_request req route (MCP_GATEWAY_ACCESS_SCOPE (mw_env w)) = Inr sc \<and>
         header (up_headers up) ''authorization'' = Some (''Bearer '' @ t) \<and>
         manager_issues cfg session sc (rt_accessAudience route) t \<and>
         access_token_audience sc (rt_accessAudience route) = Inr aud \<and> token_serves cfg t aud (scope_values sc)))"
proof -
  from mcp_handler_sent [OF sent] obtain session where s: "is_valid_server_id serverId"
    "map_of sessions (mw_tokenHash w (bearer_token req)) = Some session" "now < gs_expiresAt session"
    and snt: "snd (mcp_forward w req serverId session) = Some (up, scope)" by metis
  then obtain res where "mcp_forward w req serverId session = (res, Some (up, scope))" by (metis prod.collapse)
  from mcp_forward_sent [OF this] obtain route tk where route: "mw_route w serverId = Inr route"
    and sc: "mcp_access_scope req route (MCP_GATEWAY_ACCESS_SCOPE (mw_env w)) = Inr scope"
    and tk: "if truthy scope then \<exists>t. tk = Some t \<and> mw_access_token w session (the scope) (rt_accessAudience route) = Inr t
             else tk = None"
    and up: "\<exists>ds. up_headers up = forwarded_request_headers req tk ds"
    by (metis upstream_request_for_headers)
  from up have auth: "header (up_headers up) ''authorization'' = (if truthy tk then Some (''Bearer '' @ the tk) else None)"
    using forwarded_own_headers(1) by auto
  show ?thesis
  proof (cases "is_public_mcp_discovery_request req")
    case True
    with sc have "scope = None" by (simp add: mcp_access_scope_def)
    with s route auth tk True show ?thesis by auto
  next
    case False
    with sc obtain q where q: "access_scope_for_request req route (MCP_GATEWAY_ACCESS_SCOPE (mw_env w)) = Inr q" "scope = Some q"
      by (auto simp: mcp_access_scope_def result_simps)
    have ne: "q \<noteq> []"
      using access_scope_nonempty [OF q(1) routes [OF route]] env by (simp add: env_wf_def)
    with tk q obtain t where t: "tk = Some t" "mw_access_token w session q (rt_accessAudience route) = Inr t" by auto
    have "athenz.supplies cfg w" unfolding athenz.supplies_def using source by blast
    from athenz.prepared_token [OF this ne t(2)] s route auth t q(1) False show ?thesis by auto
  qed
qed

lemma sample_source: "mw_access_token sample_world s sc a = Inr t \<Longrightarrow> manager_issues sample_athenz s sc a t"
proof -
  have "cl_session sample_call = sample_session" "cl_scope sample_call = ''api:role.reader''"
    "cl_audience sample_call = Some ''api''" by (simp_all add: sample_call_def)
  with sample_reachable(2) sample_call_result
  have "manager_issues sample_athenz sample_session ''api:role.reader'' (Some ''api'') ''at''"
    unfolding manager_issues_def by blast
  then show "mw_access_token sample_world s sc a = Inr t \<Longrightarrow> manager_issues sample_athenz s sc a t"
    by (simp add: sample_world_def split: if_splits)
qed

lemma sample_route_wf: "mw_route sample_world ''docs'' = Inr route \<Longrightarrow> route_wf (mw_pf sample_world) route"
proof -
  have "route_wf sample_platform sample_route"
    unfolding route_wf_def
  proof (intro conjI)
    show "\<exists>u. rt_proxyUrl sample_route = pf_url_string sample_platform u \<and> (url_protocol u = ''http:'' \<or> url_protocol u = ''https:'')"
      by (rule exI [of _ "the (sample_parse ''http://core/docs'')"]) code_simp
  qed code_simp+
  then show "mw_route sample_world ''docs'' = Inr route \<Longrightarrow> route_wf (mw_pf sample_world) route"
    by (simp add: sample_world_def)
qed

lemma sample_handler_sends:
  "\<exists>up. snd (snd (mcp_handler sample_world 5 (sample_call_request ''read'') ''docs'' sample_sessions (\<lambda>s. s)))
     = Some (up, Some ''api:role.reader'')"
proof -
  have 1: "is_valid_server_id ''docs''" by code_simp
  have 2: "require_session sample_platform sample_env (\<lambda>t. ''#'' @ t) 5 (sample_call_request ''read'') (Some ''docs'')
      sample_sessions = (Inr sample_session, sample_sessions)" by code_simp
  have 3: "mcp_access_scope (sample_call_request ''read'') sample_route (MCP_GATEWAY_ACCESS_SCOPE sample_env)
      = Inr (Some ''api:role.reader'')" by code_simp
  have 4: "rt_accessAudience sample_route = Some ''api''" by code_simp
  have 5: "\<exists>u. build_proxy_url sample_platform (\<lambda>p. sample_parse (''http://mcp-gateway.invalid'' @ p))
      (rt_proxyUrl sample_route) (rq_originalUrl (sample_call_request ''read'')) ''docs'' = Inr u"
    by (rule exI, code_simp)
  then obtain u where u: "build_proxy_url sample_platform (\<lambda>p. sample_parse (''http://mcp-gateway.invalid'' @ p))
      (rt_proxyUrl sample_route) (rq_originalUrl (sample_call_request ''read'')) ''docs'' = Inr u" by blast
  show ?thesis
    using 1 2 3 4 u
    by (simp add: mcp_handler_def mcp_forward_def mcp_prepare_def mcp_resolve_def mcp_token_def sample_world_def
        upstream_request_for_def upstream_reply_def Let_def)
qed

theorem forwarded_requests_are_authorized_witness:
  "\<exists>up t aud. snd (snd (mcp_handler sample_world 5 (sample_call_request ''read'') ''docs'' sample_sessions (\<lambda>s. s)))
     = Some (up, Some ''api:role.reader'') \<and>
     header (up_headers up) ''authorization'' = Some (''Bearer '' @ t) \<and> token_serves sample_athenz t aud [''api:role.reader'']"
proof -
  let ?h = "mcp_handler sample_world 5 (sample_call_request ''read'') ''docs'' sample_sessions (\<lambda>s. s)"
  from sample_handler_sends obtain up where up: "?h = (fst ?h, fst (snd ?h), Some (up, Some ''api:role.reader''))"
    by (metis prod.collapse)
  have env: "env_wf (mw_env sample_world)" by code_simp
  have not_public: "\<not> is_public_mcp_discovery_request (sample_call_request ''read'')" by code_simp
  from forwarded_requests_are_authorized [OF up sample_source sample_route_wf env] not_public
  obtain session route sc t aud where r: "mw_route sample_world ''docs'' = Inr route"
    "access_scope_for_request (sample_call_request ''read'') route (MCP_GATEWAY_ACCESS_SCOPE (mw_env sample_world)) = Inr sc"
    "header (up_headers up) ''authorization'' = Some (''Bearer '' @ t)"
    "token_serves sample_athenz t aud (scope_values sc)" by auto
  have "access_scope_for_request (sample_call_request ''read'') sample_route (MCP_GATEWAY_ACCESS_SCOPE sample_env)
      = Inr ''api:role.reader''" by code_simp
  with r(1,2) have sc: "sc = ''api:role.reader''" by (auto simp: sample_world_def)
  from r(4) have "token_serves sample_athenz t aud [''api:role.reader'']"
    unfolding sc sample_values .
  with up r(3) show ?thesis by (metis snd_conv)
qed









text \<open>
  No forged headers. In every request sent upstream the downstream-scope header is the one
  the gateway computed (or absent), and the client's host and hop-by-hop headers are gone.
\<close>

theorem forwarded_headers_are_the_gateways:
  assumes "mcp_handler w now req serverId sessions others = (r, sessions', Some (up, scope))"
  shows "\<exists>route. mw_route w serverId = Inr route \<and>
     header (up_headers up) mcp_downstream_scope_header =
       (if truthy scope then downstream_scope_for_request req route (the scope) (MCP_GATEWAY_ACCESS_SCOPE (mw_env w))
        else None) \<and>
     list_all (\<lambda>name. header (up_headers up) name = None) (''host'' # hop_by_hop_headers)"
proof -
  from mcp_handler_sent [OF assms] obtain session where snt: "snd (mcp_forward w req serverId session) = Some (up, scope)"
    by metis
  then obtain res where "mcp_forward w req serverId session = (res, Some (up, scope))" by (metis prod.collapse)
  from mcp_forward_sent [OF this] obtain route tk ds where route: "mw_route w serverId = Inr route"
    and up: "up_headers up = forwarded_request_headers req tk ds"
    and ds: "ds = (if truthy scope then downstream_scope_for_request req route (the scope) (MCP_GATEWAY_ACCESS_SCOPE (mw_env w))
                   else None)"
    by (metis upstream_request_for_headers)
  have nonempty: "truthy ds \<or> ds = None"
  proof -
    have "join '' '' xs \<noteq> []" if "list_all is_word xs" "xs \<noteq> []" for xs
      using words_join_space [OF that(1)] that(2) by (metis words_Nil)
    moreover have "list_all is_word (filter P (scope_values s))" for P s
      using scope_values_words [of s] by (auto simp: list_all_iff)
    ultimately show ?thesis
      unfolding ds downstream_scope_for_request_def Let_def
      by (auto split: option.splits)
  qed
  have gone: "header (forwarded_request_headers req tk ds) name = None"
    if "name \<in> set (''host'' # hop_by_hop_headers)" for name
  proof -
    from that have n: "to_lower name = name" "name \<noteq> ''authorization''" "name \<noteq> mcp_downstream_scope_header"
      by (auto simp: hop_by_hop_headers_def to_lower_def lower_char_def is_upper_def mcp_downstream_scope_header_def
          less_eq_char_def)
    have "header (copy_headers (rq_headers req) []) name = None"
      using copy_headers_other [of name "rq_headers req" "[]"] that n(1) by (auto simp: copied_header_def)
    with n show ?thesis
      by (auto simp: forwarded_request_headers_def Let_def header_set_header to_lower_fixed)
  qed
  from nonempty have "header (up_headers up) mcp_downstream_scope_header = ds"
    unfolding up forwarded_own_headers(2) by auto
  with route ds gone show ?thesis by (auto simp: list_all_iff up)
qed

theorem forwarded_headers_are_the_gateways_witness:
  "\<exists>up. snd (snd (mcp_handler sample_world 5 (sample_call_request ''read'') ''docs'' sample_sessions (\<lambda>s. s)))
       = Some (up, Some ''api:role.reader'') \<and> header (up_headers up) ''host'' = None"
proof -
  let ?h = "mcp_handler sample_world 5 (sample_call_request ''read'') ''docs'' sample_sessions (\<lambda>s. s)"
  from sample_handler_sends obtain up where up: "?h = (fst ?h, fst (snd ?h), Some (up, Some ''api:role.reader''))"
    by (metis prod.collapse)
  from forwarded_headers_are_the_gateways [OF up] have "header (up_headers up) ''host'' = None" by auto
  with up show ?thesis by (metis snd_conv)
qed

text \<open>
  A tool without a configured scope is refused. On a server that lists tool scopes and does
  not open the others, a call of an unlisted tool ends in 403, without asking for a token and
  without any upstream request.
\<close>

theorem unlisted_tool_is_refused:
  assumes "is_valid_server_id serverId"
    and "require_session (mw_pf w) (mw_env w) (mw_tokenHash w) now req (Some serverId) sessions = (Inr session, sessions2)"
    and "mw_route w serverId = Inr route" "rt_toolScopes route = Some ts" "map_of ts name = None"
    and "rt_defaultToolPermission route \<noteq> Some Permission_None"
    and "posted_object req = Some message" "map_of message ''method'' = Some (JStr ''tools/call'')"
    and "tool_name message = Inr name"
  shows "mcp_handler w now req serverId sessions others =
    (reply_json 403 [] (JObj [(''error'', JStr ''tool_scope_not_configured''),
       (''message'', JStr (''No Athenz access scope is configured for MCP tool: '' @ name))]),
     others sessions2, None)"
proof -
  have "\<not> is_public_mcp_discovery_request req"
    using assms(7,8) by (simp add: is_public_mcp_discovery_request_def public_mcp_methods_def)
  moreover have "access_scope_for_request req route (MCP_GATEWAY_ACCESS_SCOPE (mw_env w)) = Inl (Tool_Scope_Not_Configured name)"
    using assms by (simp add: access_scope_for_request_def tool_scope_def Let_def)
  ultimately have "mcp_prepare w req serverId session = Inl (Tool_Scope_Not_Configured name)"
    using assms(3) by (simp add: mcp_prepare_def mcp_resolve_def mcp_access_scope_def)
  with assms(1,2) show ?thesis
    by (simp add: mcp_handler_def mcp_forward_def mcp_error_reply_def mcp_error_code_def Let_def)
qed

theorem unlisted_tool_is_refused_witness:
  "mcp_handler sample_world 5 (sample_call_request ''drop'') ''docs'' sample_sessions (\<lambda>s. s) =
    (reply_json 403 [] (JObj [(''error'', JStr ''tool_scope_not_configured''),
       (''message'', JStr (''No Athenz access scope is configured for MCP tool: '' @ ''drop''))]),
     sample_sessions, None)"
proof (rule unlisted_tool_is_refused [where others = "\<lambda>s. s"])
  show "is_valid_server_id ''docs''" by code_simp
  show "require_session (mw_pf sample_world) (mw_env sample_world) (mw_tokenHash sample_world) 5
      (sample_call_request ''drop'') (Some ''docs'') sample_sessions = (Inr sample_session, sample_sessions)" by code_simp
  show "mw_route sample_world ''docs'' = Inr sample_route" by (simp add: sample_world_def)
  show "rt_toolScopes sample_route = Some [(''read'', ''api:role.reader'')]" by (simp add: sample_route_def)
  show "rt_defaultToolPermission sample_route \<noteq> Some Permission_None" by (simp add: sample_route_def)
  show "posted_object (sample_call_request ''drop'') =
      Some [(''method'', JStr ''tools/call''), (''params'', JObj [(''name'', JStr ''drop'')])]" by code_simp
  show "tool_name [(''method'', JStr ''tools/call''), (''params'', JObj [(''name'', JStr ''drop'')])] = Inr ''drop''" by code_simp
qed simp_all

text \<open>
  When Athenz needs a fresh login, the session is over: the handler answers 401 with a
  challenge, and the bearer token opens no session any more, whatever happened in between.
\<close>

theorem reauthentication_ends_the_session:
  assumes "is_valid_server_id serverId"
    and "require_session (mw_pf w) (mw_env w) (mw_tokenHash w) now req (Some serverId) sessions = (Inr session, sessions2)"
    and "mw_route w serverId = Inr route"
    and "mcp_access_scope req route (MCP_GATEWAY_ACCESS_SCOPE (mw_env w)) = Inr (Some scope)" "scope \<noteq> []"
    and "mw_access_token w session scope (rt_accessAudience route) = Inl (Reauthentication_Required m)"
  shows "let (r, sessions', sent) = mcp_handler w now req serverId sessions others in
     rp_status r = 401 \<and> authentication_challenge (mw_pf w) (mw_env w) (Some serverId) \<in> set (rp_headers r) \<and>
     sent = None \<and> fst (session_get (mw_tokenHash w) t (bearer_token req) sessions') = None"
proof -
  have "mcp_prepare w req serverId session = Inl (Mcp_Athenz (Reauthentication_Required m))"
    using assms(3-6) by (simp add: mcp_prepare_def mcp_resolve_def mcp_token_def)
  moreover have "bearer_token req \<noteq> []" using require_session_Inr [OF assms(2)] by simp
  ultimately show ?thesis
    using assms(1,2)
    by (simp add: mcp_handler_def mcp_forward_def mcp_error_reply_def session_deleted Let_def)
qed

definition sample_reauth_world :: mcp_world where
  "sample_reauth_world = sample_world\<lparr>mw_access_token := \<lambda>s sc a. Inl (Reauthentication_Required ''again'')\<rparr>"

theorem reauthentication_ends_the_session_witness:
  "let (r, sessions', sent) = mcp_handler sample_reauth_world 5 (sample_call_request ''read'') ''docs'' sample_sessions (\<lambda>s. s) in
     rp_status r = 401 \<and>
     authentication_challenge (mw_pf sample_reauth_world) (mw_env sample_reauth_world) (Some ''docs'') \<in> set (rp_headers r) \<and>
     sent = None \<and>
     fst (session_get (mw_tokenHash sample_reauth_world) 6 (bearer_token (sample_call_request ''read'')) sessions') = None"
proof (rule reauthentication_ends_the_session)
  show "is_valid_server_id ''docs''" by code_simp
  show "require_session (mw_pf sample_reauth_world) (mw_env sample_reauth_world) (mw_tokenHash sample_reauth_world) 5
      (sample_call_request ''read'') (Some ''docs'') sample_sessions = (Inr sample_session, sample_sessions)" by code_simp
  show "mw_route sample_reauth_world ''docs'' = Inr sample_route" by (simp add: sample_reauth_world_def sample_world_def)
  show "mcp_access_scope (sample_call_request ''read'') sample_route (MCP_GATEWAY_ACCESS_SCOPE (mw_env sample_reauth_world))
      = Inr (Some ''api:role.reader'')" by code_simp
  show "mw_access_token sample_reauth_world sample_session ''api:role.reader'' (rt_accessAudience sample_route)
      = Inl (Reauthentication_Required ''again'')" by (simp add: sample_reauth_world_def)
qed simp

text \<open>
  For a tool call on a server with tool scopes, the downstream header carries exactly the
  selected scopes that the server itself does not need, in canonical form, and is absent only
  when there is none.
\<close>

theorem downstream_scope_is_the_rest:
  assumes "posted_object req = Some message" "map_of message ''method'' = Some (JStr ''tools/call'')"
    and "rt_toolScopes route = Some ts"
  shows "let rest = set (scope_values selected) - set (scope_values (route_scope route fallback)) in
     (case downstream_scope_for_request req route selected fallback of
        None \<Rightarrow> rest = {}
      | Some d \<Rightarrow> rest \<noteq> {} \<and> set (scope_values d) = rest \<and> d = join '' '' (scope_values d))"
proof -
  show ?thesis
    using assms by (auto simp: downstream_scope_for_request_def Let_def filter_empty_conv scope_values_join_filter)
qed

theorem downstream_scope_is_the_rest_witness:
  "let rest = set (scope_values ''api:role.reader db:role.get'') - set (scope_values (route_scope sample_route ''x:role.y'')) in
     (case downstream_scope_for_request (sample_call_request ''read'') sample_route ''api:role.reader db:role.get'' ''x:role.y'' of
        None \<Rightarrow> rest = {}
      | Some d \<Rightarrow> rest \<noteq> {} \<and> set (scope_values d) = rest \<and> d = join '' '' (scope_values d))"
  by (rule downstream_scope_is_the_rest) code_simp+

end
