(* ===== verification/Gateway_Internal.thy ===== *)
theory Gateway_Internal
  imports Gateway_Protected
begin

text \<open>
  \<^verbatim>\<open>mcp-gateway/src/routes/internal.ts\<close> and \<^verbatim>\<open>app.ts\<close>: the cache-status route for operators
  and the fixed replies of the application. \<^verbatim>\<open>toISOString\<close> is an argument.
\<close>

definition session_expiry_skew_seconds :: rat where
  "session_expiry_skew_seconds = 60"

definition is_authorized :: "string option \<Rightarrow> string option \<Rightarrow> bool" where
  "is_authorized authorization expectedToken =
     (case (expectedToken, authorization) of
        (Some expected, Some a) \<Rightarrow>
          expected \<noteq> [] \<and> starts_with ''Bearer '' a \<and> drop (length ''Bearer '') a = expected
      | _ \<Rightarrow> False)"

record session_row =
  sw_session :: gateway_session
  sw_refresh :: bool
  sw_accessTokens :: cache_status
  sw_idJags :: cache_status

definition session_row_of :: "int \<Rightarrow> athenz_manager \<Rightarrow> gateway_session \<Rightarrow> session_row" where
  "session_row_of nowMs manager s =
     \<lparr>sw_session = s,
      sw_refresh = (gs_expiresAt s * 1000 \<le> of_int nowMs + session_expiry_skew_seconds * 1000),
      sw_accessTokens = get_cache_status (of_int nowMs) s manager,
      sw_idJags = get_id_jag_cache_status (of_int nowMs) s manager\<rparr>"

definition number :: "nat \<Rightarrow> json" where
  "number n = JNum (Finite (of_nat n))"

fun status_text :: "entry_status \<Rightarrow> string" where
  "status_text Valid_Entry = ''valid''"
| "status_text Refresh_Required = ''refresh-required''"
| "status_text Expired_Entry = ''expired''"

definition cache_status_json :: "(rat \<Rightarrow> string) \<Rightarrow> cache_status \<Rightarrow> json" where
  "cache_status_json isoTime s = JObj
     [(''entryCount'', number (cs_entryCount s)), (''usableEntryCount'', number (cs_usableEntryCount s)),
      (''refreshRequiredEntryCount'', number (cs_refreshRequiredEntryCount s)),
      (''expiredEntryCount'', number (cs_expiredEntryCount s)),
      (''expirySkewSeconds'', JNum (Finite (cs_expirySkewSeconds s))),
      (''entries'', JArr (map (\<lambda>r. JObj
         [(''audiences'', JArr (map JStr (sr_audiences r))), (''scope'', JStr (sr_scope r)),
          (''cachedAt'', JStr (isoTime (sr_cachedAtMs r))), (''expiresAt'', JStr (isoTime (sr_expiresAtMs r))),
          (''status'', JStr (status_text (sr_status r)))]) (cs_entries s)))]"

definition session_row_json :: "(rat \<Rightarrow> string) \<Rightarrow> session_row \<Rightarrow> json" where
  "session_row_json isoTime r = JObj
     [(''username'', JStr (gs_username (sw_session r))), (''subject'', JStr (gs_subject (sw_session r))),
      (''idTokenExpiresAt'', JStr (isoTime (gs_idTokenExpiresAt (sw_session r) * 1000))),
      (''expiresAt'', JStr (isoTime (gs_expiresAt (sw_session r) * 1000))),
      (''status'', JStr (if sw_refresh r then ''refresh-required'' else ''valid'')),
      (''athenzAccessTokens'', cache_status_json isoTime (sw_accessTokens r)),
      (''athenzIdJags'', cache_status_json isoTime (sw_idJags r))]"

definition cache_status_body :: "(rat \<Rightarrow> string) \<Rightarrow> int \<Rightarrow> session_row list \<Rightarrow> json" where
  "cache_status_body isoTime nowMs rows =
     (let refreshRequired = length (filter sw_refresh rows) in JObj
       [(''generatedAt'', JStr (isoTime (of_int nowMs))), (''sessionCount'', number (length rows)),
        (''validSessionCount'', number (length rows - refreshRequired)),
        (''refreshRequiredSessionCount'', number refreshRequired),
        (''expirySkewSeconds'', JNum (Finite session_expiry_skew_seconds)),
        (''sessions'', JArr (map (session_row_json isoTime) rows))])"

definition cache_status_route ::
  "(rat \<Rightarrow> string) \<Rightarrow> string option \<Rightarrow> int \<Rightarrow> int \<Rightarrow> request \<Rightarrow> athenz_manager \<Rightarrow> session_map
   \<Rightarrow> reply \<times> session_map" where
  "cache_status_route isoTime registryToken nowMs listMs req manager sessions =
     (if \<not> is_authorized (authorization_of req) registryToken
      then (reply_json 401 [no_store] (JObj [(''error'', JStr ''Authentication required'')]), sessions)
      else let (active, sessions') = list_active (now_seconds listMs) sessions in
           (reply_json 200 [no_store] (cache_status_body isoTime nowMs (map (session_row_of nowMs manager) active)), sessions'))"

section \<open>The application\<close>

definition security_headers :: out_headers where
  "security_headers = [(''x-content-type-options'', ''nosniff''), (''referrer-policy'', ''no-referrer'')]"

definition with_security_headers :: "reply \<Rightarrow> reply" where
  "with_security_headers r = r\<lparr>rp_headers := security_headers @ rp_headers r\<rparr>"

definition root_route :: reply where
  "root_route = reply_json 200 [] (JObj [(''name'', JStr ''mcp-gateway''), (''phase'', JStr ''authenticated-forwarding'')])"

definition health_route :: reply where
  "health_route = reply_json 200 [] (JObj [(''status'', JStr ''ok'')])"

section \<open>The property\<close>

text \<open>
  The status of sessions and caches is shown only to the holder of a configured, non-empty
  registry token; anyone else gets 401 and the session store is not touched. What is shown are
  exactly the sessions that have not expired, and expired ones are forgotten.
\<close>

theorem cache_status_is_guarded:
  "(rp_status (fst (cache_status_route isoTime registryToken nowMs listMs req manager sessions)) = 200 \<longleftrightarrow>
     (\<exists>token. registryToken = Some token \<and> token \<noteq> [] \<and> authorization_of req = Some (''Bearer '' @ token)))
   \<and> cache_status_route isoTime registryToken nowMs listMs req manager sessions =
     (if is_authorized (authorization_of req) registryToken
      then (reply_json 200 [no_store] (cache_status_body isoTime nowMs
              (map (\<lambda>x. session_row_of nowMs manager (snd x)) (filter (\<lambda>(k, s). now_seconds listMs < gs_expiresAt s) sessions))),
            filter (\<lambda>(k, s). now_seconds listMs < gs_expiresAt s) sessions)
      else (reply_json 401 [no_store] (JObj [(''error'', JStr ''Authentication required'')]), sessions))"
proof -
  have auth: "is_authorized a t \<longleftrightarrow> (\<exists>token. t = Some token \<and> token \<noteq> [] \<and> a = Some (''Bearer '' @ token))" for a t
  proof -
    have "starts_with ''Bearer '' b \<and> drop (length ''Bearer '') b = c \<longleftrightarrow> b = ''Bearer '' @ c" for b c
      unfolding starts_with_def by (metis append_eq_conv_conj append_take_drop_id)
    then show ?thesis by (auto simp: is_authorized_def simp del: append.simps list.size split: option.splits)
  qed
  have status: "rp_status (fst (cache_status_route isoTime registryToken nowMs listMs req manager sessions)) = 200
      \<longleftrightarrow> is_authorized (authorization_of req) registryToken"
    by (simp add: cache_status_route_def split_beta)
  show ?thesis
    unfolding status unfolding auth [symmetric]
    by (simp add: cache_status_route_def list_active_eq Let_def comp_def split_beta)
qed

end
