(* ===== verification/Runtime_Auth.thy ===== *)
theory Runtime_Auth
  imports Js_Value
begin

text \<open>
  \<^verbatim>\<open>mcp-runtime-proxy/src/auth.ts\<close>: the verifier of Athenz access tokens and the resolver of
  the signing keys ZTS publishes. \<^verbatim>\<open>JSON.parse\<close>, \<^verbatim>\<open>crypto.verify\<close>, \<^verbatim>\<open>createPublicKey\<close> and
  \<^verbatim>\<open>toISOString\<close> are arguments; a key is of any type. The verifier awaits the resolver at
  most twice, once without and once with a forced refresh: the two outcomes are an argument.
\<close>

type_synonym fields = "(string \<times> json) list"

definition max_jwks_bytes :: nat where
  "max_jwks_bytes = 1024 * 1024"

definition max_token_bytes :: nat where
  "max_token_bytes = 32 * 1024"

record access_diagnostics =
  ad_expectedAudience :: string
  ad_requiredScope :: string
  ad_keyId :: "string option"
  ad_signatureVerified :: "bool option"
  ad_audiences :: "string list option"
  ad_scopes :: "string list option"
  ad_expiresAt :: "string option"
  ad_expiresInSeconds :: "rat option"
  ad_notBefore :: "string option"
  ad_validInSeconds :: "rat option"

record token_error =
  te_status :: int
  te_code :: string
  te_message :: string
  te_reason :: string

datatype auth_failure =
    Token_Error token_error
  | Jwks_Unavailable string

text \<open>What \<^verbatim>\<open>verify\<close> throws: a token error carries what is known of the token by then.\<close>

type_synonym denial = "auth_failure \<times> access_diagnostics"

record verified_token =
  vt_audiences :: "string list"
  vt_clientId :: "string option"
  vt_expiresAt :: string
  vt_expiresInSeconds :: rat
  vt_keyId :: string
  vt_scopes :: "string list"
  vt_subject :: "string option"
  vt_userId :: "string option"

definition invalid_token :: "string \<Rightarrow> auth_failure" where
  "invalid_token reason = Token_Error \<lparr>te_status = 401, te_code = ''invalid_access_token'',
     te_message = ''The Athenz access token is invalid or expired.'', te_reason = reason\<rparr>"

text \<open>\<^verbatim>\<open>/^[A-Za-z0-9](?:[A-Za-z0-9._-]*[A-Za-z0-9])?$/\<close>\<close>

definition valid_athenz_name :: "string \<Rightarrow> bool" where
  "valid_athenz_name s \<longleftrightarrow> s \<noteq> [] \<and> is_alnum (hd s) \<and> is_alnum (last s) \<and> list_all is_name_char s"

definition string_claim :: "unknown \<Rightarrow> string option" where
  "string_claim v = (case as_string v of None \<Rightarrow> None | Some s \<Rightarrow> if s = [] then None else Some s)"

text \<open>A finite number of seconds that is a valid \<^verbatim>\<open>Date\<close>: at most 100,000,000 days from the epoch.\<close>

definition valid_numeric_date :: "unknown \<Rightarrow> rat option" where
  "valid_numeric_date v =
     (case as_finite v of
        None \<Rightarrow> None
      | Some q \<Rightarrow> if \<bar>q * 1000\<bar> \<le> 8640000000000000 then Some q else None)"

section \<open>Reading a token\<close>

text \<open>\<^verbatim>\<open>Buffer.byteLength\<close>: a character below 256 takes one or two bytes of UTF-8.\<close>

definition byte_length :: "string \<Rightarrow> nat" where
  "byte_length s = sum_list (map (\<lambda>c. if of_char c < (128 :: nat) then 1 else 2) s)"

definition is_base64url :: "char \<Rightarrow> bool" where
  "is_base64url c \<longleftrightarrow> is_alnum c \<or> c = CHR ''_'' \<or> c = CHR ''-''"

definition base64url_value :: "char \<Rightarrow> nat" where
  "base64url_value c =
     (if is_upper c then of_char c - 65
      else if is_lower c then of_char c - 71
      else if is_digit c then of_char c + 4
      else if c = CHR ''-'' then 62 else 63)"

text \<open>\<^verbatim>\<open>Buffer.from(value, "base64url")\<close> on the base64url alphabet: four digits give three bytes.\<close>

fun base64url_decode :: "string \<Rightarrow> string" where
  "base64url_decode (a # b # c # d # cs) =
     (let n = 262144 * base64url_value a + 4096 * base64url_value b
              + 64 * base64url_value c + base64url_value d
      in char_of (n div 65536) # char_of (n div 256 mod 256) # char_of (n mod 256) # base64url_decode cs)"
| "base64url_decode [a, b, c] =
     (let n = 1024 * base64url_value a + 16 * base64url_value b + base64url_value c div 4
      in [char_of (n div 256), char_of (n mod 256)])"
| "base64url_decode [a, b] = [char_of (4 * base64url_value a + base64url_value b div 16)]"
| "base64url_decode _ = []"

definition runtime_bearer_token ::
  "string option \<Rightarrow> string \<Rightarrow> string \<Rightarrow> (auth_failure, string) result" where
  "runtime_bearer_token authorization expectedAudience requiredScope =
     (case authorization of
        None \<Rightarrow> Inl (Token_Error \<lparr>te_status = 401, te_code = ''missing_access_token'',
          te_message = ''Pass an Athenz access token with aud='' @ expectedAudience @ '' and scope=''
            @ requiredScope @ '' as Authorization: Bearer <token>.'', te_reason = ''missing_authorization''\<rparr>)
      | Some a \<Rightarrow>
          if a = []
          then Inl (Token_Error \<lparr>te_status = 401, te_code = ''missing_access_token'',
            te_message = ''Pass an Athenz access token with aud='' @ expectedAudience @ '' and scope=''
              @ requiredScope @ '' as Authorization: Bearer <token>.'', te_reason = ''missing_authorization''\<rparr>)
          else let token = drop 7 a; parts = split_char CHR ''.'' token in
            if to_lower (take 7 a) \<noteq> ''bearer '' \<or> length parts \<noteq> 3
               \<or> \<not> list_all (\<lambda>p. p \<noteq> [] \<and> list_all is_base64url p) parts
            then Inl (invalid_token ''malformed_authorization'')
            else if byte_length token > max_token_bytes
            then Inl (invalid_token ''token_too_large'')
            else Inr token)"

record parsed_token =
  pt_claims :: fields
  pt_kid :: string
  pt_signature :: string
  pt_signingInput :: string

definition decode_record :: "(string \<Rightarrow> json option) \<Rightarrow> string \<Rightarrow> (auth_failure, fields) result" where
  "decode_record parse value =
     (case as_record (parse (base64url_decode value)) of
        None \<Rightarrow> Inl (invalid_token ''malformed_jwt'')
      | Some fs \<Rightarrow> Inr fs)"

definition parse_jwt :: "(string \<Rightarrow> json option) \<Rightarrow> string \<Rightarrow> (auth_failure, parsed_token) result" where
  "parse_jwt parse token =
     (let parts = split_char CHR ''.'' token in
      if length parts < 3 then Inl (invalid_token ''malformed_jwt'') else
      ebind (decode_record parse (parts ! 0)) (\<lambda>header.
      ebind (decode_record parse (parts ! 1)) (\<lambda>claims.
        if map_of header ''alg'' \<noteq> Some (JStr ''RS256'') then Inl (invalid_token ''unsupported_algorithm'')
        else if map_of header ''typ'' \<noteq> Some (JStr ''at+jwt'') then Inl (invalid_token ''invalid_token_type'')
        else case string_claim (map_of header ''kid'') of
          None \<Rightarrow> Inl (invalid_token ''missing_key_id'')
        | Some kid \<Rightarrow>
            let signature = base64url_decode (parts ! 2) in
            if signature = [] then Inl (invalid_token ''malformed_jwt'')
            else Inr \<lparr>pt_claims = claims, pt_kid = kid, pt_signature = signature,
                      pt_signingInput = parts ! 0 @ ''.'' @ parts ! 1\<rparr>)))"

definition runtime_token_audiences :: "unknown \<Rightarrow> (auth_failure, string list) result" where
  "runtime_token_audiences value =
     (let normalized = uniq (filter (\<lambda>a. a \<noteq> []) (map trim (string_or_strings value)))
      in if normalized = [] then Inl (invalid_token ''invalid_audience'') else Inr normalized)"

text \<open>The scopes of one of the claims \<^verbatim>\<open>scp\<close> and \<^verbatim>\<open>scope\<close>, and of both.\<close>

fun claim_scopes :: "unknown \<Rightarrow> (auth_failure, string list) result" where
  "claim_scopes None = Inr []"
| "claim_scopes (Some (JStr s)) = Inr (words s)"
| "claim_scopes (Some (JArr vs)) =
     (case all_strings vs of
        None \<Rightarrow> Inl (invalid_token ''invalid_scope'')
      | Some ss \<Rightarrow> Inr (filter (\<lambda>s. s \<noteq> []) ss))"
| "claim_scopes (Some _) = Inl (invalid_token ''invalid_scope'')"

definition runtime_token_scopes :: "fields \<Rightarrow> (auth_failure, string list) result" where
  "runtime_token_scopes claims =
     ebind (claim_scopes (map_of claims ''scp'')) (\<lambda>xs.
     ebind (claim_scopes (map_of claims ''scope'')) (\<lambda>ys. Inr (uniq (xs @ ys))))"

section \<open>Verifying\<close>

record verifier_config =
  vc_expectedAudience :: string
  vc_requiredScope :: string

text \<open>\<^verbatim>\<open>createAthenzAccessTokenVerifier\<close>: the checks of the configuration.\<close>

definition create_verifier :: "string \<Rightarrow> string \<Rightarrow> (string, verifier_config) result" where
  "create_verifier expectedAudience requiredScope =
     (let rolePrefix = expectedAudience @ '':role.'' in
      if \<not> valid_athenz_name expectedAudience then Inl ''ATHENZ_EXPECTED_AUDIENCE is invalid''
      else if \<not> starts_with rolePrefix requiredScope
              \<or> \<not> valid_athenz_name (drop (length rolePrefix) requiredScope)
      then Inl ''ATHENZ_REQUIRED_SCOPE must be a role in ATHENZ_EXPECTED_AUDIENCE''
      else Inr \<lparr>vc_expectedAudience = expectedAudience, vc_requiredScope = requiredScope\<rparr>)"

definition short_scope :: "verifier_config \<Rightarrow> string" where
  "short_scope cfg = drop (length (vc_expectedAudience cfg @ '':role.'')) (vc_requiredScope cfg)"

record 'key crypto =
  cr_parse :: "string \<Rightarrow> json option"                        \<comment> \<open>\<open>JSON.parse\<close> of UTF-8 bytes\<close>
  cr_verify :: "string \<Rightarrow> 'key \<Rightarrow> string \<Rightarrow> bool option"     \<comment> \<open>\<open>None\<close> when it throws\<close>
  cr_isoTime :: "rat \<Rightarrow> string"

definition verify_signature :: "'key crypto \<Rightarrow> parsed_token \<Rightarrow> 'key \<Rightarrow> bool" where
  "verify_signature cr token signingKey =
     (case cr_verify cr (pt_signingInput token) signingKey (pt_signature token) of
        None \<Rightarrow> False | Some b \<Rightarrow> b)"

definition start_diagnostics :: "verifier_config \<Rightarrow> access_diagnostics" where
  "start_diagnostics cfg =
     \<lparr>ad_expectedAudience = vc_expectedAudience cfg, ad_requiredScope = vc_requiredScope cfg,
      ad_keyId = None, ad_signatureVerified = None, ad_audiences = None, ad_scopes = None,
      ad_expiresAt = None, ad_expiresInSeconds = None, ad_notBefore = None, ad_validInSeconds = None\<rparr>"

definition with_diagnostics :: "access_diagnostics \<Rightarrow> (auth_failure, 'a) result \<Rightarrow> (denial, 'a) result" where
  "with_diagnostics d r = (case r of Inl e \<Rightarrow> Inl (e, d) | Inr x \<Rightarrow> Inr x)"

text \<open>The steps of \<^verbatim>\<open>verify\<close>: the signature, the times, the audience, the scope.\<close>

definition check_signature ::
  "'key crypto \<Rightarrow> parsed_token \<Rightarrow> (string \<Rightarrow> bool \<Rightarrow> (auth_failure, 'key) result) \<Rightarrow> (auth_failure, unit) result" where
  "check_signature cr parsed resolve =
     ebind (resolve (pt_kid parsed) False) (\<lambda>signingKey.
       if verify_signature cr parsed signingKey then Inr ()
       else ebind (resolve (pt_kid parsed) True) (\<lambda>refreshedKey.
         require (verify_signature cr parsed refreshedKey) (invalid_token ''invalid_signature'')))"

definition check_expiry ::
  "'key crypto \<Rightarrow> int \<Rightarrow> fields \<Rightarrow> access_diagnostics \<Rightarrow> (denial, access_diagnostics) result" where
  "check_expiry cr currentTime claims d =
     (case valid_numeric_date (map_of claims ''exp'') of
        None \<Rightarrow> Inl (invalid_token ''invalid_expiration'', d)
      | Some expiry \<Rightarrow>
          let d' = d\<lparr>ad_expiresAt := Some (cr_isoTime cr expiry),
                     ad_expiresInSeconds := Some (expiry - of_int currentTime)\<rparr>
          in if expiry \<le> of_int currentTime then Inl (invalid_token ''token_expired'', d') else Inr d')"

definition check_not_before ::
  "'key crypto \<Rightarrow> int \<Rightarrow> fields \<Rightarrow> access_diagnostics \<Rightarrow> (denial, access_diagnostics) result" where
  "check_not_before cr currentTime claims d =
     (if map_of claims ''nbf'' = None then Inr d
      else case valid_numeric_date (map_of claims ''nbf'') of
        None \<Rightarrow> Inl (invalid_token ''invalid_not_before'', d)
      | Some start \<Rightarrow>
          let d' = d\<lparr>ad_notBefore := Some (cr_isoTime cr start),
                     ad_validInSeconds := Some (start - of_int currentTime)\<rparr>
          in if of_int currentTime < start then Inl (invalid_token ''token_not_yet_valid'', d') else Inr d')"

definition check_audience ::
  "verifier_config \<Rightarrow> fields \<Rightarrow> access_diagnostics \<Rightarrow> (denial, string list \<times> access_diagnostics) result" where
  "check_audience cfg claims d =
     ebind (with_diagnostics d (runtime_token_audiences (map_of claims ''aud''))) (\<lambda>audiences.
       let d' = d\<lparr>ad_audiences := Some (sort audiences)\<rparr> in
       if vc_expectedAudience cfg \<notin> set audiences
       then Inl (invalid_token ''audience_mismatch'', d') else Inr (audiences, d'))"

definition check_scope ::
  "verifier_config \<Rightarrow> fields \<Rightarrow> string list \<Rightarrow> access_diagnostics \<Rightarrow> (denial, access_diagnostics) result" where
  "check_scope cfg claims audiences d =
     ebind (with_diagnostics d (runtime_token_scopes claims)) (\<lambda>scopes.
       let d' = d\<lparr>ad_scopes := Some (sort scopes)\<rparr> in
       if vc_requiredScope cfg \<in> set scopes \<or> (length audiences = 1 \<and> short_scope cfg \<in> set scopes)
       then Inr d'
       else Inl (Token_Error \<lparr>te_status = 403, te_code = ''insufficient_scope'',
         te_message = ''The Athenz access token must grant '' @ vc_requiredScope cfg @ ''.'',
         te_reason = ''missing_required_scope''\<rparr>, d'))"

definition verified_of :: "parsed_token \<Rightarrow> access_diagnostics \<Rightarrow> verified_token" where
  "verified_of parsed d =
     \<lparr>vt_audiences = the (ad_audiences d), vt_clientId = string_claim (map_of (pt_claims parsed) ''client_id''),
      vt_expiresAt = the (ad_expiresAt d), vt_expiresInSeconds = the (ad_expiresInSeconds d),
      vt_keyId = pt_kid parsed, vt_scopes = the (ad_scopes d),
      vt_subject = string_claim (map_of (pt_claims parsed) ''sub''),
      vt_userId = string_claim (map_of (pt_claims parsed) ''uid'')\<rparr>"

definition verify_access_token ::
  "'key crypto \<Rightarrow> verifier_config \<Rightarrow> int \<Rightarrow> (string \<Rightarrow> bool \<Rightarrow> (auth_failure, 'key) result) \<Rightarrow> string option
   \<Rightarrow> (denial, verified_token) result" where
  "verify_access_token cr cfg currentTime resolve authorization =
     (let d0 = start_diagnostics cfg in
      ebind (with_diagnostics d0 (ebind (runtime_bearer_token authorization (vc_expectedAudience cfg) (vc_requiredScope cfg))
              (parse_jwt (cr_parse cr)))) (\<lambda>parsed.
      let d1 = d0\<lparr>ad_keyId := Some (pt_kid parsed), ad_signatureVerified := Some False\<rparr> in
      ebind (with_diagnostics d1 (check_signature cr parsed resolve)) (\<lambda>_.
      ebind (check_expiry cr currentTime (pt_claims parsed) (d1\<lparr>ad_signatureVerified := Some True\<rparr>)) (\<lambda>d2.
      ebind (check_not_before cr currentTime (pt_claims parsed) d2) (\<lambda>d3.
      ebind (check_audience cfg (pt_claims parsed) d3) (\<lambda>(audiences, d4).
      ebind (check_scope cfg (pt_claims parsed) audiences d4) (\<lambda>d5.
      Inr (verified_of parsed d5))))))))"

section \<open>The published signing keys\<close>

text \<open>
  What \<^verbatim>\<open>requestJson\<close> sees: a failure of the connection, or a status and the chunks of the body.
\<close>

datatype http_answer = Http_Failure string | Http_Answer "int option" "string list"

fun read_limited :: "nat \<Rightarrow> nat \<Rightarrow> string list \<Rightarrow> string option" where
  "read_limited limit bytes [] = Some []"
| "read_limited limit bytes (chunk # chunks) =
     (let total = bytes + byte_length chunk in
      if total > limit then None else map_option (\<lambda>body. chunk @ body) (read_limited limit total chunks))"

definition int_text :: "int \<Rightarrow> string" where
  "int_text i = (if i < 0 then CHR ''-'' # nat_text (nat (- i)) else nat_text (nat i))"

definition jwks_request_json ::
  "(string \<Rightarrow> json option) \<Rightarrow> http_answer \<Rightarrow> (string, json) result" where
  "jwks_request_json parse answer =
     (case answer of
        Http_Failure m \<Rightarrow> Inl m
      | Http_Answer status chunks \<Rightarrow>
          (case read_limited max_jwks_bytes 0 chunks of
             None \<Rightarrow> Inl ''JWKS response exceeded the size limit''
           | Some body \<Rightarrow>
               if status \<noteq> Some 200
               then Inl (''ZTS returned HTTP '' @ (case status of None \<Rightarrow> ''unknown'' | Some i \<Rightarrow> int_text i))
               else case parse body of
                 None \<Rightarrow> Inl ''ZTS returned invalid JWKS JSON''
               | Some v \<Rightarrow> Inr v))"

definition supported_jwk :: "fields \<Rightarrow> string option" where
  "supported_jwk jwk =
     (case string_claim (map_of jwk ''kid'') of
        None \<Rightarrow> None
      | Some kid \<Rightarrow>
          if map_of jwk ''kty'' \<noteq> Some (JStr ''RSA'')
             \<or> map_of jwk ''use'' \<notin> {None, Some (JStr ''sig'')}
             \<or> map_of jwk ''alg'' \<notin> {None, Some (JStr ''RS256'')}
             \<or> as_string (map_of jwk ''n'') = None \<or> as_string (map_of jwk ''e'') = None
          then None else Some kid)"

fun add_signing_keys ::
  "(fields \<Rightarrow> 'key option) \<Rightarrow> json list \<Rightarrow> (string \<times> 'key) list \<Rightarrow> (auth_failure, (string \<times> 'key) list) result" where
  "add_signing_keys createKey [] keys = Inr keys"
| "add_signing_keys createKey (v # vs) keys =
     (case as_record (Some v) of
        None \<Rightarrow> add_signing_keys createKey vs keys
      | Some jwk \<Rightarrow>
          (case supported_jwk jwk of
             None \<Rightarrow> add_signing_keys createKey vs keys
           | Some kid \<Rightarrow>
               if map_of keys kid \<noteq> None
               then Inl (Jwks_Unavailable ''ZTS JWKS contains duplicate signing key IDs'')
               else case createKey jwk of
                 None \<Rightarrow> Inl (Jwks_Unavailable ''ZTS JWKS contains an invalid RSA signing key'')
               | Some key \<Rightarrow> add_signing_keys createKey vs (keys @ [(kid, key)])))"

definition fetch_jwks ::
  "(string \<Rightarrow> json option) \<Rightarrow> (fields \<Rightarrow> 'key option) \<Rightarrow> http_answer \<Rightarrow> (auth_failure, (string \<times> 'key) list) result" where
  "fetch_jwks parse createKey answer =
     (case jwks_request_json parse answer of
        Inl m \<Rightarrow> Inl (Jwks_Unavailable (''Unable to load ZTS JWKS: '' @ m))
      | Inr payload \<Rightarrow>
          (case as_record (Some payload) of
             None \<Rightarrow> Inl (Jwks_Unavailable ''ZTS returned an invalid JWKS document'')
           | Some fs \<Rightarrow>
               (case map_of fs ''keys'' of
                  Some (JArr vs) \<Rightarrow>
                    ebind (add_signing_keys createKey vs []) (\<lambda>keys.
                      if keys = [] then Inl (Jwks_Unavailable ''ZTS JWKS contains no supported signing keys'')
                      else Inr keys)
                | _ \<Rightarrow> Inl (Jwks_Unavailable ''ZTS returned an invalid JWKS document''))))"

section \<open>The key resolver\<close>

text \<open>
  \<^verbatim>\<open>createRemoteJwksKeyResolver\<close>. A call awaits a fetch of its own or of another caller. A fetch
  is numbered; its answer fills the cache in one step, and the \<^verbatim>\<open>finally\<close> that forgets it is
  the next. \<open>jf_phase\<close> keeps the keys, and the time at which they came.
\<close>

record resolver_config =
  rc_jwksUrl :: url
  rc_cacheTtlMs :: rat
  rc_timeoutMs :: rat

definition create_resolver :: "bool \<Rightarrow> js_number \<Rightarrow> js_number \<Rightarrow> url \<Rightarrow> (string, resolver_config) result" where
  "create_resolver allowInsecureHttp cacheTtlMs timeoutMs jwksUrl =
     (if url_username jwksUrl \<noteq> [] \<or> url_password jwksUrl \<noteq> []
      then Inl ''ATHENZ_JWKS_URL must not contain credentials''
      else if url_protocol jwksUrl \<noteq> ''https:'' \<and> \<not> (allowInsecureHttp \<and> url_protocol jwksUrl = ''http:'')
      then Inl ''ATHENZ_JWKS_URL must use https''
      else case (cacheTtlMs, timeoutMs) of
        (Finite ttl, Finite timeout) \<Rightarrow>
          if ttl \<le> 0 then Inl ''JWKS cache TTL must be positive''
          else if timeout \<le> 0 then Inl ''JWKS timeout must be positive''
          else Inr \<lparr>rc_jwksUrl = jwksUrl, rc_cacheTtlMs = ttl, rc_timeoutMs = timeout\<rparr>
      | (Finite ttl, _) \<Rightarrow>
          if ttl \<le> 0 then Inl ''JWKS cache TTL must be positive'' else Inl ''JWKS timeout must be positive''
      | _ \<Rightarrow> Inl ''JWKS cache TTL must be positive'')"

type_synonym 'key keys = "(string \<times> 'key) list"

datatype 'key fetch_phase =
    Fetching
  | Fetched rat "(auth_failure, 'key keys) result"    \<comment> \<open>answered; its \<open>finally\<close> is still to run\<close>
  | Fetch_Done rat "(auth_failure, 'key keys) result"

record 'key jwks_fetch =
  jf_url :: url
  jf_phase :: "'key fetch_phase"

datatype 'key load = Loaded "'key keys" | Waits_For nat

datatype 'key call =
    First_Load string bool "'key load"
  | Retry_Load string "'key load"
  | Call_Done string "(auth_failure, 'key) result"

record 'key resolver =
  rs_cache :: "(rat \<times> 'key keys) option"
  rs_pending :: "nat option"
  rs_fetches :: "'key jwks_fetch list"
  rs_calls :: "'key call list"

definition resolver_start :: "'key resolver" where
  "resolver_start = \<lparr>rs_cache = None, rs_pending = None, rs_fetches = [], rs_calls = []\<rparr>"

definition await_fetch :: "platform \<Rightarrow> resolver_config \<Rightarrow> bool \<Rightarrow> 'key resolver \<Rightarrow> 'key load \<times> 'key resolver" where
  "await_fetch pf rc forceRefresh st =
     (case rs_pending st of
        Some i \<Rightarrow> (Waits_For i, st)
      | None \<Rightarrow>
          let i = length (rs_fetches st);
              endpoint = (if forceRefresh then pf_set_param pf (rc_jwksUrl rc) ''r'' ''1'' else rc_jwksUrl rc)
          in (Waits_For i, st\<lparr>rs_pending := Some i,
                rs_fetches := rs_fetches st @ [\<lparr>jf_url = endpoint, jf_phase = Fetching\<rparr>]\<rparr>))"

definition jwks_load ::
  "platform \<Rightarrow> resolver_config \<Rightarrow> rat \<Rightarrow> bool \<Rightarrow> 'key resolver \<Rightarrow> 'key load \<times> 'key resolver" where
  "jwks_load pf rc now forceRefresh st =
     (case (if forceRefresh then None else rs_cache st) of
        Some (expiresAt, keys) \<Rightarrow>
          if now < expiresAt then (Loaded keys, st) else await_fetch pf rc forceRefresh st
      | None \<Rightarrow> await_fetch pf rc forceRefresh st)"

definition resolve_begin ::
  "platform \<Rightarrow> resolver_config \<Rightarrow> rat \<Rightarrow> string \<Rightarrow> bool \<Rightarrow> 'key resolver \<Rightarrow> 'key resolver" where
  "resolve_begin pf rc now kid forceRefresh st =
     (let (l, st') = jwks_load pf rc now forceRefresh st
      in st'\<lparr>rs_calls := rs_calls st' @ [First_Load kid forceRefresh l]\<rparr>)"

text \<open>What an awaited load has become, if it has settled.\<close>

definition load_result :: "'key resolver \<Rightarrow> 'key load \<Rightarrow> (auth_failure, 'key keys) result option" where
  "load_result st l =
     (case l of
        Loaded keys \<Rightarrow> Some (Inr keys)
      | Waits_For i \<Rightarrow> (case jf_phase (rs_fetches st ! i) of Fetch_Done t r \<Rightarrow> Some r | _ \<Rightarrow> None))"

text \<open>The resolver after its first \<^verbatim>\<open>await load\<close>, and after the second.\<close>

definition resolve_first ::
  "platform \<Rightarrow> resolver_config \<Rightarrow> rat \<Rightarrow> nat \<Rightarrow> string \<Rightarrow> bool \<Rightarrow> (auth_failure, 'key keys) result
   \<Rightarrow> 'key resolver \<Rightarrow> 'key resolver" where
  "resolve_first pf rc now c kid forceRefresh r st =
     (case r of
        Inl e \<Rightarrow> st\<lparr>rs_calls := (rs_calls st)[c := Call_Done kid (Inl e)]\<rparr>
      | Inr keys \<Rightarrow>
          (case map_of keys kid of
             Some key \<Rightarrow> st\<lparr>rs_calls := (rs_calls st)[c := Call_Done kid (Inr key)]\<rparr>
           | None \<Rightarrow>
               if forceRefresh
               then st\<lparr>rs_calls := (rs_calls st)[c := Call_Done kid (Inl (invalid_token ''unknown_signing_key''))]\<rparr>
               else let (l, st') = jwks_load pf rc now True st
                    in st'\<lparr>rs_calls := (rs_calls st')[c := Retry_Load kid l]\<rparr>))"

definition resolve_retry ::
  "nat \<Rightarrow> string \<Rightarrow> (auth_failure, 'key keys) result \<Rightarrow> 'key resolver \<Rightarrow> 'key resolver" where
  "resolve_retry c kid r st =
     st\<lparr>rs_calls := (rs_calls st)[c := Call_Done kid (ebind r (\<lambda>keys. case map_of keys kid of
          Some key \<Rightarrow> Inr key | None \<Rightarrow> Inl (invalid_token ''unknown_signing_key'')))]\<rparr>"

text \<open>The \<^verbatim>\<open>then\<close> and the \<^verbatim>\<open>finally\<close> of the pending fetch.\<close>

definition jwks_then ::
  "resolver_config \<Rightarrow> rat \<Rightarrow> nat \<Rightarrow> (auth_failure, 'key keys) result \<Rightarrow> 'key resolver \<Rightarrow> 'key resolver" where
  "jwks_then rc now i r st =
     (let st' = st\<lparr>rs_fetches := (rs_fetches st)[i := (rs_fetches st ! i)\<lparr>jf_phase := Fetched now r\<rparr>]\<rparr>
      in case r of
           Inl e \<Rightarrow> st'
         | Inr keys \<Rightarrow> st'\<lparr>rs_cache := Some (now + rc_cacheTtlMs rc, keys)\<rparr>)"

definition jwks_finally :: "nat \<Rightarrow> 'key resolver \<Rightarrow> 'key resolver" where
  "jwks_finally i st =
     (case jf_phase (rs_fetches st ! i) of
        Fetched t r \<Rightarrow> st\<lparr>rs_pending := None,
          rs_fetches := (rs_fetches st)[i := (rs_fetches st ! i)\<lparr>jf_phase := Fetch_Done t r\<rparr>]\<rparr>
      | _ \<Rightarrow> st)"

end
