(* ===== verification/Runtime_Auth_Runs.thy ===== *)
theory Runtime_Auth_Runs
  imports Runtime_Auth Samples
begin

text \<open>
  Runs of the key resolver and what the verifier promises: calls of the resolver interleave with
  the answers of ZTS in any order, and a verification uses keys that such a run handed out.
\<close>

section \<open>Runs of the resolver\<close>

text \<open>A state with the current time; each event happens at a time not before the last.\<close>

inductive jwks_step ::
  "platform \<Rightarrow> resolver_config \<Rightarrow> rat \<times> 'key resolver \<Rightarrow> rat \<times> 'key resolver \<Rightarrow> bool"
  for pf rc where
  Call_Begins: "now \<le> now' \<Longrightarrow>
    jwks_step pf rc (now, st) (now', resolve_begin pf rc now' kid forceRefresh st)"
| First_Settles: "now \<le> now' \<Longrightarrow> c < length (rs_calls st) \<Longrightarrow> rs_calls st ! c = First_Load kid forceRefresh l
    \<Longrightarrow> load_result st l = Some r \<Longrightarrow>
    jwks_step pf rc (now, st) (now', resolve_first pf rc now' c kid forceRefresh r st)"
| Retry_Settles: "now \<le> now' \<Longrightarrow> c < length (rs_calls st) \<Longrightarrow> rs_calls st ! c = Retry_Load kid l
    \<Longrightarrow> load_result st l = Some r \<Longrightarrow>
    jwks_step pf rc (now, st) (now', resolve_retry c kid r st)"
| Zts_Answers: "now \<le> now' \<Longrightarrow> i < length (rs_fetches st) \<Longrightarrow> jf_phase (rs_fetches st ! i) = Fetching \<Longrightarrow>
    jwks_step pf rc (now, st) (now', jwks_then rc now' i r st)"
| Fetch_Forgotten: "now \<le> now' \<Longrightarrow> i < length (rs_fetches st) \<Longrightarrow>
    jf_phase (rs_fetches st ! i) = Fetched t r \<Longrightarrow>
    jwks_step pf rc (now, st) (now', jwks_finally i st)"

inductive jwks_reachable :: "platform \<Rightarrow> resolver_config \<Rightarrow> rat \<times> 'key resolver \<Rightarrow> bool" for pf rc where
  Starts: "jwks_reachable pf rc (now, resolver_start)"
| Steps: "jwks_reachable pf rc s \<Longrightarrow> jwks_step pf rc s s' \<Longrightarrow> jwks_reachable pf rc s'"

text \<open>Fetch \<open>i\<close> has been answered with \<open>r\<close> at time \<open>t\<close>.\<close>

definition fetch_answered :: "'key resolver \<Rightarrow> nat \<Rightarrow> rat \<Rightarrow> (auth_failure, 'key keys) result \<Rightarrow> bool" where
  "fetch_answered st i t r \<longleftrightarrow> i < length (rs_fetches st) \<and>
     jf_phase (rs_fetches st ! i) \<in> {Fetched t r, Fetch_Done t r}"

definition keys_from :: "rat \<Rightarrow> 'key resolver \<Rightarrow> 'key keys \<Rightarrow> bool" where
  "keys_from now st keys \<longleftrightarrow> (\<exists>i t. fetch_answered st i t (Inr keys) \<and> t \<le> now)"

definition published :: "'key resolver \<Rightarrow> string \<Rightarrow> 'key \<Rightarrow> bool" where
  "published st kid key \<longleftrightarrow> (\<exists>i t keys. fetch_answered st i t (Inr keys) \<and> map_of keys kid = Some key)"

fun load_ok :: "rat \<Rightarrow> 'key resolver \<Rightarrow> 'key load \<Rightarrow> bool" where
  "load_ok now st (Loaded keys) = keys_from now st keys"
| "load_ok now st (Waits_For i) = (i < length (rs_fetches st))"

fun call_ok :: "rat \<Rightarrow> 'key resolver \<Rightarrow> 'key call \<Rightarrow> bool" where
  "call_ok now st (First_Load kid f l) = load_ok now st l"
| "call_ok now st (Retry_Load kid l) = load_ok now st l"
| "call_ok now st (Call_Done kid r) = (case r of Inl e \<Rightarrow> True | Inr key \<Rightarrow> published st kid key)"

text \<open>At most the pending fetch has not run to its end.\<close>

definition one_fetch :: "'key resolver \<Rightarrow> bool" where
  "one_fetch st \<longleftrightarrow>
     (\<forall>i < length (rs_fetches st). (\<exists>t r. jf_phase (rs_fetches st ! i) = Fetch_Done t r) \<or> rs_pending st = Some i) \<and>
     (\<forall>i. rs_pending st = Some i \<longrightarrow> i < length (rs_fetches st) \<and> (\<forall>t r. jf_phase (rs_fetches st ! i) \<noteq> Fetch_Done t r))"

definition cache_ok :: "resolver_config \<Rightarrow> rat \<Rightarrow> 'key resolver \<Rightarrow> bool" where
  "cache_ok rc now st \<longleftrightarrow>
     (\<forall>expiresAt keys. rs_cache st = Some (expiresAt, keys) \<longrightarrow>
        (\<exists>i t. fetch_answered st i t (Inr keys) \<and> expiresAt = t + rc_cacheTtlMs rc \<and> t \<le> now))"

definition resolver_inv :: "resolver_config \<Rightarrow> rat \<times> 'key resolver \<Rightarrow> bool" where
  "resolver_inv rc s \<longleftrightarrow>
     one_fetch (snd s) \<and> cache_ok rc (fst s) (snd s) \<and> list_all (call_ok (fst s) (snd s)) (rs_calls (snd s))"

text \<open>Everything said of fetches survives when answers are added and fetches are started.\<close>

definition fetches_grow :: "'key resolver \<Rightarrow> 'key resolver \<Rightarrow> bool" where
  "fetches_grow st st' \<longleftrightarrow> length (rs_fetches st) \<le> length (rs_fetches st') \<and>
     (\<forall>i t r. fetch_answered st i t r \<longrightarrow> fetch_answered st' i t r)"

lemma grow_keys_from: "keys_from now st keys \<Longrightarrow> fetches_grow st st' \<Longrightarrow> now \<le> now' \<Longrightarrow> keys_from now' st' keys"
  unfolding keys_from_def fetches_grow_def by (meson order_trans)

lemma grow_published: "published st kid key \<Longrightarrow> fetches_grow st st' \<Longrightarrow> published st' kid key"
  unfolding published_def fetches_grow_def by blast

lemma grow_load_ok: "load_ok now st l \<Longrightarrow> fetches_grow st st' \<Longrightarrow> now \<le> now' \<Longrightarrow> load_ok now' st' l"
  by (cases l) (auto intro: grow_keys_from simp: fetches_grow_def)

lemma grow_call_ok: "call_ok now st c \<Longrightarrow> fetches_grow st st' \<Longrightarrow> now \<le> now' \<Longrightarrow> call_ok now' st' c"
  by (cases c) (auto intro: grow_load_ok grow_published split: sum.splits)

lemma grow_cache_ok:
  "cache_ok rc now st \<Longrightarrow> fetches_grow st st' \<Longrightarrow> now \<le> now' \<Longrightarrow> rs_cache st' = rs_cache st \<Longrightarrow> cache_ok rc now' st'"
  unfolding cache_ok_def fetches_grow_def by (metis order_trans)

lemmas grow_facts = grow_keys_from grow_published grow_load_ok grow_call_ok grow_cache_ok

lemma fetches_grow_refl [simp]: "rs_fetches st' = rs_fetches st \<Longrightarrow> fetches_grow st st'"
  by (simp add: fetches_grow_def fetch_answered_def)

section \<open>The invariant\<close>

lemma one_fetch_same: "one_fetch st \<Longrightarrow> rs_fetches st' = rs_fetches st \<Longrightarrow> rs_pending st' = rs_pending st \<Longrightarrow> one_fetch st'"
  by (simp add: one_fetch_def)

lemma await_fetch_keeps:
  assumes "await_fetch pf rc f st = (l, st')" "one_fetch st"
  shows "one_fetch st'" "fetches_grow st st'" "load_ok now st' l" "rs_cache st' = rs_cache st" "rs_calls st' = rs_calls st"
proof -
  have "one_fetch st' \<and> fetches_grow st st' \<and> load_ok now st' l \<and> rs_cache st' = rs_cache st \<and> rs_calls st' = rs_calls st"
  proof (cases "rs_pending st")
    case (Some i)
    with assms have "st' = st" "l = Waits_For i" by (simp_all add: await_fetch_def)
    with assms(2) Some show ?thesis by (simp add: one_fetch_def)
  next
    case None
    let ?n = "length (rs_fetches st)"
    define u where "u = (if f then pf_set_param pf (rc_jwksUrl rc) ''r'' ''1'' else rc_jwksUrl rc)"
    from None assms(1) have st': "st' = st\<lparr>rs_pending := Some ?n,
        rs_fetches := rs_fetches st @ [\<lparr>jf_url = u, jf_phase = Fetching\<rparr>]\<rparr>" and l: "l = Waits_For ?n"
      by (auto simp: await_fetch_def Let_def u_def)
    from None assms(2) have "\<forall>i < ?n. \<exists>t r. jf_phase (rs_fetches st ! i) = Fetch_Done t r"
      by (simp add: one_fetch_def)
    then have "one_fetch st'" by (simp add: one_fetch_def st' nth_append less_Suc_eq)
    moreover have "fetches_grow st st'" by (simp add: fetches_grow_def fetch_answered_def st' nth_append)
    ultimately show ?thesis by (simp add: st' l)
  qed
  then show "one_fetch st'" "fetches_grow st st'" "load_ok now st' l" "rs_cache st' = rs_cache st" "rs_calls st' = rs_calls st"
    by blast+
qed

lemma jwks_load_keeps:
  assumes "jwks_load pf rc now f st = (l, st')" "one_fetch st" "cache_ok rc now st"
  shows "one_fetch st'" "fetches_grow st st'" "load_ok now st' l" "rs_cache st' = rs_cache st" "rs_calls st' = rs_calls st"
proof -
  have "(\<exists>expiresAt keys. rs_cache st = Some (expiresAt, keys) \<and> l = Loaded keys \<and> st' = st)
        \<or> await_fetch pf rc f st = (l, st')"
    using assms(1) unfolding jwks_load_def
    by (cases f; cases "rs_cache st") (simp_all split: prod.splits if_splits)
  then have "one_fetch st' \<and> fetches_grow st st' \<and> load_ok now st' l \<and> rs_cache st' = rs_cache st \<and> rs_calls st' = rs_calls st"
  proof
    assume "\<exists>expiresAt keys. rs_cache st = Some (expiresAt, keys) \<and> l = Loaded keys \<and> st' = st"
    then obtain expiresAt keys where c: "rs_cache st = Some (expiresAt, keys)" and l: "l = Loaded keys" and "st' = st"
      by blast
    from c assms(3) have "keys_from now st keys" unfolding cache_ok_def keys_from_def by blast
    with l \<open>st' = st\<close> assms(2) show ?thesis by simp
  next
    assume "await_fetch pf rc f st = (l, st')"
    from await_fetch_keeps [OF this assms(2)] show ?thesis by blast
  qed
  then show "one_fetch st'" "fetches_grow st st'" "load_ok now st' l" "rs_cache st' = rs_cache st" "rs_calls st' = rs_calls st"
    by blast+
qed

lemma calls_grow:
  "list_all (call_ok now st) cs \<Longrightarrow> fetches_grow st st' \<Longrightarrow> now \<le> now' \<Longrightarrow> list_all (call_ok now' st') cs"
  by (auto simp: list_all_iff intro: grow_call_ok)

lemma load_ok_same: "rs_fetches st' = rs_fetches st \<Longrightarrow> load_ok now st' l = load_ok now st l"
  by (cases l) (simp_all add: keys_from_def fetch_answered_def)

lemma call_ok_same: "rs_fetches st' = rs_fetches st \<Longrightarrow> call_ok now st' c = call_ok now st c"
  using load_ok_same [of st' st now]
  by (cases c) (simp_all add: published_def fetch_answered_def split: sum.split)

lemma list_all_update: "list_all P xs \<Longrightarrow> P c \<Longrightarrow> list_all P (xs[n := c])"
  by (auto simp: list_all_iff dest!: set_update_subset_insert [THEN subsetD])

lemma load_result_from:
  "load_ok now st l \<Longrightarrow> load_result st l = Some (Inr keys) \<Longrightarrow> \<exists>i t. fetch_answered st i t (Inr keys)"
  by (cases l) (auto simp: load_result_def keys_from_def fetch_answered_def split: fetch_phase.splits)

lemma inv_start: "resolver_inv rc (now, resolver_start)"
  by (simp add: resolver_inv_def resolver_start_def one_fetch_def cache_ok_def)

text \<open>A step that leaves fetches and cache alone and puts a sound call in the list.\<close>

lemma inv_set_call:
  assumes "resolver_inv rc (now, st)" "now \<le> now'" "call_ok now' st c"
  shows "resolver_inv rc (now', st\<lparr>rs_calls := (rs_calls st)[n := c]\<rparr>)"
proof -
  let ?st = "st\<lparr>rs_calls := (rs_calls st)[n := c]\<rparr>"
  have g: "fetches_grow st ?st" by simp
  from assms(1) have "list_all (call_ok now st) (rs_calls st)" by (simp add: resolver_inv_def)
  from calls_grow [OF this g assms(2)] have "list_all (call_ok now' ?st) (rs_calls st)" .
  moreover from assms(3) have "call_ok now' ?st c" by (subst call_ok_same [of _ st]) simp_all
  ultimately have "list_all (call_ok now' ?st) (rs_calls ?st)" by (simp add: list_all_update)
  moreover from assms(1) have "cache_ok rc now st" "one_fetch st" by (simp_all add: resolver_inv_def)
  with g assms(2) have "cache_ok rc now' ?st" "one_fetch ?st"
    by (auto intro: grow_cache_ok one_fetch_same)
  ultimately show ?thesis by (simp add: resolver_inv_def)
qed

lemma inv_load:
  assumes "resolver_inv rc (now, st)" "now \<le> now'" "jwks_load pf rc now' f st = (l, st')"
  shows "resolver_inv rc (now', st')" "load_ok now' st' l"
proof -
  have one: "one_fetch st" and cache: "cache_ok rc now' st" and calls: "list_all (call_ok now st) (rs_calls st)"
    using assms(1,2) by (auto simp: resolver_inv_def intro: grow_cache_ok [where st = st])
  note k = jwks_load_keeps [OF assms(3) one cache]
  from k(4) grow_cache_ok [OF cache k(2) order_refl] have "cache_ok rc now' st'" by blast
  with k calls_grow [OF calls k(2) assms(2)] show "resolver_inv rc (now', st')"
    by (simp add: resolver_inv_def)
  from k show "load_ok now' st' l" by blast
qed

lemma inv_begin:
  assumes "resolver_inv rc (now, st)" "now \<le> now'"
  shows "resolver_inv rc (now', resolve_begin pf rc now' kid f st)"
proof -
  obtain l st' where l: "jwks_load pf rc now' f st = (l, st')" by fastforce
  note k = inv_load [OF assms l]
  let ?st = "st'\<lparr>rs_calls := rs_calls st' @ [First_Load kid f l]\<rparr>"
  from k have "one_fetch ?st" by (auto simp: resolver_inv_def intro: one_fetch_same)
  moreover from k have "cache_ok rc now' ?st"
    by (simp add: resolver_inv_def cache_ok_def fetch_answered_def)
  moreover have "call_ok now' ?st = call_ok now' st'" by (rule ext, rule call_ok_same) simp
  with k have "list_all (call_ok now' ?st) (rs_calls ?st)" by (simp add: resolver_inv_def)
  ultimately show ?thesis by (simp add: resolve_begin_def l resolver_inv_def)
qed

lemma inv_first:
  assumes inv: "resolver_inv rc (now, st)" and le: "now \<le> now'"
    and c: "c < length (rs_calls st)" "rs_calls st ! c = First_Load kid f l" "load_result st l = Some r"
  shows "resolver_inv rc (now', resolve_first pf rc now' c kid f r st)"
proof (cases r)
  case (Inl e)
  with inv le show ?thesis by (simp add: resolve_first_def inv_set_call)
next
  case (Inr keys)
  from inv c have "load_ok now st l" by (auto simp: resolver_inv_def list_all_length)
  with c Inr have from_fetch: "\<exists>i t. fetch_answered st i t (Inr keys)" by (auto dest: load_result_from)
  show ?thesis
  proof (cases "map_of keys kid")
    case (Some key)
    with from_fetch have "call_ok now' st (Call_Done kid (Inr key))" by (auto simp: published_def)
    with inv le Inr Some show ?thesis by (simp add: resolve_first_def inv_set_call)
  next
    case None
    show ?thesis
    proof (cases f)
      case True
      with inv le Inr None show ?thesis by (simp add: resolve_first_def inv_set_call)
    next
      case False
      obtain l' st' where l': "jwks_load pf rc now' True st = (l', st')" by fastforce
      note k = inv_load [OF inv le l']
      then have "resolver_inv rc (now', st'\<lparr>rs_calls := (rs_calls st')[c := Retry_Load kid l']\<rparr>)"
        by (intro inv_set_call) auto
      with False Inr None l' show ?thesis by (simp add: resolve_first_def)
    qed
  qed
qed

lemma inv_retry:
  assumes inv: "resolver_inv rc (now, st)" and le: "now \<le> now'"
    and c: "c < length (rs_calls st)" "rs_calls st ! c = Retry_Load kid l" "load_result st l = Some r"
  shows "resolver_inv rc (now', resolve_retry c kid r st)"
proof -
  from inv c have "load_ok now st l" by (auto simp: resolver_inv_def list_all_length)
  with c have "call_ok now' st (Call_Done kid (ebind r (\<lambda>keys. case map_of keys kid of
      Some key \<Rightarrow> Inr key | None \<Rightarrow> Inl (invalid_token ''unknown_signing_key''))))"
    by (cases r) (auto simp: published_def dest!: load_result_from split: option.splits)
  with inv le show ?thesis unfolding resolve_retry_def by (rule inv_set_call)
qed

lemma then_answered:
  "i < length (rs_fetches st) \<Longrightarrow> jf_phase (rs_fetches st ! i) = Fetching \<Longrightarrow>
   fetch_answered (jwks_then rc now i r st) j t r' \<longleftrightarrow> fetch_answered st j t r' \<or> j = i \<and> t = now \<and> r' = r"
  by (auto simp: fetch_answered_def jwks_then_def Let_def nth_list_update split: sum.splits if_splits)

lemma inv_then:
  assumes inv: "resolver_inv rc (now, st)" and le: "now \<le> now'"
    and i: "i < length (rs_fetches st)" "jf_phase (rs_fetches st ! i) = Fetching"
  shows "resolver_inv rc (now', jwks_then rc now' i r st)"
proof -
  let ?st = "jwks_then rc now' i r st"
  have len: "length (rs_fetches ?st) = length (rs_fetches st)" and calls: "rs_calls ?st = rs_calls st"
    and pend: "rs_pending ?st = rs_pending st"
    by (simp_all add: jwks_then_def Let_def split: sum.splits)
  have g: "fetches_grow st ?st" by (simp add: fetches_grow_def len then_answered [OF i])
  have phase: "j \<noteq> i \<Longrightarrow> jf_phase (rs_fetches ?st ! j) = jf_phase (rs_fetches st ! j)"
    "jf_phase (rs_fetches ?st ! i) = Fetched now' r" for j
    using i by (auto simp: jwks_then_def Let_def split: sum.splits)
  from inv have one: "one_fetch st" by (simp add: resolver_inv_def)
  have "one_fetch ?st"
    unfolding one_fetch_def len pend
  proof (intro conjI allI impI)
    fix j assume "j < length (rs_fetches st)"
    with one i phase(1) [of j] show "(\<exists>t r. jf_phase (rs_fetches ?st ! j) = Fetch_Done t r) \<or> rs_pending st = Some j"
      unfolding one_fetch_def by (metis fetch_phase.distinct(3))
  next
    fix j assume "rs_pending st = Some j"
    with one show "j < length (rs_fetches st)" by (simp add: one_fetch_def)
  next
    fix j t r' assume "rs_pending st = Some j"
    with one phase show "jf_phase (rs_fetches ?st ! j) \<noteq> Fetch_Done t r'" 
      unfolding one_fetch_def by (metis fetch_phase.distinct(5))
  qed
  moreover have "cache_ok rc now' ?st"
  proof (cases r)
    case (Inl e)
    then have "rs_cache ?st = rs_cache st" by (simp add: jwks_then_def Let_def)
    moreover from inv have "cache_ok rc now st" by (simp add: resolver_inv_def)
    ultimately show ?thesis using g le grow_cache_ok by blast
  next
    case (Inr keys)
    then have "rs_cache ?st = Some (now' + rc_cacheTtlMs rc, keys)" by (simp add: jwks_then_def Let_def)
    moreover from Inr have "fetch_answered ?st i now' (Inr keys)" by (simp add: then_answered [OF i])
    ultimately show ?thesis by (auto simp: cache_ok_def)
  qed
  moreover from inv g le have "list_all (call_ok now' ?st) (rs_calls ?st)"
    by (auto simp: resolver_inv_def calls intro: calls_grow)
  ultimately show ?thesis by (simp add: resolver_inv_def)
qed

lemma inv_finally:
  assumes inv: "resolver_inv rc (now, st)" and le: "now \<le> now'"
    and i: "i < length (rs_fetches st)" "jf_phase (rs_fetches st ! i) = Fetched t r"
  shows "resolver_inv rc (now', jwks_finally i st)"
proof -
  let ?st = "jwks_finally i st"
  have calls: "rs_calls ?st = rs_calls st" and cache: "rs_cache ?st = rs_cache st"
    using i by (simp_all add: jwks_finally_def)
  have ans: "fetch_answered ?st j t' r' \<longleftrightarrow> fetch_answered st j t' r'" for j t' r'
    using i by (auto simp: fetch_answered_def jwks_finally_def nth_list_update)
  have g: "fetches_grow st ?st" using i by (simp add: fetches_grow_def ans) (simp add: jwks_finally_def)
  from inv have one: "one_fetch st" by (simp add: resolver_inv_def)
  with i have "rs_pending st = Some i" unfolding one_fetch_def by (metis fetch_phase.distinct(5))
  with one i have "one_fetch ?st"
    unfolding one_fetch_def by (auto simp: jwks_finally_def nth_list_update)
  moreover from inv g le cache have "cache_ok rc now' ?st"
    by (auto simp: resolver_inv_def intro: grow_cache_ok)
  moreover from inv g le have "list_all (call_ok now' ?st) (rs_calls ?st)"
    by (auto simp: resolver_inv_def calls intro: calls_grow)
  ultimately show ?thesis by (simp add: resolver_inv_def)
qed

lemma inv_step: "jwks_step pf rc s s' \<Longrightarrow> resolver_inv rc s \<Longrightarrow> resolver_inv rc s'"
  by (induction rule: jwks_step.induct) (auto intro: inv_begin inv_first inv_retry inv_then inv_finally)

lemma inv_reachable: "jwks_reachable pf rc s \<Longrightarrow> resolver_inv rc s"
  by (induction rule: jwks_reachable.induct) (auto intro: inv_start inv_step)

text \<open>A load served from the cache uses keys that came less than the time to live ago.\<close>

lemma loaded_is_fresh:
  "jwks_load pf rc now f st = (Loaded keys, st') \<Longrightarrow> cache_ok rc now st \<Longrightarrow>
   \<not> f \<and> st' = st \<and> (\<exists>i t. fetch_answered st i t (Inr keys) \<and> t \<le> now \<and> now < t + rc_cacheTtlMs rc)"
  unfolding jwks_load_def cache_ok_def
  by (cases f; cases "rs_cache st"; cases "rs_pending st")
     (auto simp: await_fetch_def Let_def split: if_splits, blast+)

section \<open>Handing out keys: the contract the verifier relies on\<close>

locale signing_keys =
  fixes reach :: "'s \<Rightarrow> bool"
    and handed :: "'s \<Rightarrow> string \<Rightarrow> 'key \<Rightarrow> bool"
    and trusted :: "'s \<Rightarrow> string \<Rightarrow> 'key \<Rightarrow> bool"
  assumes handed_trusted: "reach s \<Longrightarrow> handed s kid key \<Longrightarrow> trusted s kid key"
begin

lemma signature_trusted:
  "reach s \<Longrightarrow> \<forall>kid f key. resolve kid f = Inr key \<longrightarrow> handed s kid key \<Longrightarrow>
   check_signature cr parsed resolve = Inr u \<Longrightarrow>
   \<exists>key. trusted s (pt_kid parsed) key \<and>
         cr_verify cr (pt_signingInput parsed) key (pt_signature parsed) = Some True"
  by (auto simp: check_signature_def ebind_eq_Inr require_eq_Inr verify_signature_def
      split: if_splits option.splits, (metis handed_trusted)+)

end

text \<open>A key that a call of the resolver returned in a run is one that ZTS published.\<close>

definition call_returned :: "'key resolver \<Rightarrow> string \<Rightarrow> 'key \<Rightarrow> bool" where
  "call_returned st kid key \<longleftrightarrow> Call_Done kid (Inr key) \<in> set (rs_calls st)"

lemma returned_published: "jwks_reachable pf rc s \<Longrightarrow> call_returned (snd s) kid key \<Longrightarrow> published (snd s) kid key"
  by (drule inv_reachable) (force simp: resolver_inv_def call_returned_def list_all_iff)

interpretation jwks: signing_keys "jwks_reachable pf rc" "\<lambda>s. call_returned (snd s)" "\<lambda>s. published (snd s)"
  for pf rc
  by unfold_locales (rule returned_published)

section \<open>What an accepted token is\<close>

lemma parse_jwt_Inr:
  "parse_jwt parse token = Inr p \<longleftrightarrow>
   (\<exists>header claims parts. parts = split_char CHR ''.'' token \<and> 3 \<le> length parts
     \<and> parse (base64url_decode (parts ! 0)) = Some (JObj header)
     \<and> parse (base64url_decode (parts ! 1)) = Some (JObj claims)
     \<and> map_of header ''alg'' = Some (JStr ''RS256'') \<and> map_of header ''typ'' = Some (JStr ''at+jwt'')
     \<and> string_claim (map_of header ''kid'') = Some (pt_kid p)
     \<and> base64url_decode (parts ! 2) \<noteq> []
     \<and> p = \<lparr>pt_claims = claims, pt_kid = pt_kid p, pt_signature = base64url_decode (parts ! 2),
            pt_signingInput = parts ! 0 @ ''.'' @ parts ! 1\<rparr>)"
proof -
  have dec: "decode_record parse v = Inr fs \<longleftrightarrow> parse (base64url_decode v) = Some (JObj fs)" for v fs
    by (auto simp: decode_record_def split: option.splits)
  show ?thesis
    unfolding parse_jwt_def Let_def
    by (cases p) (auto simp: ebind_eq_Inr dec split: if_splits option.splits)
qed

lemma bearer_token_Inr:
  "runtime_bearer_token authorization aud scope = Inr token \<longleftrightarrow>
   (\<exists>a. authorization = Some a \<and> a \<noteq> [] \<and> token = drop 7 a \<and> to_lower (take 7 a) = ''bearer ''
     \<and> length (split_char CHR ''.'' token) = 3
     \<and> list_all (\<lambda>p. p \<noteq> [] \<and> list_all is_base64url p) (split_char CHR ''.'' token)
     \<and> byte_length token \<le> max_token_bytes)"
  by (auto simp: runtime_bearer_token_def Let_def invalid_token_def split: option.splits if_splits)

lemma check_expiry_Inr:
  "check_expiry cr now claims d = Inr d' \<longleftrightarrow>
   (\<exists>q. valid_numeric_date (map_of claims ''exp'') = Some q \<and> of_int now < q
     \<and> d' = d\<lparr>ad_expiresAt := Some (cr_isoTime cr q), ad_expiresInSeconds := Some (q - of_int now)\<rparr>)"
  by (auto simp: check_expiry_def Let_def split: option.splits if_splits)

lemma check_not_before_Inr:
  "check_not_before cr now claims d = Inr d' \<longleftrightarrow>
   map_of claims ''nbf'' = None \<and> d' = d \<or>
   (\<exists>q. map_of claims ''nbf'' \<noteq> None \<and> valid_numeric_date (map_of claims ''nbf'') = Some q \<and> q \<le> of_int now
     \<and> d' = d\<lparr>ad_notBefore := Some (cr_isoTime cr q), ad_validInSeconds := Some (q - of_int now)\<rparr>)"
  by (auto simp: check_not_before_def Let_def split: option.splits if_splits)

lemma with_diagnostics_Inr: "with_diagnostics d r = Inr x \<longleftrightarrow> r = Inr x"
  by (cases r) (simp_all add: with_diagnostics_def)

lemma with_diagnostics_Inl: "with_diagnostics d r = Inl e \<longleftrightarrow> r = Inl (fst e) \<and> snd e = d"
  by (cases r; cases e) (auto simp: with_diagnostics_def)

lemma check_audience_Inr:
  "check_audience cfg claims d = Inr (auds, d') \<longleftrightarrow>
   runtime_token_audiences (map_of claims ''aud'') = Inr auds \<and> vc_expectedAudience cfg \<in> set auds
   \<and> d' = d\<lparr>ad_audiences := Some (sort auds)\<rparr>"
  by (auto simp: check_audience_def ebind_eq_Inr with_diagnostics_Inr Let_def split: if_splits)

lemma check_scope_Inr:
  "check_scope cfg claims auds d = Inr d' \<longleftrightarrow>
   (\<exists>scopes. runtime_token_scopes claims = Inr scopes
     \<and> (vc_requiredScope cfg \<in> set scopes \<or> length auds = 1 \<and> short_scope cfg \<in> set scopes)
     \<and> d' = d\<lparr>ad_scopes := Some (sort scopes)\<rparr>)"
  by (auto simp: check_scope_def ebind_eq_Inr with_diagnostics_Inr Let_def split: if_splits)

lemmas check_facts = bearer_token_Inr check_expiry_Inr check_not_before_Inr check_audience_Inr check_scope_Inr
  with_diagnostics_Inr ebind_eq_Inr

lemma audiences_Inr:
  "runtime_token_audiences v = Inr auds \<longleftrightarrow>
   auds \<noteq> [] \<and> auds = uniq (filter (\<lambda>a. a \<noteq> []) (map trim (string_or_strings v)))"
  by (auto simp: runtime_token_audiences_def Let_def)

lemma valid_numeric_date_Some:
  "valid_numeric_date v = Some q \<longleftrightarrow> v = Some (JNum (Finite q)) \<and> \<bar>q * 1000\<bar> \<le> 8640000000000000"
  by (auto simp: valid_numeric_date_def split: option.splits if_splits)

text \<open>What \<open>verify\<close> returns, in one piece.\<close>

lemma verify_Inr_fields:
  assumes "verify_access_token cr cfg now resolve authorization = Inr v"
  obtains token parsed q auds scopes where
    "runtime_bearer_token authorization (vc_expectedAudience cfg) (vc_requiredScope cfg) = Inr token"
    "parse_jwt (cr_parse cr) token = Inr parsed" "check_signature cr parsed resolve = Inr ()"
    "valid_numeric_date (map_of (pt_claims parsed) ''exp'') = Some q" "of_int now < q"
    "\<forall>x. map_of (pt_claims parsed) ''nbf'' = Some x \<longrightarrow>
        (\<exists>start. valid_numeric_date (Some x) = Some start \<and> start \<le> of_int now)"
    "runtime_token_audiences (map_of (pt_claims parsed) ''aud'') = Inr auds" "vc_expectedAudience cfg \<in> set auds"
    "runtime_token_scopes (pt_claims parsed) = Inr scopes"
    "vc_requiredScope cfg \<in> set scopes \<or> length auds = 1 \<and> short_scope cfg \<in> set scopes"
    "vt_keyId v = pt_kid parsed" "vt_expiresInSeconds v = q - of_int now"
    "vt_audiences v = sort auds" "vt_scopes v = sort scopes"
proof -
  from assms obtain token parsed u d2 d3 auds d4 d5 where
    t: "runtime_bearer_token authorization (vc_expectedAudience cfg) (vc_requiredScope cfg) = Inr token"
       "parse_jwt (cr_parse cr) token = Inr parsed" "check_signature cr parsed resolve = Inr u"
    and e: "check_expiry cr now (pt_claims parsed) ((start_diagnostics cfg)\<lparr>ad_keyId := Some (pt_kid parsed),
          ad_signatureVerified := Some False, ad_signatureVerified := Some True\<rparr>) = Inr d2"
    and n: "check_not_before cr now (pt_claims parsed) d2 = Inr d3"
    and a: "check_audience cfg (pt_claims parsed) d3 = Inr (auds, d4)"
    and s: "check_scope cfg (pt_claims parsed) auds d4 = Inr d5" and v: "v = verified_of parsed d5"
    unfolding verify_access_token_def Let_def
    by (simp only: ebind_eq_Inr with_diagnostics_Inr split_paired_Ex prod.case sum.inject)
       (elim exE conjE, rule that, assumption+, rule sym, assumption)
  from t(3) have t3: "check_signature cr parsed resolve = Inr ()" by simp
  from e obtain q where q: "valid_numeric_date (map_of (pt_claims parsed) ''exp'') = Some q" "of_int now < q"
    "ad_expiresInSeconds d2 = Some (q - of_int now)" by (auto simp: check_expiry_Inr)
  from n have nb: "\<forall>x. map_of (pt_claims parsed) ''nbf'' = Some x \<longrightarrow>
        (\<exists>start. valid_numeric_date (Some x) = Some start \<and> start \<le> of_int now)"
    and d3: "ad_expiresInSeconds d3 = ad_expiresInSeconds d2" by (auto simp: check_not_before_Inr)
  from a have au: "runtime_token_audiences (map_of (pt_claims parsed) ''aud'') = Inr auds"
    "vc_expectedAudience cfg \<in> set auds" and d4: "d4 = d3\<lparr>ad_audiences := Some (sort auds)\<rparr>"
    by (auto simp: check_audience_Inr)
  from s obtain scopes where sc: "runtime_token_scopes (pt_claims parsed) = Inr scopes"
    "vc_requiredScope cfg \<in> set scopes \<or> length auds = 1 \<and> short_scope cfg \<in> set scopes"
    and d5: "d5 = d4\<lparr>ad_scopes := Some (sort scopes)\<rparr>" by (auto simp: check_scope_Inr)
  from t(1,2) t3 q(1,2) nb au sc show thesis
    by (rule that) (simp_all add: v verified_of_def d5 d4 d3 q(3))
qed

text \<open>Denials: what the diagnostics hold by the time of each error.\<close>

definition claims_hidden :: "access_diagnostics \<Rightarrow> bool" where
  "claims_hidden d \<longleftrightarrow> ad_audiences d = None \<and> ad_scopes d = None \<and> ad_expiresAt d = None
     \<and> ad_expiresInSeconds d = None \<and> ad_notBefore d = None \<and> ad_validInSeconds d = None"

lemma check_expiry_Inl: "check_expiry cr now claims d = Inl (e, d') \<Longrightarrow> ad_signatureVerified d' = ad_signatureVerified d"
  by (auto simp: check_expiry_def Let_def split: option.splits if_splits)

lemma check_not_before_Inl: "check_not_before cr now claims d = Inl (e, d') \<Longrightarrow> ad_signatureVerified d' = ad_signatureVerified d"
  by (auto simp: check_not_before_def Let_def split: option.splits if_splits)

lemma check_audience_Inl: "check_audience cfg claims d = Inl (e, d') \<Longrightarrow> ad_signatureVerified d' = ad_signatureVerified d"
  by (auto simp: check_audience_def Let_def ebind_eq_Inl with_diagnostics_Inl split: if_splits)

lemma check_scope_Inl: "check_scope cfg claims auds d = Inl (e, d') \<Longrightarrow> ad_signatureVerified d' = ad_signatureVerified d"
  by (auto simp: check_scope_def Let_def ebind_eq_Inl with_diagnostics_Inl split: if_splits)

lemma verify_Inl:
  assumes "verify_access_token cr cfg now resolve authorization = Inl (e, d)"
  shows "claims_hidden d \<and> ad_signatureVerified d \<noteq> Some True \<or>
    ad_signatureVerified d = Some True \<and> (\<exists>token parsed.
      runtime_bearer_token authorization (vc_expectedAudience cfg) (vc_requiredScope cfg) = Inr token
      \<and> parse_jwt (cr_parse cr) token = Inr parsed \<and> check_signature cr parsed resolve = Inr ())"
proof -
  let ?d0 = "start_diagnostics cfg"
  let ?read = "ebind (runtime_bearer_token authorization (vc_expectedAudience cfg) (vc_requiredScope cfg)) (parse_jwt (cr_parse cr))"
  show ?thesis
  proof (cases ?read)
    case (Inl e')
    with assms have "d = ?d0"
      unfolding verify_access_token_def Let_def by (simp add: with_diagnostics_def)
    then show ?thesis by (simp add: claims_hidden_def start_diagnostics_def)
  next
    case (Inr parsed)
    then obtain token where t: "runtime_bearer_token authorization (vc_expectedAudience cfg) (vc_requiredScope cfg) = Inr token"
      "parse_jwt (cr_parse cr) token = Inr parsed" by (auto simp: ebind_eq_Inr)
    let ?d1 = "?d0\<lparr>ad_keyId := Some (pt_kid parsed), ad_signatureVerified := Some False\<rparr>"
    show ?thesis
    proof (cases "check_signature cr parsed resolve")
      case (Inl e')
      with assms Inr have "d = ?d1"
        unfolding verify_access_token_def Let_def by (simp add: with_diagnostics_def)
      then show ?thesis by (simp add: claims_hidden_def start_diagnostics_def)
    next
      case ok: (Inr u)
      let ?d = "?d1\<lparr>ad_signatureVerified := Some True\<rparr>"
      from assms Inr ok have rest: "ebind (check_expiry cr now (pt_claims parsed) ?d) (\<lambda>d2.
          ebind (check_not_before cr now (pt_claims parsed) d2) (\<lambda>d3.
          ebind (check_audience cfg (pt_claims parsed) d3) (\<lambda>(audiences, d4).
          ebind (check_scope cfg (pt_claims parsed) audiences d4) (\<lambda>d5. Inr (verified_of parsed d5))))) = Inl (e, d)"
        unfolding verify_access_token_def Let_def by (simp add: with_diagnostics_def)
      have "ad_signatureVerified d = Some True"
        using rest
        by (auto simp: ebind_eq_Inl dest!: check_expiry_Inl check_not_before_Inl check_audience_Inl check_scope_Inl
            simp: check_expiry_Inr check_not_before_Inr check_audience_Inr)
      with t ok show ?thesis by auto
    qed
  qed
qed

section \<open>The properties\<close>

text \<open>
  C9: a token the verifier accepts is a compact JWT in a Bearer header whose header says RS256 and
  at+jwt, whose signature verifies under a key that ZTS published under its \<^verbatim>\<open>kid\<close> in the run of
  the resolver, that has not expired and is already valid, whose audiences include the configured
  one, and which grants the configured role in full, or in short when it has no other audience.
\<close>

theorem verified_token_is_authentic:
  assumes "create_verifier audience scope = Inr cfg"
    and "jwks_reachable pf rc s"
    and "\<forall>kid f key. resolve kid f = Inr key \<longrightarrow> call_returned (snd s) kid key"
    and "verify_access_token cr cfg now resolve authorization = Inr v"
  shows "\<exists>a h c sg header claims key expiry. authorization = Some a
    \<and> to_lower (take 7 a) = ''bearer '' \<and> drop 7 a = h @ ''.'' @ c @ ''.'' @ sg
    \<and> cr_parse cr (base64url_decode h) = Some (JObj header)
    \<and> cr_parse cr (base64url_decode c) = Some (JObj claims)
    \<and> map_of header ''alg'' = Some (JStr ''RS256'') \<and> map_of header ''typ'' = Some (JStr ''at+jwt'')
    \<and> map_of header ''kid'' = Some (JStr (vt_keyId v)) \<and> published (snd s) (vt_keyId v) key
    \<and> cr_verify cr (h @ ''.'' @ c) key (base64url_decode sg) = Some True
    \<and> map_of claims ''exp'' = Some (JNum (Finite expiry)) \<and> of_int now < expiry
    \<and> vt_expiresInSeconds v = expiry - of_int now
    \<and> (\<forall>x. map_of claims ''nbf'' = Some x \<longrightarrow> (\<exists>start. x = JNum (Finite start) \<and> start \<le> of_int now))
    \<and> audience \<in> set (map trim (string_or_strings (map_of claims ''aud'')))
    \<and> set (vt_audiences v) = {x \<in> set (map trim (string_or_strings (map_of claims ''aud''))). x \<noteq> []}
    \<and> (scope \<in> set (vt_scopes v) \<or>
       vt_audiences v = [audience] \<and> (\<exists>role. scope = audience @ '':role.'' @ role \<and> role \<in> set (vt_scopes v)))"
proof -
  from assms(1) obtain role where cfg: "vc_expectedAudience cfg = audience" "vc_requiredScope cfg = scope"
    and role: "scope = audience @ '':role.'' @ role"
    by (auto simp: create_verifier_def Let_def starts_with_iff split: if_splits)
  then have short: "short_scope cfg = role" by (simp add: short_scope_def)
  from assms(4) obtain token parsed q auds scopes where
    tok: "runtime_bearer_token authorization (vc_expectedAudience cfg) (vc_requiredScope cfg) = Inr token"
    and parsed: "parse_jwt (cr_parse cr) token = Inr parsed" and sig: "check_signature cr parsed resolve = Inr ()"
    and q: "valid_numeric_date (map_of (pt_claims parsed) ''exp'') = Some q" "of_int now < q"
    and nbf: "\<forall>x. map_of (pt_claims parsed) ''nbf'' = Some x \<longrightarrow>
        (\<exists>start. valid_numeric_date (Some x) = Some start \<and> start \<le> of_int now)"
    and auds: "runtime_token_audiences (map_of (pt_claims parsed) ''aud'') = Inr auds" "vc_expectedAudience cfg \<in> set auds"
    and sc: "runtime_token_scopes (pt_claims parsed) = Inr scopes"
      "vc_requiredScope cfg \<in> set scopes \<or> length auds = 1 \<and> short_scope cfg \<in> set scopes"
    and v: "vt_keyId v = pt_kid parsed" "vt_expiresInSeconds v = q - of_int now"
      "vt_audiences v = sort auds" "vt_scopes v = sort scopes" by (rule verify_Inr_fields)
  from tok obtain a where a: "authorization = Some a" "to_lower (take 7 a) = ''bearer ''" "token = drop 7 a"
    and three: "length (split_char CHR ''.'' token) = 3" by (auto simp: bearer_token_Inr)
  let ?p = "split_char CHR ''.'' token"
  from parsed obtain header where h: "cr_parse cr (base64url_decode (?p ! 0)) = Some (JObj header)"
    "cr_parse cr (base64url_decode (?p ! 1)) = Some (JObj (pt_claims parsed))"
    "map_of header ''alg'' = Some (JStr ''RS256'')" "map_of header ''typ'' = Some (JStr ''at+jwt'')"
    "string_claim (map_of header ''kid'') = Some (pt_kid parsed)"
    and io: "pt_signingInput parsed = ?p ! 0 @ ''.'' @ ?p ! 1" "pt_signature parsed = base64url_decode (?p ! 2)"
    unfolding parse_jwt_Inr by (elim exE conjE) (metis parsed_token.select_convs)
  from h(5) have kid: "map_of header ''kid'' = Some (JStr (vt_keyId v))"
    by (auto simp: string_claim_def v split: option.splits if_splits)
  from jwks.signature_trusted [OF assms(2) assms(3) sig] obtain key where
    key: "published (snd s) (vt_keyId v) key" "cr_verify cr (?p ! 0 @ ''.'' @ ?p ! 1) key (base64url_decode (?p ! 2)) = Some True"
    by (auto simp: v io)
  have aud: "audience \<in> set (map trim (string_or_strings (map_of (pt_claims parsed) ''aud'')))"
    "set (vt_audiences v) = {x \<in> set (map trim (string_or_strings (map_of (pt_claims parsed) ''aud''))). x \<noteq> []}"
    using auds cfg by (auto simp: audiences_Inr v)
  have granted: "scope \<in> set (vt_scopes v) \<or>
       vt_audiences v = [audience] \<and> (\<exists>role. scope = audience @ '':role.'' @ role \<and> role \<in> set (vt_scopes v))"
    using sc(2) auds(2) role by (auto simp: v cfg short length_Suc_conv)
  from nbf have nbf': "\<forall>x. map_of (pt_claims parsed) ''nbf'' = Some x \<longrightarrow> (\<exists>start. x = JNum (Finite start) \<and> start \<le> of_int now)"
    by (auto simp: valid_numeric_date_Some)
  from q have ex: "map_of (pt_claims parsed) ''exp'' = Some (JNum (Finite q))" by (simp add: valid_numeric_date_Some)
  from split_three [OF three] have "drop 7 a = ?p ! 0 @ ''.'' @ ?p ! 1 @ ''.'' @ ?p ! 2"
    by (simp add: a)
  with a h(1-4) kid key ex q(2) v(2) nbf' aud granted show ?thesis by blast
qed

text \<open>A run of the resolver and a token that uses its key.\<close>

definition sample_rc :: resolver_config where
  "sample_rc = \<lparr>rc_jwksUrl = \<lparr>url_protocol = ''https:'', url_username = [], url_password = [], url_hostname = ''zts'',
     url_host = ''zts'', url_pathname = ''/keys'', url_search = [], url_hash = []\<rparr>, rc_cacheTtlMs = 300000, rc_timeoutMs = 5000\<rparr>"

definition sample_resolver :: "nat resolver" where
  "sample_resolver = \<lparr>rs_cache = Some (300001, [(''k'', 7)]), rs_pending = None,
     rs_fetches = [\<lparr>jf_url = rc_jwksUrl sample_rc, jf_phase = Fetch_Done 1 (Inr [(''k'', 7)])\<rparr>],
     rs_calls = [Call_Done ''k'' (Inr 7)]\<rparr>"

lemma sample_resolver_reachable: "jwks_reachable sample_platform sample_rc (3, sample_resolver)"
proof -
  let ?u = "rc_jwksUrl sample_rc" and ?ks = "[(''k'', 7 :: nat)]"
  let ?s1 = "\<lparr>rs_cache = None, rs_pending = Some 0, rs_fetches = [\<lparr>jf_url = ?u, jf_phase = Fetching\<rparr>],
      rs_calls = [First_Load ''k'' False (Waits_For 0)]\<rparr>"
  let ?s2 = "\<lparr>rs_cache = Some (300001, ?ks), rs_pending = Some 0,
      rs_fetches = [\<lparr>jf_url = ?u, jf_phase = Fetched 1 (Inr ?ks)\<rparr>], rs_calls = [First_Load ''k'' False (Waits_For 0)]\<rparr>"
  let ?s3 = "\<lparr>rs_cache = Some (300001, ?ks), rs_pending = None,
      rs_fetches = [\<lparr>jf_url = ?u, jf_phase = Fetch_Done 1 (Inr ?ks)\<rparr>], rs_calls = [First_Load ''k'' False (Waits_For 0)]\<rparr>"
  have "jwks_step sample_platform sample_rc (0, resolver_start) (0, ?s1)"
    using Call_Begins [of 0 0 sample_platform sample_rc resolver_start "''k''" False]
    by (simp add: resolve_begin_def jwks_load_def await_fetch_def resolver_start_def)
  moreover have "jwks_step sample_platform sample_rc (0, ?s1) (1, ?s2)"
    using Zts_Answers [of 0 1 0 ?s1 sample_platform sample_rc "Inr ?ks"]
    by (simp add: jwks_then_def sample_rc_def)
  moreover have "jwks_step sample_platform sample_rc (1, ?s2) (2, ?s3)"
    using Fetch_Forgotten [of 1 2 0 ?s2 1 "Inr ?ks" sample_platform sample_rc]
    by (simp add: jwks_finally_def)
  moreover have "jwks_step sample_platform sample_rc (2, ?s3) (3, sample_resolver)"
    using First_Settles [of 2 3 0 ?s3 "''k''" False "Waits_For 0" "Inr ?ks" sample_platform sample_rc]
    by (simp add: resolve_first_def load_result_def sample_resolver_def)
  ultimately show ?thesis by (meson Starts Steps)
qed

definition sample_crypto :: "nat crypto" where
  "sample_crypto =
     \<lparr>cr_parse = (\<lambda>t. if t = ''H'' then Some (JObj [(''alg'', JStr ''RS256''), (''typ'', JStr ''at+jwt''), (''kid'', JStr ''k'')])
                    else if t = ''C'' then Some (JObj [(''exp'', JNum (Finite 90)), (''aud'', JStr ''api''), (''scope'', JStr ''reader'')])
                    else None),
      cr_verify = (\<lambda>input key sg. Some (input = ''SA.Qw'' \<and> key = 7 \<and> sg = ''S'')), cr_isoTime = (\<lambda>q. ''t'')\<rparr>"

definition sample_resolve :: "string \<Rightarrow> bool \<Rightarrow> (auth_failure, nat) result" where
  "sample_resolve kid f = (if kid = ''k'' then Inr 7 else Inl (invalid_token ''unknown_signing_key''))"

definition sample_verifier :: verifier_config where
  "sample_verifier = \<lparr>vc_expectedAudience = ''api'', vc_requiredScope = ''api:role.reader''\<rparr>"

definition sample_verified :: verified_token where
  "sample_verified = \<lparr>vt_audiences = [''api''], vt_clientId = None, vt_expiresAt = ''t'', vt_expiresInSeconds = 80,
     vt_keyId = ''k'', vt_scopes = [''reader''], vt_subject = None, vt_userId = None\<rparr>"

lemma sample_create: "create_verifier ''api'' ''api:role.reader'' = Inr sample_verifier"
  by (simp add: create_verifier_def sample_verifier_def valid_athenz_name_def starts_with_def char_class_defs)

lemma sample_parts:
  "runtime_bearer_token (Some ''Bearer SA.Qw.Uw'') aud scope = Inr ''SA.Qw.Uw''"
  "parse_jwt (cr_parse sample_crypto) ''SA.Qw.Uw'' = Inr \<lparr>pt_claims = [(''exp'', JNum (Finite 90)), (''aud'', JStr ''api''),
     (''scope'', JStr ''reader'')], pt_kid = ''k'', pt_signature = ''S'', pt_signingInput = ''SA.Qw''\<rparr>"
  by code_simp+

lemma sample_signature:
  "pt_kid p = ''k'' \<Longrightarrow> pt_signature p = ''S'' \<Longrightarrow> pt_signingInput p = ''SA.Qw'' \<Longrightarrow>
   check_signature sample_crypto p sample_resolve = Inr ()"
  by (simp add: check_signature_def sample_resolve_def verify_signature_def sample_crypto_def)

lemma sample_iso: "cr_isoTime sample_crypto q = ''t''"
  by (simp add: sample_crypto_def)

lemma sample_accepts:
  "verify_access_token sample_crypto sample_verifier 10 sample_resolve (Some ''Bearer SA.Qw.Uw'') = Inr sample_verified"
  unfolding verify_access_token_def sample_verifier_def
  by (simp add: sample_parts with_diagnostics_def sample_signature sample_iso
      check_expiry_def valid_numeric_date_def check_not_before_def check_audience_def audiences_Inr start_diagnostics_def
      runtime_token_audiences_def uniq_def trim_def is_ws_def check_scope_def runtime_token_scopes_def words_word short_scope_def
      verified_of_def string_claim_def sample_verified_def)

lemma sample_returned:
  "\<forall>kid f key. sample_resolve kid f = Inr key \<longrightarrow> call_returned (snd (3 :: rat, sample_resolver)) kid key"
  by (simp add: sample_resolve_def call_returned_def sample_resolver_def invalid_token_def split: if_splits)

lemma verified_token_is_authentic_witness:
  "\<exists>key. published sample_resolver ''k'' key"
proof -
  obtain key where "published (snd (3 :: rat, sample_resolver)) (vt_keyId sample_verified) key"
    using verified_token_is_authentic [OF sample_create sample_resolver_reachable sample_returned sample_accepts]
    by (elim exE conjE) (rule that)
  then show ?thesis by (auto simp: sample_verified_def)
qed

text \<open>
  The diagnostics of a denied token name no value of its claims unless its signature has been
  verified; and they say that it has only when it has.
\<close>

theorem denial_hides_unverified_claims:
  assumes "verify_access_token cr cfg now resolve authorization = Inl (e, d)"
  shows "if ad_signatureVerified d = Some True
    then \<exists>token parsed key f.
       runtime_bearer_token authorization (vc_expectedAudience cfg) (vc_requiredScope cfg) = Inr token
       \<and> parse_jwt (cr_parse cr) token = Inr parsed \<and> resolve (pt_kid parsed) f = Inr key
       \<and> cr_verify cr (pt_signingInput parsed) key (pt_signature parsed) = Some True
    else ad_audiences d = None \<and> ad_scopes d = None \<and> ad_expiresAt d = None \<and> ad_expiresInSeconds d = None
       \<and> ad_notBefore d = None \<and> ad_validInSeconds d = None"
proof -
  have sig: "check_signature cr parsed resolve = Inr () \<Longrightarrow>
      \<exists>key f. resolve (pt_kid parsed) f = Inr key \<and> cr_verify cr (pt_signingInput parsed) key (pt_signature parsed) = Some True"
    for parsed
    by (auto simp: check_signature_def ebind_eq_Inr require_eq_Inr verify_signature_def split: if_splits option.splits, metis+)
  show ?thesis
  proof (cases "ad_signatureVerified d = Some True")
    case True
    with verify_Inl [OF assms] have "\<exists>token parsed.
      runtime_bearer_token authorization (vc_expectedAudience cfg) (vc_requiredScope cfg) = Inr token
      \<and> parse_jwt (cr_parse cr) token = Inr parsed \<and> check_signature cr parsed resolve = Inr ()" by simp
    then obtain token parsed where t:
      "runtime_bearer_token authorization (vc_expectedAudience cfg) (vc_requiredScope cfg) = Inr token"
      "parse_jwt (cr_parse cr) token = Inr parsed" "check_signature cr parsed resolve = Inr ()" by (elim exE conjE)
    from sig [OF t(3)] obtain key f where "resolve (pt_kid parsed) f = Inr key"
      "cr_verify cr (pt_signingInput parsed) key (pt_signature parsed) = Some True" by (elim exE conjE)
    with True t(1,2) show ?thesis by auto
  next
    case False
    with verify_Inl [OF assms] show ?thesis by (simp add: claims_hidden_def)
  qed
qed

text \<open>The sample token after its expiry is denied, with its expiry in the diagnostics.\<close>

definition sample_denial :: access_diagnostics where
  "sample_denial = (start_diagnostics sample_verifier)\<lparr>ad_keyId := Some ''k'', ad_signatureVerified := Some True,
     ad_expiresAt := Some ''t'', ad_expiresInSeconds := Some (-10)\<rparr>"

lemma sample_expired:
  "verify_access_token sample_crypto sample_verifier 100 sample_resolve (Some ''Bearer SA.Qw.Uw'') =
   Inl (invalid_token ''token_expired'', sample_denial)"
  unfolding verify_access_token_def
  by (simp add: sample_parts with_diagnostics_def sample_signature sample_iso
      check_expiry_def valid_numeric_date_def sample_denial_def)

lemma denial_hides_unverified_claims_witness:
  "\<exists>key f. sample_resolve ''k'' f = Inr key \<and> cr_verify sample_crypto ''SA.Qw'' key ''S'' = Some True"
  using denial_hides_unverified_claims [OF sample_expired]
  by (simp add: sample_denial_def sample_verifier_def sample_parts)

text \<open>
  C10: in every run of the key resolver, whatever the interleaving of its callers with the answers
  of ZTS, a key handed out was published by ZTS under that \<^verbatim>\<open>kid\<close>; at most one request to ZTS is
  under way; a caller that waits for an answer waits for that one or for one that has come; and a
  load that is served from the cache was not forced and uses an answer younger than the time to live.
\<close>

theorem resolver_serves_published_keys:
  assumes "jwks_reachable pf rc (t0, st)"
  shows "(\<forall>kid key. Call_Done kid (Inr key) \<in> set (rs_calls st) \<longrightarrow> published st kid key)
    \<and> card {i. i < length (rs_fetches st) \<and> (\<forall>t r. jf_phase (rs_fetches st ! i) \<noteq> Fetch_Done t r)} \<le> 1
    \<and> (\<forall>kid f i. First_Load kid f (Waits_For i) \<in> set (rs_calls st) \<or> Retry_Load kid (Waits_For i) \<in> set (rs_calls st)
         \<longrightarrow> rs_pending st = Some i \<or> load_result st (Waits_For i) \<noteq> None)
    \<and> (\<forall>now f keys st'. t0 \<le> now \<and> jwks_load pf rc now f st = (Loaded keys, st') \<longrightarrow>
         \<not> f \<and> (\<exists>i t. fetch_answered st i t (Inr keys) \<and> t \<le> now \<and> now < t + rc_cacheTtlMs rc))"
proof (intro conjI allI impI)
  note inv = inv_reachable [OF assms]
  then have one: "one_fetch st" and cache: "cache_ok rc t0 st" and calls: "list_all (call_ok t0 st) (rs_calls st)"
    by (simp_all add: resolver_inv_def)
  fix kid key
  assume "Call_Done kid (Inr key) \<in> set (rs_calls st)"
  with calls show "published st kid key" by (force simp: list_all_iff)
next
  from inv_reachable [OF assms] have one: "one_fetch st" by (simp add: resolver_inv_def)
  let ?open = "{i. i < length (rs_fetches st) \<and> (\<forall>t r. jf_phase (rs_fetches st ! i) \<noteq> Fetch_Done t r)}"
  from one have "?open \<subseteq> set_option (rs_pending st)" by (auto simp: one_fetch_def)
  then have "card ?open \<le> card (set_option (rs_pending st))" by (rule card_mono [rotated]) simp
  also have "\<dots> \<le> 1" by (cases "rs_pending st") simp_all
  finally show "card ?open \<le> 1" .
next
  fix kid f i
  assume w: "First_Load kid f (Waits_For i) \<in> set (rs_calls st) \<or> Retry_Load kid (Waits_For i) \<in> set (rs_calls st)"
  from inv_reachable [OF assms] have one: "one_fetch st" and calls: "list_all (call_ok t0 st) (rs_calls st)"
    by (simp_all add: resolver_inv_def)
  from calls w have "i < length (rs_fetches st)" by (auto simp: list_all_iff)
  with one show "rs_pending st = Some i \<or> load_result st (Waits_For i) \<noteq> None"
    by (auto simp: one_fetch_def load_result_def)
next
  fix now f keys st'
  assume a: "t0 \<le> now \<and> jwks_load pf rc now f st = (Loaded keys, st')"
  from inv_reachable [OF assms] have "cache_ok rc t0 st" by (simp add: resolver_inv_def)
  with a have "cache_ok rc now st" by (auto intro: grow_cache_ok)
  with a loaded_is_fresh show "\<not> f" "\<exists>i t. fetch_answered st i t (Inr keys) \<and> t \<le> now \<and> now < t + rc_cacheTtlMs rc"
    by blast+
qed

lemma resolver_serves_published_keys_witness:
  "\<exists>i t. fetch_answered sample_resolver i t (Inr [(''k'', 7)]) \<and> t \<le> 5 \<and> 5 < t + rc_cacheTtlMs sample_rc"
proof -
  have "jwks_load sample_platform sample_rc 5 False sample_resolver = (Loaded [(''k'', 7)], sample_resolver)"
    by (simp add: jwks_load_def sample_resolver_def)
  then show ?thesis using resolver_serves_published_keys [OF sample_resolver_reachable, THEN conjunct2, THEN conjunct2, THEN conjunct2,
        rule_format, of 5 False "[(''k'', 7)]" sample_resolver] by simp
qed

end
