(* ===== verification/Athenz_Names.thy ===== *)
theory Athenz_Names
  imports Js_Value
begin

text \<open>
  Names of Athenz as the sources write them: domains and roles, and the scope of a role. The hub,
  the gateway and the runtime proxy use the same patterns.
\<close>

text \<open>\<^verbatim>\<open>[A-Za-z0-9][A-Za-z0-9._-]*\<close>\<close>

definition dotted_name :: "string \<Rightarrow> bool" where
  "dotted_name s \<longleftrightarrow> s \<noteq> [] \<and> is_alnum (hd s) \<and> list_all is_name_char s"

text \<open>
  \<^verbatim>\<open>/^[A-Za-z0-9][A-Za-z0-9._-]*:role\.[A-Za-z0-9][A-Za-z0-9._-]*$/\<close>: the part before \<^verbatim>\<open>:role.\<close>
  has no colon, so the split is at its first occurrence.
\<close>

definition role_separator :: string where
  "role_separator = '':role.''"

definition is_role_scope :: "string \<Rightarrow> bool" where
  "is_role_scope s =
     (case index_of role_separator s of
        None \<Rightarrow> False
      | Some i \<Rightarrow> dotted_name (take i s) \<and> dotted_name (drop (i + length role_separator) s))"

definition scope_audience :: "string \<Rightarrow> string" where
  "scope_audience s = (case index_of role_separator s of None \<Rightarrow> butlast s | Some i \<Rightarrow> take i s)"

definition scope_role :: "string \<Rightarrow> string" where
  "scope_role s = (case index_of role_separator s of None \<Rightarrow> drop 5 s | Some i \<Rightarrow> drop (i + length role_separator) s)"

lemma role_scope_parts:
  assumes "is_role_scope s"
  shows "s = scope_audience s @ role_separator @ scope_role s" and "dotted_name (scope_audience s)" and "dotted_name (scope_role s)"
  using assms index_of_Some [of role_separator s]
  by (auto simp: is_role_scope_def scope_audience_def scope_role_def split: option.splits)

lemma name_char_not_ws: "is_name_char c \<Longrightarrow> \<not> is_ws c"
  by (auto simp: char_class_defs)

lemma dotted_no_ws: "dotted_name n \<Longrightarrow> list_all (\<lambda>c. \<not> is_ws c) n"
  by (auto simp: dotted_name_def list_all_iff dest: name_char_not_ws)

lemma role_scope_is_word: "is_role_scope s \<Longrightarrow> is_word s"
proof -
  assume "is_role_scope s"
  note parts = role_scope_parts [OF this]
  have "list_all (\<lambda>c. \<not> is_ws c) (scope_audience s @ role_separator @ scope_role s)"
    using parts(2,3) by (simp add: dotted_no_ws) (simp add: role_separator_def is_ws_def)
  moreover have "scope_audience s @ role_separator @ scope_role s \<noteq> []" by (simp add: role_separator_def)
  ultimately show ?thesis unfolding is_word_def using parts(1) by metis
qed

lemma words_of_scopes: "list_all is_role_scope ss \<Longrightarrow> words (join '' '' ss) = ss"
  by (rule words_join_space) (auto simp: list_all_iff role_scope_is_word)

end
