(* ===== verification/Runtime_Token_Exchange.thy ===== *)
theory Runtime_Token_Exchange
  imports Runtime_Auth Gateway_Env Athenz_Names
begin

text \<open>
  \<^verbatim>\<open>mcp-runtime-proxy/src/tokenExchange.ts\<close>: exchanging a verified access token for a downstream
  one and publishing it as a file for one tool call. Reading a credential, the answer of ZTS, the
  failures of the file system and \<^verbatim>\<open>JSON.parse\<close> of a decoded JWT part are arguments; the file
  system itself is a list of paths with their contents.
\<close>

definition max_token_response_bytes :: nat where
  "max_token_response_bytes = 64 * 1024"

definition max_scope_bytes :: nat where
  "max_scope_bytes = 8 * 1024"

definition access_token_file_meta_key :: string where
  "access_token_file_meta_key = ''mcp.idthw.dev/access-token-file''"

definition downstream_scope_header_name :: string where
  "downstream_scope_header_name = ''x-idthw-mcp-downstream-scope''"

section \<open>Errors\<close>

record exchange_diagnostics =
  ed_reason :: string
  ed_credentialPath :: "string option"
  ed_fileErrorCode :: "string option"
  ed_athenzRequestSent :: "bool option"
  ed_athenzStatus :: "int option"
  ed_missingScopes :: "string list"

record exchange_error =
  xe_status :: int
  xe_code :: string
  xe_message :: string
  xe_diagnostics :: "exchange_diagnostics option"

text \<open>A \<^verbatim>\<open>DownstreamTokenExchangeError\<close>, or any other exception.\<close>

datatype exchange_failure = Exchange_Error exchange_error | Plain_Error string

definition exchange_denied :: "string \<Rightarrow> exchange_diagnostics option \<Rightarrow> exchange_failure" where
  "exchange_denied message d = Exchange_Error
     \<lparr>xe_status = 403, xe_code = ''downstream_token_exchange_denied'', xe_message = message, xe_diagnostics = d\<rparr>"

definition exchange_unavailable :: "string \<Rightarrow> exchange_diagnostics option \<Rightarrow> exchange_failure" where
  "exchange_unavailable message d = Exchange_Error
     \<lparr>xe_status = 502, xe_code = ''downstream_token_exchange_unavailable'', xe_message = message, xe_diagnostics = d\<rparr>"

definition invalid_scope :: exchange_failure where
  "invalid_scope = exchange_denied ''The requested downstream Athenz scope is invalid.'' None"

definition invalid_token_response :: exchange_failure where
  "invalid_token_response =
     exchange_unavailable ''Athenz returned an invalid downstream access token.'' None"

section \<open>Configuration\<close>

record exchange_config =
  xc_caPath :: string
  xc_certificatePath :: string
  xc_endpoint :: url
  xc_keyPath :: string
  xc_outputDirectory :: string
  xc_timeoutMs :: rat

text \<open>\<^verbatim>\<open>Number(value)\<close> belongs to the platform and is an argument; only positive integers pass.\<close>

definition positive_number :: "(string \<Rightarrow> js_number) \<Rightarrow> string \<Rightarrow> rat option" where
  "positive_number number v =
     (case number v of Finite q \<Rightarrow> if is_integer q \<and> 0 < q then Some q else None | _ \<Rightarrow> None)"

definition exchange_config_from_environment ::
  "platform \<Rightarrow> (string \<Rightarrow> js_number) \<Rightarrow> process_env \<Rightarrow> (string, exchange_config) result" where
  "exchange_config_from_environment pf number env =
     (case pf_parse_url pf (env_or env ''ATHENZ_TOKEN_EXCHANGE_URL''
             ''https://athenz-zts-server.athenz:4443/zts/v1/oauth2/token'') of
        None \<Rightarrow> Inl ''Invalid URL''
      | Some u \<Rightarrow>
          (case positive_number number (env_or env ''ATHENZ_TOKEN_EXCHANGE_TIMEOUT_MS'' ''10000'') of
             None \<Rightarrow> Inl ''ATHENZ_TOKEN_EXCHANGE_TIMEOUT_MS must be positive''
           | Some t \<Rightarrow> Inr
               \<lparr>xc_caPath = env_or env ''ATHENZ_TOKEN_EXCHANGE_CA_PATH'' ''/var/run/athenz/ca.crt'',
                xc_certificatePath = env_or env ''ATHENZ_TOKEN_EXCHANGE_CERT_PATH'' ''/var/run/athenz/service.cert.pem'',
                xc_endpoint = u,
                xc_keyPath = env_or env ''ATHENZ_TOKEN_EXCHANGE_KEY_PATH'' ''/var/run/athenz/service.key.pem'',
                xc_outputDirectory = env_or env ''ATHENZ_TOKEN_FILE_DIR'' ''/var/run/idthw-access-tokens'',
                xc_timeoutMs = t\<rparr>))"

text \<open>The checks of \<^verbatim>\<open>createAthenzTokenFilePublisher\<close>.\<close>

definition check_publisher :: "exchange_config \<Rightarrow> (string, exchange_config) result" where
  "check_publisher cfg =
     (if url_protocol (xc_endpoint cfg) \<noteq> ''https:'' then Inl ''ATHENZ_TOKEN_EXCHANGE_URL must use HTTPS''
      else if url_username (xc_endpoint cfg) \<noteq> [] \<or> url_password (xc_endpoint cfg) \<noteq> []
      then Inl ''ATHENZ_TOKEN_EXCHANGE_URL must not contain credentials''
      else if \<not> starts_with ''/'' (xc_outputDirectory cfg)
      then Inl ''ATHENZ_TOKEN_FILE_DIR must be an absolute path''
      else Inr cfg)"

section \<open>Scopes and names\<close>

definition validated_scopes :: "string \<Rightarrow> (exchange_failure, string list) result" where
  "validated_scopes value =
     (if byte_length value > max_scope_bytes then Inl invalid_scope
      else let scopes = canonical (words (trim value)) in
        if scopes = [] \<or> \<not> list_all is_role_scope scopes then Inl invalid_scope else Inr scopes)"

text \<open>\<^verbatim>\<open>/^[A-Za-z0-9](?:[A-Za-z0-9._-]{0,126}[A-Za-z0-9])?$/\<close> of the trimmed name\<close>

definition safe_tool_directory :: "string \<Rightarrow> (exchange_failure, string) result" where
  "safe_tool_directory toolName =
     (let value = trim toolName in
      if value \<noteq> [] \<and> length value \<le> 128 \<and> is_alnum (hd value) \<and> is_alnum (last value) \<and> list_all is_name_char value
      then Inr value
      else Inl (exchange_unavailable ''The MCP tool name cannot be represented as an access-token directory.'' None))"

text \<open>\<^verbatim>\<open>/^[a-f0-9-]{36}$/\<close>\<close>

definition is_id_char :: "char \<Rightarrow> bool" where
  "is_id_char c \<longleftrightarrow> is_digit c \<or> CHR ''a'' \<le> c \<and> c \<le> CHR ''f'' \<or> c = CHR ''-''"

definition safe_request_id :: "string \<Rightarrow> (exchange_failure, string) result" where
  "safe_request_id requestId =
     (if length requestId = 36 \<and> list_all is_id_char requestId
      then Inr requestId else Inl (Plain_Error ''Invalid Runtime Proxy request ID''))"

section \<open>The exchange\<close>

type_synonym credential_reader = "string \<Rightarrow> (string option, string) result"   \<comment> \<open>an error code, or the bytes\<close>

definition read_exchange_credential ::
  "credential_reader \<Rightarrow> string \<Rightarrow> string \<Rightarrow> string \<Rightarrow> string \<Rightarrow> (exchange_failure, string) result" where
  "read_exchange_credential readCredential path description setting reason =
     (case readCredential path of
        Inr bytes \<Rightarrow> Inr bytes
      | Inl code \<Rightarrow> Inl (exchange_unavailable
          (''Token exchange failed: the required '' @ description @ '' could not be read. Check '' @ setting @ ''.'')
          (Some \<lparr>ed_reason = reason, ed_credentialPath = Some path,
                 ed_fileErrorCode = Some (case code of None \<Rightarrow> ''UNKNOWN'' | Some c \<Rightarrow> c),
                 ed_athenzRequestSent = Some False, ed_athenzStatus = None, ed_missingScopes = []\<rparr>)))"

record exchange_request =
  xr_endpoint :: url
  xr_ca :: string
  xr_cert :: string
  xr_key :: string
  xr_fields :: "(string \<times> string) list"
  xr_timeoutMs :: rat

definition exchange_fields :: "string \<Rightarrow> string \<Rightarrow> string \<Rightarrow> (string \<times> string) list" where
  "exchange_fields audience scope sourceToken =
     [(''audience'', audience),
      (''grant_type'', ''urn:ietf:params:oauth:grant-type:token-exchange''),
      (''scope'', scope),
      (''subject_token'', sourceToken),
      (''subject_token_type'', ''urn:ietf:params:oauth:token-type:access_token'')]"

text \<open>The credentials are read one after the other; then the request goes out.\<close>

definition exchange_request ::
  "exchange_config \<Rightarrow> credential_reader \<Rightarrow> string \<Rightarrow> string \<Rightarrow> string \<Rightarrow> (exchange_failure, exchange_request) result" where
  "exchange_request cfg readCredential sourceToken scope audience =
     ebind (read_exchange_credential readCredential (xc_certificatePath cfg) ''MCP service certificate''
              ''ATHENZ_TOKEN_EXCHANGE_CERT_PATH'' ''service_certificate_unavailable'') (\<lambda>cert.
     ebind (read_exchange_credential readCredential (xc_keyPath cfg) ''MCP service private key''
              ''ATHENZ_TOKEN_EXCHANGE_KEY_PATH'' ''service_private_key_unavailable'') (\<lambda>key.
     ebind (read_exchange_credential readCredential (xc_caPath cfg) ''Athenz CA certificate''
              ''ATHENZ_TOKEN_EXCHANGE_CA_PATH'' ''athenz_ca_unavailable'') (\<lambda>ca.
     Inr \<lparr>xr_endpoint = xc_endpoint cfg, xr_ca = ca, xr_cert = cert, xr_key = key,
          xr_fields = exchange_fields audience scope sourceToken, xr_timeoutMs = xc_timeoutMs cfg\<rparr>)))"

definition athenz_error_response :: "int \<Rightarrow> exchange_failure" where
  "athenz_error_response status =
     (let d = Some \<lparr>ed_reason = ''athenz_error_response'', ed_credentialPath = None, ed_fileErrorCode = None,
                    ed_athenzRequestSent = Some True, ed_athenzStatus = Some status, ed_missingScopes = []\<rparr> in
      if status = 400 \<or> status = 401 \<or> status = 403
      then exchange_denied ''Athenz denied the downstream token exchange.'' d
      else exchange_unavailable ''Athenz token exchange is unavailable.'' d)"

definition exchange_payload ::
  "(string \<Rightarrow> json option) \<Rightarrow> http_answer \<Rightarrow> (exchange_failure, json) result" where
  "exchange_payload parse answer =
     (case answer of
        Http_Failure m \<Rightarrow> Inl (exchange_unavailable ''Athenz token exchange is unavailable.'' None)
      | Http_Answer statusCode chunks \<Rightarrow>
          (case read_limited max_token_response_bytes 0 chunks of
             None \<Rightarrow> Inl (exchange_unavailable ''Athenz token exchange is unavailable.'' None)
           | Some body \<Rightarrow>
               let status = (case statusCode of None \<Rightarrow> 0 | Some i \<Rightarrow> i) in
               if status < 200 \<or> 300 \<le> status then Inl (athenz_error_response status)
               else case parse body of
                 None \<Rightarrow> Inl (exchange_unavailable ''Athenz returned an invalid token response.'' None)
               | Some v \<Rightarrow> Inr v))"

text \<open>The scopes of a granted token: claims of other types are ignored.\<close>

fun granted_claim :: "unknown \<Rightarrow> string list" where
  "granted_claim (Some (JStr s)) = words s"
| "granted_claim (Some (JArr vs)) =
     (case all_strings vs of None \<Rightarrow> [] | Some ss \<Rightarrow> filter (\<lambda>s. s \<noteq> []) ss)"
| "granted_claim _ = []"

definition exchanged_token_scopes :: "fields \<Rightarrow> string list" where
  "exchanged_token_scopes claims =
     uniq (granted_claim (map_of claims ''scp'') @ granted_claim (map_of claims ''scope''))"

definition exchanged_claims_ok :: "int \<Rightarrow> fields \<Rightarrow> string \<Rightarrow> string \<Rightarrow> bool" where
  "exchanged_claims_ok currentTime claims audience requestedScope \<longleftrightarrow>
     audience \<in> set (string_or_strings (map_of claims ''aud'')) \<and>
     (case validated_scopes requestedScope of
        Inl e \<Rightarrow> False
      | Inr scopes \<Rightarrow> list_all (\<lambda>s. s \<in> set (exchanged_token_scopes claims)
                                 \<or> scope_role s \<in> set (exchanged_token_scopes claims)) scopes) \<and>
     (case as_finite (map_of claims ''exp'') of None \<Rightarrow> False | Some q \<Rightarrow> of_int currentTime < q) \<and>
     (map_of claims ''nbf'' = None \<or>
      (case as_finite (map_of claims ''nbf'') of None \<Rightarrow> False | Some q \<Rightarrow> q \<le> of_int currentTime))"

definition assert_exchanged_token_grant ::
  "(string \<Rightarrow> json option) \<Rightarrow> int \<Rightarrow> string \<Rightarrow> string \<Rightarrow> string \<Rightarrow> (exchange_failure, unit) result" where
  "assert_exchanged_token_grant parsePart currentTime token audience requestedScope =
     (let parts = split_char CHR ''.'' token in
      if length parts \<noteq> 3 then Inl invalid_token_response
      else case as_record (parsePart (parts ! 1)) of
        None \<Rightarrow> Inl invalid_token_response
      | Some claims \<Rightarrow> require (exchanged_claims_ok currentTime claims audience requestedScope) invalid_token_response)"

definition exchanged_token ::
  "(string \<Rightarrow> json option) \<Rightarrow> int \<Rightarrow> string \<Rightarrow> string \<Rightarrow> json \<Rightarrow> (exchange_failure, string) result" where
  "exchanged_token parsePart currentTime scope audience payload =
     (case as_record (Some payload) of
        None \<Rightarrow> Inl invalid_token_response
      | Some fs \<Rightarrow>
          (case as_string (map_of fs ''access_token'') of
             None \<Rightarrow> Inl invalid_token_response
           | Some token \<Rightarrow>
               if token = [] \<or> length token > 32 * 1024 then Inl invalid_token_response
               else ebind (assert_exchanged_token_grant parsePart currentTime token audience scope) (\<lambda>_. Inr token)))"

text \<open>\<open>zts\<close> is the answer to the request that is sent.\<close>

record exchange_world =
  xw_readCredential :: credential_reader
  xw_zts :: "exchange_request \<Rightarrow> http_answer"
  xw_parse :: "string \<Rightarrow> json option"
  xw_parsePart :: "string \<Rightarrow> json option"

definition exchange_access_token ::
  "exchange_config \<Rightarrow> exchange_world \<Rightarrow> int \<Rightarrow> string \<Rightarrow> string \<Rightarrow> string \<Rightarrow> (exchange_failure, string) result" where
  "exchange_access_token cfg w currentTime sourceToken scope audience =
     ebind (exchange_request cfg (xw_readCredential w) sourceToken scope audience) (\<lambda>request.
     ebind (exchange_payload (xw_parse w) (xw_zts w request)) (\<lambda>payload.
     exchanged_token (xw_parsePart w) currentTime scope audience payload))"

section \<open>The token file\<close>

text \<open>\<^verbatim>\<open>path.join\<close> on an absolute base.\<close>

fun normalize_segments :: "string list \<Rightarrow> string list \<Rightarrow> string list" where
  "normalize_segments done [] = done"
| "normalize_segments done (s # ss) =
     (if s = [] \<or> s = ''.'' then normalize_segments done ss
      else if s = ''..'' then normalize_segments (butlast done) ss
      else normalize_segments (done @ [s]) ss)"

definition path_of_segments :: "string list \<Rightarrow> string" where
  "path_of_segments ss = (if ss = [] then ''/'' else concat (map (\<lambda>s. CHR ''/'' # s) ss))"

definition path_join :: "string \<Rightarrow> string \<Rightarrow> string" where
  "path_join base name = path_of_segments (normalize_segments [] (split_char CHR ''/'' (base @ ''/'' @ name)))"

text \<open>The regular files with their contents, and the directories.\<close>

record file_system =
  fs_files :: "(string \<times> string) list"
  fs_directories :: "string list"

text \<open>
  Which calls of the file system fail: after how many directories \<^verbatim>\<open>mkdir\<close> gives up, what a failed
  write leaves in the file, and whether removing a file fails.
\<close>

record io_faults =
  if_mkdir :: "nat option"
  if_open :: bool
  if_write :: "string option"
  if_close :: bool
  if_rename :: bool
  if_rm :: bool
  if_remove :: bool

definition put_file :: "string \<Rightarrow> string \<Rightarrow> file_system \<Rightarrow> file_system" where
  "put_file path content fs = fs\<lparr>fs_files := AList.update path content (fs_files fs)\<rparr>"

definition remove_file :: "string \<Rightarrow> file_system \<Rightarrow> file_system" where
  "remove_file path fs = fs\<lparr>fs_files := AList.delete path (fs_files fs)\<rparr>"

text \<open>\<^verbatim>\<open>mkdir(path, {recursive: true})\<close>: a directory and those above it, the topmost first.\<close>

definition directory_chain :: "string \<Rightarrow> string list" where
  "directory_chain path =
     (let segments = filter (\<lambda>s. s \<noteq> []) (split_char CHR ''/'' path)
      in map (\<lambda>n. path_of_segments (take n segments)) [1..<Suc (length segments)])"

definition make_directories :: "nat option \<Rightarrow> string \<Rightarrow> file_system \<Rightarrow> file_system" where
  "make_directories limit path fs =
     (let missing = filter (\<lambda>d. d \<notin> set (fs_directories fs)) (directory_chain path)
      in fs\<lparr>fs_directories := fs_directories fs @ (case limit of None \<Rightarrow> missing | Some n \<Rightarrow> take n missing)\<rparr>)"

text \<open>The \<^verbatim>\<open>try\<close> block: \<^const>\<open>False\<close> when a call threw.\<close>

definition write_token_file ::
  "io_faults \<Rightarrow> string \<Rightarrow> string \<Rightarrow> string \<Rightarrow> string \<Rightarrow> file_system \<Rightarrow> bool \<times> file_system" where
  "write_token_file io dir temporaryPath filePath accessToken fs0 =
     (let fs = make_directories (if_mkdir io) dir fs0 in
      if if_mkdir io \<noteq> None then (False, fs)
      else if if_open io \<or> map_of (fs_files fs) temporaryPath \<noteq> None then (False, fs)
      else case if_write io of
        Some partial \<Rightarrow> (False, put_file temporaryPath partial fs)
      | None \<Rightarrow>
          let content = accessToken @ [CHR 0x0A]; fs' = put_file temporaryPath content fs in
          if if_close io \<or> if_rename io then (False, fs')
          else (True, put_file filePath content (remove_file temporaryPath fs')))"

definition store_token_file ::
  "io_faults \<Rightarrow> string \<Rightarrow> string \<Rightarrow> string \<Rightarrow> string \<Rightarrow> file_system \<Rightarrow> (exchange_failure, unit) result \<times> file_system" where
  "store_token_file io dir temporaryPath filePath accessToken fs =
     (case write_token_file io dir temporaryPath filePath accessToken fs of
        (True, fs') \<Rightarrow> (Inr (), fs')
      | (False, fs') \<Rightarrow>
          if if_rm io then (Inl (Plain_Error ''rm failed''), fs')
          else (Inl (exchange_unavailable ''The downstream access-token file could not be published.'' None),
                remove_file temporaryPath fs'))"

text \<open>The \<^verbatim>\<open>remove\<close> of a publication.\<close>

definition remove_publication :: "io_faults \<Rightarrow> string \<Rightarrow> file_system \<Rightarrow> file_system" where
  "remove_publication io filePath fs = (if if_remove io then fs else remove_file filePath fs)"

record publish_input =
  pi_requestId :: string
  pi_scope :: string
  pi_sourceToken :: string
  pi_toolName :: string

text \<open>What a publication is, before the file is written.\<close>

record publication_plan =
  pp_scopes :: "string list"
  pp_audience :: string
  pp_directory :: string
  pp_filePath :: string

definition plan_publication :: "exchange_config \<Rightarrow> publish_input \<Rightarrow> (exchange_failure, publication_plan) result" where
  "plan_publication cfg input =
     ebind (validated_scopes (pi_scope input)) (\<lambda>scopes.
     ebind (safe_tool_directory (pi_toolName input)) (\<lambda>toolDirectory.
     ebind (safe_request_id (pi_requestId input)) (\<lambda>requestId.
       let audiences = uniq (map scope_audience scopes) in
       if length audiences \<noteq> 1
       then Inl (exchange_unavailable
              ''A tool access-token file currently supports exactly one downstream Athenz domain.'' None)
       else Inr \<lparr>pp_scopes = scopes, pp_audience = hd audiences,
                 pp_directory = path_join (xc_outputDirectory cfg) toolDirectory,
                 pp_filePath = path_join (path_join (xc_outputDirectory cfg) toolDirectory) (requestId @ ''.jwt'')\<rparr>)))"

text \<open>\<open>uuid\<close> is the \<^verbatim>\<open>randomUUID\<close> of the temporary name; the result is the path of the file.\<close>

definition publish ::
  "exchange_config \<Rightarrow> exchange_world \<Rightarrow> int \<Rightarrow> io_faults \<Rightarrow> string \<Rightarrow> publish_input \<Rightarrow> file_system
   \<Rightarrow> (exchange_failure, string) result \<times> file_system" where
  "publish cfg w currentTime io uuid input fs =
     (case plan_publication cfg input of
        Inl e \<Rightarrow> (Inl e, fs)
      | Inr plan \<Rightarrow>
          (case exchange_access_token cfg w currentTime (pi_sourceToken input) (join '' '' (pp_scopes plan)) (pp_audience plan) of
             Inl e \<Rightarrow> (Inl e, fs)
           | Inr accessToken \<Rightarrow>
               (case store_token_file io (pp_directory plan) (pp_filePath plan @ ''.'' @ uuid @ ''.tmp'') (pp_filePath plan) accessToken fs of
                  (Inl e, fs') \<Rightarrow> (Inl e, fs')
                | (Inr u, fs') \<Rightarrow> (Inr (pp_filePath plan), fs'))))"

end
