(* ===== verification/Runtime_Publication.thy ===== *)
theory Runtime_Publication
  imports Runtime_Token_Exchange Samples
begin

text \<open>
  What publishing a downstream token promises: the file holds a token that ZTS issued for the
  request, it lies inside the output directory, and nothing is left behind.
\<close>

section \<open>Scopes\<close>

lemma validated_scopes_Inr:
  "validated_scopes v = Inr scopes \<longleftrightarrow>
   byte_length v \<le> max_scope_bytes \<and> scopes = canonical (words v) \<and> scopes \<noteq> [] \<and> list_all is_role_scope scopes"
  by (auto simp: validated_scopes_def Let_def invalid_scope_def)

text \<open>Reading the joined scopes again gives the scopes.\<close>

lemma validated_scopes_again:
  assumes "validated_scopes v = Inr ss" "validated_scopes (join '' '' ss) = Inr ss'"
  shows "ss' = ss"
proof -
  from assms(1) have roles: "list_all is_role_scope ss" and ss: "ss = canonical (words v)"
    unfolding validated_scopes_Inr by blast+
  from ss have "sorted ss" "distinct ss" by simp_all
  with roles have "words (join '' '' ss) = ss" "canonical ss = ss" by (simp_all add: words_of_scopes canonical_id)
  with assms(2) show ?thesis by (simp add: validated_scopes_Inr)
qed

section \<open>Paths\<close>

lemma split_char_none: "d \<notin> set a \<Longrightarrow> split_char d a = [a]"
  by (induction a) auto

lemma split_char_pieces: "p \<in> set (split_char d s) \<Longrightarrow> d \<notin> set p"
  by (induction s arbitrary: p) (auto split: list.splits if_splits)

lemma normalize_append: "normalize_segments done (xs @ ys) = normalize_segments (normalize_segments done xs) ys"
  by (induction xs arbitrary: "done") auto

text \<open>A segment that stays: not empty, not \<^verbatim>\<open>.\<close> or \<^verbatim>\<open>..\<close>, without a slash.\<close>

definition plain_segment :: "string \<Rightarrow> bool" where
  "plain_segment s \<longleftrightarrow> s \<noteq> [] \<and> s \<noteq> ''.'' \<and> s \<noteq> ''..'' \<and> CHR ''/'' \<notin> set s"

lemma normalize_plain: "list_all plain_segment ss \<Longrightarrow> normalize_segments done ss = done @ ss"
  by (induction ss arbitrary: "done") (auto simp: plain_segment_def)

lemma normalize_result:
  "list_all plain_segment done \<Longrightarrow> list_all (\<lambda>s. CHR ''/'' \<notin> set s) ss \<Longrightarrow> list_all plain_segment (normalize_segments done ss)"
proof (induction "done" ss rule: normalize_segments.induct)
  case (2 d s ss)
  have "list_all plain_segment (butlast d)"
    using "2.prems"(1) by (auto simp: list_all_iff dest: in_set_butlastD)
  with 2 have "s = [] \<or> s = ''.'' \<Longrightarrow> ?case" "s = ''..'' \<Longrightarrow> ?case" by simp_all
  moreover have "plain_segment s" if "s \<noteq> []" "s \<noteq> ''.''" "s \<noteq> ''..''"
    using that "2.prems"(2) by (simp add: plain_segment_def)
  with 2 have "s \<noteq> [] \<Longrightarrow> s \<noteq> ''.'' \<Longrightarrow> s \<noteq> ''..'' \<Longrightarrow> ?case" by simp
  ultimately show ?case by blast
qed simp

lemma split_path: "list_all plain_segment ss \<Longrightarrow> ss \<noteq> [] \<Longrightarrow> split_char CHR ''/'' (path_of_segments ss) = [] # ss"
proof (induction ss)
  case (Cons s ss)
  have s: "CHR ''/'' \<notin> set s" using Cons.prems by (simp add: plain_segment_def)
  show ?case
  proof (cases ss)
    case Nil
    with s show ?thesis by (simp add: path_of_segments_def split_char_none)
  next
    case (Cons t ts)
    with Cons.IH Cons.prems have "split_char CHR ''/'' (path_of_segments ss) = [] # ss" by simp
    moreover have "path_of_segments (s # ss) = CHR ''/'' # s @ path_of_segments ss"
      using Cons by (simp add: path_of_segments_def)
    moreover have "path_of_segments ss = CHR ''/'' # drop 1 (path_of_segments ss)"
      using Cons by (simp add: path_of_segments_def)
    ultimately show ?thesis using s split_char_append [of "CHR ''/''" s "drop 1 (path_of_segments ss)"]
      by (simp add: split_char_none) (metis list.inject split_char.simps(2))
  qed
qed simp

definition directory_segments :: "string \<Rightarrow> string list" where
  "directory_segments base = normalize_segments [] (split_char CHR ''/'' base)"

lemma directory_segments_plain: "list_all plain_segment (directory_segments base)"
  unfolding directory_segments_def
  by (rule normalize_result) (auto simp: list_all_iff dest: split_char_pieces)

lemma path_join_plain:
  "plain_segment name \<Longrightarrow> path_join base name = path_of_segments (directory_segments base @ [name])"
  by (simp add: path_join_def split_char_append normalize_append directory_segments_def [symmetric] plain_segment_def split_char_none)

lemma directory_of_path: "list_all plain_segment ss \<Longrightarrow> directory_segments (path_of_segments ss) = ss"
  by (cases "ss = []")
     (simp_all add: directory_segments_def split_path normalize_plain, simp add: path_of_segments_def)

text \<open>The path of a publication, segment by segment.\<close>

lemma plan_Inr:
  "plan_publication cfg input = Inr plan \<longleftrightarrow>
   (\<exists>scopes toolDirectory requestId. validated_scopes (pi_scope input) = Inr scopes
     \<and> safe_tool_directory (pi_toolName input) = Inr toolDirectory \<and> safe_request_id (pi_requestId input) = Inr requestId
     \<and> length (uniq (map scope_audience scopes)) = 1
     \<and> plan = \<lparr>pp_scopes = scopes, pp_audience = hd (uniq (map scope_audience scopes)),
               pp_directory = path_join (xc_outputDirectory cfg) toolDirectory,
               pp_filePath = path_join (path_join (xc_outputDirectory cfg) toolDirectory) (requestId @ ''.jwt'')\<rparr>)"
  unfolding plan_publication_def Let_def ebind_eq_Inr by (auto simp del: One_nat_def split: if_splits)

lemma safe_tool_Inr:
  "safe_tool_directory t = Inr d \<longleftrightarrow> d = trim t \<and> d \<noteq> [] \<and> length d \<le> 128 \<and> is_alnum (hd d) \<and> is_alnum (last d)
     \<and> list_all is_name_char d"
  by (auto simp: safe_tool_directory_def Let_def)

lemma safe_id_Inr:
  "safe_request_id i = Inr d \<longleftrightarrow> d = i \<and> length i = 36 \<and> list_all is_id_char i"
  by (auto simp: safe_request_id_def)

lemma name_is_plain: "n \<noteq> [] \<Longrightarrow> is_alnum (hd n) \<Longrightarrow> list_all is_name_char n \<Longrightarrow> plain_segment n"
  by (auto simp: plain_segment_def list_all_iff char_class_defs)

lemma id_is_plain: "list_all is_id_char i \<Longrightarrow> plain_segment (i @ ''.jwt'')"
  by (auto simp: plain_segment_def list_all_iff is_id_char_def is_digit_def)

lemma plan_path:
  assumes "plan_publication cfg input = Inr plan"
  shows "pp_filePath plan = path_of_segments
     (directory_segments (xc_outputDirectory cfg) @ [trim (pi_toolName input), pi_requestId input @ ''.jwt''])"
    and "plain_segment (trim (pi_toolName input))" and "plain_segment (pi_requestId input @ ''.jwt'')"
proof -
  from assms have tool: "safe_tool_directory (pi_toolName input) = Inr (trim (pi_toolName input))"
    and id: "list_all is_id_char (pi_requestId input)"
    and p: "pp_filePath plan = path_join (path_join (xc_outputDirectory cfg) (trim (pi_toolName input))) (pi_requestId input @ ''.jwt'')"
    unfolding plan_Inr by (auto simp: safe_tool_Inr safe_id_Inr)
  from tool show t: "plain_segment (trim (pi_toolName input))"
    by (simp add: safe_tool_Inr name_is_plain)
  from id show i: "plain_segment (pi_requestId input @ ''.jwt'')"
    by (rule id_is_plain)
  have "list_all plain_segment (directory_segments (xc_outputDirectory cfg) @ [trim (pi_toolName input)])"
    using t by (simp add: directory_segments_plain)
  then show "pp_filePath plan = path_of_segments
     (directory_segments (xc_outputDirectory cfg) @ [trim (pi_toolName input), pi_requestId input @ ''.jwt''])"
    by (simp add: p path_join_plain [OF t] path_join_plain [OF i] directory_of_path)
qed

lemma path_of_segments_inj:
  "list_all plain_segment ss \<Longrightarrow> list_all plain_segment ts \<Longrightarrow> path_of_segments ss = path_of_segments ts \<Longrightarrow> ss = ts"
  by (metis directory_of_path)

section \<open>The exchanged token\<close>

lemma read_limited_body: "read_limited limit n chunks = Some body \<Longrightarrow> body = concat chunks"
  by (induction chunks arbitrary: n body) (auto simp: Let_def split: if_splits)

lemma read_limited_bound: "read_limited limit n chunks = Some body \<Longrightarrow> n \<le> limit \<Longrightarrow> n + byte_length body \<le> limit"
proof (induction chunks arbitrary: n body)
  case (Cons c cs)
  then show ?case by (fastforce simp: Let_def byte_length_def split: if_splits)
qed (simp add: byte_length_def)

text \<open>A claim set that grants every requested scope to the audience and is in its validity period.\<close>

definition grants :: "int \<Rightarrow> fields \<Rightarrow> string \<Rightarrow> string list \<Rightarrow> bool" where
  "grants now claims audience scopes \<longleftrightarrow>
     audience \<in> set (string_or_strings (map_of claims ''aud'')) \<and>
     (\<forall>s \<in> set scopes. s \<in> set (exchanged_token_scopes claims) \<or> scope_role s \<in> set (exchanged_token_scopes claims)) \<and>
     (\<exists>q. map_of claims ''exp'' = Some (JNum (Finite q)) \<and> of_int now < q) \<and>
     (\<forall>x. map_of claims ''nbf'' = Some x \<longrightarrow> (\<exists>q. x = JNum (Finite q) \<and> q \<le> of_int now))"

lemma exchanged_claims_grant:
  assumes "exchanged_claims_ok now claims audience (join '' '' scopes)" "validated_scopes v = Inr scopes"
  shows "grants now claims audience scopes"
proof -
  from assms(1) obtain ss where "validated_scopes (join '' '' scopes) = Inr ss"
    "list_all (\<lambda>s. s \<in> set (exchanged_token_scopes claims) \<or> scope_role s \<in> set (exchanged_token_scopes claims)) ss"
    by (auto simp: exchanged_claims_ok_def split: sum.splits)
  with validated_scopes_again [OF assms(2)] have
    "\<forall>s \<in> set scopes. s \<in> set (exchanged_token_scopes claims) \<or> scope_role s \<in> set (exchanged_token_scopes claims)"
    by (auto simp: list_all_iff)
  with assms(1) show ?thesis
    by (auto simp: grants_def exchanged_claims_ok_def split: option.splits sum.splits)
qed

lemma exchanged_token_Inr:
  "exchanged_token part now scope audience payload = Inr token \<longleftrightarrow>
   (\<exists>fs claims. payload = JObj fs \<and> map_of fs ''access_token'' = Some (JStr token) \<and> token \<noteq> [] \<and> length token \<le> 32768
     \<and> length (split_char CHR ''.'' token) = 3 \<and> part (split_char CHR ''.'' token ! 1) = Some (JObj claims)
     \<and> exchanged_claims_ok now claims audience scope)"
  unfolding exchanged_token_def assert_exchanged_token_grant_def Let_def
  by (cases payload) (auto simp: ebind_eq_Inr require_eq_Inr split: option.splits if_splits)

lemma exchange_payload_Inr:
  "exchange_payload parse answer = Inr v \<Longrightarrow>
   \<exists>st chunks. answer = Http_Answer (Some st) chunks \<and> 200 \<le> st \<and> st < 300 \<and> parse (concat chunks) = Some v"
  unfolding exchange_payload_def
  by (cases answer) (auto simp: Let_def dest: read_limited_body split: option.splits if_splits)

lemma exchange_request_Inr:
  "exchange_request cfg rd sourceToken scope audience = Inr r \<Longrightarrow>
   xr_endpoint r = xc_endpoint cfg \<and> xr_fields r = exchange_fields audience scope sourceToken
   \<and> rd (xc_certificatePath cfg) = Inr (xr_cert r) \<and> rd (xc_keyPath cfg) = Inr (xr_key r) \<and> rd (xc_caPath cfg) = Inr (xr_ca r)"
  by (auto simp: exchange_request_def ebind_eq_Inr read_exchange_credential_def split: sum.splits)

text \<open>What the exchange answered: the token and the request it answers.\<close>

definition issued_for ::
  "exchange_config \<Rightarrow> exchange_world \<Rightarrow> int \<Rightarrow> string \<Rightarrow> string list \<Rightarrow> string \<Rightarrow> string \<Rightarrow> bool" where
  "issued_for cfg w now sourceToken scopes audience token \<longleftrightarrow>
     (\<exists>request st chunks fs claims. xr_endpoint request = xc_endpoint cfg
       \<and> xr_fields request = exchange_fields audience (join '' '' scopes) sourceToken
       \<and> xw_zts w request = Http_Answer (Some st) chunks \<and> 200 \<le> st \<and> st < 300
       \<and> xw_parse w (concat chunks) = Some (JObj fs) \<and> map_of fs ''access_token'' = Some (JStr token)
       \<and> length (split_char CHR ''.'' token) = 3
       \<and> xw_parsePart w (split_char CHR ''.'' token ! 1) = Some (JObj claims)
       \<and> grants now claims audience scopes)"

lemma exchange_issued:
  assumes "exchange_access_token cfg w now sourceToken (join '' '' scopes) audience = Inr token"
    and "validated_scopes v = Inr scopes"
  shows "issued_for cfg w now sourceToken scopes audience token"
proof -
  from assms(1) obtain request payload where
    r: "exchange_request cfg (xw_readCredential w) sourceToken (join '' '' scopes) audience = Inr request"
    and p: "exchange_payload (xw_parse w) (xw_zts w request) = Inr payload"
    and t: "exchanged_token (xw_parsePart w) now (join '' '' scopes) audience payload = Inr token"
    by (auto simp: exchange_access_token_def ebind_eq_Inr)
  from t obtain fs claims where "payload = JObj fs" "map_of fs ''access_token'' = Some (JStr token)"
    "length (split_char CHR ''.'' token) = 3" "xw_parsePart w (split_char CHR ''.'' token ! 1) = Some (JObj claims)"
    "exchanged_claims_ok now claims audience (join '' '' scopes)"
    unfolding exchanged_token_Inr by blast
  moreover from exchange_payload_Inr [OF p] obtain st chunks where
    "xw_zts w request = Http_Answer (Some st) chunks" "200 \<le> st" "st < 300" "xw_parse w (concat chunks) = Some payload"
    by blast
  ultimately show ?thesis
    using exchange_request_Inr [OF r] exchanged_claims_grant [OF _ assms(2)] unfolding issued_for_def by blast
qed

section \<open>The file\<close>

lemma update_same_delete: "map_of fs k = None \<Longrightarrow> AList.delete k (AList.update k v fs) = fs"
  by (induction fs) (auto simp: AList.delete_eq)

lemma delete_absent: "map_of fs k = None \<Longrightarrow> AList.delete k fs = fs"
  by (induction fs) (auto simp: AList.delete_eq)

lemma make_directories_files [simp]: "fs_files (make_directories limit dir fs) = fs_files fs"
  by (simp add: make_directories_def Let_def)

lemma file_fields [simp]:
  "fs_files (put_file path content fs) = AList.update path content (fs_files fs)"
  "fs_directories (put_file path content fs) = fs_directories fs"
  "fs_files (remove_file path fs) = AList.delete path (fs_files fs)"
  "fs_directories (remove_file path fs) = fs_directories fs"
  by (simp_all add: put_file_def remove_file_def)

lemma made_directories: "set (fs_directories (make_directories None dir fs)) = set (fs_directories fs) \<union> set (directory_chain dir)"
  by (auto simp: make_directories_def Let_def)

text \<open>Directories were added, at most those on the way to \<open>dir\<close>.\<close>

definition grew_to :: "string \<Rightarrow> file_system \<Rightarrow> file_system \<Rightarrow> bool" where
  "grew_to dir fs fs' \<longleftrightarrow> set (fs_directories fs) \<subseteq> set (fs_directories fs')
     \<and> set (fs_directories fs') \<subseteq> set (fs_directories fs) \<union> set (directory_chain dir)"

lemma grew_to_refl [simp]: "grew_to dir fs fs"
  by (simp add: grew_to_def)

lemma make_directories_grew: "grew_to dir fs (make_directories limit dir fs)"
  by (auto simp: grew_to_def make_directories_def Let_def split: option.splits dest: in_set_takeD)

lemma grew_to_cong [simp]:
  "grew_to dir fs (put_file path content fs') = grew_to dir fs fs'" "grew_to dir fs (remove_file path fs') = grew_to dir fs fs'"
  by (simp_all add: grew_to_def)

text \<open>A file holding a token was published, the directories on its way exist.\<close>

lemma store_ok:
  assumes "store_token_file io dir tmp path token fs = (Inr u, fs')"
  shows "fs_files fs' = AList.update path (token @ [CHR 0x0A]) (AList.delete tmp (AList.update tmp (token @ [CHR 0x0A]) (fs_files fs)))"
    and "map_of (fs_files fs) tmp = None"
    and "set (fs_directories fs') = set (fs_directories fs) \<union> set (directory_chain dir)"
  using assms
  by (auto simp: store_token_file_def write_token_file_def Let_def made_directories split: prod.splits bool.splits if_splits option.splits)

text \<open>Nothing was published; at most the temporary file and new directories are left.\<close>

lemma write_failed:
  assumes "write_token_file io dir tmp path token fs = (False, fs')" "map_of (fs_files fs) tmp = None"
  shows "fs_files fs' = fs_files fs \<or> (\<exists>part. fs_files fs' = AList.update tmp part (fs_files fs))" and "grew_to dir fs fs'"
  using assms
  by (auto simp: write_token_file_def Let_def make_directories_grew split: if_splits option.splits)

lemma store_failed:
  assumes "store_token_file io dir tmp path token fs = (Inl e, fs')" "map_of (fs_files fs) tmp = None"
  shows "\<not> if_rm io \<Longrightarrow> fs_files fs' = fs_files fs"
    and "p \<noteq> tmp \<Longrightarrow> map_of (fs_files fs') p = map_of (fs_files fs) p" and "grew_to dir fs fs'"
proof -
  obtain ok fw where w: "write_token_file io dir tmp path token fs = (ok, fw)" by fastforce
  with assms(1) have "\<not> ok" "fs' = (if if_rm io then fw else remove_file tmp fw)"
    by (auto simp: store_token_file_def split: bool.splits if_splits)
  with write_failed [OF _ assms(2)] w have
    fw: "fs_files fw = fs_files fs \<or> (\<exists>part. fs_files fw = AList.update tmp part (fs_files fs))" "grew_to dir fs fw"
    and fs': "fs' = (if if_rm io then fw else remove_file tmp fw)" by simp_all
  from fw(1) assms(2) fs' show "\<not> if_rm io \<Longrightarrow> fs_files fs' = fs_files fs"
    by (auto simp: update_same_delete delete_absent)
  from fw(1) fs' show "p \<noteq> tmp \<Longrightarrow> map_of (fs_files fs') p = map_of (fs_files fs) p"
    by (auto simp: update_conv' delete_conv')
  from fw(2) fs' show "grew_to dir fs fs'" by simp
qed

lemma publish_Inr:
  assumes "publish cfg w now io uuid input fs = (Inr path, fs')"
  obtains plan token where "plan_publication cfg input = Inr plan" "path = pp_filePath plan"
    "exchange_access_token cfg w now (pi_sourceToken input) (join '' '' (pp_scopes plan)) (pp_audience plan) = Inr token"
    "store_token_file io (pp_directory plan) (path @ ''.'' @ uuid @ ''.tmp'') path token fs = (Inr (), fs')"
  using assms by (auto simp: publish_def split: sum.splits prod.splits)

lemma plan_scopes:
  assumes "plan_publication cfg input = Inr plan"
  shows "validated_scopes (pi_scope input) = Inr (pp_scopes plan)"
    and "s \<in> set (pp_scopes plan) \<Longrightarrow> s = pp_audience plan @ '':role.'' @ scope_role s"
proof -
  from assms show v: "validated_scopes (pi_scope input) = Inr (pp_scopes plan)" by (auto simp: plan_Inr)
  from assms have one: "length (uniq (map scope_audience (pp_scopes plan))) = 1"
    and a: "pp_audience plan = hd (uniq (map scope_audience (pp_scopes plan)))" by (auto simp: plan_Inr)
  from one a have "uniq (map scope_audience (pp_scopes plan)) = [pp_audience plan]"
    by (cases "uniq (map scope_audience (pp_scopes plan))") auto
  then have all: "set (map scope_audience (pp_scopes plan)) = {pp_audience plan}" by (metis set_uniq empty_set list.simps(15))
  assume "s \<in> set (pp_scopes plan)"
  with v all have "is_role_scope s" "scope_audience s = pp_audience plan"
    by (auto simp: validated_scopes_Inr list_all_iff)
  with role_scope_parts(1) [of s] show "s = pp_audience plan @ '':role.'' @ scope_role s"
    by (simp add: role_separator_def)
qed

section \<open>The properties\<close>

text \<open>
  C11: when a publication succeeds, its file holds exactly the token that ZTS answered to a request
  made with the caller's token, the deduplicated requested scopes and their one domain; and that
  token names the domain as its audience, grants every one of the scopes, has not expired and is
  already valid.
\<close>

theorem published_token_is_granted:
  assumes "publish cfg w now io uuid input fs = (Inr path, fs')"
  shows "\<exists>token scopes audience. map_of (fs_files fs') path = Some (token @ [CHR 0x0A])
    \<and> issued_for cfg w now (pi_sourceToken input) scopes audience token
    \<and> set scopes = set (words (pi_scope input)) \<and> scopes \<noteq> [] \<and> distinct scopes
    \<and> (\<forall>s \<in> set scopes. \<exists>role. s = audience @ '':role.'' @ role)"
proof -
  from publish_Inr [OF assms] obtain plan token where
    plan: "plan_publication cfg input = Inr plan"
    and t: "exchange_access_token cfg w now (pi_sourceToken input) (join '' '' (pp_scopes plan)) (pp_audience plan) = Inr token"
    and st: "store_token_file io (pp_directory plan) (path @ ''.'' @ uuid @ ''.tmp'') path token fs = (Inr (), fs')" by blast
  note sc = plan_scopes [OF plan]
  from store_ok [OF st] have "map_of (fs_files fs') path = Some (token @ [CHR 0x0A])" by (simp add: update_conv')
  moreover from exchange_issued [OF t sc(1)] have "issued_for cfg w now (pi_sourceToken input) (pp_scopes plan) (pp_audience plan) token" .
  moreover from sc(1) have "pp_scopes plan = canonical (words (pi_scope input))" "pp_scopes plan \<noteq> []"
    unfolding validated_scopes_Inr by blast+
  then have "set (pp_scopes plan) = set (words (pi_scope input))" "pp_scopes plan \<noteq> []" "distinct (pp_scopes plan)"
    by simp_all
  ultimately show ?thesis using sc(2) by blast
qed

text \<open>
  The file of a publication lies in the directory of its tool directly below the output
  directory, whatever the tool is called: the two last segments of its path are the trimmed tool name
  and the request id with \<^verbatim>\<open>.jwt\<close>, neither of which has a slash or is a dot segment. Publications
  of different requests, or for different tools, have different files.
\<close>

theorem publication_stays_in_its_directory:
  assumes "plan_publication cfg input = Inr plan" and "plan_publication cfg input' = Inr plan'"
  shows "pp_filePath plan = path_of_segments
       (directory_segments (xc_outputDirectory cfg) @ [trim (pi_toolName input), pi_requestId input @ ''.jwt''])
    \<and> plain_segment (trim (pi_toolName input)) \<and> plain_segment (pi_requestId input @ ''.jwt'')
    \<and> (pp_filePath plan = pp_filePath plan' \<longleftrightarrow>
         trim (pi_toolName input) = trim (pi_toolName input') \<and> pi_requestId input = pi_requestId input')"
proof -
  note a = plan_path [OF assms(1)] and b = plan_path [OF assms(2)]
  have "pp_filePath plan = pp_filePath plan' \<longleftrightarrow>
      trim (pi_toolName input) = trim (pi_toolName input') \<and> pi_requestId input = pi_requestId input'"
    using path_of_segments_inj [of "directory_segments (xc_outputDirectory cfg) @ [trim (pi_toolName input), pi_requestId input @ ''.jwt'']"
        "directory_segments (xc_outputDirectory cfg) @ [trim (pi_toolName input'), pi_requestId input' @ ''.jwt'']"]
      a b by (auto simp: directory_segments_plain)
  with a show ?thesis by blast
qed

text \<open>
  C12: what a publication leaves. A failed exchange touches nothing. When a later call of the file
  system fails, whichever it is, no file but the temporary one can differ from before, and that one
  is gone unless removing it failed too; the directories made on the way to the tool's directory
  stay. A publication that succeeds has added exactly its own file and those directories, and
  removing the file gives back the files from before.
\<close>

theorem publication_leaves_only_directories:
  assumes plan: "plan_publication cfg input = Inr plan" and new: "map_of (fs_files fs) (pp_filePath plan) = None"
    and tmp: "map_of (fs_files fs) (pp_filePath plan @ ''.'' @ uuid @ ''.tmp'') = None"
  shows "(\<forall>e. exchange_access_token cfg w now (pi_sourceToken input) (join '' '' (pp_scopes plan)) (pp_audience plan) = Inl e \<longrightarrow>
        publish cfg w now io uuid input fs = (Inl e, fs)) \<and>
    (case publish cfg w now io uuid input fs of
      (Inl e, fs') \<Rightarrow>
        (\<forall>p. p \<noteq> pp_filePath plan @ ''.'' @ uuid @ ''.tmp'' \<longrightarrow> map_of (fs_files fs') p = map_of (fs_files fs) p)
        \<and> (\<not> if_rm io \<longrightarrow> fs_files fs' = fs_files fs) \<and> grew_to (pp_directory plan) fs fs'
    | (Inr path, fs') \<Rightarrow> path = pp_filePath plan
        \<and> (\<exists>content. fs_files fs' = AList.update path content (fs_files fs))
        \<and> set (fs_directories fs') = set (fs_directories fs) \<union> set (directory_chain (pp_directory plan))
        \<and> fs_files (remove_file path fs') = fs_files fs)"
proof (cases "publish cfg w now io uuid input fs")
  case (Pair r fs')
  have exchange: "publish cfg w now io uuid input fs = (Inl e, fs)"
    if "exchange_access_token cfg w now (pi_sourceToken input) (join '' '' (pp_scopes plan)) (pp_audience plan) = Inl e" for e
    using that plan by (simp add: publish_def)
  show ?thesis
  proof (cases r)
    case (Inl e)
    with Pair plan have "fs' = fs \<or> (\<exists>token. store_token_file io (pp_directory plan) (pp_filePath plan @ ''.'' @ uuid @ ''.tmp'')
        (pp_filePath plan) token fs = (Inl e, fs'))"
      by (auto simp: publish_def split: sum.splits prod.splits)
    with store_failed [OF _ tmp, of io "pp_directory plan" "pp_filePath plan" _ e fs'] Inl Pair exchange show ?thesis
      by auto
  next
    case (Inr path)
    with Pair have p: "publish cfg w now io uuid input fs = (Inr path, fs')" by simp
    from publish_Inr [OF p] plan obtain token where path: "path = pp_filePath plan"
      and st: "store_token_file io (pp_directory plan) (path @ ''.'' @ uuid @ ''.tmp'') path token fs = (Inr (), fs')"
      by (metis sum.inject(2))
    note stored = store_ok [OF st, unfolded path]
    from stored(1) tmp have "fs_files fs' = AList.update (pp_filePath plan) (token @ [CHR 0x0A]) (fs_files fs)"
      by (simp add: update_same_delete)
    with new stored(3) Pair Inr path exchange show ?thesis by (auto simp: update_same_delete)
  qed
qed

section \<open>A publication\<close>

definition sample_exchange :: exchange_config where
  "sample_exchange = \<lparr>xc_caPath = ''/ca'', xc_certificatePath = ''/crt'',
     xc_endpoint = \<lparr>url_protocol = ''https:'', url_username = [], url_password = [], url_hostname = ''zts'', url_host = ''zts'',
       url_pathname = ''/t'', url_search = [], url_hash = []\<rparr>,
     xc_keyPath = ''/key'', xc_outputDirectory = ''/out/'', xc_timeoutMs = 10000\<rparr>"

definition sample_zts :: exchange_world where
  "sample_zts = \<lparr>xw_readCredential = (\<lambda>p. Inr p), xw_zts = (\<lambda>r. Http_Answer (Some 200) [''ok'']),
     xw_parse = (\<lambda>t. Some (JObj [(''access_token'', JStr ''h.c.s'')])),
     xw_parsePart = (\<lambda>t. Some (JObj [(''exp'', JNum (Finite 90)), (''aud'', JStr ''api''), (''scope'', JStr ''docs'')]))\<rparr>"

definition sample_io :: io_faults where
  "sample_io = \<lparr>if_mkdir = None, if_open = False, if_write = None, if_close = False, if_rename = False, if_rm = False,
     if_remove = False\<rparr>"

definition empty_file_system :: file_system where
  "empty_file_system = \<lparr>fs_files = [], fs_directories = []\<rparr>"

definition sample_id :: string where
  "sample_id = replicate 36 CHR ''a''"

definition sample_input :: publish_input where
  "sample_input = \<lparr>pi_requestId = sample_id, pi_scope = ''api:role.docs'', pi_sourceToken = ''src'', pi_toolName = ''get''\<rparr>"

definition sample_plan :: publication_plan where
  "sample_plan = \<lparr>pp_scopes = [''api:role.docs''], pp_audience = ''api'', pp_directory = ''/out/get'',
     pp_filePath = ''/out/get/'' @ sample_id @ ''.jwt''\<rparr>"

lemma sample_planned: "plan_publication sample_exchange sample_input = Inr sample_plan"
  by code_simp

lemma sample_scopes: "validated_scopes ''api:role.docs'' = Inr [''api:role.docs'']" "scope_role ''api:role.docs'' = ''docs''"
  by code_simp+

lemma sample_claims:
  "exchanged_claims_ok 10 [(''exp'', JNum (Finite 90)), (''aud'', JStr ''api''), (''scope'', JStr ''docs'')] ''api'' ''api:role.docs''"
  by (simp add: exchanged_claims_ok_def sample_scopes exchanged_token_scopes_def words_word is_ws_def)

lemma sample_token: "exchanged_token (xw_parsePart sample_zts) 10 ''api:role.docs'' ''api''
    (JObj [(''access_token'', JStr ''h.c.s'')]) = Inr ''h.c.s''"
  unfolding exchanged_token_Inr using sample_claims by (simp add: sample_zts_def)

lemma sample_payload: "exchange_payload (xw_parse sample_zts) (xw_zts sample_zts r) = Inr (JObj [(''access_token'', JStr ''h.c.s'')])"
  by (simp add: exchange_payload_def sample_zts_def max_token_response_bytes_def byte_length_def)

lemma sample_exchanged:
  "exchange_access_token sample_exchange sample_zts 10 ''src'' ''api:role.docs'' ''api'' = Inr ''h.c.s''"
  by (simp add: exchange_access_token_def exchange_request_def read_exchange_credential_def sample_payload sample_token)
     (simp add: sample_zts_def)

definition sample_files :: "string \<Rightarrow> string \<Rightarrow> file_system" where
  "sample_files path token = \<lparr>fs_files = [(path, token @ [CHR 0x0A])], fs_directories = [''/out'', ''/out/get'']\<rparr>"

lemma sample_stored: "store_token_file sample_io ''/out/get'' tmp path token empty_file_system = (Inr (), sample_files path token)"
proof -
  have "directory_chain ''/out/get'' = [''/out'', ''/out/get'']" by code_simp
  then show ?thesis
    by (simp add: store_token_file_def write_token_file_def sample_io_def empty_file_system_def sample_files_def
        make_directories_def put_file_def remove_file_def Let_def)
qed

lemma sample_fields:
  "pi_sourceToken sample_input = ''src''" "pp_scopes sample_plan = [''api:role.docs'']" "pp_audience sample_plan = ''api''"
  "pp_directory sample_plan = ''/out/get''" "\<not> if_rm sample_io"
  by (simp_all add: sample_input_def sample_plan_def sample_io_def)

lemma sample_publishes:
  "publish sample_exchange sample_zts 10 sample_io ''u'' sample_input empty_file_system =
   (Inr (pp_filePath sample_plan), sample_files (pp_filePath sample_plan) ''h.c.s'')"
  unfolding publish_def sample_planned
  by (simp only: sum.case sample_fields join.simps sample_exchanged sample_stored prod.case)

lemma published_token_is_granted_witness:
  "\<exists>token scopes audience. issued_for sample_exchange sample_zts 10 (pi_sourceToken sample_input) scopes audience token"
  using published_token_is_granted [OF sample_publishes] by (elim exE conjE) (intro exI)

lemma publication_stays_in_its_directory_witness: "plain_segment (trim (pi_toolName sample_input))"
  using publication_stays_in_its_directory [OF sample_planned sample_planned] by blast

lemma publication_leaves_only_directories_witness:
  "fs_files (remove_file (pp_filePath sample_plan) (sample_files (pp_filePath sample_plan) ''h.c.s'')) = []"
  using publication_leaves_only_directories [OF sample_planned, of empty_file_system "''u''" sample_zts 10 sample_io]
  by (simp add: sample_publishes empty_file_system_def [THEN arg_cong, of fs_files])

end
