(* ===== verification/Runtime_Proxy.thy ===== *)
theory Runtime_Proxy
  imports Runtime_Token_Exchange
begin

text \<open>
  \<^verbatim>\<open>mcp-runtime-proxy/src/proxy.ts\<close>: the proxy in front of an MCP server. It authorizes each request,
  replaces the downstream scope of a tool call by a token file, and forwards the call. JSON parsing
  and printing, relative URLs, the verifier, the publisher and the upstream are arguments; bodies
  are strings of bytes. A URL path that is set on a URL is kept as it is: both halves come from
  parsed URLs and have no dot segments. Log calls are not modelled.
\<close>

definition max_buffered_request_bytes :: nat where
  "max_buffered_request_bytes = 64 * 1024"

definition default_mcp_path :: string where
  "default_mcp_path = ''/mcp''"

definition runtime_public_methods :: "string list" where
  "runtime_public_methods = [''initialize'', ''notifications/initialized'', ''ping'', ''tools/list'']"

definition runtime_hop_by_hop :: "string list" where
  "runtime_hop_by_hop = [''connection'', ''keep-alive'', ''proxy-authenticate'', ''proxy-authorization'', ''te'',
     ''trailer'', ''transfer-encoding'', ''upgrade'']"

record proxy_options =
  po_toolScopes :: "(string \<times> string) list option"
  po_publicOpenApi :: bool
  po_path :: "string option"

definition mcp_path :: "proxy_options \<Rightarrow> string" where
  "mcp_path opts = (case po_path opts of None \<Rightarrow> default_mcp_path | Some p \<Rightarrow> p)"

text \<open>\<open>rr_url\<close> is \<^const>\<open>None\<close> when the URL of the request cannot be parsed with its Host header.\<close>

record runtime_request =
  rr_method :: string
  rr_url :: "url option"
  rr_headers :: in_headers
  rr_chunks :: "string list"

datatype proxy_failure =
    Access_Failure token_error "access_diagnostics option"
  | Jwks_Failure string
  | Exchange_Failure exchange_error
  | Other_Failure string

definition proxy_denied :: "string \<Rightarrow> proxy_failure" where
  "proxy_denied message = Exchange_Failure
     \<lparr>xe_status = 403, xe_code = ''downstream_token_exchange_denied'', xe_message = message, xe_diagnostics = None\<rparr>"

definition proxy_target :: "url \<Rightarrow> (string, url) result" where
  "proxy_target target =
     (if url_protocol target \<notin> {''http:'', ''https:''} then Inl ''MCP_TARGET_URL must use http or https''
      else if url_username target \<noteq> [] \<or> url_password target \<noteq> [] then Inl ''MCP_TARGET_URL must not contain credentials''
      else Inr target)"

section \<open>The request\<close>

text \<open>\<^verbatim>\<open>request.headers.authorization\<close>: Node keeps the first of several, as one string.\<close>

definition header_one :: "in_headers \<Rightarrow> string \<Rightarrow> string option" where
  "header_one hs name = (case map_of hs name of Some (One_Value s) \<Rightarrow> Some s | _ \<Rightarrow> None)"

definition has_authorization :: "runtime_request \<Rightarrow> bool" where
  "has_authorization req =
     (case header_one (rr_headers req) ''authorization'' of None \<Rightarrow> False | Some a \<Rightarrow> a \<noteq> [])"

fun read_chunks :: "nat \<Rightarrow> string list \<Rightarrow> string option" where
  "read_chunks bytes [] = Some []"
| "read_chunks bytes (chunk # chunks) =
     (let total = bytes + length chunk in
      if total > max_buffered_request_bytes then None
      else map_option (\<lambda>body. chunk @ body) (read_chunks total chunks))"

definition read_request_body :: "runtime_request \<Rightarrow> (proxy_failure, string) result" where
  "read_request_body req =
     (case read_chunks 0 (rr_chunks req) of
        Some body \<Rightarrow> Inr body
      | None \<Rightarrow> Inl (Access_Failure
          (if has_authorization req
           then \<lparr>te_status = 403, te_code = ''insufficient_scope'',
                 te_message = ''The MCP request body exceeds the protected-call size limit.'', te_reason = []\<rparr>
           else \<lparr>te_status = 401, te_code = ''missing_access_token'',
                 te_message = ''Pass an Athenz access token as Authorization: Bearer <token>.'', te_reason = []\<rparr>) None))"

definition buffered :: "string option \<Rightarrow> runtime_request \<Rightarrow> (proxy_failure, string) result" where
  "buffered body req = (case body of Some b \<Rightarrow> Inr b | None \<Rightarrow> read_request_body req)"

definition public_mcp_method :: "(string \<Rightarrow> json option) \<Rightarrow> string \<Rightarrow> string option" where
  "public_mcp_method parse body =
     (case as_record (parse body) of
        None \<Rightarrow> None
      | Some fs \<Rightarrow> (case as_string (map_of fs ''method'') of
          None \<Rightarrow> None
        | Some m \<Rightarrow> if m \<in> set runtime_public_methods then Some m else None))"

section \<open>Authorization\<close>

record authorized =
  au_verification :: "verified_token option"
  au_body :: "string option"
  au_publicMethod :: "string option"

text \<open>\<^verbatim>\<open>accessTokenVerified\<close> is true exactly when there is a verification.\<close>

definition denial_failure :: "denial \<Rightarrow> proxy_failure" where
  "denial_failure e =
     (case fst e of Token_Error te \<Rightarrow> Access_Failure te (Some (snd e)) | Jwks_Unavailable m \<Rightarrow> Jwks_Failure m)"

definition verified_request ::
  "(string option \<Rightarrow> (denial, verified_token) result) \<Rightarrow> runtime_request \<Rightarrow> string option \<Rightarrow> (proxy_failure, authorized) result" where
  "verified_request verify req body =
     (if has_authorization req
      then case verify (header_one (rr_headers req) ''authorization'') of
        Inl e \<Rightarrow> Inl (denial_failure e)
      | Inr v \<Rightarrow> Inr \<lparr>au_verification = Some v, au_body = body, au_publicMethod = None\<rparr>
      else case verify None of
        Inl e \<Rightarrow> Inl (denial_failure e)
      | Inr v \<Rightarrow> Inl (Other_Failure ''Access-token verification unexpectedly returned without a token''))"

definition authorize_request ::
  "(string \<Rightarrow> json option) \<Rightarrow> (string option \<Rightarrow> (denial, verified_token) result) \<Rightarrow> proxy_options \<Rightarrow> runtime_request \<Rightarrow> string
   \<Rightarrow> (proxy_failure, authorized) result" where
  "authorize_request parse verify opts req path =
     (if po_publicOpenApi opts \<and> (rr_method req = ''GET'' \<and> path = ''/openapi.json'' \<or> rr_method req = ''OPTIONS'')
      then Inr \<lparr>au_verification = None, au_body = None,
                au_publicMethod = Some (if rr_method req = ''OPTIONS'' then ''preflight'' else ''openapi'')\<rparr>
      else if rr_method req = ''POST'' \<and> (\<not> has_authorization req \<or> po_publicOpenApi opts)
              \<and> (path = mcp_path opts \<or> path = mcp_path opts @ ''/'')
      then ebind (read_request_body req) (\<lambda>body.
        case public_mcp_method parse body of
          Some m \<Rightarrow> Inr \<lparr>au_verification = None, au_body = Some body, au_publicMethod = Some m\<rparr>
        | None \<Rightarrow> verified_request verify req (Some body))
      else verified_request verify req None)"

section \<open>Downstream scopes and tool calls\<close>

definition normalized_scopes :: "string \<Rightarrow> (proxy_failure, string list) result" where
  "normalized_scopes value =
     (let scopes = canonical (words (trim value)) in
      if scopes = [] \<or> \<not> list_all is_role_scope scopes
      then Inl (proxy_denied ''The requested downstream Athenz scope is invalid.'') else Inr scopes)"

definition downstream_scope_of :: "in_headers \<Rightarrow> (proxy_failure, string option) result" where
  "downstream_scope_of headers =
     (case map_of headers downstream_scope_header_name of
        None \<Rightarrow> Inr None
      | Some (Many_Values vs) \<Rightarrow> Inl (proxy_denied ''The downstream Athenz scope header is invalid.'')
      | Some (One_Value s) \<Rightarrow>
          if trim s = [] then Inl (proxy_denied ''The downstream Athenz scope header is invalid.'')
          else ebind (normalized_scopes s) (\<lambda>_. Inr (Some s)))"

definition assert_granted_downstream_scopes :: "string \<Rightarrow> verified_token option \<Rightarrow> (proxy_failure, unit) result" where
  "assert_granted_downstream_scopes scope verification =
     (let granted = (case verification of None \<Rightarrow> [] | Some v \<Rightarrow> vt_scopes v) in
      ebind (normalized_scopes scope) (\<lambda>scopes.
        let missing = filter (\<lambda>s. s \<notin> set granted) scopes in
        if missing = [] then Inr ()
        else Inl (Exchange_Failure \<lparr>xe_status = 403, xe_code = ''downstream_token_exchange_denied'',
          xe_message = ''The verified Athenz access token does not grant the requested downstream scope.'',
          xe_diagnostics = Some \<lparr>ed_reason = ''missing_downstream_scope'', ed_credentialPath = None, ed_fileErrorCode = None,
            ed_athenzRequestSent = Some False, ed_athenzStatus = None, ed_missingScopes = missing\<rparr>\<rparr>)))"

definition parse_tool_call :: "(string \<Rightarrow> json option) \<Rightarrow> string \<Rightarrow> (proxy_failure, fields \<times> string) result" where
  "parse_tool_call parse body =
     (case parse body of
        None \<Rightarrow> Inl (proxy_denied ''The protected MCP tool call is not valid JSON.'')
      | Some v \<Rightarrow>
          (case as_record (Some v) of
             None \<Rightarrow> Inl (proxy_denied ''The protected MCP tool call must be a JSON-RPC object.'')
           | Some message \<Rightarrow>
               (case as_record (map_of message ''params'') of
                  None \<Rightarrow> Inl (proxy_denied ''A downstream Athenz scope is allowed only for tools/call.'')
                | Some params \<Rightarrow>
                    if map_of message ''method'' \<noteq> Some (JStr ''tools/call'')
                    then Inl (proxy_denied ''A downstream Athenz scope is allowed only for tools/call.'')
                    else (case as_string (map_of params ''name'') of
                       None \<Rightarrow> Inl (proxy_denied ''tools/call params.name must be a non-empty string.'')
                     | Some toolName \<Rightarrow>
                         if trim toolName = []
                         then Inl (proxy_denied ''tools/call params.name must be a non-empty string.'')
                         else Inr (message, toolName)))))"

definition with_access_token_file :: "fields \<Rightarrow> string \<Rightarrow> (proxy_failure, json) result" where
  "with_access_token_file message filePath =
     (let params = (case as_record (map_of message ''params'') of None \<Rightarrow> [] | Some ps \<Rightarrow> ps);
          add = (\<lambda>meta. JObj (AList.update ''params''
            (JObj (AList.update ''_meta'' (JObj (AList.update access_token_file_meta_key (JStr filePath) meta)) params)) message))
      in case map_of params ''_meta'' of
           None \<Rightarrow> Inr (add [])
         | Some v \<Rightarrow>
             (case as_record (Some v) of
                None \<Rightarrow> Inl (proxy_denied ''tools/call params._meta must be an object when provided.'')
              | Some meta \<Rightarrow> Inr (add meta)))"

text \<open>\<^verbatim>\<open>/^Bearer (\S+)$/i\<close>\<close>

definition verified_bearer_token :: "string option \<Rightarrow> (proxy_failure, string) result" where
  "verified_bearer_token authorization =
     (let a = (case authorization of None \<Rightarrow> [] | Some a \<Rightarrow> a) in
      if to_lower (take 7 a) = ''bearer '' \<and> is_word (drop 7 a) then Inr (drop 7 a)
      else Inl (proxy_denied ''The verified Athenz access token is unavailable for downstream exchange.''))"

section \<open>The upstream request\<close>

text \<open>\<^verbatim>\<open>basePath.replace(/\/$/, "")\<close> drops one slash.\<close>

definition join_path :: "string \<Rightarrow> string \<Rightarrow> string" where
  "join_path basePath requestPath =
     (let base = (if basePath = ''/'' then [] else if ends_with ''/'' basePath then butlast basePath else basePath);
          path = (if starts_with ''/'' requestPath then requestPath else ''/'' @ requestPath)
      in base @ path)"

definition build_upstream_url :: "url \<Rightarrow> url \<Rightarrow> url" where
  "build_upstream_url target requestUrl =
     target\<lparr>url_pathname := join_path (url_pathname target) (url_pathname requestUrl), url_search := url_search requestUrl\<rparr>"

definition dropped_request_header :: "bool \<Rightarrow> string \<Rightarrow> bool" where
  "dropped_request_header hasBody name \<longleftrightarrow>
     to_lower name \<in> set runtime_hop_by_hop \<or> to_lower name = ''host'' \<or> to_lower name = downstream_scope_header_name
     \<or> (hasBody \<and> (to_lower name = ''content-length'' \<or> to_lower name = ''content-encoding''))"

definition runtime_forwarded_headers :: "in_headers \<Rightarrow> url \<Rightarrow> string option \<Rightarrow> in_headers" where
  "runtime_forwarded_headers headers upstreamUrl body =
     (let kept = filter (\<lambda>(name, v). \<not> dropped_request_header (body \<noteq> None) name) headers;
          hosted = AList.update ''host'' (One_Value (url_host upstreamUrl)) kept
      in case body of
           None \<Rightarrow> hosted
         | Some b \<Rightarrow> AList.update ''content-length'' (One_Value (nat_text (length b))) hosted)"

definition copied_response_headers :: "in_headers \<Rightarrow> in_headers" where
  "copied_response_headers headers = filter (\<lambda>(name, v). to_lower name \<notin> set runtime_hop_by_hop) headers"

record upstream_call =
  uc_url :: url
  uc_method :: string
  uc_headers :: in_headers
  uc_body :: string

definition upstream_call_for :: "runtime_request \<Rightarrow> url \<Rightarrow> string option \<Rightarrow> upstream_call" where
  "upstream_call_for req upstreamUrl body =
     \<lparr>uc_url = upstreamUrl, uc_method = rr_method req,
      uc_headers = runtime_forwarded_headers (rr_headers req) upstreamUrl body,
      uc_body = (case body of Some b \<Rightarrow> b | None \<Rightarrow> concat (rr_chunks req))\<rparr>"

text \<open>The upstream fails, answers, or breaks off after its headers.\<close>

datatype upstream_outcome =
    Upstream_Failed string
  | Upstream_Answered "int option" in_headers string
  | Upstream_Broken "int option" in_headers string

datatype proxy_reply =
    Json_Reply reply
  | Relayed int in_headers string
  | Destroyed int in_headers string
  | Unhandled_Rejection

definition upstream_status :: "int option \<Rightarrow> int" where
  "upstream_status s = (case s of None \<Rightarrow> 502 | Some i \<Rightarrow> i)"

section \<open>Replies\<close>

definition proxy_json :: "int \<Rightarrow> out_headers \<Rightarrow> json \<Rightarrow> proxy_reply" where
  "proxy_json code hs body =
     Json_Reply (reply_json code (hs @ [(''content-type'', ''application/json; charset=utf-8''), no_store]) body)"

definition runtime_challenge :: "string \<Rightarrow> string \<times> string" where
  "runtime_challenge extra = (''www-authenticate'', ''Bearer realm='' @ [CHR 0x22] @ ''mcp-runtime-proxy'' @ [CHR 0x22] @ extra)"

definition error_parameter :: "string \<Rightarrow> string" where
  "error_parameter code = '', error='' @ [CHR 0x22] @ code @ [CHR 0x22]"

definition error_body :: "string \<Rightarrow> string \<Rightarrow> json" where
  "error_body code message = JObj [(''error'', JStr code), (''message'', JStr message)]"

definition access_token_error_reply :: "token_error \<Rightarrow> proxy_reply" where
  "access_token_error_reply e =
     proxy_json (te_status e)
       [runtime_challenge (if te_status e = 403 then error_parameter ''insufficient_scope''
          else if te_code e = ''invalid_access_token'' then error_parameter ''invalid_token'' else [])]
       (error_body (te_code e) (te_message e))"

definition failure_reply :: "proxy_failure \<Rightarrow> proxy_reply" where
  "failure_reply failure =
     (case failure of
        Access_Failure e d \<Rightarrow> access_token_error_reply e
      | Jwks_Failure m \<Rightarrow> proxy_json 503 [] (JObj [(''error'', JStr ''authentication_unavailable'')])
      | Exchange_Failure e \<Rightarrow> proxy_json (xe_status e)
          (if xe_status e = 403 then [runtime_challenge (error_parameter ''insufficient_scope'')] else [])
          (error_body (xe_code e) (xe_message e))
      | Other_Failure m \<Rightarrow> proxy_json 502 [] (JObj [(''error'', JStr ''MCP upstream unavailable'')]))"

section \<open>Handling a request\<close>

text \<open>\<open>'s\<close> is the state of the publisher: the file system.\<close>

record 's proxy_world =
  pw_parse :: "string \<Rightarrow> json option"
  pw_stringify :: "json \<Rightarrow> string"
  pw_verify :: "string option \<Rightarrow> (denial, verified_token) result"
  pw_publish :: "publish_input \<Rightarrow> 's \<Rightarrow> (exchange_failure, string) result \<times> 's"
  pw_remove :: "string \<Rightarrow> 's \<Rightarrow> 's"
  pw_resolve :: "string \<Rightarrow> url \<Rightarrow> url option"
  pw_upstream :: "upstream_call \<Rightarrow> upstream_outcome"

type_synonym tool_call = "fields \<times> string"

record prepared =
  pr_body :: "string option"
  pr_url :: url
  pr_scope :: "string option"
  pr_toolCall :: "tool_call option"

text \<open>A call of \<^verbatim>\<open>/tools/{name}\<close> becomes a JSON-RPC message for the MCP path.\<close>

definition http_tool_message :: "string \<Rightarrow> fields \<Rightarrow> json" where
  "http_tool_message toolName args = JObj
     [(''jsonrpc'', JStr ''2.0''), (''id'', JNum (Finite 1)), (''method'', JStr ''tools/call''),
      (''params'', JObj [(''name'', JStr toolName), (''arguments'', JObj args)])]"

definition http_tool_name :: "url \<Rightarrow> string option" where
  "http_tool_name u =
     (if starts_with ''/tools/'' (url_pathname u) then Some (drop (length ''/tools/'') (url_pathname u)) else None)"

definition translate_http_tool ::
  "'s proxy_world \<Rightarrow> proxy_options \<Rightarrow> url \<Rightarrow> url \<Rightarrow> string \<Rightarrow> (proxy_failure, string \<times> url) result" where
  "translate_http_tool w opts target requestUrl body =
     (case http_tool_name requestUrl of
        None \<Rightarrow> Inr (body, build_upstream_url target requestUrl)
      | Some toolName \<Rightarrow>
          (case pw_parse w body of
             None \<Rightarrow> Inl (Other_Failure ''Unexpected token in JSON'')
           | Some v \<Rightarrow>
               (case as_record (Some v) of
                  None \<Rightarrow> Inl (proxy_denied ''Tool arguments must be a JSON object.'')
                | Some args \<Rightarrow>
                    (case pw_resolve w (mcp_path opts) requestUrl of
                       None \<Rightarrow> Inl (Other_Failure ''Invalid URL'')
                     | Some u \<Rightarrow> Inr (pw_stringify w (http_tool_message toolName args), build_upstream_url target u)))))"

definition check_tool_scope ::
  "(string \<times> string) list \<Rightarrow> string option \<Rightarrow> string \<Rightarrow> (proxy_failure, string) result" where
  "check_tool_scope toolScopes downstreamScope toolName =
     (let configured = (case map_of toolScopes toolName of None \<Rightarrow> [] | Some s \<Rightarrow> s) in
      if configured = [] then Inl (proxy_denied ''No downstream scope is configured for this tool.'')
      else case downstreamScope of
        None \<Rightarrow> Inr configured
      | Some s \<Rightarrow>
          ebind (normalized_scopes s) (\<lambda>asked. ebind (normalized_scopes configured) (\<lambda>scopes.
            if join '' '' asked \<noteq> join '' '' scopes
            then Inl (proxy_denied ''The downstream scope header does not match the configured tool scope.'')
            else Inr configured)))"

text \<open>\<^verbatim>\<open>handleRequest\<close> from the authorization to the scope of the call.\<close>

definition enforce_tool_scopes ::
  "'s proxy_world \<Rightarrow> proxy_options \<Rightarrow> url \<Rightarrow> runtime_request \<Rightarrow> url \<Rightarrow> authorized \<Rightarrow> string option
   \<Rightarrow> (string \<times> string) list \<Rightarrow> (proxy_failure, prepared) result" where
  "enforce_tool_scopes w opts target req requestUrl auth downstreamScope toolScopes =
     ebind (buffered (au_body auth) req) (\<lambda>body0.
     ebind (translate_http_tool w opts target requestUrl body0) (\<lambda>(body, upstreamUrl).
       if public_mcp_method (pw_parse w) body \<noteq> None
       then Inr \<lparr>pr_body = Some body, pr_url = upstreamUrl, pr_scope = downstreamScope, pr_toolCall = None\<rparr>
       else ebind (parse_tool_call (pw_parse w) body) (\<lambda>(message, toolName).
         ebind (check_tool_scope toolScopes downstreamScope toolName) (\<lambda>scope.
         Inr \<lparr>pr_body = Some body, pr_url = upstreamUrl, pr_scope = Some scope, pr_toolCall = Some (message, toolName)\<rparr>))))"

definition prepare_call ::
  "'s proxy_world \<Rightarrow> proxy_options \<Rightarrow> url \<Rightarrow> runtime_request \<Rightarrow> url \<Rightarrow> authorized \<Rightarrow> (proxy_failure, prepared) result" where
  "prepare_call w opts target req requestUrl auth =
     ebind (downstream_scope_of (rr_headers req)) (\<lambda>downstreamScope.
       let plain = \<lparr>pr_body = au_body auth, pr_url = build_upstream_url target requestUrl,
                    pr_scope = downstreamScope, pr_toolCall = None\<rparr> in
       case po_toolScopes opts of
         None \<Rightarrow> Inr plain
       | Some toolScopes \<Rightarrow>
           if au_verification auth \<noteq> None \<and> rr_method req = ''POST''
              \<and> (url_pathname requestUrl = mcp_path opts \<or> http_tool_name requestUrl \<noteq> None)
           then enforce_tool_scopes w opts target req requestUrl auth downstreamScope toolScopes
           else Inr plain)"

text \<open>The input of the publisher for a call with a downstream scope.\<close>

definition publication_request ::
  "'s proxy_world \<Rightarrow> runtime_request \<Rightarrow> authorized \<Rightarrow> string \<Rightarrow> prepared \<Rightarrow> string
   \<Rightarrow> (proxy_failure, fields \<times> publish_input) result" where
  "publication_request w req auth requestId pr scope =
     (if au_verification auth = None
      then Inl (proxy_denied ''A downstream Athenz scope is allowed only for a protected MCP tool call.'')
      else
      ebind (buffered (pr_body pr) req) (\<lambda>body.
      ebind (case pr_toolCall pr of Some c \<Rightarrow> Inr c | None \<Rightarrow> parse_tool_call (pw_parse w) body) (\<lambda>(message, toolName).
      ebind (assert_granted_downstream_scopes scope (au_verification auth)) (\<lambda>_.
      ebind (verified_bearer_token (header_one (rr_headers req) ''authorization'')) (\<lambda>sourceToken.
      Inr (message, \<lparr>pi_requestId = requestId, pi_scope = scope, pi_sourceToken = sourceToken, pi_toolName = toolName\<rparr>))))))"

definition exchange_failed :: "exchange_failure \<Rightarrow> proxy_failure" where
  "exchange_failed e = (case e of Exchange_Error x \<Rightarrow> Exchange_Failure x | Plain_Error m \<Rightarrow> Other_Failure m)"

text \<open>
  What a handled request did: its reply, the upstream call if one was made, the state of the
  publisher during that call, and the state at the end.
\<close>

record 's handled =
  hd_reply :: proxy_reply
  hd_call :: "upstream_call option"
  hd_during :: 's
  hd_after :: 's

definition refused :: "proxy_failure \<Rightarrow> 's \<Rightarrow> 's handled" where
  "refused e s = \<lparr>hd_reply = failure_reply e, hd_call = None, hd_during = s, hd_after = s\<rparr>"

definition proxy_request :: "'s proxy_world \<Rightarrow> upstream_call \<Rightarrow> proxy_reply" where
  "proxy_request w c =
     (case pw_upstream w c of
        Upstream_Failed m \<Rightarrow> failure_reply (Other_Failure m)
      | Upstream_Answered st hs b \<Rightarrow> Relayed (upstream_status st) (copied_response_headers hs) b
      | Upstream_Broken st hs b \<Rightarrow> Destroyed (upstream_status st) (copied_response_headers hs) b)"

text \<open>The call with a token file: publish, forward, and the \<^verbatim>\<open>finally\<close> that removes it.\<close>

definition publish_and_forward ::
  "'s proxy_world \<Rightarrow> runtime_request \<Rightarrow> url \<Rightarrow> fields \<Rightarrow> publish_input \<Rightarrow> 's \<Rightarrow> 's handled" where
  "publish_and_forward w req upstreamUrl message input s =
     (case pw_publish w input s of
        (Inl e, s') \<Rightarrow> refused (exchange_failed e) s'
      | (Inr filePath, s') \<Rightarrow>
          (case with_access_token_file message filePath of
             Inl e \<Rightarrow> \<lparr>hd_reply = failure_reply e, hd_call = None, hd_during = s', hd_after = pw_remove w filePath s'\<rparr>
           | Inr v \<Rightarrow>
               let c = upstream_call_for req upstreamUrl (Some (pw_stringify w v))
               in \<lparr>hd_reply = proxy_request w c, hd_call = Some c, hd_during = s', hd_after = pw_remove w filePath s'\<rparr>))"

definition forward_call ::
  "'s proxy_world \<Rightarrow> proxy_options \<Rightarrow> url \<Rightarrow> runtime_request \<Rightarrow> url \<Rightarrow> string \<Rightarrow> authorized \<Rightarrow> 's \<Rightarrow> 's handled" where
  "forward_call w opts target req requestUrl requestId auth s =
     (case prepare_call w opts target req requestUrl auth of
        Inl e \<Rightarrow> refused e s
      | Inr pr \<Rightarrow>
          (case pr_scope pr of
             None \<Rightarrow>
               let c = upstream_call_for req (pr_url pr) (pr_body pr)
               in \<lparr>hd_reply = proxy_request w c, hd_call = Some c, hd_during = s, hd_after = s\<rparr>
           | Some scope \<Rightarrow>
               (case publication_request w req auth requestId pr scope of
                  Inl e \<Rightarrow> refused e s
                | Inr (message, input) \<Rightarrow> publish_and_forward w req (pr_url pr) message input s)))"

text \<open>\<open>ready\<close> is the outcome of the readiness probe: the number of tools, or a failure.\<close>

definition handle_request ::
  "'s proxy_world \<Rightarrow> proxy_options \<Rightarrow> url \<Rightarrow> (string, nat) result \<Rightarrow> runtime_request \<Rightarrow> string \<Rightarrow> 's \<Rightarrow> 's handled" where
  "handle_request w opts target ready req requestId s =
     (case rr_url req of
        None \<Rightarrow> \<lparr>hd_reply = Unhandled_Rejection, hd_call = None, hd_during = s, hd_after = s\<rparr>
      | Some requestUrl \<Rightarrow>
          if url_pathname requestUrl = ''/healthz''
          then \<lparr>hd_reply = proxy_json 200 [] (JObj [(''ok'', JBool True), (''status'', JStr ''alive'')]),
                hd_call = None, hd_during = s, hd_after = s\<rparr>
          else if url_pathname requestUrl = ''/readyz''
          then \<lparr>hd_reply = (case ready of
                   Inr n \<Rightarrow> proxy_json 200 [] (JObj [(''ok'', JBool True), (''status'', JStr ''ready''),
                              (''toolCount'', JNum (Finite (of_nat n)))])
                 | Inl m \<Rightarrow> proxy_json 503 [] (JObj [(''ok'', JBool False), (''status'', JStr ''not_ready'')])),
                hd_call = None, hd_during = s, hd_after = s\<rparr>
          else case authorize_request (pw_parse w) (pw_verify w) opts req (url_pathname requestUrl) of
            Inl e \<Rightarrow> refused e s
          | Inr auth \<Rightarrow> forward_call w opts target req requestUrl requestId auth s)"

section \<open>The scopes of the tools\<close>

definition tool_scopes_from_environment ::
  "(string \<Rightarrow> json option) \<Rightarrow> string option \<Rightarrow> (string, (string \<times> string) list option) result" where
  "tool_scopes_from_environment parse value =
     (case value of
        None \<Rightarrow> Inr None
      | Some text \<Rightarrow>
          (case parse text of
             None \<Rightarrow> Inl ''Unexpected token in JSON''
           | Some v \<Rightarrow>
               (case as_record (Some v) of
                  None \<Rightarrow> Inl ''MCP_TOOL_SCOPES must be a non-empty JSON object of tool names to scopes''
                | Some fs \<Rightarrow>
                    if fs = [] then Inl ''MCP_TOOL_SCOPES must be a non-empty JSON object of tool names to scopes''
                    else ebind (emap (\<lambda>(name, scope).
                      case scope of
                        JStr s \<Rightarrow>
                          if \<not> dotted_name name then Inl ''MCP_TOOL_SCOPES contains an invalid tool name or scope''
                          else (case normalized_scopes s of
                            Inl e \<Rightarrow> Inl ''The requested downstream Athenz scope is invalid.''
                          | Inr _ \<Rightarrow> Inr (name, s))
                      | _ \<Rightarrow> Inl ''MCP_TOOL_SCOPES contains an invalid tool name or scope'') fs) (\<lambda>scopes. Inr (Some scopes)))))"

end
