(* ===== verification/Runtime_Proxy_Safety.thy ===== *)
theory Runtime_Proxy_Safety
  imports Runtime_Proxy Runtime_Publication
begin

text \<open>
  What the runtime proxy promises of the calls it makes, for any verifier, publisher and upstream;
  and, with the publisher of \<open>Runtime_Token_Exchange\<close>, of the token files it leaves.
\<close>

section \<open>How a call comes about\<close>

lemma refused_fields [simp]:
  "hd_call (refused e s) = None" "hd_during (refused e s) = s" "hd_after (refused e s) = s"
  "hd_reply (refused e s) = failure_reply e"
  by (simp_all add: refused_def)

text \<open>The two ways to reach the upstream: plainly, or with a token file.\<close>

definition plain_call ::
  "'s proxy_world \<Rightarrow> runtime_request \<Rightarrow> prepared \<Rightarrow> 's \<Rightarrow> 's handled \<Rightarrow> upstream_call \<Rightarrow> bool" where
  "plain_call w req pr s h c \<longleftrightarrow> pr_scope pr = None \<and> c = upstream_call_for req (pr_url pr) (pr_body pr) \<and> hd_during h = s"

definition file_call ::
  "'s proxy_world \<Rightarrow> runtime_request \<Rightarrow> authorized \<Rightarrow> string \<Rightarrow> prepared \<Rightarrow> 's \<Rightarrow> 's handled \<Rightarrow> upstream_call
   \<Rightarrow> fields \<Rightarrow> publish_input \<Rightarrow> string \<Rightarrow> bool" where
  "file_call w req auth requestId pr s h c message input path \<longleftrightarrow>
     (\<exists>scope v. pr_scope pr = Some scope \<and> publication_request w req auth requestId pr scope = Inr (message, input)
       \<and> pw_publish w input s = (Inr path, hd_during h) \<and> with_access_token_file message path = Inr v
       \<and> c = upstream_call_for req (pr_url pr) (Some (pw_stringify w v)))"

lemma forwarded_call:
  assumes "hd_call (forward_call w opts target req u requestId auth s) = Some c"
  obtains pr where "prepare_call w opts target req u auth = Inr pr"
    "plain_call w req pr s (forward_call w opts target req u requestId auth s) c \<or>
     (\<exists>message input path. file_call w req auth requestId pr s (forward_call w opts target req u requestId auth s) c message input path)"
proof (cases "prepare_call w opts target req u auth")
  case (Inl e)
  with assms show ?thesis by (simp add: forward_call_def)
next
  case (Inr pr)
  let ?h = "forward_call w opts target req u requestId auth s"
  have "plain_call w req pr s ?h c \<or> (\<exists>message input path. file_call w req auth requestId pr s ?h c message input path)"
  proof (cases "pr_scope pr")
    case None
    with Inr assms show ?thesis by (simp add: forward_call_def Let_def plain_call_def)
  next
    case (Some scope)
    show ?thesis
    proof (cases "publication_request w req auth requestId pr scope")
      case (Inl e)
      with Some Inr assms show ?thesis by (simp add: forward_call_def)
    next
      case pub: (Inr mi)
      obtain message input where mi: "mi = (message, input)" by fastforce
      obtain r s' where r: "pw_publish w input s = (r, s')" by fastforce
      have h: "?h = publish_and_forward w req (pr_url pr) message input s"
        using Inr Some pub mi by (simp add: forward_call_def)
      show ?thesis
      proof (cases r)
        case (Inl e)
        with assms h r show ?thesis by (simp add: publish_and_forward_def)
      next
        case path: (Inr path)
        show ?thesis
        proof (cases "with_access_token_file message path")
          case (Inl e)
          with assms h r path show ?thesis by (simp add: publish_and_forward_def)
        next
          case v: (Inr v)
          with assms h r path Some pub mi
          have "file_call w req auth requestId pr s ?h c message input path"
            by (simp add: publish_and_forward_def file_call_def Let_def)
          then show ?thesis by blast
        qed
      qed
    qed
  qed
  with Inr that show ?thesis by blast
qed

lemma handled_call:
  assumes "hd_call (handle_request w opts target ready req requestId s) = Some c"
  obtains u auth where "rr_url req = Some u" "authorize_request (pw_parse w) (pw_verify w) opts req (url_pathname u) = Inr auth"
    "handle_request w opts target ready req requestId s = forward_call w opts target req u requestId auth s"
    "hd_call (forward_call w opts target req u requestId auth s) = Some c"
  using assms by (auto simp: handle_request_def split: option.splits if_splits sum.splits)

lemma read_chunks_eq:
  "read_chunks n cs = (if cs = [] \<or> n + length (concat cs) \<le> max_buffered_request_bytes then Some (concat cs) else None)"
  by (induction cs arbitrary: n) (simp_all add: Let_def)

lemma read_body_Inr:
  "read_request_body req = Inr b \<longleftrightarrow> b = concat (rr_chunks req) \<and> length b \<le> max_buffered_request_bytes"
proof -
  have "read_chunks 0 (rr_chunks req) = Some b \<longleftrightarrow> b = concat (rr_chunks req) \<and> length b \<le> max_buffered_request_bytes"
    unfolding read_chunks_eq by (cases "rr_chunks req") auto
  then show ?thesis by (auto simp: read_request_body_def split: option.split)
qed

text \<open>Who is let through.\<close>

definition public_request :: "(string \<Rightarrow> json option) \<Rightarrow> proxy_options \<Rightarrow> runtime_request \<Rightarrow> string \<Rightarrow> bool" where
  "public_request parse opts req path \<longleftrightarrow>
     po_publicOpenApi opts \<and> (rr_method req = ''GET'' \<and> path = ''/openapi.json'' \<or> rr_method req = ''OPTIONS'') \<or>
     rr_method req = ''POST'' \<and> path \<in> {mcp_path opts, mcp_path opts @ ''/''} \<and>
     (\<exists>body m. read_request_body req = Inr body \<and> public_mcp_method parse body = Some m)"

lemma verified_request_Inr:
  "verified_request verify req body = Inr auth \<longleftrightarrow>
   (\<exists>a v. header_one (rr_headers req) ''authorization'' = Some a \<and> a \<noteq> [] \<and> verify (Some a) = Inr v
     \<and> auth = \<lparr>au_verification = Some v, au_body = body, au_publicMethod = None\<rparr>)"
  by (auto simp: verified_request_def has_authorization_def split: option.splits sum.splits)

lemma authorize_Inr:
  assumes "authorize_request parse verify opts req path = Inr auth"
  shows "au_verification auth = None \<and> public_request parse opts req path \<or>
    (\<exists>a v. header_one (rr_headers req) ''authorization'' = Some a \<and> a \<noteq> [] \<and> verify (Some a) = Inr v \<and> au_verification auth = Some v)"
    and "au_body auth = Some b \<Longrightarrow> read_request_body req = Inr b"
  using assms
  by (auto simp: authorize_request_def public_request_def ebind_eq_Inr verified_request_Inr split: if_splits option.splits)

section \<open>The URL and the headers of a call\<close>

lemma ends_with_butlast: "ends_with [c] s \<Longrightarrow> s = butlast s @ [c]"
  by (cases s rule: rev_cases) (auto simp: ends_with_def starts_with_def)

lemma join_path_prefix: "\<exists>base rest. join_path b p = base @ CHR ''/'' # rest \<and> (b = base \<or> b = base @ ''/'')"
proof -
  obtain rest where "(if starts_with ''/'' p then p else ''/'' @ p) = CHR ''/'' # rest"
    by (cases "starts_with ''/'' p") (auto simp: starts_with_iff)
  then have "join_path b p = (if b = ''/'' then [] else if ends_with ''/'' b then butlast b else b) @ CHR ''/'' # rest"
    by (simp add: join_path_def Let_def)
  moreover have "b = (if b = ''/'' then [] else if ends_with ''/'' b then butlast b else b)
      \<or> b = (if b = ''/'' then [] else if ends_with ''/'' b then butlast b else b) @ ''/''"
    using ends_with_butlast [of "CHR ''/''" b] by (simp split: if_split)
  ultimately show ?thesis by blast
qed

text \<open>An address below the target: same scheme, host and base path.\<close>

definition below_target :: "url \<Rightarrow> url \<Rightarrow> bool" where
  "below_target target u \<longleftrightarrow> url_protocol u = url_protocol target \<and> url_host u = url_host target
     \<and> url_username u = url_username target \<and> url_password u = url_password target
     \<and> (\<exists>base rest. url_pathname u = base @ CHR ''/'' # rest \<and> (url_pathname target = base \<or> url_pathname target = base @ ''/''))"

lemma build_upstream_below: "below_target target (build_upstream_url target u)"
  using join_path_prefix [of "url_pathname target" "url_pathname u"] by (simp add: below_target_def build_upstream_url_def)

text \<open>
  \<^const>\<open>build_upstream_url\<close> writes the path into the record. The program assigns it, which resolves dot
  segments; a joined path has none, as both parts come from parsed URLs.
\<close>

lemma settled_join:
  assumes "settled_path b" "settled_path p"
  shows "settled_path (join_path b p)"
proof -
  from assms obtain x y where b: "b = CHR ''/'' # x" "list_all settled_segment (split_char CHR ''/'' x)"
    and p: "p = CHR ''/'' # y" "list_all settled_segment (split_char CHR ''/'' y)"
    by (auto simp: settled_path_def starts_with_iff)
  have plain: "list_all settled_segment (split_char CHR ''/'' (z @ p)) \<longleftrightarrow> list_all settled_segment (split_char CHR ''/'' z)" for z
    using p by (simp add: split_char_append)
  show ?thesis
  proof (cases "ends_with ''/'' b")
    case True
    then have "b = butlast b @ ''/''" by (cases b rule: rev_cases) (auto simp: ends_with_def starts_with_def)
    then obtain z where "b = ''/'' \<or> b = CHR ''/'' # z @ ''/''" using b(1) by (metis append_Cons butlast.simps(2) append_Nil)
    with b p plain [of z] split_char_append [of "CHR ''/''" z "[]"] True show ?thesis
      by (auto simp: join_path_def settled_path_def starts_with_def Let_def)
  qed (use b p plain [of x] in \<open>auto simp: join_path_def settled_path_def starts_with_def ends_with_def Let_def\<close>)
qed

lemma build_upstream_url_assigns:
  "settled_path (url_pathname target) \<Longrightarrow> settled_path (url_pathname u) \<Longrightarrow>
   build_upstream_url target u = (set_pathname (join_path (url_pathname target) (url_pathname u)) target)\<lparr>url_search := url_search u\<rparr>"
  by (simp add: build_upstream_url_def set_pathname_def settled_join)

lemma translate_Inr:
  "translate_http_tool w opts target u body0 = Inr (body, upstreamUrl) \<Longrightarrow> \<exists>v. upstreamUrl = build_upstream_url target v"
  by (auto simp: translate_http_tool_def split: option.splits)

lemma if_eq_Inr: "(if b then x else y) = Inr z \<longleftrightarrow> b \<and> x = Inr z \<or> \<not> b \<and> y = Inr z"
  by simp

lemma enforce_Inr:
  "enforce_tool_scopes w opts target req u auth scope ts = Inr pr \<longleftrightarrow>
   (\<exists>body0 body upstreamUrl. buffered (au_body auth) req = Inr body0
     \<and> translate_http_tool w opts target u body0 = Inr (body, upstreamUrl)
     \<and> (public_mcp_method (pw_parse w) body \<noteq> None
          \<and> pr = \<lparr>pr_body = Some body, pr_url = upstreamUrl, pr_scope = scope, pr_toolCall = None\<rparr>
        \<or> public_mcp_method (pw_parse w) body = None \<and> (\<exists>message tool configured.
            parse_tool_call (pw_parse w) body = Inr (message, tool) \<and> check_tool_scope ts scope tool = Inr configured
            \<and> pr = \<lparr>pr_body = Some body, pr_url = upstreamUrl, pr_scope = Some configured, pr_toolCall = Some (message, tool)\<rparr>)))"
  by (simp only: enforce_tool_scopes_def ebind_eq_Inr split_paired_Ex prod.case if_eq_Inr not_not sum.inject) blast

lemma prepare_url: "prepare_call w opts target req u auth = Inr pr \<Longrightarrow> below_target target (pr_url pr)"
  by (auto simp: prepare_call_def ebind_eq_Inr enforce_Inr Let_def build_upstream_below
      dest!: translate_Inr split: option.splits if_splits)

lemma call_of_prepared:
  "plain_call w req pr s h c \<or> file_call w req auth i pr s h c m inp p \<Longrightarrow> \<exists>b. c = upstream_call_for req (pr_url pr) b"
  by (auto simp: plain_call_def file_call_def)

lemma forwarded_header_of:
  "map_of (runtime_forwarded_headers hs u b) n =
   (if n = ''content-length'' \<and> b \<noteq> None then Some (One_Value (nat_text (length (the b))))
    else if n = ''host'' then Some (One_Value (url_host u))
    else map_of (filter (\<lambda>(name, v). \<not> dropped_request_header (b \<noteq> None) name) hs) n)"
  by (auto simp: runtime_forwarded_headers_def Let_def update_conv' split: option.splits)

lemma forwarded_header_names:
  "(n, v) \<in> set (runtime_forwarded_headers hs u b) \<Longrightarrow> n = ''host'' \<or> n = ''content-length'' \<or>
     ((n, v) \<in> set hs \<and> \<not> dropped_request_header (b \<noteq> None) n)"
proof -
  have upd: "(n, v) \<in> set (AList.update k x xs) \<Longrightarrow> n = k \<or> (n, v) \<in> set xs" for k x and xs :: in_headers
    by (induction xs) (auto split: if_splits)
  assume "(n, v) \<in> set (runtime_forwarded_headers hs u b)"
  then show ?thesis
    by (auto simp: runtime_forwarded_headers_def Let_def dest!: upd split: option.splits)
qed

section \<open>Tool calls\<close>

lemma parse_tool_Inr:
  "parse_tool_call parse body = Inr (m, t) \<Longrightarrow> parse body = Some (JObj m) \<and> map_of m ''method'' = Some (JStr ''tools/call'')
     \<and> (\<exists>ps. map_of m ''params'' = Some (JObj ps) \<and> map_of ps ''name'' = Some (JStr t) \<and> trim t \<noteq> [])"
  by (auto simp: parse_tool_call_def split: option.splits if_splits)

lemma tool_call_is_not_public:
  "parse_tool_call parse body = Inr mt \<Longrightarrow> public_mcp_method parse body = None"
  by (cases mt) (auto dest!: parse_tool_Inr simp: public_mcp_method_def runtime_public_methods_def)

lemma normalized_Inr:
  "normalized_scopes v = Inr ss \<longleftrightarrow> ss = canonical (words v) \<and> ss \<noteq> [] \<and> list_all is_role_scope ss"
  by (auto simp: normalized_scopes_def Let_def proxy_denied_def)

lemma check_tool_scope_Inr:
  "check_tool_scope ts s tool = Inr scope \<Longrightarrow> map_of ts tool = Some scope \<and> scope \<noteq> []
     \<and> (\<forall>asked. s = Some asked \<longrightarrow> set (words asked) = set (words scope))"
proof -
  assume a: "check_tool_scope ts s tool = Inr scope"
  then have m: "map_of ts tool = Some scope \<and> scope \<noteq> []"
    by (auto simp: check_tool_scope_def Let_def ebind_eq_Inr split: option.splits if_splits)
  have "set (words asked) = set (words scope)" if "s = Some asked" for asked
  proof -
    from a m that obtain x y where "normalized_scopes asked = Inr x" "normalized_scopes scope = Inr y" "join '' '' x = join '' '' y"
      by (auto simp: check_tool_scope_def Let_def ebind_eq_Inr split: if_splits)
    then have x: "list_all is_role_scope x" "x = canonical (words asked)"
      and y: "list_all is_role_scope y" "y = canonical (words scope)" and j: "join '' '' x = join '' '' y"
      unfolding normalized_Inr by blast+
    from words_of_scopes [OF x(1)] words_of_scopes [OF y(1)] j have "x = y" by metis
    with x(2) y(2) show ?thesis by (metis set_canonical)
  qed
  with m show ?thesis by blast
qed

lemma granted_Inr:
  "assert_granted_downstream_scopes scope (Some v) = Inr u \<Longrightarrow> set (words scope) \<subseteq> set (vt_scopes v)"
  by (auto simp: assert_granted_downstream_scopes_def Let_def ebind_eq_Inr normalized_Inr filter_empty_conv split: if_splits)

lemma publication_Inr:
  assumes "publication_request w req auth i pr scope = Inr (message, input)"
  shows "\<exists>v a body. au_verification auth = Some v \<and> header_one (rr_headers req) ''authorization'' = Some a
     \<and> set (words scope) \<subseteq> set (vt_scopes v)
     \<and> buffered (pr_body pr) req = Inr body
     \<and> input = \<lparr>pi_requestId = i, pi_scope = scope, pi_sourceToken = drop 7 a, pi_toolName = pi_toolName input\<rparr>
     \<and> (pr_toolCall pr = Some (message, pi_toolName input) \<or>
        pr_toolCall pr = None \<and> parse_tool_call (pw_parse w) body = Inr (message, pi_toolName input))"
proof -
  from assms obtain v where v: "au_verification auth = Some v"
    by (cases "au_verification auth") (auto simp: publication_request_def)
  from assms v obtain body tool src u where
    b: "buffered (pr_body pr) req = Inr body"
    and t: "(case pr_toolCall pr of Some c \<Rightarrow> Inr c | None \<Rightarrow> parse_tool_call (pw_parse w) body) = Inr (message, tool)"
    and g: "assert_granted_downstream_scopes scope (Some v) = Inr u"
    and s: "verified_bearer_token (header_one (rr_headers req) ''authorization'') = Inr src"
    and i: "input = \<lparr>pi_requestId = i, pi_scope = scope, pi_sourceToken = src, pi_toolName = tool\<rparr>"
    by (auto simp: publication_request_def ebind_eq_Inr)
  from s obtain a where "header_one (rr_headers req) ''authorization'' = Some a" "src = drop 7 a"
    by (auto simp: verified_bearer_token_def Let_def to_lower_def split: if_splits option.splits)
  with v b t granted_Inr [OF g] i show ?thesis by (auto split: option.splits)
qed

section \<open>The publisher's contract\<close>

text \<open>
  What the proxy relies on, for a request whose files are new: \<open>left\<close> says what the request may
  leave in the publisher's state, whether its publication fails or is removed, and \<open>held\<close> what a
  published file is.
\<close>

locale token_publisher =
  fixes w :: "'s proxy_world"
    and fresh :: "string \<Rightarrow> 's \<Rightarrow> bool"
    and held :: "publish_input \<Rightarrow> string \<Rightarrow> 's \<Rightarrow> 's \<Rightarrow> bool"
    and left :: "string \<Rightarrow> 's \<Rightarrow> 's \<Rightarrow> bool"
  assumes left_refl: "left i s s"
    and publish_failed: "fresh (pi_requestId input) s \<Longrightarrow> pw_publish w input s = (Inl e, s') \<Longrightarrow> left (pi_requestId input) s s'"
    and publish_removed: "fresh (pi_requestId input) s \<Longrightarrow> pw_publish w input s = (Inr path, s') \<Longrightarrow>
      left (pi_requestId input) s (pw_remove w path s')"
    and publish_held: "fresh (pi_requestId input) s \<Longrightarrow> pw_publish w input s = (Inr path, s') \<Longrightarrow> held input path s s'"
begin

lemma publish_and_forward_leaves:
  "fresh (pi_requestId input) s \<Longrightarrow> left (pi_requestId input) s (hd_after (publish_and_forward w req u message input s))"
  by (auto simp: publish_and_forward_def Let_def split: prod.splits sum.splits
      dest: publish_failed publish_removed)

lemma forward_leaves:
  assumes "fresh i s"
  shows "left i s (hd_after (forward_call w opts target req u i auth s))"
proof (cases "prepare_call w opts target req u auth")
  case (Inr pr)
  show ?thesis
  proof (cases "pr_scope pr")
    case (Some scope)
    show ?thesis
    proof (cases "publication_request w req auth i pr scope")
      case pub: (Inr mi)
      obtain message input where "mi = (message, input)" by fastforce
      with pub publication_Inr [of w req auth i pr scope message input] have i: "pi_requestId input = i"
        by (metis publish_input.select_convs(1))
      with publish_and_forward_leaves [of input s req "pr_url pr" message] Inr Some pub assms \<open>mi = (message, input)\<close>
      show ?thesis by (simp add: forward_call_def)
    qed (simp add: forward_call_def Inr Some left_refl)
  qed (simp add: forward_call_def Inr Let_def left_refl)
qed (simp add: forward_call_def left_refl)

lemma handled_leaves: "fresh i s \<Longrightarrow> left i s (hd_after (handle_request w opts target ready req i s))"
  by (simp add: handle_request_def forward_leaves left_refl split: option.splits sum.splits)

lemma file_call_holds:
  assumes "fresh i s" "file_call w req auth i pr s h c message input path"
  shows "pi_requestId input = i \<and> held input path s (hd_during h)"
proof -
  from assms(2) obtain scope where p: "publication_request w req auth i pr scope = Inr (message, input)"
    "pw_publish w input s = (Inr path, hd_during h)"
    unfolding file_call_def by blast
  from publication_Inr [OF p(1)] have "pi_requestId input = i" by (metis publish_input.select_convs(1))
  with publish_held [OF _ p(2)] assms(1) show ?thesis by simp
qed

end

text \<open>The file publisher keeps the contract, as long as the request's own files do not exist yet.\<close>

definition file_world ::
  "exchange_config \<Rightarrow> exchange_world \<Rightarrow> int \<Rightarrow> io_faults \<Rightarrow> string \<Rightarrow> file_system proxy_world \<Rightarrow> file_system proxy_world" where
  "file_world cfg x now io uuid base = base\<lparr>pw_publish := publish cfg x now io uuid, pw_remove := remove_publication io\<rparr>"

text \<open>A file of the request: where a publication for it, of any tool, puts its token.\<close>

definition request_file :: "exchange_config \<Rightarrow> string \<Rightarrow> string \<Rightarrow> string \<Rightarrow> bool" where
  "request_file cfg uuid requestId p \<longleftrightarrow>
     (\<exists>input plan. pi_requestId input = requestId \<and> plan_publication cfg input = Inr plan
       \<and> p \<in> {pp_filePath plan, pp_filePath plan @ ''.'' @ uuid @ ''.tmp''})"

definition no_token_file :: "exchange_config \<Rightarrow> string \<Rightarrow> string \<Rightarrow> file_system \<Rightarrow> bool" where
  "no_token_file cfg uuid requestId fs \<longleftrightarrow> (\<forall>p. request_file cfg uuid requestId p \<longrightarrow> map_of (fs_files fs) p = None)"

text \<open>What a request may leave: new directories of tools, and files of its own where removing one fails.\<close>

definition request_leaves :: "exchange_config \<Rightarrow> io_faults \<Rightarrow> string \<Rightarrow> string \<Rightarrow> file_system \<Rightarrow> file_system \<Rightarrow> bool" where
  "request_leaves cfg io uuid requestId fs fs' \<longleftrightarrow>
     (\<not> if_rm io \<and> \<not> if_remove io \<longrightarrow> fs_files fs' = fs_files fs) \<and>
     (\<forall>p. map_of (fs_files fs') p \<noteq> map_of (fs_files fs) p \<longrightarrow> request_file cfg uuid requestId p) \<and>
     (fs_directories fs' = fs_directories fs \<or>
      (\<exists>input plan. pi_requestId input = requestId \<and> plan_publication cfg input = Inr plan \<and> grew_to (pp_directory plan) fs fs'))"

definition token_file_held ::
  "exchange_config \<Rightarrow> exchange_world \<Rightarrow> int \<Rightarrow> publish_input \<Rightarrow> string \<Rightarrow> file_system \<Rightarrow> file_system \<Rightarrow> bool" where
  "token_file_held cfg x now input path fs fs' \<longleftrightarrow>
     (\<exists>token scopes audience. fs_files fs' = AList.update path (token @ [CHR 0x0A]) (fs_files fs)
       \<and> issued_for cfg x now (pi_sourceToken input) scopes audience token \<and> set scopes = set (words (pi_scope input)))"

lemma request_leaves_refl: "request_leaves cfg io uuid i fs fs"
  by (simp add: request_leaves_def)

lemma fresh_publish_failed:
  assumes "no_token_file cfg uuid (pi_requestId input) fs" "publish cfg x now io uuid input fs = (Inl e, fs')"
  shows "request_leaves cfg io uuid (pi_requestId input) fs fs'"
proof (cases "fs' = fs")
  case False
  with assms(2) obtain plan token where plan: "plan_publication cfg input = Inr plan"
    and st: "store_token_file io (pp_directory plan) (pp_filePath plan @ ''.'' @ uuid @ ''.tmp'') (pp_filePath plan) token fs = (Inl e, fs')"
    by (auto simp: publish_def split: sum.splits prod.splits)
  have own: "request_file cfg uuid (pi_requestId input) (pp_filePath plan @ ''.'' @ uuid @ ''.tmp'')"
    using plan by (auto simp: request_file_def)
  with assms(1) have "map_of (fs_files fs) (pp_filePath plan @ ''.'' @ uuid @ ''.tmp'') = None"
    by (simp add: no_token_file_def)
  with store_failed [OF st] own plan show ?thesis
    unfolding request_leaves_def by (intro conjI) (metis, metis, metis)
qed (simp add: request_leaves_refl)

lemma fresh_publish_ok:
  assumes "no_token_file cfg uuid (pi_requestId input) fs" "publish cfg x now io uuid input fs = (Inr path, fs')"
  shows "request_leaves cfg io uuid (pi_requestId input) fs (remove_publication io path fs')"
    and "token_file_held cfg x now input path fs fs'"
proof -
  from assms(2) obtain plan token where plan: "plan_publication cfg input = Inr plan" "path = pp_filePath plan"
    and t: "exchange_access_token cfg x now (pi_sourceToken input) (join '' '' (pp_scopes plan)) (pp_audience plan) = Inr token"
    and st: "store_token_file io (pp_directory plan) (path @ ''.'' @ uuid @ ''.tmp'') path token fs = (Inr (), fs')" by (rule publish_Inr)
  have own: "request_file cfg uuid (pi_requestId input) path" "request_file cfg uuid (pi_requestId input) (path @ ''.'' @ uuid @ ''.tmp'')"
    using plan by (auto simp: request_file_def)
  with assms(1) have absent: "map_of (fs_files fs) path = None" "map_of (fs_files fs) (path @ ''.'' @ uuid @ ''.tmp'') = None"
    by (auto simp: no_token_file_def)
  with store_ok(1) [OF st] have fs': "fs_files fs' = AList.update path (token @ [CHR 0x0A]) (fs_files fs)" by (simp add: update_same_delete)
  have "grew_to (pp_directory plan) fs (remove_publication io path fs')"
    using store_ok(3) [OF st] by (auto simp: grew_to_def remove_publication_def)
  moreover have "map_of (fs_files (remove_publication io path fs')) p \<noteq> map_of (fs_files fs) p \<Longrightarrow> p = path" for p
    using fs' by (auto simp: remove_publication_def update_conv' delete_conv' split: if_splits)
  moreover have "\<not> if_remove io \<Longrightarrow> fs_files (remove_publication io path fs') = fs_files fs"
    using fs' absent by (simp add: remove_publication_def update_same_delete)
  ultimately show "request_leaves cfg io uuid (pi_requestId input) fs (remove_publication io path fs')"
    using plan own(1) unfolding request_leaves_def by blast
  from plan_scopes(1) [OF plan(1)] have sc: "validated_scopes (pi_scope input) = Inr (pp_scopes plan)" .
  then have "set (pp_scopes plan) = set (words (pi_scope input))" unfolding validated_scopes_Inr by (metis set_canonical)
  with fs' exchange_issued [OF t sc] show "token_file_held cfg x now input path fs fs'"
    unfolding token_file_held_def by blast
qed

interpretation files: token_publisher "file_world cfg x now io uuid base" "no_token_file cfg uuid" "token_file_held cfg x now"
    "request_leaves cfg io uuid"
  for cfg x now io uuid base
  by unfold_locales (auto simp: file_world_def request_leaves_refl intro: fresh_publish_failed fresh_publish_ok)

section \<open>The properties\<close>

text \<open>
  C13: the proxy calls the MCP server only for a request that is public (the OpenAPI document and
  preflights where they are enabled, or one of the four discovery methods in a body of at most 64 KiB
  on the MCP path) or whose Authorization header the verifier accepted.
\<close>

theorem upstream_calls_are_authorized:
  assumes "hd_call (handle_request w opts target ready req requestId s) = Some c"
  shows "\<exists>u. rr_url req = Some u \<and> url_pathname u \<notin> {''/healthz'', ''/readyz''} \<and>
    (public_request (pw_parse w) opts req (url_pathname u) \<or>
     (\<exists>a v. header_one (rr_headers req) ''authorization'' = Some a \<and> pw_verify w (Some a) = Inr v))"
proof -
  from assms have path: "\<And>u. rr_url req = Some u \<Longrightarrow> url_pathname u \<notin> {''/healthz'', ''/readyz''}"
    by (auto simp: handle_request_def)
  from assms obtain u auth where u: "rr_url req = Some u"
    and a: "authorize_request (pw_parse w) (pw_verify w) opts req (url_pathname u) = Inr auth" by (rule handled_call)
  from authorize_Inr(1) [OF a] u path [OF u] show ?thesis by blast
qed

text \<open>What is forwarded where the scopes of the tools are enforced: a discovery message or a tool's call.\<close>

lemma enforced_request:
  assumes "prepare_call w opts target req u auth = Inr pr" "authorize_request (pw_parse w) (pw_verify w) opts req (url_pathname u) = Inr auth"
    "au_verification auth \<noteq> None" "po_toolScopes opts = Some toolScopes" "rr_method req = ''POST''"
    "url_pathname u = mcp_path opts \<or> starts_with ''/tools/'' (url_pathname u)"
  obtains (discovery) body where "public_mcp_method (pw_parse w) body \<noteq> None" "pr_body pr = Some body" "pr_toolCall pr = None"
    | (tool) given body message name configured where "public_mcp_method (pw_parse w) body = None" "pr_body pr = Some body"
        "parse_tool_call (pw_parse w) body = Inr (message, name)" "check_tool_scope toolScopes given name = Inr configured"
        "pr_scope pr = Some configured" "pr_toolCall pr = Some (message, name)"
        "http_tool_name u = None \<longrightarrow> body = concat (rr_chunks req)"
        "\<forall>n. http_tool_name u = Some n \<longrightarrow> (\<exists>args. pw_parse w (concat (rr_chunks req)) = Some (JObj args)
          \<and> body = pw_stringify w (http_tool_message n args))"
proof -
  from assms(6) have "url_pathname u = mcp_path opts \<or> http_tool_name u \<noteq> None" by (auto simp: http_tool_name_def)
  with assms(1,3-5) obtain given where "enforce_tool_scopes w opts target req u auth given toolScopes = Inr pr"
    by (auto simp: prepare_call_def ebind_eq_Inr split: if_splits)
  then obtain body0 body upstreamUrl where b0: "buffered (au_body auth) req = Inr body0"
    and tr: "translate_http_tool w opts target u body0 = Inr (body, upstreamUrl)" and
    e: "public_mcp_method (pw_parse w) body \<noteq> None
        \<and> pr = \<lparr>pr_body = Some body, pr_url = upstreamUrl, pr_scope = given, pr_toolCall = None\<rparr>
      \<or> public_mcp_method (pw_parse w) body = None \<and> (\<exists>message name configured.
          parse_tool_call (pw_parse w) body = Inr (message, name) \<and> check_tool_scope toolScopes given name = Inr configured
          \<and> pr = \<lparr>pr_body = Some body, pr_url = upstreamUrl, pr_scope = Some configured, pr_toolCall = Some (message, name)\<rparr>)"
    unfolding enforce_Inr by blast
  from b0 authorize_Inr(2) [OF assms(2)] have "body0 = concat (rr_chunks req)"
    by (auto simp: buffered_def read_body_Inr split: option.splits)
  with tr have "http_tool_name u = None \<longrightarrow> body = concat (rr_chunks req)"
    "\<forall>n. http_tool_name u = Some n \<longrightarrow> (\<exists>args. pw_parse w (concat (rr_chunks req)) = Some (JObj args)
       \<and> body = pw_stringify w (http_tool_message n args))"
    by (auto simp: translate_http_tool_def split: option.splits)
  with e that show thesis by fastforce
qed

text \<open>The tool that a JSON-RPC message calls.\<close>

definition named_tool :: "json \<Rightarrow> string option" where
  "named_tool v = (case as_record (Some v) of
     None \<Rightarrow> None
   | Some m \<Rightarrow> (case as_record (map_of m ''params'') of None \<Rightarrow> None | Some ps \<Rightarrow> as_string (map_of ps ''name'')))"

lemma named_tool_with_file:
  "named_tool (JObj m) = Some t \<Longrightarrow> with_access_token_file m path = Inr json \<Longrightarrow> named_tool json = Some t"
  by (auto simp: named_tool_def with_access_token_file_def Let_def update_conv' split: option.splits)

lemma named_tool_http: "named_tool (http_tool_message n args) = Some n"
  by (simp add: named_tool_def http_tool_message_def)

text \<open>Without a scope there was none in the header, and none to be enforced.\<close>

lemma plain_call_unscoped:
  assumes "prepare_call w opts target req u auth = Inr pr" "plain_call w req pr s h c"
    and au: "authorize_request (pw_parse w) (pw_verify w) opts req (url_pathname u) = Inr auth"
  shows "map_of (rr_headers req) downstream_scope_header_name = None \<and>
    (po_toolScopes opts = None \<or> rr_method req \<noteq> ''POST'' \<or>
     url_pathname u \<noteq> mcp_path opts \<and> \<not> starts_with ''/tools/'' (url_pathname u) \<or>
     public_request (pw_parse w) opts req (url_pathname u) \<or> public_mcp_method (pw_parse w) (uc_body c) \<noteq> None)"
proof -
  from assms(2) have none: "pr_scope pr = None" and c: "c = upstream_call_for req (pr_url pr) (pr_body pr)"
    by (simp_all add: plain_call_def)
  from assms(1) none have "downstream_scope_of (rr_headers req) = Inr None"
    by (auto simp: prepare_call_def ebind_eq_Inr enforce_Inr Let_def split: option.splits if_splits)
  then have "map_of (rr_headers req) downstream_scope_header_name = None"
    by (auto simp: downstream_scope_of_def ebind_eq_Inr split: option.splits header_value.splits if_splits)
  moreover have "public_mcp_method (pw_parse w) (uc_body c) \<noteq> None"
    if "au_verification auth \<noteq> None" "po_toolScopes opts = Some toolScopes" "rr_method req = ''POST''"
      "url_pathname u = mcp_path opts \<or> starts_with ''/tools/'' (url_pathname u)" for toolScopes
    using assms(1) au that none
    by (cases rule: enforced_request) (auto simp: c upstream_call_for_def)
  ultimately show ?thesis
    using authorize_Inr(1) [OF au] by (cases "au_verification auth = None"; cases "po_toolScopes opts") auto
qed

text \<open>
  C14: when the scopes of the tools are configured, a POST on the MCP path or below \<^verbatim>\<open>/tools/\<close> that
  the proxy forwards is public, or its body is a discovery message, or it calls a configured tool:
  the tool that the client's message names (for \<^verbatim>\<open>/tools/{name}\<close>, the one that the path names) and that
  the forwarded message names is the one whose configured scopes count. The verified token grants every
  scope configured for that tool, a token for exactly these scopes and this tool has been published for
  this request, and the body that is forwarded is the call with nothing added but the name of the token
  file.
\<close>

theorem tool_calls_carry_their_scope:
  assumes "hd_call (handle_request w opts target ready req requestId s) = Some c"
    and "po_toolScopes opts = Some toolScopes" and "rr_url req = Some u" and "rr_method req = ''POST''"
    and "url_pathname u = mcp_path opts \<or> starts_with ''/tools/'' (url_pathname u)"
  shows "public_request (pw_parse w) opts req (url_pathname u) \<or>
    public_mcp_method (pw_parse w) (uc_body c) \<noteq> None \<or>
    (\<exists>a v tool scope message path json. header_one (rr_headers req) ''authorization'' = Some a \<and> pw_verify w (Some a) = Inr v
       \<and> map_of message ''method'' = Some (JStr ''tools/call'')
       \<and> (http_tool_name u = None \<longrightarrow> pw_parse w (concat (rr_chunks req)) = Some (JObj message))
       \<and> named_tool (JObj message) = Some tool \<and> named_tool json = Some tool
       \<and> (\<forall>name args. http_tool_name u = Some name \<longrightarrow> pw_parse w (concat (rr_chunks req)) = Some (JObj args) \<longrightarrow>
             pw_parse w (pw_stringify w (http_tool_message name args)) = Some (http_tool_message name args) \<longrightarrow> tool = name)
       \<and> map_of toolScopes tool = Some scope \<and> set (words scope) \<subseteq> set (vt_scopes v)
       \<and> pw_publish w \<lparr>pi_requestId = requestId, pi_scope = scope, pi_sourceToken = drop 7 a, pi_toolName = tool\<rparr> s
           = (Inr path, hd_during (handle_request w opts target ready req requestId s))
       \<and> with_access_token_file message path = Inr json \<and> uc_body c = pw_stringify w json)"
proof -
  from assms(1) obtain u' auth where u': "rr_url req = Some u'"
    and au: "authorize_request (pw_parse w) (pw_verify w) opts req (url_pathname u') = Inr auth"
    and h: "handle_request w opts target ready req requestId s = forward_call w opts target req u' requestId auth s"
    and fc: "hd_call (forward_call w opts target req u' requestId auth s) = Some c" by (rule handled_call)
  from u' assms(3) have [simp]: "u' = u" by simp
  let ?h = "forward_call w opts target req u requestId auth s"
  show ?thesis
  proof (cases "au_verification auth")
    case None
    with authorize_Inr(1) [OF au] show ?thesis by simp
  next
    case (Some v)
    with authorize_Inr(1) [OF au] obtain a where a: "header_one (rr_headers req) ''authorization'' = Some a" "pw_verify w (Some a) = Inr v"
      by auto
    from fc obtain pr where pr: "prepare_call w opts target req u auth = Inr pr"
      and call: "plain_call w req pr s ?h c \<or> (\<exists>message input path. file_call w req auth requestId pr s ?h c message input path)"
      unfolding \<open>u' = u\<close> by (rule forwarded_call)
    from Some have "au_verification auth \<noteq> None" by simp
    from pr au [unfolded \<open>u' = u\<close>] this assms(2,4,5) show ?thesis
    proof (cases rule: enforced_request)
      case (discovery body)
      then have "\<not> file_call w req auth requestId pr s ?h c message input path" for message input path
        by (auto simp: file_call_def buffered_def dest!: publication_Inr dest: tool_call_is_not_public)
      with call discovery show ?thesis by (auto simp: plain_call_def upstream_call_for_def)
    next
      case (tool given body message name configured)
      with call obtain m input path json where f:
        "publication_request w req auth requestId pr configured = Inr (m, input)"
        "pw_publish w input s = (Inr path, hd_during ?h)" "with_access_token_file m path = Inr json"
        "c = upstream_call_for req (pr_url pr) (Some (pw_stringify w json))"
        by (auto simp: plain_call_def file_call_def)
      note pub = publication_Inr [OF f(1)]
      from pub tool(6) a Some have i: "m = message"
        "input = \<lparr>pi_requestId = requestId, pi_scope = configured, pi_sourceToken = drop 7 a, pi_toolName = name\<rparr>"
        "set (words configured) \<subseteq> set (vt_scopes v)" by auto
      from f(4) have sent: "uc_body c = pw_stringify w json" by (simp add: upstream_call_for_def)
      from parse_tool_Inr [OF tool(3)] tool(7) have m: "map_of message ''method'' = Some (JStr ''tools/call'')"
        "http_tool_name u = None \<longrightarrow> pw_parse w (concat (rr_chunks req)) = Some (JObj message)" by auto
      from parse_tool_Inr [OF tool(3)] have named: "named_tool (JObj message) = Some name" "pw_parse w body = Some (JObj message)"
        by (auto simp: named_tool_def)
      with f(3) i(1) have named': "named_tool json = Some name" by (metis named_tool_with_file)
      have http: "name = n" if "http_tool_name u = Some n" "pw_parse w (concat (rr_chunks req)) = Some (JObj args)"
        "pw_parse w (pw_stringify w (http_tool_message n args)) = Some (http_tool_message n args)" for n args
      proof -
        from tool(8) that(1,2) have "body = pw_stringify w (http_tool_message n args)" by auto
        with that(3) named show ?thesis using named_tool_http [of n args] by simp
      qed
      from check_tool_scope_Inr [OF tool(4)] have "map_of toolScopes name = Some configured" by blast
      with m a i f(2,3) sent named(1) named' http show ?thesis
        unfolding h \<open>u' = u\<close>
        by (intro disjI2) (rule exI [of _ a], rule exI [of _ v], rule exI [of _ name], rule exI [of _ configured],
           rule exI [of _ message], rule exI [of _ path], rule exI [of _ json], simp)
    qed
  qed
qed

text \<open>
  C15: a token file lives for the call it is for. While the MCP server is being called, either
  the file system has exactly one file more, it holds a token that ZTS issued for this request and
  the message to the server names that file; or the file system is what it was, and the request
  carried no downstream scope and called no tool whose scope is enforced. However the request ends,
  refused, failed at the exchange or at the file system, failed upstream or answered, afterwards
  every file is what it was, except that the request's own files stay where removing them failed;
  and at most the directories leading to a tool's directory have been added.
\<close>

theorem token_file_lives_for_its_call:
  assumes "no_token_file cfg uuid requestId fs"
  shows "let w = file_world cfg x now io uuid base; h = handle_request w opts target ready req requestId fs in
    request_leaves cfg io uuid requestId fs (hd_after h) \<and>
    (\<forall>c. hd_call h = Some c \<longrightarrow>
      (\<exists>input message path json. pi_requestId input = requestId \<and> token_file_held cfg x now input path fs (hd_during h)
         \<and> with_access_token_file message path = Inr json \<and> uc_body c = pw_stringify w json)
      \<or> hd_during h = fs \<and> map_of (rr_headers req) downstream_scope_header_name = None \<and>
        (\<exists>u. rr_url req = Some u \<and>
          (po_toolScopes opts = None \<or> rr_method req \<noteq> ''POST'' \<or>
           url_pathname u \<noteq> mcp_path opts \<and> \<not> starts_with ''/tools/'' (url_pathname u) \<or>
           public_request (pw_parse w) opts req (url_pathname u) \<or> public_mcp_method (pw_parse w) (uc_body c) \<noteq> None)))"
proof -
  define w where "w = file_world cfg x now io uuid base"
  define h where "h = handle_request w opts target ready req requestId fs"
  have left: "request_leaves cfg io uuid requestId fs (hd_after h)"
    unfolding h_def w_def using assms by (rule files.handled_leaves)
  have call: "(\<exists>input message path json. pi_requestId input = requestId \<and> token_file_held cfg x now input path fs (hd_during h)
         \<and> with_access_token_file message path = Inr json \<and> uc_body c = pw_stringify w json)
      \<or> hd_during h = fs \<and> map_of (rr_headers req) downstream_scope_header_name = None \<and>
        (\<exists>u. rr_url req = Some u \<and>
          (po_toolScopes opts = None \<or> rr_method req \<noteq> ''POST'' \<or>
           url_pathname u \<noteq> mcp_path opts \<and> \<not> starts_with ''/tools/'' (url_pathname u) \<or>
           public_request (pw_parse w) opts req (url_pathname u) \<or> public_mcp_method (pw_parse w) (uc_body c) \<noteq> None))"
    if "hd_call h = Some c" for c
  proof -
    from that obtain u auth where u: "rr_url req = Some u"
      and au: "authorize_request (pw_parse w) (pw_verify w) opts req (url_pathname u) = Inr auth"
      and h: "h = forward_call w opts target req u requestId auth fs"
      and c: "hd_call (forward_call w opts target req u requestId auth fs) = Some c"
      unfolding h_def by (rule handled_call)
    from c obtain pr where pr: "prepare_call w opts target req u auth = Inr pr" and
      "plain_call w req pr fs h c \<or> (\<exists>message input path. file_call w req auth requestId pr fs h c message input path)"
      unfolding h by (rule forwarded_call)
    from this(2) show ?thesis
    proof (elim disjE exE)
      assume "plain_call w req pr fs h c"
      with plain_call_unscoped [OF pr this au] u show ?thesis by (simp add: plain_call_def)
    next
      fix message input path
      assume f: "file_call w req auth requestId pr fs h c message input path"
      from files.file_call_holds [OF assms f [unfolded w_def]]
      have "pi_requestId input = requestId" "token_file_held cfg x now input path fs (hd_during h)" by simp_all
      moreover from f obtain json where "with_access_token_file message path = Inr json" "uc_body c = pw_stringify w json"
        by (auto simp: file_call_def upstream_call_for_def)
      ultimately show ?thesis by blast
    qed
  qed
  from left call show ?thesis by (simp add: w_def [symmetric] h_def [symmetric] Let_def)
qed

text \<open>
  Whatever a client sends, the proxy calls only addresses with the scheme, host and base path of
  its target, and its call carries the target's Host header, no downstream-scope header and no
  hop-by-hop header.
\<close>

theorem calls_stay_at_the_target:
  assumes "hd_call (handle_request w opts target ready req requestId s) = Some c"
  shows "below_target target (uc_url c) \<and> map_of (uc_headers c) ''host'' = Some (One_Value (url_host target))
    \<and> (\<forall>(name, v) \<in> set (uc_headers c). to_lower name \<notin> set (downstream_scope_header_name # runtime_hop_by_hop))"
proof -
  from assms obtain u auth where "hd_call (forward_call w opts target req u requestId auth s) = Some c" by (rule handled_call)
  then obtain pr where pr: "prepare_call w opts target req u auth = Inr pr" and
    "plain_call w req pr s (forward_call w opts target req u requestId auth s) c \<or>
     (\<exists>message input path. file_call w req auth requestId pr s (forward_call w opts target req u requestId auth s) c message input path)"
    by (rule forwarded_call)
  then obtain b where c: "c = upstream_call_for req (pr_url pr) b" by (meson call_of_prepared)
  from prepare_url [OF pr] have below: "below_target target (pr_url pr)" .
  have "map_of (uc_headers c) ''host'' = Some (One_Value (url_host (pr_url pr)))"
    by (simp add: c upstream_call_for_def forwarded_header_of)
  moreover have "to_lower name \<notin> set (downstream_scope_header_name # runtime_hop_by_hop)" if "(name, v) \<in> set (uc_headers c)" for name v
  proof -
    have "to_lower ''host'' \<notin> set (downstream_scope_header_name # runtime_hop_by_hop)"
      "to_lower ''content-length'' \<notin> set (downstream_scope_header_name # runtime_hop_by_hop)"
      by code_simp+
    with forwarded_header_names [of name v "rr_headers req" "pr_url pr" b] that show ?thesis
      by (auto simp: c upstream_call_for_def dropped_request_header_def simp del: to_lower_def)
  qed
  ultimately show ?thesis using below by (auto simp: c upstream_call_for_def below_target_def)
qed

text \<open>
  C16: with the scopes of the tools configured, a verified \<^verbatim>\<open>tools/call\<close> of a tool that has none is
  refused on the MCP path; sent to the MCP path with a slash at its end, which the authorization
  takes for the MCP path too, the same request is forwarded as it is, without a token file.
\<close>

theorem trailing_slash_skips_the_tool_scopes:
  assumes "po_toolScopes opts = Some toolScopes" and "po_path opts = None" and "\<not> po_publicOpenApi opts"
    and "rr_method req = ''POST''" and "header_one (rr_headers req) ''authorization'' = Some a" and "a \<noteq> []"
    and "pw_verify w (Some a) = Inr v" and "map_of (rr_headers req) downstream_scope_header_name = None"
    and "read_request_body req = Inr body" and "parse_tool_call (pw_parse w) body = Inr (message, tool)"
    and "map_of toolScopes tool = None" and "url_pathname u = ''/mcp''"
  shows "hd_call (handle_request w opts target ready (req\<lparr>rr_url := Some u\<rparr>) requestId s) = None
    \<and> (\<exists>c. hd_call (handle_request w opts target ready (req\<lparr>rr_url := Some (u\<lparr>url_pathname := ''/mcp/''\<rparr>)\<rparr>) requestId s) = Some c
        \<and> uc_body c = body \<and> uc_method c = ''POST''
        \<and> hd_during (handle_request w opts target ready (req\<lparr>rr_url := Some (u\<lparr>url_pathname := ''/mcp/''\<rparr>)\<rparr>) requestId s) = s)"
proof -
  let ?u = "u\<lparr>url_pathname := ''/mcp/''\<rparr>"
  let ?auth = "\<lparr>au_verification = Some v, au_body = None, au_publicMethod = None\<rparr>"
  have authorized: "authorize_request (pw_parse w) (pw_verify w) opts (req\<lparr>rr_url := q\<rparr>) p = Inr ?auth" for q p
    using assms(3-7) by (simp add: authorize_request_def verified_request_def has_authorization_def)
  have handled: "handle_request w opts target ready (req\<lparr>rr_url := Some x\<rparr>) requestId s =
      forward_call w opts target (req\<lparr>rr_url := Some x\<rparr>) x requestId ?auth s"
    if "url_pathname x = ''/mcp'' \<or> url_pathname x = ''/mcp/''" for x
    using that by (auto simp: handle_request_def authorized)
  have body: "read_request_body (req\<lparr>rr_url := q\<rparr>) = Inr body" for q
    using assms(9) unfolding read_body_Inr by (elim conjE) simp
  have scope: "downstream_scope_of (rr_headers req) = Inr None"
    using assms(8) by (simp add: downstream_scope_of_def)
  have none: "http_tool_name u = None" "http_tool_name ?u = None"
    using assms(12) by (simp_all add: http_tool_name_def starts_with_def)
  have path: "mcp_path opts = ''/mcp''" using assms(2) by (simp add: mcp_path_def default_mcp_path_def)
  have "check_tool_scope toolScopes None tool = Inl (proxy_denied ''No downstream scope is configured for this tool.'')"
    using assms(11) by (simp add: check_tool_scope_def)
  then have "prepare_call w opts target (req\<lparr>rr_url := Some u\<rparr>) u ?auth = Inl (proxy_denied ''No downstream scope is configured for this tool.'')"
    using assms(1,4,10,12) tool_call_is_not_public [OF assms(10)]
    by (simp add: prepare_call_def scope path enforce_tool_scopes_def buffered_def body translate_http_tool_def none)
  then have "hd_call (forward_call w opts target (req\<lparr>rr_url := Some u\<rparr>) u requestId ?auth s) = None"
    by (simp add: forward_call_def)
  moreover have "prepare_call w opts target (req\<lparr>rr_url := Some ?u\<rparr>) ?u ?auth =
      Inr \<lparr>pr_body = None, pr_url = build_upstream_url target ?u, pr_scope = None, pr_toolCall = None\<rparr>"
    using assms(1) by (simp add: prepare_call_def scope path none)
  moreover from assms(9) have "body = concat (rr_chunks req)" by (simp add: read_body_Inr)
  ultimately show ?thesis
    using assms(4,12) by (simp add: handled forward_call_def Let_def upstream_call_for_def)
qed

section \<open>A request\<close>

definition sample_message :: fields where
  "sample_message = [(''method'', JStr ''tools/call''), (''params'', JObj [(''name'', JStr ''get'')])]"

definition sample_granted :: verified_token where
  "sample_granted = \<lparr>vt_audiences = [''api''], vt_clientId = None, vt_expiresAt = ''t'', vt_expiresInSeconds = 80,
     vt_keyId = ''k'', vt_scopes = [''api:role.docs''], vt_subject = None, vt_userId = None\<rparr>"

definition sample_base :: "file_system proxy_world" where
  "sample_base = \<lparr>pw_parse = (\<lambda>t. if t = ''B'' then Some (JObj sample_message) else None), pw_stringify = (\<lambda>j. ''J''),
     pw_verify = (\<lambda>a. Inr sample_granted), pw_publish = (\<lambda>i s. (Inr [], s)), pw_remove = (\<lambda>p s. s),
     pw_resolve = (\<lambda>p u. Some (u\<lparr>url_pathname := p\<rparr>)), pw_upstream = (\<lambda>c. Upstream_Answered (Some 200) [] ''R'')\<rparr>"

definition sample_world :: "file_system proxy_world" where
  "sample_world = file_world sample_exchange sample_zts 10 sample_io ''u'' sample_base"

definition sample_url :: "string \<Rightarrow> url" where
  "sample_url path = \<lparr>url_protocol = ''http:'', url_username = [], url_password = [], url_hostname = ''mcp'', url_host = ''mcp'',
     url_pathname = path, url_search = [], url_hash = []\<rparr>"

definition sample_options :: "(string \<times> string) list \<Rightarrow> proxy_options" where
  "sample_options ts = \<lparr>po_toolScopes = Some ts, po_publicOpenApi = False, po_path = None\<rparr>"

definition sample_request :: runtime_request where
  "sample_request = \<lparr>rr_method = ''POST'', rr_url = Some (sample_url ''/mcp''),
     rr_headers = [(''authorization'', One_Value ''Bearer src'')], rr_chunks = [''B'']\<rparr>"

lemma sample_world_fields [simp]:
  "pw_parse sample_world = (\<lambda>t. if t = ''B'' then Some (JObj sample_message) else None)"
  "pw_stringify sample_world = (\<lambda>j. ''J'')" "pw_verify sample_world = (\<lambda>a. Inr sample_granted)"
  "pw_publish sample_world = publish sample_exchange sample_zts 10 sample_io ''u''"
  by (simp_all add: sample_world_def file_world_def sample_base_def)

lemma sample_request_fields [simp]:
  "rr_method sample_request = ''POST''" "rr_url sample_request = Some (sample_url ''/mcp'')"
  "header_one (rr_headers sample_request) ''authorization'' = Some ''Bearer src''"
  "map_of (rr_headers sample_request) downstream_scope_header_name = None"
  "read_request_body sample_request = Inr ''B''" "has_authorization sample_request"
  by (simp_all add: sample_request_def header_one_def downstream_scope_header_name_def read_request_body_def
      max_buffered_request_bytes_def has_authorization_def)

lemma sample_call_parsed: "parse_tool_call (pw_parse sample_world) ''B'' = Inr (sample_message, ''get'')"
  by (simp add: parse_tool_call_def sample_message_def trim_def is_ws_def)

lemma sample_option_fields [simp]:
  "po_toolScopes (sample_options ts) = Some ts" "\<not> po_publicOpenApi (sample_options ts)" "po_path (sample_options ts) = None"
  "mcp_path (sample_options ts) = ''/mcp''" "url_pathname (sample_url p) = p"
  by (simp_all add: sample_options_def mcp_path_def default_mcp_path_def sample_url_def)

lemma sample_authorized:
  "authorize_request (pw_parse sample_world) (pw_verify sample_world) (sample_options ts) sample_request ''/mcp'' =
   Inr \<lparr>au_verification = Some sample_granted, au_body = None, au_publicMethod = None\<rparr>"
  by (simp add: authorize_request_def verified_request_def)

lemma sample_normalized: "normalized_scopes ''api:role.docs'' = Inr [''api:role.docs'']"
  by code_simp

lemma sample_prepared:
  "prepare_call sample_world (sample_options [(''get'', ''api:role.docs'')]) (sample_url ''/'') sample_request (sample_url ''/mcp'')
     \<lparr>au_verification = Some sample_granted, au_body = None, au_publicMethod = None\<rparr> =
   Inr \<lparr>pr_body = Some ''B'', pr_url = build_upstream_url (sample_url ''/'') (sample_url ''/mcp''), pr_scope = Some ''api:role.docs'',
        pr_toolCall = Some (sample_message, ''get'')\<rparr>"
proof -
  have scope: "downstream_scope_of (rr_headers sample_request) = Inr None" by (simp add: downstream_scope_of_def)
  have name: "http_tool_name (sample_url ''/mcp'') = None" by (simp add: http_tool_name_def starts_with_def)
  show ?thesis
    using sample_call_parsed tool_call_is_not_public [OF sample_call_parsed]
    by (simp add: prepare_call_def scope name enforce_tool_scopes_def buffered_def translate_http_tool_def check_tool_scope_def)
qed

lemma sample_publication:
  "publication_request sample_world sample_request \<lparr>au_verification = Some sample_granted, au_body = None, au_publicMethod = None\<rparr>
     sample_id \<lparr>pr_body = Some ''B'', pr_url = x, pr_scope = Some ''api:role.docs'', pr_toolCall = Some (sample_message, ''get'')\<rparr> ''api:role.docs'' =
   Inr (sample_message, sample_input)"
proof -
  have "verified_bearer_token (Some ''Bearer src'') = Inr ''src''" by code_simp
  then show ?thesis
    by (simp add: publication_request_def buffered_def assert_granted_downstream_scopes_def sample_normalized sample_granted_def sample_input_def)
qed

lemma sample_with_file: "\<exists>v. with_access_token_file sample_message path = Inr v"
  by (simp add: with_access_token_file_def sample_message_def Let_def)

lemma sample_handled:
  "\<exists>c. hd_call (handle_request sample_world (sample_options [(''get'', ''api:role.docs'')]) (sample_url ''/'') ready sample_request sample_id empty_file_system) = Some c"
proof -
  obtain v where "with_access_token_file sample_message (pp_filePath sample_plan) = Inr v" using sample_with_file by blast
  then show ?thesis
    using sample_authorized [of "[(''get'', ''api:role.docs'')]"]
    by (simp add: handle_request_def forward_call_def sample_prepared sample_publication publish_and_forward_def sample_publishes Let_def)
qed

lemma upstream_calls_are_authorized_witness:
  "\<exists>u. rr_url sample_request = Some u \<and> url_pathname u \<notin> {''/healthz'', ''/readyz''} \<and>
    (public_request (pw_parse sample_world) (sample_options [(''get'', ''api:role.docs'')]) sample_request (url_pathname u) \<or>
     (\<exists>a v. header_one (rr_headers sample_request) ''authorization'' = Some a \<and> pw_verify sample_world (Some a) = Inr v))"
proof -
  obtain c where "hd_call (handle_request sample_world (sample_options [(''get'', ''api:role.docs'')]) (sample_url ''/'') (Inr 0)
      sample_request sample_id empty_file_system) = Some c" using sample_handled by blast
  then show ?thesis by (rule upstream_calls_are_authorized)
qed

lemma tool_calls_carry_their_scope_witness:
  "\<exists>c :: upstream_call. public_request (pw_parse sample_world) (sample_options [(''get'', ''api:role.docs'')]) sample_request ''/mcp''
     \<or> public_mcp_method (pw_parse sample_world) (uc_body c) \<noteq> None
     \<or> (\<exists>json path. named_tool json = Some ''get'' \<and> with_access_token_file sample_message path = Inr json
          \<and> uc_body c = pw_stringify sample_world json)"
proof -
  obtain c where c: "hd_call (handle_request sample_world (sample_options [(''get'', ''api:role.docs'')]) (sample_url ''/'') (Inr 0)
      sample_request sample_id empty_file_system) = Some c" using sample_handled by blast
  have none: "http_tool_name (sample_url ''/mcp'') = None" by (simp add: http_tool_name_def starts_with_def)
  have body: "pw_parse sample_world (concat (rr_chunks sample_request)) = Some (JObj sample_message)"
    by (simp add: sample_request_def)
  have path: "url_pathname (sample_url ''/mcp'') = mcp_path (sample_options [(''get'', ''api:role.docs'')]) \<or>
      starts_with ''/tools/'' (url_pathname (sample_url ''/mcp''))" by simp
  from tool_calls_carry_their_scope [OF c sample_option_fields(1) sample_request_fields(2) sample_request_fields(1) path]
  show ?thesis
  proof (elim disjE exE conjE)
    fix a v tool scope message path json
    assume tool: "named_tool json = Some tool" "map_of [(''get'', ''api:role.docs'')] tool = Some scope"
      and m: "http_tool_name (sample_url ''/mcp'') = None \<longrightarrow>
        pw_parse sample_world (concat (rr_chunks sample_request)) = Some (JObj message)"
      and json: "with_access_token_file message path = Inr json" "uc_body c = pw_stringify sample_world json"
    from tool have "named_tool json = Some ''get''" by (simp split: if_splits)
    moreover from m none body have "message = sample_message" by simp
    ultimately show ?thesis using json by blast
  qed auto
qed

lemma sample_no_file: "no_token_file sample_exchange ''u'' sample_id empty_file_system"
  by (simp add: no_token_file_def empty_file_system_def)

lemma token_file_lives_for_its_call_witness:
  "fs_files (hd_after (handle_request sample_world (sample_options []) (sample_url ''/'') (Inr 0) sample_request sample_id
     empty_file_system)) = []"
  using token_file_lives_for_its_call [OF sample_no_file, of sample_zts 10 sample_io sample_base "sample_options []" "sample_url ''/''"
      "Inr 0" sample_request]
  unfolding sample_world_def Let_def by (simp add: request_leaves_def sample_io_def empty_file_system_def)

lemma calls_stay_at_the_target_witness: "\<exists>c :: upstream_call. below_target (sample_url ''/'') (uc_url c)"
proof -
  obtain c where "hd_call (handle_request sample_world (sample_options [(''get'', ''api:role.docs'')]) (sample_url ''/'') (Inr 0)
      sample_request sample_id empty_file_system) = Some c" using sample_handled by blast
  from calls_stay_at_the_target [OF this, THEN conjunct1] show ?thesis by (rule exI)
qed

lemma trailing_slash_skips_the_tool_scopes_witness:
  "\<exists>c. hd_call (handle_request sample_world (sample_options [(''other'', ''api:role.docs'')]) (sample_url ''/'') (Inr 0)
        (sample_request\<lparr>rr_url := Some (sample_url ''/mcp'' \<lparr>url_pathname := ''/mcp/''\<rparr>)\<rparr>) sample_id empty_file_system) = Some c \<and> uc_body c = ''B''"
  using trailing_slash_skips_the_tool_scopes [of "sample_options [(''other'', ''api:role.docs'')]" "[(''other'', ''api:role.docs'')]"
      sample_request "''Bearer src''" sample_world sample_granted "''B''" sample_message "''get''" "sample_url ''/mcp''"
      "sample_url ''/''" "Inr 0" sample_id empty_file_system] sample_call_parsed
  by auto

end
