(* ===== verification/Runtime_Readiness.thy ===== *)
theory Runtime_Readiness
  imports Runtime_Proxy
begin

text \<open>
  The readiness probe of \<^verbatim>\<open>mcp-runtime-proxy/src/proxy.ts\<close>: the MCP handshake that tells whether the
  server behind the proxy lists its tools. What the server answers may depend on the requests it has
  seen, which are an argument of the answer. The abort signal is part of the answers.
\<close>

definition mcp_protocol_version :: string where
  "mcp_protocol_version = ''2025-06-18''"

record probe_request =
  pq_method :: string
  pq_headers :: "(string \<times> string) list"
  pq_payload :: "json option"

record probe_response =
  ps_status :: int
  ps_contentType :: "string option"
  ps_sessionId :: "string option"
  ps_body :: string

definition response_ok :: "probe_response \<Rightarrow> bool" where
  "response_ok r \<longleftrightarrow> 200 \<le> ps_status r \<and> ps_status r < 300"

definition probe_post :: "string \<Rightarrow> string \<Rightarrow> json \<Rightarrow> probe_request" where
  "probe_post sessionId version payload =
     \<lparr>pq_method = ''POST'',
      pq_headers = [(''Accept'', ''application/json, text/event-stream''), (''Content-Type'', ''application/json''),
                    (''MCP-Protocol-Version'', version)]
                   @ (if sessionId = [] then [] else [(''Mcp-Session-Id'', sessionId)]),
      pq_payload = Some payload\<rparr>"

definition probe_delete :: "string \<Rightarrow> string \<Rightarrow> probe_request" where
  "probe_delete sessionId version =
     \<lparr>pq_method = ''DELETE'', pq_headers = [(''MCP-Protocol-Version'', version), (''Mcp-Session-Id'', sessionId)],
      pq_payload = None\<rparr>"

section \<open>Reading an answer\<close>

definition record_property :: "unknown \<Rightarrow> string \<Rightarrow> fields option" where
  "record_property v key = (case as_record v of None \<Rightarrow> None | Some fs \<Rightarrow> as_record (map_of fs key))"

definition string_property :: "unknown \<Rightarrow> string \<Rightarrow> string option" where
  "string_property v key = (case as_record v of None \<Rightarrow> None | Some fs \<Rightarrow> as_string (map_of fs key))"

definition array_property :: "unknown \<Rightarrow> string \<Rightarrow> json list option" where
  "array_property v key =
     (case as_record v of
        None \<Rightarrow> None
      | Some fs \<Rightarrow> (case map_of fs key of Some (JArr vs) \<Rightarrow> Some vs | _ \<Rightarrow> None))"

text \<open>The length of a line break \<^verbatim>\<open>\r?\n\<close> at the start of the text, and of two of them.\<close>

fun line_break :: "string \<Rightarrow> nat" where
  "line_break (c # cs) =
     (if c = CHR 0x0A then 1
      else if c = CHR 0x0D \<and> cs \<noteq> [] \<and> hd cs = CHR 0x0A then 2 else 0)"
| "line_break [] = 0"

definition blank_line :: "string \<Rightarrow> nat" where
  "blank_line s =
     (let n = line_break s; m = line_break (drop n s) in if n = 0 \<or> m = 0 then 0 else n + m)"

text \<open>\<^verbatim>\<open>s.split(...)\<close> at the separators that \<open>sep\<close> finds at the start of a text.\<close>

function split_at :: "(string \<Rightarrow> nat) \<Rightarrow> string \<Rightarrow> string list" where
  "split_at sep [] = [[]]"
| "split_at sep (c # cs) =
     (if 0 < sep (c # cs) then [] # split_at sep (drop (sep (c # cs) - 1) cs)
      else case split_at sep cs of [] \<Rightarrow> [[c]] | w # ws \<Rightarrow> (c # w) # ws)"
  by pat_completeness auto
termination
  by (relation "measure (\<lambda>(sep, s). length s)") auto

definition event_data :: "string \<Rightarrow> string" where
  "event_data event =
     join [CHR 0x0A] (map (\<lambda>line. trim_start (drop (length ''data:'') line))
       (filter (starts_with ''data:'') (split_at line_break event)))"

fun first_event :: "(string \<Rightarrow> json option) \<Rightarrow> string list \<Rightarrow> (string, fields) result" where
  "first_event parse [] = Inl ''MCP server returned SSE without a JSON-RPC result''"
| "first_event parse (event # events) =
     (let payload = event_data event in
      if payload = [] then first_event parse events
      else case parse payload of
        None \<Rightarrow> Inl ''Unexpected token in JSON''
      | Some v \<Rightarrow>
          (case as_record (Some v) of
             None \<Rightarrow> first_event parse events
           | Some fs \<Rightarrow>
               if map_of fs ''result'' \<noteq> None \<or> map_of fs ''error'' \<noteq> None then Inr fs
               else first_event parse events))"

definition text_includes :: "string \<Rightarrow> string \<Rightarrow> bool" where
  "text_includes p s \<longleftrightarrow> index_of p s \<noteq> None"

definition parse_probe_payload :: "(string \<Rightarrow> json option) \<Rightarrow> probe_response \<Rightarrow> (string, fields) result" where
  "parse_probe_payload parse r =
     (let contentType = (case ps_contentType r of None \<Rightarrow> [] | Some t \<Rightarrow> t) in
      if text_includes ''text/event-stream'' contentType \<or> starts_with ''event:'' (trim_start (ps_body r))
      then first_event parse (split_at blank_line (ps_body r))
      else case parse (ps_body r) of
        None \<Rightarrow> Inl ''Unexpected token in JSON''
      | Some v \<Rightarrow>
          (case as_record (Some v) of
             None \<Rightarrow> Inl ''MCP server returned a non-object JSON-RPC response''
           | Some fs \<Rightarrow> Inr fs))"

definition successful_probe_payload :: "(string \<Rightarrow> json option) \<Rightarrow> probe_response \<Rightarrow> string \<Rightarrow> (string, fields) result" where
  "successful_probe_payload parse r name =
     (if \<not> response_ok r then Inl (''MCP '' @ name @ '' returned HTTP '' @ int_text (ps_status r))
      else ebind (parse_probe_payload parse r) (\<lambda>fs.
        if record_property (Some (JObj fs)) ''error'' \<noteq> None then Inl (''MCP '' @ name @ '' returned a JSON-RPC error'')
        else if record_property (Some (JObj fs)) ''result'' = None then Inl (''MCP '' @ name @ '' response has no result'')
        else Inr fs))"

section \<open>The handshake\<close>

definition initialize_payload :: json where
  "initialize_payload = JObj
     [(''jsonrpc'', JStr ''2.0''), (''id'', JNum (Finite 1)), (''method'', JStr ''initialize''),
      (''params'', JObj [(''protocolVersion'', JStr mcp_protocol_version), (''capabilities'', JObj []),
         (''clientInfo'', JObj [(''name'', JStr ''mcp-runtime-proxy-readiness''), (''version'', JStr ''1.0.0'')])])]"

definition initialized_payload :: json where
  "initialized_payload = JObj [(''jsonrpc'', JStr ''2.0''), (''method'', JStr ''notifications/initialized'')]"

definition probe_call :: "rat \<Rightarrow> string \<Rightarrow> json" where
  "probe_call i name = JObj
     [(''jsonrpc'', JStr ''2.0''), (''id'', JNum (Finite i)), (''method'', JStr name), (''params'', JObj [])]"

type_synonym probe_server = "probe_request list \<Rightarrow> probe_request \<Rightarrow> (string, probe_response) result"

text \<open>After the initialization: the notification, the ping and the list of tools, with all requests sent.\<close>

definition probe_session ::
  "(string \<Rightarrow> json option) \<Rightarrow> probe_server \<Rightarrow> string \<Rightarrow> string \<Rightarrow> probe_request list \<Rightarrow> (string, nat) result \<times> probe_request list" where
  "probe_session parse send sessionId version sent =
     (let post = probe_post sessionId version;
          sent1 = sent @ [post initialized_payload];
          sent2 = sent1 @ [post (probe_call 2 ''ping'')];
          sent3 = sent2 @ [post (probe_call 3 ''tools/list'')] in
      case send sent (post initialized_payload) of
        Inl e \<Rightarrow> (Inl e, sent1)
      | Inr notification \<Rightarrow>
          if \<not> response_ok notification
          then (Inl (''MCP initialized notification returned HTTP '' @ int_text (ps_status notification)), sent1)
          else case ebind (send sent1 (post (probe_call 2 ''ping''))) (\<lambda>r. successful_probe_payload parse r ''ping'') of
            Inl e \<Rightarrow> (Inl e, sent2)
          | Inr _ \<Rightarrow>
              (ebind (send sent2 (post (probe_call 3 ''tools/list''))) (\<lambda>r.
               ebind (successful_probe_payload parse r ''tools/list'') (\<lambda>fs.
                 case array_property (map_of fs ''result'') ''tools'' of
                   None \<Rightarrow> Inl ''MCP tools/list response has no tools array''
                 | Some tools \<Rightarrow> Inr (length tools))), sent3))"

text \<open>The whole probe; the \<^verbatim>\<open>finally\<close> deletes the session if there is one, whatever it answers.\<close>

definition probe_mcp_readiness ::
  "(string \<Rightarrow> json option) \<Rightarrow> probe_server \<Rightarrow> string \<Rightarrow> js_number \<Rightarrow> (string, nat) result \<times> probe_request list" where
  "probe_mcp_readiness parse send path timeoutMs =
     (if \<not> starts_with ''/'' path \<or> starts_with ''//'' path then (Inl ''MCP readiness path must start with one slash'', [])
      else if (case timeoutMs of Finite q \<Rightarrow> \<not> is_integer q \<or> q \<le> 0 | _ \<Rightarrow> True)
      then (Inl ''MCP readiness timeout must be a positive integer'', [])
      else
        let initialize = probe_post [] mcp_protocol_version initialize_payload in
        case send [] initialize of
          Inl e \<Rightarrow> (Inl e, [initialize])
        | Inr r \<Rightarrow>
            (case successful_probe_payload parse r ''initialize'' of
               Inl e \<Rightarrow> (Inl e, [initialize])
             | Inr fs \<Rightarrow>
                 let sessionId = (case ps_sessionId r of None \<Rightarrow> [] | Some s \<Rightarrow> trim s);
                     version = (case string_property (map_of fs ''result'') ''protocolVersion'' of
                                  None \<Rightarrow> mcp_protocol_version | Some v \<Rightarrow> v);
                     (result, sent) = probe_session parse send sessionId version [initialize]
                 in (result, if sessionId = [] then sent else sent @ [probe_delete sessionId version])))"

section \<open>The properties\<close>

lemma probe_session_sent:
  "probe_session parse send sessionId version sent = (r, sent') \<Longrightarrow>
   \<exists>posts. sent' = sent @ posts \<and> posts \<noteq> []
     \<and> list_all (\<lambda>q. \<exists>p. q = probe_post sessionId version p) posts
     \<and> map pq_payload posts = take (length posts) [Some initialized_payload, Some (probe_call 2 ''ping''), Some (probe_call 3 ''tools/list'')]
     \<and> ((\<exists>n. r = Inr n) \<longrightarrow> length posts = 3)"
  unfolding probe_session_def Let_def
  by (auto simp: probe_post_def split: sum.splits if_splits)

text \<open>
  The probe answers that the server is ready only after the whole handshake: the initialization,
  its notification, a ping and the list of tools were sent, in this order and nothing else, all but
  the first with the session and the protocol version that the server chose. If the server opened a
  session it is deleted at the end, once, whether the probe succeeded or not.
\<close>

theorem probe_closes_its_session:
  assumes "probe_mcp_readiness parse send path timeoutMs = (r, sent)"
    and "send [] (probe_post [] mcp_protocol_version initialize_payload) = Inr answer"
    and "successful_probe_payload parse answer ''initialize'' = Inr fs"
    and "starts_with ''/'' path" and "\<not> starts_with ''//'' path" and "timeoutMs = Finite (of_nat (Suc t))"
  shows "\<exists>posts sessionId version. sessionId = (case ps_sessionId answer of None \<Rightarrow> [] | Some s \<Rightarrow> trim s)
    \<and> list_all (\<lambda>q. \<exists>p. q = probe_post sessionId version p) posts
    \<and> sent = probe_post [] mcp_protocol_version initialize_payload # posts
              @ (if sessionId = [] then [] else [probe_delete sessionId version])
    \<and> map pq_payload posts = take (length posts) [Some initialized_payload, Some (probe_call 2 ''ping''), Some (probe_call 3 ''tools/list'')]
    \<and> ((\<exists>n. r = Inr n) \<longrightarrow> length posts = 3)"
proof -
  let ?init = "probe_post [] mcp_protocol_version initialize_payload"
  define sid where "sid = (case ps_sessionId answer of None \<Rightarrow> [] | Some s \<Rightarrow> trim s)"
  define ver where "ver = (case string_property (map_of fs ''result'') ''protocolVersion'' of None \<Rightarrow> mcp_protocol_version | Some v \<Rightarrow> v)"
  obtain sent' where s: "probe_session parse send sid ver [?init] = (r, sent')"
    and sent: "sent = (if sid = [] then sent' else sent' @ [probe_delete sid ver])"
    using assms(1-5) unfolding probe_mcp_readiness_def assms(6)
    by (auto simp: sid_def ver_def is_integer_def Let_def split: prod.splits)
  from probe_session_sent [OF s] obtain posts where "sent' = [?init] @ posts"
    "list_all (\<lambda>q. \<exists>p. q = probe_post sid ver p) posts"
    "map pq_payload posts = take (length posts) [Some initialized_payload, Some (probe_call 2 ''ping''), Some (probe_call 3 ''tools/list'')]"
    "(\<exists>n. r = Inr n) \<longrightarrow> length posts = 3" by blast
  with sent sid_def show ?thesis by (intro exI [of _ posts] exI [of _ sid] exI [of _ ver]) auto
qed

text \<open>Splitting an event stream of one event.\<close>

definition no_break :: "string \<Rightarrow> bool" where
  "no_break s \<longleftrightarrow> list_all (\<lambda>c. c \<noteq> CHR 0x0A \<and> c \<noteq> CHR 0x0D) s"

lemma split_at_word:
  assumes "no_break s" and "\<And>r. sep r \<noteq> 0 \<Longrightarrow> r \<noteq> [] \<and> (hd r = CHR 0x0A \<or> hd r = CHR 0x0D)"
  shows "split_at sep (s @ r) = (case split_at sep r of [] \<Rightarrow> [s] | w # ws \<Rightarrow> (s @ w) # ws)"
  using assms(1)
proof (induction s)
  case Nil
  have "split_at sep r \<noteq> []" by (cases r) (auto split: list.splits)
  then show ?case by (cases "split_at sep r") simp_all
next
  case (Cons c s)
  then have c: "c \<noteq> CHR 0x0A" "c \<noteq> CHR 0x0D" "no_break s" by (simp_all add: no_break_def)
  with assms(2) [of "c # s @ r"] have "sep (c # s @ r) = 0" by fastforce
  with Cons.IH [OF c(3)] show ?case by (auto split: list.splits)
qed

lemma line_break_first: "line_break r \<noteq> 0 \<Longrightarrow> r \<noteq> [] \<and> (hd r = CHR 0x0A \<or> hd r = CHR 0x0D)"
  by (cases r) (auto split: if_splits)

lemma blank_line_first: "blank_line r \<noteq> 0 \<Longrightarrow> r \<noteq> [] \<and> (hd r = CHR 0x0A \<or> hd r = CHR 0x0D)"
  using line_break_first [of r] by (auto simp: blank_line_def Let_def split: if_splits)

lemma split_at_not_Nil [simp]: "split_at sep s \<noteq> []"
  by (cases s) (auto split: list.splits)

lemma split_at_line:
  "no_break s \<Longrightarrow> split_at line_break (s @ r) = (s @ hd (split_at line_break r)) # tl (split_at line_break r)"
  "no_break s \<Longrightarrow> split_at blank_line (s @ r) = (s @ hd (split_at blank_line r)) # tl (split_at blank_line r)"
  using split_at_word [where s = s and r = r and sep = line_break] line_break_first
    split_at_word [where s = s and r = r and sep = blank_line] blank_line_first
  by (cases "split_at line_break r"; cases "split_at blank_line r"; simp)+

text \<open>The pieces of \<open>event: message\<close>, a data line, and a blank line, for either line break.\<close>

lemma split_event:
  assumes "no_break e" and "no_break line" and "line \<noteq> []" and "nl = [CHR 0x0A] \<or> nl = [CHR 0x0D, CHR 0x0A]"
  shows "split_at blank_line (e @ nl @ line @ nl @ nl) = [e @ nl @ line, []]"
    and "split_at line_break (e @ nl @ line) = [e, line]"
proof -
  obtain c cs where line: "line = c # cs" using assms(3) by (cases line) auto
  with assms(2) have c: "c \<noteq> CHR 0x0A" "c \<noteq> CHR 0x0D" by (simp_all add: no_break_def)
  have tail: "split_at blank_line (nl @ nl) = [[], []]"
    using assms(4) by (auto simp: blank_line_def)
  then have "split_at blank_line (line @ nl @ nl) = [line, []]"
    using split_at_line(2) [OF assms(2), of "nl @ nl"] by simp
  then have "split_at blank_line (nl @ line @ nl @ nl) = [nl @ line, []]"
    using assms(4) c by (auto simp: blank_line_def line)
  then show "split_at blank_line (e @ nl @ line @ nl @ nl) = [e @ nl @ line, []]"
    using split_at_line(2) [OF assms(1), of "nl @ line @ nl @ nl"] by simp
  have "split_at line_break line = [line]"
    using split_at_line(1) [OF assms(2), of "[]"] by simp
  then have "split_at line_break (nl @ line) = [[], line]"
    using assms(4) by auto
  then show "split_at line_break (e @ nl @ line) = [e, line]"
    using split_at_line(1) [OF assms(1), of "nl @ line"] by simp
qed

text \<open>
  The two encodings of an answer are read alike. An event stream of one message event whose
  data is a JSON text on one line, with line breaks of either kind, gives the same result as that
  text as a plain body, for every object that is a JSON-RPC result or error.
\<close>

theorem event_stream_reads_like_json:
  assumes "no_break body" and "body \<noteq> []" and "\<not> is_ws (hd body)" and "\<not> starts_with ''event:'' body"
    and "parse body = Some (JObj fs)" and "map_of fs ''result'' \<noteq> None \<or> map_of fs ''error'' \<noteq> None"
    and "nl = [CHR 0x0A] \<or> nl = [CHR 0x0D, CHR 0x0A]"
  shows "parse_probe_payload parse \<lparr>ps_status = st, ps_contentType = Some ''text/event-stream'', ps_sessionId = sid,
           ps_body = ''event: message'' @ nl @ ''data: '' @ body @ nl @ nl\<rparr> = Inr fs
    \<and> parse_probe_payload parse \<lparr>ps_status = st, ps_contentType = Some ''application/json'', ps_sessionId = sid, ps_body = body\<rparr> = Inr fs"
proof
  have sse: "text_includes ''text/event-stream'' ''text/event-stream''" and json: "\<not> text_includes ''text/event-stream'' ''application/json''"
    by code_simp+
  have trim: "trim_start body = body" "trim_start (CHR '' '' # body) = body"
    using assms(2,3) by (cases body, simp_all add: trim_start_def is_ws_def)+
  have event: "no_break ''event: message''" and data: "no_break (''data: '' @ body)"
    using assms(1) by (auto simp: no_break_def)
  let ?line = "''data: '' @ body"
  have events: "split_at blank_line (''event: message'' @ nl @ ?line @ nl @ nl) = [''event: message'' @ nl @ ?line, []]"
    and lines: "split_at line_break (''event: message'' @ nl @ ?line) = [''event: message'', ?line]"
    by (rule split_event [OF event data _ assms(7)], simp)+
  have "event_data (''event: message'' @ nl @ ?line) = body"
    unfolding event_data_def lines using trim by (simp add: starts_with_def)
  with assms(2,5,6) have "first_event parse [''event: message'' @ nl @ ?line, []] = Inr fs" by auto
  with sse show "parse_probe_payload parse \<lparr>ps_status = st, ps_contentType = Some ''text/event-stream'', ps_sessionId = sid,
           ps_body = ''event: message'' @ nl @ ''data: '' @ body @ nl @ nl\<rparr> = Inr fs"
    using events by (simp add: parse_probe_payload_def)
  from trim(1) assms(4,5) json show
    "parse_probe_payload parse \<lparr>ps_status = st, ps_contentType = Some ''application/json'', ps_sessionId = sid, ps_body = body\<rparr> = Inr fs"
    by (simp add: parse_probe_payload_def)
qed

definition sample_answer :: probe_response where
  "sample_answer = \<lparr>ps_status = 200, ps_contentType = None, ps_sessionId = Some ''s'', ps_body = ''R''\<rparr>"

definition sample_result :: fields where
  "sample_result = [(''result'', JObj [(''tools'', JArr [])])]"

lemma sample_successful:
  "successful_probe_payload (\<lambda>t. Some (JObj sample_result)) sample_answer ''initialize'' = Inr sample_result"
  by (simp add: successful_probe_payload_def parse_probe_payload_def sample_answer_def response_ok_def sample_result_def
      record_property_def text_includes_def starts_with_def trim_start_def is_ws_def)

lemma probe_closes_its_session_witness:
  "\<exists>posts version. snd (probe_mcp_readiness (\<lambda>t. Some (JObj sample_result)) (\<lambda>sent q. Inr sample_answer) ''/mcp'' (Finite 4000)) =
     probe_post [] mcp_protocol_version initialize_payload # posts @ [probe_delete ''s'' version]"
proof -
  let ?p = "probe_mcp_readiness (\<lambda>t. Some (JObj sample_result)) (\<lambda>sent q. Inr sample_answer) ''/mcp'' (Finite 4000)"
  have "?p = (fst ?p, snd ?p)" by simp
  from probe_closes_its_session [OF this refl sample_successful, of 3999] show ?thesis
    by (auto simp: starts_with_def sample_answer_def trim_def is_ws_def)
qed

lemma event_stream_reads_like_json_witness:
  "parse_probe_payload (\<lambda>t. Some (JObj sample_result)) \<lparr>ps_status = 200, ps_contentType = Some ''text/event-stream'', ps_sessionId = None,
     ps_body = ''event: message'' @ [CHR 0x0A] @ ''data: '' @ ''{}'' @ [CHR 0x0A] @ [CHR 0x0A]\<rparr> = Inr sample_result"
  using event_stream_reads_like_json [of "''{}''" "\<lambda>t. Some (JObj sample_result)" sample_result "[CHR 0x0A]" 200 None]
  by (simp add: no_break_def is_ws_def starts_with_def sample_result_def)

end
