(* ===== verification/Runtime_Identity.thy ===== *)
theory Runtime_Identity
  imports Runtime_Token_Exchange
begin

text \<open>
  \<^verbatim>\<open>mcp-runtime-proxy/src/identity.ts\<close>: the service identity of the proxy. A certificate is issued by
  ZTS, checked against the private key, written to a Kubernetes secret and awaited in the projected
  file; a timer repeats this. The program \<^verbatim>\<open>zts-svccert\<close>, the files, the Kubernetes API, X.509 and
  the clock are arguments. Bytes are strings.
\<close>

definition default_refresh_seconds :: nat where
  "default_refresh_seconds = 24 * 60 * 60"

definition default_retry_seconds :: nat where
  "default_retry_seconds = 5 * 60"

record identity_config =
  ic_bootstrapPrivateKeyPath :: string
  ic_dnsDomain :: string
  ic_instanceId :: string
  ic_keyId :: string
  ic_kubernetesApiHost :: string
  ic_kubernetesApiPort :: rat
  ic_namespace :: string
  ic_projectedCertificatePath :: string
  ic_refreshSeconds :: rat
  ic_retrySeconds :: rat
  ic_secretName :: string
  ic_serviceDomain :: string
  ic_serviceName :: string
  ic_ztsCaPath :: string
  ic_ztsUrl :: url

section \<open>Configuration\<close>

definition identity_number :: "(string \<Rightarrow> js_number) \<Rightarrow> string \<Rightarrow> string \<Rightarrow> (string, rat) result" where
  "identity_number number v field =
     (case positive_number number v of None \<Rightarrow> Inl (field @ '' must be a positive integer'') | Some q \<Rightarrow> Inr q)"

definition trimmed_env :: "process_env \<Rightarrow> string \<Rightarrow> string" where
  "trimmed_env env name = (case env name of None \<Rightarrow> [] | Some v \<Rightarrow> trim v)"

definition required_environment :: "process_env \<Rightarrow> string \<Rightarrow> (string, string) result" where
  "required_environment env name =
     (if trimmed_env env name = [] then Inl (name @ '' is required for managed service identity'')
      else Inr (trimmed_env env name))"

text \<open>\<^verbatim>\<open>/^[a-z0-9](?:[-a-z0-9.]*[a-z0-9])?$/\<close> of at most 253 characters\<close>

definition valid_secret_name :: "string \<Rightarrow> bool" where
  "valid_secret_name s \<longleftrightarrow>
     (let edge = (\<lambda>c. is_lower c \<or> is_digit c) in
      s \<noteq> [] \<and> edge (hd s) \<and> edge (last s) \<and> list_all (\<lambda>c. edge c \<or> c = CHR ''-'' \<or> c = CHR ''.'') s \<and> length s \<le> 253)"

definition kubernetes_port :: "process_env \<Rightarrow> string" where
  "kubernetes_port env =
     (case env ''KUBERNETES_SERVICE_PORT_HTTPS'' of
        Some v \<Rightarrow> v | None \<Rightarrow> env_or env ''KUBERNETES_SERVICE_PORT'' ''443'')"

definition identity_config_from_environment ::
  "platform \<Rightarrow> (string \<Rightarrow> js_number) \<Rightarrow> process_env \<Rightarrow> (string, identity_config option) result" where
  "identity_config_from_environment pf number env =
     (let serviceDomain = trimmed_env env ''ATHENZ_SERVICE_DOMAIN''; serviceName = trimmed_env env ''ATHENZ_SERVICE_NAME'' in
      if serviceDomain = [] \<and> serviceName = [] then Inr None
      else if serviceDomain = [] \<or> serviceName = []
      then Inl ''ATHENZ_SERVICE_DOMAIN and ATHENZ_SERVICE_NAME must be configured together''
      else if \<not> dotted_name serviceDomain then Inl ''ATHENZ_SERVICE_DOMAIN is invalid''
      else if \<not> dotted_name serviceName then Inl ''ATHENZ_SERVICE_NAME is invalid''
      else case pf_parse_url pf (env_or env ''ATHENZ_ZTS_URL'' ''https://athenz-zts-server.athenz:4443/zts/v1'') of
        None \<Rightarrow> Inl ''Invalid URL''
      | Some ztsUrl \<Rightarrow>
          if url_protocol ztsUrl \<noteq> ''https:'' then Inl ''ATHENZ_ZTS_URL must use HTTPS'' else
          ebind (required_environment env ''KUBERNETES_IDENTITY_SECRET_NAME'') (\<lambda>secretName.
          if \<not> valid_secret_name secretName then Inl ''KUBERNETES_IDENTITY_SECRET_NAME is invalid'' else
          ebind (required_environment env ''POD_NAME'') (\<lambda>instanceId.
          ebind (required_environment env ''KUBERNETES_SERVICE_HOST'') (\<lambda>apiHost.
          ebind (identity_number number (kubernetes_port env) ''Kubernetes API port'') (\<lambda>apiPort.
          ebind (required_environment env ''POD_NAMESPACE'') (\<lambda>namespace.
          ebind (identity_number number (env_or env ''ATHENZ_IDENTITY_REFRESH_SECONDS'' (nat_text default_refresh_seconds))
                   ''ATHENZ_IDENTITY_REFRESH_SECONDS'') (\<lambda>refreshSeconds.
          ebind (identity_number number (env_or env ''ATHENZ_IDENTITY_RETRY_SECONDS'' (nat_text default_retry_seconds))
                   ''ATHENZ_IDENTITY_RETRY_SECONDS'') (\<lambda>retrySeconds.
          Inr (Some
            \<lparr>ic_bootstrapPrivateKeyPath = env_or env ''ATHENZ_BOOTSTRAP_PRIVATE_KEY_PATH'' ''/var/run/athenz-bootstrap/service.key.pem'',
             ic_dnsDomain = env_or env ''ATHENZ_ZTS_DNS_DOMAIN'' ''zts.athenz.cloud'', ic_instanceId = instanceId,
             ic_keyId = env_or env ''ATHENZ_SERVICE_KEY_ID'' ''idthw-hub-generated'',
             ic_kubernetesApiHost = apiHost, ic_kubernetesApiPort = apiPort, ic_namespace = namespace,
             ic_projectedCertificatePath = env_or env ''ATHENZ_PUBLISHED_CERT_PATH'' ''/var/run/athenz-identity/service.cert.pem'',
             ic_refreshSeconds = refreshSeconds, ic_retrySeconds = retrySeconds, ic_secretName = secretName,
             ic_serviceDomain = serviceDomain, ic_serviceName = serviceName,
             ic_ztsCaPath = env_or env ''ATHENZ_ZTS_CA_PATH'' ''/var/run/athenz/ca.crt'', ic_ztsUrl = ztsUrl\<rparr>)))))))))"

section \<open>Issuing and checking\<close>

text \<open>\<^verbatim>\<open>toString().replace(/\/$/, "")\<close> drops one slash.\<close>

definition without_last_slash :: "string \<Rightarrow> string" where
  "without_last_slash s = (if ends_with ''/'' s then butlast s else s)"

definition certificate_command_arguments :: "platform \<Rightarrow> identity_config \<Rightarrow> string \<Rightarrow> string list" where
  "certificate_command_arguments pf cfg certificatePath =
     [''-zts'', without_last_slash (pf_url_string pf (ic_ztsUrl cfg)),
      ''-domain'', ic_serviceDomain cfg, ''-service'', ic_serviceName cfg, ''-provider'', ''sys.auth.zts'',
      ''-instance'', ic_instanceId cfg, ''-dns-domain'', ic_dnsDomain cfg,
      ''-private-key'', ic_bootstrapPrivateKeyPath cfg, ''-key-version'', ic_keyId cfg,
      ''-cert-file'', certificatePath, ''-cacert'', ic_ztsCaPath cfg]"

text \<open>What X.509 tells of a certificate: the end of its validity and its public key.\<close>

record certificate_facts =
  cf_validToMs :: "rat option"
  cf_publicKey :: string

definition assert_certificate_matches ::
  "(string \<Rightarrow> certificate_facts option) \<Rightarrow> (string \<Rightarrow> string option) \<Rightarrow> rat \<Rightarrow> string \<Rightarrow> string \<Rightarrow> (string, unit) result" where
  "assert_certificate_matches x509 publicKeyOf nowMs certificate privateKey =
     (case x509 certificate of
        None \<Rightarrow> Inl ''ZTS returned an invalid service certificate''
      | Some facts \<Rightarrow>
          if (case cf_validToMs facts of None \<Rightarrow> False | Some t \<Rightarrow> t \<le> nowMs)
          then Inl ''issued certificate is already expired''
          else case publicKeyOf privateKey of
            None \<Rightarrow> Inl ''ZTS returned an invalid service certificate''
          | Some key \<Rightarrow>
              if cf_publicKey facts \<noteq> key
              then Inl ''issued certificate does not match the generated private key''
              else Inr ())"

text \<open>\<^verbatim>\<open>Buffer.toString("base64")\<close>\<close>

definition base64_digit :: "nat \<Rightarrow> char" where
  "base64_digit n =
     (if n < 26 then char_of (65 + n)
      else if n < 52 then char_of (71 + n)
      else if n < 62 then char_of (n - 4)
      else if n = 62 then CHR ''+'' else CHR ''/'')"

fun base64_encode :: "string \<Rightarrow> string" where
  "base64_encode (a # b # c # cs) =
     (let n = 65536 * of_char a + 256 * of_char b + of_char c :: nat
      in map base64_digit [n div 262144, n div 4096 mod 64, n div 64 mod 64, n mod 64] @ base64_encode cs)"
| "base64_encode [a, b] =
     (let n = 1024 * of_char a + 4 * of_char b :: nat
      in map base64_digit [n div 4096, n div 64 mod 64, n mod 64] @ ''='')"
| "base64_encode [a] =
     (let n = 16 * of_char a :: nat in map base64_digit [n div 64, n mod 64] @ ''=='')"
| "base64_encode [] = []"

definition identity_secret_patch :: "string \<Rightarrow> string \<Rightarrow> json" where
  "identity_secret_patch certificate privateKey = JObj
     [(''data'', JObj [(''service.cert.pem'', JStr (base64_encode certificate)),
                       (''service.key.pem'', JStr (base64_encode privateKey))])]"

record patch_request =
  pt_host :: string
  pt_port :: rat
  pt_path :: string
  pt_authorization :: string
  pt_ca :: string
  pt_body :: json

definition patch_request_for ::
  "platform \<Rightarrow> identity_config \<Rightarrow> string \<Rightarrow> string \<Rightarrow> string \<Rightarrow> string \<Rightarrow> patch_request" where
  "patch_request_for pf cfg token ca certificate privateKey =
     \<lparr>pt_host = ic_kubernetesApiHost cfg, pt_port = ic_kubernetesApiPort cfg,
      pt_path = join ''/'' [''/api/v1/namespaces'', pf_component pf (ic_namespace cfg), ''secrets'', pf_component pf (ic_secretName cfg)],
      pt_authorization = ''Bearer '' @ trim token, pt_ca = ca, pt_body = identity_secret_patch certificate privateKey\<rparr>"

definition patch_answer :: "http_answer \<Rightarrow> (string, unit) result" where
  "patch_answer answer =
     (case answer of
        Http_Failure m \<Rightarrow> Inl m
      | Http_Answer statusCode chunks \<Rightarrow>
          if sum_list (map length chunks) > 64 * 1024 then Inl ''Kubernetes API response exceeded the limit''
          else let status = (case statusCode of None \<Rightarrow> 0 | Some i \<Rightarrow> i) in
            if 200 \<le> status \<and> status < 300 then Inr ()
            else Inl (''Kubernetes API returned HTTP '' @ (if status = 0 then ''unknown'' else int_text status)
                      @ '' while publishing the service identity''))"

text \<open>
  The wait for the projection: \<open>reads i\<close> is what the \<open>i\<close>-th read of the file gives, and \<open>late i\<close> the
  milliseconds that pass beyond the second the loop sleeps. The result is whether the certificate
  was seen, and after how many reads.
\<close>

function wait_for_projection :: "(nat \<Rightarrow> string option) \<Rightarrow> (nat \<Rightarrow> nat) \<Rightarrow> nat \<Rightarrow> nat \<Rightarrow> nat \<Rightarrow> string \<Rightarrow> bool \<times> nat" where
  "wait_for_projection reads late deadline now i expected =
     (if deadline \<le> now then (False, i)
      else if reads i = Some expected then (True, Suc i)
      else wait_for_projection reads late deadline (now + 1000 + late i) (Suc i) expected)"
  by pat_completeness auto
termination
  by (relation "measure (\<lambda>(reads, late, deadline, now, i, expected). deadline - now)") auto

declare wait_for_projection.simps [simp del]

section \<open>One refresh\<close>

record identity_world =
  iw_directory :: "(string, string) result"                  \<comment> \<open>\<open>mkdtemp\<close>\<close>
  iw_issue :: "string list \<Rightarrow> bool"                          \<comment> \<open>whether \<open>zts-svccert\<close> succeeds\<close>
  iw_read :: "string \<Rightarrow> (string, string) result"             \<comment> \<open>reading a file\<close>
  iw_x509 :: "string \<Rightarrow> certificate_facts option"
  iw_publicKey :: "string \<Rightarrow> string option"
  iw_kubernetes :: "patch_request \<Rightarrow> http_answer"
  iw_projection :: "nat \<Rightarrow> string option"
  iw_late :: "nat \<Rightarrow> nat"
  iw_removal :: "string option"                              \<comment> \<open>how \<open>rm\<close> of the directory fails, if it does\<close>

text \<open>What a refresh did, in order.\<close>

datatype identity_action =
    Made_Directory string
  | Ran_Command "string list"
  | Patched_Secret patch_request
  | Watched_Projection nat
  | Removed_Directory string

definition publish_identity ::
  "platform \<Rightarrow> identity_config \<Rightarrow> identity_world \<Rightarrow> string \<Rightarrow> string \<Rightarrow> (string, unit) result \<times> identity_action list" where
  "publish_identity pf cfg w certificate privateKey =
     (case iw_read w ''/var/run/secrets/kubernetes.io/serviceaccount/token'' of
        Inl e \<Rightarrow> (Inl e, [])
      | Inr token \<Rightarrow>
     (case iw_read w ''/var/run/secrets/kubernetes.io/serviceaccount/ca.crt'' of
        Inl e \<Rightarrow> (Inl e, [])
      | Inr ca \<Rightarrow>
          let request = patch_request_for pf cfg token ca certificate privateKey in
          case patch_answer (iw_kubernetes w request) of
            Inl e \<Rightarrow> (Inl e, [Patched_Secret request])
          | Inr _ \<Rightarrow>
              let (seen, reads) = wait_for_projection (iw_projection w) (iw_late w) 120000 0 0 certificate
              in (if seen then Inr () else Inl ''Timed out waiting for the refreshed service identity projection'',
                  [Patched_Secret request, Watched_Projection reads])))"

definition refresh_in_directory ::
  "platform \<Rightarrow> identity_config \<Rightarrow> identity_world \<Rightarrow> rat \<Rightarrow> string \<Rightarrow> (string, unit) result \<times> identity_action list" where
  "refresh_in_directory pf cfg w nowMs certificatePath =
     (let command = certificate_command_arguments pf cfg certificatePath in
      if \<not> iw_issue w command then (Inl ''ZTS service certificate issuance failed'', [Ran_Command command])
      else case (iw_read w certificatePath, iw_read w (ic_bootstrapPrivateKeyPath cfg)) of
        (Inr certificate, Inr privateKey) \<Rightarrow>
          (case assert_certificate_matches (iw_x509 w) (iw_publicKey w) nowMs certificate privateKey of
             Inl e \<Rightarrow> (Inl e, [Ran_Command command])
           | Inr _ \<Rightarrow>
               let (r, actions) = publish_identity pf cfg w certificate privateKey
               in (r, Ran_Command command # actions))
      | (Inl e, _) \<Rightarrow> (Inl e, [Ran_Command command])
      | (_, Inl e) \<Rightarrow> (Inl e, [Ran_Command command]))"

definition refresh_service_identity ::
  "platform \<Rightarrow> identity_config \<Rightarrow> identity_world \<Rightarrow> rat \<Rightarrow> (string, unit) result \<times> identity_action list" where
  "refresh_service_identity pf cfg w nowMs =
     (case iw_directory w of
        Inl e \<Rightarrow> (Inl e, [])
      | Inr directory \<Rightarrow>
          let (r, actions) = refresh_in_directory pf cfg w nowMs (path_join directory ''service.cert.pem'')
          in (case iw_removal w of None \<Rightarrow> r | Some e \<Rightarrow> Inl e,
              Made_Directory directory # actions @ [Removed_Directory directory]))"

section \<open>The manager\<close>

text \<open>A timer of more than 2,147,483,647 ms fires after one millisecond.\<close>

definition timer_delay_ms :: "rat \<Rightarrow> rat" where
  "timer_delay_ms seconds = (if seconds * 1000 > 2147483647 then 1 else seconds * 1000)"

record identity_manager =
  mg_timer :: "rat option"        \<comment> \<open>the delay of the timer that is set\<close>
  mg_refreshing :: bool
  mg_stopped :: bool

definition start_identity_manager :: "identity_config \<Rightarrow> (string, unit) result \<Rightarrow> (string, identity_manager) result" where
  "start_identity_manager cfg refreshed =
     ebind refreshed (\<lambda>_. Inr \<lparr>mg_timer = Some (timer_delay_ms (ic_refreshSeconds cfg)), mg_refreshing = False, mg_stopped = False\<rparr>)"

definition timer_fires :: "identity_manager \<Rightarrow> identity_manager" where
  "timer_fires mg = mg\<lparr>mg_timer := None, mg_refreshing := True\<rparr>"

definition refresh_settles :: "identity_config \<Rightarrow> (string, unit) result \<Rightarrow> identity_manager \<Rightarrow> identity_manager" where
  "refresh_settles cfg r mg =
     (let seconds = (case r of Inl e \<Rightarrow> ic_retrySeconds cfg | Inr _ \<Rightarrow> ic_refreshSeconds cfg)
      in mg\<lparr>mg_refreshing := False,
            mg_timer := (if mg_stopped mg then mg_timer mg else Some (timer_delay_ms seconds))\<rparr>)"

definition stop_identity_manager :: "identity_manager \<Rightarrow> identity_manager" where
  "stop_identity_manager mg = mg\<lparr>mg_stopped := True, mg_timer := None\<rparr>"

end
