(* ===== verification/Runtime_Identity_Refresh.thy ===== *)
theory Runtime_Identity_Refresh
  imports Runtime_Identity Samples
begin

text \<open>
  What the service identity promises: what is written to the secret, that a refresh ends and cleans
  up, and that the manager keeps refreshing until it is stopped.
\<close>

section \<open>Base64\<close>

text \<open>Reading base64 text back: without its padding, in the URL alphabet.\<close>

definition url_digit :: "char \<Rightarrow> char" where
  "url_digit c = (if c = CHR ''+'' then CHR ''-'' else if c = CHR ''/'' then CHR ''_'' else c)"

definition base64_decode :: "string \<Rightarrow> string" where
  "base64_decode s = base64url_decode (map url_digit (filter (\<lambda>c. c \<noteq> CHR ''='') s))"

lemma digits_checked: "list_all (\<lambda>n. base64url_value (url_digit (base64_digit n)) = n \<and> base64_digit n \<noteq> CHR ''='') [0..<64]"
  by code_simp

lemma digit_value: "n < 64 \<Longrightarrow> base64url_value (url_digit (base64_digit n)) = n" "n < 64 \<Longrightarrow> base64_digit n \<noteq> CHR ''=''"
  using digits_checked by (auto simp: list_all_iff)

lemma of_char_bound: "of_char c < (256 :: nat)"
  by (metis of_char_mod_256 mod_less_divisor zero_less_numeral)

text \<open>A number is put together again from its quotient and its remainder, one or two digits deep.\<close>

lemma two_digits: "(k * j) * (m div (j * k)) + j * (m div j mod k) + m mod j = (m :: nat)"
proof -
  have "k * (m div j div k) + m div j mod k = m div j" "j * (m div j) + m mod j = m" by simp_all
  then have "j * (k * (m div j div k) + m div j mod k) + m mod j = m" by simp
  then have "j * (k * (m div j div k)) + j * (m div j mod k) + m mod j = m" by (simp only: distrib_left)
  moreover have "(k * j) * (m div (j * k)) = j * (k * (m div j div k))" by (simp add: div_mult2_eq)
  ultimately show ?thesis by metis
qed

lemma group_of_three:
  fixes a b c :: nat
  assumes "a < 256" "b < 256" "c < 256"
  defines "n \<equiv> 65536 * a + 256 * b + c"
  shows "n div 262144 < 64" "262144 * (n div 262144) + 4096 * (n div 4096 mod 64) + 64 * (n div 64 mod 64) + n mod 64 = n"
    "n div 65536 = a" "n div 256 mod 256 = b" "n mod 256 = c"
proof -
  show "n div 262144 < 64" using assms by (simp add: n_def)
  have "4096 * (n div 4096) + 64 * (n div 64 mod 64) + n mod 64 = n" using two_digits [of 64 64 n] by simp
  moreover have "64 * (n div 262144) + n div 4096 mod 64 = n div 4096"
    using mult_div_mod_eq [of 64 "n div 4096"] by (simp add: div_mult2_eq [symmetric])
  ultimately show "262144 * (n div 262144) + 4096 * (n div 4096 mod 64) + 64 * (n div 64 mod 64) + n mod 64 = n" by linarith
  have n: "n = (256 * a + b) * 256 + c" by (simp add: n_def)
  have "n div 256 = 256 * a + b" unfolding n using assms(3) by (subst div_mult_self3) simp_all
  then have d: "n div 256 = a * 256 + b" by simp
  show "n div 256 mod 256 = b" unfolding d using assms(2) by (subst mod_mult_self3) simp_all
  have "n div 256 div 256 = a" unfolding d using assms(2) by (subst div_mult_self3) simp_all
  then show "n div 65536 = a" by (simp add: div_mult2_eq [symmetric])
  show "n mod 256 = c" unfolding n using assms(3) by (subst mod_mult_self3) simp_all
qed

lemma char_nat [simp]: "char_of (of_char c :: nat) = c"
  by simp

lemma base64_round_trip: "base64_decode (base64_encode s) = s"
proof (induction s rule: base64_encode.induct)
  case (1 a b c cs)
  let ?a = "of_char a :: nat" and ?b = "of_char b :: nat" and ?c = "of_char c :: nat"
  define n where "n = 65536 * ?a + 256 * ?b + ?c"
  note g = group_of_three [OF of_char_bound [of a] of_char_bound [of b] of_char_bound [of c], folded n_def]
  have lt: "n div 4096 mod 64 < 64" "n div 64 mod 64 < 64" "n mod 64 < 64" by simp_all
  have enc: "base64_encode (a # b # c # cs) =
      map base64_digit [n div 262144, n div 4096 mod 64, n div 64 mod 64, n mod 64] @ base64_encode cs"
    by (simp add: n_def Let_def)
  have "base64_decode (base64_encode (a # b # c # cs)) =
      char_of (n div 65536) # char_of (n div 256 mod 256) # char_of (n mod 256) # base64_decode (base64_encode cs)"
    unfolding enc base64_decode_def using g(1,2) lt by (simp add: digit_value Let_def)
  with 1 g(3-5) show ?case by simp
next
  case (2 a b)
  let ?a = "of_char a :: nat" and ?b = "of_char b :: nat"
  define n where "n = 1024 * ?a + 4 * ?b"
  define m where "m = 256 * ?a + ?b"
  have n: "n = 4 * m" by (simp add: n_def m_def)
  have "?a < 256" "?b < 256" by (rule of_char_bound)+
  then have "n < 64 * 4096" unfolding n_def by linarith
  then have lt: "n div 4096 < 64" "n div 64 mod 64 < 64" "n mod 64 < 64"
    by (simp_all add: less_mult_imp_div_less)
  have "n div 4096 = m div 1024" "n div 64 = m div 16" "n mod 64 div 4 = m mod 16"
    using div_mult_mult1 [of 4 m 1024] div_mult_mult1 [of 4 m 16] mult_mod_right [of 4 m 16] by (simp_all add: n)
  then have v: "1024 * (n div 4096) + 16 * (n div 64 mod 64) + n mod 64 div 4 = n div 4"
    using two_digits [of 64 16 m] by (simp add: n)
  have "n div 4 = 256 * ?a + ?b" by (simp add: n_def)
  with of_char_bound [of b] have "n div 4 div 256 = ?a" "n div 4 mod 256 = ?b" by simp_all
  moreover from this have "char_of (n div 4) = b" by (metis char_nat char_of_mod_256)
  ultimately show ?case using lt v
    unfolding base64_encode.simps Let_def n_def [symmetric] base64_decode_def by (simp add: digit_value Let_def)
next
  case (3 a)
  let ?a = "of_char a :: nat"
  have "?a < 256" by (rule of_char_bound)
  then have "?a div 4 < 64" by (simp add: less_mult_imp_div_less)
  then have "16 * ?a div 64 < 64" "16 * ?a mod 64 < 64" "?a div 4 < 64" using div_mult_mult1 [of 16 ?a 4] by simp_all
  moreover have "16 * ?a div 64 = ?a div 4" "16 * ?a mod 64 div 16 = ?a mod 4"
    using div_mult_mult1 [of 16 ?a 4] mult_mod_right [of 16 ?a 4] by simp_all
  ultimately show ?case by (simp add: base64_decode_def digit_value Let_def)
qed (simp add: base64_decode_def)

section \<open>A refresh\<close>

lemma wait_bounds:
  "wait_for_projection reads late deadline now i expected = (seen, n) \<Longrightarrow>
   i \<le> n \<and> 1000 * (n - i) < deadline - now + 1000 \<and> (seen \<longrightarrow> i < n \<and> reads (n - 1) = Some expected)
   \<and> (\<forall>j. i \<le> j \<and> Suc j < n \<longrightarrow> reads j \<noteq> Some expected)"
proof (induction reads late deadline now i expected arbitrary: seen n rule: wait_for_projection.induct)
  case (1 reads late deadline now i expected)
  show ?case
  proof (cases "deadline \<le> now \<or> reads i = Some expected")
    case True
    with "1.prems" show ?thesis by (subst (asm) wait_for_projection.simps) (auto split: if_splits)
  next
    case False
    with "1.prems" have w: "wait_for_projection reads late deadline (now + 1000 + late i) (Suc i) expected = (seen, n)"
      by (subst (asm) wait_for_projection.simps) simp
    from "1.IH" [OF _ _ w] False have ih: "Suc i \<le> n" "1000 * (n - Suc i) < deadline - (now + 1000 + late i) + 1000"
      "seen \<longrightarrow> Suc i < n \<and> reads (n - 1) = Some expected" "\<forall>j. Suc i \<le> j \<and> Suc j < n \<longrightarrow> reads j \<noteq> Some expected"
      by auto
    have "i \<le> j \<and> Suc j < n \<Longrightarrow> reads j \<noteq> Some expected" for j
      using ih(4) False by (cases "j = i") auto
    moreover have "1000 * (n - i) < deadline - now + 1000"
    proof -
      from ih(1) have "n - i = Suc (n - Suc i)" by simp
      with ih(2) False show ?thesis
        by (cases "now + 1000 + late i \<le> deadline") auto
    qed
    ultimately show ?thesis using ih(1,3) by auto
  qed
qed

lemma assert_certificate_Inr:
  "assert_certificate_matches x509 publicKeyOf nowMs certificate privateKey = Inr u \<longleftrightarrow>
   (\<exists>facts. x509 certificate = Some facts \<and> (\<forall>t. cf_validToMs facts = Some t \<longrightarrow> nowMs < t)
     \<and> publicKeyOf privateKey = Some (cf_publicKey facts))"
  by (auto simp: assert_certificate_matches_def split: option.splits if_splits)

lemma refresh_in_directory_cases:
  "refresh_in_directory pf cfg w nowMs path = (r, actions) \<Longrightarrow>
   actions = [Ran_Command (certificate_command_arguments pf cfg path)] \<and> r \<noteq> Inr () \<or>
   (\<exists>certificate privateKey actions'. iw_read w path = Inr certificate \<and> iw_read w (ic_bootstrapPrivateKeyPath cfg) = Inr privateKey
     \<and> assert_certificate_matches (iw_x509 w) (iw_publicKey w) nowMs certificate privateKey = Inr ()
     \<and> publish_identity pf cfg w certificate privateKey = (r, actions')
     \<and> actions = Ran_Command (certificate_command_arguments pf cfg path) # actions')"
  unfolding refresh_in_directory_def Let_def
  by (auto split: if_splits sum.splits prod.splits)

lemma publish_identity_cases:
  assumes "publish_identity pf cfg w certificate privateKey = (r, actions)"
  obtains "actions = []" "r \<noteq> Inr ()"
    | token ca where "actions = [Patched_Secret (patch_request_for pf cfg token ca certificate privateKey)]" "r \<noteq> Inr ()"
    | token ca seen n where "actions = [Patched_Secret (patch_request_for pf cfg token ca certificate privateKey), Watched_Projection n]"
        "wait_for_projection (iw_projection w) (iw_late w) 120000 0 0 certificate = (seen, n)" "r = Inr () \<longleftrightarrow> seen"
proof -
  let ?t = "iw_read w ''/var/run/secrets/kubernetes.io/serviceaccount/token''"
  let ?c = "iw_read w ''/var/run/secrets/kubernetes.io/serviceaccount/ca.crt''"
  show thesis
  proof (cases "(\<exists>e. ?t = Inl e) \<or> (\<exists>e. ?c = Inl e)")
    case True
    with assms that(1) show ?thesis by (auto simp: publish_identity_def split: sum.splits)
  next
    case False
    then obtain token ca where tc: "?t = Inr token" "?c = Inr ca" by (meson sum.exhaust)
    let ?q = "patch_request_for pf cfg token ca certificate privateKey"
    obtain seen n where wait: "wait_for_projection (iw_projection w) (iw_late w) 120000 0 0 certificate = (seen, n)" by fastforce
    show ?thesis
    proof (cases "patch_answer (iw_kubernetes w ?q)")
      case (Inl e)
      with assms tc have "r = Inl e" "actions = [Patched_Secret ?q]" by (simp_all add: publish_identity_def Let_def)
      with that(2) [of token ca] show ?thesis by simp
    next
      case (Inr u)
      with assms tc wait that(3) show ?thesis by (auto simp: publish_identity_def Let_def)
    qed
  qed
qed

lemma patch_body [simp]: "pt_body (patch_request_for pf cfg token ca certificate privateKey) = identity_secret_patch certificate privateKey"
  by (simp add: patch_request_for_def)

lemma publish_identity_actions:
  assumes "publish_identity pf cfg w certificate privateKey = (r, actions)"
  shows "(Patched_Secret q \<in> set actions \<longrightarrow> pt_body q = identity_secret_patch certificate privateKey)
    \<and> (Watched_Projection m \<in> set actions \<longrightarrow> m \<le> 120) \<and> (r = Inr () \<longrightarrow> (\<exists>i < 120. iw_projection w i = Some certificate))
    \<and> Made_Directory d \<notin> set actions \<and> Removed_Directory d \<notin> set actions"
proof (cases rule: publish_identity_cases [OF assms])
  case (3 token ca seen n)
  from wait_bounds [OF 3(2)] have n: "n \<le> 120" "seen \<longrightarrow> 0 < n \<and> iw_projection w (n - 1) = Some certificate" by auto
  then have "seen \<longrightarrow> n - 1 < 120" by auto
  with n 3 show ?thesis by auto
qed auto

lemma refresh_cases:
  assumes "refresh_service_identity pf cfg w nowMs = (r, actions)"
  obtains e where "iw_directory w = Inl e" "r = Inl e" "actions = []"
    | d r' steps where "iw_directory w = Inr d" "refresh_in_directory pf cfg w nowMs (path_join d ''service.cert.pem'') = (r', steps)"
        "actions = Made_Directory d # steps @ [Removed_Directory d]" "r = Inr () \<longrightarrow> r' = Inr ()"
  using assms unfolding refresh_service_identity_def Let_def
  by (auto split: sum.splits prod.splits option.splits)

lemma refresh_in_directory_actions:
  assumes "refresh_in_directory pf cfg w nowMs path = (r, actions)"
  shows "(Patched_Secret q \<in> set actions \<longrightarrow> (\<exists>certificate privateKey facts.
      iw_read w path = Inr certificate \<and> iw_read w (ic_bootstrapPrivateKeyPath cfg) = Inr privateKey
      \<and> iw_x509 w certificate = Some facts \<and> (\<forall>t. cf_validToMs facts = Some t \<longrightarrow> nowMs < t)
      \<and> iw_publicKey w privateKey = Some (cf_publicKey facts) \<and> pt_body q = identity_secret_patch certificate privateKey))
    \<and> (Watched_Projection m \<in> set actions \<longrightarrow> m \<le> 120)
    \<and> (r = Inr () \<longrightarrow> (\<exists>certificate i. iw_read w path = Inr certificate \<and> i < 120 \<and> iw_projection w i = Some certificate))
    \<and> Made_Directory d \<notin> set actions \<and> Removed_Directory d \<notin> set actions"
  using refresh_in_directory_cases [OF assms]
proof (elim disjE exE conjE)
  fix certificate privateKey actions'
  assume read: "iw_read w path = Inr certificate" "iw_read w (ic_bootstrapPrivateKeyPath cfg) = Inr privateKey"
    and ok: "assert_certificate_matches (iw_x509 w) (iw_publicKey w) nowMs certificate privateKey = Inr ()"
    and p: "publish_identity pf cfg w certificate privateKey = (r, actions')"
    and actions: "actions = Ran_Command (certificate_command_arguments pf cfg path) # actions'"
  note acts = publish_identity_actions [OF p, of q m d]
  have "Patched_Secret q \<in> set actions \<Longrightarrow> pt_body q = identity_secret_patch certificate privateKey"
    using acts by (simp add: actions)
  with acts read ok show ?thesis by (simp add: actions assert_certificate_Inr)
qed auto

text \<open>
  C17. The Kubernetes secret is patched only with the certificate that ZTS issued and the service's
  own private key, and only when the certificate is an X.509 certificate for exactly this key whose
  known end of validity is in the future. Both entries of the patch are base64 text that decodes back
  to them.
\<close>

theorem published_identity_is_valid:
  assumes "refresh_service_identity pf cfg w nowMs = (r, actions)" "Patched_Secret q \<in> set actions"
  shows "\<exists>d certificate privateKey facts c k. iw_directory w = Inr d
    \<and> iw_read w (path_join d ''service.cert.pem'') = Inr certificate \<and> iw_read w (ic_bootstrapPrivateKeyPath cfg) = Inr privateKey
    \<and> iw_x509 w certificate = Some facts \<and> (\<forall>t. cf_validToMs facts = Some t \<longrightarrow> nowMs < t)
    \<and> iw_publicKey w privateKey = Some (cf_publicKey facts)
    \<and> pt_body q = JObj [(''data'', JObj [(''service.cert.pem'', JStr c), (''service.key.pem'', JStr k)])]
    \<and> base64_decode c = certificate \<and> base64_decode k = privateKey"
proof (cases rule: refresh_cases [OF assms(1)])
  case (2 d r' steps)
  with assms(2) have "Patched_Secret q \<in> set steps" by simp
  with refresh_in_directory_actions [OF 2(2), of q 0 d] obtain certificate privateKey facts where
    "iw_read w (path_join d ''service.cert.pem'') = Inr certificate" "iw_read w (ic_bootstrapPrivateKeyPath cfg) = Inr privateKey"
    "iw_x509 w certificate = Some facts" "\<forall>t. cf_validToMs facts = Some t \<longrightarrow> nowMs < t"
    "iw_publicKey w privateKey = Some (cf_publicKey facts)" "pt_body q = identity_secret_patch certificate privateKey"
    by blast
  then show ?thesis using 2(1) by (simp add: identity_secret_patch_def base64_round_trip)
qed (use assms in auto)

definition sample_identity :: identity_config where
  "sample_identity =
     \<lparr>ic_bootstrapPrivateKeyPath = ''key'', ic_dnsDomain = ''zts'', ic_instanceId = ''pod'', ic_keyId = ''k'',
      ic_kubernetesApiHost = ''kube'', ic_kubernetesApiPort = 443, ic_namespace = ''ns'', ic_projectedCertificatePath = ''p'',
      ic_refreshSeconds = 60, ic_retrySeconds = 5, ic_secretName = ''s'', ic_serviceDomain = ''d'', ic_serviceName = ''n'',
      ic_ztsCaPath = ''ca'', ic_ztsUrl = \<lparr>url_protocol = ''https:'', url_username = [], url_password = [],
        url_hostname = ''zts'', url_host = ''zts'', url_pathname = ''/'', url_search = [], url_hash = []\<rparr>\<rparr>"

definition sample_world :: identity_world where
  "sample_world =
     \<lparr>iw_directory = Inr ''/t'', iw_issue = (\<lambda>_. True), iw_read = (\<lambda>path. Inr (if path = ''key'' then ''K'' else ''C'')),
      iw_x509 = (\<lambda>_. Some \<lparr>cf_validToMs = Some 10, cf_publicKey = ''P''\<rparr>), iw_publicKey = (\<lambda>_. Some ''P''),
      iw_kubernetes = (\<lambda>_. Http_Answer (Some 200) []), iw_projection = (\<lambda>i. if i = 0 then None else Some ''C''),
      iw_late = (\<lambda>_. 0), iw_removal = None\<rparr>"

definition sample_patch :: patch_request where
  "sample_patch = patch_request_for sample_platform sample_identity ''C'' ''C'' ''C'' ''K''"

lemma sample_path: "path_join ''/t'' ''service.cert.pem'' = ''/t/service.cert.pem''"
  by code_simp

lemma sample_refresh:
  "refresh_service_identity sample_platform sample_identity sample_world 3 =
     (Inr (), [Made_Directory ''/t'', Ran_Command (certificate_command_arguments sample_platform sample_identity ''/t/service.cert.pem''),
               Patched_Secret sample_patch, Watched_Projection 2, Removed_Directory ''/t''])"
  by (simp add: refresh_service_identity_def refresh_in_directory_def publish_identity_def assert_certificate_matches_def
      patch_answer_def sample_world_def sample_patch_def sample_identity_def wait_for_projection.simps sample_path Let_def)

theorem published_identity_is_valid_witness:
  "\<exists>c k. pt_body sample_patch = JObj [(''data'', JObj [(''service.cert.pem'', JStr c), (''service.key.pem'', JStr k)])]
    \<and> base64_decode c = ''C'' \<and> base64_decode k = ''K''"
  using published_identity_is_valid [OF sample_refresh, of sample_patch]
  by (auto simp: sample_world_def sample_identity_def sample_path)

text \<open>
  C18. A refresh ends, and it cleans up: the temporary directory is the first thing it makes and is
  removed last, however the refresh ends, and nothing else is made or removed. It reads the projected
  certificate at most 120 times, and it succeeds only when one of these reads gave the certificate
  that was issued.
\<close>

theorem refresh_ends_and_cleans_up:
  assumes "refresh_service_identity pf cfg w nowMs = (r, actions)"
  shows "(\<forall>d. iw_directory w = Inr d \<longrightarrow> (\<exists>steps. actions = Made_Directory d # steps @ [Removed_Directory d]
       \<and> (\<forall>x. Made_Directory x \<notin> set steps \<and> Removed_Directory x \<notin> set steps)))
    \<and> (\<forall>n. Watched_Projection n \<in> set actions \<longrightarrow> n \<le> 120)
    \<and> (r = Inr () \<longrightarrow> (\<exists>d certificate i. iw_directory w = Inr d \<and> i < 120
         \<and> iw_read w (path_join d ''service.cert.pem'') = Inr certificate \<and> iw_projection w i = Some certificate))"
proof (cases rule: refresh_cases [OF assms])
  case (2 d r' steps)
  have "(\<forall>x. Made_Directory x \<notin> set steps \<and> Removed_Directory x \<notin> set steps)" "\<forall>n. Watched_Projection n \<in> set steps \<longrightarrow> n \<le> 120"
    "r' = Inr () \<longrightarrow> (\<exists>certificate i. iw_read w (path_join d ''service.cert.pem'') = Inr certificate \<and> i < 120 \<and> iw_projection w i = Some certificate)"
    using refresh_in_directory_actions [OF 2(2)] by blast+
  with 2(1,3,4) show ?thesis by simp blast
qed (use assms in auto)

theorem refresh_ends_and_cleans_up_witness: "\<exists>i < 120. iw_projection sample_world i = Some ''C''"
proof -
  have "iw_read sample_world (path_join ''/t'' ''service.cert.pem'') = Inr ''C''" by (simp add: sample_world_def sample_path)
  moreover have "iw_directory sample_world = Inr ''/t''" by (simp add: sample_world_def)
  ultimately show ?thesis using refresh_ends_and_cleans_up [OF sample_refresh] by fastforce
qed

section \<open>Runs of the manager\<close>

text \<open>
  After its first refresh the manager only reacts: a timer that is set may fire, a refresh that is
  under way may settle, and \<open>stop\<close> may be called at any time.
\<close>

inductive identity_step :: "identity_config \<Rightarrow> identity_manager \<Rightarrow> identity_manager \<Rightarrow> bool" for cfg where
  fires: "mg_timer mg \<noteq> None \<Longrightarrow> identity_step cfg mg (timer_fires mg)"
| settles: "mg_refreshing mg \<Longrightarrow> identity_step cfg mg (refresh_settles cfg r mg)"
| stops: "identity_step cfg mg (stop_identity_manager mg)"

inductive identity_run :: "identity_config \<Rightarrow> identity_manager \<Rightarrow> bool" for cfg where
  start: "start_identity_manager cfg r = Inr mg \<Longrightarrow> identity_run cfg mg"
| step: "identity_run cfg mg \<Longrightarrow> identity_step cfg mg mg' \<Longrightarrow> identity_run cfg mg'"

lemmas identity_manager_defs = start_identity_manager_def timer_fires_def refresh_settles_def stop_identity_manager_def

text \<open>
  In every run, a manager that was stopped has no timer, so it never starts another refresh;
  a manager that was not stopped either has a refresh under way or a timer set, never both, so it
  keeps refreshing and no two refreshes overlap. The timer's delay is the one for the refresh or the
  retry interval of the configuration.
\<close>

theorem manager_keeps_refreshing:
  assumes "identity_run cfg mg"
  shows "(mg_stopped mg \<longrightarrow> mg_timer mg = None) \<and> (\<not> mg_stopped mg \<longrightarrow> (mg_timer mg = None \<longleftrightarrow> mg_refreshing mg))
    \<and> (\<forall>ms. mg_timer mg = Some ms \<longrightarrow> ms = timer_delay_ms (ic_refreshSeconds cfg) \<or> ms = timer_delay_ms (ic_retrySeconds cfg))"
  using assms
proof (induction rule: identity_run.induct)
  case (step mg mg')
  from step.hyps(2) step.IH show ?case
    by (cases rule: identity_step.cases) (auto simp: identity_manager_defs split: sum.splits)
qed (auto simp: identity_manager_defs ebind_eq_Inr)

definition sample_manager :: identity_manager where
  "sample_manager = \<lparr>mg_timer = Some 60000, mg_refreshing = False, mg_stopped = False\<rparr>"

lemma sample_manager_run: "identity_run sample_identity (refresh_settles sample_identity (Inl ''down'') (timer_fires sample_manager))"
proof -
  have "identity_run sample_identity sample_manager"
    by (rule identity_run.start [where r = "Inr ()"]) (simp add: identity_manager_defs sample_manager_def sample_identity_def timer_delay_ms_def)
  then have "identity_run sample_identity (timer_fires sample_manager)"
    by (rule identity_run.step) (rule identity_step.fires, simp add: sample_manager_def)
  then show ?thesis by (rule identity_run.step) (rule identity_step.settles, simp add: timer_fires_def)
qed

theorem manager_keeps_refreshing_witness:
  "mg_timer (refresh_settles sample_identity (Inl ''down'') (timer_fires sample_manager)) \<noteq> None"
  using manager_keeps_refreshing [OF sample_manager_run]
  by (simp add: identity_manager_defs sample_manager_def)

end
