(* ===== verification/Hub_Permissions.thy ===== *)
theory Hub_Permissions
  imports Athenz_Names
begin

text \<open>
  \<^verbatim>\<open>idthw_hub/features/permissions/lib/permissionPreset.ts\<close>: which memberships and policies a tool
  call needs. Settings are parsed from untrusted values, merged, and turned into the preset that the
  hub checks and into the scopes of the tools that the registry publishes.

  Errors are the messages of the exceptions. An object's entries come in property order; an optional
  field is an option.
\<close>

section \<open>Types\<close>

datatype policy_effect = Allow | Deny

record exchange_policy =
  xp_action :: string
  xp_effect :: policy_effect
  xp_resource :: string

record configured_helper =
  ch_label :: string
  ch_member :: string
  ch_policies :: "exchange_policy list option"
  ch_role :: string

record configured_requirement =
  cr_helpers :: "configured_helper list option"
  cr_includeHelpers :: "bool option"
  cr_label :: string
  cr_member :: string
  cr_role :: string

datatype permission_default = Default_None | Default_Not_Defined

record tool_settings =
  ts_default :: "permission_default option"
  ts_tools :: "(string \<times> configured_requirement list) list"

datatype requirement_source = Helper | Managed | Tool

record permission_requirement =
  pq_configuredMember :: string
  pq_exchangePolicies :: "exchange_policy list option"
  pq_policiesCustomized :: bool
  pq_label :: string
  pq_member :: string
  pq_role :: string
  pq_source :: requirement_source
  pq_index :: "nat option"
  pq_helpersCustomized :: bool
  pq_includeHelpers :: "bool option"

record policy_requirement =
  pp_action :: string
  pp_effect :: policy_effect
  pp_label :: string
  pp_resource :: string
  pp_role :: string
  pp_source :: requirement_source
  pp_index :: "nat option"

record preset_group =
  pg_label :: string
  pg_policies :: "policy_requirement list option"
  pg_requirements :: "permission_requirement list"
  pg_toolName :: "string option"

record permission_preset =
  ps_default :: "permission_default option"
  ps_groups :: "preset_group list"
  ps_serverId :: string

definition signed_in_user :: string where
  "signed_in_user = ''<signed_in_user>''"

definition newline :: string where
  "newline = [CHR 0x0A]"

definition effect_text :: "policy_effect \<Rightarrow> string" where
  "effect_text e = (case e of Allow \<Rightarrow> ''ALLOW'' | Deny \<Rightarrow> ''DENY'')"

section \<open>Names\<close>

text \<open>\<^verbatim>\<open>[A-Za-z0-9][A-Za-z0-9._-]*\.[A-Za-z0-9][A-Za-z0-9._-]*\<close>: some dot separates two names.\<close>

definition is_principal :: "string \<Rightarrow> bool" where
  "is_principal s \<longleftrightarrow>
     list_ex (\<lambda>i. s ! i = CHR ''.'' \<and> dotted_name (take i s) \<and> dotted_name (drop (Suc i) s)) [0..<length s]"

text \<open>\<^verbatim>\<open>/^[a-z0-9](?:[a-z0-9._-]{0,251}[a-z0-9])?$/i\<close>\<close>

definition is_route_id :: "string \<Rightarrow> bool" where
  "is_route_id s \<longleftrightarrow> s \<noteq> [] \<and> length s \<le> 253 \<and> is_alnum (hd s) \<and> is_alnum (last s) \<and> list_all is_name_char s"

definition parse_athenz_role :: "string \<Rightarrow> (string, string \<times> string) result" where
  "parse_athenz_role s =
     (if is_role_scope s then Inr (scope_audience s, scope_role s) else Inl (''Invalid Athenz role '' @ json_string s))"

definition check_route_id :: "string \<Rightarrow> (string, unit) result" where
  "check_route_id serverId =
     (if is_route_id serverId then Inr () else Inl (''Invalid MCP server route ID '' @ json_string serverId))"

definition validate_configured_member :: "string \<Rightarrow> string \<Rightarrow> (string, unit) result" where
  "validate_configured_member member location =
     (if member = signed_in_user then Inr ()
      else if CHR ''<'' \<in> set member \<or> CHR ''>'' \<in> set member
      then Inl (''Unknown or partial permission member placeholder '' @ json_string member @ '' at '' @ location)
      else if \<not> is_principal member then Inl (''Invalid Athenz principal '' @ json_string member @ '' at '' @ location)
      else Inr ())"

definition resolve_member :: "string \<Rightarrow> string \<Rightarrow> string \<Rightarrow> (string, string) result" where
  "resolve_member configuredMember signedIn location =
     (if configuredMember = signed_in_user
      then if is_principal signedIn then Inr signedIn
           else Inl (''Signed-in user resolved to invalid Athenz principal '' @ json_string signedIn)
      else ebind (validate_configured_member configuredMember location) (\<lambda>_. Inr configuredMember))"

section \<open>Reading untrusted values\<close>

text \<open>Locations start with a literal of the source or with one of ASCII letters; no other letter is made upper case.\<close>

definition upper_char :: "char \<Rightarrow> char" where
  "upper_char c = (if is_lower c then char_of (of_char c - 32 :: nat) else c)"

definition capitalize :: "string \<Rightarrow> string" where
  "capitalize s = map upper_char (take 1 s) @ drop 1 s"

definition record_at :: "unknown \<Rightarrow> string \<Rightarrow> (string, (string \<times> json) list) result" where
  "record_at v location =
     (case as_record v of None \<Rightarrow> Inl (capitalize location @ '' must be an object'') | Some fs \<Rightarrow> Inr fs)"

definition text_at :: "unknown \<Rightarrow> string \<Rightarrow> (string, string) result" where
  "text_at v location =
     (case as_string v of
        None \<Rightarrow> Inl (capitalize location @ '' must be a non-empty string'')
      | Some s \<Rightarrow> if trim s = [] then Inl (capitalize location @ '' must be a non-empty string'') else Inr s)"

definition boolean_at :: "unknown \<Rightarrow> string \<Rightarrow> (string, bool option) result" where
  "boolean_at v location =
     (case v of None \<Rightarrow> Inr None | Some (JBool b) \<Rightarrow> Inr (Some b)
      | Some _ \<Rightarrow> Inl (capitalize location @ '' must be a boolean''))"

definition array_at :: "unknown \<Rightarrow> string \<Rightarrow> (string, json list) result" where
  "array_at v location =
     (case v of Some (JArr vs) \<Rightarrow> Inr vs | _ \<Rightarrow> Inl (capitalize location @ '' must be an array''))"

text \<open>The first unknown name is reported, unless it is the empty string, which is falsy.\<close>

definition only_keys :: "(string \<times> json) list \<Rightarrow> string list \<Rightarrow> string \<Rightarrow> (string, unit) result" where
  "only_keys fs allowed location =
     (case filter (\<lambda>key. key \<notin> set allowed) (map fst fs) of
        [] \<Rightarrow> Inr ()
      | key # _ \<Rightarrow> if key = [] then Inr () else Inl (''Unknown field '' @ json_string key @ '' in '' @ location))"

text \<open>\<^verbatim>\<open>value.map\<close> with a set of the identities seen: a repeated one is an exception.\<close>

fun unique_items ::
  "(nat \<Rightarrow> json \<Rightarrow> (string, 'a) result) \<Rightarrow> ('a \<Rightarrow> string) \<Rightarrow> (nat \<Rightarrow> 'a \<Rightarrow> string)
   \<Rightarrow> nat \<Rightarrow> string list \<Rightarrow> json list \<Rightarrow> (string, 'a list) result" where
  "unique_items parse identity repeated i seen [] = Inr []"
| "unique_items parse identity repeated i seen (v # vs) =
     ebind (parse i v) (\<lambda>x.
       if identity x \<in> set seen then Inl (repeated i x)
       else ebind (unique_items parse identity repeated (Suc i) (identity x # seen) vs) (\<lambda>xs. Inr (x # xs)))"

definition item_at :: "string \<Rightarrow> nat \<Rightarrow> string" where
  "item_at location i = location @ ''['' @ nat_text i @ '']''"

definition label_at :: "unknown \<Rightarrow> string \<Rightarrow> (string, string) result" where
  "label_at v location = (if v = None then Inr ''Required role membership'' else text_at v (location @ ''.label''))"

definition member_identity :: "string \<Rightarrow> string \<Rightarrow> string" where
  "member_identity member role = member @ newline @ role"

definition parse_exchange_policy :: "unknown \<Rightarrow> string \<Rightarrow> (string, exchange_policy) result" where
  "parse_exchange_policy v location =
     ebind (record_at v location) (\<lambda>policy.
     ebind (only_keys policy [''action'', ''effect'', ''resource''] location) (\<lambda>_.
     ebind (text_at (map_of policy ''effect'') (location @ ''.effect'')) (\<lambda>effect.
     if effect \<noteq> ''ALLOW'' \<and> effect \<noteq> ''DENY'' then Inl (capitalize location @ ''.effect must be ALLOW or DENY'') else
     ebind (text_at (map_of policy ''action'') (location @ ''.action'')) (\<lambda>action.
     ebind (text_at (map_of policy ''resource'') (location @ ''.resource'')) (\<lambda>resource.
     Inr \<lparr>xp_action = action, xp_effect = (if effect = ''ALLOW'' then Allow else Deny), xp_resource = resource\<rparr>)))))"

definition exchange_policy_identity :: "exchange_policy \<Rightarrow> string" where
  "exchange_policy_identity p = effect_text (xp_effect p) @ newline @ xp_action p @ newline @ xp_resource p"

definition parse_exchange_policies :: "unknown \<Rightarrow> string \<Rightarrow> (string, exchange_policy list) result" where
  "parse_exchange_policies v location =
     ebind (array_at v location)
       (unique_items (\<lambda>i policy. parse_exchange_policy (Some policy) (item_at location i)) exchange_policy_identity
          (\<lambda>i _. ''Duplicate exchange policy at '' @ item_at location i) 0 [])"

text \<open>The policies of a helper: the old field \<^verbatim>\<open>policy\<close>, the field \<^verbatim>\<open>policies\<close>, or none.\<close>

definition helper_policies :: "(string \<times> json) list \<Rightarrow> string \<Rightarrow> (string, exchange_policy list option) result" where
  "helper_policies requirement location =
     (let policy = map_of requirement ''policy''; policies = map_of requirement ''policies'' in
      if policy \<noteq> None \<and> policies \<noteq> None then Inl (capitalize location @ '' cannot define both policy and policies'')
      else if policy \<noteq> None then ebind (parse_exchange_policy policy (location @ ''.policy'')) (\<lambda>p. Inr (Some [p]))
      else if policies = None then Inr None
      else ebind (parse_exchange_policies policies (location @ ''.policies'')) (\<lambda>ps. Inr (Some ps)))"

definition parse_helper :: "string \<Rightarrow> nat \<Rightarrow> json \<Rightarrow> (string, configured_helper) result" where
  "parse_helper location i v =
     (let itemLocation = item_at location i in
      ebind (record_at (Some v) itemLocation) (\<lambda>requirement.
      ebind (only_keys requirement [''label'', ''member'', ''policies'', ''policy'', ''role''] itemLocation) (\<lambda>_.
      ebind (text_at (map_of requirement ''member'') (itemLocation @ ''.member'')) (\<lambda>member.
      ebind (text_at (map_of requirement ''role'') (itemLocation @ ''.role'')) (\<lambda>role.
      ebind (label_at (map_of requirement ''label'') itemLocation) (\<lambda>label.
      ebind (validate_configured_member member itemLocation) (\<lambda>_.
      if member = signed_in_user
      then Inl (''Exchange helper requirements at '' @ location @ '' must use static service principals'') else
      ebind (parse_athenz_role role) (\<lambda>_.
      ebind (helper_policies requirement itemLocation) (\<lambda>policies.
      Inr \<lparr>ch_label = label, ch_member = member, ch_policies = policies, ch_role = role\<rparr>)))))))))"

definition parse_helpers :: "unknown \<Rightarrow> string \<Rightarrow> (string, configured_helper list) result" where
  "parse_helpers v location =
     ebind (array_at v location)
       (unique_items (parse_helper location) (\<lambda>h. member_identity (ch_member h) (ch_role h))
          (\<lambda>i h. ''Duplicate exchange helper requirement for '' @ ch_member h @ '' in '' @ ch_role h) 0 [])"

definition optional_helpers :: "unknown \<Rightarrow> string \<Rightarrow> (string, configured_helper list option) result" where
  "optional_helpers v location =
     (if v = None then Inr None else ebind (parse_helpers v location) (\<lambda>hs. Inr (Some hs)))"

definition parse_requirement :: "string \<Rightarrow> nat \<Rightarrow> json \<Rightarrow> (string, configured_requirement) result" where
  "parse_requirement location i v =
     (let itemLocation = item_at location i in
      ebind (record_at (Some v) itemLocation) (\<lambda>requirement.
      ebind (only_keys requirement [''exchangeHelperRequirements'', ''includeExchangeHelpers'', ''label'', ''member'', ''role''] itemLocation) (\<lambda>_.
      ebind (text_at (map_of requirement ''member'') (itemLocation @ ''.member'')) (\<lambda>member.
      ebind (text_at (map_of requirement ''role'') (itemLocation @ ''.role'')) (\<lambda>role.
      ebind (label_at (map_of requirement ''label'') itemLocation) (\<lambda>label.
      ebind (validate_configured_member member itemLocation) (\<lambda>_.
      ebind (parse_athenz_role role) (\<lambda>_.
      ebind (boolean_at (map_of requirement ''includeExchangeHelpers'') (itemLocation @ ''.includeExchangeHelpers'')) (\<lambda>includeHelpers.
      ebind (optional_helpers (map_of requirement ''exchangeHelperRequirements'') (itemLocation @ ''.exchangeHelperRequirements'')) (\<lambda>helpers.
      if (includeHelpers \<noteq> None \<or> helpers \<noteq> None) \<and> member \<noteq> signed_in_user
      then Inl (''Exchange helpers at '' @ itemLocation @ '' require the signed-in-user member'')
      else if helpers \<noteq> None \<and> includeHelpers \<noteq> Some True
      then Inl (''Custom exchange helpers at '' @ itemLocation @ '' require includeExchangeHelpers to be true'')
      else Inr \<lparr>cr_helpers = helpers, cr_includeHelpers = includeHelpers, cr_label = label, cr_member = member, cr_role = role\<rparr>))))))))))"

definition parse_requirements :: "unknown \<Rightarrow> string \<Rightarrow> (string, configured_requirement list) result" where
  "parse_requirements v location =
     ebind (array_at v location)
       (unique_items (parse_requirement location) (\<lambda>r. member_identity (cr_member r) (cr_role r))
          (\<lambda>i r. ''Duplicate permission requirement for '' @ cr_member r @ '' in '' @ cr_role r) 0 [])"

definition parse_default :: "unknown \<Rightarrow> (string, permission_default option) result" where
  "parse_default v =
     (if v = None then Inr None
      else if v = Some (JStr ''none'') then Inr (Some Default_None)
      else if v = Some (JStr ''not-defined'') then Inr (Some Default_Not_Defined)
      else Inl (''Tool permission default must be '' @ json_string ''none'' @ '' or '' @ json_string ''not-defined''))"


section \<open>Settings\<close>

definition preset_version :: unknown where
  "preset_version = Some (JNum (Finite 1))"

definition legacy_helpers :: "string \<Rightarrow> bool option \<Rightarrow> configured_helper list option
    \<Rightarrow> configured_requirement list \<Rightarrow> (string, configured_requirement list) result" where
  "legacy_helpers toolName includeHelpers helpers requirements =
     (if helpers \<noteq> None \<and> includeHelpers \<noteq> Some True
      then Inl (''Custom exchange helpers for tool '' @ toolName @ '' require includeExchangeHelpers to be true'')
      else if includeHelpers = None \<and> helpers = None then Inr requirements
      else if list_ex (\<lambda>r. cr_includeHelpers r \<noteq> None \<or> cr_helpers r \<noteq> None) requirements
      then Inl (''Tool '' @ toolName @ '' cannot mix legacy tool-level and per-permission exchange helpers'')
      else let signedIn = length (filter (\<lambda>r. cr_member r = signed_in_user) requirements) in
        if includeHelpers = Some True \<and> signedIn = 0
        then Inl (''Exchange helpers for tool '' @ toolName @ '' require a signed-in-user permission'')
        else if helpers \<noteq> None \<and> signedIn \<noteq> 1
        then Inl (''Customized legacy exchange helpers for tool '' @ toolName @ '' require exactly one signed-in-user permission'')
        else Inr (map (\<lambda>r. if cr_member r = signed_in_user
               then r\<lparr>cr_helpers := (if helpers \<noteq> None then helpers else cr_helpers r), cr_includeHelpers := includeHelpers\<rparr>
               else r) requirements))"

definition parse_tool :: "string \<times> json \<Rightarrow> (string, string \<times> configured_requirement list) result" where
  "parse_tool = (\<lambda>(toolName, configuredTool).
     if trim toolName = [] then Inl ''Tool permission settings contain an empty tool name'' else
     ebind (record_at (Some configuredTool) (''tool permission settings for '' @ toolName)) (\<lambda>tool.
     ebind (only_keys tool [''exchangeHelperRequirements'', ''includeExchangeHelpers'', ''requirements'']
              (''tool permission settings for '' @ toolName)) (\<lambda>_.
     ebind (parse_requirements (map_of tool ''requirements'') (''requirements for tool '' @ toolName)) (\<lambda>requirements.
     ebind (boolean_at (map_of tool ''includeExchangeHelpers'') (''includeExchangeHelpers for tool '' @ toolName)) (\<lambda>includeHelpers.
     ebind (optional_helpers (map_of tool ''exchangeHelperRequirements'') (''exchangeHelperRequirements for tool '' @ toolName)) (\<lambda>helpers.
     ebind (legacy_helpers toolName includeHelpers helpers requirements) (\<lambda>requirements'.
     Inr (toolName, requirements'))))))))"

text \<open>
  \<^verbatim>\<open>tools[toolName] = ...\<close> adds an entry, except that \<^verbatim>\<open>__proto__\<close> replaces the object's prototype
  and adds none.
\<close>

definition own_tools :: "(string \<times> 'a) list \<Rightarrow> (string \<times> 'a) list" where
  "own_tools tools = filter (\<lambda>(name, _). name \<noteq> ''__proto__'') tools"

definition parse_tool_settings :: "unknown \<Rightarrow> (string, tool_settings) result" where
  "parse_tool_settings v =
     ebind (record_at v ''tool permission settings'') (\<lambda>root.
     ebind (only_keys root [''defaultPermission'', ''version'', ''tools''] ''tool permission settings'') (\<lambda>_.
     if map_of root ''version'' \<noteq> preset_version then Inl ''Tool permission settings version must be 1'' else
     ebind (parse_default (map_of root ''defaultPermission'')) (\<lambda>defaultPermission.
     ebind (record_at (map_of root ''tools'') ''tool permission settings tools'') (\<lambda>configuredTools.
     ebind (emap parse_tool configuredTools) (\<lambda>parsed.
     if own_tools parsed = [] \<and> defaultPermission = None
     then Inl ''Tool permission settings must define at least one tool''
     else Inr \<lparr>ts_default = defaultPermission, ts_tools = own_tools parsed\<rparr>)))))"

text \<open>
  \<^verbatim>\<open>servers[serverId]\<close> finds what every object inherits, too: functions, and the prototype itself,
  which has an accessor name. Neither is \<^verbatim>\<open>undefined\<close>.
\<close>

definition server_settings :: "unknown \<Rightarrow> string \<Rightarrow> (string, tool_settings option) result" where
  "server_settings v serverId =
     ebind (record_at v ''permission preset'') (\<lambda>root.
     ebind (only_keys root [''version'', ''servers''] ''permission preset'') (\<lambda>_.
     if map_of root ''version'' \<noteq> preset_version then Inl ''Permission preset version must be 1'' else
     ebind (record_at (map_of root ''servers'') ''permission preset servers'') (\<lambda>servers.
     let location = ''permission preset for '' @ serverId in
     if map_of servers serverId = None \<and> serverId \<notin> set inherited_names then Inr None else
     ebind (check_route_id serverId) (\<lambda>_.
     ebind (record_at (map_of servers serverId) location) (\<lambda>server.
     ebind (only_keys server [''defaultPermission'', ''tools''] location) (\<lambda>_.
     ebind (parse_tool_settings (Some (JObj
         ((case map_of server ''defaultPermission'' of None \<Rightarrow> [] | Some d \<Rightarrow> [(''defaultPermission'', d)]) @
          [(''version'', JNum (Finite 1))] @
          (case map_of server ''tools'' of None \<Rightarrow> [] | Some t \<Rightarrow> [(''tools'', t)]))))) (\<lambda>settings.
     Inr (Some settings))))))))"

section \<open>Merging\<close>

text \<open>
  The order of an object's properties: array indices (\<^verbatim>\<open>0\<close>, or digits without a leading zero,
  below 4294967295) ascending, then the other names as they were added.
\<close>

definition index_value :: "string \<Rightarrow> nat" where
  "index_value s = foldl (\<lambda>n c. 10 * n + (of_char c - 48)) 0 s"

definition is_array_index :: "string \<Rightarrow> bool" where
  "is_array_index s \<longleftrightarrow>
     s \<noteq> [] \<and> list_all is_digit s \<and> (s = ''0'' \<or> hd s \<noteq> CHR ''0'') \<and> length s \<le> 10 \<and> index_value s < 4294967295"

definition property_order :: "(string \<times> 'a) list \<Rightarrow> (string \<times> 'a) list" where
  "property_order fs =
     sort_key (\<lambda>(name, _). index_value name) (filter (\<lambda>(name, _). is_array_index name) fs)
     @ filter (\<lambda>(name, _). \<not> is_array_index name) fs"

text \<open>\<^verbatim>\<open>{ ...base, ...overrides }\<close>\<close>

definition spread :: "(string \<times> 'a) list \<Rightarrow> (string \<times> 'a) list \<Rightarrow> (string \<times> 'a) list" where
  "spread base overrides = property_order (foldl (\<lambda>fs (name, x). AList.update name x fs) base overrides)"

definition merge_tool_settings :: "tool_settings option \<Rightarrow> tool_settings option \<Rightarrow> tool_settings option" where
  "merge_tool_settings base overrides =
     (case (base, overrides) of
        (None, _) \<Rightarrow> overrides
      | (_, None) \<Rightarrow> base
      | (Some b, Some u) \<Rightarrow>
          Some \<lparr>ts_default = (case ts_default u of None \<Rightarrow> ts_default b | Some d \<Rightarrow> Some d),
                ts_tools = spread (ts_tools b) (ts_tools u)\<rparr>)"

section \<open>The scopes of the tools\<close>

definition check_roles :: "string list \<Rightarrow> (string, unit) result" where
  "check_roles roles = ebind (emap parse_athenz_role roles) (\<lambda>_. Inr ())"

definition parse_access_scope :: "string option \<Rightarrow> (string, string list) result" where
  "parse_access_scope value =
     (let roles = uniq (case value of None \<Rightarrow> [] | Some v \<Rightarrow> words (trim v))
      in ebind (check_roles roles) (\<lambda>_. Inr roles))"

definition tool_access_scope ::
  "string list \<Rightarrow> string \<times> configured_requirement list \<Rightarrow> (string, string \<times> string) result" where
  "tool_access_scope routeRoles = (\<lambda>(toolName, requirements).
     let roles = map cr_role (filter (\<lambda>r. cr_member r = signed_in_user) requirements);
         scopes = canonical (roles @ routeRoles) in
     if scopes = [] then Inl (''Tool '' @ toolName @ '' has no signed-in-user or managed access scope'')
     else Inr (toolName, join '' '' scopes))"

definition tool_access_scopes :: "tool_settings \<Rightarrow> string \<Rightarrow> string option \<Rightarrow> (string, (string \<times> string) list) result" where
  "tool_access_scopes settings serverId routeAccessScope =
     ebind (check_route_id serverId) (\<lambda>_.
     ebind (parse_access_scope routeAccessScope) (\<lambda>routeRoles.
     emap (tool_access_scope routeRoles) (ts_tools settings)))"

definition tool_access_scopes_for_server ::
  "unknown \<Rightarrow> string \<Rightarrow> string option \<Rightarrow> (string, (string \<times> string) list option) result" where
  "tool_access_scopes_for_server v serverId routeAccessScope =
     ebind (server_settings v serverId) (\<lambda>settings.
       case settings of
         None \<Rightarrow> Inr None
       | Some s \<Rightarrow> ebind (tool_access_scopes s serverId routeAccessScope) (\<lambda>scopes. Inr (Some scopes)))"


section \<open>Presets\<close>

definition resolve_requirement ::
  "configured_requirement \<Rightarrow> string \<Rightarrow> string \<Rightarrow> nat option \<Rightarrow> (string, permission_requirement) result" where
  "resolve_requirement r location signedIn index =
     ebind (resolve_member (cr_member r) signedIn location) (\<lambda>member.
     Inr \<lparr>pq_configuredMember = cr_member r, pq_exchangePolicies = None, pq_policiesCustomized = False, pq_label = cr_label r,
          pq_member = member, pq_role = cr_role r, pq_source = Tool, pq_index = index,
          pq_helpersCustomized = (cr_helpers r \<noteq> None), pq_includeHelpers = cr_includeHelpers r\<rparr>)"

text \<open>A helper is a requirement without helpers of its own.\<close>

definition requirement_of_helper :: "configured_helper \<Rightarrow> configured_requirement" where
  "requirement_of_helper h =
     \<lparr>cr_helpers = None, cr_includeHelpers = None, cr_label = ch_label h, cr_member = ch_member h, cr_role = ch_role h\<rparr>"

definition role_of :: "string \<Rightarrow> string \<Rightarrow> string" where
  "role_of domain role = domain @ role_separator @ role"

definition helpers_of_role :: "string \<Rightarrow> string \<Rightarrow> string \<times> string \<Rightarrow> configured_helper list" where
  "helpers_of_role servicePrincipal gatewayPrincipal = (\<lambda>(domain, role).
     [\<lparr>ch_label = ''MCP Gateway can request delegated downstream access'', ch_member = gatewayPrincipal,
       ch_policies = None, ch_role = role_of domain (role @ ''-jag-exchanger'')\<rparr>,
      \<lparr>ch_label = ''MCP service can exchange into the downstream role'', ch_member = servicePrincipal,
       ch_policies = None, ch_role = role_of domain (role @ ''-exchanger'')\<rparr>])"

fun first_of_each :: "('a \<Rightarrow> 'k) \<Rightarrow> 'k list \<Rightarrow> 'a list \<Rightarrow> 'a list" where
  "first_of_each key seen [] = []"
| "first_of_each key seen (x # xs) =
     (if key x \<in> set seen then first_of_each key seen xs else x # first_of_each key (key x # seen) xs)"

definition exchange_helpers ::
  "configured_requirement list \<Rightarrow> string \<Rightarrow> string \<Rightarrow> (string, configured_helper list) result" where
  "exchange_helpers requirements servicePrincipal gatewayPrincipal =
     ebind (validate_configured_member servicePrincipal ''exchange helper MCP service principal'') (\<lambda>_.
     ebind (validate_configured_member gatewayPrincipal ''exchange helper Gateway principal'') (\<lambda>_.
     ebind (emap (\<lambda>r. parse_athenz_role (cr_role r)) (filter (\<lambda>r. cr_member r = signed_in_user) requirements)) (\<lambda>directRoles.
     if directRoles = [] then Inl ''Exchange helpers require at least one signed-in-user tool permission''
     else Inr (first_of_each (\<lambda>h. member_identity (ch_member h) (ch_role h)) []
                 (concat (map (helpers_of_role servicePrincipal gatewayPrincipal) directRoles))))))"

record helper_context =
  hx_gatewayPrincipal :: "string option"
  hx_servicePrincipal :: "string option"

definition default_gateway_principal :: string where
  "default_gateway_principal = ''mcp-hub.mcp-gateway''"

definition helper_requirement ::
  "string \<Rightarrow> string \<Rightarrow> nat \<Rightarrow> nat \<times> configured_helper \<Rightarrow> (string, permission_requirement) result" where
  "helper_requirement location signedIn toolIndex = (\<lambda>(helperIndex, helper).
     ebind (resolve_requirement (requirement_of_helper helper) (''exchange helpers for '' @ item_at location helperIndex) signedIn None) (\<lambda>r.
     Inr (r\<lparr>pq_exchangePolicies := ch_policies helper, pq_policiesCustomized := (ch_policies helper \<noteq> None),
            pq_source := Helper, pq_index := Some toolIndex\<rparr>)))"

definition requirements_of ::
  "helper_context option \<Rightarrow> string \<Rightarrow> string \<Rightarrow> nat \<times> configured_requirement \<Rightarrow> (string, permission_requirement list) result" where
  "requirements_of context toolName signedIn = (\<lambda>(index, r).
     let location = ''requirements for tool '' @ item_at toolName index in
     ebind (resolve_requirement r location signedIn (Some index)) (\<lambda>direct.
     if cr_includeHelpers r \<noteq> Some True then Inr [direct] else
     ebind (case cr_helpers r of
              Some hs \<Rightarrow> Inr hs
            | None \<Rightarrow> exchange_helpers [r]
                (case context of None \<Rightarrow> [] | Some c \<Rightarrow> (case hx_servicePrincipal c of None \<Rightarrow> [] | Some p \<Rightarrow> p))
                (case context of None \<Rightarrow> default_gateway_principal
                 | Some c \<Rightarrow> (case hx_gatewayPrincipal c of None \<Rightarrow> default_gateway_principal | Some p \<Rightarrow> p))) (\<lambda>helpers.
     ebind (emap (helper_requirement location signedIn index) (enumerate 0 helpers)) (\<lambda>rs.
     Inr (direct # rs)))))"

definition policies_of :: "permission_requirement \<Rightarrow> policy_requirement list" where
  "policies_of r =
     (if pq_source r = Helper
      then map (\<lambda>p. \<lparr>pp_action = xp_action p, pp_effect = xp_effect p, pp_label = ''Configured exchange policy'',
                     pp_resource = xp_resource p, pp_role = pq_role r, pp_source = Helper, pp_index = pq_index r\<rparr>)
             (case pq_exchangePolicies r of None \<Rightarrow> [] | Some ps \<Rightarrow> ps)
      else [])"

definition group_of_tool ::
  "helper_context option \<Rightarrow> string \<Rightarrow> string \<times> configured_requirement list \<Rightarrow> (string, preset_group) result" where
  "group_of_tool context signedIn = (\<lambda>(toolName, configured).
     ebind (emap (requirements_of context toolName signedIn) (enumerate 0 configured)) (\<lambda>rss.
     let requirements = concat rss; policies = concat (map policies_of requirements) in
     Inr \<lparr>pg_label = ''Tool: '' @ toolName, pg_policies = (if policies = [] then None else Some policies),
          pg_requirements = requirements, pg_toolName = Some toolName\<rparr>))"

definition preset_of_settings ::
  "tool_settings \<Rightarrow> string \<Rightarrow> string \<Rightarrow> helper_context option \<Rightarrow> (string, permission_preset) result" where
  "preset_of_settings settings serverId signedIn context =
     ebind (check_route_id serverId) (\<lambda>_.
     ebind (emap (group_of_tool context signedIn) (ts_tools settings)) (\<lambda>groups.
     Inr \<lparr>ps_default = ts_default settings, ps_groups = groups, ps_serverId = serverId\<rparr>))"

definition parse_preset ::
  "unknown \<Rightarrow> string \<Rightarrow> string \<Rightarrow> helper_context option \<Rightarrow> (string, permission_preset option) result" where
  "parse_preset v serverId signedIn context =
     ebind (server_settings v serverId) (\<lambda>settings.
       case settings of
         None \<Rightarrow> Inr None
       | Some s \<Rightarrow> ebind (preset_of_settings s serverId signedIn context) (\<lambda>preset. Inr (Some preset)))"


section \<open>The policies of the token exchanges\<close>

record exchange_rule =
  er_action :: string
  er_effect :: policy_effect
  er_resource :: string
  er_role :: string

definition exchange_rules :: "string \<Rightarrow> string \<Rightarrow> string option \<Rightarrow> (string, exchange_rule list) result" where
  "exchange_rules targetRole sourceAudience sourceExchangeRole =
     ebind (parse_athenz_role targetRole) (\<lambda>(domain, role).
     let source = trim sourceAudience; sourceRole = (case sourceExchangeRole of None \<Rightarrow> [] | Some r \<Rightarrow> r) in
     if \<not> dotted_name source then Inl (''Invalid Athenz source audience '' @ json_string sourceAudience) else
     ebind (if sourceRole = [] then Inr source else ebind (parse_athenz_role sourceRole) (\<lambda>(d, _). Inr d)) (\<lambda>d.
     if d \<noteq> source then Inl ''Athenz source-exchange role must belong to the source audience''
     else Inr
       ([\<lparr>er_action = ''zts.jag_exchange'', er_effect = Allow, er_resource = targetRole, er_role = role_of domain (role @ ''-jag-exchanger'')\<rparr>]
        @ (if sourceRole = [] then []
           else [\<lparr>er_action = ''zts.token_source_exchange'', er_effect = Allow, er_resource = source @ '':'' @ domain, er_role = sourceRole\<rparr>])
        @ [\<lparr>er_action = ''zts.token_target_exchange'', er_effect = Allow, er_resource = domain @ '':'' @ role_of source role,
            er_role = role_of domain (role @ ''-exchanger'')\<rparr>])))"

definition policy_identity :: "policy_effect \<Rightarrow> string \<Rightarrow> string \<Rightarrow> string \<Rightarrow> string" where
  "policy_identity effect action role resource =
     effect_text effect @ newline @ action @ newline @ role @ newline @ resource"

definition identity_of_policy :: "policy_requirement \<Rightarrow> string" where
  "identity_of_policy p = policy_identity (pp_effect p) (pp_action p) (pp_role p) (pp_resource p)"

definition helper_role_key :: "nat option \<Rightarrow> string \<Rightarrow> string" where
  "helper_role_key index role = (case index of None \<Rightarrow> [] | Some i \<Rightarrow> nat_text i) @ newline @ role"

definition customized_helper_roles :: "preset_group \<Rightarrow> policy_requirement list \<Rightarrow> string list" where
  "customized_helper_roles g policies =
     map (\<lambda>p. helper_role_key (pp_index p) (pp_role p)) (filter (\<lambda>p. pp_source p = Helper) policies)
     @ map (\<lambda>r. helper_role_key (pq_index r) (pq_role r))
         (filter (\<lambda>r. pq_source r = Helper \<and> pq_policiesCustomized r) (pg_requirements g))"

definition source_exchange_role :: "preset_group \<Rightarrow> string option" where
  "source_exchange_role g =
     map_option pq_role (find (\<lambda>r. pq_source r = Managed \<and>
       (ends_with '':role.accessor-source-exchanger'' (pq_role r) \<or> ends_with ''-accessor-source-exchanger'' (pq_role r)))
       (pg_requirements g))"

text \<open>\<^verbatim>\<open>addPolicy\<close>; the state is the policies and the identities seen.\<close>

type_synonym policy_state = "policy_requirement list \<times> string list"

definition add_policy ::
  "string list \<Rightarrow> string list \<Rightarrow> nat option \<Rightarrow> exchange_rule \<Rightarrow> string \<Rightarrow> requirement_source \<Rightarrow> policy_state \<Rightarrow> policy_state" where
  "add_policy requirementRoles customized index rule label source = (\<lambda>(policies, seen).
     let identity = policy_identity (er_effect rule) (er_action rule) (er_role rule) (er_resource rule) in
     if er_role rule \<notin> set requirementRoles then (policies, seen)
     else if source = Helper \<and> helper_role_key index (er_role rule) \<in> set customized then (policies, seen)
     else if identity \<in> set seen then (policies, seen)
     else (policies @ [\<lparr>pp_action = er_action rule, pp_effect = er_effect rule, pp_label = label, pp_resource = er_resource rule,
                        pp_role = er_role rule, pp_source = source, pp_index = index\<rparr>], identity # seen))"

definition add_requirement_policies ::
  "string list \<Rightarrow> string list \<Rightarrow> string option \<Rightarrow> string \<Rightarrow> permission_requirement \<Rightarrow> policy_state \<Rightarrow> (string, policy_state) result" where
  "add_requirement_policies requirementRoles customized sourceRole sourceAudience r st =
     (if pq_configuredMember r \<noteq> signed_in_user then Inr st
      else let add = add_policy requirementRoles customized (pq_index r); isTool = (pq_source r = Tool) in
        ebind (exchange_rules (pq_role r) sourceAudience (if isTool then sourceRole else None)) (\<lambda>rules.
        let st' = add (hd rules) (if isTool then ''ID-JAG exchange policy'' else ''MCP access ID-JAG policy'')
                    (if isTool then Helper else Managed) st in
        Inr (if \<not> isTool then st'
             else fold (\<lambda>rule. if er_action rule = ''zts.token_source_exchange''
                    then add rule ''Source-token exchange policy'' Managed
                    else add rule ''Target-token exchange policy'' Helper) (tl rules) st')))"

definition group_policies :: "string \<Rightarrow> preset_group \<Rightarrow> (string, policy_requirement list) result" where
  "group_policies sourceAudience g =
     (let policies = (case pg_policies g of None \<Rightarrow> [] | Some ps \<Rightarrow> ps) in
      ebind (efold (add_requirement_policies (map pq_role (pg_requirements g)) (customized_helper_roles g policies)
               (source_exchange_role g) sourceAudience) (pg_requirements g) (policies, map identity_of_policy policies))
        (\<lambda>(policies', seen). Inr policies'))"

definition with_exchange_policies ::
  "permission_preset option \<Rightarrow> string option \<Rightarrow> (string, permission_preset option) result" where
  "with_exchange_policies preset sourceAudience =
     (case (preset, sourceAudience) of
        (Some p, Some (c # cs)) \<Rightarrow>
          ebind (emap (\<lambda>g. ebind (group_policies (c # cs) g) (\<lambda>ps. Inr (g\<lparr>pg_policies := Some ps\<rparr>))) (ps_groups p)) (\<lambda>groups.
          Inr (Some (p\<lparr>ps_groups := groups\<rparr>)))
      | _ \<Rightarrow> Inr preset)"

section \<open>Access that the hub manages\<close>

definition managed_requirement :: "string \<Rightarrow> string \<Rightarrow> string \<Rightarrow> string \<Rightarrow> permission_requirement" where
  "managed_requirement configuredMember label member role =
     \<lparr>pq_configuredMember = configuredMember, pq_exchangePolicies = None, pq_policiesCustomized = False, pq_label = label,
      pq_member = member, pq_role = role, pq_source = Managed, pq_index = None, pq_helpersCustomized = False, pq_includeHelpers = None\<rparr>"

definition managed_requirements_of ::
  "string \<Rightarrow> string \<Rightarrow> string option \<Rightarrow> string \<Rightarrow> (string, permission_requirement list) result" where
  "managed_requirements_of signedIn gatewayPrincipal servicePrincipal scope =
     ebind (parse_athenz_role scope) (\<lambda>(domain, role).
     Inr ([managed_requirement signed_in_user ''Signed-in user can invoke this Athenz-protected MCP server'' signedIn scope,
           managed_requirement gatewayPrincipal ''MCP Gateway can request protected MCP access'' gatewayPrincipal
             (role_of domain (role @ ''-jag-exchanger''))]
          @ (case servicePrincipal of
               Some (c # cs) \<Rightarrow> [managed_requirement (c # cs) ''MCP service can exchange from this MCP server access role'' (c # cs)
                                   (role_of domain (role @ ''-source-exchanger''))]
             | _ \<Rightarrow> [])))"

definition merge_requirements :: "permission_requirement list \<Rightarrow> permission_requirement list \<Rightarrow> permission_requirement list" where
  "merge_requirements current added =
     (let identities = map (\<lambda>r. member_identity (pq_member r) (pq_role r)) current
      in current @ filter (\<lambda>r. member_identity (pq_member r) (pq_role r) \<notin> set identities) added)"

definition managed_group :: "string \<Rightarrow> permission_requirement list \<Rightarrow> preset_group" where
  "managed_group label requirements = \<lparr>pg_label = label, pg_policies = None, pg_requirements = requirements, pg_toolName = None\<rparr>"

definition add_managed_requirements ::
  "permission_preset option \<Rightarrow> string \<Rightarrow> permission_requirement list \<Rightarrow> permission_preset" where
  "add_managed_requirements preset serverId requirements =
     (case preset of
        None \<Rightarrow> \<lparr>ps_default = None, ps_groups = [managed_group ''Athenz-protected MCP access'' requirements], ps_serverId = serverId\<rparr>
      | Some p \<Rightarrow>
          let groups = map (\<lambda>g. g\<lparr>pg_requirements := merge_requirements (pg_requirements g) requirements\<rparr>) (ps_groups p) in
          p\<lparr>ps_groups := (if groups = [] \<or> ps_default p = Some Default_None
                          then groups @ [managed_group ''Default MCP tool access'' requirements] else groups)\<rparr>)"

definition check_principal :: "string \<Rightarrow> string \<Rightarrow> (string, unit) result" where
  "check_principal who p =
     (if is_principal p then Inr () else Inl (who @ '' resolved to invalid Athenz principal '' @ json_string p))"

definition with_managed_access ::
  "permission_preset option \<Rightarrow> string \<Rightarrow> string option \<Rightarrow> string \<Rightarrow> string \<Rightarrow> string option
   \<Rightarrow> (string, permission_preset option) result" where
  "with_managed_access preset serverId routeAccessScope signedIn gatewayPrincipal servicePrincipal =
     ebind (parse_access_scope routeAccessScope) (\<lambda>roles.
     if roles = [] then Inr preset else
     ebind (check_principal ''Signed-in user'' signedIn) (\<lambda>_.
     ebind (check_principal ''MCP Gateway'' gatewayPrincipal) (\<lambda>_.
     ebind (case servicePrincipal of Some (c # cs) \<Rightarrow> check_principal ''MCP service'' (c # cs) | _ \<Rightarrow> Inr ()) (\<lambda>_.
     ebind (emap (managed_requirements_of signedIn gatewayPrincipal servicePrincipal) roles) (\<lambda>rss.
     Inr (Some (add_managed_requirements preset serverId (concat rss))))))))"

end
