(* ===== verification/Hub_Permission_Rules.thy ===== *)
theory Hub_Permission_Rules
  imports Hub_Permissions
begin

text \<open>
  What the permission settings guarantee once they are parsed, merged and expanded: they are well
  formed whatever value they came from, and the policies that are added are allowances for roles that
  the group requires, each once.
\<close>

section \<open>Names\<close>

lemma name_char_dotted: "dotted_name s \<Longrightarrow> c \<in> set s \<Longrightarrow> is_name_char c"
  by (auto simp: dotted_name_def list_all_iff)

lemma principal_chars: "is_principal s \<Longrightarrow> c \<in> set s \<Longrightarrow> is_name_char c"
proof -
  assume "is_principal s" and c: "c \<in> set s"
  then obtain i where i: "i < length s" "s ! i = CHR ''.''" "dotted_name (take i s)" "dotted_name (drop (Suc i) s)"
    by (auto simp: is_principal_def list_ex_iff)
  then have "s = take i s @ CHR ''.'' # drop (Suc i) s" using id_take_nth_drop [of i s] by simp
  with c have "c \<in> set (take i s) \<or> c = CHR ''.'' \<or> c \<in> set (drop (Suc i) s)" by (metis Un_iff set_ConsD set_append)
  with i(3,4) show ?thesis by (auto dest: name_char_dotted simp: is_name_char_def)
qed

lemma principal_not_placeholder: "is_principal s \<Longrightarrow> s \<noteq> signed_in_user"
  by (auto simp: signed_in_user_def char_class_defs dest: principal_chars [where c = "CHR ''<''"])

lemma validate_member_Inr [simp]:
  "validate_configured_member m location = Inr u \<longleftrightarrow> m = signed_in_user \<or> is_principal m"
  by (auto simp: validate_configured_member_def char_class_defs dest: principal_chars)

lemma resolve_member_Inr [simp]:
  "resolve_member m signedIn location = Inr p \<longleftrightarrow>
   (if m = signed_in_user then is_principal signedIn \<and> p = signedIn else is_principal m \<and> p = m)"
  by (auto simp: resolve_member_def result_simps)

lemma parse_role_Inr [simp]: "parse_athenz_role s = Inr (d, r) \<longleftrightarrow> is_role_scope s \<and> d = scope_audience s \<and> r = scope_role s"
  by (auto simp: parse_athenz_role_def)

lemma parse_role_ok: "(\<exists>x. parse_athenz_role s = Inr x) \<longleftrightarrow> is_role_scope s"
  by (simp add: parse_athenz_role_def)

lemma text_at_Inr [simp]: "text_at v location = Inr s \<longleftrightarrow> v = Some (JStr s) \<and> trim s \<noteq> []"
  by (auto simp: text_at_def split: option.splits)

section \<open>Well-formed settings\<close>

definition policy_ok :: "exchange_policy \<Rightarrow> bool" where
  "policy_ok p \<longleftrightarrow> trim (xp_action p) \<noteq> [] \<and> trim (xp_resource p) \<noteq> []"

definition helper_ok :: "configured_helper \<Rightarrow> bool" where
  "helper_ok h \<longleftrightarrow> is_principal (ch_member h) \<and> is_role_scope (ch_role h) \<and>
     (case ch_policies h of None \<Rightarrow> True | Some ps \<Rightarrow> list_all policy_ok ps \<and> distinct ps)"

definition helpers_ok :: "configured_helper list \<Rightarrow> bool" where
  "helpers_ok hs \<longleftrightarrow> list_all helper_ok hs \<and> distinct (map (\<lambda>h. (ch_member h, ch_role h)) hs)"

definition requirement_ok :: "configured_requirement \<Rightarrow> bool" where
  "requirement_ok r \<longleftrightarrow> (cr_member r = signed_in_user \<or> is_principal (cr_member r)) \<and> is_role_scope (cr_role r)
     \<and> (cr_includeHelpers r \<noteq> None \<longrightarrow> cr_member r = signed_in_user)
     \<and> (case cr_helpers r of None \<Rightarrow> True | Some hs \<Rightarrow> cr_includeHelpers r = Some True \<and> helpers_ok hs)"

definition requirements_ok :: "configured_requirement list \<Rightarrow> bool" where
  "requirements_ok rs \<longleftrightarrow> list_all requirement_ok rs \<and> distinct (map (\<lambda>r. (cr_member r, cr_role r)) rs)"

definition settings_ok :: "tool_settings \<Rightarrow> bool" where
  "settings_ok s \<longleftrightarrow> list_all (\<lambda>(name, rs). trim name \<noteq> [] \<and> requirements_ok rs) (ts_tools s)
     \<and> (ts_tools s \<noteq> [] \<or> ts_default s \<noteq> None)"

lemmas permission_ok_defs = policy_ok_def helper_ok_def helpers_ok_def requirement_ok_def requirements_ok_def settings_ok_def

lemma unique_items_Inr:
  assumes "unique_items parse identity repeated i seen vs = Inr xs" "\<And>i v x. parse i v = Inr x \<Longrightarrow> P x"
  shows "list_all P xs \<and> distinct (map identity xs) \<and> set (map identity xs) \<inter> set seen = {}"
  using assms(1)
proof (induction vs arbitrary: i seen xs)
  case (Cons v vs)
  then obtain x ys where x: "parse i v = Inr x" "identity x \<notin> set seen" "xs = x # ys"
    and ys: "unique_items parse identity repeated (Suc i) (identity x # seen) vs = Inr ys"
    by (auto simp: ebind_eq_Inr split: if_splits)
  from Cons.IH [OF ys] x assms(2) show ?case by auto
qed simp

text \<open>Items with different identities differ in what the identity is made of.\<close>

lemma distinct_by: "distinct (map f xs) \<Longrightarrow> (\<And>x y. g x = g y \<Longrightarrow> f x = f y) \<Longrightarrow> distinct (map g xs)"
  unfolding distinct_map inj_on_def by blast

lemma array_items_Inr:
  assumes "ebind (array_at v location) (unique_items parse identity repeated 0 []) = Inr xs" "\<And>i v x. parse i v = Inr x \<Longrightarrow> P x"
    "\<And>x y. g x = g y \<Longrightarrow> identity x = identity y"
  shows "list_all P xs \<and> distinct (map g xs)"
proof -
  from assms(1) obtain vs where "unique_items parse identity repeated 0 [] vs = Inr xs" by (auto simp: ebind_eq_Inr)
  from unique_items_Inr [OF this, where P = P] distinct_by [of identity xs g] assms(2,3) show ?thesis by blast
qed

lemma parse_exchange_policy_ok: "parse_exchange_policy v location = Inr p \<Longrightarrow> policy_ok p"
  by (auto simp: parse_exchange_policy_def policy_ok_def result_simps split: if_splits)

lemma parse_exchange_policies_ok:
  assumes "parse_exchange_policies v location = Inr ps"
  shows "list_all policy_ok ps \<and> distinct ps"
  using array_items_Inr [OF assms [unfolded parse_exchange_policies_def], of policy_ok "\<lambda>p. p"] parse_exchange_policy_ok by simp

lemma helper_policies_ok:
  "helper_policies requirement location = Inr ps \<Longrightarrow> (case ps of None \<Rightarrow> True | Some ps \<Rightarrow> list_all policy_ok ps \<and> distinct ps)"
  by (auto simp: helper_policies_def Let_def result_simps parse_exchange_policies_ok parse_exchange_policy_ok split: if_splits)

lemma parse_helper_ok: "parse_helper location i v = Inr h \<Longrightarrow> helper_ok h"
  unfolding parse_helper_def Let_def helper_ok_def
  by (auto simp: ebind_eq_Inr split: if_split_asm dest: helper_policies_ok)

lemma parse_helpers_ok:
  assumes "parse_helpers v location = Inr hs"
  shows "helpers_ok hs"
  using array_items_Inr [OF assms [unfolded parse_helpers_def], where P = helper_ok and g = "\<lambda>h. (ch_member h, ch_role h)"]
    parse_helper_ok by (simp add: helpers_ok_def)

lemma optional_helpers_ok: "optional_helpers v location = Inr hs \<Longrightarrow> (case hs of None \<Rightarrow> True | Some hs \<Rightarrow> helpers_ok hs)"
  by (auto simp: optional_helpers_def result_simps parse_helpers_ok split: if_splits)

lemma parse_requirement_ok: "parse_requirement location i v = Inr r \<Longrightarrow> requirement_ok r"
  unfolding parse_requirement_def Let_def requirement_ok_def
  by (auto simp: ebind_eq_Inr split: if_split_asm option.splits dest!: optional_helpers_ok)

lemma parse_requirements_ok:
  assumes "parse_requirements v location = Inr rs"
  shows "requirements_ok rs"
  using array_items_Inr [OF assms [unfolded parse_requirements_def], where P = requirement_ok and g = "\<lambda>r. (cr_member r, cr_role r)"]
    parse_requirement_ok by (simp add: requirements_ok_def)

lemma requirements_map:
  assumes "requirements_ok rs" "\<And>r. r \<in> set rs \<Longrightarrow> requirement_ok r \<Longrightarrow> requirement_ok (f r)"
    "\<And>r. cr_member (f r) = cr_member r \<and> cr_role (f r) = cr_role r"
  shows "requirements_ok (map f rs)"
proof -
  have "map (\<lambda>r. (cr_member r, cr_role r)) (map f rs) = map (\<lambda>r. (cr_member r, cr_role r)) rs" using assms(3) by simp
  with assms(1,2) show ?thesis unfolding requirements_ok_def by (simp only: list_all_iff set_map) blast
qed

lemma legacy_helpers_ok:
  assumes "legacy_helpers toolName b hs rs = Inr rs'" "requirements_ok rs" "case hs of None \<Rightarrow> True | Some hs \<Rightarrow> helpers_ok hs"
  shows "requirements_ok rs'"
proof (cases "b = None \<and> hs = None")
  case True
  with assms show ?thesis by (simp add: legacy_helpers_def)
next
  case False
  let ?f = "\<lambda>r. if cr_member r = signed_in_user
      then r\<lparr>cr_helpers := (if hs \<noteq> None then hs else cr_helpers r), cr_includeHelpers := b\<rparr> else r"
  from assms(1) False have b: "hs = None \<or> b = Some True" and none: "list_all (\<lambda>r. cr_includeHelpers r = None \<and> cr_helpers r = None) rs"
    and rs': "rs' = map ?f rs"
    unfolding legacy_helpers_def Let_def by (auto split: if_split_asm simp: list_all_iff list_ex_iff)
  show ?thesis
    unfolding rs' using assms(2)
  proof (rule requirements_map)
    fix r assume "r \<in> set rs" "requirement_ok r"
    with none b assms(3) show "requirement_ok (?f r)" by (auto simp: requirement_ok_def list_all_iff split: option.splits)
  qed simp
qed

lemma parse_tool_ok: "parse_tool t = Inr (name, rs) \<Longrightarrow> trim name \<noteq> [] \<and> requirements_ok rs"
  unfolding parse_tool_def
  by (auto simp: ebind_eq_Inr split: if_split_asm prod.split_asm dest!: parse_requirements_ok optional_helpers_ok intro: legacy_helpers_ok)

lemma parse_tool_settings_ok:
  assumes "parse_tool_settings v = Inr s"
  shows "settings_ok s"
proof -
  from assms obtain configured parsed where p: "emap parse_tool configured = Inr parsed" "ts_tools s = own_tools parsed"
    "own_tools parsed \<noteq> [] \<or> ts_default s \<noteq> None"
    unfolding parse_tool_settings_def by (auto simp: ebind_eq_Inr split: if_split_asm)
  have "trim name \<noteq> [] \<and> requirements_ok rs" if "(name, rs) \<in> set (ts_tools s)" for name rs
    using that p(2) emap_Inr_set [OF p(1), of "(name, rs)"] parse_tool_ok by (auto simp: own_tools_def)
  with p show ?thesis by (auto simp: settings_ok_def list_all_iff)
qed

lemma server_settings_Inr:
  assumes "server_settings v serverId = Inr (Some s)"
  shows "settings_ok s" "is_route_id serverId"
proof -
  from assms show "settings_ok s"
    unfolding server_settings_def Let_def by (auto simp: ebind_eq_Inr parse_tool_settings_ok split: if_split_asm)
  from assms show "is_route_id serverId"
    unfolding server_settings_def Let_def by (auto simp: ebind_eq_Inr check_route_id_def split: if_split_asm)
qed

section \<open>Merging\<close>

lemma set_property_order [simp]: "set (property_order fs) = set fs"
  by (auto simp: property_order_def)

lemma distinct_fst_filter: "distinct (map fst xs) \<Longrightarrow> distinct (map fst (filter P xs))"
  by (induction xs) auto

lemma distinct_property_order: "distinct (map fst fs) \<Longrightarrow> distinct (map fst (property_order fs))"
proof -
  assume d: "distinct (map fst fs)"
  let ?i = "filter (\<lambda>(name, _). is_array_index name) fs" and ?k = "\<lambda>(name, _). index_value name"
  from d have "distinct (map fst ?i)" by (rule distinct_fst_filter)
  then have "distinct (map fst (sort_key ?k ?i))" by (simp add: distinct_map)
  with d show ?thesis by (auto simp: property_order_def distinct_fst_filter)
qed

lemma map_of_property_order: "distinct (map fst fs) \<Longrightarrow> map_of (property_order fs) = map_of fs"
  by (intro map_of_same_set distinct_property_order) simp_all

lemma foldl_update:
  "distinct (map fst base) \<Longrightarrow> distinct (map fst (foldl (\<lambda>fs (name, x). AList.update name x fs) base us))
   \<and> (distinct (map fst us) \<longrightarrow> map_of (foldl (\<lambda>fs (name, x). AList.update name x fs) base us) = map_of base ++ map_of us)"
proof (induction us arbitrary: base)
  case (Cons u us)
  obtain n x where u: "u = (n, x)" by (cases u)
  have d: "distinct (map fst (AList.update n x base))" using Cons.prems by (rule distinct_update)
  from Cons.IH [OF d] show ?case
    by (auto simp: u update_conv' map_add_def dom_map_of_conv_image_fst map_of_eq_None_iff intro!: ext split: option.splits) force
qed simp

lemma set_foldl_update: "set (foldl (\<lambda>fs (name, x). AList.update name x fs) base us) \<subseteq> set base \<union> set us"
proof (induction us arbitrary: base)
  case (Cons u us)
  obtain n x where u: "u = (n, x)" by (cases u)
  have "set (AList.update n x base) \<subseteq> insert (n, x) (set base)" by (induction base) auto
  with Cons.IH [of "AList.update n x base"] show ?case by (auto simp: u)
qed simp

lemma foldl_update_Nil: "foldl (\<lambda>fs (name, x). AList.update name x fs) base us = [] \<longleftrightarrow> base = [] \<and> us = []"
proof (induction us arbitrary: base)
  case (Cons u us)
  have "AList.update n x base \<noteq> []" for n x by (cases base) auto
  with Cons.IH show ?case by (cases u) auto
qed simp

lemma spread_facts:
  shows "set (spread base us) \<subseteq> set base \<union> set us" "spread base us = [] \<longleftrightarrow> base = [] \<and> us = []"
proof -
  show "set (spread base us) \<subseteq> set base \<union> set us" using set_foldl_update [of base us] by (simp add: spread_def)
  show "spread base us = [] \<longleftrightarrow> base = [] \<and> us = []"
    using foldl_update_Nil [of base us] set_property_order unfolding spread_def by (metis set_empty2)
qed

lemma map_of_spread:
  "distinct (map fst base) \<Longrightarrow> distinct (map fst us) \<Longrightarrow> map_of (spread base us) = map_of base ++ map_of us"
  unfolding spread_def using foldl_update [of base us] by (simp add: map_of_property_order)

lemma merge_ok:
  assumes "settings_ok b" "settings_ok u"
  shows "settings_ok (the (merge_tool_settings (Some b) (Some u)))"
  using assms spread_facts [of "ts_tools b" "ts_tools u"]
  by (auto simp: settings_ok_def merge_tool_settings_def list_all_iff split: option.splits)

text \<open>
  Whatever values the preset and a server's overrides are, the settings that come of them are
  well formed: every member is the signed-in user or a principal, every role a role, no membership is
  listed twice, helpers belong only to the signed-in user's permissions that ask for them, are
  principals themselves and carry only complete policies, no policy twice. Merging keeps all this,
  and a tool's permissions are those of the override where it has any.
\<close>

theorem merged_settings_are_well_formed:
  assumes "server_settings v serverId = Inr (Some b)" "parse_tool_settings x = Inr u"
    and "merge_tool_settings (Some b) (Some u) = Some s"
    and "distinct (map fst (ts_tools b))" "distinct (map fst (ts_tools u))"
  shows "is_route_id serverId \<and> settings_ok b \<and> settings_ok u \<and> settings_ok s \<and>
    (\<forall>tool. map_of (ts_tools s) tool = (case map_of (ts_tools u) tool of None \<Rightarrow> map_of (ts_tools b) tool | Some rs \<Rightarrow> Some rs))"
proof -
  from assms(3) have "ts_tools s = spread (ts_tools b) (ts_tools u)" by (auto simp: merge_tool_settings_def)
  with assms(4,5) have "map_of (ts_tools s) = map_of (ts_tools b) ++ map_of (ts_tools u)" by (simp add: map_of_spread)
  moreover have "settings_ok s" using merge_ok [of b u] server_settings_Inr(1) [OF assms(1)] parse_tool_settings_ok [OF assms(2)] assms(3) by simp
  ultimately show ?thesis
    using server_settings_Inr [OF assms(1)] parse_tool_settings_ok [OF assms(2)] by (simp add: map_add_def)
qed

definition sample_tools :: json where
  "sample_tools = JObj [(''get'', JObj [(''requirements'', JArr
     [JObj [(''member'', JStr signed_in_user), (''role'', JStr ''api:role.reader''), (''includeExchangeHelpers'', JBool True)]])])]"

definition sample_permission_doc :: json where
  "sample_permission_doc = JObj [(''version'', JNum (Finite 1)), (''servers'', JObj [(''docs'', JObj [(''tools'', sample_tools)])])]"

definition sample_requirement :: configured_requirement where
  "sample_requirement = \<lparr>cr_helpers = None, cr_includeHelpers = Some True, cr_label = ''Required role membership'',
     cr_member = signed_in_user, cr_role = ''api:role.reader''\<rparr>"

definition sample_settings :: tool_settings where
  "sample_settings = \<lparr>ts_default = None, ts_tools = [(''get'', [sample_requirement])]\<rparr>"

definition sample_overrides :: tool_settings where
  "sample_overrides = \<lparr>ts_default = Some Default_None, ts_tools = []\<rparr>"

lemma sample_server: "server_settings (Some sample_permission_doc) ''docs'' = Inr (Some sample_settings)"
  by code_simp

lemma sample_override:
  "parse_tool_settings (Some (JObj [(''defaultPermission'', JStr ''none''), (''version'', JNum (Finite 1)), (''tools'', JObj [])])) = Inr sample_overrides"
  by code_simp

theorem merged_settings_are_well_formed_witness:
  "\<exists>s. merge_tool_settings (Some sample_settings) (Some sample_overrides) = Some s \<and> settings_ok s
     \<and> map_of (ts_tools s) ''get'' = Some [sample_requirement]"
proof -
  obtain s where s: "merge_tool_settings (Some sample_settings) (Some sample_overrides) = Some s"
    by (simp add: merge_tool_settings_def)
  have "distinct (map fst (ts_tools sample_settings))" "distinct (map fst (ts_tools sample_overrides))"
    by (simp_all add: sample_settings_def sample_overrides_def)
  from merged_settings_are_well_formed [OF sample_server sample_override s this] s show ?thesis
    by (simp add: sample_settings_def sample_overrides_def)
qed

section \<open>The policies that are added\<close>

text \<open>The rules of one requirement, with the label and the source of the policy each becomes.\<close>

definition labelled_rules ::
  "string option \<Rightarrow> string \<Rightarrow> permission_requirement \<Rightarrow> (string, (exchange_rule \<times> string \<times> requirement_source) list) result" where
  "labelled_rules sourceRole sourceAudience r =
     (let isTool = (pq_source r = Tool) in
      ebind (exchange_rules (pq_role r) sourceAudience (if isTool then sourceRole else None)) (\<lambda>rules.
      Inr ((hd rules, if isTool then ''ID-JAG exchange policy'' else ''MCP access ID-JAG policy'', if isTool then Helper else Managed) #
        (if \<not> isTool then []
         else map (\<lambda>rule. if er_action rule = ''zts.token_source_exchange''
                then (rule, ''Source-token exchange policy'', Managed) else (rule, ''Target-token exchange policy'', Helper)) (tl rules)))))"

definition add_rules :: "string list \<Rightarrow> string list \<Rightarrow> nat option \<Rightarrow> (exchange_rule \<times> string \<times> requirement_source) list
    \<Rightarrow> policy_state \<Rightarrow> policy_state" where
  "add_rules R C index xs = fold (\<lambda>(rule, label, source). add_policy R C index rule label source) xs"

lemma add_requirement_policies_eq:
  "add_requirement_policies R C sourceRole audience r st =
     (if pq_configuredMember r \<noteq> signed_in_user then Inr st
      else ebind (labelled_rules sourceRole audience r) (\<lambda>xs. Inr (add_rules R C (pq_index r) xs st)))"
proof (cases "exchange_rules (pq_role r) audience (if pq_source r = Tool then sourceRole else None)")
  case (Inr rules)
  have "(\<lambda>rule. if er_action rule = ''zts.token_source_exchange''
        then add_policy R C (pq_index r) rule ''Source-token exchange policy'' Managed
        else add_policy R C (pq_index r) rule ''Target-token exchange policy'' Helper)
      = (\<lambda>(rule, label, source). add_policy R C (pq_index r) rule label source)
        \<circ> (\<lambda>rule. if er_action rule = ''zts.token_source_exchange''
             then (rule, ''Source-token exchange policy'', Managed) else (rule, ''Target-token exchange policy'', Helper))"
    by (rule ext) simp
  with Inr show ?thesis
    by (auto simp: add_requirement_policies_def labelled_rules_def add_rules_def Let_def fold_map)
qed (auto simp: add_requirement_policies_def labelled_rules_def Let_def)

definition identity_of_rule :: "exchange_rule \<Rightarrow> string" where
  "identity_of_rule rule = policy_identity (er_effect rule) (er_action rule) (er_role rule) (er_resource rule)"

text \<open>A rule needs nothing more: its role is not required, its helper is customized, or it is there.\<close>

definition covered :: "string list \<Rightarrow> string set \<Rightarrow> string set \<Rightarrow> nat option \<Rightarrow> exchange_rule \<times> string \<times> requirement_source \<Rightarrow> bool" where
  "covered R C ids index = (\<lambda>(rule, _, source).
     er_role rule \<notin> set R \<or> source = Helper \<and> helper_role_key index (er_role rule) \<in> C \<or> identity_of_rule rule \<in> ids)"

definition ids_of :: "policy_requirement list \<Rightarrow> string set" where
  "ids_of ps = set (map identity_of_policy ps)"

text \<open>What may be added: allowances for required roles, for helpers only where they are not customized.\<close>

definition addable :: "string list \<Rightarrow> string set \<Rightarrow> policy_requirement \<Rightarrow> bool" where
  "addable R C p \<longleftrightarrow> pp_effect p = Allow \<and> pp_role p \<in> set R \<and> (pp_source p = Helper \<longrightarrow> helper_role_key (pp_index p) (pp_role p) \<notin> C)"

definition grown :: "string list \<Rightarrow> string set \<Rightarrow> policy_requirement list \<Rightarrow> policy_requirement list \<Rightarrow> bool" where
  "grown R C ps ps' \<longleftrightarrow> (\<exists>added. ps' = ps @ added \<and> list_all (addable R C) added
     \<and> distinct (map identity_of_policy added) \<and> ids_of added \<inter> ids_of ps = {})"

lemma ids_append [simp]: "ids_of (ps @ qs) = ids_of ps \<union> ids_of qs"
  by (simp add: ids_of_def image_Un)

lemma grown_refl [simp]: "grown R C ps ps"
  by (simp add: grown_def ids_of_def)

lemma grown_trans: "grown R C ps qs \<Longrightarrow> grown R C qs rs \<Longrightarrow> grown R C ps rs"
proof -
  assume "grown R C ps qs" "grown R C qs rs"
  then obtain a b where "qs = ps @ a" "rs = qs @ b" "list_all (addable R C) a" "list_all (addable R C) b"
    "distinct (map identity_of_policy a)" "distinct (map identity_of_policy b)" "ids_of a \<inter> ids_of ps = {}" "ids_of b \<inter> ids_of qs = {}"
    unfolding grown_def by blast
  then have "rs = ps @ (a @ b) \<and> list_all (addable R C) (a @ b) \<and> distinct (map identity_of_policy (a @ b)) \<and> ids_of (a @ b) \<inter> ids_of ps = {}"
    by (auto simp: ids_of_def)
  then show ?thesis unfolding grown_def by blast
qed

lemma grown_ids: "grown R C ps ps' \<Longrightarrow> ids_of ps \<subseteq> ids_of ps'"
  by (auto simp: grown_def)

lemma add_policy_step:
  assumes "add_policy R C index rule label source (ps, seen) = (ps', seen')" "set seen = ids_of ps" "er_effect rule = Allow"
  shows "set seen' = ids_of ps' \<and> grown R (set C) ps ps' \<and> covered R (set C) (ids_of ps') index (rule, label, source)"
proof (cases "covered R (set C) (ids_of ps) index (rule, label, source)")
  case True
  with assms show ?thesis by (auto simp: add_policy_def covered_def identity_of_rule_def Let_def split: if_splits)
next
  case False
  let ?p = "\<lparr>pp_action = er_action rule, pp_effect = er_effect rule, pp_label = label, pp_resource = er_resource rule,
      pp_role = er_role rule, pp_source = source, pp_index = index\<rparr>"
  from False assms have "ps' = ps @ [?p]" "seen' = identity_of_rule rule # seen"
    by (auto simp: add_policy_def covered_def identity_of_rule_def Let_def)
  moreover have "identity_of_policy ?p = identity_of_rule rule" by (simp add: identity_of_policy_def identity_of_rule_def)
  moreover from False have "identity_of_rule rule \<notin> ids_of ps" "addable R (set C) ?p"
    using assms(3) by (auto simp: covered_def addable_def)
  ultimately show ?thesis using assms(2) by (auto simp: grown_def covered_def ids_of_def)
qed

lemma covered_mono: "covered R C ids index x \<Longrightarrow> C \<subseteq> C' \<Longrightarrow> ids \<subseteq> ids' \<Longrightarrow> covered R C' ids' index x"
  by (auto simp: covered_def)

lemma add_rules_step:
  assumes "add_rules R C index xs (ps, seen) = (ps', seen')" "set seen = ids_of ps" "\<forall>x \<in> set xs. er_effect (fst x) = Allow"
  shows "set seen' = ids_of ps' \<and> grown R (set C) ps ps' \<and> (\<forall>x \<in> set xs. covered R (set C) (ids_of ps') index x)"
  using assms
proof (induction xs arbitrary: ps seen)
  case (Cons x xs)
  obtain rule label source where x: "x = (rule, label, source)" by (cases x)
  obtain qs seen1 where q: "add_policy R C index rule label source (ps, seen) = (qs, seen1)" by fastforce
  from Cons.prems(3) have allow: "er_effect rule = Allow" "\<forall>x \<in> set xs. er_effect (fst x) = Allow" by (simp_all add: x)
  note step = add_policy_step [OF q Cons.prems(2) allow(1)]
  from Cons.prems(1) q have "add_rules R C index xs (qs, seen1) = (ps', seen')" by (simp add: add_rules_def x)
  from Cons.IH [OF this _ allow(2)] step have rest: "set seen' = ids_of ps'" "grown R (set C) qs ps'"
    "\<forall>x \<in> set xs. covered R (set C) (ids_of ps') index x" by auto
  with step grown_trans grown_ids covered_mono x show ?case by (metis order_refl set_ConsD)
qed (simp add: add_rules_def)

lemma add_rules_covered:
  "\<forall>x \<in> set xs. covered R (set C) (set seen) index x \<Longrightarrow> add_rules R C index xs (ps, seen) = (ps, seen)"
  by (induction xs) (auto simp: add_rules_def covered_def add_policy_def identity_of_rule_def Let_def)

lemma labelled_rules_allow: "labelled_rules sourceRole audience r = Inr xs \<Longrightarrow> \<forall>x \<in> set xs. er_effect (fst x) = Allow"
  by (auto simp: labelled_rules_def exchange_rules_def Let_def ebind_eq_Inr split: if_split_asm prod.split_asm option.split_asm)

text \<open>All rules of the signed-in user's requirements are covered.\<close>

definition all_covered :: "string list \<Rightarrow> string set \<Rightarrow> string set \<Rightarrow> string option \<Rightarrow> string \<Rightarrow> permission_requirement list \<Rightarrow> bool" where
  "all_covered R C ids sourceRole audience rs \<longleftrightarrow> (\<forall>r \<in> set rs. pq_configuredMember r = signed_in_user \<longrightarrow>
     (\<exists>xs. labelled_rules sourceRole audience r = Inr xs \<and> (\<forall>x \<in> set xs. covered R C ids (pq_index r) x)))"

lemma add_requirements_step:
  assumes "efold (add_requirement_policies R C sourceRole audience) rs (ps, seen) = Inr (ps', seen')" "set seen = ids_of ps"
  shows "grown R (set C) ps ps' \<and> all_covered R (set C) (ids_of ps') sourceRole audience rs"
  using assms
proof (induction rs arbitrary: ps seen)
  case (Cons r rs)
  from Cons.prems(1) obtain qs seen1 where q: "add_requirement_policies R C sourceRole audience r (ps, seen) = Inr (qs, seen1)"
    and rest: "efold (add_requirement_policies R C sourceRole audience) rs (qs, seen1) = Inr (ps', seen')" by (auto simp: ebind_eq_Inr)
  show ?case
  proof (cases "pq_configuredMember r = signed_in_user")
    case True
    with q obtain xs where xs: "labelled_rules sourceRole audience r = Inr xs" and "add_rules R C (pq_index r) xs (ps, seen) = (qs, seen1)"
      by (auto simp: add_requirement_policies_eq ebind_eq_Inr)
    from add_rules_step [OF this(2) Cons.prems(2) labelled_rules_allow [OF xs]] have step: "set seen1 = ids_of qs" "grown R (set C) ps qs"
      "\<forall>x \<in> set xs. covered R (set C) (ids_of qs) (pq_index r) x" by blast+
    from Cons.IH [OF rest step(1)] have ih: "grown R (set C) qs ps'" "all_covered R (set C) (ids_of ps') sourceRole audience rs" by blast+
    from step(3) ih(1) have "\<forall>x \<in> set xs. covered R (set C) (ids_of ps') (pq_index r) x" by (meson covered_mono grown_ids order_refl)
    with ih xs grown_trans [OF step(2) ih(1)] show ?thesis by (simp add: all_covered_def)
  next
    case False
    with q have "qs = ps" "seen1 = seen" by (auto simp: add_requirement_policies_eq)
    with Cons.IH rest Cons.prems(2) False show ?thesis by (auto simp: all_covered_def)
  qed
qed (simp add: all_covered_def)

lemma add_requirements_covered:
  "all_covered R (set C) (set seen) sourceRole audience rs \<Longrightarrow>
   efold (add_requirement_policies R C sourceRole audience) rs (ps, seen) = Inr (ps, seen)"
  by (induction rs) (auto simp: all_covered_def add_requirement_policies_eq add_rules_covered)

definition given_policies :: "preset_group \<Rightarrow> policy_requirement list" where
  "given_policies g = (case pg_policies g of None \<Rightarrow> [] | Some ps \<Rightarrow> ps)"

lemma customized_mono: "set (customized_helper_roles g ps) \<subseteq> set (customized_helper_roles g (ps @ added))"
  by (auto simp: customized_helper_roles_def)

lemma customized_policies [simp]: "customized_helper_roles (g\<lparr>pg_policies := p\<rparr>) ps = customized_helper_roles g ps"
  by (simp add: customized_helper_roles_def)

lemma source_role_policies [simp]: "source_exchange_role (g\<lparr>pg_policies := p\<rparr>) = source_exchange_role g"
  by (simp add: source_exchange_role_def)

lemma group_policies_Inr:
  assumes "group_policies audience g = Inr ps"
  shows "grown (map pq_role (pg_requirements g)) (set (customized_helper_roles g (given_policies g))) (given_policies g) ps"
    "all_covered (map pq_role (pg_requirements g)) (set (customized_helper_roles g (given_policies g))) (ids_of ps)
       (source_exchange_role g) audience (pg_requirements g)"
proof -
  from assms obtain seen where "efold (add_requirement_policies (map pq_role (pg_requirements g))
      (customized_helper_roles g (given_policies g)) (source_exchange_role g) audience) (pg_requirements g)
      (given_policies g, map identity_of_policy (given_policies g)) = Inr (ps, seen)"
    unfolding group_policies_def given_policies_def Let_def by (auto simp: ebind_eq_Inr)
  from add_requirements_step [OF this] show
    "grown (map pq_role (pg_requirements g)) (set (customized_helper_roles g (given_policies g))) (given_policies g) ps"
    "all_covered (map pq_role (pg_requirements g)) (set (customized_helper_roles g (given_policies g))) (ids_of ps)
       (source_exchange_role g) audience (pg_requirements g)" by (auto simp: ids_of_def)
qed

text \<open>
  C19. The policies that are expected for a source audience extend those of the group: each one that
  is added allows an action to a role that the group requires, is there once, and does not touch a
  helper role whose policies are customized. Nothing is missing, so expecting them again changes
  nothing.
\<close>

theorem expected_policies_are_added_once:
  assumes "group_policies audience g = Inr ps"
  shows "(\<exists>added. ps = given_policies g @ added
      \<and> (\<forall>p \<in> set added. pp_effect p = Allow \<and> pp_role p \<in> pq_role ` set (pg_requirements g)
          \<and> (pp_source p = Helper \<longrightarrow> helper_role_key (pp_index p) (pp_role p) \<notin> set (customized_helper_roles g (given_policies g))))
      \<and> distinct (map identity_of_policy added) \<and> (\<forall>p \<in> set added. \<forall>q \<in> set (given_policies g). identity_of_policy p \<noteq> identity_of_policy q))
    \<and> group_policies audience (g\<lparr>pg_policies := Some ps\<rparr>) = Inr ps"
proof
  let ?R = "map pq_role (pg_requirements g)" and ?C = "set (customized_helper_roles g (given_policies g))"
  note facts = group_policies_Inr [OF assms]
  from facts(1) obtain added where a: "ps = given_policies g @ added" "list_all (addable ?R ?C) added"
    "distinct (map identity_of_policy added)" "ids_of added \<inter> ids_of (given_policies g) = {}" unfolding grown_def by blast
  then show "\<exists>added. ps = given_policies g @ added
      \<and> (\<forall>p \<in> set added. pp_effect p = Allow \<and> pp_role p \<in> pq_role ` set (pg_requirements g)
          \<and> (pp_source p = Helper \<longrightarrow> helper_role_key (pp_index p) (pp_role p) \<notin> ?C))
      \<and> distinct (map identity_of_policy added) \<and> (\<forall>p \<in> set added. \<forall>q \<in> set (given_policies g). identity_of_policy p \<noteq> identity_of_policy q)"
    by (intro exI [of _ added]) (auto simp: list_all_iff addable_def ids_of_def)
  have "?C \<subseteq> set (customized_helper_roles g ps)" unfolding a(1) by (rule customized_mono)
  with facts(2) have "all_covered ?R (set (customized_helper_roles g ps)) (set (map identity_of_policy ps))
      (source_exchange_role g) audience (pg_requirements g)"
    unfolding all_covered_def ids_of_def by (meson covered_mono order_refl)
  from add_requirements_covered [OF this] show "group_policies audience (g\<lparr>pg_policies := Some ps\<rparr>) = Inr ps"
    by (simp add: group_policies_def)
qed

definition sample_context :: helper_context where
  "sample_context = \<lparr>hx_gatewayPrincipal = None, hx_servicePrincipal = Some ''docs.mcp''\<rparr>"

definition sample_group :: preset_group where
  "sample_group = (case group_of_tool (Some sample_context) ''user.ann'' (''get'', [sample_requirement]) of Inr g \<Rightarrow> g | Inl _ \<Rightarrow> managed_group [] [])"

definition sample_expected :: "policy_requirement list" where
  "sample_expected = (case group_policies ''hub'' sample_group of Inr ps \<Rightarrow> ps | Inl _ \<Rightarrow> [])"

lemma sample_policies: "group_policies ''hub'' sample_group = Inr sample_expected" "map pp_action sample_expected = [''zts.jag_exchange'', ''zts.token_target_exchange'']"
  by code_simp+

theorem expected_policies_are_added_once_witness:
  "group_policies ''hub'' (sample_group\<lparr>pg_policies := Some sample_expected\<rparr>) = Inr sample_expected \<and> length sample_expected = 2"
  using expected_policies_are_added_once [OF sample_policies(1)] arg_cong [OF sample_policies(2), of length] by simp

section \<open>Managed access\<close>

lemma managed_requirements_Inr:
  assumes "emap (managed_requirements_of signedIn gateway service) roles = Inr rss" "role \<in> set roles"
  shows "\<exists>r s. r \<in> set (concat rss) \<and> s \<in> set (concat rss) \<and> pq_member r = signedIn \<and> pq_role r = role
    \<and> pq_member s = gateway \<and> pq_role s = role_of (scope_audience role) (scope_role role @ ''-jag-exchanger'')"
proof -
  from emap_Inr_mem [OF assms] obtain rs where rs: "rs \<in> set rss" "managed_requirements_of signedIn gateway service role = Inr rs" by blast
  from rs(2) have "managed_requirement signed_in_user ''Signed-in user can invoke this Athenz-protected MCP server'' signedIn role \<in> set rs"
    "managed_requirement gateway ''MCP Gateway can request protected MCP access'' gateway
       (role_of (scope_audience role) (scope_role role @ ''-jag-exchanger'')) \<in> set rs"
    unfolding managed_requirements_of_def by (auto simp: ebind_eq_Inr)
  moreover have "set rs \<subseteq> set (concat rss)" using rs(1) by auto
  ultimately show ?thesis by (intro exI conjI) (erule subsetD, assumption, erule subsetD, assumption, simp_all add: managed_requirement_def)
qed

definition identity_of_requirement :: "permission_requirement \<Rightarrow> string" where
  "identity_of_requirement r = member_identity (pq_member r) (pq_role r)"

lemma merge_requirements_eq:
  "merge_requirements current added = current @ filter (\<lambda>r. identity_of_requirement r \<notin> identity_of_requirement ` set current) added"
  by (simp add: merge_requirements_def identity_of_requirement_def Let_def)

lemma merged_identities:
  "identity_of_requirement ` set (merge_requirements current added) = identity_of_requirement ` set current \<union> identity_of_requirement ` set added"
  by (auto simp: merge_requirements_eq)

lemma with_managed_access_Inr:
  assumes "with_managed_access preset serverId scope signedIn gateway service = Inr (Some p)" "words (case scope of None \<Rightarrow> [] | Some s \<Rightarrow> s) \<noteq> []"
  obtains rss where "emap (managed_requirements_of signedIn gateway service) (uniq (words (case scope of None \<Rightarrow> [] | Some s \<Rightarrow> s))) = Inr rss"
    "p = add_managed_requirements preset serverId (concat rss)"
proof -
  from assms(1) obtain roles where roles: "parse_access_scope scope = Inr roles"
    and rest: "roles \<noteq> [] \<Longrightarrow> \<exists>rss. emap (managed_requirements_of signedIn gateway service) roles = Inr rss
       \<and> p = add_managed_requirements preset serverId (concat rss)"
    unfolding with_managed_access_def by (auto simp: ebind_eq_Inr split: if_split_asm)
  from roles have "roles = uniq (words (case scope of None \<Rightarrow> [] | Some s \<Rightarrow> s))"
    by (auto simp: parse_access_scope_def Let_def ebind_eq_Inr split: option.splits)
  moreover from this assms(2) have "roles \<noteq> []" by (metis set_empty2 set_uniq)
  ultimately show thesis using rest that by blast
qed

lemma add_managed_groups:
  "g \<in> set (ps_groups (add_managed_requirements preset serverId rs)) \<Longrightarrow>
   identity_of_requirement ` set rs \<subseteq> identity_of_requirement ` set (pg_requirements g)"
  by (cases preset) (auto simp: add_managed_requirements_def managed_group_def Let_def merged_identities split: if_splits)

text \<open>
  On a server with an access scope every group of the preset asks for the access that the hub
  manages: the membership of the signed-in user in each role of the scope and the gateway's
  membership in the role that may exchange it. There is at least one group, and the requirements of
  an existing group stay, in order, before the ones that are added.
\<close>

theorem managed_access_is_required_everywhere:
  assumes "with_managed_access preset serverId (Some scope) signedIn gateway service = Inr (Some p)" "words scope \<noteq> []"
  shows "ps_groups p \<noteq> [] \<and> (\<forall>g \<in> set (ps_groups p). \<forall>role \<in> set (words scope).
      member_identity signedIn role \<in> identity_of_requirement ` set (pg_requirements g)
      \<and> member_identity gateway (role_of (scope_audience role) (scope_role role @ ''-jag-exchanger'')) \<in> identity_of_requirement ` set (pg_requirements g))
    \<and> (\<forall>q. preset = Some q \<longrightarrow> (\<forall>i < length (ps_groups q). \<exists>added.
        pg_requirements (ps_groups p ! i) = pg_requirements (ps_groups q ! i) @ added))"
proof -
  obtain rss where rss: "emap (managed_requirements_of signedIn gateway service) (uniq (words scope)) = Inr rss"
    and p: "p = add_managed_requirements preset serverId (concat rss)"
    using with_managed_access_Inr [OF assms(1)] assms(2) by auto
  have has: "member_identity signedIn role \<in> identity_of_requirement ` set (concat rss)
      \<and> member_identity gateway (role_of (scope_audience role) (scope_role role @ ''-jag-exchanger'')) \<in> identity_of_requirement ` set (concat rss)"
    if "role \<in> set (words scope)" for role
  proof -
    from that have "role \<in> set (uniq (words scope))" by simp
    from managed_requirements_Inr [OF rss this] show ?thesis by (auto simp: identity_of_requirement_def image_iff) metis+
  qed
  have groups: "g \<in> set (ps_groups p) \<Longrightarrow> identity_of_requirement ` set (concat rss) \<subseteq> identity_of_requirement ` set (pg_requirements g)" for g
    unfolding p by (rule add_managed_groups)
  have "ps_groups p \<noteq> []" by (auto simp: p add_managed_requirements_def Let_def split: option.splits)
  moreover have "\<exists>added. pg_requirements (ps_groups p ! i) = pg_requirements (ps_groups q ! i) @ added"
    if "preset = Some q" "i < length (ps_groups q)" for q i
    using that by (auto simp: p add_managed_requirements_def Let_def merge_requirements_eq nth_append)
  ultimately show ?thesis using has groups by blast
qed

definition sample_managed :: permission_preset where
  "sample_managed = (case with_managed_access (Some \<lparr>ps_default = None, ps_groups = [sample_group], ps_serverId = ''docs''\<rparr>) ''docs''
     (Some ''hub:role.access'') ''user.ann'' ''mcp-hub.mcp-gateway'' None of Inr (Some p) \<Rightarrow> p
   | _ \<Rightarrow> \<lparr>ps_default = None, ps_groups = [], ps_serverId = []\<rparr>)"

lemma sample_managed_access:
  "with_managed_access (Some \<lparr>ps_default = None, ps_groups = [sample_group], ps_serverId = ''docs''\<rparr>) ''docs''
     (Some ''hub:role.access'') ''user.ann'' ''mcp-hub.mcp-gateway'' None = Inr (Some sample_managed)"
  by code_simp

theorem managed_access_is_required_everywhere_witness:
  "\<exists>g. ps_groups sample_managed = [g] \<and> member_identity ''user.ann'' ''hub:role.access'' \<in> identity_of_requirement ` set (pg_requirements g)"
proof -
  have "words ''hub:role.access'' = [''hub:role.access'']" by code_simp
  moreover have "length (ps_groups sample_managed) = 1" by code_simp
  then obtain g where "ps_groups sample_managed = [g]" by (metis One_nat_def length_0_conv length_Suc_conv)
  ultimately show ?thesis using managed_access_is_required_everywhere [OF sample_managed_access] by simp
qed

end
