(* ===== verification/Hub_Registry.thy ===== *)
theory Hub_Registry
  imports Hub_Permission_Rules Gateway_Registry Runtime_Proxy
begin

text \<open>
  The registry of the hub, \<^verbatim>\<open>idthw_hub/app/api/mcp-servers/route.ts\<close> (\<^verbatim>\<open>GET\<close>) with
  \<^verbatim>\<open>features/catalog/lib/mcpHubServiceAuth.ts\<close>, and what the gateway makes of its answers. A server
  of the catalog is its JSON object without the undefined fields; the catalog and the permission
  preset come from Kubernetes and are arguments, as is the session.
\<close>

section \<open>The route\<close>

type_synonym catalog_server = "(string \<times> json) list"

text \<open>\<^verbatim>\<open>Bearer\<close> and the token, compared in constant time.\<close>

definition is_service_request :: "string option \<Rightarrow> string option \<Rightarrow> bool" where
  "is_service_request expected authorization =
     (case (expected, authorization) of
        (Some token, Some a) \<Rightarrow> token \<noteq> [] \<and> starts_with ''Bearer '' a \<and> drop 7 a = token
      | _ \<Rightarrow> False)"

definition route_id_of :: "catalog_server \<Rightarrow> string" where
  "route_id_of server = (case as_string (map_of server ''routeId'') of None \<Rightarrow> [] | Some s \<Rightarrow> s)"

definition override_settings :: "catalog_server \<Rightarrow> (string, tool_settings option) result" where
  "override_settings server =
     (case map_of server ''toolPermissionOverrides'' of
        None \<Rightarrow> Inr None
      | Some v \<Rightarrow> ebind (parse_tool_settings (Some v)) (\<lambda>s. Inr (Some s)))"

text \<open>\<^verbatim>\<open>{ ...server, name: value }\<close> as JSON: an undefined value leaves no field.\<close>

definition set_field :: "string \<Rightarrow> unknown \<Rightarrow> catalog_server \<Rightarrow> catalog_server" where
  "set_field name v server = (case v of None \<Rightarrow> AList.delete name server | Some v \<Rightarrow> AList.update name v server)"

definition default_json :: "permission_default \<Rightarrow> json" where
  "default_json d = JStr (case d of Default_None \<Rightarrow> ''none'' | Default_Not_Defined \<Rightarrow> ''not-defined'')"

definition scopes_json :: "(string \<times> string) list \<Rightarrow> json" where
  "scopes_json scopes = JObj (map (\<lambda>(name, scope). (name, JStr scope)) scopes)"

definition settings_for :: "unknown \<Rightarrow> catalog_server \<Rightarrow> (string, tool_settings option) result" where
  "settings_for preset server =
     ebind (server_settings preset (route_id_of server)) (\<lambda>configured.
     ebind (override_settings server) (\<lambda>overrides.
     Inr (merge_tool_settings configured overrides)))"

definition registry_server :: "unknown \<Rightarrow> catalog_server \<Rightarrow> (string, catalog_server) result" where
  "registry_server preset server =
     ebind (settings_for preset server) (\<lambda>settings.
     ebind (case settings of
              None \<Rightarrow> Inr None
            | Some s \<Rightarrow> ebind (tool_access_scopes s (route_id_of server) (as_string (map_of server ''accessScope''))) (\<lambda>scopes. Inr (Some scopes)))
       (\<lambda>toolScopes.
     Inr (set_field ''toolScopes'' (map_option scopes_json toolScopes)
           (set_field ''defaultToolPermission'' (case settings of None \<Rightarrow> None | Some s \<Rightarrow> map_option default_json (ts_default s)) server))))"

definition catalog_json :: "catalog_server list \<Rightarrow> string option \<Rightarrow> json" where
  "catalog_json servers error =
     JObj ((''servers'', JArr (map JObj servers)) # (case error of None \<Rightarrow> [] | Some e \<Rightarrow> [(''error'', JStr e)]))"

definition registry_catalog ::
  "(string, catalog_server list) result \<Rightarrow> (string, unknown) result \<Rightarrow> (string, catalog_server list) result" where
  "registry_catalog servers preset = ebind servers (\<lambda>ss. ebind preset (\<lambda>p. emap (registry_server p) ss))"

definition registry_get ::
  "bool \<Rightarrow> bool \<Rightarrow> (string, catalog_server list) result \<Rightarrow> (string, unknown) result \<Rightarrow> reply" where
  "registry_get serviceRequest signedIn servers preset =
     (if \<not> serviceRequest \<and> \<not> signedIn then reply_json 401 [] (catalog_json [] (Some ''Authentication required''))
      else case registry_catalog servers preset of
        Inl e \<Rightarrow> reply_json 200 [no_store] (catalog_json [] (Some e))
      | Inr ss \<Rightarrow> reply_json 200 [no_store] (catalog_json ss None))"

section \<open>From the hub to the gateway\<close>

lemma check_roles_Inr: "check_roles roles = Inr u \<longleftrightarrow> list_all is_role_scope roles"
  unfolding check_roles_def
  by (induction roles) (auto simp: ebind_eq_Inr parse_athenz_role_def split: if_splits)

lemma parse_access_scope_Inr:
  "parse_access_scope v = Inr roles \<Longrightarrow> list_all is_role_scope roles \<and> set roles = set (case v of None \<Rightarrow> [] | Some s \<Rightarrow> words s)"
  by (auto simp: parse_access_scope_def Let_def ebind_eq_Inr check_roles_Inr uniq_def split: option.splits)

text \<open>The scope of a tool, as a set of role scopes in canonical order.\<close>

lemma tool_access_scope_Inr:
  assumes "tool_access_scope routeRoles (name, rs) = Inr (n, scope)" "requirements_ok rs" "list_all is_role_scope routeRoles"
  defines "roles \<equiv> map cr_role (filter (\<lambda>r. cr_member r = signed_in_user) rs)"
  shows "n = name" "scope = join '' '' (canonical (roles @ routeRoles))" "words scope = canonical (roles @ routeRoles)"
    "words scope \<noteq> []" "list_all is_role_scope (words scope)"
proof -
  from assms(1) show n: "n = name" "scope = join '' '' (canonical (roles @ routeRoles))"
    by (auto simp: tool_access_scope_def roles_def Let_def split: if_splits)
  from assms(2,3) have ok: "list_all is_role_scope (canonical (roles @ routeRoles))"
    by (auto simp: list_all_iff roles_def requirements_ok_def requirement_ok_def)
  then show w: "words scope = canonical (roles @ routeRoles)" by (simp add: n(2) words_of_scopes)
  from assms(1) show "words scope \<noteq> []" unfolding w by (auto simp: tool_access_scope_def roles_def Let_def split: if_splits)
  from ok show "list_all is_role_scope (words scope)" unfolding w .
qed

lemma served_scope:
  assumes "words scope = canonical ws" "trim name \<noteq> []" "ws \<noteq> []" "scope = join '' '' (canonical ws)"
  shows "parse_tool_scope serverId (name, JStr scope) = Inr (name, scope)"
proof -
  have "canonical (canonical ws) = canonical ws" by (rule canonical_id) simp_all
  with assms have "join '' '' (canonical (words scope)) = scope" by simp
  moreover from assms(1,3) have "words scope \<noteq> []" by simp
  then have "scope \<noteq> []" by auto
  ultimately show ?thesis using assms(2) by (simp add: parse_tool_scope_def)
qed

lemma settings_for_ok: "settings_for preset server = Inr (Some s) \<Longrightarrow> settings_ok s"
proof -
  assume "settings_for preset server = Inr (Some s)"
  then obtain c u where c: "server_settings preset (route_id_of server) = Inr c" and u: "override_settings server = Inr u"
    and m: "merge_tool_settings c u = Some s" by (auto simp: settings_for_def ebind_eq_Inr)
  have "settings_ok x" if "c = Some x" for x using server_settings_Inr(1) c that by blast
  moreover have "settings_ok x" if "u = Some x" for x
    using u that by (auto simp: override_settings_def ebind_eq_Inr parse_tool_settings_ok split: option.splits)
  ultimately show ?thesis using m merge_ok by (cases c; cases u) (auto simp: merge_tool_settings_def)
qed

lemma map_of_set_field: "map_of (set_field n v server) k = (if k = n then v else map_of server k)"
  by (auto simp: set_field_def update_conv' delete_conv' split: option.splits)

lemma registry_server_Inr:
  assumes "registry_server preset server = Inr published" "settings_for preset server = Inr settings"
  obtains scopes where "map_of published ''toolScopes'' = map_option scopes_json scopes" "scopes = None \<longleftrightarrow> settings = None"
    "\<And>s. settings = Some s \<Longrightarrow> \<exists>ts. scopes = Some ts \<and>
       tool_access_scopes s (route_id_of server) (as_string (map_of server ''accessScope'')) = Inr ts"
    "map_of published ''defaultToolPermission'' = (case settings of None \<Rightarrow> None | Some s \<Rightarrow> map_option default_json (ts_default s))"
proof -
  let ?scopes = "case settings of None \<Rightarrow> Inr None
      | Some s \<Rightarrow> ebind (tool_access_scopes s (route_id_of server) (as_string (map_of server ''accessScope''))) (\<lambda>scopes. Inr (Some scopes))"
  from assms obtain scopes where sc: "?scopes = Inr scopes"
    and p: "published = set_field ''toolScopes'' (map_option scopes_json scopes)
      (set_field ''defaultToolPermission'' (case settings of None \<Rightarrow> None | Some s \<Rightarrow> map_option default_json (ts_default s)) server)"
    unfolding registry_server_def by (simp only: ebind_simps ebind_eq_Inr) auto
  show thesis
  proof (rule that)
    show "map_of published ''toolScopes'' = map_option scopes_json scopes"
      "map_of published ''defaultToolPermission'' = (case settings of None \<Rightarrow> None | Some s \<Rightarrow> map_option default_json (ts_default s))"
      unfolding p map_of_set_field by simp_all
    show "scopes = None \<longleftrightarrow> settings = None" using sc by (auto simp: ebind_eq_Inr split: option.splits)
    show "\<exists>ts. scopes = Some ts \<and> tool_access_scopes s (route_id_of server) (as_string (map_of server ''accessScope'')) = Inr ts"
      if "settings = Some s" for s using sc that by (auto simp: ebind_eq_Inr)
  qed
qed

lemma emap_served:
  assumes "emap (tool_access_scope routeRoles) tools = Inr ts" "list_all (\<lambda>(name, rs). trim name \<noteq> [] \<and> requirements_ok rs) tools"
    "list_all is_role_scope routeRoles"
  shows "emap (parse_tool_scope serverId) (map (\<lambda>(name, scope). (name, JStr scope)) ts) = Inr ts"
  using assms
proof (induction tools arbitrary: ts)
  case (Cons t tools)
  obtain name rs where t: "t = (name, rs)" by (cases t)
  from Cons.prems(1) obtain n scope ts' where s: "tool_access_scope routeRoles (name, rs) = Inr (n, scope)"
    and ts: "emap (tool_access_scope routeRoles) tools = Inr ts'" "ts = (n, scope) # ts'" by (auto simp: ebind_eq_Inr t)
  from Cons.prems(2) have ok: "trim name \<noteq> []" "requirements_ok rs" by (simp_all add: t)
  note f = tool_access_scope_Inr [OF s ok(2) Cons.prems(3)]
  from f(3,4) have "map cr_role (filter (\<lambda>r. cr_member r = signed_in_user) rs) @ routeRoles \<noteq> []" by auto
  from served_scope [OF f(3) ok(1) this f(2)] f(1) Cons.IH [OF ts(1)] Cons.prems(2,3) ts(2) show ?case by simp
qed simp

lemma normalized_words:
  "words scope = canonical ws \<Longrightarrow> words scope \<noteq> [] \<Longrightarrow> list_all is_role_scope (words scope) \<Longrightarrow> normalized_scopes scope = Inr (words scope)"
proof -
  assume w: "words scope = canonical ws" "words scope \<noteq> []" "list_all is_role_scope (words scope)"
  then have "canonical (words scope) = words scope" by (metis canonical_id distinct_canonical sorted_canonical)
  with w(2,3) show ?thesis by (simp add: normalized_scopes_def Let_def)
qed

text \<open>
  C20. The scopes of the tools reach the gateway as the hub meant them. Where a server has permission
  settings, the gateway's route lists exactly the tools of the settings; the scope of a tool is made
  of the roles that the tool requires of the signed-in user and of the roles of the route, and the
  runtime proxy reads it back as these roles. A server without settings has no tool scopes.
\<close>

theorem published_tool_scopes_are_served:
  assumes "registry_server preset server = Inr published" "settings_for preset server = Inr settings"
    and "parse_server pf (JObj published) = Inr (Some (routeId, route))"
  shows "(rt_toolScopes route = None \<longleftrightarrow> settings = None) \<and>
    (\<forall>s. settings = Some s \<longrightarrow> (\<exists>ts. rt_toolScopes route = Some ts \<and> map fst ts = map fst (ts_tools s) \<and>
       list_all2 (\<lambda>(name, rs) (n, scope). n = name \<and> words scope \<noteq> [] \<and> normalized_scopes scope = Inr (words scope) \<and>
         set (words scope) = {cr_role r | r. r \<in> set rs \<and> cr_member r = signed_in_user}
           \<union> set (case as_string (map_of server ''accessScope'') of None \<Rightarrow> [] | Some v \<Rightarrow> words v)) (ts_tools s) ts))"
proof -
  obtain scopes where sc: "map_of published ''toolScopes'' = map_option scopes_json scopes" "scopes = None \<longleftrightarrow> settings = None"
    "\<And>s. settings = Some s \<Longrightarrow> \<exists>ts. scopes = Some ts \<and>
       tool_access_scopes s (route_id_of server) (as_string (map_of server ''accessScope'')) = Inr ts"
    using registry_server_Inr [OF assms(1,2)] by metis
  from assms(3) have tools: "parse_tool_scopes (map_of published ''toolScopes'') routeId = Inr (rt_toolScopes route)"
    unfolding parse_server_def Let_def by (auto simp only: ebind_eq_Inr split: if_split_asm option.split_asm prod.split_asm) auto
  show ?thesis
  proof (cases settings)
    case None
    with sc tools show ?thesis by (simp add: parse_tool_scopes_def)
  next
    case (Some s)
    from sc(3) [OF Some] obtain ts routeRoles where ts: "scopes = Some ts"
      and rr: "parse_access_scope (as_string (map_of server ''accessScope'')) = Inr routeRoles"
      and e: "emap (tool_access_scope routeRoles) (ts_tools s) = Inr ts" by (auto simp: tool_access_scopes_def ebind_eq_Inr)
    note route = parse_access_scope_Inr [OF rr]
    from settings_for_ok assms(2) Some have ok: "list_all (\<lambda>(name, rs). trim name \<noteq> [] \<and> requirements_ok rs) (ts_tools s)"
      by (auto simp: settings_ok_def)
    from emap_served [OF e ok] route tools sc(1) ts have served: "rt_toolScopes route = Some ts"
      by (simp add: parse_tool_scopes_def scopes_json_def)
    from e have l: "list_all2 (\<lambda>t y. tool_access_scope routeRoles t = Inr y) (ts_tools s) ts" by (simp add: emap_eq_Inr)
    have "(case t of (name, rs) \<Rightarrow> \<lambda>(n, scope). n = name \<and> words scope \<noteq> [] \<and> normalized_scopes scope = Inr (words scope) \<and>
         set (words scope) = {cr_role r | r. r \<in> set rs \<and> cr_member r = signed_in_user}
           \<union> set (case as_string (map_of server ''accessScope'') of None \<Rightarrow> [] | Some v \<Rightarrow> words v)) y"
      if "t \<in> set (ts_tools s)" "tool_access_scope routeRoles t = Inr y" for t y
    proof -
      obtain name rs n scope where t: "t = (name, rs)" "y = (n, scope)" by (cases t; cases y)
      from ok that(1) t have "requirements_ok rs" by (auto simp: list_all_iff)
      note f = tool_access_scope_Inr [OF that(2) [unfolded t] this conjunct1 [OF route]]
      from f route show ?thesis by (auto simp: t normalized_words)
    qed
    with l have "list_all2 (\<lambda>(name, rs) (n, scope). n = name \<and> words scope \<noteq> [] \<and> normalized_scopes scope = Inr (words scope) \<and>
         set (words scope) = {cr_role r | r. r \<in> set rs \<and> cr_member r = signed_in_user}
           \<union> set (case as_string (map_of server ''accessScope'') of None \<Rightarrow> [] | Some v \<Rightarrow> words v)) (ts_tools s) ts"
      by (rule list.rel_mono_strong) auto
    moreover from this have "map fst ts = map fst (ts_tools s)"
      by (induction rule: list_all2_induct) auto
    ultimately show ?thesis using Some served by simp
  qed
qed

lemma emap_some_Inl: "x \<in> set xs \<Longrightarrow> f x = Inl e \<Longrightarrow> \<exists>m. emap f xs = Inl m"
proof (cases "emap f xs")
  case (Inr ys)
  moreover assume "x \<in> set xs" "f x = Inl e"
  ultimately show ?thesis using emap_Inr_mem by fastforce
qed blast

text \<open>
  One server whose permission settings are invalid hides every server: the hub answers the whole
  catalog with an empty list and an error, but with status 200, and the gateway, which does not read
  the error, replaces its table by an empty one and answers that no server is registered until the
  table expires.
\<close>

theorem one_bad_server_empties_the_registry:
  assumes "server \<in> set servers" "registry_server preset server = Inl e"
  shows "\<exists>m. registry_get True signedIn (Inr servers) (Inr preset) = reply_json 200 [no_store] (catalog_json [] (Some m))
    \<and> (\<forall>ttl now serverId cache. resolve_route_finish pf ttl now serverId (Registry_Payload (catalog_json [] (Some m))) cache
         = (Inl (Server_Not_Found serverId), \<lparr>rg_expiresAt = now + ttl, rg_routes = []\<rparr>))"
proof -
  from emap_some_Inl [where f = "registry_server preset", OF assms] obtain m where "emap (registry_server preset) servers = Inl m" by blast
  then have "registry_get True signedIn (Inr servers) (Inr preset) = reply_json 200 [no_store] (catalog_json [] (Some m))"
    by (simp add: registry_get_def registry_catalog_def)
  moreover have "fetched_routes pf (Registry_Payload (catalog_json [] (Some m))) = Inr []"
    by (simp add: fetched_routes_def registry_servers_def catalog_json_def)
  ultimately show ?thesis by (auto simp: resolve_route_finish_def route_of_def)
qed

definition sample_server_fields :: catalog_server where
  "sample_server_fields = [(''routeId'', JStr ''docs''), (''proxyUrl'', JStr ''http://docs:8080/mcp''), (''accessScope'', JStr ''hub:role.access'')]"

definition sample_bad_fields :: catalog_server where
  "sample_bad_fields = [(''routeId'', JStr ''other''), (''proxyUrl'', JStr ''http://other/mcp''), (''toolPermissionOverrides'', JNull)]"

definition sample_route :: mcp_route where
  "sample_route = \<lparr>rt_proxyUrl = ''http://docs:8080/mcp'', rt_accessAudience = Some ''hub'', rt_accessScope = Some ''hub:role.access'',
     rt_defaultToolPermission = None, rt_toolScopes = Some [(''get'', ''api:role.reader hub:role.access'')]\<rparr>"

lemma sample_bad: "registry_server (Some sample_permission_doc) sample_bad_fields = Inl ''Tool permission settings must be an object''"
  by code_simp

theorem one_bad_server_empties_the_registry_witness:
  "\<exists>m. resolve_route_finish sample_platform 30 5 ''docs'' (Registry_Payload (catalog_json [] (Some m)))
     \<lparr>rg_expiresAt = 0, rg_routes = [(''docs'', sample_route)]\<rparr> = (Inl (Server_Not_Found ''docs''), \<lparr>rg_expiresAt = 35, rg_routes = []\<rparr>)
     \<and> registry_get True False (Inr [sample_server_fields, sample_bad_fields]) (Inr (Some sample_permission_doc))
         = reply_json 200 [no_store] (catalog_json [] (Some m))"
proof -
  have "sample_bad_fields \<in> set [sample_server_fields, sample_bad_fields]" by simp
  from one_bad_server_empties_the_registry [OF this sample_bad, of False sample_platform] obtain m where
    "registry_get True False (Inr [sample_server_fields, sample_bad_fields]) (Inr (Some sample_permission_doc))
       = reply_json 200 [no_store] (catalog_json [] (Some m))"
    "\<forall>ttl now serverId cache. resolve_route_finish sample_platform ttl now serverId (Registry_Payload (catalog_json [] (Some m))) cache
       = (Inl (Server_Not_Found serverId), \<lparr>rg_expiresAt = now + ttl, rg_routes = []\<rparr>)" by blast
  then show ?thesis by (intro exI [of _ m]) simp
qed

definition sample_published :: catalog_server where
  "sample_published = sample_server_fields @ [(''toolScopes'', JObj [(''get'', JStr ''api:role.reader hub:role.access'')])]"

lemma sample_registered:
  "registry_server (Some sample_permission_doc) sample_server_fields = Inr sample_published"
  "settings_for (Some sample_permission_doc) sample_server_fields = Inr (Some sample_settings)"
  "parse_server sample_platform (JObj sample_published) = Inr (Some (''docs'', sample_route))"
  by code_simp+

theorem published_tool_scopes_are_served_witness:
  "map_option (map fst) (rt_toolScopes sample_route) = Some [''get'']"
  using published_tool_scopes_are_served [OF sample_registered]
  by (auto simp: sample_settings_def)

end
