(* ===== verification/Js_Double.thy ===== *)
theory Js_Double
  imports Js_Prelude
begin

text \<open>
  The arithmetic of JavaScript numbers on rationals: an operation on doubles is the exact one,
  rounded to the nearest number with 53 significant bits, and to the even one of two. The range of
  the exponent is not modelled; the amounts it is used for are far from its ends.
\<close>

section \<open>Rounding\<close>

function bit_length :: "int \<Rightarrow> nat" where
  "bit_length n = (if n \<le> 0 then 0 else Suc (bit_length (n div 2)))"
  by pat_completeness auto
termination
  by (relation "measure nat") auto

declare bit_length.simps [simp del]

text \<open>The \<open>e\<close> with \<open>2\<^sup>e \<le> q < 2\<^sup>e\<^sup>+\<^sup>1\<close>.\<close>

definition binary_exponent :: "rat \<Rightarrow> int" where
  "binary_exponent q =
     (let (n, d) = quotient_of q; e = int (bit_length n) - int (bit_length d)
      in if 2 powi e \<le> q then e else e - 1)"

definition round_half_even :: "rat \<Rightarrow> int" where
  "round_half_even x =
     (let f = \<lfloor>x\<rfloor>; r = x - of_int f in if r < 1 / 2 \<or> r = 1 / 2 \<and> even f then f else f + 1)"

definition double_of :: "rat \<Rightarrow> rat" where
  "double_of q =
     (if q = 0 then 0
      else let u = 2 powi (binary_exponent \<bar>q\<bar> - 52); r = of_int (round_half_even (\<bar>q\<bar> / u)) * u
           in if q < 0 then - r else r)"

lemma bit_length_bounds: "0 \<le> n \<Longrightarrow> n < 2 ^ bit_length n" "0 < n \<Longrightarrow> 2 ^ bit_length n \<le> 2 * n"
proof (induction n rule: bit_length.induct)
  case (1 n)
  { case 1
    with "1.IH"(1) show ?case by (cases "n = 0") (auto simp: bit_length.simps [of n])
  next
    case 2
    moreover have "0 < n div 2 \<or> n div 2 = 0" "2 * (n div 2) \<le> n" using 2 by presburger+
    ultimately show ?case
      using "1.IH"(2) by (auto simp: bit_length.simps [of n] bit_length.simps [of 0])
  }
qed

lemma binary_exponent_bounds:
  assumes "0 < q"
  shows "2 powi binary_exponent q \<le> q" "q < 2 powi (binary_exponent q + 1)"
proof -
  obtain n d where nd: "quotient_of q = (n, d)" by fastforce
  then have d: "0 < d" and q: "q = of_int n / of_int d" by (simp_all add: quotient_of_denom_pos quotient_of_div)
  with assms have n: "0 < n" by (simp add: zero_less_divide_iff)
  define a b where "a = bit_length n" and "b = bit_length d"
  have lift: "of_int x < (2::rat) ^ k \<longleftrightarrow> x < 2 ^ k" "(2::rat) ^ k \<le> 2 * of_int x \<longleftrightarrow> 2 ^ k \<le> 2 * x" for x k
    by (metis of_int_less_iff of_int_power of_int_numeral, metis of_int_le_iff of_int_power of_int_numeral of_int_mult)
  have bounds: "of_int n < (2::rat) ^ a" "(2::rat) ^ a \<le> 2 * of_int n" "of_int d < (2::rat) ^ b" "(2::rat) ^ b \<le> 2 * of_int d"
    using bit_length_bounds [of n] bit_length_bounds [of d] n d by (simp_all add: lift a_def b_def)
  define e where "e = int a - int b"
  have pe: "(2::rat) powi e = 2 ^ a / 2 ^ b" by (simp add: e_def power_int_diff)
  have up: "q < 2 powi (e + 1)"
  proof -
    have "of_int n * (2::rat) ^ b < 2 ^ a * (2 * of_int d)"
      using bounds(1,4) d n by (intro mult_less_le_imp_less) auto
    then show ?thesis using d by (simp add: power_int_add pe q field_simps)
  qed
  have low: "2 powi (e - 1) \<le> q"
  proof -
    have "(2::rat) ^ a * of_int d \<le> 2 * of_int n * 2 ^ b"
      using bounds(2,3) d n by (intro mult_mono) auto
    then show ?thesis using d by (simp add: power_int_diff pe q field_simps)
  qed
  have "binary_exponent q = (if 2 powi e \<le> q then e else e - 1)"
    by (simp add: binary_exponent_def nd e_def a_def b_def)
  with up low show "2 powi binary_exponent q \<le> q" "q < 2 powi (binary_exponent q + 1)" by auto
qed

lemma round_half_even_near: "\<bar>of_int (round_half_even x) - x\<bar> \<le> 1 / 2"
proof -
  have f: "of_int \<lfloor>x\<rfloor> \<le> x" "x < of_int \<lfloor>x\<rfloor> + 1" by linarith+
  have "round_half_even x = \<lfloor>x\<rfloor> \<and> x - of_int \<lfloor>x\<rfloor> \<le> 1 / 2 \<or> round_half_even x = \<lfloor>x\<rfloor> + 1 \<and> 1 / 2 \<le> x - of_int \<lfloor>x\<rfloor>"
    by (auto simp: round_half_even_def Let_def)
  with f show ?thesis by (auto simp: abs_le_iff)
qed

lemma double_of_0 [simp]: "double_of 0 = 0"
  by (simp add: double_of_def)

definition rounding_unit :: rat where
  "rounding_unit = 1 / 2 ^ 53"

lemma double_of_near:
  assumes "0 \<le> q"
  shows "\<bar>double_of q - q\<bar> \<le> q * rounding_unit"
proof (cases "q = 0")
  case False
  with assms have q: "0 < q" by simp
  define u :: rat where "u = 2 powi (binary_exponent q - 52)"
  have u: "0 < u" by (simp add: u_def)
  have "double_of q = of_int (round_half_even (q / u)) * u" using q by (simp add: double_of_def u_def Let_def)
  then have "\<bar>double_of q - q\<bar> = \<bar>of_int (round_half_even (q / u)) - q / u\<bar> * u"
  proof -
    have "of_int (round_half_even (q / u)) * u - q = (of_int (round_half_even (q / u)) - q / u) * u"
      using u by (simp add: left_diff_distrib)
    with u \<open>double_of q = _\<close> show ?thesis by (simp add: abs_mult)
  qed
  also have "\<dots> \<le> 1 / 2 * u" using u round_half_even_near [of "q / u"] by (intro mult_right_mono) auto
  also have "\<dots> = 2 powi binary_exponent q * rounding_unit" by (simp add: u_def rounding_unit_def power_int_diff)
  also have "\<dots> \<le> q * rounding_unit"
    using binary_exponent_bounds(1) [OF q] by (intro mult_right_mono) (simp_all add: rounding_unit_def)
  finally show ?thesis .
qed simp

section \<open>Sums of rounded amounts\<close>

text \<open>\<open>y\<close> is the amount \<open>x\<close> after at most \<open>k\<close> roundings.\<close>

definition near :: "nat \<Rightarrow> rat \<Rightarrow> rat \<Rightarrow> bool" where
  "near k x y \<longleftrightarrow> x * (1 - rounding_unit) ^ k \<le> y \<and> y \<le> x * (1 + rounding_unit) ^ k"

lemma unit_bounds: "0 < rounding_unit" "rounding_unit < 1" "0 \<le> 1 - rounding_unit" "1 \<le> 1 + rounding_unit"
  by (simp_all add: rounding_unit_def)

lemma near_refl [simp]: "near 0 x x"
  by (simp add: near_def)

lemma near_nonneg: "near k x y \<Longrightarrow> 0 \<le> x \<Longrightarrow> 0 \<le> y"
  using unit_bounds(3) by (auto simp: near_def intro: order_trans [of 0 "x * (1 - rounding_unit) ^ k" y])

lemma near_round:
  assumes "near k x y" "0 \<le> x"
  shows "near (Suc k) x (double_of y)"
proof -
  from near_nonneg [OF assms] have y: "0 \<le> y" .
  from double_of_near [OF y] have d: "y * (1 - rounding_unit) \<le> double_of y" "double_of y \<le> y * (1 + rounding_unit)"
    by (auto simp: abs_le_iff algebra_simps)
  have "x * (1 - rounding_unit) ^ Suc k \<le> y * (1 - rounding_unit)"
    using assms(1) unit_bounds(3) mult_right_mono [of "x * (1 - rounding_unit) ^ k" y "1 - rounding_unit"]
    by (simp add: near_def mult_ac)
  moreover have "y * (1 + rounding_unit) \<le> x * (1 + rounding_unit) ^ Suc k"
    using assms(1) unit_bounds(1) mult_right_mono [of y "x * (1 + rounding_unit) ^ k" "1 + rounding_unit"]
    by (simp add: near_def mult_ac)
  ultimately show ?thesis using d unfolding near_def by linarith
qed

lemma near_later:
  assumes "near k x y" "0 \<le> x" "k \<le> j"
  shows "near j x y"
proof -
  have "(1 - rounding_unit) ^ j \<le> (1 - rounding_unit) ^ k" using assms(3) unit_bounds by (intro power_decreasing) auto
  then have "x * (1 - rounding_unit) ^ j \<le> x * (1 - rounding_unit) ^ k" using assms(2) by (rule mult_left_mono)
  moreover have "(1 + rounding_unit) ^ k \<le> (1 + rounding_unit) ^ j" using assms(3) unit_bounds by (intro power_increasing) auto
  then have "x * (1 + rounding_unit) ^ k \<le> x * (1 + rounding_unit) ^ j" using assms(2) by (rule mult_left_mono)
  ultimately show ?thesis using assms(1) unfolding near_def by linarith
qed

lemma near_add: "near k x y \<Longrightarrow> near k x' y' \<Longrightarrow> near k (x + x') (y + y')"
  by (auto simp: near_def distrib_right)

lemma near_scale: "near k x y \<Longrightarrow> 0 \<le> c \<Longrightarrow> near k (c * x) (c * y)"
  by (auto simp: near_def mult.assoc intro: mult_left_mono)

end
