(* ===== verification/GenAI_Usage.thy ===== *)
theory GenAI_Usage
  imports Js_Value Js_Double
begin

text \<open>
  \<^verbatim>\<open>genai_proxy/src/usage.ts\<close> and \<^verbatim>\<open>billing.ts\<close>: how the GenAI proxy counts tokens for each user and
  model, keeps the counts in a file, and estimates what they cost.

  The maps of the store are association lists in insertion order. \<^verbatim>\<open>Date\<close> is an argument: the text of
  a time and the time of a text. So are \<^verbatim>\<open>localeCompare\<close>, \<^verbatim>\<open>JSON.parse\<close> and \<^verbatim>\<open>JSON.stringify\<close>. Counts are
  natural numbers; the rounding of sums of counts above 2^53 is not modelled. Costs are computed in
  doubles, with the rounding of every operation.
\<close>

section \<open>Types\<close>

record token_usage =
  tu_prompt :: nat
  tu_completion :: nat
  tu_total :: nat

record model_usage =
  mu_model :: string
  mu_requests :: nat
  mu_tokens :: token_usage

record user_usage =
  uu_clientId :: string
  uu_date :: string
  uu_lastUsage :: string
  uu_models :: "model_usage list"
  uu_requests :: nat
  uu_scope :: string
  uu_subject :: string
  uu_tokens :: token_usage

record usage_identity =
  ui_clientId :: string
  ui_model :: "string option"
  ui_project :: string
  ui_scope :: string
  ui_subject :: string

type_synonym usage_users = "(string \<times> user_usage) list"
type_synonym usage_projects = "(string \<times> usage_users) list"

text \<open>\<^verbatim>\<open>new Date(ms).toISOString()\<close>, and \<^verbatim>\<open>new Date(text).getTime()\<close> where it is a number.\<close>

record dates =
  dt_iso :: "int \<Rightarrow> string"
  dt_parse :: "string \<Rightarrow> int option"

definition default_model :: string where
  "default_model = ''gpt-5.6-luna''"

section \<open>Dates\<close>

definition jst_offset_ms :: int where
  "jst_offset_ms = 9 * 60 * 60 * 1000"

definition jst_date :: "dates \<Rightarrow> int \<Rightarrow> string" where
  "jst_date dt ms = take 10 (dt_iso dt (ms + jst_offset_ms))"

definition jst_timestamp :: "dates \<Rightarrow> int \<Rightarrow> string" where
  "jst_timestamp dt ms =
     (let s = dt_iso dt (ms + jst_offset_ms) in
      case index_of ''Z'' s of None \<Rightarrow> s | Some i \<Rightarrow> take i s @ ''+09:00'' @ drop (Suc i) s)"

section \<open>Recording\<close>

definition no_tokens :: token_usage where
  "no_tokens = \<lparr>tu_prompt = 0, tu_completion = 0, tu_total = 0\<rparr>"

definition add_tokens :: "token_usage \<Rightarrow> token_usage \<Rightarrow> token_usage" where
  "add_tokens a b =
     \<lparr>tu_prompt = tu_prompt a + tu_prompt b, tu_completion = tu_completion a + tu_completion b, tu_total = tu_total a + tu_total b\<rparr>"

definition usage_key :: "string \<Rightarrow> string \<Rightarrow> string \<Rightarrow> string \<Rightarrow> string" where
  "usage_key date subject clientId scope = join [CHR 0x00] [date, subject, clientId, scope]"

text \<open>\<^verbatim>\<open>identity.model?.trim() || DEFAULT_MODEL\<close>\<close>

definition recorded_model :: "usage_identity \<Rightarrow> string" where
  "recorded_model identity =
     (case ui_model identity of None \<Rightarrow> default_model | Some m \<Rightarrow> if trim m = [] then default_model else trim m)"

fun add_to_model :: "string \<Rightarrow> token_usage \<Rightarrow> model_usage list \<Rightarrow> model_usage list" where
  "add_to_model name u [] = [\<lparr>mu_model = name, mu_requests = 1, mu_tokens = add_tokens no_tokens u\<rparr>]"
| "add_to_model name u (m # ms) =
     (if mu_model m = name
      then m\<lparr>mu_requests := mu_requests m + 1, mu_tokens := add_tokens (mu_tokens m) u\<rparr> # ms
      else m # add_to_model name u ms)"

definition new_user :: "string \<Rightarrow> string \<Rightarrow> usage_identity \<Rightarrow> user_usage" where
  "new_user date lastUsage identity =
     \<lparr>uu_clientId = ui_clientId identity, uu_date = date, uu_lastUsage = lastUsage, uu_models = [], uu_requests = 0,
      uu_scope = ui_scope identity, uu_subject = ui_subject identity, uu_tokens = no_tokens\<rparr>"

definition add_usage :: "string \<Rightarrow> string \<Rightarrow> token_usage \<Rightarrow> user_usage \<Rightarrow> user_usage" where
  "add_usage lastUsage model u current =
     current\<lparr>uu_requests := uu_requests current + 1, uu_tokens := add_tokens (uu_tokens current) u,
             uu_lastUsage := lastUsage, uu_models := add_to_model model u (uu_models current)\<rparr>"

definition identity_key :: "dates \<Rightarrow> int \<Rightarrow> usage_identity \<Rightarrow> string" where
  "identity_key dt now identity = usage_key (jst_date dt now) (ui_subject identity) (ui_clientId identity) (ui_scope identity)"

definition users_of :: "usage_projects \<Rightarrow> string \<Rightarrow> usage_users" where
  "users_of projects project = (case map_of projects project of None \<Rightarrow> [] | Some users \<Rightarrow> users)"

definition record_usage :: "dates \<Rightarrow> int \<Rightarrow> usage_identity \<Rightarrow> token_usage \<Rightarrow> usage_projects \<Rightarrow> usage_projects" where
  "record_usage dt now identity u projects =
     (let users = users_of projects (ui_project identity);
          key = identity_key dt now identity;
          current = (case map_of users key of
            None \<Rightarrow> new_user (jst_date dt now) (jst_timestamp dt now) identity | Some c \<Rightarrow> c)
      in AList.update (ui_project identity)
           (AList.update key (add_usage (jst_timestamp dt now) (recorded_model identity) u current) users) projects)"

section \<open>Reports\<close>

text \<open>\<^verbatim>\<open>Array.prototype.sort\<close> with a comparator is stable.\<close>

fun insert_by :: "('a \<Rightarrow> 'a \<Rightarrow> int) \<Rightarrow> 'a \<Rightarrow> 'a list \<Rightarrow> 'a list" where
  "insert_by cmp x [] = [x]"
| "insert_by cmp x (y # ys) = (if cmp x y \<le> 0 then x # y # ys else y # insert_by cmp x ys)"

definition sort_by :: "('a \<Rightarrow> 'a \<Rightarrow> int) \<Rightarrow> 'a list \<Rightarrow> 'a list" where
  "sort_by cmp xs = foldr (insert_by cmp) xs []"

text \<open>\<^verbatim>\<open>a || b || ...\<close> of numbers\<close>

fun first_nonzero :: "int list \<Rightarrow> int" where
  "first_nonzero [] = 0"
| "first_nonzero [c] = c"
| "first_nonzero (c # cs) = (if c \<noteq> 0 then c else first_nonzero cs)"

definition compare_users :: "(string \<Rightarrow> string \<Rightarrow> int) \<Rightarrow> user_usage \<Rightarrow> user_usage \<Rightarrow> int" where
  "compare_users lc l r =
     first_nonzero [lc (uu_date r) (uu_date l), lc (uu_lastUsage r) (uu_lastUsage l),
                    lc (uu_subject l) (uu_subject r), lc (uu_clientId l) (uu_clientId r)]"

record usage_row =
  rw_date :: string
  rw_lastUsage :: string
  rw_sub :: string
  rw_clientId :: string
  rw_scope :: string
  rw_requests :: nat
  rw_tokens :: token_usage
  rw_models :: "model_usage list"

definition usage_row_of :: "(string \<Rightarrow> string \<Rightarrow> int) \<Rightarrow> user_usage \<Rightarrow> usage_row" where
  "usage_row_of lc u =
     \<lparr>rw_date = uu_date u, rw_lastUsage = take 8 (drop 11 (uu_lastUsage u)), rw_sub = uu_subject u, rw_clientId = uu_clientId u,
      rw_scope = uu_scope u, rw_requests = uu_requests u, rw_tokens = uu_tokens u,
      rw_models = sort_by (\<lambda>l r. lc (mu_model l) (mu_model r)) (uu_models u)\<rparr>"

definition list_usage :: "(string \<Rightarrow> string \<Rightarrow> int) \<Rightarrow> usage_projects \<Rightarrow> string \<Rightarrow> usage_row list" where
  "list_usage lc projects project = map (usage_row_of lc) (sort_by (compare_users lc) (map snd (users_of projects project)))"

record project_report =
  pj_project :: string
  pj_scope :: string
  pj_users :: "usage_row list"

definition project_prefix :: string where
  "project_prefix = ''gen-ai.services.''"

definition list_projects :: "(string \<Rightarrow> string \<Rightarrow> int) \<Rightarrow> string option \<Rightarrow> usage_projects \<Rightarrow> project_report list" where
  "list_projects lc subject projects =
     filter (\<lambda>p. pj_users p \<noteq> [])
       (map (\<lambda>domain.
          let users = filter (\<lambda>u. subject = None \<or> subject = Some [] \<or> subject = Some (rw_sub u)) (list_usage lc projects domain)
          in \<lparr>pj_project = (if starts_with project_prefix domain then drop (length project_prefix) domain else domain),
              pj_scope = (case users of [] \<Rightarrow> [] | u # _ \<Rightarrow> rw_scope u), pj_users = users\<rparr>)
        (sort (map fst projects)))"

definition add_model_total :: "model_usage \<Rightarrow> (string \<times> model_usage) list \<Rightarrow> (string \<times> model_usage) list" where
  "add_model_total m totals =
     (let t = (case map_of totals (mu_model m) of
                 None \<Rightarrow> \<lparr>mu_model = mu_model m, mu_requests = 0, mu_tokens = no_tokens\<rparr> | Some t \<Rightarrow> t)
      in AList.update (mu_model m)
           (t\<lparr>mu_requests := mu_requests t + mu_requests m, mu_tokens := add_tokens (mu_tokens t) (mu_tokens m)\<rparr>) totals)"

definition current_daily_models :: "(string \<Rightarrow> string \<Rightarrow> int) \<Rightarrow> dates \<Rightarrow> int \<Rightarrow> usage_projects \<Rightarrow> string \<Rightarrow> model_usage list" where
  "current_daily_models lc dt now projects project =
     (let today = filter (\<lambda>u. uu_date u = jst_date dt now) (map snd (users_of projects project))
      in sort_by (\<lambda>l r. lc (mu_model l) (mu_model r)) (map snd (fold add_model_total (concat (map uu_models today)) [])))"

section \<open>Costs\<close>

text \<open>
  A price in dollars for a million tokens. A name that every object inherits finds a value without
  \<^verbatim>\<open>input\<close> and \<^verbatim>\<open>output\<close>, and the products with \<^verbatim>\<open>undefined\<close> are not a number.
\<close>

datatype model_price = Price rat rat | No_Price

definition price_of :: "string \<Rightarrow> model_price" where
  "price_of model =
     (if model = ''gpt-5.6-sol'' then Price 5 30
      else if model = ''gpt-5.6-terra'' then Price (5 / 2) 15
      else if model = ''gpt-5.6-luna'' then Price 1 6
      else if model \<in> set inherited_names then No_Price
      else Price (double_of (1 / 10)) (double_of (3 / 10)))"

definition token_cost :: "string \<Rightarrow> nat \<Rightarrow> nat \<Rightarrow> js_number" where
  "token_cost model inputTokens outputTokens =
     (case price_of model of
        Price i out \<Rightarrow> Finite (double_of
          (double_of (double_of (of_nat inputTokens * i) + double_of (of_nat outputTokens * out)) / 1000000))
      | No_Price \<Rightarrow> Not_A_Number)"

fun add_cost :: "js_number \<Rightarrow> js_number \<Rightarrow> js_number" where
  "add_cost (Finite a) (Finite b) = Finite (double_of (a + b))"
| "add_cost _ _ = Not_A_Number"

definition usage_cost :: "model_usage list \<Rightarrow> js_number" where
  "usage_cost ms = foldl (\<lambda>total m. add_cost total (token_cost (mu_model m) (tu_prompt (mu_tokens m)) (tu_completion (mu_tokens m)))) (Finite 0) ms"

definition daily_limit :: "string \<Rightarrow> (rat \<times> nat) option" where
  "daily_limit project =
     (if project = ''athenz'' then Some (240, 2) else if project = ''spire'' then Some (double_of (2 / 1000), 3) else None)"

section \<open>The usage of a response\<close>

text \<open>\<^verbatim>\<open>nonNegativeInteger\<close>\<close>

definition natural_at :: "unknown \<Rightarrow> nat option" where
  "natural_at v = (case as_finite v of None \<Rightarrow> None | Some q \<Rightarrow> if is_integer q \<and> 0 \<le> q then Some (nat \<lfloor>q\<rfloor>) else None)"

definition normalized_usage :: "unknown \<Rightarrow> unknown \<Rightarrow> unknown \<Rightarrow> token_usage option" where
  "normalized_usage promptValue completionValue totalValue =
     (let p = natural_at promptValue; c = natural_at completionValue; t = natural_at totalValue;
          prompt = (case p of None \<Rightarrow> 0 | Some n \<Rightarrow> n); completion = (case c of None \<Rightarrow> 0 | Some n \<Rightarrow> n) in
      if p = None \<and> c = None \<and> t = None then None
      else Some \<lparr>tu_prompt = prompt, tu_completion = completion, tu_total = (case t of None \<Rightarrow> prompt + completion | Some n \<Rightarrow> n)\<rparr>)"

text \<open>\<^verbatim>\<open>a ?? b\<close>\<close>

definition nullish_or :: "unknown \<Rightarrow> unknown \<Rightarrow> unknown" where
  "nullish_or a b = (if a = None \<or> a = Some JNull then b else a)"

lemma map_of_size:
  "map_of fs k = Some (JObj gs) \<Longrightarrow> size_list (size_prod (\<lambda>_. 0) size) gs < size_list (size_prod (\<lambda>_. 0) size) fs"
  by (induction fs) (auto split: if_splits)

function usage_from_object :: "(string \<times> json) list \<Rightarrow> token_usage option" where
  "usage_from_object fs =
     (let nested = (case map_of fs ''response'' of Some (JObj gs) \<Rightarrow> usage_from_object gs | _ \<Rightarrow> None) in
      if nested \<noteq> None then nested
      else case map_of fs ''usage'' of
        Some (JObj us) \<Rightarrow> normalized_usage (nullish_or (map_of us ''prompt_tokens'') (map_of us ''input_tokens''))
                           (nullish_or (map_of us ''completion_tokens'') (map_of us ''output_tokens'')) (map_of us ''total_tokens'')
      | _ \<Rightarrow> normalized_usage (map_of fs ''prompt_eval_count'') (map_of fs ''eval_count'') None)"
  by pat_completeness auto
termination
  by (relation "measure (\<lambda>fs. size (JObj fs))") (auto dest: map_of_size)

declare usage_from_object.simps [simp del]

text \<open>
  \<^verbatim>\<open>"name"\s*:\s*(\d+)\<close> at the start of a text, for one of the names. No match starts within
  another, so the last match is the one that starts last.
\<close>

definition match_integer :: "string list \<Rightarrow> string \<Rightarrow> nat option" where
  "match_integer names s =
     (case find (\<lambda>name. starts_with (CHR 0x22 # name @ [CHR 0x22]) s) names of
        None \<Rightarrow> None
      | Some name \<Rightarrow>
          (case dropWhile is_ws (drop (length name + 2) s) of
             CHR '':'' # rest \<Rightarrow>
               let ds = takeWhile is_digit (dropWhile is_ws rest) in
               if ds = [] then None else Some (foldl (\<lambda>n c. 10 * n + (of_char c - 48)) 0 ds)
           | _ \<Rightarrow> None))"

fun last_integer :: "string list \<Rightarrow> string \<Rightarrow> nat option" where
  "last_integer names [] = None"
| "last_integer names (c # cs) =
     (case last_integer names cs of Some n \<Rightarrow> Some n | None \<Rightarrow> match_integer names (c # cs))"

definition nat_value :: "nat option \<Rightarrow> unknown" where
  "nat_value n = map_option (\<lambda>n. JNum (Finite (of_nat n))) n"

definition event_text :: "string \<Rightarrow> string" where
  "event_text line =
     (let s = trim line in if starts_with ''data:'' s then trim_start (drop 5 s) else s)"

fun first_some :: "('a \<Rightarrow> 'b option) \<Rightarrow> 'a list \<Rightarrow> 'b option" where
  "first_some f [] = None"
| "first_some f (x # xs) = (case f x of None \<Rightarrow> first_some f xs | Some y \<Rightarrow> Some y)"

definition extract_token_usage :: "(string \<Rightarrow> json option) \<Rightarrow> string \<Rightarrow> token_usage option" where
  "extract_token_usage parse responseTail =
     (let objects = rev (filter (\<lambda>l. starts_with [CHR ''{''] l \<and> ends_with [CHR ''}''] l)
            (map event_text (split_char (CHR 0x0A) responseTail)));
          found = first_some (\<lambda>l. case parse l of Some (JObj fs) \<Rightarrow> usage_from_object fs | _ \<Rightarrow> None) objects in
      if found \<noteq> None then found
      else normalized_usage
        (nat_value (last_integer [''prompt_eval_count'', ''prompt_tokens'', ''input_tokens''] responseTail))
        (nat_value (last_integer [''eval_count'', ''completion_tokens'', ''output_tokens''] responseTail))
        (nat_value (last_integer [''total_tokens''] responseTail)))"

section \<open>The file\<close>

definition tokens_fields :: "token_usage \<Rightarrow> (string \<times> json) list" where
  "tokens_fields t =
     [(''promptTokens'', JNum (Finite (of_nat (tu_prompt t)))), (''completionTokens'', JNum (Finite (of_nat (tu_completion t)))),
      (''totalTokens'', JNum (Finite (of_nat (tu_total t))))]"

definition model_json :: "model_usage \<Rightarrow> json" where
  "model_json m = JObj ([(''model'', JStr (mu_model m)), (''requests'', JNum (Finite (of_nat (mu_requests m))))] @ tokens_fields (mu_tokens m))"

definition user_json :: "user_usage \<Rightarrow> json" where
  "user_json u = JObj
     ([(''date'', JStr (uu_date u)), (''lastUsage'', JStr (uu_lastUsage u)), (''models'', JArr (map model_json (uu_models u))),
       (''subject'', JStr (uu_subject u)), (''clientId'', JStr (uu_clientId u)), (''scope'', JStr (uu_scope u)),
       (''requests'', JNum (Finite (of_nat (uu_requests u))))] @ tokens_fields (uu_tokens u))"

definition compare_saved :: "(string \<Rightarrow> string \<Rightarrow> int) \<Rightarrow> user_usage \<Rightarrow> user_usage \<Rightarrow> int" where
  "compare_saved lc l r = first_nonzero [compare_users lc l r, lc (uu_scope l) (uu_scope r)]"

definition snapshot_json :: "(string \<Rightarrow> string \<Rightarrow> int) \<Rightarrow> usage_projects \<Rightarrow> json" where
  "snapshot_json lc projects = JObj
     [(''version'', JNum (Finite 4)),
      (''projects'', JArr (map (\<lambda>(project, users). JObj
         [(''project'', JStr project), (''users'', JArr (map user_json (sort_by (compare_saved lc) (map snd users))))])
       (sort_by (\<lambda>(l, _) (r, _). lc l r) projects)))]"

text \<open>Writing is by a temporary file and a rename; each step can fail and then the file stays.\<close>

definition persist_usage ::
  "string option \<Rightarrow> bool \<Rightarrow> (json \<Rightarrow> string) \<Rightarrow> (string \<Rightarrow> string \<Rightarrow> int) \<Rightarrow> usage_projects \<Rightarrow> string option
   \<Rightarrow> (string, unit) result \<times> string option" where
  "persist_usage dataPath fails stringify lc projects file =
     (if dataPath = None then (Inr (), file)
      else if fails then (Inl ''write failed'', file)
      else (Inr (), Some (stringify (snapshot_json lc projects) @ [CHR 0x0A])))"

definition string_field :: "unknown \<Rightarrow> string \<Rightarrow> (string, string) result" where
  "string_field v name =
     (case as_string v of None \<Rightarrow> Inl (name @ '' must be a non-empty string'')
      | Some s \<Rightarrow> if s = [] then Inl (name @ '' must be a non-empty string'') else Inr s)"

definition natural_field :: "unknown \<Rightarrow> string \<Rightarrow> (string, nat) result" where
  "natural_field v name = (case natural_at v of None \<Rightarrow> Inl (name @ '' must be a non-negative integer'') | Some n \<Rightarrow> Inr n)"

definition usage_date :: "dates \<Rightarrow> unknown \<Rightarrow> (string, string) result" where
  "usage_date dt v =
     ebind (string_field v ''date'') (\<lambda>date.
       case dt_parse dt (date @ ''T00:00:00.000Z'') of
         None \<Rightarrow> Inl ''date must use YYYY-MM-DD format''
       | Some ms \<Rightarrow> if take 10 (dt_iso dt ms) \<noteq> date then Inl ''date must use YYYY-MM-DD format'' else Inr date)"

text \<open>\<^verbatim>\<open>/^\d{4}-\d{2}-\d{2}T\d{2}:\d{2}:\d{2}\.\d{3}\+09:00$/\<close>\<close>

definition is_jst_timestamp :: "string \<Rightarrow> bool" where
  "is_jst_timestamp s \<longleftrightarrow> list_all2 (\<lambda>c p. if p = CHR ''0'' then is_digit c else c = p) (take 23 s) ''0000-00-00T00:00:00.000''
     \<and> drop 23 s = ''+09:00''"

definition usage_timestamp :: "dates \<Rightarrow> unknown \<Rightarrow> string \<Rightarrow> (string, string) result" where
  "usage_timestamp dt v date =
     ebind (string_field v ''lastUsage'') (\<lambda>t.
       if \<not> is_jst_timestamp t then Inl ''lastUsage must be an ISO timestamp with a +09:00 offset''
       else case dt_parse dt t of
         None \<Rightarrow> Inl ''lastUsage must fall on the entry date in JST''
       | Some ms \<Rightarrow> if jst_date dt ms \<noteq> date then Inl ''lastUsage must fall on the entry date in JST'' else Inr t)"

definition migrated_last_usage :: "dates \<Rightarrow> string \<Rightarrow> int \<Rightarrow> string" where
  "migrated_last_usage dt date modifiedAt =
     (let t = jst_timestamp dt modifiedAt in if starts_with (date @ ''T'') t then t else date @ ''T00:00:00.000+09:00'')"

definition tokens_of :: "(string \<times> json) list \<Rightarrow> string \<Rightarrow> (string, nat \<times> token_usage) result" where
  "tokens_of fs prefix =
     ebind (natural_field (map_of fs ''requests'') (prefix @ ''requests'')) (\<lambda>requests.
     ebind (natural_field (map_of fs ''promptTokens'') (prefix @ ''promptTokens'')) (\<lambda>p.
     ebind (natural_field (map_of fs ''completionTokens'') (prefix @ ''completionTokens'')) (\<lambda>c.
     ebind (natural_field (map_of fs ''totalTokens'') (prefix @ ''totalTokens'')) (\<lambda>t.
     Inr (requests, \<lparr>tu_prompt = p, tu_completion = c, tu_total = t\<rparr>)))))"

definition parse_model :: "json \<Rightarrow> (string, model_usage) result" where
  "parse_model v =
     (case as_record (Some v) of
        None \<Rightarrow> Inl ''invalid model usage entry''
      | Some fs \<Rightarrow>
          ebind (string_field (map_of fs ''model'') ''model'') (\<lambda>model.
          ebind (tokens_of fs ''model '') (\<lambda>(requests, tokens).
          Inr \<lparr>mu_model = model, mu_requests = requests, mu_tokens = tokens\<rparr>)))"

definition parse_models :: "unknown \<Rightarrow> (string, model_usage list) result" where
  "parse_models v =
     (case v of
        Some (JArr vs) \<Rightarrow>
          ebind (emap parse_model vs) (\<lambda>models.
          if \<not> distinct (map mu_model models) then Inl ''duplicate model usage entry'' else Inr models)
      | _ \<Rightarrow> Inl ''models must be an array'')"

definition parse_user :: "dates \<Rightarrow> nat \<Rightarrow> string \<Rightarrow> int \<Rightarrow> json \<Rightarrow> (string, user_usage) result" where
  "parse_user dt version legacyDate modifiedAt v =
     (case as_record (Some v) of
        None \<Rightarrow> Inl ''invalid user usage entry''
      | Some fs \<Rightarrow>
          ebind (usage_date dt (nullish_or (map_of fs ''date'') (if version = 1 then Some (JStr legacyDate) else None))) (\<lambda>date.
          ebind (tokens_of fs []) (\<lambda>(requests, tokens).
          ebind (if 3 \<le> version then usage_timestamp dt (map_of fs ''lastUsage'') date
                 else Inr (migrated_last_usage dt date modifiedAt)) (\<lambda>lastUsage.
          ebind (if version = 4 then parse_models (map_of fs ''models'')
                 else Inr [\<lparr>mu_model = default_model, mu_requests = requests, mu_tokens = tokens\<rparr>]) (\<lambda>models.
          ebind (string_field (map_of fs ''subject'') ''subject'') (\<lambda>subject.
          ebind (string_field (map_of fs ''clientId'') ''clientId'') (\<lambda>clientId.
          ebind (string_field (map_of fs ''scope'') ''scope'') (\<lambda>scope.
          Inr \<lparr>uu_clientId = clientId, uu_date = date, uu_lastUsage = lastUsage, uu_models = models, uu_requests = requests,
               uu_scope = scope, uu_subject = subject, uu_tokens = tokens\<rparr>))))))))"

definition snapshot_version :: "unknown \<Rightarrow> nat option" where
  "snapshot_version v =
     (case natural_at v of None \<Rightarrow> None | Some n \<Rightarrow> if n \<in> {1, 2, 3, 4} then Some n else None)"

definition parse_project :: "dates \<Rightarrow> nat \<Rightarrow> int \<Rightarrow> json \<Rightarrow> (string, string \<times> user_usage list) result" where
  "parse_project dt version modifiedAt v =
     (case as_record (Some v) of
        None \<Rightarrow> Inl ''invalid project entry''
      | Some fs \<Rightarrow>
          (case map_of fs ''users'' of
             Some (JArr us) \<Rightarrow>
               ebind (string_field (map_of fs ''project'') ''project'') (\<lambda>project.
               ebind (emap (parse_user dt version (jst_date dt modifiedAt) modifiedAt) us) (\<lambda>users.
               Inr (project, users)))
           | _ \<Rightarrow> Inl ''invalid project entry''))"

definition parse_snapshot :: "dates \<Rightarrow> int \<Rightarrow> json \<Rightarrow> (string, (string \<times> user_usage list) list) result" where
  "parse_snapshot dt modifiedAt v =
     (case as_record (Some v) of
        None \<Rightarrow> Inl ''expected a version 1, 2, 3, or 4 usage snapshot''
      | Some fs \<Rightarrow>
          (case (snapshot_version (map_of fs ''version''), map_of fs ''projects'') of
             (Some version, Some (JArr ps)) \<Rightarrow>
               ebind (emap (parse_project dt version modifiedAt) ps) (\<lambda>projects.
               if \<not> distinct (map fst projects) then Inl ''duplicate project entry'' else Inr projects)
           | _ \<Rightarrow> Inl ''expected a version 1, 2, 3, or 4 usage snapshot''))"

definition key_of_user :: "user_usage \<Rightarrow> string" where
  "key_of_user u = usage_key (uu_date u) (uu_subject u) (uu_clientId u) (uu_scope u)"

definition load_users :: "user_usage list \<Rightarrow> usage_users" where
  "load_users us = fold (\<lambda>u. AList.update (key_of_user u) u) us []"

text \<open>Reading the file: an absent one is an empty store, anything else unreadable is an exception.\<close>

datatype saved_file = No_File | Unreadable string | Saved string int

definition load_usage :: "dates \<Rightarrow> (string \<Rightarrow> json option) \<Rightarrow> string \<Rightarrow> saved_file \<Rightarrow> (string, usage_projects) result" where
  "load_usage dt parse dataPath file =
     (case file of
        No_File \<Rightarrow> Inr []
      | Unreadable m \<Rightarrow> Inl (''Unable to read GenAI usage data from '' @ dataPath @ '': '' @ m)
      | Saved encoded modifiedAt \<Rightarrow>
          (case parse encoded of
             None \<Rightarrow> Inl (''Unable to parse GenAI usage data from '' @ dataPath @ '': Unexpected token in JSON'')
           | Some v \<Rightarrow>
               (case parse_snapshot dt modifiedAt v of
                  Inl m \<Rightarrow> Inl (''Unable to parse GenAI usage data from '' @ dataPath @ '': '' @ m)
                | Inr ps \<Rightarrow> Inr (fold (\<lambda>(project, users). AList.update project (load_users users)) ps []))))"

end
