(* ===== verification/GenAI_Accounts.thy ===== *)
theory GenAI_Accounts
  imports GenAI_Usage
begin

text \<open>
  What the usage store promises: its totals are those of the requests that were recorded, each counted
  once, and what it saves is what it loads.
\<close>

section \<open>What was recorded\<close>

text \<open>A history of the store: the time, the identity and the usage of every recorded request.\<close>

type_synonym usage_history = "(int \<times> usage_identity \<times> token_usage) list"

definition store_of :: "dates \<Rightarrow> usage_history \<Rightarrow> usage_projects" where
  "store_of dt hist = fold (\<lambda>(now, identity, u). record_usage dt now identity u) hist []"

text \<open>An amount of a model is the number of its requests or one of its counts of tokens.\<close>

type_synonym amount = "nat \<times> token_usage \<Rightarrow> nat"

definition additive :: "amount \<Rightarrow> bool" where
  "additive f \<longleftrightarrow> f (0, no_tokens) = 0 \<and> (\<forall>r t r' t'. f (r + r', add_tokens t t') = f (r, t) + f (r', t'))"

definition amount_of_model :: "amount \<Rightarrow> string \<Rightarrow> model_usage \<Rightarrow> nat" where
  "amount_of_model f name m = (if mu_model m = name then f (mu_requests m, mu_tokens m) else 0)"

definition amount_of_models :: "amount \<Rightarrow> string \<Rightarrow> model_usage list \<Rightarrow> nat" where
  "amount_of_models f name ms = sum_list (map (amount_of_model f name) ms)"

definition amount_of_day :: "amount \<Rightarrow> string \<Rightarrow> string \<Rightarrow> user_usage \<Rightarrow> nat" where
  "amount_of_day f name date u = (if uu_date u = date then amount_of_models f name (uu_models u) else 0)"

definition amount_recorded :: "amount \<Rightarrow> dates \<Rightarrow> string \<Rightarrow> string \<Rightarrow> string \<Rightarrow> usage_history \<Rightarrow> nat" where
  "amount_recorded f dt project date name hist =
     sum_list (map (\<lambda>(now, i, u). if ui_project i = project \<and> jst_date dt now = date \<and> recorded_model i = name then f (1, u) else 0) hist)"

lemma additive_amounts: "additive fst" "additive (tu_prompt \<circ> snd)" "additive (tu_completion \<circ> snd)" "additive (tu_total \<circ> snd)"
  by (simp_all add: additive_def add_tokens_def no_tokens_def)

lemma add_no_tokens [simp]: "add_tokens no_tokens u = u" "add_tokens u no_tokens = u"
  by (simp_all add: add_tokens_def no_tokens_def)

lemma amount_add_to_model:
  assumes "additive f" "distinct (map mu_model ms)"
  shows "amount_of_models f name (add_to_model n u ms) = amount_of_models f name ms + (if n = name then f (1, u) else 0)"
    "set (map mu_model (add_to_model n u ms)) = insert n (set (map mu_model ms))" "distinct (map mu_model (add_to_model n u ms))"
proof -
  have plus: "f (Suc r, add_tokens t u) = f (r, t) + f (Suc 0, u)" for r t
    using assms(1) unfolding additive_def by (metis Suc_eq_plus1 One_nat_def)
  show "amount_of_models f name (add_to_model n u ms) = amount_of_models f name ms + (if n = name then f (1, u) else 0)"
    by (induction ms) (auto simp: amount_of_models_def amount_of_model_def plus)
  show names: "set (map mu_model (add_to_model n u ms)) = insert n (set (map mu_model ms))" for ms
    by (induction ms) auto
  show "distinct (map mu_model (add_to_model n u ms))" using assms(2)
  proof (induction ms)
    case (Cons m ms)
    then show ?case using names [of ms] by (auto simp: image_iff)
  qed simp
qed

text \<open>One entry of an association list is changed.\<close>

lemma sum_update:
  fixes g :: "'b \<Rightarrow> nat"
  assumes "distinct (map fst al)"
  shows "sum_list (map g (map snd (AList.update k v al))) + (case map_of al k of None \<Rightarrow> 0 | Some old \<Rightarrow> g old)
    = sum_list (map g (map snd al)) + g v"
  using assms
proof (induction al)
  case (Cons a al)
  obtain k' v' where a: "a = (k', v')" by (cases a)
  show ?case
  proof (cases "k' = k")
    case True
    with Cons.prems have "map_of al k = None" by (auto simp: a map_of_eq_None_iff)
    with True show ?thesis by (simp add: a)
  next
    case False
    with Cons show ?thesis by (simp add: a)
  qed
qed simp

text \<open>\<^verbatim>\<open>toISOString\<close> gives 24 or 27 characters.\<close>

definition iso_long :: "dates \<Rightarrow> bool" where
  "iso_long dt \<longleftrightarrow> (\<forall>ms. 10 \<le> length (dt_iso dt ms))"

text \<open>A stored user: its key, its models, and totals that are the sums over the models.\<close>

definition user_sound :: "string \<Rightarrow> user_usage \<Rightarrow> bool" where
  "user_sound k u \<longleftrightarrow> key_of_user u = k \<and> uu_date u = take 10 k \<and> (\<forall>m \<in> set (uu_models u). 0 < mu_requests m) \<and> distinct (map mu_model (uu_models u))
     \<and> uu_requests u = sum_list (map mu_requests (uu_models u)) \<and> uu_tokens u = foldr add_tokens (map mu_tokens (uu_models u)) no_tokens"

definition users_sound :: "usage_users \<Rightarrow> bool" where
  "users_sound users \<longleftrightarrow> distinct (map fst users) \<and> (\<forall>(k, u) \<in> set users. user_sound k u)"

definition projects_sound :: "usage_projects \<Rightarrow> bool" where
  "projects_sound projects \<longleftrightarrow> distinct (map fst projects) \<and> (\<forall>(p, users) \<in> set projects. users_sound users)"

lemma update_sound:
  assumes "users_sound users" "user_sound k u"
  shows "users_sound (AList.update k u users)"
proof -
  have "set (AList.update k u users) \<subseteq> insert (k, u) (set users)" by (induction users) auto
  with assms show ?thesis by (auto simp: users_sound_def distinct_update)
qed

lemma update_projects_sound:
  assumes "projects_sound projects" "users_sound users"
  shows "projects_sound (AList.update p users projects)"
proof -
  have "set (AList.update p users projects) \<subseteq> insert (p, users) (set projects)" by (induction projects) auto
  with assms show ?thesis by (auto simp: projects_sound_def distinct_update)
qed

lemma users_of_sound: "projects_sound projects \<Longrightarrow> users_sound (users_of projects p)"
  by (auto simp: projects_sound_def users_of_def users_sound_def split: option.splits dest!: map_of_SomeD)

lemma add_tokens_assoc: "add_tokens (add_tokens a b) c = add_tokens a (add_tokens b c)"
  by (simp add: add_tokens_def)

lemma add_tokens_comm: "add_tokens a b = add_tokens b a"
  by (simp add: add_tokens_def add.commute)

lemma sums_add_to_model:
  "sum_list (map mu_requests (add_to_model n u ms)) = sum_list (map mu_requests ms) + 1"
  "foldr add_tokens (map mu_tokens (add_to_model n u ms)) no_tokens = add_tokens (foldr add_tokens (map mu_tokens ms) no_tokens) u"
proof -
  show "sum_list (map mu_requests (add_to_model n u ms)) = sum_list (map mu_requests ms) + 1"
    by (induction ms) auto
  show "foldr add_tokens (map mu_tokens (add_to_model n u ms)) no_tokens = add_tokens (foldr add_tokens (map mu_tokens ms) no_tokens) u"
  proof (induction ms)
    case (Cons m ms)
    then show ?case by (auto simp: add_tokens_assoc) (metis add_tokens_assoc add_tokens_comm)
  qed simp
qed

lemma requests_positive: "\<forall>m \<in> set ms. 0 < mu_requests m \<Longrightarrow> \<forall>m \<in> set (add_to_model n u ms). 0 < mu_requests m"
  by (induction ms) auto

lemma add_usage_sound:
  assumes "user_sound k u"
  shows "user_sound k (add_usage lastUsage model t u)"
proof -
  from assms have u: "key_of_user u = k" "uu_date u = take 10 k" "\<forall>m \<in> set (uu_models u). 0 < mu_requests m"
    "distinct (map mu_model (uu_models u))" "uu_requests u = sum_list (map mu_requests (uu_models u))"
    "uu_tokens u = foldr add_tokens (map mu_tokens (uu_models u)) no_tokens" unfolding user_sound_def by blast+
  let ?u = "add_usage lastUsage model t u"
  have "key_of_user ?u = key_of_user u" "uu_date ?u = uu_date u" "uu_models ?u = add_to_model model t (uu_models u)"
    "uu_requests ?u = uu_requests u + 1" "uu_tokens ?u = add_tokens (uu_tokens u) t" by (simp_all add: add_usage_def key_of_user_def)
  then show ?thesis
    unfolding user_sound_def
    using u requests_positive [OF u(3)] amount_add_to_model(3) [OF additive_amounts(1) u(4)] sums_add_to_model by metis
qed

definition current_user :: "dates \<Rightarrow> int \<Rightarrow> usage_identity \<Rightarrow> usage_projects \<Rightarrow> user_usage" where
  "current_user dt now i projects =
     (case map_of (users_of projects (ui_project i)) (identity_key dt now i) of
        None \<Rightarrow> new_user (jst_date dt now) (jst_timestamp dt now) i | Some c \<Rightarrow> c)"

lemma record_usage_eq:
  "record_usage dt now i u projects = AList.update (ui_project i)
     (AList.update (identity_key dt now i) (add_usage (jst_timestamp dt now) (recorded_model i) u (current_user dt now i projects))
       (users_of projects (ui_project i))) projects"
  by (simp add: record_usage_def current_user_def Let_def)

lemma take_key: "iso_long dt \<Longrightarrow> take 10 (identity_key dt now i) = jst_date dt now"
  by (simp add: identity_key_def usage_key_def jst_date_def iso_long_def)

lemma current_user_sound:
  assumes "projects_sound projects" "iso_long dt"
  shows "user_sound (identity_key dt now i) (current_user dt now i projects)"
proof (cases "map_of (users_of projects (ui_project i)) (identity_key dt now i)")
  case None
  then show ?thesis using take_key [OF assms(2), of now i]
    by (simp add: current_user_def new_user_def user_sound_def key_of_user_def identity_key_def no_tokens_def)
next
  case (Some c)
  with users_of_sound [OF assms(1), of "ui_project i"] show ?thesis
    by (auto simp: current_user_def users_sound_def dest: map_of_SomeD)
qed

lemma record_usage_sound: "iso_long dt \<Longrightarrow> projects_sound projects \<Longrightarrow> projects_sound (record_usage dt now i u projects)"
  unfolding record_usage_eq
  by (intro update_projects_sound update_sound users_of_sound add_usage_sound current_user_sound)

lemma users_of_record:
  "users_of (record_usage dt now i u projects) p =
     (if p = ui_project i
      then AList.update (identity_key dt now i) (add_usage (jst_timestamp dt now) (recorded_model i) u (current_user dt now i projects)) (users_of projects p)
      else users_of projects p)"
  unfolding record_usage_eq by (simp add: users_of_def update_conv')

section \<open>Totals of a day\<close>

definition amount_of_project :: "amount \<Rightarrow> string \<Rightarrow> string \<Rightarrow> string \<Rightarrow> usage_projects \<Rightarrow> nat" where
  "amount_of_project f name date p projects = sum_list (map (amount_of_day f name date) (map snd (users_of projects p)))"

lemma amount_of_record:
  assumes "additive f" "projects_sound projects" "iso_long dt"
  shows "amount_of_project f name date p (record_usage dt now i u projects) = amount_of_project f name date p projects +
    (if ui_project i = p \<and> jst_date dt now = date \<and> recorded_model i = name then f (1, u) else 0)"
proof (cases "ui_project i = p")
  case False
  then show ?thesis by (simp add: amount_of_project_def users_of_record)
next
  case True
  let ?k = "identity_key dt now i" and ?c = "current_user dt now i projects" and ?users = "users_of projects p"
  let ?v = "add_usage (jst_timestamp dt now) (recorded_model i) u ?c"
  note c = current_user_sound [OF assms(2,3), of now i]
  then have "distinct (map mu_model (uu_models ?c))" "uu_date ?c = jst_date dt now"
    by (simp_all add: user_sound_def take_key [OF assms(3)])
  from amount_add_to_model(1) [OF assms(1) this(1)] this(2) have v: "amount_of_day f name date ?v =
      amount_of_day f name date ?c + (if jst_date dt now = date \<and> recorded_model i = name then f (1, u) else 0)"
    by (simp add: amount_of_day_def add_usage_def)
  have old: "(case map_of ?users ?k of None \<Rightarrow> 0 | Some old \<Rightarrow> amount_of_day f name date old) = amount_of_day f name date ?c"
    by (auto simp: current_user_def True new_user_def amount_of_day_def amount_of_models_def split: option.splits)
  have "distinct (map fst ?users)" using users_of_sound [OF assms(2), of p] by (simp add: users_sound_def)
  from sum_update [OF this, of "amount_of_day f name date" ?k ?v] show ?thesis
    unfolding old v by (simp add: amount_of_project_def users_of_record True)
qed

lemma store_of_snoc: "store_of dt (hist @ [(now, i, u)]) = record_usage dt now i u (store_of dt hist)"
  by (simp add: store_of_def)

lemma store_sound: "iso_long dt \<Longrightarrow> projects_sound (store_of dt hist)"
proof (induction hist rule: rev_induct)
  case Nil
  then show ?case by (simp add: store_of_def projects_sound_def)
next
  case (snoc x hist)
  then show ?case by (cases x) (simp add: store_of_snoc record_usage_sound)
qed

lemma amount_of_store:
  assumes "additive f" "iso_long dt"
  shows "amount_of_project f name date p (store_of dt hist) = amount_recorded f dt p date name hist"
proof (induction hist rule: rev_induct)
  case Nil
  then show ?case by (simp add: store_of_def amount_of_project_def users_of_def amount_recorded_def)
next
  case (snoc x hist)
  obtain now i u where x: "x = (now, i, u)" by (cases x)
  from amount_of_record [OF assms(1) store_sound [OF assms(2)] assms(2)] snoc.IH show ?case
    by (simp add: x store_of_snoc amount_recorded_def)
qed

subsection \<open>Sorting and adding up\<close>

lemma set_insert_by [simp]: "set (insert_by cmp x ys) = insert x (set ys)"
  by (induction ys) auto

lemma sort_by_simps [simp]: "sort_by cmp [] = []" "sort_by cmp (x # xs) = insert_by cmp x (sort_by cmp xs)"
  by (simp_all add: sort_by_def)

lemma set_sort_by [simp]: "set (sort_by cmp xs) = set xs"
  by (induction xs) auto

lemma distinct_sort_by: "distinct (map f (sort_by cmp xs)) = distinct (map f xs)"
proof -
  have "distinct (map f (insert_by cmp x ys)) = (f x \<notin> f ` set ys \<and> distinct (map f ys))" for x ys
    by (induction ys) auto
  then show ?thesis by (induction xs) simp_all
qed

lemma sum_sort_by: "sum_list (map g (sort_by cmp xs)) = (sum_list (map g xs) :: nat)"
proof -
  have "sum_list (map g (insert_by cmp x ys)) = g x + sum_list (map g ys)" for x ys by (induction ys) auto
  then show ?thesis by (induction xs) simp_all
qed

lemma add_model_total:
  fixes m :: model_usage
  assumes "additive f" "distinct (map fst totals)" "\<forall>(k, t) \<in> set totals. mu_model t = k"
  defines "totals' \<equiv> add_model_total m totals"
  shows "distinct (map fst totals')" "\<forall>(k, t) \<in> set totals'. mu_model t = k" "set (map fst totals') = insert (mu_model m) (set (map fst totals))"
    "sum_list (map (amount_of_model f name) (map snd totals')) = sum_list (map (amount_of_model f name) (map snd totals)) + amount_of_model f name m"
proof -
  let ?t = "case map_of totals (mu_model m) of None \<Rightarrow> \<lparr>mu_model = mu_model m, mu_requests = 0, mu_tokens = no_tokens\<rparr> | Some t \<Rightarrow> t"
  let ?v = "?t\<lparr>mu_requests := mu_requests ?t + mu_requests m, mu_tokens := add_tokens (mu_tokens ?t) (mu_tokens m)\<rparr>"
  have eq: "totals' = AList.update (mu_model m) ?v totals" by (simp add: totals'_def add_model_total_def Let_def)
  from assms(2) show "distinct (map fst totals')" unfolding eq by (rule distinct_update)
  show "set (map fst totals') = insert (mu_model m) (set (map fst totals))" unfolding eq by (induction totals) auto
  have mt: "mu_model ?t = mu_model m" using assms(3) by (auto split: option.splits dest!: map_of_SomeD)
  have "set (AList.update (mu_model m) ?v totals) \<subseteq> insert (mu_model m, ?v) (set totals)" for totals :: "(string \<times> model_usage) list"
    by (induction totals) auto
  moreover have "mu_model ?v = mu_model m" using mt by simp
  ultimately show "\<forall>(k, t) \<in> set totals'. mu_model t = k" unfolding eq using assms(3) by fastforce
  have old: "(case map_of totals (mu_model m) of None \<Rightarrow> 0 | Some old \<Rightarrow> amount_of_model f name old) = amount_of_model f name ?t"
    using assms(1) by (auto simp: amount_of_model_def additive_def split: option.splits)
  have new: "amount_of_model f name ?v = amount_of_model f name ?t + amount_of_model f name m"
    using assms(1) mt unfolding amount_of_model_def additive_def by simp
  from sum_update [OF assms(2), of "amount_of_model f name" "mu_model m" ?v]
  show "sum_list (map (amount_of_model f name) (map snd totals')) = sum_list (map (amount_of_model f name) (map snd totals)) + amount_of_model f name m"
    unfolding eq old new by simp
qed

lemma fold_model_totals:
  assumes "additive f" "distinct (map fst totals)" "\<forall>(k, t) \<in> set totals. mu_model t = k"
  shows "let T = fold add_model_total ms totals in distinct (map fst T) \<and> (\<forall>(k, t) \<in> set T. mu_model t = k)
    \<and> set (map fst T) = set (map fst totals) \<union> set (map mu_model ms)
    \<and> sum_list (map (amount_of_model f name) (map snd T)) = sum_list (map (amount_of_model f name) (map snd totals)) + amount_of_models f name ms"
  using assms(2,3)
proof (induction ms arbitrary: totals)
  case (Cons m ms)
  note step = add_model_total [OF assms(1) Cons.prems, where m = m]
  from Cons.IH [OF step(1,2)] step(3) step(4) [where name = name] show ?case
    by (simp add: Let_def amount_of_models_def)
qed (simp add: amount_of_models_def)

subsection \<open>The models of a day\<close>

lemma amount_concat: "amount_of_models f name (concat mss) = sum_list (map (amount_of_models f name) mss)"
  by (induction mss) (auto simp: amount_of_models_def)

lemma sum_filter: "sum_list (map g (filter P xs)) = sum_list (map (\<lambda>x. if P x then g x else 0 :: nat) xs)"
  by (induction xs) auto

definition models_of_day :: "string \<Rightarrow> string \<Rightarrow> usage_projects \<Rightarrow> model_usage list" where
  "models_of_day date p projects = concat (map uu_models (filter (\<lambda>u. uu_date u = date) (map snd (users_of projects p))))"

lemma amount_of_models_of_day: "amount_of_models f name (models_of_day date p projects) = amount_of_project f name date p projects"
  unfolding models_of_day_def amount_concat amount_of_project_def
  by (simp add: sum_filter amount_of_day_def comp_def)

lemma current_daily_models_totals:
  assumes "additive f"
  shows "distinct (map mu_model (current_daily_models lc dt now projects p))"
    "set (map mu_model (current_daily_models lc dt now projects p)) = set (map mu_model (models_of_day (jst_date dt now) p projects))"
    "amount_of_models f name (current_daily_models lc dt now projects p) = amount_of_project f name (jst_date dt now) p projects"
proof -
  let ?T = "fold add_model_total (models_of_day (jst_date dt now) p projects) []"
  have ms: "current_daily_models lc dt now projects p = sort_by (\<lambda>l r. lc (mu_model l) (mu_model r)) (map snd ?T)"
    by (simp add: current_daily_models_def models_of_day_def Let_def)
  from fold_model_totals [OF assms, of "[]" "models_of_day (jst_date dt now) p projects" name]
  have T: "distinct (map fst ?T)" "\<forall>(k, t) \<in> set ?T. mu_model t = k"
    "set (map fst ?T) = set (map mu_model (models_of_day (jst_date dt now) p projects))"
    "sum_list (map (amount_of_model f name) (map snd ?T)) = amount_of_models f name (models_of_day (jst_date dt now) p projects)"
    by (simp_all add: Let_def)
  from T(2) have names: "map mu_model (map snd ?T) = map fst ?T" by auto
  show "distinct (map mu_model (current_daily_models lc dt now projects p))" unfolding ms distinct_sort_by names by (rule T(1))
  have "set (map mu_model (current_daily_models lc dt now projects p)) = set (map mu_model (map snd ?T))" unfolding ms set_map set_sort_by ..
  then show "set (map mu_model (current_daily_models lc dt now projects p)) = set (map mu_model (models_of_day (jst_date dt now) p projects))"
    unfolding names T(3) .
  show "amount_of_models f name (current_daily_models lc dt now projects p) = amount_of_project f name (jst_date dt now) p projects"
    using T(4) unfolding ms amount_of_models_def sum_sort_by by (simp add: amount_of_models_of_day [symmetric] amount_of_models_def)
qed

lemma amount_of_one:
  assumes "distinct (map mu_model ms)" "m \<in> set ms"
  shows "amount_of_models f (mu_model m) ms = f (mu_requests m, mu_tokens m)"
  using assms
proof (induction ms)
  case (Cons x ms)
  have none: "n \<notin> set (map mu_model xs) \<Longrightarrow> amount_of_models f n xs = 0" for n xs
    by (induction xs) (auto simp: amount_of_models_def amount_of_model_def)
  show ?case
  proof (cases "x = m")
    case True
    with Cons.prems(1) none [of "mu_model m" ms] show ?thesis by (simp add: amount_of_models_def amount_of_model_def)
  next
    case False
    with Cons.prems have m: "m \<in> set ms" by simp
    with Cons.prems(1) have "mu_model x \<noteq> mu_model m" by auto
    with Cons.IH Cons.prems(1) m show ?thesis by (simp add: amount_of_models_def amount_of_model_def)
  qed
qed simp

definition recorded_today :: "dates \<Rightarrow> int \<Rightarrow> string \<Rightarrow> string \<Rightarrow> usage_history \<Rightarrow> usage_history" where
  "recorded_today dt now project model hist =
     filter (\<lambda>(t, i, u). ui_project i = project \<and> jst_date dt t = jst_date dt now \<and> recorded_model i = model) hist"

lemma amount_recorded_today:
  "amount_recorded f dt project (jst_date dt now) model hist = sum_list (map (\<lambda>(t, i, u). f (1, u)) (recorded_today dt now project model hist))"
  unfolding amount_recorded_def recorded_today_def by (induction hist) (auto split: if_splits)

lemma tokens_sum:
  "tu_prompt (foldr add_tokens us no_tokens) = sum_list (map tu_prompt us)"
  "tu_completion (foldr add_tokens us no_tokens) = sum_list (map tu_completion us)"
  "tu_total (foldr add_tokens us no_tokens) = sum_list (map tu_total us)"
  by (induction us) (simp_all add: add_tokens_def no_tokens_def)

lemma positive_iff_present:
  "\<forall>m \<in> set ms. 0 < mu_requests m \<Longrightarrow> name \<in> set (map mu_model ms) \<longleftrightarrow> 0 < amount_of_models fst name ms"
  by (induction ms) (auto simp: amount_of_models_def amount_of_model_def)

lemma model_listed_iff:
  assumes "iso_long dt"
  shows "name \<in> set (map mu_model (current_daily_models lc dt now (store_of dt hist) project)) \<longleftrightarrow> recorded_today dt now project name hist \<noteq> []"
proof -
  let ?ms = "models_of_day (jst_date dt now) project (store_of dt hist)"
  have "\<forall>m \<in> set ?ms. 0 < mu_requests m"
    using users_of_sound [OF store_sound [OF assms, of hist], of project] by (auto simp: models_of_day_def users_sound_def user_sound_def)
  from positive_iff_present [OF this, of name]
  have present: "name \<in> set (map mu_model ?ms) \<longleftrightarrow> 0 < sum_list (map (\<lambda>(t, i, u). fst (1 :: nat, u)) (recorded_today dt now project name hist))"
    unfolding amount_of_models_of_day amount_of_store [OF additive_amounts(1) assms] amount_recorded_today .
  have "sum_list (map (\<lambda>(t, i, u). fst (1 :: nat, u)) xs) = length xs" for xs :: usage_history by (induction xs) auto
  with present show ?thesis unfolding current_daily_models_totals(2) [OF additive_amounts(1)] by simp
qed

lemma model_totals:
  assumes "iso_long dt" "m \<in> set (current_daily_models lc dt now (store_of dt hist) project)"
  shows "mu_requests m = length (recorded_today dt now project (mu_model m) hist)"
    "mu_tokens m = foldr add_tokens (map (\<lambda>(t, i, u). u) (recorded_today dt now project (mu_model m) hist)) no_tokens"
proof -
  let ?es = "recorded_today dt now project (mu_model m) hist"
  note d = current_daily_models_totals(1) [OF additive_amounts(1), of lc dt now "store_of dt hist" project]
  have amount: "f (mu_requests m, mu_tokens m) = sum_list (map (\<lambda>(t, i, u). f (1, u)) ?es)" if "additive f" for f
    using amount_of_one [OF d assms(2), of f] current_daily_models_totals(3) [OF that, of "mu_model m" lc dt now "store_of dt hist" project]
    unfolding amount_of_store [OF that assms(1)] amount_recorded_today by simp
  have "sum_list (map (\<lambda>(t, i, u). fst (1 :: nat, u)) xs) = length xs" for xs :: usage_history by (induction xs) auto
  with amount [OF additive_amounts(1)] show "mu_requests m = length ?es" by simp
  have u: "map (\<lambda>(t, i, u). g u) xs = map g (map (\<lambda>(t, i, u). u) xs)" for g :: "token_usage \<Rightarrow> nat" and xs :: usage_history by auto
  show "mu_tokens m = foldr add_tokens (map (\<lambda>(t, i, u). u) ?es) no_tokens"
    using amount [OF additive_amounts(2)] amount [OF additive_amounts(3)] amount [OF additive_amounts(4)]
    by (intro token_usage.equality) (simp_all add: tokens_sum u case_prod_unfold comp_def)
qed

text \<open>
  C23: the totals of a day are those of the requests that were recorded: the models of the report are
  exactly the models that were used in the project on that day in Japan, each once, with the number of
  its requests and the sum of their tokens; and the totals of every stored user are the sums over the
  user's models.
\<close>

theorem daily_totals_match_the_history:
  assumes "iso_long dt"
    and ms_def: "ms = current_daily_models lc dt now (store_of dt hist) project"
  shows "distinct (map mu_model ms) \<and> (\<forall>name. name \<in> set (map mu_model ms) \<longleftrightarrow> recorded_today dt now project name hist \<noteq> [])
    \<and> (\<forall>m \<in> set ms. mu_requests m = length (recorded_today dt now project (mu_model m) hist)
        \<and> mu_tokens m = foldr add_tokens (map (\<lambda>(t, i, u). u) (recorded_today dt now project (mu_model m) hist)) no_tokens)
    \<and> (\<forall>(k, u) \<in> set (users_of (store_of dt hist) project). uu_requests u = sum_list (map mu_requests (uu_models u))
        \<and> uu_tokens u = foldr add_tokens (map mu_tokens (uu_models u)) no_tokens)"
proof (intro conjI ballI allI)
  show "distinct (map mu_model ms)" unfolding ms_def by (rule current_daily_models_totals(1) [OF additive_amounts(1)])
  show "name \<in> set (map mu_model ms) \<longleftrightarrow> recorded_today dt now project name hist \<noteq> []" for name
    unfolding ms_def by (rule model_listed_iff [OF assms(1)])
  fix m assume "m \<in> set ms"
  then have m: "m \<in> set (current_daily_models lc dt now (store_of dt hist) project)" by (simp add: ms_def)
  show "mu_requests m = length (recorded_today dt now project (mu_model m) hist)"
    "mu_tokens m = foldr add_tokens (map (\<lambda>(t, i, u). u) (recorded_today dt now project (mu_model m) hist)) no_tokens"
    by (rule model_totals [OF assms(1) m])+
next
  fix x assume "x \<in> set (users_of (store_of dt hist) project)"
  with users_of_sound [OF store_sound [OF assms(1), of hist], of project]
  show "case x of (k, u) \<Rightarrow> uu_requests u = sum_list (map mu_requests (uu_models u))
      \<and> uu_tokens u = foldr add_tokens (map mu_tokens (uu_models u)) no_tokens" by (auto simp: users_sound_def user_sound_def)
qed

end
