(* ===== verification/GenAI_Saving.thy ===== *)
theory GenAI_Saving
  imports GenAI_Accounts
begin

text \<open>
  Saving the usage store and loading it again. What \<^verbatim>\<open>Date\<close> has to do for this is stated for the times
  that were recorded.
\<close>

definition identity_ok :: "usage_identity \<Rightarrow> bool" where
  "identity_ok i \<longleftrightarrow> ui_project i \<noteq> [] \<and> ui_subject i \<noteq> [] \<and> ui_clientId i \<noteq> [] \<and> ui_scope i \<noteq> []"

text \<open>The day and the time of a clock reading are read back as that day.\<close>

definition date_ok :: "dates \<Rightarrow> int \<Rightarrow> bool" where
  "date_ok dt t \<longleftrightarrow>
     (\<exists>ms. dt_parse dt (jst_date dt t @ ''T00:00:00.000Z'') = Some ms \<and> take 10 (dt_iso dt ms) = jst_date dt t)
     \<and> is_jst_timestamp (jst_timestamp dt t) \<and> (\<exists>ms. dt_parse dt (jst_timestamp dt t) = Some ms \<and> jst_date dt ms = jst_date dt t)"

definition user_saveable :: "dates \<Rightarrow> user_usage \<Rightarrow> bool" where
  "user_saveable dt u \<longleftrightarrow> usage_date dt (Some (JStr (uu_date u))) = Inr (uu_date u)
     \<and> usage_timestamp dt (Some (JStr (uu_lastUsage u))) (uu_date u) = Inr (uu_lastUsage u)
     \<and> uu_subject u \<noteq> [] \<and> uu_clientId u \<noteq> [] \<and> uu_scope u \<noteq> []
     \<and> distinct (map mu_model (uu_models u)) \<and> (\<forall>m \<in> set (uu_models u). mu_model m \<noteq> [])"

lemma natural_at_nat [simp]: "natural_at (Some (JNum (Finite (of_nat n)))) = Some n"
  by (simp add: natural_at_def is_integer_def)

lemma tokens_of_fields:
  assumes "map_of fs ''requests'' = Some (JNum (Finite (of_nat r)))"
    "\<And>name. name \<in> {''promptTokens'', ''completionTokens'', ''totalTokens''} \<Longrightarrow> map_of fs name = map_of (tokens_fields t) name"
  shows "tokens_of fs prefix = Inr (r, t)"
  using assms by (simp add: tokens_of_def natural_field_def tokens_fields_def)

lemma parse_model_json: "mu_model m \<noteq> [] \<Longrightarrow> parse_model (model_json m) = Inr m"
proof -
  have "tokens_of ([(''model'', JStr (mu_model m)), (''requests'', JNum (Finite (of_nat (mu_requests m))))] @ tokens_fields (mu_tokens m)) ''model ''
      = Inr (mu_requests m, mu_tokens m)"
    by (rule tokens_of_fields) (auto simp: tokens_fields_def)
  then show "mu_model m \<noteq> [] \<Longrightarrow> parse_model (model_json m) = Inr m" by (simp add: parse_model_def model_json_def string_field_def)
qed

lemma parse_user_json:
  assumes "user_saveable dt u"
  shows "parse_user dt 4 legacy modifiedAt (user_json u) = Inr u"
proof -
  have models: "parse_models (Some (JArr (map model_json (uu_models u)))) = Inr (uu_models u)"
    using assms emap_map_Inr [of "uu_models u" parse_model model_json] parse_model_json
    by (auto simp: parse_models_def user_saveable_def)
  have tokens: "tokens_of ([(''date'', JStr (uu_date u)), (''lastUsage'', JStr (uu_lastUsage u)), (''models'', JArr (map model_json (uu_models u))),
       (''subject'', JStr (uu_subject u)), (''clientId'', JStr (uu_clientId u)), (''scope'', JStr (uu_scope u)),
       (''requests'', JNum (Finite (of_nat (uu_requests u))))] @ tokens_fields (uu_tokens u)) [] = Inr (uu_requests u, uu_tokens u)"
    by (rule tokens_of_fields) (auto simp: tokens_fields_def)
  show ?thesis
    using assms models tokens by (simp add: parse_user_def user_json_def user_saveable_def string_field_def nullish_or_def)
qed

lemma parse_snapshot_json:
  fixes lc :: "string \<Rightarrow> string \<Rightarrow> int"
  assumes "distinct (map fst projects)" "\<forall>(p, users) \<in> set projects. p \<noteq> [] \<and> (\<forall>(k, u) \<in> set users. user_saveable dt u)"
  defines "saved \<equiv> map (\<lambda>(p, users). (p, sort_by (compare_saved lc) (map snd users))) (sort_by (\<lambda>(l, _) (r, _). lc l r) projects)"
  shows "parse_snapshot dt modifiedAt (snapshot_json lc projects) = Inr saved"
proof -
  let ?g = "\<lambda>(p, us). JObj [(''project'', JStr p), (''users'', JArr (map user_json us))]"
  have "parse_project dt 4 modifiedAt (?g (p, us)) = Inr (p, us)" if "(p, us) \<in> set saved" for p us
  proof -
    from that obtain users where "(p, users) \<in> set projects" "us = sort_by (compare_saved lc) (map snd users)" by (auto simp: saved_def)
    with assms(2) have p: "p \<noteq> []" and us: "\<forall>u \<in> set us. user_saveable dt u" by fastforce+
    from us have "emap (parse_user dt 4 (jst_date dt modifiedAt) modifiedAt) (map user_json us) = Inr us"
      by (intro emap_map_Inr parse_user_json) simp
    with p show ?thesis by (simp add: parse_project_def string_field_def)
  qed
  then have "emap (parse_project dt 4 modifiedAt) (map ?g saved) = Inr saved" by (intro emap_map_Inr) auto
  moreover have "snapshot_json lc projects = JObj [(''version'', JNum (Finite 4)), (''projects'', JArr (map ?g saved))]"
    by (simp add: snapshot_json_def saved_def comp_def case_prod_unfold)
  moreover have "map fst saved = map fst (sort_by (\<lambda>(l, _) (r, _). lc l r) projects)" by (simp add: saved_def case_prod_unfold)
  then have "distinct (map fst saved)" using assms(1) by (simp add: distinct_sort_by)
  moreover have "snapshot_version (Some (JNum (Finite 4))) = Some 4" using natural_at_nat [of 4] by (simp add: snapshot_version_def)
  ultimately show ?thesis by (simp add: parse_snapshot_def)
qed

lemma fold_update:
  "distinct (map fst xs) \<Longrightarrow>
   map_of (fold (\<lambda>(k, v). AList.update k (h v)) xs init) k = (case map_of xs k of None \<Rightarrow> map_of init k | Some v \<Rightarrow> Some (h v))"
proof (induction xs arbitrary: init)
  case (Cons x xs)
  obtain a b where x: "x = (a, b)" by (cases x)
  from Cons.prems have "map_of xs a = None" by (auto simp: x map_of_eq_None_iff)
  with Cons show ?case by (auto simp: x update_conv' split: option.splits)
qed simp

lemma load_users_of:
  assumes "users_sound users"
  shows "map_of (load_users (sort_by cmp (map snd users))) k = map_of users k"
proof -
  let ?us = "sort_by cmp (map snd users)"
  let ?xs = "map (\<lambda>u. (key_of_user u, u)) ?us"
  from assms have keys: "\<forall>(k, u) \<in> set users. key_of_user u = k" by (auto simp: users_sound_def user_sound_def)
  then have eq: "set ?xs = set users" by force
  have "map key_of_user (map snd users) = map fst users" using keys by auto
  moreover have "distinct (map fst users)" using assms by (simp add: users_sound_def)
  ultimately have "distinct (map key_of_user (map snd users))" by metis
  then have "distinct (map fst ?xs)" using distinct_sort_by [of key_of_user cmp "map snd users"] by (simp add: comp_def)
  moreover from assms have "distinct (map fst users)" by (simp add: users_sound_def)
  ultimately have "map_of ?xs = map_of users" using eq by (intro map_of_same_set)
  moreover have "load_users ?us = fold (\<lambda>(k, v). AList.update k v) ?xs []"
    by (simp add: load_users_def fold_map comp_def)
  ultimately show ?thesis using fold_update [of ?xs "\<lambda>u. u" "[]" k] \<open>distinct (map fst ?xs)\<close> by (simp split: option.splits)
qed

section \<open>Every store can be saved\<close>

definition store_saveable :: "dates \<Rightarrow> usage_projects \<Rightarrow> bool" where
  "store_saveable dt projects \<longleftrightarrow> (\<forall>(p, users) \<in> set projects. p \<noteq> [] \<and> (\<forall>(k, u) \<in> set users. user_saveable dt u))"

lemma recorded_model_not_empty: "recorded_model i \<noteq> []"
  by (auto simp: recorded_model_def default_model_def split: option.splits)

lemma models_not_empty:
  "\<forall>m \<in> set ms. mu_model m \<noteq> [] \<Longrightarrow> n \<noteq> [] \<Longrightarrow> \<forall>m \<in> set (add_to_model n u ms). mu_model m \<noteq> []"
  by (induction ms) auto

lemma update_all: "\<forall>x \<in> set al. Q x \<Longrightarrow> Q (k, v) \<Longrightarrow> \<forall>x \<in> set (AList.update k v al). Q x"
  by (induction al) auto

lemma usage_date_ok: "date_ok dt t \<Longrightarrow> iso_long dt \<Longrightarrow> usage_date dt (Some (JStr (jst_date dt t))) = Inr (jst_date dt t)"
proof -
  assume "date_ok dt t" "iso_long dt"
  moreover from this have "jst_date dt t \<noteq> []" unfolding jst_date_def iso_long_def
    by (metis length_take list.size(3) min.absorb2 zero_neq_numeral)
  ultimately show ?thesis by (auto simp: usage_date_def string_field_def date_ok_def)
qed

lemma jst_timestamp_not_empty: "is_jst_timestamp s \<Longrightarrow> s \<noteq> []"
  by (auto simp: is_jst_timestamp_def)

lemma usage_timestamp_ok: "date_ok dt t \<Longrightarrow> usage_timestamp dt (Some (JStr (jst_timestamp dt t))) (jst_date dt t) = Inr (jst_timestamp dt t)"
proof -
  assume "date_ok dt t"
  then obtain ms where ms: "is_jst_timestamp (jst_timestamp dt t)" "dt_parse dt (jst_timestamp dt t) = Some ms" "jst_date dt ms = jst_date dt t"
    unfolding date_ok_def by blast
  from jst_timestamp_not_empty [OF ms(1)] have "string_field (Some (JStr (jst_timestamp dt t))) ''lastUsage'' = Inr (jst_timestamp dt t)"
    by (simp add: string_field_def)
  with ms show ?thesis by (simp add: usage_timestamp_def)
qed

lemma record_usage_saveable:
  assumes "store_saveable dt projects" "projects_sound projects" "iso_long dt" "date_ok dt t" "identity_ok i"
  shows "store_saveable dt (record_usage dt t i u projects)"
proof -
  let ?c = "current_user dt t i projects"
  let ?v = "add_usage (jst_timestamp dt t) (recorded_model i) u ?c"
  have users: "\<forall>(k, u) \<in> set (users_of projects p). user_saveable dt u" for p
  proof (cases "map_of projects p")
    case (Some us)
    then have "(p, us) \<in> set projects" by (rule map_of_SomeD)
    with assms(1) Some show ?thesis unfolding store_saveable_def users_of_def by auto
  qed (simp add: users_of_def)
  note c = current_user_sound [OF assms(2,3), of t i]
  then have date: "uu_date ?c = jst_date dt t" by (simp add: user_sound_def take_key [OF assms(3)])
  have fields: "uu_subject ?c \<noteq> [] \<and> uu_clientId ?c \<noteq> [] \<and> uu_scope ?c \<noteq> [] \<and> (\<forall>m \<in> set (uu_models ?c). mu_model m \<noteq> [])"
  proof (cases "map_of (users_of projects (ui_project i)) (identity_key dt t i)")
    case None
    with assms(5) show ?thesis by (simp add: current_user_def new_user_def identity_ok_def)
  next
    case (Some c)
    then have "(identity_key dt t i, c) \<in> set (users_of projects (ui_project i))" by (rule map_of_SomeD)
    with users [of "ui_project i"] Some show ?thesis by (auto simp: current_user_def user_saveable_def)
  qed
  have "distinct (map mu_model (uu_models ?c))" using c by (simp add: user_sound_def)
  then have "user_saveable dt ?v"
    using fields date models_not_empty [of "uu_models ?c" "recorded_model i" u] recorded_model_not_empty
      usage_date_ok [OF assms(4,3)] usage_timestamp_ok [OF assms(4)] amount_add_to_model(3) [OF additive_amounts(1)]
    by (simp add: user_saveable_def add_usage_def)
  with users have "\<forall>(k, u) \<in> set (AList.update (identity_key dt t i) ?v (users_of projects (ui_project i))). user_saveable dt u"
    by (intro update_all) simp_all
  with assms(1,5) show ?thesis
    unfolding record_usage_eq store_saveable_def by (intro update_all) (simp_all add: identity_ok_def)
qed

lemma store_of_saveable:
  "iso_long dt \<Longrightarrow> \<forall>(t, i, u) \<in> set hist. date_ok dt t \<and> identity_ok i \<Longrightarrow> store_saveable dt (store_of dt hist)"
proof (induction hist rule: rev_induct)
  case Nil
  then show ?case by (simp add: store_of_def store_saveable_def)
next
  case (snoc x hist)
  then show ?case by (cases x) (auto simp: store_of_snoc intro: record_usage_saveable store_sound)
qed

text \<open>
  C24: what the proxy saves it loads again after a restart: every project, every user of a day and every
  count is there, under the same key, and nothing else.
\<close>

theorem saved_usage_is_loaded_again:
  assumes "iso_long dt" "\<forall>(t, i, u) \<in> set hist. date_ok dt t \<and> identity_ok i"
    and "persist_usage (Some path) False stringify lc (store_of dt hist) file = (Inr (), Some text)"
    and "parse text = Some (snapshot_json lc (store_of dt hist))"
  shows "\<exists>projects. load_usage dt parse path (Saved text modifiedAt) = Inr projects
    \<and> (\<forall>p k. map_of (users_of projects p) k = map_of (users_of (store_of dt hist) p) k)"
proof -
  let ?s = "store_of dt hist"
  let ?sorted = "sort_by (\<lambda>(l, _) (r, _). lc l r) ?s"
  let ?saved = "map (\<lambda>(p, users). (p, sort_by (compare_saved lc) (map snd users))) ?sorted"
  let ?projects = "fold (\<lambda>(project, users). AList.update project (load_users users)) ?saved []"
  note sound = store_sound [OF assms(1), of hist]
  then have d: "distinct (map fst ?s)" by (simp add: projects_sound_def)
  from parse_snapshot_json [OF d] store_of_saveable [OF assms(1,2)] have "parse_snapshot dt modifiedAt (snapshot_json lc ?s) = Inr ?saved"
    by (simp add: store_saveable_def)
  with assms(4) have "load_usage dt parse path (Saved text modifiedAt) = Inr ?projects" by (simp add: load_usage_def)
  moreover have "map_of (users_of ?projects p) k = map_of (users_of ?s p) k" for p k
  proof -
    have ds: "distinct (map fst ?sorted)" using d by (simp add: distinct_sort_by)
    then have "distinct (map fst ?saved)" by (simp add: case_prod_unfold comp_def)
    from fold_update [OF this, of load_users "[]" p]
    have loaded: "map_of ?projects p = map_option load_users (map_of ?saved p)" by (cases "map_of ?saved p") simp_all
    have "map_of ?sorted = map_of ?s" using ds d by (intro map_of_same_set) simp_all
    then have "map_of ?saved p = map_option (\<lambda>users. sort_by (compare_saved lc) (map snd users)) (map_of ?s p)"
      by (simp add: map_of_map)
    with loaded load_users_of sound show ?thesis
      by (auto simp: users_of_def projects_sound_def split: option.splits dest!: map_of_SomeD)
  qed
  ultimately show ?thesis by blast
qed

end
