(* ===== verification/GenAI_Proxy.thy ===== *)
theory GenAI_Proxy
  imports GenAI_Usage Runtime_Auth
begin

text \<open>
  \<^verbatim>\<open>genai_proxy/src/auth.ts\<close> and \<^verbatim>\<open>server.ts\<close>: the proxy in front of a model provider. It verifies an
  Athenz access token, refuses a project that has spent its daily limit, forwards with its own API key
  and records the tokens of the answer. The request is awaited at the upstream, so a request is cut in
  two: what is decided and sent, and what is recorded when the answer has ended.
\<close>

section \<open>Access tokens\<close>

record auth_context =
  ax_audience :: string
  ax_clientId :: string
  ax_project :: string
  ax_scope :: string
  ax_subject :: string

record genai_denial =
  gd_status :: int
  gd_code :: string
  gd_message :: string

record genai_verifier =
  gv_audiencePrefix :: string
  gv_requiredScope :: string
  gv_verify :: "string \<Rightarrow> string \<Rightarrow> bool"       \<comment> \<open>RSA-SHA256 of the signing input and the signature\<close>
  gv_parse :: "string \<Rightarrow> json option"

definition genai_invalid_token :: genai_denial where
  "genai_invalid_token = \<lparr>gd_status = 401, gd_code = ''invalid_access_token'',
     gd_message = ''The Athenz access token is invalid or expired.''\<rparr>"

text \<open>\<^verbatim>\<open>/^Bearer\s+(\S+)$/i\<close> of the trimmed header\<close>

definition genai_bearer_token :: "string option \<Rightarrow> (genai_denial, string) result" where
  "genai_bearer_token authorization =
     (let s = trim (case authorization of None \<Rightarrow> [] | Some a \<Rightarrow> a); rest = drop 6 s; token = dropWhile is_ws rest in
      if to_lower (take 6 s) = ''bearer'' \<and> rest \<noteq> [] \<and> is_ws (hd rest) \<and> token \<noteq> [] \<and> list_all (\<lambda>c. \<not> is_ws c) token
      then Inr token
      else Inl \<lparr>gd_status = 401, gd_code = ''missing_access_token'',
             gd_message = ''Pass an Athenz access token as Authorization: Bearer <token>.''\<rparr>)"

definition decode_segment :: "genai_verifier \<Rightarrow> string \<Rightarrow> (genai_denial, (string \<times> json) list) result" where
  "decode_segment gv segment =
     (if length segment > 32768 then Inl genai_invalid_token
      else case as_record (gv_parse gv (base64url_decode segment)) of
        None \<Rightarrow> Inl genai_invalid_token | Some fs \<Rightarrow> Inr fs)"

definition genai_audience :: "unknown \<Rightarrow> string \<Rightarrow> (genai_denial, string) result" where
  "genai_audience v prefix =
     (case string_or_strings v of
        [a] \<Rightarrow> if starts_with prefix a then Inr a else Inl genai_invalid_token
      | _ \<Rightarrow> Inl genai_invalid_token)"

definition scopes_of_claim :: "unknown \<Rightarrow> string list" where
  "scopes_of_claim v =
     (case v of
        Some (JStr s) \<Rightarrow> words s
      | Some (JArr vs) \<Rightarrow> concat (map (\<lambda>x. case x of JStr s \<Rightarrow> if s = [] then [] else [s] | _ \<Rightarrow> []) vs)
      | _ \<Rightarrow> [])"

definition genai_scopes :: "(string \<times> json) list \<Rightarrow> string list" where
  "genai_scopes claims = scopes_of_claim (map_of claims ''scp'') @ scopes_of_claim (map_of claims ''scope'')"

text \<open>\<^verbatim>\<open>/^[a-z0-9][a-z0-9_-]*$/\<close>\<close>

definition is_project_name :: "string \<Rightarrow> bool" where
  "is_project_name s \<longleftrightarrow> s \<noteq> [] \<and> (is_lower (hd s) \<or> is_digit (hd s))
     \<and> list_all (\<lambda>c. is_lower c \<or> is_digit c \<or> c = CHR ''_'' \<or> c = CHR ''-'') s"

definition token_is_current :: "rat \<Rightarrow> (string \<times> json) list \<Rightarrow> bool" where
  "token_is_current now claims \<longleftrightarrow>
     (case as_finite (map_of claims ''exp'') of None \<Rightarrow> False | Some e \<Rightarrow> now < e)
     \<and> (map_of claims ''nbf'' = None \<or> (case as_finite (map_of claims ''nbf'') of None \<Rightarrow> False | Some n \<Rightarrow> n \<le> now))"

definition string_claim_or_empty :: "unknown \<Rightarrow> string" where
  "string_claim_or_empty v = (case as_string v of None \<Rightarrow> [] | Some s \<Rightarrow> s)"

definition context_of_claims :: "genai_verifier \<Rightarrow> (string \<times> json) list \<Rightarrow> (genai_denial, auth_context) result" where
  "context_of_claims gv claims =
     ebind (genai_audience (map_of claims ''aud'') (gv_audiencePrefix gv)) (\<lambda>audience.
     let project = drop (length (gv_audiencePrefix gv)) audience;
         subject = string_claim_or_empty (map_of claims ''sub'');
         clientId = string_claim_or_empty (map_of claims ''client_id'') in
     if \<not> is_project_name project then Inl genai_invalid_token
     else if \<not> starts_with ''user.'' subject \<or> length subject \<le> 5 then Inl genai_invalid_token
     else if clientId = [] then Inl genai_invalid_token
     else if gv_requiredScope gv \<notin> set (genai_scopes claims)
     then Inl \<lparr>gd_status = 403, gd_code = ''insufficient_scope'',
            gd_message = ''The access token must grant '' @ gv_requiredScope gv @ ''.''\<rparr>
     else Inr \<lparr>ax_audience = audience, ax_clientId = clientId, ax_project = project,
            ax_scope = audience @ '':role.'' @ gv_requiredScope gv, ax_subject = subject\<rparr>)"

definition genai_authenticate :: "genai_verifier \<Rightarrow> rat \<Rightarrow> string option \<Rightarrow> (genai_denial, auth_context) result" where
  "genai_authenticate gv now authorization =
     ebind (genai_bearer_token authorization) (\<lambda>token.
     let segments = split_char CHR ''.'' token in
     if length segments \<noteq> 3 \<or> \<not> list_all (\<lambda>s. s \<noteq> [] \<and> list_all is_base64url s) segments then Inl genai_invalid_token else
     ebind (decode_segment gv (segments ! 0)) (\<lambda>header.
     ebind (decode_segment gv (segments ! 1)) (\<lambda>claims.
     if map_of header ''alg'' \<noteq> Some (JStr ''RS256'') \<or> map_of header ''typ'' \<noteq> Some (JStr ''at+jwt'') then Inl genai_invalid_token
     else if \<not> gv_verify gv (segments ! 0 @ ''.'' @ segments ! 1) (base64url_decode (segments ! 2)) then Inl genai_invalid_token
     else if \<not> token_is_current now claims then Inl genai_invalid_token
     else context_of_claims gv claims)))"

section \<open>Requests\<close>

definition metered_paths :: "string list" where
  "metered_paths = [''/api/chat'', ''/api/generate'', ''/v1/chat/completions'', ''/v1/completions'', ''/v1/responses'']"

definition max_usage_tail_bytes :: nat where
  "max_usage_tail_bytes = 128 * 1024"

definition request_headers_to_strip :: "string list" where
  "request_headers_to_strip = [''authorization'', ''connection'', ''content-length'', ''host'', ''proxy-authenticate'',
     ''proxy-authorization'', ''transfer-encoding'']"

definition response_headers_to_strip :: "string list" where
  "response_headers_to_strip = [''connection'', ''content-encoding'', ''content-length'', ''transfer-encoding'']"

record genai_request =
  gr_method :: string
  gr_url :: string
  gr_headers :: in_headers
  gr_body :: string

record genai_config =
  gp_verifier :: genai_verifier
  gp_upstream :: url
  gp_apiKey :: "string option"
  gp_dates :: dates
  gp_locale :: "string \<Rightarrow> string \<Rightarrow> int"
  gp_resolve :: "string \<Rightarrow> url \<Rightarrow> url option"       \<comment> \<open>\<open>new URL(text, base)\<close>\<close>
  gp_local :: url                                  \<comment> \<open>\<open>http://genai-proxy.local\<close>\<close>
  gp_decode :: "string \<Rightarrow> string option"           \<comment> \<open>\<open>decodeURIComponent\<close>\<close>

definition normalize_upstream :: "(string \<Rightarrow> url option) \<Rightarrow> string \<Rightarrow> (string, url) result" where
  "normalize_upstream parse value =
     (case parse value of
        None \<Rightarrow> Inl ''Invalid URL''
      | Some u \<Rightarrow>
          if url_protocol u \<noteq> ''http:'' \<and> url_protocol u \<noteq> ''https:''
          then Inl (''GENAI_UPSTREAM_BASE_URL must use http or https, got '' @ url_protocol u)
          else Inr (u\<lparr>url_pathname := (if ends_with ''/'' (url_pathname u) then url_pathname u else url_pathname u @ ''/'')\<rparr>))"

definition genai_json :: "int \<Rightarrow> out_headers \<Rightarrow> json \<Rightarrow> reply" where
  "genai_json code hs v = reply_json code (hs @ [(''content-type'', ''application/json; charset=utf-8'')]) v"

definition error_json :: "string \<Rightarrow> string \<Rightarrow> json" where
  "error_json code message = JObj [(''error'', JStr code), (''message'', JStr message)]"

definition unavailable_reply :: reply where
  "unavailable_reply = genai_json 502 [] (error_json ''genai_upstream_unavailable'' ''The configured GenAI upstream could not be reached.'')"

definition genai_challenge :: "genai_denial \<Rightarrow> string" where
  "genai_challenge d =
     (let q = (\<lambda>s. CHR 0x22 # s @ [CHR 0x22]) in
      ''Bearer realm='' @ q ''genai-proxy'' @
      (if gd_status d = 403 then '', error='' @ q ''insufficient_scope'' @ '', scope='' @ q ''gen-ai-users''
       else if gd_code d = ''invalid_access_token'' then '', error='' @ q ''invalid_token'' else []))"

definition denial_reply :: "genai_denial \<Rightarrow> reply" where
  "denial_reply d = genai_json (gd_status d) [(''www-authenticate'', genai_challenge d)] (error_json (gd_code d) (gd_message d))"

text \<open>\<^verbatim>\<open>Number(value.toFixed(8))\<close>, and \<^verbatim>\<open>null\<close> in JSON where it is not finite.\<close>

definition rounded_usd :: "js_number \<Rightarrow> js_number" where
  "rounded_usd c = (case c of Finite q \<Rightarrow> Finite (double_of (of_int \<lfloor>q * 100000000 + 1 / 2\<rfloor> / 100000000)) | _ \<Rightarrow> c)"

definition number_json :: "js_number \<Rightarrow> json" where
  "number_json c = (case c of Finite q \<Rightarrow> JNum c | _ \<Rightarrow> JNull)"

definition at_least :: "js_number \<Rightarrow> rat \<Rightarrow> bool" where
  "at_least c q = (case c of Finite a \<Rightarrow> q \<le> a | Pos_Inf \<Rightarrow> True | _ \<Rightarrow> False)"

definition seconds_until_next_jst_day :: "int \<Rightarrow> int" where
  "seconds_until_next_jst_day now =
     (let day = 24 * 60 * 60 * 1000;
          nextMidnight = ((now + jst_offset_ms) div day + 1) * day - jst_offset_ms
      in max 1 (- ((- (nextMidnight - now)) div 1000)))"

definition daily_spend :: "genai_config \<Rightarrow> int \<Rightarrow> usage_projects \<Rightarrow> string \<Rightarrow> js_number" where
  "daily_spend cfg now projects audience = usage_cost (current_daily_models (gp_locale cfg) (gp_dates cfg) now projects audience)"

definition limit_reply :: "string \<Rightarrow> rat \<Rightarrow> js_number \<Rightarrow> int \<Rightarrow> reply" where
  "limit_reply project limit spend now =
     genai_json 429 [(''retry-after'', int_text (seconds_until_next_jst_day now))]
       (JObj [(''error'', JStr ''too_many_requests''), (''code'', JStr ''daily_service_code_limit_exceeded''),
          (''message'', JStr (''The daily GenAI spending limit for '' @ project @ '' has been reached. Retry after 00:00 JST.'')),
          (''service_code'', JStr project), (''limit_usd'', JNum (Finite limit)), (''spent_usd'', number_json (rounded_usd spend))])"

definition model_row_json :: "model_usage \<Rightarrow> json" where
  "model_row_json m = JObj
     [(''model'', JStr (mu_model m)), (''requests'', JNum (Finite (of_nat (mu_requests m)))),
      (''input'', JNum (Finite (of_nat (tu_prompt (mu_tokens m))))), (''output'', JNum (Finite (of_nat (tu_completion (mu_tokens m))))),
      (''total'', JNum (Finite (of_nat (tu_total (mu_tokens m))))),
      (''estimated_cost_usd'', number_json (rounded_usd (token_cost (mu_model m) (tu_prompt (mu_tokens m)) (tu_completion (mu_tokens m)))))]"

definition row_cost :: "usage_row \<Rightarrow> js_number" where
  "row_cost r = rounded_usd (foldl (\<lambda>total m. add_cost total
     (rounded_usd (token_cost (mu_model m) (tu_prompt (mu_tokens m)) (tu_completion (mu_tokens m))))) (Finite 0) (rw_models r))"

definition usage_row_json :: "usage_row \<Rightarrow> json" where
  "usage_row_json r = JObj
     [(''date'', JStr (rw_date r)), (''last_usage'', JStr (rw_lastUsage r)), (''sub'', JStr (rw_sub r)), (''client_id'', JStr (rw_clientId r)),
      (''scope'', JStr (rw_scope r)), (''requests'', JNum (Finite (of_nat (rw_requests r)))),
      (''input_tokens'', JNum (Finite (of_nat (tu_prompt (rw_tokens r))))), (''output_tokens'', JNum (Finite (of_nat (tu_completion (rw_tokens r))))),
      (''total_tokens'', JNum (Finite (of_nat (tu_total (rw_tokens r))))), (''tokens'', JArr (map model_row_json (rw_models r))),
      (''estimated_cost_usd'', number_json (row_cost r))]"

definition project_report_json :: "genai_config \<Rightarrow> int \<Rightarrow> usage_projects \<Rightarrow> project_report \<Rightarrow> json" where
  "project_report_json cfg now projects p =
     (let limit = daily_limit (pj_project p) in
      JObj [(''project'', JStr (pj_project p)), (''scope'', JStr (pj_scope p)), (''users'', JArr (map usage_row_json (pj_users p))),
        (''daily_limit_usd'', case limit of None \<Rightarrow> JNull | Some (q, _) \<Rightarrow> JNum (Finite q)),
        (''daily_limit_fraction_digits'', case limit of None \<Rightarrow> JNull | Some (_, n) \<Rightarrow> JNum (Finite (of_nat n))),
        (''daily_spend_usd'', number_json (rounded_usd (daily_spend cfg now projects (project_prefix @ pj_project p))))])"

definition report_subject :: "(string \<Rightarrow> string option) \<Rightarrow> string \<Rightarrow> string option" where
  "report_subject decode path =
     (let user = drop (length ''/api/users/'') path in
      if starts_with ''/api/users/'' path \<and> user \<noteq> [] \<and> CHR ''/'' \<notin> set user
      then (case decode user of
              None \<Rightarrow> None
            | Some name \<Rightarrow> if name \<noteq> [] \<and> is_alnum (hd name) \<and> list_all is_name_char name then Some (''user.'' @ name) else None)
      else None)"

definition users_reply :: "genai_config \<Rightarrow> int \<Rightarrow> usage_projects \<Rightarrow> string \<Rightarrow> string \<Rightarrow> reply" where
  "users_reply cfg now projects verb path =
     (if verb \<noteq> ''GET'' then genai_json 405 [(''allow'', ''GET'')] (error_json ''method_not_allowed'' ''Use GET /api/users/{user}.'')
      else case report_subject (gp_decode cfg) path of
        None \<Rightarrow> if path = ''/api/users'' then genai_json 400 [] (error_json ''user_required'' ''Use a username without the user. prefix.'')
                else genai_json 200 [] (JObj [(''projects'', JArr [])])
      | Some subject \<Rightarrow> genai_json 200 [] (JObj [(''projects'',
          JArr (map (project_report_json cfg now projects) (list_projects (gp_locale cfg) (Some subject) projects)))]))"

definition genai_forwarded_headers :: "in_headers \<Rightarrow> string option \<Rightarrow> out_headers" where
  "genai_forwarded_headers headers apiKey =
     (let copied = fold (\<lambda>(key, value) hs. if value = One_Value [] \<or> to_lower key \<in> set request_headers_to_strip then hs
                        else set_header key (header_text value) hs) headers []
      in case apiKey of Some (c # cs) \<Rightarrow> set_header ''authorization'' (''Bearer '' @ c # cs) copied | _ \<Rightarrow> copied)"

definition request_model :: "(string \<Rightarrow> json option) \<Rightarrow> string \<Rightarrow> string option" where
  "request_model parse body =
     (case parse body of
        Some (JObj fs) \<Rightarrow> (case as_string (map_of fs ''model'') of None \<Rightarrow> None | Some m \<Rightarrow> if trim m = [] then None else Some (trim m))
      | _ \<Rightarrow> None)"

record genai_call =
  gc_auth :: auth_context
  gc_url :: url
  gc_method :: string
  gc_headers :: out_headers
  gc_body :: "string option"
  gc_model :: "string option"
  gc_metered :: bool

text \<open>What is decided before the upstream is called: a reply, or the call.\<close>

definition genai_begin ::
  "genai_config \<Rightarrow> (string \<Rightarrow> json option) \<Rightarrow> int \<Rightarrow> rat \<Rightarrow> genai_request \<Rightarrow> usage_projects \<Rightarrow> (reply, genai_call) result" where
  "genai_begin cfg parse now nowSeconds req projects =
     (case gp_resolve cfg (gr_url req) (gp_local cfg) of
        None \<Rightarrow> Inl unavailable_reply
      | Some u \<Rightarrow>
          let path = url_pathname u; metered = (path \<in> set metered_paths) in
          if path = ''/healthz'' then Inl (genai_json 200 [] (JObj [(''status'', JStr ''ok''), (''upstream'', JStr ''openai-compatible'')]))
          else if path = ''/api/users'' \<or> starts_with ''/api/users/'' path then Inl (users_reply cfg now projects (gr_method req) path)
          else case genai_authenticate (gp_verifier cfg) nowSeconds
                 (case map_of (gr_headers req) ''authorization'' of None \<Rightarrow> None | Some v \<Rightarrow> Some (header_text v)) of
            Inl d \<Rightarrow> Inl (denial_reply d)
          | Inr auth \<Rightarrow>
              let spend = daily_spend cfg now projects (ax_audience auth) in
              if metered \<and> (case daily_limit (ax_project auth) of None \<Rightarrow> False | Some (limit, _) \<Rightarrow> at_least spend limit)
              then Inl (limit_reply (ax_project auth) (fst (the (daily_limit (ax_project auth)))) spend now)
              else case gp_resolve cfg (path @ url_search u) (gp_upstream cfg) of
                None \<Rightarrow> Inl unavailable_reply
              | Some upstreamUrl \<Rightarrow>
                  let withBody = (gr_method req \<notin> {''GET'', ''HEAD''}) in
                  Inr \<lparr>gc_auth = auth, gc_url = upstreamUrl, gc_method = gr_method req,
                       gc_headers = genai_forwarded_headers (gr_headers req) (gp_apiKey cfg),
                       gc_body = (if withBody then Some (gr_body req) else None),
                       gc_model = (if withBody \<and> metered then request_model parse (gr_body req) else None), gc_metered = metered\<rparr>)"

section \<open>Answers\<close>

datatype genai_answer = No_Answer | Answer int out_headers "string list option"

definition append_tail :: "string \<Rightarrow> string \<Rightarrow> string" where
  "append_tail current chunk =
     (let combined = current @ chunk in
      if length combined \<le> max_usage_tail_bytes then combined else drop (length combined - max_usage_tail_bytes) combined)"

definition answer_headers :: "out_headers \<Rightarrow> out_headers" where
  "answer_headers hs =
     fold (\<lambda>(key, v) out. if to_lower key \<in> set response_headers_to_strip then out else set_header key v out) hs []"

definition genai_answer_reply :: "genai_answer \<Rightarrow> reply" where
  "genai_answer_reply answer =
     (case answer of
        No_Answer \<Rightarrow> unavailable_reply
      | Answer status hs body \<Rightarrow>
          \<lparr>rp_status = status, rp_headers = answer_headers hs,
           rp_body = (case body of None \<Rightarrow> Empty_Body | Some chunks \<Rightarrow> Text_Body (concat chunks))\<rparr>)"

text \<open>The usage is recorded when the answer has ended; a failure to save it is only logged.\<close>

definition genai_end ::
  "genai_config \<Rightarrow> (string \<Rightarrow> json option) \<Rightarrow> int \<Rightarrow> genai_call \<Rightarrow> genai_answer \<Rightarrow> usage_projects \<Rightarrow> usage_projects" where
  "genai_end cfg parse now call answer projects =
     (case answer of
        Answer status _ (Some chunks) \<Rightarrow>
          if 200 \<le> status \<and> status < 300 \<and> gc_metered call
          then (case extract_token_usage parse (foldl append_tail [] chunks) of
                  None \<Rightarrow> projects
                | Some u \<Rightarrow> record_usage (gp_dates cfg) now
                    \<lparr>ui_clientId = ax_clientId (gc_auth call), ui_model = gc_model call, ui_project = ax_audience (gc_auth call),
                     ui_scope = ax_scope (gc_auth call), ui_subject = ax_subject (gc_auth call)\<rparr> u projects)
          else projects
      | _ \<Rightarrow> projects)"

end
