(* ===== verification/GenAI_Safety.thy ===== *)
theory GenAI_Safety
  imports GenAI_Saving GenAI_Proxy Samples
begin

text \<open>
  What the GenAI proxy promises about the requests it forwards: who may send them, where they go, and
  what a project may spend on them.
\<close>

section \<open>Admission\<close>

text \<open>What an accepted token says of the user, the project and the scope.\<close>

definition token_grants :: "genai_verifier \<Rightarrow> rat \<Rightarrow> (string \<times> json) list \<Rightarrow> auth_context \<Rightarrow> bool" where
  "token_grants gv now claims auth \<longleftrightarrow>
     (\<exists>expiry. map_of claims ''exp'' = Some (JNum (Finite expiry)) \<and> now < expiry)
     \<and> (\<forall>x. map_of claims ''nbf'' = Some x \<longrightarrow> (\<exists>start. x = JNum (Finite start) \<and> start \<le> now))
     \<and> string_or_strings (map_of claims ''aud'') = [ax_audience auth]
     \<and> ax_audience auth = gv_audiencePrefix gv @ ax_project auth \<and> is_project_name (ax_project auth)
     \<and> map_of claims ''sub'' = Some (JStr (ax_subject auth)) \<and> starts_with ''user.'' (ax_subject auth)
     \<and> map_of claims ''client_id'' = Some (JStr (ax_clientId auth)) \<and> ax_clientId auth \<noteq> []
     \<and> gv_requiredScope gv \<in> set (genai_scopes claims) \<and> ax_scope auth = ax_audience auth @ '':role.'' @ gv_requiredScope gv"

lemma string_claim_not_empty: "string_claim_or_empty v = s \<Longrightarrow> s \<noteq> [] \<Longrightarrow> v = Some (JStr s)"
  by (auto simp: string_claim_or_empty_def split: option.splits)

lemma genai_audience_Inr: "genai_audience v prefix = Inr a \<longleftrightarrow> string_or_strings v = [a] \<and> starts_with prefix a"
  by (auto simp: genai_audience_def split: list.splits)

lemma context_of_claims_grants:
  assumes "context_of_claims gv claims = Inr auth" "token_is_current now claims"
  shows "token_grants gv now claims auth"
proof -
  let ?s = "string_claim_or_empty (map_of claims ''sub'')" and ?c = "string_claim_or_empty (map_of claims ''client_id'')"
  from assms(1) obtain a where a: "genai_audience (map_of claims ''aud'') (gv_audiencePrefix gv) = Inr a"
    and ok: "is_project_name (drop (length (gv_audiencePrefix gv)) a)" "starts_with ''user.'' ?s" "?c \<noteq> []"
      "gv_requiredScope gv \<in> set (genai_scopes claims)"
    and auth: "auth = \<lparr>ax_audience = a, ax_clientId = ?c, ax_project = drop (length (gv_audiencePrefix gv)) a,
      ax_scope = a @ '':role.'' @ gv_requiredScope gv, ax_subject = ?s\<rparr>"
    unfolding context_of_claims_def ebind_eq_Inr by (auto simp: Let_def split: if_splits)
  from ok(2) have "?s \<noteq> []" by (auto simp: starts_with_def)
  with ok(3) have "map_of claims ''sub'' = Some (JStr ?s)" "map_of claims ''client_id'' = Some (JStr ?c)"
    using string_claim_not_empty by blast+
  with assms(2) a ok show ?thesis
    by (auto simp: token_grants_def auth genai_audience_Inr token_is_current_def starts_with_iff split: option.splits)
qed

lemma decode_segment_Inr:
  "decode_segment gv s = Inr fs \<Longrightarrow> gv_parse gv (base64url_decode s) = Some (JObj fs)"
  by (auto simp: decode_segment_def split: if_splits option.splits)

lemma genai_bearer_token_Inr:
  "genai_bearer_token authorization = Inr token \<Longrightarrow>
   \<exists>a gap. authorization = Some a \<and> to_lower (take 6 (trim a)) = ''bearer'' \<and> drop 6 (trim a) = gap @ token"
  by (auto simp: genai_bearer_token_def Let_def trim_def split: if_splits option.splits)
    (metis takeWhile_dropWhile_id)

text \<open>The token is a compact JWT with a valid signature, and its claims grant what the context says.\<close>

definition authentic :: "genai_verifier \<Rightarrow> rat \<Rightarrow> string \<Rightarrow> auth_context \<Rightarrow> bool" where
  "authentic gv now token auth \<longleftrightarrow>
     (\<exists>h c sg header claims. token = h @ ''.'' @ c @ ''.'' @ sg \<and> gv_verify gv (h @ ''.'' @ c) (base64url_decode sg)
        \<and> gv_parse gv (base64url_decode h) = Some (JObj header) \<and> map_of header ''alg'' = Some (JStr ''RS256'')
        \<and> map_of header ''typ'' = Some (JStr ''at+jwt'')
        \<and> gv_parse gv (base64url_decode c) = Some (JObj claims) \<and> token_grants gv now claims auth)"

lemma genai_authenticate_sound:
  assumes "genai_authenticate gv now authorization = Inr auth"
  shows "\<exists>a gap token. authorization = Some a \<and> to_lower (take 6 (trim a)) = ''bearer'' \<and> drop 6 (trim a) = gap @ token
    \<and> authentic gv now token auth"
proof -
  from assms obtain token header claims where t: "genai_bearer_token authorization = Inr token"
    and three: "length (split_char CHR ''.'' token) = 3"
    and h: "decode_segment gv (split_char CHR ''.'' token ! 0) = Inr header" "map_of header ''alg'' = Some (JStr ''RS256'')"
      "map_of header ''typ'' = Some (JStr ''at+jwt'')"
    and c: "decode_segment gv (split_char CHR ''.'' token ! 1) = Inr claims"
    and sg: "gv_verify gv (split_char CHR ''.'' token ! 0 @ ''.'' @ split_char CHR ''.'' token ! 1)
      (base64url_decode (split_char CHR ''.'' token ! 2))"
    and ctx: "token_is_current now claims" "context_of_claims gv claims = Inr auth"
    unfolding genai_authenticate_def ebind_eq_Inr Let_def by (auto simp: ebind_eq_Inr split: if_splits)
  have "authentic gv now token auth"
    unfolding authentic_def
    using split_three [OF three] sg decode_segment_Inr [OF h(1)] h(2,3) decode_segment_Inr [OF c] context_of_claims_grants [OF ctx(2,1)]
    by blast
  with genai_bearer_token_Inr [OF t] show ?thesis by blast
qed

section \<open>Forwarding\<close>

lemma forwarded_authorization:
  "header (genai_forwarded_headers hs apiKey) ''authorization'' =
     (case apiKey of Some (c # cs) \<Rightarrow> Some (''Bearer '' @ c # cs) | _ \<Rightarrow> None)"
proof -
  let ?f = "\<lambda>(key, value) out. if value = One_Value [] \<or> to_lower key \<in> set request_headers_to_strip then out
      else set_header key (header_text value) out"
  have a: "to_lower ''authorization'' = ''authorization''" "''authorization'' \<in> set request_headers_to_strip"
    by code_simp+
  have "header (fold ?f hs out) ''authorization'' = header out ''authorization''" for out
    by (induction hs arbitrary: out) (auto simp: header_set_header a)
  then have "header (fold ?f hs []) ''authorization'' = None" by (simp add: header_def)
  then show ?thesis by (auto simp: genai_forwarded_headers_def header_set_header split: option.splits list.splits)
qed

lemma genai_begin_Inr:
  assumes "genai_begin cfg parse now nowSeconds req projects = Inr call"
  obtains u where "gp_resolve cfg (gr_url req) (gp_local cfg) = Some u"
    "url_pathname u \<noteq> ''/healthz''" "url_pathname u \<noteq> ''/api/users''" "\<not> starts_with ''/api/users/'' (url_pathname u)"
    "genai_authenticate (gp_verifier cfg) nowSeconds (map_option header_text (map_of (gr_headers req) ''authorization'')) = Inr (gc_auth call)"
    "gc_metered call \<longleftrightarrow> url_pathname u \<in> set metered_paths"
    "gc_metered call \<longrightarrow> (\<forall>limit n. daily_limit (ax_project (gc_auth call)) = Some (limit, n) \<longrightarrow>
       \<not> at_least (daily_spend cfg now projects (ax_audience (gc_auth call))) limit)"
    "gp_resolve cfg (url_pathname u @ url_search u) (gp_upstream cfg) = Some (gc_url call)"
    "gc_headers call = genai_forwarded_headers (gr_headers req) (gp_apiKey cfg)" "gc_method call = gr_method req"
    "gc_body call = (if gr_method req \<in> {''GET'', ''HEAD''} then None else Some (gr_body req))"
proof -
  from assms obtain u where u: "gp_resolve cfg (gr_url req) (gp_local cfg) = Some u"
    by (cases "gp_resolve cfg (gr_url req) (gp_local cfg)") (simp_all add: genai_begin_def)
  have m: "map_option header_text (map_of (gr_headers req) ''authorization'')
      = (case map_of (gr_headers req) ''authorization'' of None \<Rightarrow> None | Some v \<Rightarrow> Some (header_text v))"
    by (simp split: option.split)
  from assms u obtain auth where auth:
    "genai_authenticate (gp_verifier cfg) nowSeconds (map_option header_text (map_of (gr_headers req) ''authorization'')) = Inr auth"
    unfolding m
    by (cases "genai_authenticate (gp_verifier cfg) nowSeconds (case map_of (gr_headers req) ''authorization'' of None \<Rightarrow> None | Some v \<Rightarrow> Some (header_text v))")
      (auto simp: genai_begin_def Let_def split: if_splits)
  from assms u auth show ?thesis
    unfolding m
    by (intro that [of u]) (auto simp: genai_begin_def Let_def m split: if_splits option.splits)
qed

text \<open>
  C21: whatever the proxy forwards was admitted. The request carries a Bearer token that is a
  compact JWT with a valid RS256 signature, in its validity period, for one audience of the GenAI
  service, with the required scope, a user and a client; it is not for the health check or the
  reports; the client's Authorization header is replaced by the proxy's own key or dropped; and a
  request that is counted is sent only while the project's spending of the day is below its limit.
\<close>

theorem forwarded_calls_are_admitted:
  assumes "genai_begin cfg parse now nowSeconds req projects = Inr call"
  shows "\<exists>u v a gap token. gp_resolve cfg (gr_url req) (gp_local cfg) = Some u
    \<and> url_pathname u \<noteq> ''/healthz'' \<and> url_pathname u \<noteq> ''/api/users'' \<and> \<not> starts_with ''/api/users/'' (url_pathname u)
    \<and> map_of (gr_headers req) ''authorization'' = Some v \<and> a = trim (header_text v)
    \<and> to_lower (take 6 a) = ''bearer'' \<and> drop 6 a = gap @ token \<and> authentic (gp_verifier cfg) nowSeconds token (gc_auth call)
    \<and> header (gc_headers call) ''authorization''
        = (case gp_apiKey cfg of Some (c # cs) \<Rightarrow> Some (''Bearer '' @ c # cs) | _ \<Rightarrow> None)
    \<and> (url_pathname u \<in> set metered_paths \<longrightarrow> (\<forall>limit n. daily_limit (ax_project (gc_auth call)) = Some (limit, n) \<longrightarrow>
        \<not> at_least (daily_spend cfg now projects (ax_audience (gc_auth call))) limit))"
proof -
  obtain u where u: "gp_resolve cfg (gr_url req) (gp_local cfg) = Some u" "url_pathname u \<noteq> ''/healthz''"
      "url_pathname u \<noteq> ''/api/users''" "\<not> starts_with ''/api/users/'' (url_pathname u)"
    and auth: "genai_authenticate (gp_verifier cfg) nowSeconds (map_option header_text (map_of (gr_headers req) ''authorization'')) = Inr (gc_auth call)"
    and limit: "gc_metered call \<longleftrightarrow> url_pathname u \<in> set metered_paths"
      "gc_metered call \<longrightarrow> (\<forall>limit n. daily_limit (ax_project (gc_auth call)) = Some (limit, n) \<longrightarrow>
        \<not> at_least (daily_spend cfg now projects (ax_audience (gc_auth call))) limit)"
    and hs: "gc_headers call = genai_forwarded_headers (gr_headers req) (gp_apiKey cfg)"
    by (rule genai_begin_Inr [OF assms])
  from genai_authenticate_sound [OF auth] obtain v gap token where t: "map_of (gr_headers req) ''authorization'' = Some v"
      "to_lower (take 6 (trim (header_text v))) = ''bearer''" "drop 6 (trim (header_text v)) = gap @ token"
      "authentic (gp_verifier cfg) nowSeconds token (gc_auth call)" by auto
  with u limit forwarded_authorization [of "gr_headers req" "gp_apiKey cfg"] show ?thesis unfolding hs by blast
qed


text \<open>A proxy, its platform and a request with a token.\<close>

definition sample_dates :: dates where
  "sample_dates = \<lparr>dt_iso = (\<lambda>_. ''2026-01-01T00:00:00.000Z''), dt_parse = (\<lambda>_. Some 0)\<rparr>"

definition sample_genai_resolve :: "string \<Rightarrow> url \<Rightarrow> url option" where
  "sample_genai_resolve s base =
     (if starts_with ''//'' s
      then let host = takeWhile (\<lambda>c. c \<noteq> CHR ''/'') (drop 2 s)
           in Some (base\<lparr>url_hostname := host, url_host := host, url_pathname := dropWhile (\<lambda>c. c \<noteq> CHR ''/'') (drop 2 s)\<rparr>)
      else if starts_with ''/./'' s then Some (base\<lparr>url_pathname := drop 2 s\<rparr>)
      else Some (base\<lparr>url_pathname := s\<rparr>))"

definition sample_genai_verifier :: genai_verifier where
  "sample_genai_verifier =
     \<lparr>gv_audiencePrefix = ''gen-ai.services.'', gv_requiredScope = ''gen-ai-users'',
      gv_verify = (\<lambda>input sg. input = ''SA.Qw'' \<and> sg = ''S''),
      gv_parse = (\<lambda>t. if t = ''H'' then Some (JObj [(''alg'', JStr ''RS256''), (''typ'', JStr ''at+jwt'')])
        else if t = ''C'' then Some (JObj [(''exp'', JNum (Finite 90)), (''aud'', JStr ''gen-ai.services.spire''), (''sub'', JStr ''user.ann''),
          (''client_id'', JStr ''cli''), (''scope'', JStr ''gen-ai-users'')])
        else None)\<rparr>"

definition sample_genai_config :: genai_config where
  "sample_genai_config =
     \<lparr>gp_verifier = sample_genai_verifier, gp_upstream = the (sample_parse ''https://llm/''), gp_apiKey = Some ''key'',
      gp_dates = sample_dates, gp_locale = (\<lambda>l r. if l = r then 0 else if l < r then - 1 else 1),
      gp_resolve = sample_genai_resolve, gp_local = the (sample_parse ''http://genai-proxy.local''), gp_decode = Some\<rparr>"

definition sample_genai_request :: "string \<Rightarrow> genai_request" where
  "sample_genai_request target = \<lparr>gr_method = ''POST'', gr_url = target,
     gr_headers = [(''host'', One_Value ''proxy''), (''authorization'', One_Value ''Bearer SA.Qw.Uw'')], gr_body = ''{}''\<rparr>"

definition sample_genai_context :: auth_context where
  "sample_genai_context = \<lparr>ax_audience = ''gen-ai.services.spire'', ax_clientId = ''cli'', ax_project = ''spire'',
     ax_scope = ''gen-ai.services.spire:role.gen-ai-users'', ax_subject = ''user.ann''\<rparr>"

definition sample_genai_call :: "string \<Rightarrow> genai_call" where
  "sample_genai_call target =
     (case genai_begin sample_genai_config (\<lambda>_. None) 0 10 (sample_genai_request target) [] of Inr c \<Rightarrow> c)"

lemma sample_genai_calls:
  "genai_begin sample_genai_config (\<lambda>_. None) 0 10 (sample_genai_request ''/v1/responses'') [] = Inr (sample_genai_call ''/v1/responses'')"
  by code_simp


lemma forwarded_calls_are_admitted_witness:
  "\<exists>token. authentic sample_genai_verifier 10 token (gc_auth (sample_genai_call ''/v1/responses''))
    \<and> header (gc_headers (sample_genai_call ''/v1/responses'')) ''authorization'' = Some ''Bearer key''"
proof -
  have cfg: "gp_verifier sample_genai_config = sample_genai_verifier" "gp_apiKey sample_genai_config = Some ''key''"
    by (simp_all add: sample_genai_config_def)
  obtain token where "authentic (gp_verifier sample_genai_config) 10 token (gc_auth (sample_genai_call ''/v1/responses''))"
    "header (gc_headers (sample_genai_call ''/v1/responses'')) ''authorization''
      = (case gp_apiKey sample_genai_config of Some (c # cs) \<Rightarrow> Some (''Bearer '' @ c # cs) | _ \<Rightarrow> None)"
    using forwarded_calls_are_admitted [OF sample_genai_calls] by (elim exE conjE) (rule that)
  then show ?thesis by (auto simp: cfg)
qed

end
