(* ===== verification/GenAI_Limits.thy ===== *)
theory GenAI_Limits
  imports GenAI_Safety
begin

text \<open>
  The daily limit of a project against what was really recorded: the spending that the limit is
  compared with is the sum of the costs of the day's requests, but for models without a price.
\<close>

section \<open>The cost of a day\<close>

text \<open>
  The price list, exact: dollars for a million input and output tokens. A name that every object
  inherits has no price.
\<close>

definition list_price :: "string \<Rightarrow> rat \<times> rat" where
  "list_price model =
     (if model = ''gpt-5.6-sol'' then (5, 30) else if model = ''gpt-5.6-terra'' then (5 / 2, 15)
      else if model = ''gpt-5.6-luna'' then (1, 6) else (1 / 10, 3 / 10))"

definition cost_at :: "string \<Rightarrow> token_usage \<Rightarrow> rat" where
  "cost_at model t =
     (case list_price model of (i, out) \<Rightarrow>
        (of_nat (tu_prompt t) * i + of_nat (tu_completion t) * out) / 1000000)"

definition todays :: "dates \<Rightarrow> int \<Rightarrow> string \<Rightarrow> usage_history \<Rightarrow> usage_history" where
  "todays dt now project hist = filter (\<lambda>(t, i, u). ui_project i = project \<and> jst_date dt t = jst_date dt now) hist"

definition spent_today :: "dates \<Rightarrow> int \<Rightarrow> string \<Rightarrow> usage_history \<Rightarrow> rat" where
  "spent_today dt now project hist = sum_list (map (\<lambda>(t, i, u). cost_at (recorded_model i) u) (todays dt now project hist))"

definition models_today :: "dates \<Rightarrow> int \<Rightarrow> string \<Rightarrow> usage_history \<Rightarrow> string list" where
  "models_today dt now project hist = remdups (map (\<lambda>(t, i, u). recorded_model i) (todays dt now project hist))"

definition unpriced_today :: "dates \<Rightarrow> int \<Rightarrow> string \<Rightarrow> usage_history \<Rightarrow> bool" where
  "unpriced_today dt now project hist \<longleftrightarrow> list_ex (\<lambda>(t, i, u). recorded_model i \<in> set inherited_names) (todays dt now project hist)"

lemma listed_not_inherited:
  "''gpt-5.6-sol'' \<notin> set inherited_names" "''gpt-5.6-terra'' \<notin> set inherited_names" "''gpt-5.6-luna'' \<notin> set inherited_names"
  by (simp_all add: inherited_names_def)

lemma cost_at_nonneg: "0 \<le> cost_at model t"
  by (auto simp: cost_at_def list_price_def)

text \<open>The cost that is computed is the exact one after at most four roundings.\<close>

lemma price_near:
  assumes "model \<notin> set inherited_names"
  shows "\<exists>i out. price_of model = Price i out \<and> near 1 (fst (list_price model)) i \<and> near 1 (snd (list_price model)) out"
proof -
  have same: "near 1 (x :: rat) x" if "0 \<le> x" for x using near_later [OF near_refl that, of 1] by simp
  consider "model = ''gpt-5.6-sol''" | "model = ''gpt-5.6-terra''" | "model = ''gpt-5.6-luna''"
    | "model \<notin> {''gpt-5.6-sol'', ''gpt-5.6-terra'', ''gpt-5.6-luna''}" by blast
  then show ?thesis
  proof cases
    case 1
    then show ?thesis by (intro exI [of _ 5] exI [of _ 30]) (simp add: price_of_def list_price_def same [simplified])
  next
    case 2
    then show ?thesis by (intro exI [of _ "5 / 2"] exI [of _ 15]) (simp add: price_of_def list_price_def same [simplified])
  next
    case 3
    then show ?thesis by (intro exI [of _ 1] exI [of _ 6]) (simp add: price_of_def list_price_def same [simplified])
  next
    case 4
    then show ?thesis
      using assms near_round [OF near_refl, of "1 / 10"] near_round [OF near_refl, of "3 / 10"]
      by (intro exI [of _ "double_of (1 / 10)"] exI [of _ "double_of (3 / 10)"]) (simp add: price_of_def list_price_def)
  qed
qed

lemma token_cost_near:
  assumes "model \<notin> set inherited_names"
  shows "\<exists>c. token_cost model (tu_prompt t) (tu_completion t) = Finite c \<and> near 4 (cost_at model t) c"
proof -
  let ?i = "fst (list_price model)" and ?o = "snd (list_price model)"
  from price_near [OF assms] obtain i out where p: "price_of model = Price i out" "near 1 ?i i" "near 1 ?o out" by blast
  have pos: "0 \<le> ?i" "0 \<le> ?o" by (auto simp: list_price_def)
  let ?a = "of_nat (tu_prompt t) * ?i" and ?b = "of_nat (tu_completion t) * ?o"
  have "near 2 ?a (double_of (of_nat (tu_prompt t) * i))" "near 2 ?b (double_of (of_nat (tu_completion t) * out))"
    using near_round [OF near_scale [OF p(2)], of "of_nat (tu_prompt t)"] near_round [OF near_scale [OF p(3)], of "of_nat (tu_completion t)"] pos
    by (simp_all add: numeral_2_eq_2)
  from near_round [OF near_add [OF this]] pos
  have "near 3 (?a + ?b) (double_of (double_of (of_nat (tu_prompt t) * i) + double_of (of_nat (tu_completion t) * out)))"
    by (simp add: numeral_3_eq_3 numeral_2_eq_2)
  from near_round [OF near_scale [OF this, of "1 / 1000000"]] pos
  have "near 4 (cost_at model t) (double_of (double_of (double_of (of_nat (tu_prompt t) * i) + double_of (of_nat (tu_completion t) * out)) / 1000000))"
    by (simp add: cost_at_def case_prod_unfold eval_nat_numeral)
  with p(1) show ?thesis by (simp add: token_cost_def)
qed

lemma token_cost_unpriced: "model \<in> set inherited_names \<Longrightarrow> token_cost model p c = Not_A_Number"
  using listed_not_inherited by (auto simp: token_cost_def price_of_def)

lemma add_cost_foldl: "foldl (\<lambda>total m. add_cost total (c m)) Not_A_Number ms = Not_A_Number"
  by (induction ms) simp_all

lemma add_cost_unpriced [simp]: "add_cost c Not_A_Number = Not_A_Number"
  by (cases c) simp_all

lemma usage_cost_unpriced:
  assumes "\<exists>m \<in> set ms. mu_model m \<in> set inherited_names"
  shows "usage_cost ms = Not_A_Number"
proof -
  from assms obtain xs m ys where ms: "ms = xs @ m # ys" and "mu_model m \<in> set inherited_names"
    by (metis split_list)
  then show ?thesis by (simp add: usage_cost_def token_cost_unpriced add_cost_foldl)
qed

lemma usage_cost_near:
  assumes "\<forall>m \<in> set ms. mu_model m \<notin> set inherited_names"
  shows "\<exists>c. usage_cost ms = Finite c \<and> near (4 + length ms) (sum_list (map (\<lambda>m. cost_at (mu_model m) (mu_tokens m)) ms)) c"
proof -
  have "\<exists>c. foldl (\<lambda>total m. add_cost total (token_cost (mu_model m) (tu_prompt (mu_tokens m)) (tu_completion (mu_tokens m)))) (Finite a) ms = Finite c
      \<and> near (4 + k + length ms) (x + sum_list (map (\<lambda>m. cost_at (mu_model m) (mu_tokens m)) ms)) c"
    if "near (4 + k) x a" "0 \<le> x" for x a k
    using that assms
  proof (induction ms arbitrary: x a k)
    case (Cons m ms)
    let ?t = "mu_tokens m" and ?x = "cost_at (mu_model m) (mu_tokens m)"
    from Cons.prems(3) token_cost_near [of "mu_model m" ?t] obtain b where
      b: "token_cost (mu_model m) (tu_prompt ?t) (tu_completion ?t) = Finite b" "near 4 ?x b" by auto
    have "near (4 + k) ?x b" by (rule near_later [OF b(2) cost_at_nonneg]) simp
    from near_round [OF near_add [OF Cons.prems(1) this]] Cons.prems(2) cost_at_nonneg [of "mu_model m" ?t]
    have "near (4 + Suc k) (x + ?x) (double_of (a + b))" by simp
    from Cons.IH [OF this] Cons.prems(2,3) cost_at_nonneg [of "mu_model m" ?t] b(1) show ?case
      by (auto simp: add.assoc)
  qed (use that in auto)
  from this [of 0 0 0] show ?thesis by (simp add: usage_cost_def near_def)
qed

lemma cost_at_sum: "cost_at model (foldr add_tokens us no_tokens) = sum_list (map (cost_at model) us)"
proof -
  have "cost_at model (add_tokens a b) = cost_at model a + cost_at model b" for a b
    by (simp add: cost_at_def add_tokens_def case_prod_unfold field_simps)
  moreover have "cost_at model no_tokens = 0" by (simp add: cost_at_def no_tokens_def case_prod_unfold)
  ultimately show ?thesis by (induction us) simp_all
qed

lemma sum_if_in: "distinct ns \<Longrightarrow> n \<in> set ns \<Longrightarrow> sum_list (map (\<lambda>x. if n = x then c else 0) ns) = (c :: rat)"
proof (induction ns)
  case (Cons a ns)
  have "sum_list (map (\<lambda>x. if n = x then c else 0) ns) = 0" if "n \<notin> set ns"
    using that by (induction ns) auto
  with Cons show ?case by auto
qed simp

lemma sum_by_key:
  fixes f :: "'a \<Rightarrow> rat"
  assumes "distinct ns" "\<forall>x \<in> set xs. key x \<in> set ns"
  shows "sum_list (map (\<lambda>n. sum_list (map f (filter (\<lambda>x. key x = n) xs))) ns) = sum_list (map f xs)"
  using assms(2)
proof (induction xs)
  case (Cons x xs)
  have "sum_list (map f (filter (\<lambda>x. key x = n) (x # xs))) = (if key x = n then f x else 0) + sum_list (map f (filter (\<lambda>x. key x = n) xs))"
    for n by simp
  with Cons sum_if_in [OF assms(1), of "key x" "f x"] show ?case by (simp only: sum_list_addf) simp
qed (induction ns, simp_all)

lemma recorded_of_todays:
  "recorded_today dt now project model hist = filter (\<lambda>(t, i, u). recorded_model i = model) (todays dt now project hist)"
  unfolding recorded_today_def todays_def by (induction hist) auto

lemma daily_spend_near:
  assumes "iso_long (gp_dates cfg)"
  shows "if unpriced_today (gp_dates cfg) now project hist
    then daily_spend cfg now (store_of (gp_dates cfg) hist) project = Not_A_Number
    else \<exists>c. daily_spend cfg now (store_of (gp_dates cfg) hist) project = Finite c
      \<and> near (4 + length (models_today (gp_dates cfg) now project hist)) (spent_today (gp_dates cfg) now project hist) c"
proof -
  let ?dt = "gp_dates cfg" and ?xs = "todays (gp_dates cfg) now project hist"
  let ?ms = "current_daily_models (gp_locale cfg) ?dt now (store_of ?dt hist) project"
  let ?key = "\<lambda>(t :: int, i, u :: token_usage). recorded_model i"
  have listed: "name \<in> set (map mu_model ?ms) \<longleftrightarrow> name \<in> set (map ?key ?xs)" for name
    unfolding model_listed_iff [OF assms] recorded_of_todays by (auto simp: filter_empty_conv image_iff case_prod_unfold)
  have "sum_list (map (\<lambda>m. cost_at (mu_model m) (mu_tokens m)) ?ms)
      = sum_list (map (\<lambda>m. sum_list (map (\<lambda>(t, i, u). cost_at (recorded_model i) u) (filter (\<lambda>x. ?key x = mu_model m) ?xs))) ?ms)"
  proof (intro arg_cong [where f = sum_list] map_cong refl)
    fix m assume "m \<in> set ?ms"
    then have "cost_at (mu_model m) (mu_tokens m) = sum_list (map (cost_at (mu_model m)) (map (\<lambda>(t, i, u). u) (recorded_today ?dt now project (mu_model m) hist)))"
      by (simp only: model_totals(2) [OF assms] cost_at_sum)
    then show "cost_at (mu_model m) (mu_tokens m)
        = sum_list (map (\<lambda>(t, i, u). cost_at (recorded_model i) u) (filter (\<lambda>x. ?key x = mu_model m) ?xs))"
      by (auto simp: recorded_of_todays case_prod_unfold comp_def intro!: arg_cong [where f = sum_list] map_cong)
  qed
  also have "\<dots> = spent_today ?dt now project hist"
    using sum_by_key [of "map mu_model ?ms" ?xs ?key "\<lambda>(t, i, u). cost_at (recorded_model i) u"] listed
      current_daily_models_totals(1) [OF additive_amounts(1), of "gp_locale cfg" ?dt now "store_of ?dt hist" project]
    by (simp add: spent_today_def comp_def)
  finally have "sum_list (map (\<lambda>m. cost_at (mu_model m) (mu_tokens m)) ?ms) = spent_today ?dt now project hist" .
  moreover have "(\<exists>m \<in> set ?ms. mu_model m \<in> set inherited_names) \<longleftrightarrow> unpriced_today ?dt now project hist"
  proof -
    have "set (map mu_model ?ms) = set (map ?key ?xs)" using listed by blast
    then have "(\<exists>n \<in> set (map mu_model ?ms). n \<in> set inherited_names) \<longleftrightarrow> (\<exists>n \<in> set (map ?key ?xs). n \<in> set inherited_names)" by simp
    then show ?thesis by (simp add: unpriced_today_def list_ex_iff case_prod_unfold)
  qed
  moreover have "length ?ms = length (models_today ?dt now project hist)"
  proof -
    have "distinct (map mu_model ?ms)"
      using current_daily_models_totals(1) [OF additive_amounts(1), of "gp_locale cfg" ?dt now "store_of ?dt hist" project] .
    then have "length ?ms = card (set (map mu_model ?ms))" by (metis distinct_card length_map)
    also have "set (map mu_model ?ms) = set (map ?key ?xs)" using listed by blast
    finally show ?thesis by (simp add: models_today_def length_remdups_card_conv case_prod_unfold)
  qed
  ultimately show ?thesis
    using usage_cost_near [of ?ms] usage_cost_unpriced [of ?ms] unfolding daily_spend_def by auto
qed

section \<open>The limit\<close>

lemma not_429: "rp_status unavailable_reply \<noteq> 429"
  by (simp add: unavailable_reply_def genai_json_def)

text \<open>
  C22: the limit against the requests that were recorded. Take an admitted request that is counted,
  of a project with a limit, and the exact cost of the day's recorded requests of the project, by the
  price list. The program adds the costs up in doubles, with at most \<open>n\<close> roundings, four and one for
  each model used. So the request is refused with 429 when the exact cost is at least the limit by
  more than these roundings can take away, and is not when it is below the limit by more than they
  can add; and one recorded request with the name of an inherited property as its model, such as
  \<^verbatim>\<open>constructor\<close>, makes the total not a number and lifts the limit for the day.
\<close>

theorem limit_follows_recorded_costs:
  assumes "iso_long (gp_dates cfg)"
    and "gp_resolve cfg (gr_url req) (gp_local cfg) = Some u" "url_pathname u \<in> set metered_paths"
    and "genai_authenticate (gp_verifier cfg) nowSeconds (map_option header_text (map_of (gr_headers req) ''authorization'')) = Inr auth"
    and "daily_limit (ax_project auth) = Some (limit, digits)"
  shows "let refused = (\<exists>r. genai_begin cfg parse now nowSeconds req (store_of (gp_dates cfg) hist) = Inl r \<and> rp_status r = 429);
      spent = spent_today (gp_dates cfg) now (ax_audience auth) hist;
      n = 4 + length (models_today (gp_dates cfg) now (ax_audience auth) hist)
    in if unpriced_today (gp_dates cfg) now (ax_audience auth) hist then \<not> refused
       else (limit \<le> spent * (1 - 1 / 2 ^ 53) ^ n \<longrightarrow> refused) \<and> (spent * (1 + 1 / 2 ^ 53) ^ n < limit \<longrightarrow> \<not> refused)"
proof -
  let ?store = "store_of (gp_dates cfg) hist"
  have path: "url_pathname u \<noteq> ''/healthz''" "url_pathname u \<noteq> ''/api/users''" "\<not> starts_with ''/api/users/'' (url_pathname u)"
    using assms(3) by (auto simp: metered_paths_def starts_with_def)
  have m: "(case map_of (gr_headers req) ''authorization'' of None \<Rightarrow> None | Some v \<Rightarrow> Some (header_text v))
      = map_option header_text (map_of (gr_headers req) ''authorization'')"
    by (simp split: option.split)
  have "(\<exists>r. genai_begin cfg parse now nowSeconds req ?store = Inl r \<and> rp_status r = 429)
      \<longleftrightarrow> at_least (daily_spend cfg now ?store (ax_audience auth)) limit"
    using assms(2-5) path
    by (auto simp: genai_begin_def Let_def m not_429 limit_reply_def genai_json_def split: option.splits)
  with daily_spend_near [OF assms(1), of now "ax_audience auth" hist] show ?thesis
    by (auto simp: Let_def at_least_def near_def rounding_unit_def split: if_splits)
qed

text \<open>
  Between the two bounds the rounding decides: five input tokens of one model and 399 of another
  cost exactly the limit of 0.002 dollars of the project \<^verbatim>\<open>spire\<close>, and the sum in doubles is below it.
\<close>

definition five_and_399 :: "model_usage list" where
  "five_and_399 =
     [\<lparr>mu_model = ''gpt-5.6-luna'', mu_requests = 1, mu_tokens = \<lparr>tu_prompt = 5, tu_completion = 0, tu_total = 5\<rparr>\<rparr>,
      \<lparr>mu_model = ''gpt-5.6-sol'', mu_requests = 1, mu_tokens = \<lparr>tu_prompt = 399, tu_completion = 0, tu_total = 399\<rparr>\<rparr>]"

lemma rounding_admits_the_limit:
  "sum_list (map (\<lambda>m. cost_at (mu_model m) (mu_tokens m)) five_and_399) = 2 / 1000
   \<and> (case daily_limit ''spire'' of Some (limit, _) \<Rightarrow> \<not> at_least (usage_cost five_and_399) limit | None \<Rightarrow> False)"
  by code_simp

section \<open>Where a request goes\<close>

text \<open>
  A host name of lower-case letters and dots, which URL parsing leaves as it is; and the path of a
  parsed URL that has one slash at its start and, as such paths, no backslash, tab or line break.
\<close>

definition plain_host :: "string \<Rightarrow> bool" where
  "plain_host h \<longleftrightarrow> h \<noteq> [] \<and> list_all (\<lambda>c. is_lower c \<or> c = CHR ''.'') h"

definition rooted_path :: "string \<Rightarrow> bool" where
  "rooted_path p \<longleftrightarrow> starts_with ''/'' p \<and> \<not> starts_with ''//'' p
     \<and> list_all (\<lambda>c. c \<notin> set [CHR 0x5C, CHR 0x09, CHR 0x0A, CHR 0x0D]) p"

definition is_web :: "url \<Rightarrow> bool" where
  "is_web u \<longleftrightarrow> url_protocol u = ''http:'' \<or> url_protocol u = ''https:''"

text \<open>Two rules of \<^verbatim>\<open>new URL(text, base)\<close> with a base of the web.\<close>

definition path_keeps_host :: "(string \<Rightarrow> url \<Rightarrow> url option) \<Rightarrow> bool" where
  "path_keeps_host resolve \<longleftrightarrow> (\<forall>path query base v. is_web base \<and> rooted_path path \<and> (query = [] \<or> hd query = CHR ''?'')
     \<and> resolve (path @ query) base = Some v \<longrightarrow> url_host v = url_host base)"

definition slashes_name_host :: "(string \<Rightarrow> url \<Rightarrow> url option) \<Rightarrow> bool" where
  "slashes_name_host resolve \<longleftrightarrow> (\<forall>host rest base v. is_web base \<and> plain_host host
     \<and> resolve (''//'' @ host @ ''/'' @ rest) base = Some v \<longrightarrow> url_host v = host)"

text \<open>
  C25: where a request goes. By the rules of \<^verbatim>\<open>new URL\<close>, a path with a single slash stays at the host of
  the upstream. A path that begins with two slashes and a host name, as \<^verbatim>\<open>/.//evil.example/v1\<close>
  becomes when the request's URL is parsed, goes to that host instead, with the proxy's key.
\<close>

theorem double_slash_leaves_the_upstream:
  assumes "genai_begin cfg parse now nowSeconds req projects = Inr call"
    and "gp_resolve cfg (gr_url req) (gp_local cfg) = Some u" "url_search u = [] \<or> hd (url_search u) = CHR ''?''"
    and "normalize_upstream parse_url baseUrl = Inr (gp_upstream cfg)"
    and "path_keeps_host (gp_resolve cfg)" "slashes_name_host (gp_resolve cfg)"
  shows "(rooted_path (url_pathname u) \<longrightarrow> url_host (gc_url call) = url_host (gp_upstream cfg))
    \<and> (\<forall>host rest. url_pathname u = ''//'' @ host @ ''/'' @ rest \<and> plain_host host \<longrightarrow>
        url_host (gc_url call) = host
        \<and> header (gc_headers call) ''authorization''
          = (case gp_apiKey cfg of Some (c # cs) \<Rightarrow> Some (''Bearer '' @ c # cs) | _ \<Rightarrow> None))"
proof -
  obtain u' where "gp_resolve cfg (gr_url req) (gp_local cfg) = Some u'"
    and sent: "gp_resolve cfg (url_pathname u' @ url_search u') (gp_upstream cfg) = Some (gc_url call)"
    and hs: "gc_headers call = genai_forwarded_headers (gr_headers req) (gp_apiKey cfg)"
    by (rule genai_begin_Inr [OF assms(1)])
  with assms(2) have u: "u' = u" by simp
  have "is_web v" if "normalize_upstream parse_url baseUrl = Inr v" for v
    using that by (auto simp: normalize_upstream_def is_web_def split: option.splits if_splits)
  with assms(4) have web: "is_web (gp_upstream cfg)" by blast
  have "url_host (gc_url call) = host" if "url_pathname u = ''//'' @ host @ ''/'' @ rest" "plain_host host" for host rest
    using sent assms(6) web that(2) unfolding u that(1) append_assoc slashes_name_host_def by blast
  with sent assms(3,5) web forwarded_authorization show ?thesis unfolding u hs path_keeps_host_def by blast
qed

section \<open>Examples\<close>

lemma sample_rules: "path_keeps_host sample_genai_resolve" "slashes_name_host sample_genai_resolve"
proof -
  have "\<not> starts_with ''//'' (path @ query)" if "rooted_path path" "query = [] \<or> hd query = CHR ''?''" for path query
    using that by (cases path; cases "tl path"; cases query) (auto simp: rooted_path_def starts_with_def)
  then show "path_keeps_host sample_genai_resolve"
    by (auto simp: path_keeps_host_def sample_genai_resolve_def split: if_splits)
  have "takeWhile (\<lambda>c. c \<noteq> CHR ''/'') (host @ CHR ''/'' # rest) = host" if "plain_host host" for host rest
    using that by (intro takeWhile_append2 [THEN trans]) (auto simp: plain_host_def list_all_iff is_lower_def)
  then show "slashes_name_host sample_genai_resolve"
    by (auto simp: slashes_name_host_def sample_genai_resolve_def starts_with_def)
qed

lemma sample_evil_call:
  "genai_begin sample_genai_config (\<lambda>_. None) 0 10 (sample_genai_request ''/.//evil.example/v1'') []
    = Inr (sample_genai_call ''/.//evil.example/v1'')"
  by code_simp

lemma sample_evil_url:
  "gp_resolve sample_genai_config (gr_url (sample_genai_request ''/.//evil.example/v1'')) (gp_local sample_genai_config)
    = Some ((the (sample_parse ''http://genai-proxy.local''))\<lparr>url_pathname := ''//evil.example/v1''\<rparr>)"
  by code_simp

lemma double_slash_leaves_the_upstream_witness:
  "url_host (gc_url (sample_genai_call ''/.//evil.example/v1'')) = ''evil.example''
   \<and> header (gc_headers (sample_genai_call ''/.//evil.example/v1'')) ''authorization'' = Some ''Bearer key''"
proof -
  have n: "normalize_upstream sample_parse ''https://llm/'' = Inr (gp_upstream sample_genai_config)"
    by code_simp
  have search: "url_search ((the (sample_parse ''http://genai-proxy.local''))\<lparr>url_pathname := ''//evil.example/v1''\<rparr>) = []"
    "plain_host ''evil.example''" by code_simp+
  have r: "gp_resolve sample_genai_config = sample_genai_resolve" "gp_apiKey sample_genai_config = Some ''key''"
    by (simp_all add: sample_genai_config_def)
  from double_slash_leaves_the_upstream [OF sample_evil_call sample_evil_url _ n] search(1) sample_rules
  have "\<forall>host rest. ''//evil.example/v1'' = ''//'' @ host @ ''/'' @ rest \<and> plain_host host \<longrightarrow>
        url_host (gc_url (sample_genai_call ''/.//evil.example/v1'')) = host
        \<and> header (gc_headers (sample_genai_call ''/.//evil.example/v1'')) ''authorization'' = Some ''Bearer key''"
    by (simp add: r)
  from this [rule_format, of "''evil.example''" "''v1''"] search(2) show ?thesis by simp
qed

definition sample_usage_identity :: "string \<Rightarrow> usage_identity" where
  "sample_usage_identity model = \<lparr>ui_clientId = ''cli'', ui_model = Some model, ui_project = ''gen-ai.services.spire'',
     ui_scope = ''gen-ai.services.spire:role.gen-ai-users'', ui_subject = ''user.ann''\<rparr>"

definition sample_tokens :: token_usage where
  "sample_tokens = \<lparr>tu_prompt = 1000, tu_completion = 200, tu_total = 1200\<rparr>"

lemma sample_iso_long: "iso_long sample_dates"
  by (simp add: iso_long_def sample_dates_def)

lemma daily_totals_match_the_history_witness:
  "(''gpt-5.6-sol'' \<in> set (map mu_model (current_daily_models (\<lambda>l r. 0) sample_dates 5
       (store_of sample_dates [(0, sample_usage_identity ''gpt-5.6-sol'', sample_tokens)]) ''gen-ai.services.spire'')))
   \<and> ''gpt-5.6-luna'' \<notin> set (map mu_model (current_daily_models (\<lambda>l r. 0) sample_dates 5
       (store_of sample_dates [(0, sample_usage_identity ''gpt-5.6-sol'', sample_tokens)]) ''gen-ai.services.spire''))"
proof -
  let ?hist = "[(0, sample_usage_identity ''gpt-5.6-sol'', sample_tokens)]"
  have "recorded_today sample_dates 5 ''gen-ai.services.spire'' ''gpt-5.6-sol'' ?hist \<noteq> []"
    "recorded_today sample_dates 5 ''gen-ai.services.spire'' ''gpt-5.6-luna'' ?hist = []" by code_simp+
  then show ?thesis using daily_totals_match_the_history [OF sample_iso_long refl, of "\<lambda>l r. 0" 5 ?hist "''gen-ai.services.spire''"] by blast
qed

lemma limit_follows_recorded_costs_witness:
  "(\<exists>r. genai_begin sample_genai_config (\<lambda>_. None) 0 10 (sample_genai_request ''/v1/responses'')
        (store_of sample_dates [(0, sample_usage_identity ''gpt-5.6-sol'', sample_tokens)]) = Inl r \<and> rp_status r = 429)
   \<and> \<not> (\<exists>r. genai_begin sample_genai_config (\<lambda>_. None) 0 10 (sample_genai_request ''/v1/responses'')
        (store_of sample_dates [(0, sample_usage_identity ''gpt-5.6-luna'', sample_tokens\<lparr>tu_completion := 0\<rparr>)]) = Inl r \<and> rp_status r = 429)
   \<and> \<not> (\<exists>r. genai_begin sample_genai_config (\<lambda>_. None) 0 10 (sample_genai_request ''/v1/responses'')
        (store_of sample_dates [(0, sample_usage_identity ''gpt-5.6-sol'', sample_tokens), (0, sample_usage_identity ''constructor'', sample_tokens)]) = Inl r
        \<and> rp_status r = 429)"
proof -
  let ?cfg = "sample_genai_config" and ?req = "sample_genai_request ''/v1/responses''"
  let ?spend = "[(0, sample_usage_identity ''gpt-5.6-sol'', sample_tokens)]"
  let ?low = "[(0, sample_usage_identity ''gpt-5.6-luna'', sample_tokens\<lparr>tu_completion := 0\<rparr>)]"
  let ?free = "[(0, sample_usage_identity ''gpt-5.6-sol'', sample_tokens), (0, sample_usage_identity ''constructor'', sample_tokens)]"
  have dates: "gp_dates ?cfg = sample_dates" "gp_verifier ?cfg = sample_genai_verifier" by (simp_all add: sample_genai_config_def)
  have u: "gp_resolve ?cfg (gr_url ?req) (gp_local ?cfg) = Some ((the (sample_parse ''http://genai-proxy.local''))\<lparr>url_pathname := ''/v1/responses''\<rparr>)"
    by code_simp
  have path: "url_pathname ((the (sample_parse ''http://genai-proxy.local''))\<lparr>url_pathname := ''/v1/responses''\<rparr>) \<in> set metered_paths"
    by code_simp
  have auth: "genai_authenticate (gp_verifier ?cfg) 10 (map_option header_text (map_of (gr_headers ?req) ''authorization'')) = Inr sample_genai_context"
    by code_simp
  have limit: "daily_limit (ax_project sample_genai_context) = Some (double_of (2 / 1000), 3)"
    by (simp add: sample_genai_context_def daily_limit_def)
  note bound = limit_follows_recorded_costs [of ?cfg, unfolded dates(1), OF sample_iso_long u path auth limit, unfolded Let_def]
  let ?a = "ax_audience sample_genai_context"
  have "\<not> unpriced_today sample_dates 0 ?a ?spend" "\<not> unpriced_today sample_dates 0 ?a ?low" "unpriced_today sample_dates 0 ?a ?free"
    "double_of (2 / 1000) \<le> spent_today sample_dates 0 ?a ?spend * (1 - 1 / 2 ^ 53) ^ (4 + length (models_today sample_dates 0 ?a ?spend))"
    "spent_today sample_dates 0 ?a ?low * (1 + 1 / 2 ^ 53) ^ (4 + length (models_today sample_dates 0 ?a ?low)) < double_of (2 / 1000)"
    by code_simp+
  then show ?thesis
    using bound [where now = 0 and parse = "\<lambda>_. None" and hist = ?spend] bound [where now = 0 and parse = "\<lambda>_. None" and hist = ?low]
      bound [where now = 0 and parse = "\<lambda>_. None" and hist = ?free] by simp
qed

definition sample_history :: usage_history where
  "sample_history = [(0, sample_usage_identity ''gpt-5.6-sol'', sample_tokens)]"

definition sample_saved :: json where
  "sample_saved = snapshot_json (\<lambda>l r. 0) (store_of sample_dates sample_history)"

lemma sample_saveable: "\<forall>(t, i, u) \<in> set sample_history. date_ok sample_dates t \<and> identity_ok i"
proof -
  have "is_jst_timestamp (jst_timestamp sample_dates 0)" by code_simp
  then have "date_ok sample_dates 0" by (simp add: date_ok_def sample_dates_def jst_date_def)
  then show ?thesis by (simp add: sample_history_def identity_ok_def sample_usage_identity_def)
qed

lemma sample_persisted:
  "persist_usage (Some ''usage.json'') False (\<lambda>v. ''saved'') (\<lambda>l r. 0) (store_of sample_dates sample_history) None = (Inr (), Some (''saved'' @ [CHR 0x0A]))"
  by (simp add: persist_usage_def)

lemma saved_usage_is_loaded_again_witness:
  "\<exists>projects. load_usage sample_dates (\<lambda>t. if t = ''saved'' @ [CHR 0x0A] then Some sample_saved else None) ''usage.json''
      (Saved (''saved'' @ [CHR 0x0A]) 7) = Inr projects
    \<and> (\<forall>p k. map_of (users_of projects p) k = map_of (users_of (store_of sample_dates sample_history) p) k)"
  by (rule saved_usage_is_loaded_again [OF sample_iso_long sample_saveable sample_persisted]) (simp add: sample_saved_def)

end
