(* ===== verification/Broker_Session.thy ===== *)
theory Broker_Session
  imports Js_Value
begin

text \<open>
  \<^verbatim>\<open>mcp-credential-broker/src/sharedSession.ts\<close>: the connectors of one user share a gateway credential
  through a file, and a lock file lets one of them log in while the others wait.

  A call of \<^verbatim>\<open>getOrCreate\<close> or \<^verbatim>\<open>invalidate\<close> is a machine whose phases are its file operations, so that the
  calls of several processes interleave. The two files are those of one issuer; the files of another
  issuer have other names. A file operation can fail, a login can fail, a process can be killed.
\<close>

section \<open>Credentials\<close>

record gateway_credential =
  cd_version :: rat
  cd_issuer :: string
  cd_accessToken :: string
  cd_tokenType :: string
  cd_expiresAt :: js_number

text \<open>\<^verbatim>\<open>JSON.parse\<close> and \<^verbatim>\<open>JSON.stringify\<close> are arguments.\<close>

record broker_config =
  bc_expirySkewMs :: int
  bc_lockStaleMs :: int
  bc_maxWaitMs :: int
  bc_pollIntervalMs :: int
  bc_issuer :: string
  bc_parse :: "string \<Rightarrow> json option"
  bc_stringify :: "json \<Rightarrow> string"

definition broker_defaults :: "string \<Rightarrow> (string \<Rightarrow> json option) \<Rightarrow> (json \<Rightarrow> string) \<Rightarrow> broker_config" where
  "broker_defaults issuer parse stringify =
     \<lparr>bc_expirySkewMs = 60000, bc_lockStaleMs = 10 * 60000, bc_maxWaitMs = 11 * 60000, bc_pollIntervalMs = 150,
      bc_issuer = issuer, bc_parse = parse, bc_stringify = stringify\<rparr>"

text \<open>
  \<^verbatim>\<open>readCredential\<close> of the file's text: no credential where the file is missing, is not JSON or has
  another shape. The value \<^verbatim>\<open>null\<close> is JSON, and reading its fields is an exception.
\<close>

definition credential_of_fields :: "(string \<times> json) list \<Rightarrow> gateway_credential option" where
  "credential_of_fields fs =
     (case (as_string (map_of fs ''issuer''), as_string (map_of fs ''accessToken''), as_finite (map_of fs ''expiresAt'')) of
        (Some issuer, Some token, Some expiry) \<Rightarrow>
          if map_of fs ''version'' = Some (JNum (Finite 1)) \<and> token \<noteq> [] \<and> map_of fs ''tokenType'' = Some (JStr ''Bearer'')
          then Some \<lparr>cd_version = 1, cd_issuer = issuer, cd_accessToken = token, cd_tokenType = ''Bearer'', cd_expiresAt = Finite expiry\<rparr>
          else None
      | _ \<Rightarrow> None)"

definition read_credential :: "(string \<Rightarrow> json option) \<Rightarrow> string option \<Rightarrow> (string, gateway_credential option) result" where
  "read_credential parse file =
     (case file of
        None \<Rightarrow> Inr None
      | Some encoded \<Rightarrow>
          (case parse encoded of
             Some JNull \<Rightarrow> Inl ''Cannot read properties of null''
           | Some (JObj fs) \<Rightarrow> Inr (credential_of_fields fs)
           | _ \<Rightarrow> Inr None))"

definition credential_json :: "gateway_credential \<Rightarrow> json" where
  "credential_json c = JObj
     [(''version'', JNum (Finite (cd_version c))), (''issuer'', JStr (cd_issuer c)), (''accessToken'', JStr (cd_accessToken c)),
      (''tokenType'', JStr (cd_tokenType c)), (''expiresAt'', case cd_expiresAt c of Finite q \<Rightarrow> JNum (Finite q) | _ \<Rightarrow> JNull)]"

text \<open>\<^verbatim>\<open>a > b\<close> for a number and a finite one\<close>

definition above :: "js_number \<Rightarrow> rat \<Rightarrow> bool" where
  "above x q = (case x of Finite p \<Rightarrow> q < p | Pos_Inf \<Rightarrow> True | _ \<Rightarrow> False)"

definition read_usable :: "broker_config \<Rightarrow> int \<Rightarrow> string option \<Rightarrow> (string, gateway_credential option) result" where
  "read_usable cfg now file =
     ebind (read_credential (bc_parse cfg) file) (\<lambda>credential.
       case credential of
         None \<Rightarrow> Inr None
       | Some c \<Rightarrow>
           if cd_issuer c \<noteq> bc_issuer cfg \<or> \<not> above (cd_expiresAt c) (of_int (now + bc_expirySkewMs cfg)) then Inr None
           else Inr (Some c))"

definition assert_credential :: "gateway_credential \<Rightarrow> string \<Rightarrow> int \<Rightarrow> (string, unit) result" where
  "assert_credential c issuer now =
     (if cd_version c \<noteq> 1 \<or> cd_issuer c \<noteq> issuer \<or> cd_tokenType c \<noteq> ''Bearer'' \<or> cd_accessToken c = []
         \<or> (case cd_expiresAt c of Finite q \<Rightarrow> q \<le> of_int now | _ \<Rightarrow> True)
      then Inl ''OAuth server returned an invalid or already expired Gateway credential'' else Inr ())"

section \<open>Files\<close>

text \<open>
  A lock file: which call created it (a removed file stays open for its creator), its text, the time of
  its last change, and whether it is a symbolic link.
\<close>

record lock_file =
  lf_creator :: string
  lf_text :: string
  lf_mtime :: int
  lf_symlink :: bool

record broker_files =
  bf_credential :: "string option"
  bf_lock :: "lock_file option"

text \<open>\<^verbatim>\<open>ensurePrivateDirectory\<close>, from what \<^verbatim>\<open>lstat\<close> says after \<^verbatim>\<open>mkdir\<close>\<close>

definition check_private_directory :: "string \<Rightarrow> bool \<Rightarrow> bool \<Rightarrow> bool \<Rightarrow> nat \<Rightarrow> (string, unit) result" where
  "check_private_directory directory isDirectory isSymlink windows mode =
     (if \<not> isDirectory \<or> isSymlink then Inl (''Credential cache path is not a private directory: '' @ directory)
      else if \<not> windows \<and> mode mod 64 \<noteq> 0
      then Inl (''Credential cache directory must not be accessible by group or other users: '' @ directory)
      else Inr ())"

definition owner_json :: "string \<Rightarrow> nat \<Rightarrow> int \<Rightarrow> json" where
  "owner_json nonce pid createdAt = JObj
     [(''nonce'', JStr nonce), (''pid'', JNum (Finite (of_nat pid))), (''createdAt'', JNum (Finite (of_int createdAt)))]"

text \<open>What \<^verbatim>\<open>releaseOwnedLock\<close> finds: whether the lock file is the caller's.\<close>

definition lock_owned :: "(string \<Rightarrow> json option) \<Rightarrow> string \<Rightarrow> lock_file option \<Rightarrow> (string, bool) result" where
  "lock_owned parse nonce lock =
     (case lock of
        None \<Rightarrow> Inr False
      | Some f \<Rightarrow>
          (case parse (lf_text f) of
             None \<Rightarrow> Inr False
           | Some JNull \<Rightarrow> Inl ''Cannot read properties of null''
           | Some (JObj fs) \<Rightarrow> Inr (map_of fs ''nonce'' = Some (JStr nonce))
           | _ \<Rightarrow> Inr False))"

definition lock_is_stale :: "broker_config \<Rightarrow> int \<Rightarrow> lock_file option \<Rightarrow> bool" where
  "lock_is_stale cfg now lock =
     (case lock of None \<Rightarrow> False | Some f \<Rightarrow> lf_symlink f \<or> now - lf_mtime f > bc_lockStaleMs cfg)"

section \<open>Calls\<close>

datatype broker_call = Get_Or_Create | Invalidate string

datatype broker_answer = Credential gateway_credential | Removed bool

type_synonym broker_result = "(string, broker_answer) result"

text \<open>The phases of a call; those from \<open>Owning\<close> to \<open>Unlocking\<close> are within the lock.\<close>

datatype broker_phase =
    Checking                                  \<comment> \<open>the condition of the loop\<close>
  | Reading                                   \<comment> \<open>the first \<^verbatim>\<open>readUsable\<close>\<close>
  | Locking                                   \<comment> \<open>\<^verbatim>\<open>open\<close> with \<^verbatim>\<open>O_EXCL\<close>\<close>
  | Owning string int                         \<comment> \<open>the owner is written to the lock\<close>
  | Holding string                            \<comment> \<open>the credential is read again\<close>
  | Logging_In string                         \<comment> \<open>\<^verbatim>\<open>acquireCredential()\<close>\<close>
  | Storing string gateway_credential         \<comment> \<open>\<^verbatim>\<open>writeCredentialAtomically\<close>\<close>
  | Deleting string                           \<comment> \<open>\<^verbatim>\<open>unlink\<close> of the credential\<close>
  | Releasing string broker_result            \<comment> \<open>the lock is read\<close>
  | Unlocking string broker_result            \<comment> \<open>\<^verbatim>\<open>unlink\<close> of the own lock\<close>
  | Inspecting int                            \<comment> \<open>\<^verbatim>\<open>lstat\<close> of another's lock\<close>
  | Discarding                                \<comment> \<open>\<^verbatim>\<open>unlink\<close> of a stale lock\<close>
  | Sleeping int                              \<comment> \<open>since when\<close>
  | Returned broker_result

record broker_process =
  bp_call :: broker_call
  bp_pid :: nat
  bp_deadline :: int
  bp_rounds :: nat                            \<comment> \<open>how often the loop was entered\<close>
  bp_waited :: bool                           \<comment> \<open>\<^verbatim>\<open>waitingReported\<close>\<close>
  bp_phase :: broker_phase

text \<open>What an operation of the environment gives.\<close>

datatype outcome =
    Done_Well
  | Failed string
  | Failed_Late string                        \<comment> \<open>\<^verbatim>\<open>chmod\<close> fails after the rename\<close>
  | Drawn string                              \<comment> \<open>a nonce\<close>
  | Logged_In "(string, gateway_credential) result"

definition broker_begin :: "broker_config \<Rightarrow> int \<Rightarrow> nat \<Rightarrow> broker_call \<Rightarrow> broker_process" where
  "broker_begin cfg now pid call =
     \<lparr>bp_call = call, bp_pid = pid, bp_deadline = now + bc_maxWaitMs cfg, bp_rounds = 0, bp_waited = False, bp_phase = Checking\<rparr>"

definition timeout_message :: "broker_call \<Rightarrow> string" where
  "timeout_message call =
     (case call of
        Get_Or_Create \<Rightarrow> ''Timed out waiting for another MCP connector to finish browser authentication''
      | Invalidate _ \<Rightarrow> ''Timed out waiting to invalidate a rejected Gateway session'')"

text \<open>The phase after the condition of the loop, after a reading, and after the body has read.\<close>

definition after_check :: "int \<Rightarrow> broker_process \<Rightarrow> broker_phase" where
  "after_check now p =
     (if now \<le> bp_deadline p
      then (case bp_call p of Get_Or_Create \<Rightarrow> Reading | Invalidate _ \<Rightarrow> Locking)
      else Returned (Inl (timeout_message (bp_call p))))"

definition after_reading :: "(string, gateway_credential option) result \<Rightarrow> broker_phase" where
  "after_reading r =
     (case r of Inl m \<Rightarrow> Returned (Inl m) | Inr None \<Rightarrow> Locking | Inr (Some c) \<Rightarrow> Returned (Inr (Credential c)))"

definition after_holding :: "broker_config \<Rightarrow> int \<Rightarrow> broker_call \<Rightarrow> string \<Rightarrow> string option \<Rightarrow> broker_phase" where
  "after_holding cfg now call nonce file =
     (case call of
        Get_Or_Create \<Rightarrow>
          (case read_usable cfg now file of
             Inl m \<Rightarrow> Releasing nonce (Inl m)
           | Inr None \<Rightarrow> Logging_In nonce
           | Inr (Some c) \<Rightarrow> Releasing nonce (Inr (Credential c)))
      | Invalidate token \<Rightarrow>
          (case read_credential (bc_parse cfg) file of
             Inl m \<Rightarrow> Releasing nonce (Inl m)
           | Inr None \<Rightarrow> Releasing nonce (Inr (Removed False))
           | Inr (Some c) \<Rightarrow>
               if cd_issuer c = bc_issuer cfg \<and> cd_accessToken c = token then Deleting nonce
               else Releasing nonce (Inr (Removed False))))"

definition after_login :: "broker_config \<Rightarrow> int \<Rightarrow> string \<Rightarrow> (string, gateway_credential) result \<Rightarrow> broker_phase" where
  "after_login cfg now nonce r =
     (case ebind r (\<lambda>c. ebind (assert_credential c (bc_issuer cfg) now) (\<lambda>_. Inr c)) of
        Inl m \<Rightarrow> Releasing nonce (Inl m) | Inr c \<Rightarrow> Storing nonce c)"

definition after_release :: "string \<Rightarrow> broker_result \<Rightarrow> (string, bool) result \<Rightarrow> broker_phase" where
  "after_release nonce r owned =
     (case owned of Inl m \<Rightarrow> Returned (Inl m) | Inr True \<Rightarrow> Unlocking nonce r | Inr False \<Rightarrow> Returned r)"

definition stored_text :: "broker_config \<Rightarrow> gateway_credential \<Rightarrow> string" where
  "stored_text cfg c = bc_stringify cfg (credential_json c) @ [CHR 0x0A]"

text \<open>
  One operation of a call, and \<^const>\<open>None\<close> where the outcome does not fit the operation or the sleep is
  not over. A failure before the lock is held ends the call; within the lock it goes to \<^verbatim>\<open>finally\<close>.
\<close>

fun broker_advance :: "broker_config \<Rightarrow> int \<Rightarrow> outcome \<Rightarrow> broker_process \<Rightarrow> broker_files \<Rightarrow> broker_phase \<Rightarrow> (broker_phase \<times> broker_files) option" where
  "broker_advance cfg now oc p fs Checking = (case oc of Done_Well \<Rightarrow> Some (after_check now p, fs) | _ \<Rightarrow> None)"
| "broker_advance cfg now oc p fs Reading =
     (case oc of
        Done_Well \<Rightarrow> Some (after_reading (read_usable cfg now (bf_credential fs)), fs)
      | Failed m \<Rightarrow> Some (Returned (Inl m), fs)
      | _ \<Rightarrow> None)"
| "broker_advance cfg now oc p fs Locking =
     (case oc of
        Drawn nonce \<Rightarrow> Some
          (if bf_lock fs = None
           then (Owning nonce now, fs\<lparr>bf_lock := Some \<lparr>lf_creator = nonce, lf_text = [], lf_mtime = now, lf_symlink = False\<rparr>\<rparr>)
           else (Inspecting now, fs))
      | Failed m \<Rightarrow> Some (Returned (Inl m), fs)
      | _ \<Rightarrow> None)"
| "broker_advance cfg now oc p fs (Owning nonce createdAt) =
     (case oc of
        Done_Well \<Rightarrow> Some (Holding nonce, fs\<lparr>bf_lock := map_option (\<lambda>f.
          if lf_creator f = nonce
          then f\<lparr>lf_text := bc_stringify cfg (owner_json nonce (bp_pid p) createdAt), lf_mtime := now\<rparr> else f) (bf_lock fs)\<rparr>)
      | Failed m \<Rightarrow> Some (Returned (Inl m), fs)
      | _ \<Rightarrow> None)"
| "broker_advance cfg now oc p fs (Holding nonce) =
     (case oc of
        Done_Well \<Rightarrow> Some (after_holding cfg now (bp_call p) nonce (bf_credential fs), fs)
      | Failed m \<Rightarrow> Some (Releasing nonce (Inl m), fs)
      | _ \<Rightarrow> None)"
| "broker_advance cfg now oc p fs (Logging_In nonce) =
     (case oc of Logged_In r \<Rightarrow> Some (after_login cfg now nonce r, fs) | _ \<Rightarrow> None)"
| "broker_advance cfg now oc p fs (Storing nonce c) =
     (case oc of
        Done_Well \<Rightarrow> Some (Releasing nonce (Inr (Credential c)), fs\<lparr>bf_credential := Some (stored_text cfg c)\<rparr>)
      | Failed m \<Rightarrow> Some (Releasing nonce (Inl m), fs)
      | Failed_Late m \<Rightarrow> Some (Releasing nonce (Inl m), fs\<lparr>bf_credential := Some (stored_text cfg c)\<rparr>)
      | _ \<Rightarrow> None)"
| "broker_advance cfg now oc p fs (Deleting nonce) =
     (case oc of
        Done_Well \<Rightarrow> Some (Releasing nonce (Inr (Removed True)), fs\<lparr>bf_credential := None\<rparr>)
      | Failed m \<Rightarrow> Some (Releasing nonce (Inl m), fs)
      | _ \<Rightarrow> None)"
| "broker_advance cfg now oc p fs (Releasing nonce r) =
     (case oc of
        Done_Well \<Rightarrow> Some (after_release nonce r (lock_owned (bc_parse cfg) nonce (bf_lock fs)), fs)
      | Failed m \<Rightarrow> Some (Returned (Inl m), fs)
      | _ \<Rightarrow> None)"
| "broker_advance cfg now oc p fs (Unlocking nonce r) =
     (case oc of
        Done_Well \<Rightarrow> Some (Returned r, fs\<lparr>bf_lock := None\<rparr>)
      | Failed m \<Rightarrow> Some (Returned (Inl m), fs)
      | _ \<Rightarrow> None)"
| "broker_advance cfg now oc p fs (Inspecting since) =
     (case oc of
        Done_Well \<Rightarrow> Some (if lock_is_stale cfg since (bf_lock fs) then Discarding else Sleeping now, fs)
      | Failed m \<Rightarrow> Some (Returned (Inl m), fs)
      | _ \<Rightarrow> None)"
| "broker_advance cfg now oc p fs Discarding =
     (case oc of
        Done_Well \<Rightarrow> Some (Sleeping now, fs\<lparr>bf_lock := None\<rparr>)
      | Failed m \<Rightarrow> Some (Returned (Inl m), fs)
      | _ \<Rightarrow> None)"
| "broker_advance cfg now oc p fs (Sleeping since) =
     (case oc of Done_Well \<Rightarrow> if since + bc_pollIntervalMs cfg \<le> now then Some (Checking, fs) else None | _ \<Rightarrow> None)"
| "broker_advance cfg now oc p fs (Returned r) = None"

text \<open>The process after an operation: an entered round is counted, a first wait is reported.\<close>

definition broker_move :: "broker_config \<Rightarrow> int \<Rightarrow> outcome \<Rightarrow> broker_process \<Rightarrow> broker_files \<Rightarrow> (broker_process \<times> broker_files) option" where
  "broker_move cfg now oc p fs =
     (case broker_advance cfg now oc p fs (bp_phase p) of
        None \<Rightarrow> None
      | Some (phase, fs') \<Rightarrow> Some
          (p\<lparr>bp_phase := phase,
             bp_rounds := (if bp_phase p = Checking \<and> now \<le> bp_deadline p then Suc (bp_rounds p) else bp_rounds p),
             bp_waited := bp_waited p \<or> (case phase of Inspecting _ \<Rightarrow> True | _ \<Rightarrow> False)\<rparr>, fs'))"

section \<open>Clearing\<close>

text \<open>\<^verbatim>\<open>sessionPaths\<close>; the hexadecimal SHA-256 is an argument.\<close>

definition session_paths :: "(string \<Rightarrow> string) \<Rightarrow> string \<Rightarrow> string \<Rightarrow> string \<times> string" where
  "session_paths sha256 directory issuer =
     (directory @ ''/'' @ sha256 issuer @ ''.json'', directory @ ''/'' @ sha256 issuer @ ''.lock'')"

text \<open>\<^verbatim>\<open>/^[a-f0-9]{64}\.json$/\<close>\<close>

definition is_session_file :: "string \<Rightarrow> bool" where
  "is_session_file name \<longleftrightarrow> length name = 69 \<and> list_all (\<lambda>c. is_digit c \<or> CHR ''a'' \<le> c \<and> c \<le> CHR ''f'') (take 64 name)
     \<and> drop 64 name = ''.json''"

text \<open>What \<^verbatim>\<open>clearAll\<close> does with an entry of the directory.\<close>

datatype clear_action = Ignore_Entry | Delete_Entry | Invalidate_Entry gateway_credential

definition clear_entry ::
  "(string \<Rightarrow> json option) \<Rightarrow> (string \<Rightarrow> string) \<Rightarrow> string \<Rightarrow> bool \<Rightarrow> string \<Rightarrow> string option \<Rightarrow> (string, clear_action) result" where
  "clear_entry parse sha256 directory isFile name file =
     (if \<not> isFile \<or> \<not> is_session_file name then Inr Ignore_Entry
      else ebind (read_credential parse file) (\<lambda>credential.
        case credential of
          None \<Rightarrow> Inr Delete_Entry
        | Some c \<Rightarrow>
            Inr (if fst (session_paths sha256 directory (cd_issuer c)) \<noteq> directory @ ''/'' @ name then Delete_Entry
                 else Invalidate_Entry c)))"

text \<open>\<^verbatim>\<open>defaultCacheDirectory\<close>\<close>

definition default_cache_directory :: "string option \<Rightarrow> string \<Rightarrow> string" where
  "default_cache_directory override home =
     (case override of
        Some d \<Rightarrow> if trim d = [] then home @ ''/.idthw/mcp-credential-broker'' else trim d
      | None \<Rightarrow> home @ ''/.idthw/mcp-credential-broker'')"

end
