(* ===== verification/Broker_Runs.thy ===== *)
theory Broker_Runs
  imports Broker_Session
begin

text \<open>
  Connectors in parallel: calls begin, advance by one operation in any order, and are killed at any
  time. The clock does not go back, and a sleep lasts at least as long as asked for.
\<close>

section \<open>Runs\<close>

text \<open>\<open>bw_stale\<close> remembers that some call has found a stale lock.\<close>

record broker_world =
  bw_files :: broker_files
  bw_calls :: "broker_process option list"    \<comment> \<open>\<^const>\<open>None\<close> for a killed one\<close>
  bw_stale :: bool

inductive broker_reachable :: "broker_config \<Rightarrow> int \<Rightarrow> broker_world \<Rightarrow> bool" for cfg where
  Starts: "broker_reachable cfg now \<lparr>bw_files = fs, bw_calls = [], bw_stale = False\<rparr>"
| Begins: "broker_reachable cfg now w \<Longrightarrow> now \<le> now' \<Longrightarrow>
    broker_reachable cfg now' (w\<lparr>bw_calls := bw_calls w @ [Some (broker_begin cfg now' pid call)]\<rparr>)"
| Moves: "broker_reachable cfg now w \<Longrightarrow> now \<le> now' \<Longrightarrow> i < length (bw_calls w) \<Longrightarrow> bw_calls w ! i = Some p \<Longrightarrow>
    broker_move cfg now' oc p (bw_files w) = Some (p', fs') \<Longrightarrow>
    broker_reachable cfg now' (w\<lparr>bw_files := fs', bw_calls := (bw_calls w)[i := Some p'],
      bw_stale := bw_stale w \<or> bp_phase p' = Discarding\<rparr>)"
| Dies: "broker_reachable cfg now w \<Longrightarrow> broker_reachable cfg now (w\<lparr>bw_calls := (bw_calls w)[i := None]\<rparr>)"

definition phase_at :: "broker_world \<Rightarrow> nat \<Rightarrow> broker_phase option" where
  "phase_at w i = (if i < length (bw_calls w) then map_option bp_phase (bw_calls w ! i) else None)"

fun within_lock :: "broker_phase \<Rightarrow> bool" where
  "within_lock (Owning _ _) = True"
| "within_lock (Holding _) = True"
| "within_lock (Logging_In _) = True"
| "within_lock (Storing _ _) = True"
| "within_lock (Deleting _) = True"
| "within_lock (Releasing _ _) = True"
| "within_lock (Unlocking _ _) = True"
| "within_lock _ = False"

definition holds_lock :: "broker_world \<Rightarrow> nat \<Rightarrow> bool" where
  "holds_lock w i \<longleftrightarrow> (\<exists>ph. phase_at w i = Some ph \<and> within_lock ph)"

text \<open>A login is under way or its credential is about to be stored.\<close>

fun logging_in :: "broker_phase \<Rightarrow> bool" where
  "logging_in (Logging_In _) = True"
| "logging_in (Storing _ _) = True"
| "logging_in _ = False"

definition no_usable :: "broker_config \<Rightarrow> int \<Rightarrow> string option \<Rightarrow> bool" where
  "no_usable cfg now file \<longleftrightarrow> (\<forall>c. read_usable cfg now file \<noteq> Inr (Some c))"

section \<open>One operation\<close>

lemma no_usable_later: "no_usable cfg now file \<Longrightarrow> now \<le> now' \<Longrightarrow> no_usable cfg now' file"
proof -
  assume a: "no_usable cfg now file" "now \<le> now'"
  have "above x (of_int (now' + s)) \<Longrightarrow> above x (of_int (now + s))" for x s
    using a(2) order_le_less_trans [of "of_int (now + s) :: rat" "of_int (now' + s)"]
    by (auto simp: above_def simp del: of_int_add split: js_number.splits)
  with a(1) show ?thesis
    by (auto simp: no_usable_def read_usable_def ebind_eq_Inr split: option.splits if_splits)
qed

lemma after_check_phase [simp]:
  "\<not> within_lock (after_check now p)" "\<not> logging_in (after_check now p)" "after_check now p \<noteq> Discarding"
  by (auto simp: after_check_def split: broker_call.splits)

lemma after_reading_phase [simp]:
  "\<not> within_lock (after_reading r)" "\<not> logging_in (after_reading r)" "after_reading r \<noteq> Discarding"
  by (auto simp: after_reading_def split: sum.splits option.splits)

lemma after_release_phase [simp]: "\<not> logging_in (after_release n r ow)" "after_release n r ow \<noteq> Discarding"
  by (auto simp: after_release_def split: sum.splits bool.splits)

lemma after_login_phase [simp]: "within_lock (after_login cfg now n r)" "after_login cfg now n r \<noteq> Discarding"
  by (auto simp: after_login_def split: sum.splits)

lemma after_holding_phase [simp]: "within_lock (after_holding cfg now call n file)" "after_holding cfg now call n file \<noteq> Discarding"
  "logging_in (after_holding cfg now call n file) \<Longrightarrow> no_usable cfg now file"
  by (auto simp: after_holding_def no_usable_def split: sum.splits option.splits broker_call.splits if_splits)

lemma advance_facts:
  assumes "broker_advance cfg now oc p fs ph = Some (ph', fs')"
  shows "within_lock ph' \<Longrightarrow> within_lock ph \<or> bf_lock fs = None \<and> bf_lock fs' \<noteq> None"
    "bf_lock fs \<noteq> None \<Longrightarrow> bf_lock fs' \<noteq> None \<or> within_lock ph \<and> \<not> within_lock ph' \<or> ph = Discarding"
    "bf_credential fs' = bf_credential fs \<or> within_lock ph \<and> \<not> logging_in ph'"
    "logging_in ph' \<Longrightarrow> bf_credential fs' = bf_credential fs \<and> (logging_in ph \<or> no_usable cfg now (bf_credential fs))"
  using assms by (cases ph; cases oc; auto split: if_splits)+

lemma broker_move_Some:
  "broker_move cfg now oc p fs = Some (p', fs') \<Longrightarrow> broker_advance cfg now oc p fs (bp_phase p) = Some (bp_phase p', fs')"
  by (auto simp: broker_move_def split: option.splits)

section \<open>Mutual exclusion\<close>

definition lock_inv :: "broker_config \<Rightarrow> int \<Rightarrow> broker_world \<Rightarrow> bool" where
  "lock_inv cfg now w \<longleftrightarrow> (\<forall>i. phase_at w i \<noteq> Some Discarding)
     \<and> (\<forall>i j. holds_lock w i \<longrightarrow> holds_lock w j \<longrightarrow> i = j)
     \<and> (\<forall>i. holds_lock w i \<longrightarrow> bf_lock (bw_files w) \<noteq> None)
     \<and> (\<forall>i ph. phase_at w i = Some ph \<longrightarrow> logging_in ph \<longrightarrow> no_usable cfg now (bf_credential (bw_files w)))"

lemma phase_at_simps:
  "phase_at (w\<lparr>bw_calls := bw_calls w @ [Some p]\<rparr>) i = (if i = length (bw_calls w) then Some (bp_phase p) else phase_at w i)"
  "i < length (bw_calls w) \<Longrightarrow> phase_at (w\<lparr>bw_files := fs, bw_calls := (bw_calls w)[i := Some p], bw_stale := b\<rparr>) j
     = (if j = i then Some (bp_phase p) else phase_at w j)"
  "phase_at (w\<lparr>bw_calls := (bw_calls w)[k := None]\<rparr>) i = (if i = k then None else phase_at w i)"
  by (auto simp: phase_at_def nth_append nth_list_update)

lemma logging_in_within: "logging_in ph \<Longrightarrow> within_lock ph"
  by (cases ph) auto

lemma lock_inv_step:
  assumes inv: "lock_inv cfg now w" and "now \<le> now'" "i < length (bw_calls w)" "bw_calls w ! i = Some p"
    and step: "broker_move cfg now' oc p (bw_files w) = Some (p', fs')" and "bp_phase p' \<noteq> Discarding"
  shows "lock_inv cfg now' (w\<lparr>bw_files := fs', bw_calls := (bw_calls w)[i := Some p'], bw_stale := b\<rparr>)"
proof -
  let ?w = "w\<lparr>bw_files := fs', bw_calls := (bw_calls w)[i := Some p'], bw_stale := b\<rparr>"
  note at = phase_at_simps(2) [OF assms(3), where fs = fs' and p = p' and b = b]
  have old: "phase_at w i = Some (bp_phase p)" using assms(3,4) by (simp add: phase_at_def)
  note f = advance_facts [OF broker_move_Some [OF step]]
  from inv have nd: "\<forall>i. phase_at w i \<noteq> Some Discarding" and one: "\<forall>i j. holds_lock w i \<longrightarrow> holds_lock w j \<longrightarrow> i = j"
    and lock: "\<forall>i. holds_lock w i \<longrightarrow> bf_lock (bw_files w) \<noteq> None"
    and login: "\<forall>i ph. phase_at w i = Some ph \<longrightarrow> logging_in ph \<longrightarrow> no_usable cfg now (bf_credential (bw_files w))"
    unfolding lock_inv_def by blast+
  have hi: "holds_lock w i \<longleftrightarrow> within_lock (bp_phase p)" "holds_lock ?w i \<longleftrightarrow> within_lock (bp_phase p')"
    and hj: "j \<noteq> i \<Longrightarrow> holds_lock ?w j \<longleftrightarrow> holds_lock w j" for j
    by (simp_all add: holds_lock_def at old)
  have "bp_phase p \<noteq> Discarding" using nd old by auto
  show ?thesis
    unfolding lock_inv_def
  proof (intro conjI allI impI)
    show "phase_at ?w j \<noteq> Some Discarding" for j using nd assms(6) by (simp add: at)
  next
    fix j k assume "holds_lock ?w j" "holds_lock ?w k"
    then show "j = k" using one lock hi hj f(1) by (metis option.distinct(1))
  next
    fix j assume h: "holds_lock ?w j"
    show "bf_lock (bw_files ?w) \<noteq> None"
    proof (cases "j = i")
      case True
      with h hi(2) have w: "within_lock (bp_phase p')" by simp
      with f(1,2) lock hi(1) show ?thesis using \<open>bp_phase p \<noteq> Discarding\<close> by auto
    next
      case False
      with h hj have "holds_lock w j" by simp
      with one False have "\<not> holds_lock w i" by blast
      with \<open>holds_lock w j\<close> lock f(2) hi(1) \<open>bp_phase p \<noteq> Discarding\<close> show ?thesis by auto
    qed
  next
    fix j ph assume a: "phase_at ?w j = Some ph" "logging_in ph"
    show "no_usable cfg now' (bf_credential (bw_files ?w))"
    proof (cases "j = i")
      case True
      with a at have "ph = bp_phase p'" by simp
      with a f(4) login old no_usable_later [OF _ assms(2)] show ?thesis by auto
    next
      case False
      with a at have "phase_at w j = Some ph" by simp
      then have h: "holds_lock w j" using a(2) logging_in_within by (auto simp: holds_lock_def)
      with one False have "\<not> within_lock (bp_phase p)" using hi(1) by blast
      with f(3) have "bf_credential fs' = bf_credential (bw_files w)" by blast
      moreover have "no_usable cfg now (bf_credential (bw_files w))" using login \<open>phase_at w j = Some ph\<close> a(2) by blast
      ultimately show ?thesis using no_usable_later [OF _ assms(2)] by simp
    qed
  qed
qed

lemma lock_inv_reachable: "broker_reachable cfg now w \<Longrightarrow> \<not> bw_stale w \<Longrightarrow> lock_inv cfg now w"
proof (induction rule: broker_reachable.induct)
  case (Starts now fs)
  then show ?case by (simp add: lock_inv_def phase_at_def holds_lock_def)
next
  case (Begins now w now' pid call)
  then have inv: "lock_inv cfg now w" by simp
  let ?p = "broker_begin cfg now' pid call"
  have "bp_phase ?p = Checking" by (simp add: broker_begin_def)
  then show ?case
    using inv no_usable_later [OF _ Begins.hyps(2)]
    unfolding lock_inv_def holds_lock_def phase_at_simps by (auto split: if_splits)
next
  case (Moves now w now' i p oc p' fs')
  then show ?case by (intro lock_inv_step) simp_all
next
  case (Dies now w i)
  then show ?case by (auto simp: lock_inv_def holds_lock_def phase_at_simps split: if_splits)
qed

text \<open>
  C26: the lock protects the shared session. In every run, as long as no call has found a stale lock,
  at most one call is between creating the lock and removing it, the lock file is there meanwhile, and
  no login is under way, or stored, while the file holds a usable credential of the issuer: concurrent
  connectors open one browser login and the others reuse its session.
\<close>

theorem lock_protects_the_session:
  assumes "broker_reachable cfg now w" "\<not> bw_stale w"
  shows "(\<forall>i j. holds_lock w i \<longrightarrow> holds_lock w j \<longrightarrow> i = j) \<and> (\<forall>i. holds_lock w i \<longrightarrow> bf_lock (bw_files w) \<noteq> None)
    \<and> (\<forall>i ph c. phase_at w i = Some ph \<longrightarrow> logging_in ph \<longrightarrow> read_usable cfg now (bf_credential (bw_files w)) \<noteq> Inr (Some c))"
  using lock_inv_reachable [OF assms] unfolding lock_inv_def no_usable_def by blast

section \<open>The number of rounds\<close>

definition rounds_ok :: "broker_config \<Rightarrow> int \<Rightarrow> broker_process \<Rightarrow> bool" where
  "rounds_ok cfg now p \<longleftrightarrow>
     (let start = bp_deadline p - bc_maxWaitMs cfg; r = int (bp_rounds p); poll = bc_pollIntervalMs cfg in
      start \<le> now \<and> (0 < r \<longrightarrow> (r - 1) * poll \<le> bc_maxWaitMs cfg)
      \<and> (case bp_phase p of
           Checking \<Rightarrow> start + r * poll \<le> now
         | Sleeping since \<Rightarrow> 0 < r \<and> start + (r - 1) * poll \<le> since
         | Returned _ \<Rightarrow> True
         | _ \<Rightarrow> 0 < r \<and> start + (r - 1) * poll \<le> now))"

lemma rounds_ok_later: "rounds_ok cfg now p \<Longrightarrow> now \<le> now' \<Longrightarrow> rounds_ok cfg now' p"
  by (auto simp: rounds_ok_def Let_def split: broker_phase.splits)

lemma rounds_ok_move:
  assumes "rounds_ok cfg now p" "now \<le> now'" and move: "broker_move cfg now' oc p fs = Some (p', fs')"
  shows "rounds_ok cfg now' p'"
proof -
  from rounds_ok_later [OF assms(1,2)] have ok: "rounds_ok cfg now' p" .
  have step: "(x + 1) * c = x * c + c" for x c :: int by (simp add: algebra_simps)
  show ?thesis
    using ok move
    by (cases "bp_phase p"; cases oc)
      (auto simp: broker_move_def rounds_ok_def Let_def step after_check_def after_reading_def after_holding_def after_login_def after_release_def
        left_diff_distrib distrib_right split: if_splits broker_call.splits sum.splits option.splits bool.splits)
qed

lemma nth_update: "j < length xs \<Longrightarrow> xs[i := v] ! j = (if j = i then v else xs ! j)"
  by (cases "i = j") auto

lemma rounds_ok_reachable:
  "broker_reachable cfg now w \<Longrightarrow> \<forall>i < length (bw_calls w). \<forall>p. bw_calls w ! i = Some p \<longrightarrow> rounds_ok cfg now p"
proof (induction rule: broker_reachable.induct)
  case (Begins now w now' pid call)
  have "rounds_ok cfg now' (broker_begin cfg now' pid call)" by (simp add: rounds_ok_def broker_begin_def)
  with Begins rounds_ok_later show ?case by (auto simp: nth_append less_Suc_eq split: if_splits)
next
  case (Moves now w now' i p oc p' fs')
  then have "rounds_ok cfg now' p'" using rounds_ok_move by blast
  with Moves rounds_ok_later show ?case by (auto simp: nth_update split: if_splits)
qed (auto simp: nth_update split: if_splits)

text \<open>
  C27: a call does not wait for ever. With a positive poll interval every call enters its loop at most
  once for each interval of the longest wait and once more; with the default settings, 4401 times.
\<close>

theorem waiting_is_bounded:
  assumes "broker_reachable cfg now w" "i < length (bw_calls w)" "bw_calls w ! i = Some p"
    and "0 < bc_pollIntervalMs cfg" "0 \<le> bc_maxWaitMs cfg"
  shows "int (bp_rounds p) \<le> bc_maxWaitMs cfg div bc_pollIntervalMs cfg + 1"
proof -
  let ?r = "int (bp_rounds p)"
  from rounds_ok_reachable [OF assms(1)] assms(2,3) have "rounds_ok cfg now p" by blast
  then have r: "0 < ?r \<longrightarrow> (?r - 1) * bc_pollIntervalMs cfg \<le> bc_maxWaitMs cfg" by (simp add: rounds_ok_def Let_def)
  have "?r - 1 \<le> bc_maxWaitMs cfg div bc_pollIntervalMs cfg"
  proof (cases "bp_rounds p")
    case 0
    have "0 \<le> bc_maxWaitMs cfg div bc_pollIntervalMs cfg" using assms(4,5) by (simp add: pos_imp_zdiv_nonneg_iff)
    with 0 show ?thesis by simp
  next
    case (Suc n)
    with r have "(?r - 1) * bc_pollIntervalMs cfg \<le> bc_maxWaitMs cfg" by simp
    then have "(?r - 1) * bc_pollIntervalMs cfg div bc_pollIntervalMs cfg \<le> bc_maxWaitMs cfg div bc_pollIntervalMs cfg"
      using assms(4) by (intro zdiv_mono1)
    with assms(4) show ?thesis by simp
  qed
  then show ?thesis by simp
qed

section \<open>Answers\<close>

definition good_credential :: "broker_config \<Rightarrow> int \<Rightarrow> gateway_credential \<Rightarrow> bool" where
  "good_credential cfg now c \<longleftrightarrow> cd_version c = 1 \<and> cd_issuer c = bc_issuer cfg \<and> cd_tokenType c = ''Bearer'' \<and> cd_accessToken c \<noteq> []
     \<and> (\<exists>t q. t \<le> now \<and> cd_expiresAt c = Finite q \<and> of_int t < q)"

fun result_credential :: "broker_result \<Rightarrow> gateway_credential option" where
  "result_credential (Inr (Credential c)) = Some c"
| "result_credential _ = None"

fun phase_credential :: "broker_phase \<Rightarrow> gateway_credential option" where
  "phase_credential (Storing _ c) = Some c"
| "phase_credential (Releasing _ r) = result_credential r"
| "phase_credential (Unlocking _ r) = result_credential r"
| "phase_credential (Returned r) = result_credential r"
| "phase_credential _ = None"

lemma good_later: "good_credential cfg now c \<Longrightarrow> now \<le> now' \<Longrightarrow> good_credential cfg now' c"
  unfolding good_credential_def by (meson order_trans)

lemma credential_of_fields_Some:
  "credential_of_fields fs = Some c \<Longrightarrow>
    cd_version c = 1 \<and> cd_tokenType c = ''Bearer'' \<and> cd_accessToken c \<noteq> [] \<and> (\<exists>q. cd_expiresAt c = Finite q)"
  by (auto simp: credential_of_fields_def split: option.splits if_splits)

lemma read_usable_good:
  assumes "read_usable cfg now file = Inr (Some c)" "0 \<le> bc_expirySkewMs cfg"
  shows "good_credential cfg now c"
proof -
  from assms(1) have r: "read_credential (bc_parse cfg) file = Inr (Some c)" "cd_issuer c = bc_issuer cfg"
      "above (cd_expiresAt c) (of_int (now + bc_expirySkewMs cfg))"
    by (auto simp: read_usable_def ebind_eq_Inr split: option.splits if_splits)
  from r(1) obtain fs where "credential_of_fields fs = Some c"
    by (auto simp: read_credential_def split: option.splits json.splits)
  note c = credential_of_fields_Some [OF this]
  then obtain q where q: "cd_expiresAt c = Finite q" by blast
  with r(3) have "of_int (now + bc_expirySkewMs cfg) < q" by (simp add: above_def)
  moreover have "(of_int now :: rat) \<le> of_int (now + bc_expirySkewMs cfg)" using assms(2) by simp
  ultimately have "of_int now < q" by linarith
  with c q r(2) show ?thesis unfolding good_credential_def by blast
qed

lemma assert_credential_good: "assert_credential c (bc_issuer cfg) now = Inr u \<Longrightarrow> good_credential cfg now c"
  by (cases "cd_expiresAt c") (auto simp: assert_credential_def good_credential_def not_le split: if_splits)

lemma advance_credential:
  assumes "broker_advance cfg now oc p fs ph = Some (ph', fs')" "phase_credential ph' = Some c" "0 \<le> bc_expirySkewMs cfg"
  shows "phase_credential ph = Some c \<or> good_credential cfg now c"
  using assms
  by (cases ph; cases oc)
    (auto simp: after_check_def after_reading_def after_holding_def after_login_def after_release_def ebind_eq_Inr
      intro: read_usable_good assert_credential_good
      split: if_splits sum.splits option.splits broker_call.splits bool.splits)

text \<open>
  A connector gets a valid session. A credential that a call returns, read or obtained by a login,
  names the issuer, is a non-empty Bearer token and had not expired when the call took it.
\<close>

theorem returned_credential_is_valid:
  assumes "broker_reachable cfg now w" "0 \<le> bc_expirySkewMs cfg" "phase_at w i = Some (Returned (Inr (Credential c)))"
  shows "cd_version c = 1 \<and> cd_issuer c = bc_issuer cfg \<and> cd_tokenType c = ''Bearer'' \<and> cd_accessToken c \<noteq> []
    \<and> (\<exists>t q. t \<le> now \<and> cd_expiresAt c = Finite q \<and> of_int t < q)"
proof -
  have "\<forall>i ph c. phase_at w i = Some ph \<longrightarrow> phase_credential ph = Some c \<longrightarrow> good_credential cfg now c"
    using assms(1)
  proof (induction rule: broker_reachable.induct)
    case (Starts now fs)
    then show ?case by (simp add: phase_at_def)
  next
    case (Begins now w now' pid call)
    then show ?case using good_later [OF _ Begins.hyps(2)] by (auto simp: phase_at_simps broker_begin_def split: if_splits)
  next
    case (Moves now w now' i p oc p' fs')
    have old: "phase_at w i = Some (bp_phase p)" using Moves.hyps by (simp add: phase_at_def)
    from advance_credential [OF broker_move_Some [OF Moves.hyps(5)] _ assms(2)] Moves.IH old good_later [OF _ Moves.hyps(2)]
    show ?case by (auto simp: phase_at_simps(2) [OF Moves.hyps(3)] split: if_splits)
  next
    case (Dies now w i)
    then show ?case by (auto simp: phase_at_simps split: if_splits)
  qed
  from this [rule_format, OF assms(3)] show ?thesis by (simp add: good_credential_def)
qed

text \<open>
  A stored session is shared. What one connector stores, another one that starts while it is usable
  returns after a single reading, without a lock and without a login.
\<close>

theorem stored_session_is_shared:
  assumes "assert_credential c (bc_issuer cfg) t = Inr ()" "bc_parse cfg (stored_text cfg c) = Some (credential_json c)"
    and "above (cd_expiresAt c) (of_int (now' + bc_expirySkewMs cfg))"
    and "broker_advance cfg t Done_Well q fs0 (Storing nonce c) = Some (ph, fs)"
    and "now \<le> now'" "0 \<le> bc_maxWaitMs cfg" "p = broker_begin cfg now pid Get_Or_Create"
  shows "\<exists>p1 p2. broker_move cfg now Done_Well p fs = Some (p1, fs) \<and> broker_move cfg now' Done_Well p1 fs = Some (p2, fs)
    \<and> bp_phase p2 = Returned (Inr (Credential c))"
proof -
  from assms(1) obtain e where c: "cd_version c = 1" "cd_issuer c = bc_issuer cfg" "cd_tokenType c = ''Bearer''" "cd_accessToken c \<noteq> []"
      "cd_expiresAt c = Finite e"
    by (cases "cd_expiresAt c") (auto simp: assert_credential_def split: if_splits)
  then have "credential_of_fields [(''version'', JNum (Finite 1)), (''issuer'', JStr (cd_issuer c)),
      (''accessToken'', JStr (cd_accessToken c)), (''tokenType'', JStr ''Bearer''), (''expiresAt'', JNum (Finite e))] = Some c"
    by (simp add: credential_of_fields_def)
  with c have "read_credential (bc_parse cfg) (Some (stored_text cfg c)) = Inr (Some c)"
    using assms(2) by (simp add: read_credential_def credential_json_def)
  with c(2) have r: "read_usable cfg now' (Some (stored_text cfg c)) = Inr (Some c)"
    using assms(3) by (simp add: read_usable_def)
  from assms(4) have "bf_credential fs = Some (stored_text cfg c)" by auto
  with r assms(5-7) show ?thesis
    by (simp add: broker_move_def broker_begin_def after_check_def after_reading_def)
qed

section \<open>A stale lock\<close>

text \<open>Runs by a list of operations: the time, the call and the outcome.\<close>

fun broker_run :: "broker_config \<Rightarrow> (int \<times> nat \<times> outcome) list \<Rightarrow> int \<times> broker_world \<Rightarrow> (int \<times> broker_world) option" where
  "broker_run cfg [] s = Some s"
| "broker_run cfg ((now', i, oc) # ops) (now, w) =
     (if now \<le> now' \<and> i < length (bw_calls w)
      then (case bw_calls w ! i of
              None \<Rightarrow> None
            | Some p \<Rightarrow>
                (case broker_move cfg now' oc p (bw_files w) of
                   None \<Rightarrow> None
                 | Some (p', fs') \<Rightarrow> broker_run cfg ops (now', w\<lparr>bw_files := fs', bw_calls := (bw_calls w)[i := Some p'],
                     bw_stale := bw_stale w \<or> bp_phase p' = Discarding\<rparr>)))
      else None)"

lemma broker_run_reachable:
  "broker_run cfg ops (now, w) = Some (now', w') \<Longrightarrow> broker_reachable cfg now w \<Longrightarrow> broker_reachable cfg now' w'"
proof (induction ops arbitrary: now w)
  case (Cons op ops)
  obtain t i oc where op: "op = (t, i, oc)" by (cases op)
  with Cons.prems(1) obtain p p' fs' where "now \<le> t" "i < length (bw_calls w)" "bw_calls w ! i = Some p"
      "broker_move cfg t oc p (bw_files w) = Some (p', fs')"
    and rest: "broker_run cfg ops (t, w\<lparr>bw_files := fs', bw_calls := (bw_calls w)[i := Some p'], bw_stale := bw_stale w \<or> bp_phase p' = Discarding\<rparr>)
      = Some (now', w')"
    by (auto split: if_splits option.splits prod.splits)
  with Cons.prems(2) have "broker_reachable cfg t (w\<lparr>bw_files := fs', bw_calls := (bw_calls w)[i := Some p'], bw_stale := bw_stale w \<or> bp_phase p' = Discarding\<rparr>)"
    by (intro Moves)
  with Cons.IH [OF rest] show ?case by blast
qed simp

lemma broker_run_append:
  "broker_run cfg (ops @ ops') s = (case broker_run cfg ops s of None \<Rightarrow> None | Some s' \<Rightarrow> broker_run cfg ops' s')"
  by (induction cfg ops s rule: broker_run.induct) (auto split: option.splits)

definition race_config :: broker_config where
  "race_config = broker_defaults ''https://gw'' (\<lambda>_. None) (\<lambda>_. [])"

definition race_start :: broker_world where
  "race_start = \<lparr>bw_files = \<lparr>bf_credential = None, bf_lock = Some \<lparr>lf_creator = ''killed'', lf_text = [], lf_mtime = 0, lf_symlink = False\<rparr>\<rparr>,
     bw_calls = map (\<lambda>pid. Some (broker_begin race_config 600001 pid Get_Or_Create)) [1, 2], bw_stale = False\<rparr>"

text \<open>
  Both see the stale lock; the second removes it and logs in; there the first is about to remove the
  lock it saw. Then it does, and goes on.
\<close>

definition race_login :: "int \<Rightarrow> nat \<Rightarrow> string \<Rightarrow> (int \<times> nat \<times> outcome) list" where
  "race_login t i nonce =
     [(t, i, Done_Well), (t, i, Done_Well), (t, i, Done_Well), (t, i, Drawn nonce), (t, i, Done_Well), (t, i, Done_Well)]"

definition race_before :: "(int \<times> nat \<times> outcome) list" where
  "race_before =
     (let wait = \<lambda>i. [(600001, i, Done_Well), (600001, i, Done_Well), (600001, i, Drawn ''a''), (600001, i, Done_Well)]
      in wait 0 @ wait 1 @ [(600002, 1, Done_Well)] @ race_login 600152 1 ''b'')"

lemma race_start_reachable: "broker_reachable race_config 600001 race_start"
proof -
  let ?fs = "\<lparr>bf_credential = None, bf_lock = Some \<lparr>lf_creator = ''killed'', lf_text = [], lf_mtime = 0, lf_symlink = False\<rparr>\<rparr>"
  have "broker_reachable race_config 600001 \<lparr>bw_files = ?fs, bw_calls = [], bw_stale = False\<rparr>" by (rule Starts)
  from Begins [OF this order_refl, of 1 Get_Or_Create] have "broker_reachable race_config 600001
    \<lparr>bw_files = ?fs, bw_calls = [Some (broker_begin race_config 600001 1 Get_Or_Create)], bw_stale = False\<rparr>" by simp
  from Begins [OF this order_refl, of 2 Get_Or_Create] show ?thesis by (simp add: race_start_def)
qed

text \<open>
  C28: a stale lock breaks the exclusion, with the default settings. A call that found the lock of a
  killed process too old is about to remove it, while the lock file is by now the fresh lock of another
  call, which is logging in and took it less than a second ago. The first call's operation removes that
  fresh lock, as it removes whatever file has the name; and by its own next operations alone, within
  another second, it takes the lock itself, so that both calls are logging in at once.
\<close>

theorem stale_lock_race:
  "let cfg = broker_defaults ''https://gw'' (\<lambda>_. None) (\<lambda>_. []) in
   \<exists>now w f w' ops later w'' nonce. broker_reachable cfg now w
     \<and> phase_at w 0 = Some Discarding \<and> phase_at w 1 = Some (Logging_In (lf_creator f))
     \<and> bf_lock (bw_files w) = Some f \<and> \<not> lock_is_stale cfg now (Some f) \<and> now - lf_mtime f < 1000
     \<and> broker_run cfg [(now, 0, Done_Well)] (now, w) = Some (now, w') \<and> bf_lock (bw_files w') = None
     \<and> broker_run cfg ops (now, w') = Some (later, w'') \<and> list_all (\<lambda>(t, i, oc). i = 0) ops \<and> later - now < 1000
     \<and> phase_at w'' 0 = Some (Logging_In nonce) \<and> nonce \<noteq> lf_creator f
     \<and> phase_at w'' 1 = Some (Logging_In (lf_creator f))"
proof -
  let ?f = "\<lparr>lf_creator = ''b'', lf_text = [], lf_mtime = 600152, lf_symlink = False\<rparr>"
  have first: "map_option (\<lambda>(now, w). (now, phase_at w 0, phase_at w 1, bf_lock (bw_files w)))
      (broker_run race_config race_before (600001, race_start)) = Some (600152, Some Discarding, Some (Logging_In ''b''), Some ?f)"
    by code_simp
  have second: "map_option (\<lambda>(now, w). (now, bf_lock (bw_files w)))
      (broker_run race_config (race_before @ [(600152, 0, Done_Well)]) (600001, race_start)) = Some (600152, None)"
    by code_simp
  have third: "map_option (\<lambda>(now, w). (now, phase_at w 0, phase_at w 1))
      (broker_run race_config ((race_before @ [(600152, 0, Done_Well)]) @ race_login 600302 0 ''c'') (600001, race_start))
      = Some (600302, Some (Logging_In ''c''), Some (Logging_In ''b''))"
    by code_simp
  from first obtain w where w: "broker_run race_config race_before (600001, race_start) = Some (600152, w)"
    "phase_at w 0 = Some Discarding" "phase_at w 1 = Some (Logging_In ''b'')" "bf_lock (bw_files w) = Some ?f" by auto
  from second w(1) obtain w' where w': "broker_run race_config [(600152, 0, Done_Well)] (600152, w) = Some (600152, w')"
    "bf_lock (bw_files w') = None" by (auto simp: broker_run_append)
  from w(1) w'(1) have both: "broker_run race_config (race_before @ [(600152, 0, Done_Well)]) (600001, race_start) = Some (600152, w')"
    by (simp only: broker_run_append option.case)
  from third [unfolded broker_run_append [of _ "race_before @ _"] both] obtain w'' where w'': "broker_run race_config (race_login 600302 0 ''c'') (600152, w') = Some (600302, w'')"
    "phase_at w'' 0 = Some (Logging_In ''c'')" "phase_at w'' 1 = Some (Logging_In ''b'')"
    by auto
  have "list_all (\<lambda>(t, i, oc). i = 0) (race_login 600302 0 ''c'')" by (simp add: race_login_def)
  moreover have "\<not> lock_is_stale race_config 600152 (Some ?f)" by code_simp
  ultimately show ?thesis
    using broker_run_reachable [OF w(1) race_start_reachable] w w' w'' unfolding race_config_def Let_def
    by (intro exI [of _ 600152] exI [of _ w] exI [of _ ?f] exI [of _ w'] exI [of _ "race_login 600302 0 ''c''"]
        exI [of _ 600302] exI [of _ w''] exI [of _ "''c''"]) simp
qed

section \<open>Examples\<close>

text \<open>Two connectors: the first logs in while the second waits; the first stores its credential.\<close>

definition sample_credential :: gateway_credential where
  "sample_credential = \<lparr>cd_version = 1, cd_issuer = ''https://gw'', cd_accessToken = ''tok'', cd_tokenType = ''Bearer'', cd_expiresAt = Finite 3600000\<rparr>"

definition sample_broker_config :: broker_config where
  "sample_broker_config = broker_defaults ''https://gw'' (\<lambda>t. if t = ''S'' @ [CHR 0x0A] then Some (credential_json sample_credential) else None) (\<lambda>_. ''S'')"

definition sample_broker_start :: broker_world where
  "sample_broker_start = \<lparr>bw_files = \<lparr>bf_credential = None, bf_lock = None\<rparr>,
     bw_calls = map (\<lambda>pid. Some (broker_begin sample_broker_config 10 pid Get_Or_Create)) [1, 2], bw_stale = False\<rparr>"

definition sample_waiting :: "(int \<times> nat \<times> outcome) list" where
  "sample_waiting =
     [(10, 0, Done_Well), (10, 0, Done_Well), (10, 0, Drawn ''a''), (10, 0, Done_Well), (10, 0, Done_Well),
      (11, 1, Done_Well), (11, 1, Done_Well), (11, 1, Drawn ''b''), (11, 1, Done_Well)]"

definition sample_storing :: "(int \<times> nat \<times> outcome) list" where
  "sample_storing = [(20, 0, Logged_In (Inr sample_credential)), (21, 0, Done_Well), (22, 0, Done_Well)]"

definition sample_after :: "(int \<times> nat \<times> outcome) list \<Rightarrow> int \<times> broker_world" where
  "sample_after ops = the (broker_run sample_broker_config ops (10, sample_broker_start))"

lemma sample_start_reachable: "broker_reachable sample_broker_config 10 sample_broker_start"
proof -
  let ?fs = "\<lparr>bf_credential = None, bf_lock = None\<rparr>"
  have "broker_reachable sample_broker_config 10 \<lparr>bw_files = ?fs, bw_calls = [], bw_stale = False\<rparr>" by (rule Starts)
  from Begins [OF this order_refl, of 1 Get_Or_Create] have "broker_reachable sample_broker_config 10
    \<lparr>bw_files = ?fs, bw_calls = [Some (broker_begin sample_broker_config 10 1 Get_Or_Create)], bw_stale = False\<rparr>" by simp
  from Begins [OF this order_refl, of 2 Get_Or_Create] show ?thesis by (simp add: sample_broker_start_def)
qed

lemma sample_broker_reachable:
  assumes "broker_run sample_broker_config ops (10, sample_broker_start) \<noteq> None"
  shows "broker_reachable sample_broker_config (fst (sample_after ops)) (snd (sample_after ops))"
  using assms broker_run_reachable [OF _ sample_start_reachable, of ops "fst (sample_after ops)" "snd (sample_after ops)"]
  by (auto simp: sample_after_def)

lemma sample_broker_runs:
  "broker_run sample_broker_config sample_waiting (10, sample_broker_start) \<noteq> None"
  "broker_run sample_broker_config (sample_waiting @ sample_storing) (10, sample_broker_start) \<noteq> None"
proof -
  have "map_option fst (broker_run sample_broker_config sample_waiting (10, sample_broker_start)) = Some 11"
    "map_option fst (broker_run sample_broker_config (sample_waiting @ sample_storing) (10, sample_broker_start)) = Some 22"
    by code_simp+
  then show "broker_run sample_broker_config sample_waiting (10, sample_broker_start) \<noteq> None"
    "broker_run sample_broker_config (sample_waiting @ sample_storing) (10, sample_broker_start) \<noteq> None" by auto
qed

lemma lock_protects_the_session_witness:
  "holds_lock (snd (sample_after sample_waiting)) 0 \<and> \<not> holds_lock (snd (sample_after sample_waiting)) 1
   \<and> bf_lock (bw_files (snd (sample_after sample_waiting))) \<noteq> None"
proof -
  let ?w = "snd (sample_after sample_waiting)"
  have "phase_at ?w 0 = Some (Logging_In ''a'')" "\<not> bw_stale ?w" by code_simp+
  then have "holds_lock ?w 0" "\<not> bw_stale ?w" by (simp_all add: holds_lock_def)
  with lock_protects_the_session [OF sample_broker_reachable [OF sample_broker_runs(1)]] show ?thesis by (metis zero_neq_one)
qed

lemma waiting_is_bounded_witness: "int (bp_rounds (the (bw_calls (snd (sample_after sample_waiting)) ! 1))) \<le> 4401"
proof -
  let ?w = "snd (sample_after sample_waiting)"
  have "map_option bp_pid (bw_calls ?w ! 1) = Some 2" "length (bw_calls ?w) = 2"
    and cfg: "bc_pollIntervalMs sample_broker_config = 150" "bc_maxWaitMs sample_broker_config = 660000" by code_simp+
  then have p: "1 < length (bw_calls ?w)" "bw_calls ?w ! 1 = Some (the (bw_calls ?w ! 1))" by auto
  from waiting_is_bounded [OF sample_broker_reachable [OF sample_broker_runs(1)] p] show ?thesis by (simp add: cfg)
qed

lemma returned_credential_is_valid_witness: "cd_accessToken sample_credential \<noteq> [] \<and> cd_issuer sample_credential = ''https://gw''"
proof -
  let ?w = "snd (sample_after (sample_waiting @ sample_storing))"
  have at: "phase_at ?w 0 = Some (Returned (Inr (Credential sample_credential)))" and skew: "0 \<le> bc_expirySkewMs sample_broker_config"
    and issuer: "bc_issuer sample_broker_config = ''https://gw''" by code_simp+
  from returned_credential_is_valid [OF sample_broker_reachable [OF sample_broker_runs(2)] skew at] show ?thesis by (simp add: issuer)
qed

lemma stored_session_is_shared_witness:
  "\<exists>p1 p2. broker_move sample_broker_config 30 Done_Well (broker_begin sample_broker_config 30 3 Get_Or_Create)
      \<lparr>bf_credential = Some (''S'' @ [CHR 0x0A]), bf_lock = None\<rparr> = Some (p1, \<lparr>bf_credential = Some (''S'' @ [CHR 0x0A]), bf_lock = None\<rparr>)
    \<and> broker_move sample_broker_config 30 Done_Well p1 \<lparr>bf_credential = Some (''S'' @ [CHR 0x0A]), bf_lock = None\<rparr>
      = Some (p2, \<lparr>bf_credential = Some (''S'' @ [CHR 0x0A]), bf_lock = None\<rparr>)
    \<and> bp_phase p2 = Returned (Inr (Credential sample_credential))"
proof (rule stored_session_is_shared)
  show "assert_credential sample_credential (bc_issuer sample_broker_config) 20 = Inr ()" by code_simp
  show "bc_parse sample_broker_config (stored_text sample_broker_config sample_credential) = Some (credential_json sample_credential)"
    by (simp add: sample_broker_config_def broker_defaults_def stored_text_def)
  show "above (cd_expiresAt sample_credential) (of_int (30 + bc_expirySkewMs sample_broker_config))" by code_simp
  show "broker_advance sample_broker_config 20 Done_Well (broker_begin sample_broker_config 10 1 Get_Or_Create)
      \<lparr>bf_credential = None, bf_lock = None\<rparr> (Storing ''a'' sample_credential)
    = Some (Releasing ''a'' (Inr (Credential sample_credential)), \<lparr>bf_credential = Some (''S'' @ [CHR 0x0A]), bf_lock = None\<rparr>)"
    by (simp add: stored_text_def sample_broker_config_def broker_defaults_def)
  show "0 \<le> bc_maxWaitMs sample_broker_config" by code_simp
qed simp_all

end
