(* ===== verification/Broker_OAuth.thy ===== *)
theory Broker_OAuth
  imports Broker_Session
begin

text \<open>
  \<^verbatim>\<open>mcp-credential-broker/src/oauth.ts\<close>, \<^verbatim>\<open>authenticatedFetch.ts\<close> and \<^verbatim>\<open>index.ts\<close>: the OAuth client of a
  connector. Every request it sends is a definition, and so is what it makes of each answer; the answers
  of servers, the parsing of URLs and the digest are arguments.
\<close>

section \<open>Answers and URLs\<close>

text \<open>What a request brings: a network failure or text that is not JSON, a status that is not \<^verbatim>\<open>ok\<close>, or JSON.\<close>

datatype oauth_answer = Answer_Failed string | Answer_Status int | Answer_Json json

text \<open>\<^verbatim>\<open>value.name\<close> of parsed JSON: an exception for \<^verbatim>\<open>null\<close>, \<^verbatim>\<open>undefined\<close> where there is no such field.\<close>

definition json_field :: "json \<Rightarrow> string \<Rightarrow> (string, unknown) result" where
  "json_field v name =
     (case v of
        JNull \<Rightarrow> Inl (''Cannot read properties of null (reading '' @ name @ '')'')
      | JObj fs \<Rightarrow> Inr (map_of fs name)
      | _ \<Rightarrow> Inr None)"

definition ok_json :: "string \<Rightarrow> oauth_answer \<Rightarrow> (string, json) result" where
  "ok_json what answer =
     (case answer of
        Answer_Failed m \<Rightarrow> Inl m
      | Answer_Status n \<Rightarrow> Inl (what @ '' returned HTTP '' @ (if n < 0 then ''-'' else []) @ nat_text (nat \<bar>n\<bar>))
      | Answer_Json v \<Rightarrow> Inr v)"

definition url_origin :: "url \<Rightarrow> string" where
  "url_origin u = url_protocol u @ ''//'' @ url_host u"

text \<open>\<^verbatim>\<open>s.replace(/\/$/, "")\<close>\<close>

definition strip_slash :: "string \<Rightarrow> string" where
  "strip_slash s = (if ends_with ''/'' s then butlast s else s)"

definition parse_or_throw :: "platform \<Rightarrow> string \<Rightarrow> (string, url) result" where
  "parse_or_throw pf s = (case pf_parse_url pf s of None \<Rightarrow> Inl ''Invalid URL'' | Some u \<Rightarrow> Inr u)"

definition safe_protocol :: "bool \<Rightarrow> url \<Rightarrow> bool" where
  "safe_protocol allowInsecureHttp u \<longleftrightarrow> url_protocol u = ''https:''
     \<or> url_protocol u = ''http:'' \<and> (url_hostname u \<in> {''127.0.0.1'', ''localhost'', ''[::1]''} \<or> allowInsecureHttp)"

definition assert_safe_url :: "bool \<Rightarrow> url \<Rightarrow> (string, unit) result" where
  "assert_safe_url allowInsecureHttp u =
     require (safe_protocol allowInsecureHttp u)
       ''MCP and OAuth URLs must use HTTPS; use --allow-insecure-http only for development''"

definition safe_url :: "platform \<Rightarrow> bool \<Rightarrow> string \<Rightarrow> string \<Rightarrow> (string, url) result" where
  "safe_url pf allowInsecureHttp v field =
     ebind (parse_or_throw pf v) (\<lambda>u.
     ebind (assert_safe_url allowInsecureHttp u) (\<lambda>_.
     if url_username u \<noteq> [] \<or> url_password u \<noteq> [] \<or> url_hash u \<noteq> [] then Inl (''OAuth '' @ field @ '' URL is not safe'')
     else Inr u))"

definition required_metadata_url :: "platform \<Rightarrow> bool \<Rightarrow> unknown \<Rightarrow> string \<Rightarrow> (string, string) result" where
  "required_metadata_url pf allowInsecureHttp v field =
     (case as_string v of
        None \<Rightarrow> Inl (''OAuth metadata did not contain '' @ field)
      | Some s \<Rightarrow> ebind (safe_url pf allowInsecureHttp s field) (\<lambda>u. Inr (strip_slash (pf_url_string pf u))))"

section \<open>Discovery\<close>

record oauth_endpoints =
  oe_issuer :: string
  oe_authorizationEndpoint :: string
  oe_tokenEndpoint :: string
  oe_registrationEndpoint :: string

definition protected_resource_url :: "platform \<Rightarrow> url \<Rightarrow> (string, url) result" where
  "protected_resource_url pf target = parse_or_throw pf (url_origin target @ ''/.well-known/oauth-protected-resource''
     @ (if url_pathname target = ''/'' then [] else url_pathname target))"

definition server_metadata_url :: "platform \<Rightarrow> url \<Rightarrow> (string, url) result" where
  "server_metadata_url pf issuer = parse_or_throw pf (url_origin issuer @ ''/.well-known/oauth-authorization-server''
     @ (if url_pathname issuer = ''/'' then [] else strip_slash (url_pathname issuer)))"

definition advertised_issuer :: "platform \<Rightarrow> bool \<Rightarrow> json \<Rightarrow> (string, url) result" where
  "advertised_issuer pf allowInsecureHttp protectedResource =
     ebind (json_field protectedResource ''authorization_servers'') (\<lambda>servers.
       case servers of
         Some (JArr (JStr s # _)) \<Rightarrow>
           ebind (parse_or_throw pf s) (\<lambda>u. ebind (assert_safe_url allowInsecureHttp u) (\<lambda>_. Inr u))
       | _ \<Rightarrow> Inl ''MCP protected-resource metadata did not advertise an authorization server'')"

definition confirmed_issuer :: "platform \<Rightarrow> bool \<Rightarrow> url \<Rightarrow> json \<Rightarrow> string \<Rightarrow> (string, string) result" where
  "confirmed_issuer pf allowInsecureHttp advertised metadata message =
     ebind (json_field metadata ''issuer'') (\<lambda>v.
     ebind (required_metadata_url pf allowInsecureHttp v ''issuer'') (\<lambda>issuer.
     if issuer \<noteq> strip_slash (pf_url_string pf advertised) then Inl message else Inr issuer))"

definition required_endpoint :: "platform \<Rightarrow> bool \<Rightarrow> json \<Rightarrow> string \<Rightarrow> (string, string) result" where
  "required_endpoint pf allowInsecureHttp metadata field =
     ebind (json_field metadata field) (\<lambda>v. required_metadata_url pf allowInsecureHttp v field)"

definition supports_s256 :: "json \<Rightarrow> (string, unit) result" where
  "supports_s256 metadata =
     ebind (json_field metadata ''code_challenge_methods_supported'') (\<lambda>v.
       require (case v of Some (JArr ms) \<Rightarrow> JStr ''S256'' \<in> set ms | _ \<Rightarrow> False) ''MCP Gateway OAuth server must support PKCE S256'')"

text \<open>\<^verbatim>\<open>fetchImpl\<close> is a function from the URL to the answer: each address is asked once.\<close>

definition discover_oauth_endpoints ::
  "platform \<Rightarrow> (url \<Rightarrow> oauth_answer) \<Rightarrow> bool \<Rightarrow> url \<Rightarrow> (string, oauth_endpoints) result" where
  "discover_oauth_endpoints pf fetch allowInsecureHttp target =
     ebind (assert_safe_url allowInsecureHttp target) (\<lambda>_.
     if url_username target \<noteq> [] \<or> url_password target \<noteq> [] \<or> url_hash target \<noteq> []
     then Inl ''MCP Gateway URL must not contain credentials or a fragment'' else
     ebind (protected_resource_url pf target) (\<lambda>resourceUrl.
     ebind (ok_json ''OAuth metadata request'' (fetch resourceUrl)) (\<lambda>protectedResource.
     ebind (advertised_issuer pf allowInsecureHttp protectedResource) (\<lambda>advertised.
     ebind (server_metadata_url pf advertised) (\<lambda>metadataUrl.
     ebind (ok_json ''OAuth metadata request'' (fetch metadataUrl)) (\<lambda>metadata.
     ebind (confirmed_issuer pf allowInsecureHttp advertised metadata
       ''OAuth metadata issuer does not match the protected resource advertisement'') (\<lambda>issuer.
     ebind (supports_s256 metadata) (\<lambda>_.
     ebind (required_endpoint pf allowInsecureHttp metadata ''authorization_endpoint'') (\<lambda>authorization.
     ebind (required_endpoint pf allowInsecureHttp metadata ''token_endpoint'') (\<lambda>token.
     ebind (required_endpoint pf allowInsecureHttp metadata ''registration_endpoint'') (\<lambda>registration.
     Inr \<lparr>oe_issuer = issuer, oe_authorizationEndpoint = authorization, oe_tokenEndpoint = token,
          oe_registrationEndpoint = registration\<rparr>)))))))))))"

section \<open>Login\<close>

definition redirect_uri_of_port :: "nat \<Rightarrow> string" where
  "redirect_uri_of_port port = ''http://127.0.0.1:'' @ nat_text port @ ''/callback''"

definition registration_body :: "string \<Rightarrow> json" where
  "registration_body redirectUri = JObj
     [(''client_name'', JStr ''ID-JAG The Hard Way MCP Credential Broker''), (''redirect_uris'', JArr [JStr redirectUri]),
      (''grant_types'', JArr [JStr ''authorization_code'']), (''response_types'', JArr [JStr ''code'']),
      (''token_endpoint_auth_method'', JStr ''none'')]"

definition registered_client_id :: "oauth_answer \<Rightarrow> (string, string) result" where
  "registered_client_id answer =
     ebind (ok_json ''OAuth client registration'' answer) (\<lambda>body.
     ebind (json_field body ''client_id'') (\<lambda>v.
       case as_string v of
         None \<Rightarrow> Inl ''OAuth client registration did not return client_id''
       | Some clientId \<Rightarrow> if clientId = [] then Inl ''OAuth client registration did not return client_id'' else Inr clientId))"

definition authorization_parameters :: "(string \<Rightarrow> string) \<Rightarrow> string \<Rightarrow> string \<Rightarrow> string \<Rightarrow> string \<Rightarrow> (string \<times> string) list" where
  "authorization_parameters sha256 clientId redirectUri state verifier =
     [(''client_id'', clientId), (''redirect_uri'', redirectUri), (''response_type'', ''code''), (''scope'', ''openid email profile''),
      (''state'', state), (''code_challenge'', sha256 verifier), (''code_challenge_method'', ''S256'')]"

definition authorization_url :: "platform \<Rightarrow> oauth_endpoints \<Rightarrow> (string \<times> string) list \<Rightarrow> (string, string) result" where
  "authorization_url pf endpoints parameters =
     ebind (parse_or_throw pf (oe_authorizationEndpoint endpoints)) (\<lambda>u.
       Inr (pf_url_string pf (u\<lparr>url_search := ''?'' @ pf_form pf parameters\<rparr>)))"

text \<open>The callback server: each request gets a reply and may settle the callback; the first one counts.\<close>

record callback_request =
  cr_method :: string
  cr_path :: string
  cr_query :: "string \<Rightarrow> string option"

definition safe_error_code :: "string \<Rightarrow> string" where
  "safe_error_code s =
     (let kept = take 100 (filter is_name_char s) in if kept = [] then ''unknown_error'' else kept)"

definition callback_page :: "string \<Rightarrow> string \<Rightarrow> string" where
  "callback_page title message =
     (let q = [CHR 0x22] in
      ''<!doctype html><html><head><meta charset='' @ q @ ''utf-8'' @ q @ ''><title>'' @ title @ ''</title></head><body><main><h1>'' @ title
      @ ''</h1><p>'' @ message @ ''</p></main></body></html>'')"

definition callback_handler :: "string \<Rightarrow> callback_request \<Rightarrow> reply \<times> (string, string) result option" where
  "callback_handler expectedState request =
     (if cr_method request \<noteq> ''GET'' \<or> cr_path request \<noteq> ''/callback'' then (reply_text 404 [] ''Not found'', None)
      else
        let page = \<lambda>code title message. reply_text code
              [no_store, (''connection'', ''close''), (''content-type'', ''text/html; charset=utf-8'')] (callback_page title message);
            returnedState = (case cr_query request ''state'' of None \<Rightarrow> [] | Some s \<Rightarrow> s)
        in if returnedState \<noteq> expectedState
           then (page 400 ''Authentication failed'' ''The OAuth state did not match. Return to your terminal.'',
                 Some (Inl ''OAuth callback state did not match''))
           else case cr_query request ''error'' of
             Some (c # cs) \<Rightarrow>
               (page 400 ''Authentication was not completed'' ''Return to your terminal and retry the MCP connection.'',
                Some (Inl (''OAuth authorization failed: '' @ safe_error_code (c # cs))))
           | _ \<Rightarrow>
               (case cr_query request ''code'' of
                  Some (c # cs) \<Rightarrow>
                    (page 200 ''Authentication complete'' ''You may close this window and return to your MCP client.'', Some (Inr (c # cs)))
                | _ \<Rightarrow>
                    (page 400 ''Authentication failed'' ''The callback did not contain an authorization code.'',
                     Some (Inl ''OAuth callback did not contain an authorization code''))))"

fun awaited_code :: "string \<Rightarrow> callback_request list \<Rightarrow> (string, string) result" where
  "awaited_code expectedState [] = Inl ''Timed out waiting for browser authentication''"
| "awaited_code expectedState (r # rs) =
     (case snd (callback_handler expectedState r) of None \<Rightarrow> awaited_code expectedState rs | Some settled \<Rightarrow> settled)"

definition token_form :: "string \<Rightarrow> string \<Rightarrow> string \<Rightarrow> string \<Rightarrow> (string \<times> string) list" where
  "token_form clientId redirectUri code verifier =
     [(''grant_type'', ''authorization_code''), (''client_id'', clientId), (''redirect_uri'', redirectUri), (''code'', code),
      (''code_verifier'', verifier)]"

definition credential_of_token :: "string \<Rightarrow> int \<Rightarrow> oauth_answer \<Rightarrow> (string, gateway_credential) result" where
  "credential_of_token issuer now answer =
     ebind (ok_json ''OAuth token endpoint'' answer) (\<lambda>token.
     ebind (json_field token ''access_token'') (\<lambda>accessToken.
     ebind (json_field token ''token_type'') (\<lambda>tokenType.
     ebind (json_field token ''expires_in'') (\<lambda>expiresIn.
       case (as_string accessToken, as_string tokenType, as_finite expiresIn) of
         (Some t, Some k, Some s) \<Rightarrow>
           if t = [] \<or> to_lower k \<noteq> ''bearer'' \<or> s \<le> 0 then Inl ''OAuth token endpoint returned an invalid bearer credential''
           else Inr \<lparr>cd_version = 1, cd_issuer = issuer, cd_accessToken = t, cd_tokenType = ''Bearer'',
                     cd_expiresAt = Finite (of_int now + s * 1000)\<rparr>
       | _ \<Rightarrow> Inl ''OAuth token endpoint returned an invalid bearer credential''))))"

text \<open>
  \<^verbatim>\<open>performAuthorizationCodeLogin\<close> with what it draws and what it is answered: the state, the verifier,
  the port of the callback server, the registration, the requests to the callback server until the
  timeout, and the answer to the token request, which depends on its form.
\<close>

record login_world =
  lw_state :: string
  lw_verifier :: string
  lw_port :: nat
  lw_registration :: oauth_answer
  lw_browser :: "(string, unit) result"
  lw_callbacks :: "callback_request list"
  lw_token :: "(string \<times> string) list \<Rightarrow> oauth_answer"
  lw_now :: int

definition perform_login :: "platform \<Rightarrow> oauth_endpoints \<Rightarrow> login_world \<Rightarrow> (string, gateway_credential) result" where
  "perform_login pf endpoints w =
     (let redirectUri = redirect_uri_of_port (lw_port w) in
      ebind (registered_client_id (lw_registration w)) (\<lambda>clientId.
      ebind (authorization_url pf endpoints (authorization_parameters (pf_sha256 pf) clientId redirectUri (lw_state w) (lw_verifier w))) (\<lambda>url.
      ebind (lw_browser w) (\<lambda>_.
      ebind (awaited_code (lw_state w) (lw_callbacks w)) (\<lambda>code.
      credential_of_token (oe_issuer endpoints) (lw_now w)
        (lw_token w (token_form clientId redirectUri code (lw_verifier w))))))))"

section \<open>Signing out\<close>

definition revocation_form :: "gateway_credential \<Rightarrow> (string \<times> string) list" where
  "revocation_form c = [(''token'', cd_accessToken c), (''token_type_hint'', ''access_token'')]"

definition cached_issuer_metadata ::
  "platform \<Rightarrow> (url \<Rightarrow> oauth_answer) \<Rightarrow> bool \<Rightarrow> gateway_credential \<Rightarrow> (string, url \<times> json) result" where
  "cached_issuer_metadata pf fetch allowInsecureHttp c =
     ebind (safe_url pf allowInsecureHttp (cd_issuer c) ''cached issuer'') (\<lambda>advertised.
     ebind (server_metadata_url pf advertised) (\<lambda>metadataUrl.
     ebind (ok_json ''OAuth metadata request'' (fetch metadataUrl)) (\<lambda>metadata.
     ebind (confirmed_issuer pf allowInsecureHttp advertised metadata
       ''OAuth metadata issuer does not match the cached Gateway session'') (\<lambda>_.
     Inr (advertised, metadata)))))"

text \<open>The request: its address and its form; then the check of the answer.\<close>

definition revoke_request ::
  "platform \<Rightarrow> (url \<Rightarrow> oauth_answer) \<Rightarrow> bool \<Rightarrow> gateway_credential \<Rightarrow> (string, string \<times> (string \<times> string) list) result" where
  "revoke_request pf fetch allowInsecureHttp c =
     ebind (cached_issuer_metadata pf fetch allowInsecureHttp c) (\<lambda>(_, metadata).
     ebind (required_endpoint pf allowInsecureHttp metadata ''revocation_endpoint'') (\<lambda>endpoint.
     Inr (endpoint, revocation_form c)))"

definition same_origin :: "platform \<Rightarrow> string \<Rightarrow> url \<Rightarrow> string \<Rightarrow> (string, unit) result" where
  "same_origin pf s issuer message =
     ebind (parse_or_throw pf s) (\<lambda>u. require (url_origin u = url_origin issuer) message)"

definition logout_ticket_request ::
  "platform \<Rightarrow> (url \<Rightarrow> oauth_answer) \<Rightarrow> bool \<Rightarrow> gateway_credential \<Rightarrow> (string, url \<times> string \<times> (string \<times> string) list) result" where
  "logout_ticket_request pf fetch allowInsecureHttp c =
     ebind (cached_issuer_metadata pf fetch allowInsecureHttp c) (\<lambda>(advertised, metadata).
     ebind (required_endpoint pf allowInsecureHttp metadata ''idp_logout_ticket_endpoint'') (\<lambda>endpoint.
     ebind (same_origin pf endpoint advertised ''Identity-provider logout ticket endpoint must use the Gateway issuer origin'') (\<lambda>_.
     Inr (advertised, endpoint, [(''token'', cd_accessToken c)]))))"

definition logout_url_of_answer :: "platform \<Rightarrow> bool \<Rightarrow> url \<Rightarrow> oauth_answer \<Rightarrow> (string, string) result" where
  "logout_url_of_answer pf allowInsecureHttp advertised answer =
     ebind (ok_json ''Identity-provider logout endpoint'' answer) (\<lambda>body.
     ebind (json_field body ''logout_url'') (\<lambda>v.
     ebind (required_metadata_url pf allowInsecureHttp v ''logout_url'') (\<lambda>logoutUrl.
     ebind (same_origin pf logoutUrl advertised ''Identity-provider browser logout URL must use the Gateway issuer origin'') (\<lambda>_.
     Inr logoutUrl))))"

section \<open>Requests with the session\<close>

definition with_bearer :: "out_headers \<Rightarrow> string \<Rightarrow> out_headers" where
  "with_bearer headers accessToken = set_header ''authorization'' (''Bearer '' @ accessToken) headers"

text \<open>
  \<^verbatim>\<open>createAuthenticatedFetch\<close>: the credentials are what the two calls of \<^verbatim>\<open>getOrCreate\<close> return, the first
  answer is a status or a failure. The result is what is sent: the headers of each request, in order,
  and whether the first credential was invalidated in between.
\<close>

definition authenticated_fetch ::
  "out_headers \<Rightarrow> (string, gateway_credential) result \<Rightarrow> (string, int) result \<Rightarrow> (string, unit) result \<Rightarrow> (string, gateway_credential) result
   \<Rightarrow> (string, unit) result \<times> out_headers list \<times> string option" where
  "authenticated_fetch headers first status invalidated second =
     (case first of
        Inl m \<Rightarrow> (Inl m, [], None)
      | Inr c \<Rightarrow>
          let sent = with_bearer headers (cd_accessToken c) in
          (case status of
             Inl m \<Rightarrow> (Inl m, [sent], None)
           | Inr code \<Rightarrow>
               if code \<noteq> 401 then (Inr (), [sent], None)
               else (case ebind invalidated (\<lambda>_. second) of
                 Inl m \<Rightarrow> (Inl m, [sent], Some (cd_accessToken c))
               | Inr c' \<Rightarrow> (Inr (), [sent, with_bearer headers (cd_accessToken c')], Some (cd_accessToken c)))))"

section \<open>The command\<close>

record cli_options =
  cl_target :: "url option"
  cl_allowInsecureHttp :: bool
  cl_help :: bool
  cl_idpLogout :: bool
  cl_logout :: bool
  cl_version :: bool

definition parse_argument :: "platform \<Rightarrow> cli_options \<Rightarrow> string \<Rightarrow> (string, cli_options) result" where
  "parse_argument pf options argument =
     (if argument = ''--allow-insecure-http'' then Inr (options\<lparr>cl_allowInsecureHttp := True\<rparr>)
      else if argument = ''--logout'' then Inr (options\<lparr>cl_logout := True\<rparr>)
      else if argument = ''--idp'' then Inr (options\<lparr>cl_idpLogout := True\<rparr>)
      else if argument = ''--help'' \<or> argument = ''-h'' then Inr (options\<lparr>cl_help := True\<rparr>)
      else if argument = ''--version'' \<or> argument = ''-v'' then Inr (options\<lparr>cl_version := True\<rparr>)
      else if starts_with ''-'' argument then Inl (''Unknown option: '' @ argument)
      else if cl_target options = None
      then ebind (parse_or_throw pf argument) (\<lambda>u. Inr (options\<lparr>cl_target := Some u\<rparr>))
      else Inl (''Unexpected argument: '' @ argument))"

fun parse_arguments :: "platform \<Rightarrow> cli_options \<Rightarrow> string list \<Rightarrow> (string, cli_options) result" where
  "parse_arguments pf options [] = Inr options"
| "parse_arguments pf options (a # as) = ebind (parse_argument pf options a) (\<lambda>o'. parse_arguments pf o' as)"

definition initial_options :: "string option \<Rightarrow> cli_options" where
  "initial_options insecureEnv =
     \<lparr>cl_target = None, cl_allowInsecureHttp = (insecureEnv = Some ''true''), cl_help = False, cl_idpLogout = False,
      cl_logout = False, cl_version = False\<rparr>"

datatype run_action = Print_Help | Print_Version | Run_Logout bool bool | Run_Connect url bool

definition run_command :: "platform \<Rightarrow> string option \<Rightarrow> string list \<Rightarrow> (string, run_action) result" where
  "run_command pf insecureEnv argv =
     ebind (parse_arguments pf (initial_options insecureEnv) argv) (\<lambda>options.
     if cl_help options then Inr Print_Help
     else if cl_version options then Inr Print_Version
     else if cl_logout options
     then (if cl_target options \<noteq> None then Inl ''--logout does not accept an MCP Gateway route URL''
           else Inr (Run_Logout (cl_allowInsecureHttp options) (cl_idpLogout options)))
     else if cl_idpLogout options then Inl ''--idp requires --logout''
     else case cl_target options of
       None \<Rightarrow> Inl ''Missing MCP Gateway route URL''
     | Some target \<Rightarrow> Inr (Run_Connect target (cl_allowInsecureHttp options)))"

definition plural :: "nat \<Rightarrow> string \<Rightarrow> string" where
  "plural count noun = (if count = 1 then noun else noun @ ''s'')"

text \<open>How a sign-out ends: the sessions are cleared before the remote requests, which may fail.\<close>

definition logout_report :: "bool \<Rightarrow> (string, unit) result list \<Rightarrow> (string, string) result" where
  "logout_report idpLogout results =
     (let count = length results; failed = length (filter (\<lambda>r. case r of Inl _ \<Rightarrow> True | Inr _ \<Rightarrow> False) results) in
      if count = 0 then Inr ''No cached MCP Gateway sessions found.''
      else if 0 < failed
      then Inl (''Cleared '' @ nat_text count @ '' local Gateway '' @ plural count ''session'' @ '', but failed to complete '' @ nat_text failed
        @ '' remote '' @ (if idpLogout then ''identity-provider sign-out'' else ''revocation'') @ (if failed = 1 then [] else ''s''))
      else Inr (''Signed out of '' @ nat_text count @ '' shared MCP Gateway '' @ plural count ''session''
        @ (if idpLogout then '' and opened identity-provider sign-out'' else []) @ ''.''))"

end
