(* ===== verification/Broker_Login.thy ===== *)
theory Broker_Login
  imports Broker_OAuth Gateway_OAuth_Flow
begin

text \<open>
  The connector's login against the gateway: the requests of the one are what the routes of the other
  take, and their answers are what the one reads.
\<close>

section \<open>The callback\<close>

lemma callback_handler_Inr:
  assumes "snd (callback_handler state r) = Some (Inr code)"
  shows "cr_method r = ''GET'' \<and> cr_path r = ''/callback'' \<and> (cr_query r ''state'' = Some state \<or> state = [])
    \<and> cr_query r ''code'' = Some code \<and> code \<noteq> []"
  using assms
  by (auto simp: callback_handler_def Let_def split: if_splits option.splits list.splits)

lemma awaited_code_Inr:
  "awaited_code state rs = Inr code \<Longrightarrow>
   \<exists>pre r post. rs = pre @ r # post \<and> (\<forall>x \<in> set pre. snd (callback_handler state x) = None) \<and> snd (callback_handler state r) = Some (Inr code)"
proof (induction rs)
  case (Cons r rs)
  show ?case
  proof (cases "snd (callback_handler state r)")
    case None
    with Cons obtain pre x post where "rs = pre @ x # post" "\<forall>y \<in> set pre. snd (callback_handler state y) = None"
      "snd (callback_handler state x) = Some (Inr code)" by auto
    with None have "r # rs = (r # pre) @ x # post" "\<forall>y \<in> set (r # pre). snd (callback_handler state y) = None" by simp_all
    with \<open>snd (callback_handler state x) = Some (Inr code)\<close> show ?thesis by blast
  next
    case (Some a)
    with Cons.prems show ?thesis by (intro exI [of _ "[]"]) simp
  qed
qed simp

lemma callback_ignores: "cr_method r \<noteq> ''GET'' \<or> cr_path r \<noteq> ''/callback'' \<longleftrightarrow> snd (callback_handler state r) = None"
  by (auto simp: callback_handler_def Let_def split: option.splits list.splits)

text \<open>
  C29: a login ends with a credential only through its own callback. The code that is exchanged came with
  the first request to the callback path, which carried the state that was drawn; the token request has
  that code, the verifier and the redirect URI of the login; and the credential is the non-empty Bearer
  token of the answer, for the discovered issuer, with a lifetime that begins now.
\<close>

theorem login_uses_its_own_callback:
  assumes "perform_login pf endpoints w = Inr c" "lw_state w \<noteq> []"
  shows "\<exists>clientId pre r post code fs seconds. lw_callbacks w = pre @ r # post
    \<and> (\<forall>x \<in> set pre. cr_method x \<noteq> ''GET'' \<or> cr_path x \<noteq> ''/callback'')
    \<and> cr_method r = ''GET'' \<and> cr_path r = ''/callback'' \<and> cr_query r ''state'' = Some (lw_state w) \<and> cr_query r ''code'' = Some code
    \<and> registered_client_id (lw_registration w) = Inr clientId
    \<and> lw_token w (token_form clientId (redirect_uri_of_port (lw_port w)) code (lw_verifier w)) = Answer_Json (JObj fs)
    \<and> map_of fs ''access_token'' = Some (JStr (cd_accessToken c)) \<and> cd_accessToken c \<noteq> []
    \<and> map_of fs ''expires_in'' = Some (JNum (Finite seconds)) \<and> 0 < seconds
    \<and> c = \<lparr>cd_version = 1, cd_issuer = oe_issuer endpoints, cd_accessToken = cd_accessToken c, cd_tokenType = ''Bearer'',
           cd_expiresAt = Finite (of_int (lw_now w) + seconds * 1000)\<rparr>"
proof -
  from assms(1) obtain clientId code where client: "registered_client_id (lw_registration w) = Inr clientId"
    and code: "awaited_code (lw_state w) (lw_callbacks w) = Inr code"
    and c: "credential_of_token (oe_issuer endpoints) (lw_now w)
        (lw_token w (token_form clientId (redirect_uri_of_port (lw_port w)) code (lw_verifier w))) = Inr c"
    unfolding perform_login_def Let_def ebind_eq_Inr by blast
  from awaited_code_Inr [OF code] obtain pre r post where r: "lw_callbacks w = pre @ r # post"
      "\<forall>x \<in> set pre. cr_method x \<noteq> ''GET'' \<or> cr_path x \<noteq> ''/callback''" "snd (callback_handler (lw_state w) r) = Some (Inr code)"
    unfolding callback_ignores [symmetric] by blast
  from c obtain v where v: "lw_token w (token_form clientId (redirect_uri_of_port (lw_port w)) code (lw_verifier w)) = Answer_Json v"
    by (auto simp: credential_of_token_def ok_json_def ebind_eq_Inr split: oauth_answer.splits)
  with c obtain fs seconds where "v = JObj fs" "map_of fs ''access_token'' = Some (JStr (cd_accessToken c))" "cd_accessToken c \<noteq> []"
      "map_of fs ''expires_in'' = Some (JNum (Finite seconds))" "0 < seconds"
      "c = \<lparr>cd_version = 1, cd_issuer = oe_issuer endpoints, cd_accessToken = cd_accessToken c, cd_tokenType = ''Bearer'',
           cd_expiresAt = Finite (of_int (lw_now w) + seconds * 1000)\<rparr>"
    by (auto simp: credential_of_token_def ok_json_def json_field_def ebind_eq_Inr not_le split: json.splits option.splits if_splits)
  with r callback_handler_Inr [OF r(3)] client v assms(2) show ?thesis by blast
qed

section \<open>Against the gateway\<close>

text \<open>What the client makes of a route's reply, and what the routes see of a form.\<close>

definition answer_of_reply :: "route_reply \<Rightarrow> oauth_answer" where
  "answer_of_reply r =
     (case r of
        Inl m \<Rightarrow> Answer_Status 500
      | Inr rep \<Rightarrow>
          if 200 \<le> rp_status rep \<and> rp_status rep < 300
          then (case rp_body rep of Json_Body v \<Rightarrow> Answer_Json v | _ \<Rightarrow> Answer_Failed ''Unexpected token in JSON'')
          else Answer_Status (rp_status rep))"

definition form_query :: "(string \<times> string) list \<Rightarrow> query" where
  "form_query ps = (\<lambda>name. map_option JStr (map_of ps name))"

definition form_body :: "(string \<times> string) list \<Rightarrow> unknown" where
  "form_body ps = Some (JObj (map (\<lambda>(name, v). (name, JStr v)) ps))"

lemma body_value_form: "body_value (form_body ps) name = map_of ps name"
proof -
  have "map_of (map (\<lambda>(name, v). (name, JStr v)) ps) name = map_option JStr (map_of ps name)"
    by (induction ps) auto
  then show ?thesis by (cases "map_of ps name") (simp_all add: body_value_def form_body_def)
qed

lemma query_value_form: "query_value (form_query ps) name = map_of ps name"
  by (cases "map_of ps name") (simp_all add: query_value_def form_query_def)

text \<open>The redirect URI of the callback server is one that the gateway allows.\<close>

definition is_loopback :: "url \<Rightarrow> bool" where
  "is_loopback u \<longleftrightarrow> url_protocol u = ''http:'' \<and> url_hostname u = ''127.0.0.1'' \<and> url_username u = [] \<and> url_password u = [] \<and> url_hash u = []"

lemma register_redirect:
  assumes "pf_parse_url pf redirectUri = Some u" "is_loopback u"
  shows "registered_client_id (answer_of_reply (fst (oauth_register pf ms uuid (Some (registration_body redirectUri)) st))) = Inr (''mcp-client-'' @ uuid)"
    "snd (oauth_register pf ms uuid (Some (registration_body redirectUri)) st) = st\<lparr>os_clients :=
       AList.update (''mcp-client-'' @ uuid) \<lparr>rc_clientId = ''mcp-client-'' @ uuid, rc_redirectUris = [redirectUri]\<rparr> (os_clients st)\<rparr>"
proof -
  have "requested_redirect_uris (Some (registration_body redirectUri)) = [redirectUri]"
    by (simp add: requested_redirect_uris_def registration_body_def map_filter_simps)
  moreover from assms have "is_allowed_redirect_uri (pf_parse_url pf) redirectUri"
    by (simp add: is_allowed_redirect_uri_def is_loopback_def)
  ultimately show "registered_client_id (answer_of_reply (fst (oauth_register pf ms uuid (Some (registration_body redirectUri)) st))) = Inr (''mcp-client-'' @ uuid)"
    "snd (oauth_register pf ms uuid (Some (registration_body redirectUri)) st) = st\<lparr>os_clients :=
       AList.update (''mcp-client-'' @ uuid) \<lparr>rc_clientId = ''mcp-client-'' @ uuid, rc_redirectUris = [redirectUri]\<rparr> (os_clients st)\<rparr>"
    by (simp_all add: oauth_register_def register_client_def Let_def registered_client_id_def answer_of_reply_def ok_json_def json_field_def)
qed

lemma token_answers:
  assumes "token_granted pf (now_seconds ms1) body (os_codes st) = Some ac" "now_seconds ms3 < ac_identityExpiresAt ac"
    and "now_seconds ms3 < now_seconds ms2 + of_int (GATEWAY_SESSION_TTL_SECONDS env)"
  shows "answer_of_reply (fst (oauth_token pf env h ms1 ms2 ms3 ref token body st)) =
    Answer_Json (JObj [(''access_token'', JStr token), (''token_type'', JStr ''Bearer''),
      (''expires_in'', JNum (Finite (of_int (GATEWAY_SESSION_TTL_SECONDS env)))), (''scope'', JStr ''openid email profile'')])"
  using assms by (simp add: oauth_token_cases session_create_def session_of_code_def answer_of_reply_def Let_def)

text \<open>
  C30: the connector and the gateway agree. If the connector registers, the browser is sent through the
  gateway's authorization route, Keycloak confirms the login with the transaction's nonce, the browser
  follows the gateway's redirect back to the connector's callback server, and everything is in time, then
  the login returns a credential for the discovered issuer that \<^verbatim>\<open>getOrCreate\<close> accepts, and its token is a
  live session of the gateway for the verified subject.
\<close>

theorem connector_logs_in_at_the_gateway:
  fixes pf env endpoints w uuid
  defines "redirectUri \<equiv> redirect_uri_of_port (lw_port w)" and "clientId \<equiv> ''mcp-client-'' @ uuid"
  assumes registers: "oauth_register pf ms0 uuid (Some (registration_body redirectUri)) st = (r1, st1)"
    and authorizes: "oauth_authorize pf env ms1 us v n
        (form_query (authorization_parameters (pf_sha256 pf) clientId redirectUri (lw_state w) (lw_verifier w))) st1 = (r2, st2)"
    and returns: "oauth_callback_start pf ms2 (form_query [(''state'', us), (''code'', kc)]) st2 = (start, st3)"
    and confirms: "oauth_callback_finish pf env jwtVerify ms3 gcode response tr st3 = (r3, st4)" "start = Callback_Wait tr kc"
    and redeems: "oauth_token pf env h ms4 ms5 ms6 ref tk (form_body (token_form clientId redirectUri gcode (lw_verifier w))) st4 = (r4, st5)"
    and world: "lw_registration w = answer_of_reply r1" "lw_browser w = Inr ()"
      "lw_token w (token_form clientId redirectUri gcode (lw_verifier w)) = answer_of_reply r4"
      "lw_callbacks w = [\<lparr>cr_method = ''GET'', cr_path = ''/callback'', cr_query = map_of [(''code'', gcode), (''state'', lw_state w)]\<rparr>]"
    and urls: "pf_parse_url pf redirectUri = Some u" "is_loopback u" "pf_parse_url pf (oe_authorizationEndpoint endpoints) = Some a"
    and drawn: "us \<noteq> []" "kc \<noteq> []" "gcode \<noteq> []" "tk \<noteq> []" "lw_state w \<noteq> []" "lw_verifier w \<noteq> []" "pf_sha256 pf (lw_verifier w) \<noteq> []"
    and keycloak: "keycloak_exchange_result response = Inr idToken" "verify_keycloak_id_token env jwtVerify idToken n = Inr ident"
    and times: "now_seconds ms2 < now_seconds ms1 + of_int (AUTHORIZATION_TRANSACTION_TTL_SECONDS env)"
      "now_seconds ms4 < id_expiresAt ident" "now_seconds ms4 < now_seconds ms3 + of_int (AUTHORIZATION_CODE_TTL_SECONDS env)"
      "now_seconds ms6 < id_expiresAt ident" "now_seconds ms6 < now_seconds ms5 + of_int (GATEWAY_SESSION_TTL_SECONDS env)"
      "now_seconds ms7 < now_seconds ms5 + of_int (GATEWAY_SESSION_TTL_SECONDS env)" "0 < GATEWAY_SESSION_TTL_SECONDS env"
  shows "r3 = (case redirect_with_parameters pf redirectUri [(''code'', gcode), (''state'', lw_state w)] of
        Inl m \<Rightarrow> Inr (reply_text 502 [] m) | Inr r \<Rightarrow> Inr r)
    \<and> (\<exists>c s. perform_login pf endpoints w = Inr c \<and> cd_accessToken c = tk
      \<and> assert_credential c (oe_issuer endpoints) (lw_now w) = Inr ()
      \<and> fst (session_get h (now_seconds ms7) (cd_accessToken c) (os_sessions st5)) = Some s
      \<and> gs_subject s = id_subject ident \<and> gs_idToken s = idToken)"
proof -
  let ?client = "\<lparr>rc_clientId = clientId, rc_redirectUris = [redirectUri]\<rparr>"
  let ?challenge = "pf_sha256 pf (lw_verifier w)"
  let ?tr = "\<lparr>at_clientId = clientId, at_clientState = lw_state w, at_redirectUri = redirectUri, at_clientCodeChallenge = ?challenge,
      at_keycloakCodeVerifier = v, at_nonce = n, at_expiresAt = now_seconds ms1 + of_int (AUTHORIZATION_TRANSACTION_TTL_SECONDS env)\<rparr>"
  let ?ac = "(code_of_login ?tr idToken ident)\<lparr>ac_expiresAt :=
      min (id_expiresAt ident) (now_seconds ms3 + of_int (AUTHORIZATION_CODE_TTL_SECONDS env))\<rparr>"
  let ?session = "session_of_code ref (now_seconds ms5 + of_int (GATEWAY_SESSION_TTL_SECONDS env)) ?ac"
  have client: "registered_client_id (lw_registration w) = Inr clientId" and st1: "os_clients st1 = AList.update clientId ?client (os_clients st)"
    using register_redirect [OF urls(1,2), of ms0 uuid st] registers world(1) by (simp_all add: clientId_def)
  have request: "authorize_handler (form_query (authorization_parameters (pf_sha256 pf) clientId redirectUri (lw_state w) (lw_verifier w))) (os_clients st1)
      = Some (?client, redirectUri, lw_state w, ?challenge)"
    using drawn(5,7) by (simp add: authorize_handler_def query_value_form authorization_parameters_def get_client_def st1 update_conv' clientId_def
        redirectUri_def redirect_uri_of_port_def)
  from authorize_stores [OF request, of pf env ms1 us v n] authorizes have "map_of (os_transactions st2) us = Some ?tr" by (simp add: update_conv')
  from callback_waits [OF this] returns times(1) drawn(1,2) confirms(2)
  have tr: "tr = ?tr" by (simp add: query_value_form)
  have login: "keycloak_login env jwtVerify response tr = Inr (idToken, ident)" using keycloak by (simp add: keycloak_login_Inr tr)
  from keycloak_issues [OF login, of pf ms3 gcode st3] confirms(1)
  have codes: "map_of (os_codes st4) gcode = Some ?ac" by (simp add: update_conv' tr)
  have r3: "r3 = (case redirect_with_parameters pf redirectUri [(''code'', gcode), (''state'', lw_state w)] of
        Inl m \<Rightarrow> Inr (reply_text 502 [] m) | Inr r \<Rightarrow> Inr r)"
    using confirms(1) login by (auto simp: oauth_callback_finish_def create_authorization_code_def Let_def tr split: sum.splits)
  let ?body = "form_body (token_form clientId redirectUri gcode (lw_verifier w))"
  have granted: "token_granted pf (now_seconds ms4) ?body (os_codes st4) = Some ?ac"
    using codes drawn(3,6) times(2,3)
    by (simp add: token_granted_Some code_presented_def consume_authorization_code_def code_grant_valid_def verify_s256_code_challenge_def
        body_value_form token_form_def code_of_login_def Let_def)
  have id: "ac_identityExpiresAt ?ac = id_expiresAt ident" by (simp add: code_of_login_def)
  from token_opens_session [OF granted, unfolded id, OF times(4,5), of h ref tk] redeems
  have sessions: "os_sessions st5 = AList.update (h tk) ?session (os_sessions st4)" by simp
  have r4: "lw_token w (token_form clientId redirectUri gcode (lw_verifier w))
      = Answer_Json (JObj [(''access_token'', JStr tk), (''token_type'', JStr ''Bearer''),
          (''expires_in'', JNum (Finite (of_int (GATEWAY_SESSION_TTL_SECONDS env)))), (''scope'', JStr ''openid email profile'')])"
    using token_answers [OF granted, unfolded id, OF times(4,5), of h ref tk] redeems world(3) by simp
  have "to_lower ''Bearer'' = ''bearer''" by code_simp
  with r4 drawn(4) times(7) have c: "credential_of_token (oe_issuer endpoints) (lw_now w) (lw_token w (token_form clientId redirectUri gcode (lw_verifier w)))
      = Inr \<lparr>cd_version = 1, cd_issuer = oe_issuer endpoints, cd_accessToken = tk, cd_tokenType = ''Bearer'',
          cd_expiresAt = Finite (of_int (lw_now w) + of_int (GATEWAY_SESSION_TTL_SECONDS env) * 1000)\<rparr>" (is "_ = Inr ?c")
    by (simp add: credential_of_token_def ok_json_def json_field_def)
  have "awaited_code (lw_state w) (lw_callbacks w) = Inr gcode"
    using world(4) drawn(3) by (cases gcode) (simp_all add: callback_handler_def Let_def)
  with client c urls(3) world(2) have "perform_login pf endpoints w = Inr ?c"
    by (simp add: perform_login_def Let_def authorization_url_def parse_or_throw_def redirectUri_def [symmetric])
  moreover have "assert_credential ?c (oe_issuer endpoints) (lw_now w) = Inr ()"
    using drawn(4) times(7) by (simp add: assert_credential_def)
  moreover have "fst (session_get h (now_seconds ms7) tk (os_sessions st5)) = Some ?session"
    using times(6) by (simp add: session_get_def sessions update_conv' session_of_code_def Let_def)
  moreover have "gs_subject ?session = id_subject ident" "gs_idToken ?session = idToken" by (simp_all add: session_of_code_def code_of_login_def)
  ultimately show ?thesis using r3 by (intro conjI exI [of _ ?c] exI [of _ ?session]) simp_all
qed

section \<open>Examples\<close>

definition sample_broker_platform :: platform where
  "sample_broker_platform = sample_platform\<lparr>pf_parse_url := \<lambda>s.
     map_option (\<lambda>u. u\<lparr>url_hostname := takeWhile (\<lambda>c. c \<noteq> CHR '':'') (url_host u)\<rparr>) (sample_parse s)\<rparr>"

definition sample_endpoints :: oauth_endpoints where
  "sample_endpoints = \<lparr>oe_issuer = ''https://gw'', oe_authorizationEndpoint = ''https://gw/oauth/authorize'',
     oe_tokenEndpoint = ''https://gw/oauth/token'', oe_registrationEndpoint = ''https://gw/oauth/register''\<rparr>"

definition sample_redirect :: string where
  "sample_redirect = redirect_uri_of_port 7"

definition sample_form :: "(string \<times> string) list" where
  "sample_form = token_form ''mcp-client-u'' sample_redirect ''gc'' ''v''"

definition sample_registration :: "route_reply \<times> oauth_state" where
  "sample_registration = oauth_register sample_broker_platform 0 ''u'' (Some (registration_body sample_redirect)) (of_state oauth_start)"

definition sample_authorization :: "route_reply \<times> oauth_state" where
  "sample_authorization = oauth_authorize sample_broker_platform sample_env 1000 ''us'' ''ver'' ''n''
     (form_query (authorization_parameters (pf_sha256 sample_broker_platform) ''mcp-client-u'' sample_redirect ''s'' ''v'')) (snd sample_registration)"

definition sample_callback :: "callback_start \<times> oauth_state" where
  "sample_callback = oauth_callback_start sample_broker_platform 2000 (form_query [(''state'', ''us''), (''code'', ''kc'')]) (snd sample_authorization)"

definition sample_transaction :: authorization_transaction where
  "sample_transaction = (case fst sample_callback of Callback_Wait tr kc \<Rightarrow> tr)"

definition sample_confirmation :: "route_reply \<times> oauth_state" where
  "sample_confirmation = oauth_callback_finish sample_broker_platform sample_env (oc_jwtVerify sample_config) 3000 ''gc''
     (Token_Json [(''id_token'', JStr ''idt'')]) sample_transaction (snd sample_callback)"

definition sample_redemption :: "route_reply \<times> oauth_state" where
  "sample_redemption = oauth_token sample_broker_platform sample_env (oc_tokenHash sample_config) 4000 4000 4000 7 ''tok'' (form_body sample_form) (snd sample_confirmation)"

definition sample_login_world :: login_world where
  "sample_login_world = \<lparr>lw_state = ''s'', lw_verifier = ''v'', lw_port = 7, lw_registration = answer_of_reply (fst sample_registration),
     lw_browser = Inr (),
     lw_callbacks = [\<lparr>cr_method = ''GET'', cr_path = ''/callback'', cr_query = map_of [(''code'', ''gc''), (''state'', ''s'')]\<rparr>],
     lw_token = (\<lambda>form. answer_of_reply (fst sample_redemption)), lw_now = 4500\<rparr>"

lemma connector_logs_in_at_the_gateway_witness:
  "\<exists>c s. perform_login sample_broker_platform sample_endpoints sample_login_world = Inr c \<and> cd_accessToken c = ''tok''
    \<and> fst (session_get (oc_tokenHash sample_config) (now_seconds 5000) (cd_accessToken c) (os_sessions (snd sample_redemption))) = Some s
    \<and> gs_subject s = ''ann''"
proof -
  let ?pf = "sample_broker_platform" and ?w = "sample_login_world"
  have w: "redirect_uri_of_port (lw_port ?w) = sample_redirect" "lw_state ?w = ''s''" "lw_verifier ?w = ''v''"
    by (simp_all add: sample_login_world_def sample_redirect_def)
  have steps: "oauth_register ?pf 0 ''u'' (Some (registration_body (redirect_uri_of_port (lw_port ?w)))) (of_state oauth_start) = (fst sample_registration, snd sample_registration)"
    "oauth_authorize ?pf sample_env 1000 ''us'' ''ver'' ''n'' (form_query (authorization_parameters (pf_sha256 ?pf) (''mcp-client-'' @ ''u'')
      (redirect_uri_of_port (lw_port ?w)) (lw_state ?w) (lw_verifier ?w))) (snd sample_registration) = (fst sample_authorization, snd sample_authorization)"
    "oauth_callback_start ?pf 2000 (form_query [(''state'', ''us''), (''code'', ''kc'')]) (snd sample_authorization) = (fst sample_callback, snd sample_callback)"
    "oauth_callback_finish ?pf sample_env (oc_jwtVerify sample_config) 3000 ''gc'' (Token_Json [(''id_token'', JStr ''idt'')]) sample_transaction (snd sample_callback)
      = (fst sample_confirmation, snd sample_confirmation)"
    "oauth_token ?pf sample_env (oc_tokenHash sample_config) 4000 4000 4000 7 ''tok''
      (form_body (token_form (''mcp-client-'' @ ''u'') (redirect_uri_of_port (lw_port ?w)) ''gc'' (lw_verifier ?w))) (snd sample_confirmation)
      = (fst sample_redemption, snd sample_redemption)"
    unfolding w sample_registration_def sample_authorization_def sample_callback_def sample_confirmation_def sample_redemption_def sample_form_def
    by simp_all
  have wait: "fst sample_callback = Callback_Wait sample_transaction ''kc''" by code_simp
  have world: "lw_registration ?w = answer_of_reply (fst sample_registration)" "lw_browser ?w = Inr ()"
    "lw_token ?w (token_form (''mcp-client-'' @ ''u'') (redirect_uri_of_port (lw_port ?w)) ''gc'' (lw_verifier ?w)) = answer_of_reply (fst sample_redemption)"
    "lw_callbacks ?w = [\<lparr>cr_method = ''GET'', cr_path = ''/callback'', cr_query = map_of [(''code'', ''gc''), (''state'', lw_state ?w)]\<rparr>]"
    by (simp_all add: sample_login_world_def)
  have urls: "pf_parse_url ?pf (redirect_uri_of_port (lw_port ?w)) = Some (the (pf_parse_url ?pf sample_redirect))" "is_loopback (the (pf_parse_url ?pf sample_redirect))"
    "pf_parse_url ?pf (oe_authorizationEndpoint sample_endpoints) = Some (the (pf_parse_url ?pf ''https://gw/oauth/authorize''))"
    by code_simp+
  have drawn: "''us'' \<noteq> []" "''kc'' \<noteq> []" "''gc'' \<noteq> []" "''tok'' \<noteq> []" "lw_state ?w \<noteq> []" "lw_verifier ?w \<noteq> []" "pf_sha256 ?pf (lw_verifier ?w) \<noteq> []"
    by (simp_all add: w sample_broker_platform_def sample_platform_def)
  have keycloak: "keycloak_exchange_result (Token_Json [(''id_token'', JStr ''idt'')]) = Inr ''idt''"
    "verify_keycloak_id_token sample_env (oc_jwtVerify sample_config) ''idt'' ''n'' = Inr sample_identity" by code_simp+
  have times: "now_seconds 2000 < now_seconds 1000 + of_int (AUTHORIZATION_TRANSACTION_TTL_SECONDS sample_env)"
    "now_seconds 4000 < id_expiresAt sample_identity" "now_seconds 4000 < now_seconds 3000 + of_int (AUTHORIZATION_CODE_TTL_SECONDS sample_env)"
    "now_seconds 4000 < now_seconds 4000 + of_int (GATEWAY_SESSION_TTL_SECONDS sample_env)"
    "now_seconds 5000 < now_seconds 4000 + of_int (GATEWAY_SESSION_TTL_SECONDS sample_env)" "0 < GATEWAY_SESSION_TTL_SECONDS sample_env"
    by code_simp+
  from connector_logs_in_at_the_gateway [OF steps(1-4) wait steps(5) world urls drawn keycloak times(1-3) times(2) times(4-6)]
  obtain c s where "perform_login ?pf sample_endpoints ?w = Inr c" "cd_accessToken c = ''tok''"
    "fst (session_get (oc_tokenHash sample_config) (now_seconds 5000) (cd_accessToken c) (os_sessions (snd sample_redemption))) = Some s"
    "gs_subject s = id_subject sample_identity" by blast
  then show ?thesis by (intro exI [of _ c] exI [of _ s]) (simp add: sample_identity_def)
qed

lemma login_uses_its_own_callback_witness:
  "\<exists>r. lw_callbacks sample_login_world = [r] \<and> cr_query r ''state'' = Some ''s''
    \<and> cd_accessToken (case perform_login sample_broker_platform sample_endpoints sample_login_world of Inr c \<Rightarrow> c) \<noteq> []"
proof -
  have w: "lw_state sample_login_world = ''s''" "length (lw_callbacks sample_login_world) = 1" by (simp_all add: sample_login_world_def)
  have ok: "perform_login sample_broker_platform sample_endpoints sample_login_world
      = Inr (case perform_login sample_broker_platform sample_endpoints sample_login_world of Inr c \<Rightarrow> c)"
    by code_simp
  have state: "lw_state sample_login_world \<noteq> []" by (simp add: w)
  obtain pre r post where "lw_callbacks sample_login_world = pre @ r # post" "cr_query r ''state'' = Some (lw_state sample_login_world)"
    "cd_accessToken (case perform_login sample_broker_platform sample_endpoints sample_login_world of Inr c \<Rightarrow> c) \<noteq> []"
    using login_uses_its_own_callback [OF ok state] by (elim exE conjE) (rule that)
  moreover from this(1) w(2) have "pre = []" "post = []" by (cases pre; cases post; simp)+
  ultimately show ?thesis by (simp add: w(1))
qed

end
