(* ===== verification/Demo_Mcp.thy ===== *)
theory Demo_Mcp
  imports Runtime_Token_Exchange
begin

text \<open>
  \<^verbatim>\<open>idthw-demo-api-mcp/src/server.ts\<close> and \<^verbatim>\<open>tokenFile.ts\<close>: the MCP server behind the runtime proxy. It
  answers the methods of MCP, and for a call of a tool it calls the demo API with the token that the proxy
  published for this call, or with the client's own. The API is awaited, so a request is cut in two.
\<close>

section \<open>The token file\<close>

definition max_access_token_bytes :: nat where
  "max_access_token_bytes = 32 * 1024"

text \<open>\<^verbatim>\<open>resolve\<close> of \<^verbatim>\<open>node:path\<close>, with the working directory; and \<^verbatim>\<open>relative\<close> of two resolved paths.\<close>

definition path_resolve :: "string \<Rightarrow> string \<Rightarrow> string list" where
  "path_resolve cwd p =
     normalize_segments [] (split_char CHR ''/'' (if starts_with ''/'' p then p else cwd @ ''/'' @ p))"

fun path_relative :: "string list \<Rightarrow> string list \<Rightarrow> string list" where
  "path_relative (r # rs) (c # cs) = (if r = c then path_relative rs cs else replicate (length (r # rs)) ''..'' @ c # cs)"
| "path_relative rs cs = replicate (length rs) ''..'' @ cs"

text \<open>\<^verbatim>\<open>/^[a-f0-9-]{36}\.jwt$/\<close>\<close>

definition is_token_file_name :: "string \<Rightarrow> bool" where
  "is_token_file_name s \<longleftrightarrow> length s = 40 \<and> list_all is_id_char (take 36 s) \<and> drop 36 s = ''.jwt''"

text \<open>\<^verbatim>\<open>/^[A-Za-z0-9_-]+\.[A-Za-z0-9_-]+\.[A-Za-z0-9_-]+$/\<close>\<close>

definition is_compact_jwt :: "string \<Rightarrow> bool" where
  "is_compact_jwt s \<longleftrightarrow> length (split_char CHR ''.'' s) = 3
     \<and> list_all (\<lambda>p. p \<noteq> [] \<and> list_all is_base64url p) (split_char CHR ''.'' s)"

definition delegated_token_path :: "unknown \<Rightarrow> string \<Rightarrow> string \<Rightarrow> string \<Rightarrow> (string, string) result" where
  "delegated_token_path meta toolName cwd tokenDirectory =
     (case as_record meta of
        None \<Rightarrow> Inl ''This tool call requires delegated access-token metadata from MCP Runtime Proxy.''
      | Some fs \<Rightarrow>
          (case as_string (map_of fs access_token_file_meta_key) of
             None \<Rightarrow> Inl ''This tool call has no delegated access-token file.''
           | Some p \<Rightarrow>
               if p = [] then Inl ''This tool call has no delegated access-token file.''
               else
                 let candidate = path_resolve cwd p; below = path_relative (path_resolve cwd tokenDirectory) candidate in
                 if \<not> starts_with ''/'' p \<or> below = [] \<or> hd below = ''..''
                 then Inl ''The delegated access-token file path is outside the configured directory.''
                 else if length below \<noteq> 2 \<or> below ! 0 \<noteq> toolName \<or> \<not> is_token_file_name (below ! 1)
                 then Inl ''The delegated access-token file does not match this tool call.''
                 else Inr (path_of_segments candidate)))"

definition read_delegated_access_token ::
  "unknown \<Rightarrow> string \<Rightarrow> string \<Rightarrow> string \<Rightarrow> file_system \<Rightarrow> (string, string) result" where
  "read_delegated_access_token meta toolName cwd tokenDirectory fs =
     ebind (delegated_token_path meta toolName cwd tokenDirectory) (\<lambda>path.
       case map_of (fs_files fs) path of
         None \<Rightarrow> Inl (''ENOENT: no such file or directory, open '' @ path)
       | Some content \<Rightarrow>
           let token = trim content in
           if token = [] \<or> byte_length token > max_access_token_bytes \<or> \<not> is_compact_jwt token
           then Inl ''The delegated access-token file is invalid.'' else Inr token)"

text \<open>\<^verbatim>\<open>/^Bearer +([A-Za-z0-9._~+\/-]+=*)$/i\<close>\<close>

definition request_access_token :: "string option \<Rightarrow> (string, string) result" where
  "request_access_token authorization =
     (let a = (case authorization of None \<Rightarrow> [] | Some s \<Rightarrow> s); rest = drop 6 a;
          token = dropWhile (\<lambda>c. c = CHR '' '') rest;
          is_token_char = (\<lambda>c. is_alnum c \<or> c \<in> set ''._~+/-'') in
      if to_lower (take 6 a) = ''bearer'' \<and> rest \<noteq> [] \<and> hd rest = CHR '' '' \<and> takeWhile is_token_char token \<noteq> []
         \<and> list_all (\<lambda>c. c = CHR ''='') (dropWhile is_token_char token)
      then Inr token
      else Inl ''Pass an API access token as Authorization: Bearer <token>, or supply token file metadata from MCP Runtime Proxy to call the API.'')"

section \<open>Tools\<close>

record demo_tool =
  tl_name :: string
  tl_scope :: string
  tl_title :: string
  tl_description :: string
  tl_method :: string
  tl_inputSchema :: json

definition object_schema :: "(string \<times> json) list \<Rightarrow> json" where
  "object_schema extra = JObj ([(''type'', JStr ''object''), (''additionalProperties'', JBool False)] @ extra)"

definition demo_tools :: "demo_tool list" where
  "demo_tools =
     [\<lparr>tl_name = ''get_k8s_docs'', tl_scope = ''api:role.docs-getter'', tl_title = ''Get Kubernetes Documents'',
       tl_description = ''Get the list of documents from the protected Kubernetes Docs API.'', tl_method = ''GET'',
       tl_inputSchema = object_schema []\<rparr>,
      \<lparr>tl_name = ''post_k8s_doc'', tl_scope = ''api:role.docs-poster'', tl_title = ''Post Kubernetes Document'',
       tl_description = ''Create a document in the protected Kubernetes Docs API.'', tl_method = ''POST'',
       tl_inputSchema = object_schema
         [(''properties'', JObj [(''name'', JObj [(''type'', JStr ''string''), (''description'', JStr ''Document title'')]),
            (''content'', JObj [(''type'', JStr ''string''), (''description'', JStr ''Document content'')])]),
          (''required'', JArr [JStr ''name'', JStr ''content''])]\<rparr>,
      \<lparr>tl_name = ''delete_k8s_doc'', tl_scope = ''api:role.docs-deleter'', tl_title = ''Delete Kubernetes Document'',
       tl_description = ''Delete a document from the protected Kubernetes Docs API by numeric ID.'', tl_method = ''DELETE'',
       tl_inputSchema = object_schema
         [(''properties'', JObj [(''doc_id'', JObj [(''type'', JStr ''integer''), (''minimum'', JNum (Finite 1)),
            (''description'', JStr ''Numeric document ID'')])]),
          (''required'', JArr [JStr ''doc_id''])]\<rparr>]"

definition find_tool :: "string \<Rightarrow> demo_tool option" where
  "find_tool name = find (\<lambda>t. tl_name t = name) demo_tools"

text \<open>
  The platform: \<^verbatim>\<open>new URL(text, base)\<close>, \<^verbatim>\<open>JSON.parse\<close>, \<^verbatim>\<open>JSON.stringify\<close> (plain and indented), and the
  text of a number in an address, \<^verbatim>\<open>encodeURIComponent(String(n))\<close>.
\<close>

record demo_platform =
  dp_resolve :: "string \<Rightarrow> string \<Rightarrow> url option"
  dp_upstreamUrl :: "string \<Rightarrow> url option"
  dp_parse :: "string \<Rightarrow> json option"
  dp_stringify :: "json \<Rightarrow> string"
  dp_pretty :: "json \<Rightarrow> string"
  dp_number :: "rat \<Rightarrow> string"

text \<open>\<^verbatim>\<open>positiveDocumentId\<close>\<close>

definition positive_document_id :: "demo_platform \<Rightarrow> unknown \<Rightarrow> (string, string) result" where
  "positive_document_id dp v =
     (case as_finite v of
        None \<Rightarrow> Inl ''doc_id must be a positive integer''
      | Some q \<Rightarrow> if is_integer q \<and> 1 \<le> q then Inr (dp_number dp q) else Inl ''doc_id must be a positive integer'')"

definition tool_path :: "demo_platform \<Rightarrow> demo_tool \<Rightarrow> fields \<Rightarrow> (string, string) result" where
  "tool_path dp tool args =
     (if tl_name tool = ''delete_k8s_doc''
      then ebind (positive_document_id dp (map_of args ''doc_id'')) (\<lambda>n. Inr (''/api/docs/'' @ n))
      else Inr ''/api/docs'')"

text \<open>\<^verbatim>\<open>JSON.stringify\<close> leaves out the fields that are \<^verbatim>\<open>undefined\<close>; here none is.\<close>

definition tool_body :: "demo_tool \<Rightarrow> fields \<Rightarrow> json option" where
  "tool_body tool args =
     (if tl_name tool = ''post_k8s_doc''
      then Some (JObj (List.map_filter (\<lambda>name. map_option (\<lambda>v. (name, v)) (map_of args name)) [''name'', ''content'']))
      else None)"

definition non_blank :: "unknown \<Rightarrow> bool" where
  "non_blank v = (case as_string v of None \<Rightarrow> False | Some s \<Rightarrow> trim s \<noteq> [])"

definition validate_arguments :: "demo_platform \<Rightarrow> demo_tool \<Rightarrow> fields \<Rightarrow> (string, unit) result" where
  "validate_arguments dp tool args =
     (if tl_name tool = ''post_k8s_doc'' \<and> \<not> non_blank (map_of args ''name'') then Inl ''name must be a non-empty string''
      else if tl_name tool = ''post_k8s_doc'' \<and> \<not> non_blank (map_of args ''content'') then Inl ''content must be a non-empty string''
      else if tl_name tool = ''delete_k8s_doc'' then ebind (positive_document_id dp (map_of args ''doc_id'')) (\<lambda>_. Inr ())
      else Inr ())"

section \<open>Requests\<close>

record demo_request =
  dr_method :: string
  dr_url :: string
  dr_host :: "string option"
  dr_authorization :: "string option"
  dr_chunks :: "string list"

record demo_mcp_config =
  dm_requiredMcpScope :: string
  dm_tokenDirectory :: string
  dm_cwd :: string

definition check_upstream :: "url \<Rightarrow> (string, unit) result" where
  "check_upstream u =
     (if url_protocol u \<noteq> ''http:'' \<and> url_protocol u \<noteq> ''https:'' then Inl ''UPSTREAM_BASE_URL must use HTTP or HTTPS''
      else if url_username u \<noteq> [] \<or> url_password u \<noteq> [] then Inl ''UPSTREAM_BASE_URL must not contain credentials''
      else Inr ())"

definition demo_json :: "int \<Rightarrow> out_headers \<Rightarrow> json \<Rightarrow> reply" where
  "demo_json code hs v = reply_json code (hs @ [(''content-type'', ''application/json; charset=utf-8''), no_store]) v"

definition rpc_result :: "json \<Rightarrow> json \<Rightarrow> json" where
  "rpc_result i r = JObj [(''jsonrpc'', JStr ''2.0''), (''id'', i), (''result'', r)]"

definition rpc_error :: "json \<Rightarrow> int \<Rightarrow> string \<Rightarrow> json" where
  "rpc_error i code message = JObj [(''jsonrpc'', JStr ''2.0''), (''id'', i),
     (''error'', JObj [(''code'', JNum (Finite (of_int code))), (''message'', JStr message)])]"

definition record_value :: "unknown \<Rightarrow> fields" where
  "record_value v = (case as_record v of None \<Rightarrow> [] | Some fs \<Rightarrow> fs)"

definition read_json_rpc_message :: "demo_platform \<Rightarrow> string list \<Rightarrow> (string, fields) result" where
  "read_json_rpc_message dp chunks =
     (case read_limited (64 * 1024) 0 chunks of
        None \<Rightarrow> Inl ''MCP request body exceeds the size limit''
      | Some body \<Rightarrow> (case dp_parse dp body of Some (JObj fs) \<Rightarrow> Inr fs | _ \<Rightarrow> Inl ''Invalid JSON-RPC request''))"

definition open_api_spec :: "string \<Rightarrow> json" where
  "open_api_spec requiredMcpScope = JObj
     [(''openapi'', JStr ''3.1.0''), (''info'', JObj [(''title'', JStr ''IDTHW Demo API MCP''), (''version'', JStr ''0.1.0'')]),
      (''paths'', JObj (map (\<lambda>t. (''/tools/'' @ tl_name t, JObj [(''post'', JObj
         [(''operationId'', JStr (tl_name t)), (''summary'', JStr (tl_title t)), (''description'', JStr (tl_description t)),
          (''x-athenz-required-scope'', JStr (requiredMcpScope @ '' '' @ tl_scope t)),
          (''requestBody'', JObj [(''required'', JBool True),
             (''content'', JObj [(''application/json'', JObj [(''schema'', tl_inputSchema t)])])]),
          (''responses'', JObj [(''200'', JObj [(''description'', JStr ''MCP tool result with content, structuredContent, and isError'')])])])]))
        demo_tools))]"

text \<open>A call of the API.\<close>

record api_call =
  da_id :: json
  da_method :: string
  da_url :: url
  da_headers :: out_headers
  da_body :: "string option"

text \<open>The call of a tool, from its parameters; the file is read when the rest has been checked.\<close>

definition docs_tool_call ::
  "demo_platform \<Rightarrow> demo_mcp_config \<Rightarrow> file_system \<Rightarrow> string option \<Rightarrow> json \<Rightarrow> fields \<Rightarrow> demo_tool \<Rightarrow> (string, api_call) result" where
  "docs_tool_call dp cfg fs authorization i params tool =
     (let args = record_value (map_of params ''arguments'') in
      ebind (validate_arguments dp tool args) (\<lambda>_.
      ebind (tool_path dp tool args) (\<lambda>path.
      ebind (case dp_upstreamUrl dp path of None \<Rightarrow> Inl ''Invalid URL'' | Some u \<Rightarrow> Inr u) (\<lambda>upstreamUrl.
      ebind (if map_of (record_value (map_of params ''_meta'')) access_token_file_meta_key \<noteq> None
             then read_delegated_access_token (map_of params ''_meta'') (tl_name tool) (dm_cwd cfg) (dm_tokenDirectory cfg) fs
             else request_access_token authorization) (\<lambda>accessToken.
      let body = map_option (dp_stringify dp) (tool_body tool args);
          headers = [(''Accept'', ''application/json, text/plain, */*''), (''Authorization'', ''Bearer '' @ accessToken)]
      in Inr \<lparr>da_id = i, da_method = tl_method tool, da_url = upstreamUrl,
              da_headers = headers @ (case body of None \<Rightarrow> [] | Some _ \<Rightarrow> [(''Content-Type'', ''application/json'')]), da_body = body\<rparr>)))))"

definition server_info :: json where
  "server_info = JObj [(''name'', JStr ''idthw-demo-api-mcp''), (''title'', JStr ''IDTHW Demo API MCP''), (''version'', JStr ''0.1.0'')]"

text \<open>A JSON-RPC message: a reply, or the call of the API; \<open>Inl\<close> with the message's id for the \<^verbatim>\<open>catch\<close>.\<close>

datatype mcp_step = Mcp_Reply reply | Mcp_Call api_call

definition handle_message ::
  "demo_platform \<Rightarrow> demo_mcp_config \<Rightarrow> file_system \<Rightarrow> string option \<Rightarrow> fields \<Rightarrow> mcp_step" where
  "handle_message dp cfg fs authorization message =
     (case map_of message ''id'' of
        None \<Rightarrow> Mcp_Reply \<lparr>rp_status = 202, rp_headers = [], rp_body = Empty_Body\<rparr>
      | Some i \<Rightarrow>
          (case as_string (map_of message ''method'') of
             None \<Rightarrow> Mcp_Reply (demo_json 400 [] (rpc_error i (- 32600) ''Invalid JSON-RPC request''))
           | Some name \<Rightarrow>
               if map_of message ''jsonrpc'' \<noteq> Some (JStr ''2.0'')
               then Mcp_Reply (demo_json 400 [] (rpc_error i (- 32600) ''Invalid JSON-RPC request''))
               else if name = ''initialize''
               then Mcp_Reply (demo_json 200 [] (rpc_result i (JObj
                 [(''protocolVersion'', JStr (case as_string (map_of (record_value (map_of message ''params'')) ''protocolVersion'') of
                     None \<Rightarrow> ''2025-03-26'' | Some v \<Rightarrow> v)),
                  (''capabilities'', JObj [(''tools'', JObj [(''listChanged'', JBool False)])]), (''serverInfo'', server_info)])))
               else if name = ''ping'' then Mcp_Reply (demo_json 200 [] (rpc_result i (JObj [])))
               else if name = ''tools/list''
               then Mcp_Reply (demo_json 200 [] (rpc_result i (JObj [(''tools'', JArr (map (\<lambda>t. JObj
                 [(''name'', JStr (tl_name t)), (''title'', JStr (tl_title t)), (''description'', JStr (tl_description t)),
                  (''inputSchema'', tl_inputSchema t)]) demo_tools))])))
               else if name \<noteq> ''tools/call''
               then Mcp_Reply (demo_json 200 [] (rpc_error i (- 32601) (''Method not found: '' @ name)))
               else
                 let params = record_value (map_of message ''params'') in
                 (case as_string (map_of params ''name'') of
                    None \<Rightarrow> Mcp_Reply (demo_json 200 [] (rpc_error i (- 32602) ''tools/call params.name must be a string''))
                  | Some toolName \<Rightarrow>
                      (case find_tool toolName of
                         None \<Rightarrow> Mcp_Reply (demo_json 200 [] (rpc_error i (- 32602) (''Unknown tool: '' @ toolName)))
                       | Some tool \<Rightarrow>
                           (case docs_tool_call dp cfg fs authorization i params tool of
                              Inl m \<Rightarrow> Mcp_Reply (demo_json 200 [] (rpc_error i (- 32603) m))
                            | Inr c \<Rightarrow> Mcp_Call c)))))"

definition demo_mcp_begin :: "demo_platform \<Rightarrow> demo_mcp_config \<Rightarrow> file_system \<Rightarrow> demo_request \<Rightarrow> mcp_step" where
  "demo_mcp_begin dp cfg fs req =
     (case dp_resolve dp (dr_url req) (''http://'' @ (case dr_host req of None \<Rightarrow> ''localhost'' | Some h \<Rightarrow> h)) of
        None \<Rightarrow> Mcp_Reply (demo_json 200 [] (rpc_error JNull (- 32603) ''Invalid URL''))
      | Some u \<Rightarrow>
          let path = url_pathname u; httpTool = find (\<lambda>t. path = ''/tools/'' @ tl_name t) demo_tools in
          if dr_method req = ''GET'' \<and> path = ''/healthz'' then Mcp_Reply (demo_json 200 [] (JObj [(''ok'', JBool True)]))
          else if dr_method req = ''GET'' \<and> path = ''/openapi.json''
          then Mcp_Reply (demo_json 200 [] (open_api_spec (dm_requiredMcpScope cfg)))
          else if path \<noteq> ''/mcp'' \<and> httpTool = None then Mcp_Reply (demo_json 404 [] (JObj [(''error'', JStr ''not_found'')]))
          else if dr_method req \<noteq> ''POST''
          then Mcp_Reply (demo_json 405 [(''allow'', ''POST'')] (JObj [(''error'', JStr ''method_not_allowed'')]))
          else case read_json_rpc_message dp (dr_chunks req) of
            Inl m \<Rightarrow> Mcp_Reply (demo_json 200 [] (rpc_error JNull (- 32603) m))
          | Inr incoming \<Rightarrow>
              handle_message dp cfg fs (dr_authorization req)
                (case httpTool of
                   None \<Rightarrow> incoming
                 | Some t \<Rightarrow> [(''jsonrpc'', JStr ''2.0''), (''id'', JNum (Finite 1)), (''method'', JStr ''tools/call''),
                     (''params'', JObj [(''name'', JStr (tl_name t)), (''arguments'', JObj incoming)])]))"

text \<open>The API's answer: a failure, or a status with its text.\<close>

datatype api_answer = Api_Failed string | Api_Answer int string

definition demo_mcp_end :: "demo_platform \<Rightarrow> api_call \<Rightarrow> api_answer \<Rightarrow> reply" where
  "demo_mcp_end dp c answer =
     (case answer of
        Api_Failed m \<Rightarrow> demo_json 200 [] (rpc_error (da_id c) (- 32603) m)
      | Api_Answer status t \<Rightarrow>
          let ok = (200 \<le> status \<and> status < 300);
              upstreamResult = JObj [(''status'', JNum (Finite (of_int status))), (''ok'', JBool ok),
                (''data'', case dp_parse dp t of None \<Rightarrow> JStr t | Some v \<Rightarrow> v)]
          in demo_json 200 [] (rpc_result (da_id c) (JObj
               [(''content'', JArr [JObj [(''type'', JStr ''text''), (''text'', JStr (dp_pretty dp upstreamResult))]]),
                (''structuredContent'', upstreamResult), (''isError'', JBool (\<not> ok))])))"

end
