(* ===== verification/Demo_Api.thy ===== *)
theory Demo_Api
  imports Runtime_Auth
begin

text \<open>
  \<^verbatim>\<open>idthw-demo-api/src/auth.ts\<close>, \<^verbatim>\<open>config.ts\<close> and \<^verbatim>\<open>server.ts\<close>: the protected documents. \<^verbatim>\<open>jose\<close> verifies
  the token; what it answers is an argument. The documents change in one step at the end of a request.
\<close>

section \<open>Access tokens\<close>

record api_denial =
  pd_status :: int
  pd_code :: string
  pd_message :: string

definition api_invalid_token :: api_denial where
  "api_invalid_token = \<lparr>pd_status = 401, pd_code = ''invalid_access_token'', pd_message = ''Access token is invalid or expired.''\<rparr>"

text \<open>
  What \<^verbatim>\<open>jwtVerify\<close> brings: the protected header and the claims, a rejection, a missing key, or a failure
  to load the keys with the error codes of its causes.
\<close>

datatype jose_answer =
    Jose_Verified fields fields
  | Jose_Rejected
  | Jose_No_Key
  | Jose_Keys_Failed "string option list"

definition untrusted_certificate_codes :: "string list" where
  "untrusted_certificate_codes = [''DEPTH_ZERO_SELF_SIGNED_CERT'', ''SELF_SIGNED_CERT_IN_CHAIN'', ''UNABLE_TO_VERIFY_LEAF_SIGNATURE'',
     ''UNABLE_TO_GET_ISSUER_CERT_LOCALLY'', ''UNABLE_TO_GET_ISSUER_CERT'', ''CERT_UNTRUSTED'']"

definition is_untrusted_certificate :: "string option list \<Rightarrow> bool" where
  "is_untrusted_certificate codes = list_ex (\<lambda>c. case c of None \<Rightarrow> False | Some s \<Rightarrow> s \<in> set untrusted_certificate_codes) codes"

definition check_jwks_url :: "bool \<Rightarrow> url \<Rightarrow> (string, unit) result" where
  "check_jwks_url allowInsecureHttp u =
     (if url_username u \<noteq> [] \<or> url_password u \<noteq> [] then Inl ''ATHENZ_JWKS_URL must not contain credentials''
      else if url_protocol u \<noteq> ''https:'' \<and> \<not> (allowInsecureHttp \<and> url_protocol u = ''http:'')
      then Inl ''ATHENZ_JWKS_URL must use HTTPS'' else Inr ())"

definition api_scope_values :: "unknown \<Rightarrow> (api_denial, string list) result" where
  "api_scope_values v =
     (case v of
        None \<Rightarrow> Inr []
      | Some (JStr s) \<Rightarrow> Inr (words s)
      | Some (JArr vs) \<Rightarrow> (case all_strings vs of None \<Rightarrow> Inl api_invalid_token | Some ss \<Rightarrow> Inr ss)
      | _ \<Rightarrow> Inl api_invalid_token)"

text \<open>\<^verbatim>\<open>/^Bearer (\S+)$/i\<close>\<close>

definition api_bearer_token :: "string option \<Rightarrow> (api_denial, string) result" where
  "api_bearer_token authorization =
     (case authorization of
        None \<Rightarrow> Inl \<lparr>pd_status = 401, pd_code = ''missing_access_token'',
           pd_message = ''Pass an Athenz access token as Authorization: Bearer <token>.''\<rparr>
      | Some a \<Rightarrow>
          if a = [] then Inl \<lparr>pd_status = 401, pd_code = ''missing_access_token'',
             pd_message = ''Pass an Athenz access token as Authorization: Bearer <token>.''\<rparr>
          else if length a > 32 * 1024 then Inl api_invalid_token
          else if to_lower (take 7 a) = ''bearer '' \<and> is_word (drop 7 a) then Inr (drop 7 a)
          else Inl api_invalid_token)"

definition non_blank_string :: "unknown \<Rightarrow> bool" where
  "non_blank_string v = (case as_string v of None \<Rightarrow> False | Some s \<Rightarrow> trim s \<noteq> [])"

definition verified_claims :: "jose_answer \<Rightarrow> (api_denial, fields) result" where
  "verified_claims answer =
     (case answer of
        Jose_Verified protectedHeader claims \<Rightarrow>
          (case as_string (map_of protectedHeader ''kid'') of
             None \<Rightarrow> Inl api_invalid_token
           | Some kid \<Rightarrow>
               if kid = [] \<or> \<not> non_blank_string (map_of claims ''iss'') \<or> \<not> non_blank_string (map_of claims ''sub'')
               then Inl api_invalid_token else Inr claims)
      | Jose_Rejected \<Rightarrow> Inl api_invalid_token
      | Jose_No_Key \<Rightarrow> Inl api_invalid_token
      | Jose_Keys_Failed codes \<Rightarrow> Inl
          (if is_untrusted_certificate codes
           then \<lparr>pd_status = 503, pd_code = ''zts_ca_untrusted'',
                 pd_message = ''Cannot verify the ZTS HTTPS certificate. Mount the CA certificate that signed it, set NODE_EXTRA_CA_CERTS to its path, and restart the API.''\<rparr>
           else \<lparr>pd_status = 503, pd_code = ''authentication_unavailable'', pd_message = ''Unable to load ZTS signing keys.''\<rparr>))"

text \<open>\<^verbatim>\<open>new Set(Array.isArray(claims.aud) ? claims.aud : [claims.aud])\<close>\<close>

definition audience_set :: "unknown \<Rightarrow> unknown set" where
  "audience_set v = (case v of Some (JArr vs) \<Rightarrow> Some ` set vs | _ \<Rightarrow> {v})"

definition short_api_scope :: "string \<Rightarrow> string" where
  "short_api_scope scope = (if starts_with ''api:role.'' scope then drop 9 scope else scope)"

definition api_verify :: "(string \<Rightarrow> jose_answer) \<Rightarrow> string option \<Rightarrow> string \<Rightarrow> (api_denial, unit) result" where
  "api_verify jose authorization requiredScope =
     ebind (api_bearer_token authorization) (\<lambda>token.
     ebind (verified_claims (jose token)) (\<lambda>claims.
     ebind (api_scope_values (map_of claims ''scope'')) (\<lambda>scope.
     ebind (api_scope_values (map_of claims ''scp'')) (\<lambda>scp.
     let scopes = scope @ scp in
     if requiredScope \<notin> set scopes \<and> \<not> (card (audience_set (map_of claims ''aud'')) = 1 \<and> short_api_scope requiredScope \<in> set scopes)
     then Inl \<lparr>pd_status = 403, pd_code = ''insufficient_scope'', pd_message = ''Access token must grant '' @ requiredScope @ ''.''\<rparr>
     else Inr ()))))"

text \<open>\<^verbatim>\<open>createConfiguredAccessTokenVerifier\<close>: whether tokens are checked.\<close>

definition access_token_enabled :: "string option \<Rightarrow> (string, bool) result" where
  "access_token_enabled mode =
     (case mode of
        None \<Rightarrow> Inr False
      | Some m \<Rightarrow> if m = ''true'' then Inr True else if m = ''false'' then Inr False
          else Inl ''ACCESS_TOKEN_ENABLED must be true or false'')"

section \<open>Documents\<close>

record demo_doc =
  dd_id :: nat
  dd_name :: string
  dd_content :: string

record demo_docs =
  ds_docs :: "(nat \<times> demo_doc) list"
  ds_sequence :: nat

definition initial_docs :: demo_docs where
  "initial_docs =
     \<lparr>ds_docs = [(1, \<lparr>dd_id = 1, dd_name = ''first default doc'', dd_content = ''hello world''\<rparr>),
                 (2, \<lparr>dd_id = 2, dd_name = ''second default doc'', dd_content = ''how are you?''\<rparr>)],
      ds_sequence = 2\<rparr>"

text \<open>A created document prints its id last; the two initial ones, 1 and 2, print it first.\<close>

definition doc_json :: "demo_doc \<Rightarrow> json" where
  "doc_json d =
     (let i = (''id'', JNum (Finite (of_nat (dd_id d)))); rest = [(''name'', JStr (dd_name d)), (''content'', JStr (dd_content d))]
      in JObj (if dd_id d \<le> 2 then i # rest else rest @ [i]))"

definition required_scope :: "string \<Rightarrow> string" where
  "required_scope verb =
     (if verb = ''GET'' then ''api:role.docs-getter'' else if verb = ''POST'' then ''api:role.docs-poster'' else ''api:role.docs-deleter'')"

text \<open>\<^verbatim>\<open>/^\/api\/docs(?:\/([^/]+))?\/?$/\<close>: no match, or the optional segment.\<close>

definition docs_route :: "string \<Rightarrow> string option option" where
  "docs_route path =
     (if \<not> starts_with ''/api/docs'' path then None
      else let rest = drop 9 path in
        if rest = [] \<or> rest = ''/'' then Some None
        else if hd rest \<noteq> CHR ''/'' then None
        else let seg = takeWhile (\<lambda>c. c \<noteq> CHR ''/'') (tl rest); after = dropWhile (\<lambda>c. c \<noteq> CHR ''/'') (tl rest) in
          if seg \<noteq> [] \<and> (after = [] \<or> after = ''/'') then Some (Some seg) else None)"

definition number_of_digits :: "string \<Rightarrow> nat" where
  "number_of_digits s = foldl (\<lambda>n c. 10 * n + (of_char c - 48)) 0 s"

text \<open>A positive safe integer, as text.\<close>

definition document_id :: "string option \<Rightarrow> nat option" where
  "document_id v =
     (case v of
        None \<Rightarrow> None
      | Some s \<Rightarrow>
          if s \<noteq> [] \<and> list_all is_digit s \<and> number_of_digits s < 2 ^ 53 \<and> 1 \<le> number_of_digits s then Some (number_of_digits s) else None)"

definition read_document :: "(string \<Rightarrow> json option) \<Rightarrow> string list \<Rightarrow> (int \<times> string, string \<times> string) result" where
  "read_document parse chunks =
     (case read_limited (64 * 1024) 0 chunks of
        None \<Rightarrow> Inl (413, ''Document body exceeds 64 KiB.'')
      | Some body \<Rightarrow>
          (case parse body of
             None \<Rightarrow> Inl (400, ''Request body must be a JSON document.'')
           | Some v \<Rightarrow>
               (case as_record (Some v) of
                  None \<Rightarrow> Inl (400, ''Document name and content must be non-empty strings.'')
                | Some fs \<Rightarrow>
                    (case (as_string (map_of fs ''name''), as_string (map_of fs ''content'')) of
                       (Some name, Some content) \<Rightarrow>
                         if trim name = [] \<or> trim content = [] then Inl (400, ''Document name and content must be non-empty strings.'')
                         else Inr (name, content)
                     | _ \<Rightarrow> Inl (400, ''Document name and content must be non-empty strings.'')))))"

definition api_json :: "int \<Rightarrow> out_headers \<Rightarrow> json \<Rightarrow> reply" where
  "api_json code hs v = reply_json code (hs @ [(''content-type'', ''application/json; charset=utf-8''), no_store]) v"

definition api_error :: "string \<Rightarrow> string \<Rightarrow> json" where
  "api_error code message = JObj [(''error'', JStr code), (''message'', JStr message)]"

definition api_denial_reply :: "api_denial \<Rightarrow> reply" where
  "api_denial_reply d =
     (let q = CHR 0x22;
          reason = (if pd_status d = 403 then ''insufficient_scope'' else ''invalid_token'');
          challenge = ''Bearer realm='' @ q # ''idthw-demo-api'' @ q # '', error='' @ q # reason @ [q] in
      api_json (pd_status d) (if pd_status d = 401 \<or> pd_status d = 403 then [(''www-authenticate'', challenge)] else [])
        (api_error (pd_code d) (pd_message d)))"

definition create_document :: "string \<Rightarrow> string \<Rightarrow> demo_docs \<Rightarrow> demo_doc \<times> demo_docs" where
  "create_document name content st =
     (let i = Suc (ds_sequence st); doc = \<lparr>dd_id = i, dd_name = name, dd_content = content\<rparr>
      in (doc, \<lparr>ds_docs = AList.update i doc (ds_docs st), ds_sequence = i\<rparr>))"

record api_request =
  ar_method :: string
  ar_url :: string
  ar_authorization :: "string option"
  ar_chunks :: "string list"

text \<open>The request once it is authorized.\<close>

definition serve_documents ::
  "(string \<Rightarrow> json option) \<Rightarrow> string \<Rightarrow> string option \<Rightarrow> string list \<Rightarrow> demo_docs \<Rightarrow> reply \<times> demo_docs" where
  "serve_documents parse verb segment chunks st =
     (if verb = ''GET''
      then (api_json 200 [] (JObj [(''docs'', JArr (map (\<lambda>(_, d). doc_json d) (ds_docs st)))]), st)
      else if verb = ''POST''
      then (case read_document parse chunks of
              Inl (code, m) \<Rightarrow> (api_json code [] (api_error ''bad_request'' m), st)
            | Inr (name, content) \<Rightarrow>
                let (doc, st') = create_document name content st in
                (api_json 201 [] (JObj [(''success'', JBool True), (''doc'', doc_json doc)]), st'))
      else (case document_id segment of
              None \<Rightarrow> (api_json 400 [] (api_error ''bad_request'' ''A positive document ID is required in /api/docs/{doc_id}.''), st)
            | Some i \<Rightarrow>
                if map_of (ds_docs st) i = None
                then (api_json 404 [] (api_error ''Not Found'' (''Document with id '' @ nat_text i @ '' does not exist or is already deleted.'')), st)
                else (api_json 200 [] (JObj [(''success'', JBool True), (''message'', JStr (''Document '' @ nat_text i @ '' deleted successfully.''))]),
                      st\<lparr>ds_docs := AList.delete i (ds_docs st)\<rparr>)))"

definition allowed_methods :: "string option \<Rightarrow> string list" where
  "allowed_methods segment = (case segment of None \<Rightarrow> [''GET'', ''POST'', ''DELETE''] | Some _ \<Rightarrow> [''DELETE''])"

text \<open>\<open>verify\<close> is \<^const>\<open>None\<close> where access tokens are not enabled.\<close>

definition check_access :: "(string \<Rightarrow> jose_answer) option \<Rightarrow> api_request \<Rightarrow> (api_denial, unit) result" where
  "check_access verify req =
     (case verify of
        None \<Rightarrow> Inr ()
      | Some jose \<Rightarrow> api_verify jose (ar_authorization req) (required_scope (ar_method req)))"

definition demo_api_handle ::
  "(string \<Rightarrow> json option) \<Rightarrow> (string \<Rightarrow> jose_answer) option \<Rightarrow> api_request \<Rightarrow> demo_docs \<Rightarrow> reply \<times> demo_docs" where
  "demo_api_handle parse verify req st =
     (let path = takeWhile (\<lambda>c. c \<noteq> CHR ''?'') (ar_url req); verb = ar_method req in
      if verb = ''GET'' \<and> path = ''/healthz''
      then (api_json 200 [] (JObj [(''ok'', JBool True), (''accessTokenEnabled'', JBool (verify \<noteq> None))]), st)
      else case docs_route path of
        None \<Rightarrow> (api_json 404 [] (JObj [(''error'', JStr ''not_found'')]), st)
      | Some segment \<Rightarrow>
          if verb \<notin> set (allowed_methods segment)
          then (api_json 405 [(''allow'', join '', '' (allowed_methods segment))] (JObj [(''error'', JStr ''method_not_allowed'')]), st)
          else case check_access verify req of
            Inl d \<Rightarrow> (api_denial_reply d, st)
          | Inr _ \<Rightarrow> serve_documents parse verb segment (ar_chunks req) st)"

end
