(* ===== verification/Demo_Docs.thy ===== *)
theory Demo_Docs
  imports Demo_Api
begin

text \<open>
  Runs of the demo API: requests in any order from the two initial documents. The observed changes of
  the documents are recorded with the Authorization header of the request.
\<close>

section \<open>Changes\<close>

datatype docs_event = Doc_Created demo_doc | Doc_Deleted nat

text \<open>What changed between two states: the sequence moved, or a document is gone.\<close>

definition docs_change :: "demo_docs \<Rightarrow> demo_docs \<Rightarrow> docs_event option" where
  "docs_change st st' =
     (if ds_sequence st' \<noteq> ds_sequence st then map_option Doc_Created (map_of (ds_docs st') (ds_sequence st'))
      else map_option Doc_Deleted (find (\<lambda>i. map_of (ds_docs st') i = None) (map fst (ds_docs st))))"

type_synonym docs_history = "(string option \<times> string \<times> docs_event) list"

inductive api_run :: "(string \<Rightarrow> json option) \<Rightarrow> (string \<Rightarrow> jose_answer) option \<Rightarrow> demo_docs \<Rightarrow> docs_history \<Rightarrow> bool" for parse verify where
  Initial: "api_run parse verify initial_docs []"
| Request: "api_run parse verify st h \<Longrightarrow> demo_api_handle parse verify req st = (r, st') \<Longrightarrow>
    api_run parse verify st' (case docs_change st st' of None \<Rightarrow> h | Some e \<Rightarrow> h @ [(ar_authorization req, ar_method req, e)])"

text \<open>The documents that a history leaves, and the ids it has created.\<close>

fun apply_event :: "docs_event \<Rightarrow> (nat \<rightharpoonup> demo_doc) \<Rightarrow> nat \<rightharpoonup> demo_doc" where
  "apply_event (Doc_Created d) m = m(dd_id d \<mapsto> d)"
| "apply_event (Doc_Deleted i) m = m(i := None)"

fun created_ids :: "docs_event list \<Rightarrow> nat list" where
  "created_ids [] = []"
| "created_ids (Doc_Created d # es) = dd_id d # created_ids es"
| "created_ids (Doc_Deleted i # es) = created_ids es"

lemma created_ids_append [simp]: "created_ids (es @ es') = created_ids es @ created_ids es'"
  by (induction es rule: created_ids.induct) simp_all

section \<open>A request\<close>

lemma api_verify_Inr:
  "api_verify jose authorization scope = Inr u \<longleftrightarrow>
   (\<exists>token hdr claims s1 s2. api_bearer_token authorization = Inr token \<and> jose token = Jose_Verified hdr claims
     \<and> verified_claims (jose token) = Inr claims \<and> api_scope_values (map_of claims ''scope'') = Inr s1
     \<and> api_scope_values (map_of claims ''scp'') = Inr s2
     \<and> (scope \<in> set s1 \<union> set s2 \<or> card (audience_set (map_of claims ''aud'')) = 1 \<and> short_api_scope scope \<in> set s1 \<union> set s2))"
proof -
  have "\<exists>hdr. jose token = Jose_Verified hdr claims" if "verified_claims (jose token) = Inr claims" for token claims
    using that by (cases "jose token") (auto simp: verified_claims_def split: option.splits if_splits)
  then show ?thesis unfolding api_verify_def Let_def ebind_eq_Inr by (auto split: if_splits)
qed

text \<open>What a request that is not for the health check does, once it is answered with success.\<close>

lemma handled_request:
  assumes "demo_api_handle parse verify req st = (r, st')"
  obtains (untouched) "st' = st" "rp_status r \<noteq> 201" "rp_status r = 200 \<Longrightarrow> ar_method req = ''GET'' \<and> takeWhile (\<lambda>c. c \<noteq> CHR ''?'') (ar_url req) = ''/healthz''"
  | (served) segment where "\<And>jose. verify = Some jose \<Longrightarrow> \<exists>u. api_verify jose (ar_authorization req) (required_scope (ar_method req)) = Inr u"
      "serve_documents parse (ar_method req) segment (ar_chunks req) st = (r, st')"
proof -
  let ?path = "takeWhile (\<lambda>c. c \<noteq> CHR ''?'') (ar_url req)"
  have denial: "rp_status (api_denial_reply d) = pd_status d" for d by (simp add: api_denial_reply_def Let_def api_json_def reply_json_def)
  have codes: "pd_status d \<noteq> 200 \<and> pd_status d \<noteq> 201" if "api_verify jose a s = Inl d" for jose a s d
  proof -
    have b: "api_bearer_token a = Inl d \<Longrightarrow> pd_status d = 401"
      by (auto simp: api_bearer_token_def api_invalid_token_def split: option.splits if_splits)
    have v: "verified_claims j = Inl d \<Longrightarrow> pd_status d = 401 \<or> pd_status d = 503" for j
      by (auto simp: verified_claims_def api_invalid_token_def split: jose_answer.splits option.splits if_splits)
    have s: "api_scope_values x = Inl d \<Longrightarrow> pd_status d = 401" for x
      by (cases x) (auto simp: api_scope_values_def api_invalid_token_def split: json.splits option.splits)
    from that b v s show ?thesis unfolding api_verify_def Let_def by (auto simp: ebind_eq_Inl split: if_splits) fastforce+
  qed
  show thesis
  proof (cases "ar_method req = ''GET'' \<and> ?path = ''/healthz'' \<or> docs_route ?path = None")
    case True
    with assms show thesis
      by (intro untouched) (auto simp: demo_api_handle_def Let_def api_json_def reply_json_def split: if_splits)
  next
    case False
    then obtain segment where seg: "docs_route ?path = Some segment" by auto
    show thesis
    proof (cases "ar_method req \<in> set (allowed_methods segment)")
      case True
      show thesis
      proof (cases "check_access verify req")
        case (Inl d)
        then have "pd_status d \<noteq> 200 \<and> pd_status d \<noteq> 201" by (auto simp: check_access_def dest: codes split: option.splits)
        moreover from Inl False seg True assms have "(r, st') = (api_denial_reply d, st)"
          unfolding demo_api_handle_def Let_def by (auto split: if_splits)
        ultimately show thesis by (intro untouched) (auto simp: denial)
      next
        case (Inr u)
        with False seg True assms have "serve_documents parse (ar_method req) segment (ar_chunks req) st = (r, st')"
          unfolding demo_api_handle_def Let_def by (auto split: if_splits)
        with Inr show thesis by (intro served) (auto simp: check_access_def)
      qed
    next
      case no: False
      with False seg assms have "(r, st') = (api_json 405 [(''allow'', join '', '' (allowed_methods segment))]
          (JObj [(''error'', JStr ''method_not_allowed'')]), st)"
        unfolding demo_api_handle_def Let_def by (auto split: if_splits)
      then show thesis by (intro untouched) (auto simp: api_json_def reply_json_def)
    qed
  qed
qed

section \<open>Runs\<close>

definition docs_ok :: "demo_docs \<Rightarrow> bool" where
  "docs_ok st \<longleftrightarrow> distinct (map fst (ds_docs st)) \<and> 2 \<le> ds_sequence st
     \<and> (\<forall>i d. map_of (ds_docs st) i = Some d \<longrightarrow> dd_id d = i \<and> 1 \<le> i \<and> i \<le> ds_sequence st)"

text \<open>The method that makes a change.\<close>

fun verb_of :: "docs_event \<Rightarrow> string" where
  "verb_of (Doc_Created _) = ''POST''"
| "verb_of (Doc_Deleted _) = ''DELETE''"

lemma docs_unchanged: "docs_change st st = None"
  by (auto simp: docs_change_def find_None_iff map_of_eq_None_iff)

lemma docs_created:
  "docs_change st (snd (create_document name content st)) =
   Some (Doc_Created \<lparr>dd_id = Suc (ds_sequence st), dd_name = name, dd_content = content\<rparr>)"
  by (simp add: docs_change_def create_document_def Let_def update_conv')

lemma docs_deleted:
  assumes "map_of (ds_docs st) i \<noteq> None"
  shows "docs_change st (st\<lparr>ds_docs := AList.delete i (ds_docs st)\<rparr>) = Some (Doc_Deleted i)"
proof -
  have gone: "map_of (AList.delete i (ds_docs st)) j = None \<longleftrightarrow> j = i \<or> map_of (ds_docs st) j = None" for j
    by (simp add: delete_conv')
  from assms have "i \<in> set (map fst (ds_docs st))" by (metis map_of_eq_None_iff set_map)
  then have "find (\<lambda>j. map_of (AList.delete i (ds_docs st)) j = None) (map fst (ds_docs st)) \<noteq> None"
    by (auto simp: find_None_iff gone)
  then obtain j where j: "find (\<lambda>j. map_of (AList.delete i (ds_docs st)) j = None) (map fst (ds_docs st)) = Some j" by blast
  then have "j \<in> set (map fst (ds_docs st))" "map_of (AList.delete i (ds_docs st)) j = None"
    by (auto simp: find_Some_iff)
  then have "map_of (ds_docs st) j \<noteq> None" "j = i \<or> map_of (ds_docs st) j = None"
    by (metis map_of_eq_None_iff set_map, simp add: gone)
  then have "j = i" by (cases "map_of (ds_docs st) j") auto
  with j show ?thesis by (simp add: docs_change_def)
qed

text \<open>One served request: nothing changes, or a document is created, or one is deleted.\<close>

lemma served_request:
  assumes "serve_documents parse verb segment chunks st = (r, st')"
  shows "st' = st \<or> (\<exists>name content. verb = ''POST'' \<and> st' = snd (create_document name content st))
    \<or> (\<exists>i. verb \<noteq> ''POST'' \<and> verb \<noteq> ''GET'' \<and> map_of (ds_docs st) i \<noteq> None \<and> st' = st\<lparr>ds_docs := AList.delete i (ds_docs st)\<rparr>)"
  using assms unfolding serve_documents_def
  by (auto simp: case_prod_beta Let_def split: if_splits sum.splits option.splits)

lemma served_method:
  assumes "demo_api_handle parse verify req st = (r, st')" "st' \<noteq> st"
  shows "ar_method req \<in> {''GET'', ''POST'', ''DELETE''}"
  using assms unfolding demo_api_handle_def allowed_methods_def Let_def
  by (auto split: if_splits option.splits)

lemma change_of_request:
  assumes "demo_api_handle parse verify req st = (r, st')" "docs_ok st"
  shows "docs_ok st' \<and>
    (case docs_change st st' of
       None \<Rightarrow> st' = st
     | Some e \<Rightarrow> verb_of e = ar_method req
         \<and> (\<forall>jose. verify = Some jose \<longrightarrow> api_verify jose (ar_authorization req) (required_scope (ar_method req)) = Inr ())
         \<and> map_of (ds_docs st') = apply_event e (map_of (ds_docs st))
         \<and> ds_sequence st \<le> ds_sequence st' \<and> [Suc (ds_sequence st)..<Suc (ds_sequence st')] = created_ids [e])"
proof (cases "st' = st")
  case True
  with assms(2) show ?thesis by (simp add: docs_unchanged)
next
  case False
  from assms(1) show ?thesis
  proof (cases rule: handled_request)
    case (served segment)
    from served(1) have access: "\<forall>jose. verify = Some jose \<longrightarrow>
        api_verify jose (ar_authorization req) (required_scope (ar_method req)) = Inr ()" by auto
    from served_request [OF served(2)] False consider
        (post) name content where "ar_method req = ''POST''" "st' = snd (create_document name content st)"
      | (delete) i where "ar_method req \<noteq> ''POST''" "ar_method req \<noteq> ''GET''" "map_of (ds_docs st) i \<noteq> None"
          "st' = st\<lparr>ds_docs := AList.delete i (ds_docs st)\<rparr>" by blast
    then show ?thesis
    proof cases
      case post
      have "docs_ok st'" using assms(2) post(2)
        by (auto simp: docs_ok_def create_document_def Let_def update_conv' distinct_update le_Suc_eq split: if_splits)
      with post access show ?thesis
        by (simp add: docs_created) (simp add: create_document_def Let_def update_conv')
    next
      case delete
      have "docs_ok st'" using assms(2) delete(4)
        by (auto simp: docs_ok_def delete_conv' distinct_delete split: if_splits)
      moreover from served_method [OF assms(1) False] delete have "ar_method req = ''DELETE''" by auto
      ultimately show ?thesis using access docs_deleted [OF delete(3)] delete(4)
        by (simp add: delete_conv')
    qed
  qed (use False in blast)
qed

text \<open>
  C31: the documents are what the authorized changes make of the initial ones. In every run of the API
  with a token verifier, each recorded change was made by its method, POST or DELETE, in a request whose
  token was verified and granted the method's scope; the documents are those that the changes leave;
  created documents get the ids 3, 4, 5 and so on in order, so that no id is ever reused; and every
  document is stored once, under its own id, which is at most the sequence number.
\<close>

theorem documents_follow_authorized_changes:
  assumes "api_run parse (Some jose) st h"
  shows "(\<forall>(authorization, verb, e) \<in> set h. verb = verb_of e \<and> api_verify jose authorization (required_scope verb) = Inr ())
    \<and> map_of (ds_docs st) = fold apply_event (map (snd \<circ> snd) h) (map_of (ds_docs initial_docs))
    \<and> created_ids (map (snd \<circ> snd) h) = [3..<Suc (ds_sequence st)] \<and> docs_ok st"
  using assms
proof (induction rule: api_run.induct [of parse "Some jose", consumes 1, case_names Initial Request])
  case Initial
  then show ?case by (auto simp: initial_docs_def docs_ok_def split: if_splits)
next
  case (Request st h req r st')
  from change_of_request [OF Request.hyps(2)] Request.IH have c: "docs_ok st'" "case docs_change st st' of
       None \<Rightarrow> st' = st
     | Some e \<Rightarrow> verb_of e = ar_method req
         \<and> (\<forall>j. Some jose = Some j \<longrightarrow> api_verify j (ar_authorization req) (required_scope (ar_method req)) = Inr ())
         \<and> map_of (ds_docs st') = apply_event e (map_of (ds_docs st))
         \<and> ds_sequence st \<le> ds_sequence st' \<and> [Suc (ds_sequence st)..<Suc (ds_sequence st')] = created_ids [e]" by blast+
  show ?case
  proof (cases "docs_change st st'")
    case None
    with c Request.IH show ?thesis by simp
  next
    case (Some e)
    have le: "ds_sequence st \<le> ds_sequence st'" using c(2) Some by auto
    have "[3..<Suc (ds_sequence st)] @ [Suc (ds_sequence st)..<Suc (ds_sequence st')] = [3..<Suc (ds_sequence st')]"
      using Request.IH le upt_add_eq_append [of 3 "Suc (ds_sequence st)" "ds_sequence st' - ds_sequence st"] by (auto simp: docs_ok_def)
    with c Some Request.IH show ?thesis by (auto simp: comp_def)
  qed
qed

section \<open>A run\<close>

definition sample_jose :: "string \<Rightarrow> jose_answer" where
  "sample_jose token = Jose_Verified [(''kid'', JStr ''k'')] [(''iss'', JStr ''zts''), (''sub'', JStr ''ann''), (''aud'', JStr ''api''), (''scope'', JStr ''docs-poster docs'')]"

definition sample_document :: json where
  "sample_document = JObj [(''name'', JStr ''n''), (''content'', JStr ''c'')]"

definition sample_post :: api_request where
  "sample_post = \<lparr>ar_method = ''POST'', ar_url = ''/api/docs'', ar_authorization = Some ''Bearer h.c.s'', ar_chunks = [''{}'']\<rparr>"

lemma sample_bearer: "api_bearer_token (Some ''Bearer h.c.s'') = Inr ''h.c.s''"
  by (simp add: api_bearer_token_def is_word_def is_ws_def to_lower_def) code_simp

lemma sample_verified: "api_verify sample_jose (Some ''Bearer h.c.s'') (required_scope ''POST'') = Inr ()"
  by (simp add: api_verify_def sample_bearer sample_jose_def verified_claims_def non_blank_string_def audience_set_def api_scope_values_def
      short_api_scope_def required_scope_def) code_simp

lemma sample_posted:
  "snd (demo_api_handle (\<lambda>t. Some sample_document) (Some sample_jose) sample_post initial_docs) =
   \<lparr>ds_docs = ds_docs initial_docs @ [(3, \<lparr>dd_id = 3, dd_name = ''n'', dd_content = ''c''\<rparr>)], ds_sequence = 3\<rparr>"
proof -
  have "check_access (Some sample_jose) sample_post = Inr ()"
    using sample_verified by (simp add: check_access_def sample_post_def)
  moreover have "read_document (\<lambda>t. Some sample_document) [''{}''] = Inr (''n'', ''c'')"
    by (simp add: read_document_def byte_length_def sample_document_def trim_def is_ws_def)
  moreover have "docs_route ''/api/docs'' = Some None" by code_simp
  ultimately show ?thesis
    by (simp add: demo_api_handle_def sample_post_def allowed_methods_def serve_documents_def create_document_def initial_docs_def Let_def)
qed

lemma documents_follow_authorized_changes_witness:
  "api_verify sample_jose (Some ''Bearer h.c.s'') (required_scope ''POST'') = Inr ()
   \<and> created_ids [Doc_Created \<lparr>dd_id = 3, dd_name = ''n'', dd_content = ''c''\<rparr>] = [3..<4]"
proof -
  let ?d = "\<lparr>dd_id = 3, dd_name = ''n'', dd_content = ''c''\<rparr>"
  let ?st = "\<lparr>ds_docs = ds_docs initial_docs @ [(3, ?d)], ds_sequence = 3\<rparr>"
  have "docs_change initial_docs ?st = Some (Doc_Created ?d)" by code_simp
  with api_run.Request [OF api_run.Initial prod.collapse [symmetric], of "\<lambda>t. Some sample_document" "Some sample_jose" sample_post]
  have "api_run (\<lambda>t. Some sample_document) (Some sample_jose) ?st [(Some ''Bearer h.c.s'', ''POST'', Doc_Created ?d)]"
    by (simp add: sample_posted) (simp add: sample_post_def)
  from documents_follow_authorized_changes [OF this] show ?thesis by simp
qed

end
