(* ===== verification/Demo_Flow.thy ===== *)
theory Demo_Flow
  imports Demo_Mcp Demo_Docs Runtime_Publication Runtime_Proxy
begin

text \<open>
  From the runtime proxy's token file to the documents: which token the demo MCP server sends, and that
  the token published for a tool's call is the one the demo API accepts for it.
\<close>

section \<open>Paths\<close>

lemma relative_below: "path_relative above_it (above_it @ rest) = rest"
  by (induction above_it) (cases rest, simp_all)

lemma replicate_starts: "replicate n x = a # l \<Longrightarrow> a = x"
  by (cases n) auto

lemma relative_is_below: "path_relative above_it candidate = a # rest \<Longrightarrow> a \<noteq> ''..'' \<Longrightarrow> candidate = above_it @ a # rest"
  by (induction above_it candidate rule: path_relative.induct) (auto split: if_splits dest: replicate_starts)

lemma path_of_segments_slash: "ss \<noteq> [] \<Longrightarrow> starts_with ''/'' (path_of_segments ss)"
  by (cases ss) (simp_all add: path_of_segments_def starts_with_def)

lemma path_resolve_directory: "starts_with ''/'' p \<Longrightarrow> path_resolve cwd p = directory_segments p"
  by (simp add: path_resolve_def directory_segments_def)

lemma path_resolve_segments:
  "list_all plain_segment ss \<Longrightarrow> ss \<noteq> [] \<Longrightarrow> path_resolve cwd (path_of_segments ss) = ss"
  by (simp add: path_resolve_directory path_of_segments_slash directory_of_path)

lemma delegated_path_Inr:
  assumes "delegated_token_path meta tool cwd dir = Inr path"
  shows "\<exists>name. is_token_file_name name \<and> path = path_of_segments (path_resolve cwd dir @ [tool, name])"
proof -
  from assms obtain fs p where "as_string (map_of fs access_token_file_meta_key) = Some p"
    and b: "path_relative (path_resolve cwd dir) (path_resolve cwd p) \<noteq> []"
      "hd (path_relative (path_resolve cwd dir) (path_resolve cwd p)) \<noteq> ''..''"
      "length (path_relative (path_resolve cwd dir) (path_resolve cwd p)) = 2"
      "path_relative (path_resolve cwd dir) (path_resolve cwd p) ! 0 = tool"
      "is_token_file_name (path_relative (path_resolve cwd dir) (path_resolve cwd p) ! 1)"
      "path = path_of_segments (path_resolve cwd p)"
    unfolding delegated_token_path_def Let_def by (auto split: option.splits if_splits)
  from b(3) obtain a name where below: "path_relative (path_resolve cwd dir) (path_resolve cwd p) = [a, name]"
    by (auto simp: numeral_2_eq_2 length_Suc_conv)
  with b(2,4,5) have "a = tool" "a \<noteq> ''..''" "is_token_file_name name" by simp_all
  with relative_is_below [OF below] b(6) show ?thesis by auto
qed

lemma read_delegated_Inr:
  "read_delegated_access_token meta tool cwd dir fs = Inr token \<longleftrightarrow>
   (\<exists>path content. delegated_token_path meta tool cwd dir = Inr path \<and> map_of (fs_files fs) path = Some content \<and> token = trim content
     \<and> token \<noteq> [] \<and> byte_length token \<le> max_access_token_bytes \<and> is_compact_jwt token)"
  unfolding read_delegated_access_token_def Let_def ebind_eq_Inr by (auto split: option.splits if_splits)

section \<open>The token of a call\<close>

definition names_token_file :: "fields \<Rightarrow> bool" where
  "names_token_file message \<longleftrightarrow>
     map_of (record_value (map_of (record_value (map_of message ''params'')) ''_meta'')) access_token_file_meta_key \<noteq> None"

lemma tool_call_Inr:
  assumes "docs_tool_call dp cfg fs authorization i params tool = Inr c"
  shows "da_id c = i \<and> da_method c = tl_method tool \<and>
    (\<exists>token. map_of (da_headers c) ''Authorization'' = Some (''Bearer '' @ token)
      \<and> (if map_of (record_value (map_of params ''_meta'')) access_token_file_meta_key \<noteq> None
         then read_delegated_access_token (map_of params ''_meta'') (tl_name tool) (dm_cwd cfg) (dm_tokenDirectory cfg) fs = Inr token
         else request_access_token authorization = Inr token))"
  using assms unfolding docs_tool_call_def Let_def ebind_eq_Inr by (auto split: if_splits)

lemma find_tool_Some: "find_tool name = Some tool \<Longrightarrow> tool \<in> set demo_tools \<and> tl_name tool = name"
  by (auto simp: find_tool_def find_Some_iff)

lemma handle_message_call:
  assumes "handle_message dp cfg fs authorization message = Mcp_Call c"
  shows "\<exists>i params tool. map_of message ''id'' = Some i \<and> params = record_value (map_of message ''params'')
    \<and> tool \<in> set demo_tools \<and> map_of params ''name'' = Some (JStr (tl_name tool))
    \<and> docs_tool_call dp cfg fs authorization i params tool = Inr c"
  using assms unfolding handle_message_def Let_def
  by (auto split: option.splits if_splits sum.splits dest!: find_tool_Some)

text \<open>
  The demo MCP server calls the API only for one of its tools, with the tool's method, and with one
  of two tokens. Where the message names a token file, it is the content of a file directly in the
  tool's own directory below the token directory, whose name is a request id, and a compact JWT; there
  is no fallback to the client's token. Otherwise it is the client's own bearer token.
\<close>

theorem api_calls_carry_their_token:
  assumes "demo_mcp_begin dp cfg fs req = Mcp_Call c"
  shows "\<exists>u incoming tool token. dp_resolve dp (dr_url req) (''http://'' @ (case dr_host req of None \<Rightarrow> ''localhost'' | Some h \<Rightarrow> h)) = Some u
    \<and> read_json_rpc_message dp (dr_chunks req) = Inr incoming
    \<and> tool \<in> set demo_tools \<and> da_method c = tl_method tool \<and> map_of (da_headers c) ''Authorization'' = Some (''Bearer '' @ token)
    \<and> (if url_pathname u = ''/mcp'' \<and> names_token_file incoming
       then \<exists>name content. is_token_file_name name \<and> trim content = token \<and> is_compact_jwt token
         \<and> map_of (fs_files fs) (path_of_segments (path_resolve (dm_cwd cfg) (dm_tokenDirectory cfg) @ [tl_name tool, name])) = Some content
       else request_access_token (dr_authorization req) = Inr token)"
proof -
  let ?url = "dp_resolve dp (dr_url req) (''http://'' @ (case dr_host req of None \<Rightarrow> ''localhost'' | Some h \<Rightarrow> h))"
  from assms obtain u where u: "?url = Some u" by (cases ?url) (auto simp: demo_mcp_begin_def)
  define http where "http = find (\<lambda>t. url_pathname u = ''/tools/'' @ tl_name t) demo_tools"
  define wrap where "wrap incoming = (case http of None \<Rightarrow> incoming
      | Some t \<Rightarrow> [(''jsonrpc'', JStr ''2.0''), (''id'', JNum (Finite 1)), (''method'', JStr ''tools/call''),
                     (''params'', JObj [(''name'', JStr (tl_name t)), (''arguments'', JObj incoming)])])" for incoming :: fields
  from assms u obtain incoming where path: "url_pathname u = ''/mcp'' \<or> http \<noteq> None"
    and inc: "read_json_rpc_message dp (dr_chunks req) = Inr incoming"
    and msg: "handle_message dp cfg fs (dr_authorization req) (wrap incoming) = Mcp_Call c"
    unfolding demo_mcp_begin_def Let_def http_def wrap_def by (auto split: if_splits sum.splits)
  have other: "url_pathname u \<noteq> ''/mcp''" if "http = Some t" for t
    using that unfolding http_def by (auto simp: find_Some_iff)
  from handle_message_call [OF msg] obtain i params tool where
    params: "params = record_value (map_of (wrap incoming) ''params'')" and tool: "tool \<in> set demo_tools"
    and call: "docs_tool_call dp cfg fs (dr_authorization req) i params tool = Inr c" by blast
  have meta: "map_of (record_value (map_of params ''_meta'')) access_token_file_meta_key \<noteq> None
      \<longleftrightarrow> url_pathname u = ''/mcp'' \<and> names_token_file incoming"
  proof (cases http)
    case None
    with path show ?thesis by (simp add: params wrap_def names_token_file_def)
  next
    case (Some t)
    with other [OF Some] show ?thesis by (simp add: params wrap_def record_value_def)
  qed
  from tool_call_Inr [OF call, unfolded meta] obtain token where
    c: "da_method c = tl_method tool" "map_of (da_headers c) ''Authorization'' = Some (''Bearer '' @ token)"
    and t: "if url_pathname u = ''/mcp'' \<and> names_token_file incoming
         then read_delegated_access_token (map_of params ''_meta'') (tl_name tool) (dm_cwd cfg) (dm_tokenDirectory cfg) fs = Inr token
         else request_access_token (dr_authorization req) = Inr token" by blast
  have "\<exists>name content. is_token_file_name name \<and> trim content = token \<and> is_compact_jwt token
      \<and> map_of (fs_files fs) (path_of_segments (path_resolve (dm_cwd cfg) (dm_tokenDirectory cfg) @ [tl_name tool, name])) = Some content"
    if "read_delegated_access_token (map_of params ''_meta'') (tl_name tool) (dm_cwd cfg) (dm_tokenDirectory cfg) fs = Inr token"
    using that unfolding read_delegated_Inr by (blast dest: delegated_path_Inr)
  with u inc tool c t show ?thesis by (intro exI [of _ u] exI [of _ incoming] exI [of _ tool] exI [of _ token]) (auto split: if_splits)
qed

section \<open>A published token\<close>

text \<open>What \<^const>\<open>with_access_token_file\<close> leaves as it is, and where the path is.\<close>

lemma with_file_fields:
  assumes "with_access_token_file message path = Inr (JObj out)"
  obtains meta where "\<And>k. k \<noteq> ''params'' \<Longrightarrow> map_of out k = map_of message k"
    "\<And>k. k \<noteq> ''_meta'' \<Longrightarrow> map_of (record_value (map_of out ''params'')) k = map_of (record_value (map_of message ''params'')) k"
    "map_of (record_value (map_of out ''params'')) ''_meta'' = Some (JObj meta)"
    "map_of meta access_token_file_meta_key = Some (JStr path)"
  using assms unfolding with_access_token_file_def Let_def record_value_def
  by (auto simp: update_conv' split: option.splits)

lemma token_characters:
  assumes "is_compact_jwt token"
  shows "list_all (\<lambda>c. is_base64url c \<or> c = CHR ''.'') token" and "token \<noteq> []"
proof -
  have "c = CHR ''.'' \<or> (\<exists>p \<in> set (split_char CHR ''.'' s). c \<in> set p)" if "c \<in> set s" for c and s :: string
    using that
  proof (induction s)
    case (Cons d s)
    then show ?case by (cases "split_char CHR ''.'' s") auto
  qed simp
  with assms show "list_all (\<lambda>c. is_base64url c \<or> c = CHR ''.'') token"
    unfolding is_compact_jwt_def list_all_iff by fast
  from assms show "token \<noteq> []" by (auto simp: is_compact_jwt_def)
qed

lemma no_blank_in_token: "is_base64url c \<or> c = CHR ''.'' \<Longrightarrow> \<not> is_ws c \<and> of_char c < (128 :: nat)"
  by (auto simp: is_base64url_def is_ws_def char_class_defs less_eq_char_def less_char_def)

lemma compact_jwt_text:
  assumes "is_compact_jwt token"
  shows "trim (token @ [CHR 0x0A]) = token" and "byte_length token = length token" and "is_word token"
proof -
  have all: "list_all (\<lambda>c. \<not> is_ws c \<and> of_char c < (128 :: nat)) token"
    using token_characters(1) [OF assms] no_blank_in_token by (auto simp: list_all_iff)
  have blank: "is_ws CHR 0x0A" by (simp add: is_ws_def)
  have keep: "dropWhile is_ws s = s" if "list_all (\<lambda>c. \<not> is_ws c \<and> of_char c < (128 :: nat)) s" for s
    using that by (cases s) auto
  have r: "list_all (\<lambda>c. \<not> is_ws c \<and> of_char c < (128 :: nat)) (rev token)" using all by (simp add: list_all_iff)
  from all token_characters(2) [OF assms] have "dropWhile is_ws (token @ [CHR 0x0A]) = token @ [CHR 0x0A]"
    by (cases token) auto
  then show "trim (token @ [CHR 0x0A]) = token" by (simp add: trim_def blank keep [OF r])
  from all show "byte_length token = length token"
    unfolding byte_length_def by (induction token) (auto)
  from all token_characters(2) [OF assms] show "is_word token" by (simp add: is_word_def list_all_iff)
qed

text \<open>The file is read back by the MCP server that shares the directory.\<close>

lemma published_token_is_read:
  assumes pub: "publish xcfg w now io uuid input fs = (Inr path, fs')"
    and dir: "path_resolve cwd dir = directory_segments (xc_outputDirectory xcfg)"
    and tool: "pi_toolName input = tool" "trim tool = tool"
    and meta: "map_of meta access_token_file_meta_key = Some (JStr path)"
    and token: "map_of (fs_files fs') path = Some (token @ [CHR 0x0A])" "is_compact_jwt token"
  shows "read_delegated_access_token (Some (JObj meta)) tool cwd dir fs' = Inr token"
proof -
  from publish_Inr [OF pub] obtain plan token' where plan: "plan_publication xcfg input = Inr plan" "path = pp_filePath plan"
    and ex: "exchange_access_token xcfg w now (pi_sourceToken input) (join '' '' (pp_scopes plan)) (pp_audience plan) = Inr token'"
    and st: "store_token_file io (pp_directory plan) (path @ ''.'' @ uuid @ ''.tmp'') path token' fs = (Inr (), fs')" by metis
  let ?name = "pi_requestId input @ ''.jwt''" and ?base = "directory_segments (xc_outputDirectory xcfg)"
  from plan_path [OF plan(1)] tool have segs: "path = path_of_segments (?base @ [tool, ?name])"
    and plain: "list_all plain_segment (?base @ [tool, ?name])"
    by (simp_all add: plan(2) directory_segments_plain)
  from store_ok(1) [OF st] token(1) have same: "token' = token" by (simp add: update_conv')
  have "path_resolve cwd path = ?base @ [tool, ?name]"
    using path_resolve_segments [OF plain] by (simp add: segs)
  then have below: "path_relative (path_resolve cwd dir) (path_resolve cwd path) = [tool, ?name]"
    by (simp add: dir relative_below)
  from plan(1) have id: "length (pi_requestId input) = 36" "list_all is_id_char (pi_requestId input)"
    unfolding plan_Inr by (auto simp: safe_id_Inr)
  have name: "is_token_file_name ?name" using id by (simp add: is_token_file_name_def)
  have tool_ok: "tool \<noteq> ''..''" using plain by (auto simp: plain_segment_def)
  have path: "starts_with ''/'' path" "path \<noteq> []"
    using path_of_segments_slash [of "?base @ [tool, ?name]"] segs by (auto simp: starts_with_def)
  have "delegated_token_path (Some (JObj meta)) tool cwd dir = Inr path"
    using meta path below tool_ok name segs \<open>path_resolve cwd path = ?base @ [tool, ?name]\<close>
    by (simp add: delegated_token_path_def Let_def)
  moreover have "length token \<le> 32768"
    using ex same by (auto simp: exchange_access_token_def ebind_eq_Inr exchanged_token_Inr)
  ultimately show ?thesis
    using token compact_jwt_text [OF token(2)] token_characters(2) [OF token(2)]
    by (simp add: read_delegated_Inr max_access_token_bytes_def)
qed

lemma tools_are_served:
  assumes "tool \<in> set demo_tools"
  shows "required_scope (tl_method tool) = tl_scope tool" and "find_tool (tl_name tool) = Some tool" and "trim (tl_name tool) = tl_name tool"
    and "short_api_scope (tl_scope tool) = scope_role (tl_scope tool)" and "set (words (tl_scope tool)) = {tl_scope tool}"
proof -
  have "list_all (\<lambda>t. required_scope (tl_method t) = tl_scope t \<and> find_tool (tl_name t) = Some t \<and> trim (tl_name t) = tl_name t
      \<and> short_api_scope (tl_scope t) = scope_role (tl_scope t) \<and> words (tl_scope t) = [tl_scope t]) demo_tools"
    by code_simp
  with assms show "required_scope (tl_method tool) = tl_scope tool" "find_tool (tl_name tool) = Some tool" "trim (tl_name tool) = tl_name tool"
    "short_api_scope (tl_scope tool) = scope_role (tl_scope tool)" "set (words (tl_scope tool)) = {tl_scope tool}"
    by (auto simp: list_all_iff)
qed

text \<open>The API finds at least the scopes that the exchange found.\<close>

lemma exchanged_scopes_are_values:
  assumes "api_scope_values (map_of claims ''scope'') = Inr s1" "api_scope_values (map_of claims ''scp'') = Inr s2"
  shows "set (exchanged_token_scopes claims) \<subseteq> set s1 \<union> set s2"
proof -
  have "set (granted_claim v) \<subseteq> set s" if "api_scope_values v = Inr s" for v s
    using that by (cases v rule: granted_claim.cases) (auto simp: api_scope_values_def split: option.splits)
  with assms show ?thesis by (auto simp: exchanged_token_scopes_def)
qed

lemma api_accepts:
  assumes claims: "jose token = Jose_Verified hdr claims" "verified_claims (jose token) = Inr claims"
    "api_scope_values (map_of claims ''scope'') = Inr s1" "api_scope_values (map_of claims ''scp'') = Inr s2"
    "map_of claims ''aud'' = Some (JStr audience)"
    and granted: "scope \<in> set (exchanged_token_scopes claims) \<or> short_api_scope scope \<in> set (exchanged_token_scopes claims)"
    and token: "is_compact_jwt token" "length token \<le> 32761"
  shows "api_verify jose (Some (''Bearer '' @ token)) scope = Inr ()"
proof -
  have "to_lower ''Bearer '' = ''bearer ''" by code_simp
  then have "api_bearer_token (Some (''Bearer '' @ token)) = Inr token"
    using compact_jwt_text(3) [OF token(1)] token(2) by (simp add: api_bearer_token_def)
  moreover have "card (audience_set (map_of claims ''aud'')) = 1" by (simp add: claims(5) audience_set_def)
  moreover have "scope \<in> set s1 \<union> set s2 \<or> short_api_scope scope \<in> set s1 \<union> set s2"
    using granted exchanged_scopes_are_values [OF claims(3,4)] by blast
  ultimately show ?thesis unfolding api_verify_Inr using claims by blast
qed

lemma tool_route:
  assumes "tool \<in> set demo_tools" "tool_path dp tool args = Inr p" "docs_route p = Some segment"
  shows "tl_method tool \<in> set (allowed_methods segment)" and "p \<noteq> ''/healthz''"
proof -
  have "docs_route ''/api/docs'' = Some None" "docs_route ''/healthz'' = None" by code_simp+
  moreover have "tl_name tool = ''delete_k8s_doc'' \<longleftrightarrow> tl_method tool = ''DELETE''" "tl_method tool \<in> {''GET'', ''POST'', ''DELETE''}"
    using assms(1) by (auto simp: demo_tools_def)
  ultimately show "tl_method tool \<in> set (allowed_methods segment)" "p \<noteq> ''/healthz''"
    using assms(2,3) by (auto simp: tool_path_def allowed_methods_def split: if_splits option.splits)
qed

text \<open>
  C32: a token that the runtime proxy publishes for a tool's call opens the documents for that call. If
  the publication for the tool and its scope succeeds and the MCP server, which has the same token
  directory, gets the message with the file's path, it calls the API with the tool's method and exactly
  the token that ZTS issued; and the API, once the signature is verified with those claims and a single
  audience, serves the request.
\<close>

theorem delegated_calls_reach_the_documents:
  assumes pub: "publish xcfg w now io uuid input fs = (Inr path, fs')"
    and tool: "tool \<in> set demo_tools" "pi_toolName input = tl_name tool" "pi_scope input = tl_scope tool"
    and dir: "path_resolve (dm_cwd cfg) (dm_tokenDirectory cfg) = directory_segments (xc_outputDirectory xcfg)"
    and token: "map_of (fs_files fs') path = Some (token @ [CHR 0x0A])" "is_compact_jwt token" "length token \<le> 32761"
    and message: "map_of message ''jsonrpc'' = Some (JStr ''2.0'')" "map_of message ''method'' = Some (JStr ''tools/call'')"
      "map_of message ''id'' = Some i" "map_of (record_value (map_of message ''params'')) ''name'' = Some (JStr (tl_name tool))"
    and args: "args = record_value (map_of (record_value (map_of message ''params'')) ''arguments'')" "validate_arguments dp tool args = Inr ()"
    and url: "tool_path dp tool args = Inr p" "dp_upstreamUrl dp p = Some u" "docs_route p = Some segment" "CHR ''?'' \<notin> set p"
    and named: "with_access_token_file message path = Inr (JObj message')"
    and request: "dr_method req = ''POST''" "read_json_rpc_message dp (dr_chunks req) = Inr message'"
      "dp_resolve dp (dr_url req) (''http://'' @ (case dr_host req of None \<Rightarrow> ''localhost'' | Some h \<Rightarrow> h)) = Some ru" "url_pathname ru = ''/mcp''"
    and claims: "xw_parsePart w (split_char CHR ''.'' token ! 1) = Some (JObj claims)" "jose token = Jose_Verified hdr claims"
      "verified_claims (jose token) = Inr claims" "api_scope_values (map_of claims ''scope'') = Inr s1"
      "api_scope_values (map_of claims ''scp'') = Inr s2" "map_of claims ''aud'' = Some (JStr audience)"
  shows "\<exists>c. demo_mcp_begin dp cfg fs' req = Mcp_Call c \<and> da_url c = u \<and> da_method c = tl_method tool
    \<and> map_of (da_headers c) ''Authorization'' = Some (''Bearer '' @ token)
    \<and> demo_api_handle parse (Some jose)
        \<lparr>ar_method = da_method c, ar_url = p, ar_authorization = map_of (da_headers c) ''Authorization'', ar_chunks = chunks\<rparr> st
      = serve_documents parse (tl_method tool) segment chunks st"
proof -
  note t = tools_are_served [OF tool(1)]
  from with_file_fields [OF named] obtain meta where m':
    "\<And>k. k \<noteq> ''params'' \<Longrightarrow> map_of message' k = map_of message k"
    "\<And>k. k \<noteq> ''_meta'' \<Longrightarrow> map_of (record_value (map_of message' ''params'')) k = map_of (record_value (map_of message ''params'')) k"
    "map_of (record_value (map_of message' ''params'')) ''_meta'' = Some (JObj meta)"
    "map_of meta access_token_file_meta_key = Some (JStr path)" by blast
  have reads: "read_delegated_access_token (Some (JObj meta)) (tl_name tool) (dm_cwd cfg) (dm_tokenDirectory cfg) fs' = Inr token"
    using published_token_is_read [OF pub dir tool(2) t(3) m'(4) token(1,2)] .
  have meta_value: "record_value (Some (JObj meta)) = meta" by (simp add: record_value_def)
  let ?params = "record_value (map_of message' ''params'')"
  have args': "record_value (map_of ?params ''arguments'') = args" by (simp add: m'(2) args(1))
  obtain c where c: "docs_tool_call dp cfg fs' (dr_authorization req) i ?params tool = Inr c" and "da_url c = u"
    using args(2) url(1,2) reads by (simp add: docs_tool_call_def args' m'(3,4) meta_value)
  with tool_call_Inr [OF c] reads m'(3,4) have cf: "da_url c = u" "da_method c = tl_method tool"
    "map_of (da_headers c) ''Authorization'' = Some (''Bearer '' @ token)" by (simp_all add: meta_value)
  have none: "find (\<lambda>t. ''/mcp'' = ''/tools/'' @ tl_name t) demo_tools = None" by (auto simp: find_None_iff)
  have handled: "handle_message dp cfg fs' (dr_authorization req) message' = Mcp_Call c"
    using c message m'(1,2) t(2) by (simp add: handle_message_def)
  have begun: "demo_mcp_begin dp cfg fs' req = Mcp_Call c"
    using request handled none by (simp add: demo_mcp_begin_def Let_def)
  from publish_Inr [OF pub] obtain plan token' where plan: "plan_publication xcfg input = Inr plan"
    and ex: "exchange_access_token xcfg w now (pi_sourceToken input) (join '' '' (pp_scopes plan)) (pp_audience plan) = Inr token'"
    and st: "store_token_file io (pp_directory plan) (path @ ''.'' @ uuid @ ''.tmp'') path token' fs = (Inr (), fs')" by metis
  from store_ok(1) [OF st] token(1) have same: "token' = token" by (simp add: update_conv')
  from plan_scopes(1) [OF plan] have "set (pp_scopes plan) = {tl_scope tool}"
    unfolding validated_scopes_Inr using t(5) by (simp add: tool(3))
  moreover from exchange_issued [OF ex plan_scopes(1) [OF plan]] claims(1) same have "grants now claims (pp_audience plan) (pp_scopes plan)"
    unfolding issued_for_def by auto
  ultimately have "tl_scope tool \<in> set (exchanged_token_scopes claims) \<or> short_api_scope (tl_scope tool) \<in> set (exchanged_token_scopes claims)"
    by (simp add: grants_def t(4))
  from api_accepts [of jose token, OF claims(2-6) this token(2,3)]
  have "check_access (Some jose) \<lparr>ar_method = tl_method tool, ar_url = p, ar_authorization = Some (''Bearer '' @ token), ar_chunks = chunks\<rparr> = Inr ()"
    by (simp add: check_access_def t(1))
  moreover have path_only: "takeWhile (\<lambda>c. c \<noteq> CHR ''?'') p = p" using url(4) by (auto simp: takeWhile_eq_all_conv)
  ultimately have "demo_api_handle parse (Some jose) \<lparr>ar_method = tl_method tool, ar_url = p, ar_authorization = Some (''Bearer '' @ token), ar_chunks = chunks\<rparr> st
      = serve_documents parse (tl_method tool) segment chunks st"
    using tool_route [OF tool(1) url(1,3)] url(3) by (simp add: demo_api_handle_def Let_def path_only)
  with begun cf show ?thesis by auto
qed

section \<open>A call\<close>

definition sample_docs_input :: publish_input where
  "sample_docs_input = \<lparr>pi_requestId = sample_id, pi_scope = ''api:role.docs-getter'', pi_sourceToken = ''src'', pi_toolName = ''get_k8s_docs''\<rparr>"

definition sample_docs_path :: string where
  "sample_docs_path = ''/out/get_k8s_docs/'' @ sample_id @ ''.jwt''"

definition sample_docs_claims :: fields where
  "sample_docs_claims = [(''exp'', JNum (Finite 90)), (''iss'', JStr ''zts''), (''sub'', JStr ''ann''), (''aud'', JStr ''api''), (''scope'', JStr ''docs-getter'')]"

definition sample_docs_zts :: exchange_world where
  "sample_docs_zts = sample_zts\<lparr>xw_parsePart := \<lambda>t. Some (JObj sample_docs_claims)\<rparr>"

definition sample_mcp_message :: fields where
  "sample_mcp_message = [(''jsonrpc'', JStr ''2.0''), (''id'', JNum (Finite 1)), (''method'', JStr ''tools/call''),
     (''params'', JObj [(''name'', JStr ''get_k8s_docs'')])]"

definition sample_mcp_delegated :: fields where
  "sample_mcp_delegated = [(''jsonrpc'', JStr ''2.0''), (''id'', JNum (Finite 1)), (''method'', JStr ''tools/call''),
     (''params'', JObj [(''name'', JStr ''get_k8s_docs''), (''_meta'', JObj [(access_token_file_meta_key, JStr sample_docs_path)])])]"

definition sample_mcp_url :: url where
  "sample_mcp_url = \<lparr>url_protocol = ''http:'', url_username = [], url_password = [], url_hostname = ''mcp'', url_host = ''mcp'',
     url_pathname = ''/mcp'', url_search = [], url_hash = []\<rparr>"

definition sample_demo_platform :: "fields \<Rightarrow> demo_platform" where
  "sample_demo_platform message = \<lparr>dp_resolve = (\<lambda>p base. Some sample_mcp_url), dp_upstreamUrl = (\<lambda>p. Some sample_mcp_url),
     dp_parse = (\<lambda>t. Some (JObj message)), dp_stringify = (\<lambda>v. []), dp_pretty = (\<lambda>v. []), dp_number = (\<lambda>q. ''1'')\<rparr>"

definition sample_mcp_config :: demo_mcp_config where
  "sample_mcp_config = \<lparr>dm_requiredMcpScope = ''mcp:role.mcp-accessor'', dm_tokenDirectory = ''/out'', dm_cwd = ''/''\<rparr>"

definition sample_mcp_request :: demo_request where
  "sample_mcp_request = \<lparr>dr_method = ''POST'', dr_url = ''/mcp'', dr_host = None, dr_authorization = Some ''Bearer h.c.s'', dr_chunks = [''{}'']\<rparr>"

definition sample_docs_files :: file_system where
  "sample_docs_files = \<lparr>fs_files = [(sample_docs_path, ''h.c.s'' @ [CHR 0x0A])], fs_directories = [''/out'', ''/out/get_k8s_docs'']\<rparr>"

lemma sample_docs_stored:
  "store_token_file sample_io ''/out/get_k8s_docs'' tmp sample_docs_path ''h.c.s'' empty_file_system = (Inr (), sample_docs_files)"
proof -
  have "directory_chain ''/out/get_k8s_docs'' = [''/out'', ''/out/get_k8s_docs'']" by code_simp
  then show ?thesis
    by (simp add: store_token_file_def write_token_file_def sample_io_def empty_file_system_def sample_docs_files_def
        make_directories_def put_file_def remove_file_def Let_def)
qed

lemma sample_docs_published:
  "publish sample_exchange sample_docs_zts 10 sample_io ''u'' sample_docs_input empty_file_system =
   (Inr sample_docs_path, sample_docs_files)"
proof -
  let ?plan = "\<lparr>pp_scopes = [''api:role.docs-getter''], pp_audience = ''api'', pp_directory = ''/out/get_k8s_docs'', pp_filePath = sample_docs_path\<rparr>"
  have plan: "plan_publication sample_exchange sample_docs_input = Inr ?plan" by code_simp
  have scopes: "validated_scopes ''api:role.docs-getter'' = Inr [''api:role.docs-getter'']" "scope_role ''api:role.docs-getter'' = ''docs-getter''" by code_simp+
  have "exchanged_claims_ok 10 sample_docs_claims ''api'' ''api:role.docs-getter''"
    by (simp add: exchanged_claims_ok_def sample_docs_claims_def scopes exchanged_token_scopes_def words_word is_ws_def)
  then have "exchanged_token (xw_parsePart sample_docs_zts) 10 ''api:role.docs-getter'' ''api'' (JObj [(''access_token'', JStr ''h.c.s'')]) = Inr ''h.c.s''"
    unfolding exchanged_token_Inr by (simp add: sample_docs_zts_def)
  then have "exchange_access_token sample_exchange sample_docs_zts 10 ''src'' ''api:role.docs-getter'' ''api'' = Inr ''h.c.s''"
    using sample_payload
    by (simp add: exchange_access_token_def exchange_request_def read_exchange_credential_def) (simp add: sample_docs_zts_def sample_zts_def)
  then show ?thesis unfolding publish_def plan
    by (simp add: sample_docs_input_def sample_docs_stored)
qed

lemma sample_docs_message:
  "with_access_token_file sample_mcp_message sample_docs_path = Inr (JObj sample_mcp_delegated)"
  by (simp add: with_access_token_file_def sample_mcp_message_def sample_mcp_delegated_def)

lemma sample_docs_read:
  "read_json_rpc_message (sample_demo_platform message) (dr_chunks sample_mcp_request) = Inr message"
  by (simp add: read_json_rpc_message_def sample_mcp_request_def sample_demo_platform_def byte_length_def)

lemma delegated_calls_reach_the_documents_witness:
  "\<exists>c. demo_mcp_begin (sample_demo_platform sample_mcp_delegated) sample_mcp_config sample_docs_files sample_mcp_request = Mcp_Call c
    \<and> demo_api_handle (\<lambda>t. None) (Some (\<lambda>t. Jose_Verified [(''kid'', JStr ''k'')] sample_docs_claims))
        \<lparr>ar_method = da_method c, ar_url = ''/api/docs'', ar_authorization = map_of (da_headers c) ''Authorization'', ar_chunks = []\<rparr> initial_docs
      = serve_documents (\<lambda>t. None) ''GET'' None [] initial_docs"
proof -
  have "hd demo_tools \<in> set demo_tools \<and> tl_name (hd demo_tools) = ''get_k8s_docs'' \<and> tl_scope (hd demo_tools) = ''api:role.docs-getter''
    \<and> tl_method (hd demo_tools) = ''GET''" by (simp add: demo_tools_def)
  then obtain tool where tool: "tool \<in> set demo_tools" "tl_name tool = ''get_k8s_docs''" "tl_scope tool = ''api:role.docs-getter''"
    "tl_method tool = ''GET''" by blast
  have verified: "verified_claims (Jose_Verified [(''kid'', JStr ''k'')] sample_docs_claims) = Inr sample_docs_claims" by code_simp
  have scopes: "api_scope_values (map_of sample_docs_claims ''scope'') = Inr [''docs-getter'']" "api_scope_values (map_of sample_docs_claims ''scp'') = Inr []"
    by code_simp+
  have others: "path_resolve (dm_cwd sample_mcp_config) (dm_tokenDirectory sample_mcp_config) = directory_segments (xc_outputDirectory sample_exchange)"
    "is_compact_jwt ''h.c.s''" "docs_route ''/api/docs'' = Some None" by code_simp+
  have path: "tool_path dp tool args = Inr ''/api/docs''" "validate_arguments dp tool args = Inr ()" for dp args
    by (simp_all add: tool_path_def validate_arguments_def tool(2))
  have fields: "pi_toolName sample_docs_input = tl_name tool" "pi_scope sample_docs_input = tl_scope tool"
    "map_of sample_mcp_message ''jsonrpc'' = Some (JStr ''2.0'')" "map_of sample_mcp_message ''method'' = Some (JStr ''tools/call'')"
    "map_of sample_mcp_message ''id'' = Some (JNum (Finite 1))"
    "map_of (record_value (map_of sample_mcp_message ''params'')) ''name'' = Some (JStr (tl_name tool))"
    "[] = record_value (map_of (record_value (map_of sample_mcp_message ''params'')) ''arguments'')"
    by (simp_all add: sample_docs_input_def tool sample_mcp_message_def record_value_def)
  have request: "dp_upstreamUrl (sample_demo_platform sample_mcp_delegated) ''/api/docs'' = Some sample_mcp_url" "dr_method sample_mcp_request = ''POST''"
    "dp_resolve (sample_demo_platform sample_mcp_delegated) (dr_url sample_mcp_request)
       (''http://'' @ (case dr_host sample_mcp_request of None \<Rightarrow> ''localhost'' | Some h \<Rightarrow> h)) = Some sample_mcp_url"
    "url_pathname sample_mcp_url = ''/mcp''" "xw_parsePart sample_docs_zts (split_char CHR ''.'' ''h.c.s'' ! 1) = Some (JObj sample_docs_claims)"
    "map_of sample_docs_claims ''aud'' = Some (JStr ''api'')" "map_of (fs_files sample_docs_files) sample_docs_path = Some (''h.c.s'' @ [CHR 0x0A])"
    "length ''h.c.s'' \<le> 32761" "CHR ''?'' \<notin> set ''/api/docs''"
    by (simp_all add: sample_demo_platform_def sample_mcp_request_def sample_mcp_url_def sample_docs_zts_def sample_docs_claims_def sample_docs_files_def)
  from delegated_calls_reach_the_documents [OF sample_docs_published tool(1) fields(1,2) others(1) request(7) others(2) request(8)
      fields(3-7) path(2) path(1) request(1) others(3) request(9) sample_docs_message request(2) sample_docs_read request(3,4,5) refl verified scopes request(6)]
  show ?thesis by (fastforce simp: tool(4))
qed

lemma api_calls_carry_their_token_witness:
  "\<exists>tool token. tool \<in> set demo_tools \<and> request_access_token (dr_authorization sample_mcp_request) = Inr token"
proof -
  have "request_access_token (Some ''Bearer h.c.s'') = Inr ''h.c.s''" by code_simp
  moreover have "find_tool ''get_k8s_docs'' = Some (hd demo_tools)" by code_simp
  ultimately have "\<exists>c. demo_mcp_begin (sample_demo_platform sample_mcp_message) sample_mcp_config empty_file_system sample_mcp_request = Mcp_Call c"
    using sample_docs_read [of sample_mcp_message]
    by (simp add: demo_mcp_begin_def Let_def find_None_iff)
       (simp add: sample_mcp_request_def sample_demo_platform_def sample_mcp_url_def handle_message_def sample_mcp_message_def record_value_def
         docs_tool_call_def validate_arguments_def tool_path_def demo_tools_def)
  then obtain c where "demo_mcp_begin (sample_demo_platform sample_mcp_message) sample_mcp_config empty_file_system sample_mcp_request = Mcp_Call c" by blast
  from api_calls_carry_their_token [OF this] show ?thesis
    by (auto simp: sample_docs_read names_token_file_def sample_mcp_message_def record_value_def)
qed

end
