(* ===== verification/Hub_Zms.thy ===== *)
theory Hub_Zms
  imports Hub_Permissions
begin

text \<open>
  \<^verbatim>\<open>registration/api/mcpManagedAccess.ts\<close> and \<^verbatim>\<open>mcpServiceIdentity.ts\<close>, and the requests of
  \<^verbatim>\<open>permissions/api/requestToolPermissionAccess.ts\<close>: the roles, memberships, policies and keys that the hub
  keeps in ZMS. The functions are programs over a request function \<open>z\<close>, which takes a state of the
  environment to an answer or a failure and the next state; every request is sent in the code's order,
  and an exception ends a program with the state reached. The body of an answer is only read by
  \<^verbatim>\<open>JSON.parse\<close>, an argument, so its type is left open.
\<close>

section \<open>Programs over ZMS\<close>

datatype zms_method = Zms_Get | Zms_Put | Zms_Delete

record 'b zms_answer =
  za_status :: nat
  za_body :: 'b

type_synonym ('s, 'a) zms_action = "'s \<Rightarrow> (string, 'a) result \<times> 's"

type_synonym ('s, 'b) zms_request = "zms_method \<Rightarrow> string \<Rightarrow> json option \<Rightarrow> ('s, 'b zms_answer) zms_action"

text \<open>Sequencing, for any type of failure.\<close>

type_synonym ('s, 'e, 'a) program = "'s \<Rightarrow> ('e, 'a) result \<times> 's"

definition zreturn :: "'a \<Rightarrow> ('s, 'e, 'a) program" where
  "zreturn x s = (Inr x, s)"

definition zlift :: "('e, 'a) result \<Rightarrow> ('s, 'e, 'a) program" where
  "zlift r s = (r, s)"

definition zfail :: "'e \<Rightarrow> ('s, 'e, 'a) program" where
  "zfail m s = (Inl m, s)"

definition zbind :: "('s, 'e, 'a) program \<Rightarrow> ('a \<Rightarrow> ('s, 'e, 'b) program) \<Rightarrow> ('s, 'e, 'b) program" where
  "zbind f g s = (case f s of (Inl m, s') \<Rightarrow> (Inl m, s') | (Inr x, s') \<Rightarrow> g x s')"

text \<open>The items for which the action answers \<^verbatim>\<open>true\<close>, as a loop that pushes them.\<close>

fun zpick :: "('a \<Rightarrow> ('s, bool) zms_action) \<Rightarrow> 'a list \<Rightarrow> ('s, 'a list) zms_action" where
  "zpick f [] = zreturn []"
| "zpick f (x # xs) = zbind (f x) (\<lambda>b. zbind (zpick f xs) (\<lambda>ys. zreturn (if b then x # ys else ys)))"

section \<open>Paths and bodies\<close>

text \<open>\<^verbatim>\<open>encodeURIComponent\<close> of Latin-1 text: UTF-8 bytes in upper-case hexadecimal\<close>

definition hex_upper :: "nat \<Rightarrow> char" where
  "hex_upper n = char_of (if n < 10 then 48 + n else 55 + n)"

definition percent_byte :: "nat \<Rightarrow> string" where
  "percent_byte n = [CHR ''%'', hex_upper (n div 16), hex_upper (n mod 16)]"

definition uri_kept :: "char \<Rightarrow> bool" where
  "uri_kept c \<longleftrightarrow> is_alnum c \<or> c \<in> set ''-_.!~*()'' \<or> c = CHR 0x27"

definition uri_char :: "char \<Rightarrow> string" where
  "uri_char c =
     (if uri_kept c then [c]
      else let n = of_char c :: nat in
        if n < 128 then percent_byte n else percent_byte (192 + n div 64) @ percent_byte (128 + n mod 64))"

definition encode_uri_component :: "string \<Rightarrow> string" where
  "encode_uri_component s = concat (map uri_char s)"

definition domain_path :: "string \<Rightarrow> string" where
  "domain_path domain = ''/domain/'' @ encode_uri_component domain"

definition entity_path :: "string \<Rightarrow> string \<Rightarrow> string \<Rightarrow> string" where
  "entity_path domain kind name = domain_path domain @ ''/'' @ kind @ ''/'' @ encode_uri_component name"

definition member_path :: "string \<Rightarrow> string \<Rightarrow> string \<Rightarrow> string" where
  "member_path domain role member = entity_path domain ''role'' role @ ''/member/'' @ encode_uri_component member"

definition is_success :: "nat \<Rightarrow> bool" where
  "is_success status \<longleftrightarrow> 200 \<le> status \<and> status < 300"

definition http_status_text :: "nat \<Rightarrow> string" where
  "http_status_text status = ''ZMS returned HTTP '' @ (if status = 0 then ''unknown'' else nat_text status)"

definition unexpected_status :: "string \<Rightarrow> nat \<Rightarrow> string" where
  "unexpected_status operation status = http_status_text status @ '' while '' @ operation"

definition parse_zms_record :: "('b \<Rightarrow> json option) \<Rightarrow> 'b \<Rightarrow> string \<Rightarrow> (string, (string \<times> json) list) result" where
  "parse_zms_record parse body resource =
     (case parse body of Some (JObj fs) \<Rightarrow> Inr fs | _ \<Rightarrow> Inl (''ZMS returned an invalid '' @ resource))"

definition json_items :: "unknown \<Rightarrow> json list" where
  "json_items v = (case v of Some (JArr vs) \<Rightarrow> vs | _ \<Rightarrow> [])"

definition has_field :: "json \<Rightarrow> string \<Rightarrow> string \<Rightarrow> bool" where
  "has_field v name expected = (case v of JObj fs \<Rightarrow> map_of fs name = Some (JStr expected) | _ \<Rightarrow> False)"

definition role_has_member :: "(string \<times> json) list \<Rightarrow> string \<Rightarrow> bool" where
  "role_has_member fs member \<longleftrightarrow>
     list_ex (\<lambda>v. has_field v ''memberName'' member) (json_items (map_of fs ''roleMembers''))
     \<or> JStr member \<in> set (json_items (map_of fs ''members''))"

definition role_contains :: "('b \<Rightarrow> json option) \<Rightarrow> string \<Rightarrow> 'b \<Rightarrow> string \<Rightarrow> (string, bool) result" where
  "role_contains parse resource body member = ebind (parse_zms_record parse body resource) (\<lambda>fs. Inr (role_has_member fs member))"

section \<open>Names\<close>

text \<open>\<^verbatim>\<open>/^[a-z0-9](?:[-a-z0-9]{0,61}[a-z0-9])?$/\<close> and \<^verbatim>\<open>/^[A-Za-z0-9](?:[A-Za-z0-9._-]*[A-Za-z0-9])?$/\<close>\<close>

definition is_dns_char :: "char \<Rightarrow> bool" where
  "is_dns_char c \<longleftrightarrow> is_lower c \<or> is_digit c"

definition is_dns_label :: "string \<Rightarrow> bool" where
  "is_dns_label s \<longleftrightarrow> s \<noteq> [] \<and> length s \<le> 63 \<and> is_dns_char (hd s) \<and> is_dns_char (last s)
     \<and> list_all (\<lambda>c. is_dns_char c \<or> c = CHR ''-'') s"

definition is_principal_name :: "string \<Rightarrow> bool" where
  "is_principal_name s \<longleftrightarrow> s \<noteq> [] \<and> is_alnum (hd s) \<and> is_alnum (last s) \<and> list_all is_name_char s"

definition managed_domain :: "string \<Rightarrow> string" where
  "managed_domain project = ''mcp-hub.mcps.'' @ project"

definition managed_role :: "string \<Rightarrow> (string, string) result" where
  "managed_role mcpKeyName = (if is_dns_label mcpKeyName then Inr (mcpKeyName @ ''-accessor'') else Inl ''Managed MCP key is invalid'')"

record managed_names =
  mn_accessorRole :: string
  mn_exchangePolicy :: string
  mn_exchangerRole :: string
  mn_sourceExchangePolicy :: string
  mn_sourceExchangerRole :: string

definition managed_access_names :: "string \<Rightarrow> (string, managed_names) result" where
  "managed_access_names mcpKeyName =
     ebind (managed_role mcpKeyName) (\<lambda>accessor. Inr
       \<lparr>mn_accessorRole = accessor,
        mn_exchangePolicy = accessor @ ''-jag-exchanger'' @ ''_zts_jag_exchange_role_'' @ accessor,
        mn_exchangerRole = accessor @ ''-jag-exchanger'',
        mn_sourceExchangePolicy = accessor @ ''-source-exchanger'' @ ''_zts_token_source_exchange'',
        mn_sourceExchangerRole = accessor @ ''-source-exchanger''\<rparr>)"

definition service_name_in_domain :: "string \<Rightarrow> string \<Rightarrow> (string, string) result" where
  "service_name_in_domain serviceAccount domain =
     (let prefix = domain @ ''.''; serviceName = (if starts_with prefix serviceAccount then drop (length prefix) serviceAccount else []) in
      if serviceName = [] \<or> \<not> is_principal_name serviceName
      then Inl (''Athenz service account must belong to '' @ domain) else Inr serviceName)"

section \<open>Roles\<close>

definition require_domain :: "('s, 'b) zms_request \<Rightarrow> string \<Rightarrow> ('s, unit) zms_action" where
  "require_domain z domain =
     zbind (z Zms_Get (domain_path domain) None) (\<lambda>a.
       if za_status a = 200 then zreturn ()
       else if za_status a = 404 then zfail (''Athenz domain '' @ domain @ '' does not exist'')
       else zfail (unexpected_status ''checking the managed MCP domain'' (za_status a)))"

definition require_service :: "('s, 'b) zms_request \<Rightarrow> string \<Rightarrow> string \<Rightarrow> string \<Rightarrow> ('s, unit) zms_action" where
  "require_service z domain serviceName serviceAccount =
     zbind (z Zms_Get (entity_path domain ''service'' serviceName) None) (\<lambda>a.
       if za_status a = 200 then zreturn ()
       else if za_status a = 404 then zfail (''Athenz service account '' @ serviceAccount @ '' does not exist'')
       else zfail (unexpected_status ''checking the managed MCP service account'' (za_status a)))"

definition role_body :: "string \<Rightarrow> string \<Rightarrow> json" where
  "role_body domain role = JObj [(''name'', JStr (domain @ '':role.'' @ role))]"

definition ensure_role :: "('s, 'b) zms_request \<Rightarrow> string \<Rightarrow> string \<Rightarrow> ('s, bool) zms_action" where
  "ensure_role z domain role =
     (let rolePath = entity_path domain ''role'' role in
      zbind (z Zms_Get rolePath None) (\<lambda>existing.
      if za_status existing = 200 then zreturn False
      else if za_status existing \<noteq> 404 then zfail (unexpected_status (''checking managed MCP '' @ role @ '' role'') (za_status existing))
      else zbind (z Zms_Put rolePath (Some (role_body domain role))) (\<lambda>created.
      if \<not> is_success (za_status created) \<and> za_status created \<noteq> 409
      then zfail (unexpected_status (''creating managed MCP '' @ role @ '' role'') (za_status created))
      else zbind (z Zms_Get rolePath None) (\<lambda>verified.
      if za_status verified \<noteq> 200 then zfail (unexpected_status (''verifying managed MCP '' @ role @ '' role'') (za_status verified))
      else zreturn (is_success (za_status created))))))"

definition delete_zms_entity :: "('s, 'b) zms_request \<Rightarrow> string \<Rightarrow> string \<Rightarrow> string \<Rightarrow> ('s, bool) zms_action" where
  "delete_zms_entity z domain kind name =
     (let entityPath = entity_path domain kind name; what = ''managed MCP '' @ kind @ '' '' @ name in
      zbind (z Zms_Get entityPath None) (\<lambda>existing.
      if za_status existing = 404 then zreturn False
      else if za_status existing \<noteq> 200 then zfail (unexpected_status (''checking '' @ what @ '' before deletion'') (za_status existing))
      else zbind (z Zms_Delete entityPath None) (\<lambda>deleted.
      if \<not> is_success (za_status deleted) \<and> za_status deleted \<noteq> 404
      then zfail (unexpected_status (''deleting '' @ what) (za_status deleted))
      else zbind (z Zms_Get entityPath None) (\<lambda>verified.
      if za_status verified \<noteq> 404 then zfail (unexpected_status (''verifying '' @ what @ '' deletion'') (za_status verified))
      else zreturn (za_status deleted \<noteq> 404)))))"

definition member_body :: "string \<Rightarrow> string \<Rightarrow> json" where
  "member_body member role = JObj [(''memberName'', JStr member), (''roleName'', JStr role)]"

definition ensure_role_member :: "('b \<Rightarrow> json option) \<Rightarrow> ('s, 'b) zms_request \<Rightarrow> string \<Rightarrow> string \<Rightarrow> string \<Rightarrow> ('s, bool) zms_action" where
  "ensure_role_member parse z domain role member =
     (let rolePath = entity_path domain ''role'' role; contains = (\<lambda>body. role_contains parse ''managed MCP role'' body member) in
      zbind (z Zms_Get rolePath None) (\<lambda>existing.
      if za_status existing \<noteq> 200
      then zfail (unexpected_status (''checking managed MCP '' @ role @ '' membership'') (za_status existing))
      else zbind (zlift (contains (za_body existing))) (\<lambda>present.
      if present then zreturn False
      else zbind (z Zms_Put (member_path domain role member) (Some (member_body member role))) (\<lambda>added.
      if \<not> is_success (za_status added) \<and> za_status added \<noteq> 409
      then zfail (unexpected_status (''adding managed MCP '' @ role @ '' member'') (za_status added))
      else zbind (z Zms_Get rolePath None) (\<lambda>verified.
      if za_status verified \<noteq> 200 then zfail (''Unable to verify managed MCP '' @ role @ '' membership'')
      else zbind (zlift (contains (za_body verified))) (\<lambda>now.
      if \<not> now then zfail (''Unable to verify managed MCP '' @ role @ '' membership'')
      else zreturn (is_success (za_status added))))))))"

section \<open>Policies\<close>

record managed_assertion =
  ms_action :: string
  ms_resource :: string
  ms_role :: string

text \<open>\<^verbatim>\<open>policyAssertions\<close>: other fields of an assertion, its effect among them, are dropped.\<close>

definition managed_assertion_of :: "json \<Rightarrow> managed_assertion option" where
  "managed_assertion_of v =
     (case v of
        JObj fs \<Rightarrow>
          (case (as_string (map_of fs ''action''), as_string (map_of fs ''resource''), as_string (map_of fs ''role'')) of
             (Some action, Some resource, Some role) \<Rightarrow> Some \<lparr>ms_action = action, ms_resource = resource, ms_role = role\<rparr>
           | _ \<Rightarrow> None)
      | _ \<Rightarrow> None)"

definition policy_assertions :: "('b \<Rightarrow> json option) \<Rightarrow> 'b \<Rightarrow> string \<Rightarrow> (string, managed_assertion list) result" where
  "policy_assertions parse body resource =
     ebind (parse_zms_record parse body resource) (\<lambda>fs.
       case map_of fs ''assertions'' of
         Some (JArr vs) \<Rightarrow>
           emap (\<lambda>v. case managed_assertion_of v of None \<Rightarrow> Inl (''ZMS returned an invalid '' @ resource) | Some a \<Rightarrow> Inr a) vs
       | _ \<Rightarrow> Inl (''ZMS returned an invalid '' @ resource))"

definition same_assertion :: "managed_assertion \<Rightarrow> json \<Rightarrow> bool" where
  "same_assertion a v \<longleftrightarrow> has_field v ''role'' (ms_role a) \<and> has_field v ''resource'' (ms_resource a) \<and> has_field v ''action'' (ms_action a)"

definition policy_contains :: "('b \<Rightarrow> json option) \<Rightarrow> 'b \<Rightarrow> managed_assertion \<Rightarrow> (string, bool) result" where
  "policy_contains parse body a =
     ebind (parse_zms_record parse body ''managed MCP policy'') (\<lambda>fs.
       Inr (list_ex (same_assertion a) (json_items (map_of fs ''assertions''))))"

definition managed_assertion_json :: "managed_assertion \<Rightarrow> json" where
  "managed_assertion_json a =
     JObj [(''action'', JStr (ms_action a)), (''resource'', JStr (ms_resource a)), (''role'', JStr (ms_role a))]"

definition policy_body :: "string \<Rightarrow> string \<Rightarrow> json list \<Rightarrow> json" where
  "policy_body domain policy assertions =
     JObj [(''name'', JStr (domain @ '':policy.'' @ policy)), (''assertions'', JArr assertions)]"

definition exchange_assertion :: "string \<Rightarrow> managed_names \<Rightarrow> managed_assertion" where
  "exchange_assertion domain names =
     \<lparr>ms_action = ''zts.jag_exchange'', ms_resource = domain @ '':role.'' @ mn_accessorRole names,
      ms_role = domain @ '':role.'' @ mn_exchangerRole names\<rparr>"

text \<open>The request that writes a policy and the check of what is then read; \<open>doing\<close> words the errors.\<close>

definition write_exchange_policy ::
  "('b \<Rightarrow> json option) \<Rightarrow> ('s, 'b) zms_request \<Rightarrow> string \<Rightarrow> managed_names \<Rightarrow> json list \<Rightarrow> string \<Rightarrow> string \<Rightarrow> ('s, bool) zms_action" where
  "write_exchange_policy parse z domain names assertions doing verifying =
     (let policyPath = entity_path domain ''policy'' (mn_exchangePolicy names) in
      zbind (z Zms_Put policyPath (Some (policy_body domain (mn_exchangePolicy names) assertions))) (\<lambda>written.
      if \<not> is_success (za_status written) \<and> za_status written \<noteq> 409
      then zfail (unexpected_status (doing @ '' managed MCP exchange policy'') (za_status written))
      else zbind (z Zms_Get policyPath None) (\<lambda>verified.
      if za_status verified \<noteq> 200 then zfail (''Unable to verify '' @ verifying @ ''managed MCP exchange policy'')
      else zbind (zlift (policy_contains parse (za_body verified) (exchange_assertion domain names))) (\<lambda>present.
      if \<not> present then zfail (''Unable to verify '' @ verifying @ ''managed MCP exchange policy'')
      else zreturn (is_success (za_status written))))))"

definition new_assertion_json :: "managed_assertion \<Rightarrow> json" where
  "new_assertion_json a =
     JObj [(''role'', JStr (ms_role a)), (''resource'', JStr (ms_resource a)), (''action'', JStr (ms_action a))]"

definition ensure_exchange_policy :: "('b \<Rightarrow> json option) \<Rightarrow> ('s, 'b) zms_request \<Rightarrow> string \<Rightarrow> managed_names \<Rightarrow> ('s, bool) zms_action" where
  "ensure_exchange_policy parse z domain names =
     (let assertion = exchange_assertion domain names in
      zbind (z Zms_Get (entity_path domain ''policy'' (mn_exchangePolicy names)) None) (\<lambda>existing.
      if za_status existing = 200
      then zbind (zlift (policy_assertions parse (za_body existing) ''managed MCP exchange policy'')) (\<lambda>assertions.
        if assertion \<in> set assertions then zreturn False
        else write_exchange_policy parse z domain names (map managed_assertion_json assertions @ [new_assertion_json assertion])
               ''repairing'' ''repaired '')
      else if za_status existing \<noteq> 404
      then zfail (unexpected_status ''checking managed MCP exchange policy'' (za_status existing))
      else write_exchange_policy parse z domain names [new_assertion_json assertion] ''creating'' []))"

definition source_assertions :: "string \<Rightarrow> managed_names \<Rightarrow> string list \<Rightarrow> managed_assertion list" where
  "source_assertions domain names targets =
     map (\<lambda>t. \<lparr>ms_action = ''zts.token_source_exchange'', ms_resource = domain @ '':'' @ t,
                ms_role = domain @ '':role.'' @ mn_sourceExchangerRole names\<rparr>) targets"

definition add_missing :: "'a list \<Rightarrow> 'a list \<Rightarrow> 'a list" where
  "add_missing xs desired = foldl (\<lambda>ys d. if d \<in> set ys then ys else ys @ [d]) xs desired"

definition ensure_source_exchange_policy ::
  "('b \<Rightarrow> json option) \<Rightarrow> ('s, 'b) zms_request \<Rightarrow> string \<Rightarrow> managed_names \<Rightarrow> string list \<Rightarrow> ('s, bool) zms_action" where
  "ensure_source_exchange_policy parse z domain names targets =
     (let policyPath = entity_path domain ''policy'' (mn_sourceExchangePolicy names); what = ''managed MCP source-exchange policy'';
          desired = source_assertions domain names targets;
          update = (\<lambda>assertions.
            zbind (z Zms_Put policyPath (Some (policy_body domain (mn_sourceExchangePolicy names)
                (map managed_assertion_json (add_missing assertions desired))))) (\<lambda>updated.
            if \<not> is_success (za_status updated) \<and> za_status updated \<noteq> 409
            then zfail (unexpected_status (''updating '' @ what) (za_status updated))
            else zbind (z Zms_Get policyPath None) (\<lambda>verified.
            if za_status verified \<noteq> 200 then zfail (unexpected_status (''verifying '' @ what) (za_status verified))
            else zbind (zlift (policy_assertions parse (za_body verified) what)) (\<lambda>found.
            if \<not> set desired \<subseteq> set found then zfail (''Unable to verify '' @ what)
            else zreturn (is_success (za_status updated))))))
      in zbind (z Zms_Get policyPath None) (\<lambda>existing.
      if za_status existing = 200
      then zbind (zlift (policy_assertions parse (za_body existing) what)) (\<lambda>assertions.
        if set desired \<subseteq> set assertions then zreturn False else update assertions)
      else if za_status existing \<noteq> 404 then zfail (unexpected_status (''checking '' @ what) (za_status existing))
      else update []))"

section \<open>Provisioning\<close>

record managed_access_report =
  mr_exchangePolicyCreated :: bool
  mr_exchangerMemberAdded :: bool
  mr_exchangerRoleCreated :: bool
  mr_roleCreated :: bool
  mr_sourceExchangerMemberAdded :: bool
  mr_sourceExchangerRoleCreated :: bool

definition ensure_managed_access ::
  "('b \<Rightarrow> json option) \<Rightarrow> ('s, 'b) zms_request \<Rightarrow> string \<Rightarrow> string \<Rightarrow> string \<Rightarrow> string \<Rightarrow> ('s, managed_access_report) zms_action" where
  "ensure_managed_access parse z gatewayPrincipal project mcpKeyName serviceAccount =
     (if \<not> is_dns_label project then zfail ''Managed MCP project is invalid'' else
      let domain = managed_domain project in
      zbind (zlift (managed_access_names mcpKeyName)) (\<lambda>names.
      zbind (zlift (service_name_in_domain serviceAccount domain)) (\<lambda>serviceName.
      if \<not> is_principal_name gatewayPrincipal then zfail ''Managed MCP Athenz principal is invalid'' else
      zbind (require_domain z domain) (\<lambda>_.
      zbind (require_service z domain serviceName serviceAccount) (\<lambda>_.
      zbind (ensure_role z domain (mn_accessorRole names)) (\<lambda>roleCreated.
      zbind (ensure_role z domain (mn_exchangerRole names)) (\<lambda>exchangerRoleCreated.
      zbind (ensure_role_member parse z domain (mn_exchangerRole names) gatewayPrincipal) (\<lambda>exchangerMemberAdded.
      zbind (ensure_exchange_policy parse z domain names) (\<lambda>exchangePolicyCreated.
      zbind (ensure_role z domain (mn_sourceExchangerRole names)) (\<lambda>sourceExchangerRoleCreated.
      zbind (ensure_role_member parse z domain (mn_sourceExchangerRole names) serviceAccount) (\<lambda>sourceExchangerMemberAdded.
      zreturn \<lparr>mr_exchangePolicyCreated = exchangePolicyCreated, mr_exchangerMemberAdded = exchangerMemberAdded,
               mr_exchangerRoleCreated = exchangerRoleCreated, mr_roleCreated = roleCreated,
               mr_sourceExchangerMemberAdded = sourceExchangerMemberAdded,
               mr_sourceExchangerRoleCreated = sourceExchangerRoleCreated\<rparr>)))))))))))"

definition ensure_accessor_member ::
  "('b \<Rightarrow> json option) \<Rightarrow> ('s, 'b) zms_request \<Rightarrow> string \<Rightarrow> string \<Rightarrow> string \<Rightarrow> string \<Rightarrow> ('s, bool) zms_action" where
  "ensure_accessor_member parse z userDomain project mcpKeyName username =
     (if \<not> is_dns_label project then zfail ''Managed MCP project is invalid'' else
      let userPrincipal = userDomain @ ''.'' @ username; domain = managed_domain project in
      if \<not> is_principal_name userPrincipal then zfail ''Managed MCP Athenz principal is invalid'' else
      zbind (zlift (managed_access_names mcpKeyName)) (\<lambda>names.
      zbind (require_domain z domain) (\<lambda>_.
      zbind (ensure_role z domain (mn_accessorRole names)) (\<lambda>_.
      ensure_role_member parse z domain (mn_accessorRole names) userPrincipal))))"

record source_exchange_report =
  sr_policyUpdated :: bool
  sr_sourceExchangerMemberAdded :: bool
  sr_sourceExchangerRoleCreated :: bool

definition audience_list :: "string list \<Rightarrow> string list" where
  "audience_list targets = sort (uniq (filter (\<lambda>t. t \<noteq> []) (map trim targets)))"

definition check_audiences :: "string list \<Rightarrow> (string, unit) result" where
  "check_audiences audiences =
     (if audiences = [] then Inl ''Managed MCP source exchange requires an audience domain''
      else case find (\<lambda>a. \<not> is_principal_name a) audiences of
        None \<Rightarrow> Inr ()
      | Some a \<Rightarrow> Inl (''Managed MCP source-exchange audience '' @ json_string a @ '' is invalid''))"

definition ensure_source_exchange ::
  "('b \<Rightarrow> json option) \<Rightarrow> ('s, 'b) zms_request \<Rightarrow> string \<Rightarrow> string \<Rightarrow> string \<Rightarrow> string list \<Rightarrow> ('s, source_exchange_report) zms_action" where
  "ensure_source_exchange parse z project mcpKeyName serviceAccount targetDomains =
     (if \<not> is_dns_label project then zfail ''Managed MCP project is invalid'' else
      let audiences = audience_list targetDomains; domain = managed_domain project in
      zbind (zlift (check_audiences audiences)) (\<lambda>_.
      zbind (zlift (managed_access_names mcpKeyName)) (\<lambda>names.
      zbind (zlift (service_name_in_domain serviceAccount domain)) (\<lambda>serviceName.
      zbind (require_domain z domain) (\<lambda>_.
      zbind (require_service z domain serviceName serviceAccount) (\<lambda>_.
      zbind (ensure_role z domain (mn_sourceExchangerRole names)) (\<lambda>sourceExchangerRoleCreated.
      zbind (ensure_role_member parse z domain (mn_sourceExchangerRole names) serviceAccount) (\<lambda>sourceExchangerMemberAdded.
      zbind (ensure_source_exchange_policy parse z domain names audiences) (\<lambda>policyUpdated.
      zreturn \<lparr>sr_policyUpdated = policyUpdated, sr_sourceExchangerMemberAdded = sourceExchangerMemberAdded,
               sr_sourceExchangerRoleCreated = sourceExchangerRoleCreated\<rparr>)))))))))"

record managed_deletion_report =
  md_policiesDeleted :: "string list"
  md_rolesDeleted :: "string list"

definition delete_managed_access :: "('s, 'b) zms_request \<Rightarrow> string \<Rightarrow> string \<Rightarrow> ('s, managed_deletion_report) zms_action" where
  "delete_managed_access z project mcpKeyName =
     (if \<not> is_dns_label project then zfail ''Managed MCP project is invalid'' else
      let domain = managed_domain project in
      zbind (zlift (managed_access_names mcpKeyName)) (\<lambda>names.
      zbind (z Zms_Get (domain_path domain) None) (\<lambda>a.
      if za_status a = 404 then zreturn \<lparr>md_policiesDeleted = [], md_rolesDeleted = []\<rparr>
      else if za_status a \<noteq> 200
      then zfail (unexpected_status ''checking the managed MCP domain before access cleanup'' (za_status a))
      else zbind (zpick (delete_zms_entity z domain ''policy'') [mn_exchangePolicy names, mn_sourceExchangePolicy names]) (\<lambda>policies.
      zbind (zpick (delete_zms_entity z domain ''role'')
               [mn_exchangerRole names, mn_sourceExchangerRole names, mn_accessorRole names]) (\<lambda>roles.
      zreturn \<lparr>md_policiesDeleted = policies, md_rolesDeleted = roles\<rparr>)))))"

section \<open>The service's key and certificates\<close>

text \<open>\<^verbatim>\<open>mcpServiceKeyId.ts\<close>; the hexadecimal SHA-256 is an argument.\<close>

definition service_key_id :: "(string \<Rightarrow> string) \<Rightarrow> string \<Rightarrow> (string, string) result" where
  "service_key_id sha256 mcpKeyName =
     (if \<not> is_dns_label mcpKeyName then Inl ''MCP key name is invalid for a service key''
      else let readable = ''idthw-hub-'' @ mcpKeyName in
        if length readable \<le> 63 then Inr readable
        else let suffix = take 12 (sha256 mcpKeyName) in
          Inr (''idthw-hub-'' @ take (63 - length ''idthw-hub-'' - length suffix - 1) mcpKeyName @ ''-'' @ suffix))"

definition is_public_key :: "string \<Rightarrow> bool" where
  "is_public_key s \<longleftrightarrow> s \<noteq> [] \<and> list_all is_name_char s"

text \<open>The base64 text with the characters of Athenz: \<open>.\<close>, \<open>_\<close> and \<open>-\<close> for \<open>+\<close>, \<open>/\<close> and \<open>=\<close>\<close>

definition y_base64 :: "string \<Rightarrow> string" where
  "y_base64 s = map (\<lambda>c. if c = CHR ''+'' then CHR ''.'' else if c = CHR ''/'' then CHR ''_'' else if c = CHR ''='' then CHR ''-'' else c) s"

definition public_key_matches :: "('b \<Rightarrow> json option) \<Rightarrow> 'b \<Rightarrow> string \<Rightarrow> string \<Rightarrow> bool" where
  "public_key_matches parse body keyId key =
     (case parse body of Some v \<Rightarrow> has_field v ''id'' keyId \<and> has_field v ''key'' key | None \<Rightarrow> False)"

definition register_public_key ::
  "('b \<Rightarrow> json option) \<Rightarrow> (string \<Rightarrow> string) \<Rightarrow> ('s, 'b) zms_request \<Rightarrow> string \<Rightarrow> string \<Rightarrow> string \<Rightarrow> string \<Rightarrow> ('s, bool) zms_action" where
  "register_public_key parse sha256 z project serviceAccount mcpKeyName key =
     (if \<not> is_public_key key then zfail ''Generated MCP service public key is invalid'' else
      let domain = managed_domain project in
      zbind (zlift (service_name_in_domain serviceAccount domain)) (\<lambda>serviceName.
      zbind (zlift (service_key_id sha256 mcpKeyName)) (\<lambda>keyId.
      let keyPath = entity_path domain ''service'' serviceName @ ''/publickey/'' @ encode_uri_component keyId in
      zbind (z Zms_Get keyPath None) (\<lambda>current.
      if za_status current = 200 \<and> public_key_matches parse (za_body current) keyId key then zreturn False
      else if za_status current \<noteq> 200 \<and> za_status current \<noteq> 404
      then zfail (unexpected_status ''checking the generated MCP service key'' (za_status current))
      else zbind (z Zms_Put keyPath (Some (JObj [(''id'', JStr keyId), (''key'', JStr key)]))) (\<lambda>updated.
      if \<not> is_success (za_status updated)
      then zfail (unexpected_status ''registering the generated MCP service key'' (za_status updated))
      else zbind (z Zms_Get keyPath None) (\<lambda>verified.
      if za_status verified \<noteq> 200 \<or> \<not> public_key_matches parse (za_body verified) keyId key
      then zfail ''Unable to verify the generated MCP service key''
      else zreturn True))))))"

definition launch_provider :: string where
  "launch_provider = ''zts_instance_launch_provider''"

text \<open>The two requests of \<^verbatim>\<open>Promise.all\<close>: both are sent; the first failure is the result.\<close>

definition zboth :: "('s, 'a) zms_action \<Rightarrow> ('s, 'b) zms_action \<Rightarrow> ('s, 'a \<times> 'b) zms_action" where
  "zboth f g s = (case f s of (r, s1) \<Rightarrow> case g s1 of (q, s2) \<Rightarrow> (ebind r (\<lambda>x. ebind q (\<lambda>y. Inr (x, y))), s2))"

definition launch_access :: "string \<Rightarrow> string \<Rightarrow> json \<Rightarrow> bool" where
  "launch_access domain serviceName v \<longleftrightarrow> has_field v ''action'' ''launch''
     \<and> has_field v ''resource'' (domain @ '':service.'' @ serviceName) \<and> has_field v ''role'' (domain @ '':role.'' @ launch_provider)"

definition certificate_provider_is_ready ::
  "('b \<Rightarrow> json option) \<Rightarrow> ('s, 'b) zms_request \<Rightarrow> string \<Rightarrow> string \<Rightarrow> ('s, bool) zms_action" where
  "certificate_provider_is_ready parse z domain serviceName =
     zbind (zboth (z Zms_Get (entity_path domain ''role'' launch_provider) None)
                  (z Zms_Get (entity_path domain ''policy'' launch_provider) None)) (\<lambda>(role, policy).
     if za_status role = 404 \<or> za_status policy = 404 then zreturn False
     else if za_status role \<noteq> 200 \<or> za_status policy \<noteq> 200 then zfail ''Unable to check MCP service certificate issuance''
     else zreturn (case (parse (za_body role), parse (za_body policy)) of
            (Some (JObj r), Some (JObj p)) \<Rightarrow>
              role_has_member r ''sys.auth.zts'' \<and> list_ex (launch_access domain serviceName) (json_items (map_of p ''assertions''))
          | _ \<Rightarrow> False))"

definition ensure_certificate_provider ::
  "('b \<Rightarrow> json option) \<Rightarrow> ('s, 'b) zms_request \<Rightarrow> string \<Rightarrow> string \<Rightarrow> ('s, bool) zms_action" where
  "ensure_certificate_provider parse z project serviceAccount =
     (let domain = managed_domain project in
      zbind (zlift (service_name_in_domain serviceAccount domain)) (\<lambda>serviceName.
      zbind (certificate_provider_is_ready parse z domain serviceName) (\<lambda>ready.
      if ready then zreturn False
      else zbind (z Zms_Put (domain_path domain @ ''/template'')
          (Some (JObj [(''params'', JArr [JObj [(''name'', JStr ''service''), (''value'', JStr serviceName)]]),
                       (''templateNames'', JArr [JStr launch_provider])]))) (\<lambda>a.
      if \<not> is_success (za_status a)
      then zfail (unexpected_status ''enabling MCP service certificate issuance'' (za_status a))
      else zbind (certificate_provider_is_ready parse z domain serviceName) (\<lambda>now.
      if \<not> now then zfail ''Unable to verify MCP service certificate issuance'' else zreturn True)))))"

end
