(* ===== verification/Hub_Permission_Access.thy ===== *)
theory Hub_Permission_Access
  imports Hub_Zms
begin

text \<open>
  \<^verbatim>\<open>permissions/lib/zmsPolicy.ts\<close>, \<^verbatim>\<open>permissions/api/requestToolPermissionAccess.ts\<close>,
  \<^verbatim>\<open>permissions/lib/athenzRoles.ts\<close> and \<^verbatim>\<open>permissions/lib/fetchPermissionReadiness.ts\<close>: how the hub asks ZMS
  whether the permissions of a tool are in place, and puts the missing ones in place.
\<close>

section \<open>Policies of ZMS\<close>

record zms_assertion =
  zp_action :: string
  zp_effect :: policy_effect
  zp_resource :: string
  zp_role :: string

definition require_text :: "unknown \<Rightarrow> string \<Rightarrow> (string, string) result" where
  "require_text v location =
     (case as_string v of
        None \<Rightarrow> Inl (''ZMS returned an invalid '' @ location)
      | Some s \<Rightarrow> if trim s = [] then Inl (''ZMS returned an invalid '' @ location) else Inr s)"

definition require_record :: "unknown \<Rightarrow> string \<Rightarrow> (string, (string \<times> json) list) result" where
  "require_record v location =
     (case as_record v of None \<Rightarrow> Inl (''ZMS returned an invalid '' @ location) | Some fs \<Rightarrow> Inr fs)"

definition parse_zms_payload :: "('b \<Rightarrow> json option) \<Rightarrow> 'b \<Rightarrow> string \<Rightarrow> (string, (string \<times> json) list) result" where
  "parse_zms_payload parse body location =
     (case parse body of
        None \<Rightarrow> Inl (''ZMS returned invalid JSON for '' @ location)
      | Some v \<Rightarrow> require_record (Some v) location)"

definition assertion_effect :: "unknown \<Rightarrow> (string, policy_effect) result" where
  "assertion_effect v =
     (if v = None \<or> v = Some (JStr ''ALLOW'') then Inr Allow
      else if v = Some (JStr ''DENY'') then Inr Deny
      else Inl ''ZMS returned an invalid policy assertion effect'')"

definition parse_assertion :: "json \<Rightarrow> (string, zms_assertion) result" where
  "parse_assertion v =
     ebind (require_record (Some v) ''policy assertion'') (\<lambda>fs.
     ebind (assertion_effect (map_of fs ''effect'')) (\<lambda>effect.
     ebind (require_text (map_of fs ''action'') ''policy assertion action'') (\<lambda>action.
     ebind (require_text (map_of fs ''resource'') ''policy assertion resource'') (\<lambda>resource.
     ebind (require_text (map_of fs ''role'') ''policy assertion role'') (\<lambda>role.
     Inr \<lparr>zp_action = action, zp_effect = effect, zp_resource = resource, zp_role = role\<rparr>)))))"

definition parse_assertions :: "unknown \<Rightarrow> (string, zms_assertion list) result" where
  "parse_assertions v =
     (case v of
        None \<Rightarrow> Inr []
      | Some (JArr vs) \<Rightarrow> emap parse_assertion vs
      | _ \<Rightarrow> Inl ''ZMS returned invalid policy assertions'')"

definition parse_zms_policy :: "('b \<Rightarrow> json option) \<Rightarrow> 'b \<Rightarrow> (string, zms_assertion list) result" where
  "parse_zms_policy parse body =
     ebind (parse_zms_payload parse body ''policy'') (\<lambda>fs. parse_assertions (map_of fs ''assertions''))"

text \<open>One entry of \<^verbatim>\<open>policies\<close>: names and assertions.\<close>

definition parse_listed_policy :: "json \<Rightarrow> (string, string list \<times> zms_assertion list) result" where
  "parse_listed_policy v =
     (case v of
        JStr s \<Rightarrow> ebind (require_text (Some v) ''policy name'') (\<lambda>n. Inr ([n], []))
      | _ \<Rightarrow>
          ebind (require_record (Some v) ''policy'') (\<lambda>fs.
          ebind (parse_assertions (map_of fs ''assertions'')) (\<lambda>assertions.
          Inr (case as_string (map_of fs ''name'') of None \<Rightarrow> [] | Some n \<Rightarrow> (if trim n = [] then [] else [n]), assertions))))"

definition parse_zms_policy_list :: "('b \<Rightarrow> json option) \<Rightarrow> 'b \<Rightarrow> (string, zms_assertion list \<times> string list) result" where
  "parse_zms_policy_list parse body =
     ebind (parse_zms_payload parse body ''policy list'') (\<lambda>fs.
     let names = map_of fs ''names''; policies = map_of fs ''policies'' in
     ebind (case names of Some (JArr vs) \<Rightarrow> emap (\<lambda>v. require_text (Some v) ''policy name'') vs | _ \<Rightarrow> Inr []) (\<lambda>ns.
     ebind (case policies of Some (JArr vs) \<Rightarrow> emap parse_listed_policy vs | _ \<Rightarrow> Inr []) (\<lambda>ps.
     if (case names of Some (JArr _) \<Rightarrow> False | _ \<Rightarrow> True) \<and> (case policies of Some (JArr _) \<Rightarrow> False | _ \<Rightarrow> True)
     then Inl ''ZMS returned an invalid policy list''
     else Inr (concat (map snd ps), uniq (ns @ concat (map fst ps))))))"

definition assertion_key :: "zms_assertion \<Rightarrow> string" where
  "assertion_key a = policy_identity (zp_effect a) (zp_action a) (zp_role a) (zp_resource a)"

section \<open>Putting permissions in place\<close>

datatype check_status = Ready | Missing | Unavailable

text \<open>The requirement or policy of a group with what the last check said.\<close>

record requested_member =
  rm_member :: string
  rm_role :: string
  rm_source :: requirement_source
  rm_status :: check_status

record requested_policy =
  rp_assertion :: zms_assertion
  rp_source :: requirement_source
  rp_check :: check_status

record access_report =
  ac_changed :: bool
  ac_membershipsAdded :: nat
  ac_policiesUpdated :: nat

definition ensure_permission_member :: "('b \<Rightarrow> json option) \<Rightarrow> ('s, 'b) zms_request \<Rightarrow> requested_member \<Rightarrow> ('s, bool) zms_action" where
  "ensure_permission_member parse z r =
     zbind (zlift (parse_athenz_role (rm_role r))) (\<lambda>(domain, role).
     let rolePath = entity_path domain ''role'' role; contains = (\<lambda>body. role_contains parse ''Athenz role'' body (rm_member r)) in
     zbind (z Zms_Get rolePath None) (\<lambda>existing.
     if za_status existing = 404 then zfail (''Required Athenz role '' @ rm_role r @ '' does not exist'')
     else if za_status existing \<noteq> 200 then zfail (unexpected_status (''checking '' @ rm_role r) (za_status existing))
     else zbind (zlift (contains (za_body existing))) (\<lambda>present.
     if present then zreturn False
     else zbind (z Zms_Put (member_path domain role (rm_member r)) (Some (member_body (rm_member r) role))) (\<lambda>added.
     if \<not> is_success (za_status added) \<and> za_status added \<noteq> 409
     then zfail (unexpected_status (''adding '' @ rm_member r @ '' to '' @ rm_role r) (za_status added))
     else zbind (z Zms_Get rolePath None) (\<lambda>verified.
     if za_status verified \<noteq> 200 then zfail (''Unable to verify '' @ rm_member r @ '' in '' @ rm_role r)
     else zbind (zlift (contains (za_body verified))) (\<lambda>now.
     if \<not> now then zfail (''Unable to verify '' @ rm_member r @ '' in '' @ rm_role r)
     else zreturn (is_success (za_status added))))))))"

text \<open>\<^verbatim>\<open>permissionPolicyName\<close>: runs of other characters and of \<open>_\<close> become one \<open>_\<close>.\<close>

fun squeeze_underscores :: "string \<Rightarrow> string" where
  "squeeze_underscores (a # b # cs) =
     (if a = CHR ''_'' \<and> b = CHR ''_'' then squeeze_underscores (b # cs) else a # squeeze_underscores (b # cs))"
| "squeeze_underscores s = s"

definition permission_policy_name :: "(string \<Rightarrow> string) \<Rightarrow> string \<Rightarrow> string \<Rightarrow> string \<Rightarrow> string" where
  "permission_policy_name sha256 role action resource =
     (let plain = map (\<lambda>c. if is_alnum c \<or> c = CHR ''_'' \<or> c = CHR ''-'' then c else CHR ''_'') (role @ ''_'' @ action @ ''_'' @ resource);
          bare = (\<lambda>s. rev (dropWhile (\<lambda>c. c = CHR ''_'') (rev (dropWhile (\<lambda>c. c = CHR ''_'') s)))) (squeeze_underscores plain);
          normalized = (if bare = [] then ''policy'' else bare) in
      if length normalized \<le> 192 then normalized
      else let digest = take 12 (sha256 normalized) in take (192 - length digest - 1) normalized @ ''_'' @ digest)"

definition assertion_json :: "zms_assertion \<Rightarrow> json" where
  "assertion_json a = JObj
     [(''action'', JStr (zp_action a)), (''effect'', JStr (effect_text (zp_effect a))), (''resource'', JStr (zp_resource a)),
      (''role'', JStr (zp_role a))]"

definition ensure_policy_assertion ::
  "('b \<Rightarrow> json option) \<Rightarrow> (string \<Rightarrow> string) \<Rightarrow> ('s, 'b) zms_request \<Rightarrow> zms_assertion \<Rightarrow> ('s, bool) zms_action" where
  "ensure_policy_assertion parse sha256 z expected =
     zbind (zlift (parse_athenz_role (zp_role expected))) (\<lambda>(domain, role).
     zbind (z Zms_Get (entity_path domain ''role'' role) None) (\<lambda>roleAnswer.
     if za_status roleAnswer = 404 then zfail (''Required Athenz role '' @ zp_role expected @ '' does not exist'')
     else if za_status roleAnswer \<noteq> 200 then zfail (unexpected_status (''checking '' @ zp_role expected) (za_status roleAnswer))
     else
       let policyName = permission_policy_name sha256 role (zp_action expected) (zp_resource expected);
           policyPath = entity_path domain ''policy'' policyName; what = domain @ '':policy.'' @ policyName in
       zbind (z Zms_Get policyPath None) (\<lambda>existing.
       zbind (if za_status existing = 200 then zlift (parse_zms_policy parse (za_body existing))
              else if za_status existing \<noteq> 404 then zfail (unexpected_status (''checking '' @ what) (za_status existing))
              else zreturn []) (\<lambda>assertions.
       if assertion_key expected \<in> set (map assertion_key assertions) then zreturn False
       else zbind (z Zms_Put policyPath (Some (policy_body domain policyName (map assertion_json (assertions @ [expected]))))) (\<lambda>updated.
       if \<not> is_success (za_status updated) \<and> za_status updated \<noteq> 409
       then zfail (unexpected_status (''updating '' @ what) (za_status updated))
       else zbind (z Zms_Get policyPath None) (\<lambda>verified.
       if za_status verified \<noteq> 200 then zfail (unexpected_status (''verifying '' @ what) (za_status verified))
       else zbind (zlift (parse_zms_policy parse (za_body verified))) (\<lambda>found.
       if assertion_key expected \<notin> set (map assertion_key found) then zfail (''Unable to verify '' @ what)
       else zreturn (is_success (za_status updated)))))))))"

definition request_tool_access ::
  "('b \<Rightarrow> json option) \<Rightarrow> (string \<Rightarrow> string) \<Rightarrow> ('s, 'b) zms_request \<Rightarrow> requested_member list \<Rightarrow> requested_policy list \<Rightarrow> ('s, access_report) zms_action" where
  "request_tool_access parse sha256 z allRequirements allPolicies =
     (let requirements = filter (\<lambda>r. rm_source r \<noteq> Managed) allRequirements;
          policies = filter (\<lambda>p. rp_source p = Helper) allPolicies in
      if Unavailable \<in> set (map rm_status requirements @ map rp_check policies)
      then zfail ''Athenz permission status is currently unavailable''
      else zbind (zpick (ensure_permission_member parse z) (filter (\<lambda>r. rm_status r = Missing) requirements)) (\<lambda>added.
      zbind (zpick (\<lambda>p. ensure_policy_assertion parse sha256 z (rp_assertion p)) (filter (\<lambda>p. rp_check p = Missing) policies)) (\<lambda>updated.
      zreturn \<lparr>ac_changed = (added \<noteq> [] \<or> updated \<noteq> []), ac_membershipsAdded = length added, ac_policiesUpdated = length updated\<rparr>)))"

section \<open>Checking permissions\<close>

text \<open>What the checks read: ZMS by principal and by path. Each request is sent at most once for a name.\<close>

record zms_reader =
  zr_roles :: "string \<Rightarrow> (string, string zms_answer) result"
  zr_get :: "string \<Rightarrow> (string, string zms_answer) result"
  zr_parse :: "string \<Rightarrow> json option"

definition non_empty_string :: "unknown \<Rightarrow> string option" where
  "non_empty_string v = (case as_string v of None \<Rightarrow> None | Some s \<Rightarrow> if s = [] then None else Some s)"

text \<open>\<^verbatim>\<open>s.includes(":role.")\<close>\<close>

definition has_role_marker :: "string \<Rightarrow> bool" where
  "has_role_marker s \<longleftrightarrow> list_ex (\<lambda>i. starts_with '':role.'' (drop i s)) [0..<length s]"

definition role_of_membership :: "json \<Rightarrow> (string, string) result" where
  "role_of_membership v =
     (case v of
        JObj fs \<Rightarrow>
          (case non_empty_string (map_of fs ''roleName'') of
             None \<Rightarrow> Inl ''ZMS role membership is missing roleName''
           | Some roleName \<Rightarrow>
               if has_role_marker roleName
               then ebind (parse_athenz_role roleName) (\<lambda>(domain, _).
                 case non_empty_string (map_of fs ''domainName'') of
                   None \<Rightarrow> Inr roleName
                 | Some d \<Rightarrow> if d \<noteq> domain then Inl ''ZMS role membership domain does not match roleName'' else Inr roleName)
               else case non_empty_string (map_of fs ''domainName'') of
                 None \<Rightarrow> Inl ''ZMS role membership is missing domainName''
               | Some d \<Rightarrow> ebind (parse_athenz_role (d @ '':role.'' @ roleName)) (\<lambda>_. Inr (d @ '':role.'' @ roleName)))
      | _ \<Rightarrow> Inl ''ZMS returned an invalid role membership'')"

definition fetch_principal_roles :: "zms_reader \<Rightarrow> string \<Rightarrow> (string, string list) result" where
  "fetch_principal_roles zr member =
     ebind (zr_roles zr member) (\<lambda>a.
     if za_status a = 404 then Inr []
     else if za_status a \<noteq> 200 then Inl (''ZMS returned HTTP '' @ nat_text (za_status a))
     else case zr_parse zr (za_body a) of
       Some (JObj fs) \<Rightarrow>
         (case map_of fs ''memberRoles'' of
            Some (JArr vs) \<Rightarrow> emap role_of_membership vs
          | _ \<Rightarrow> Inl ''ZMS returned an invalid member role response'')
     | _ \<Rightarrow> Inl ''ZMS returned an invalid member role response'')"

definition simple_policy_name :: "string \<Rightarrow> string \<Rightarrow> string" where
  "simple_policy_name domain name =
     (let prefix = domain @ '':policy.'' in if starts_with prefix name then drop (length prefix) name else name)"

definition fetch_policy :: "zms_reader \<Rightarrow> string \<Rightarrow> string \<Rightarrow> (string, zms_assertion list) result" where
  "fetch_policy zr domain listedName =
     ebind (zr_get zr (entity_path domain ''policy'' (simple_policy_name domain listedName))) (\<lambda>a.
     if za_status a = 404 then Inr []
     else if za_status a \<noteq> 200 then Inl (''ZMS returned HTTP '' @ nat_text (za_status a))
     else parse_zms_policy (zr_parse zr) (za_body a))"

definition fetch_domain_assertions :: "zms_reader \<Rightarrow> string \<Rightarrow> (string, string list) result" where
  "fetch_domain_assertions zr domain =
     ebind (zr_get zr (domain_path domain @ ''/policy'')) (\<lambda>a.
     if za_status a = 404 then Inr []
     else if za_status a \<noteq> 200 then Inl (''ZMS returned HTTP '' @ nat_text (za_status a))
     else ebind (parse_zms_policy_list (zr_parse zr) (za_body a)) (\<lambda>(assertions, names).
       ebind (emap (fetch_policy zr domain) names) (\<lambda>details.
       Inr (map assertion_key (assertions @ concat details)))))"

text \<open>The environment of the hub, with the permission presets it has read.\<close>

record hub_settings =
  hs_presets :: "(string, unknown) result"
  hs_userDomain :: string
  hs_gatewayPrincipal :: string
  hs_athenzUiUrl :: string
  hs_credentials :: bool                      \<comment> \<open>whether the certificate files could be read\<close>

datatype permission_definition = No_Definition | Configuration_Error string | Defined permission_preset

definition permission_definition ::
  "hub_settings \<Rightarrow> string \<Rightarrow> string \<Rightarrow> string option \<Rightarrow> string option \<Rightarrow> unknown \<Rightarrow> string option \<Rightarrow> permission_definition" where
  "permission_definition hs serverId username routeAccessScope routeAccessAudience overrides servicePrincipal =
     (let signedIn = hs_userDomain hs @ ''.'' @ username in
      case ebind (hs_presets hs) (\<lambda>configured.
           ebind (server_settings configured serverId) (\<lambda>base.
           ebind (if overrides = None then Inr None else ebind (parse_tool_settings overrides) (\<lambda>s. Inr (Some s))) (\<lambda>over.
           ebind (case merge_tool_settings base over of
                    None \<Rightarrow> Inr None
                  | Some settings \<Rightarrow> ebind (preset_of_settings settings serverId signedIn
                      (Some \<lparr>hx_gatewayPrincipal = Some (hs_gatewayPrincipal hs), hx_servicePrincipal = servicePrincipal\<rparr>)) (\<lambda>p. Inr (Some p))) (\<lambda>preset.
           ebind (with_managed_access preset serverId routeAccessScope signedIn (hs_gatewayPrincipal hs) servicePrincipal) (\<lambda>managed.
           with_exchange_policies managed routeAccessAudience))))) of
        Inl m \<Rightarrow> Configuration_Error m
      | Inr None \<Rightarrow> No_Definition
      | Inr (Some p) \<Rightarrow> Defined p)"

record checked_requirement =
  kq_requirement :: permission_requirement
  kq_roleUrl :: string
  kq_status :: check_status

record checked_policy =
  kp_policy :: policy_requirement
  kp_roleUrl :: string
  kp_status :: check_status

record checked_group =
  kg_group :: preset_group
  kg_policies :: "checked_policy list"
  kg_requirements :: "checked_requirement list"

datatype readiness = No_Readiness | Readiness_Error string | Readiness "permission_default option" "checked_group list" check_status

definition role_url :: "string \<Rightarrow> string \<Rightarrow> string \<Rightarrow> (string, string) result" where
  "role_url athenzUiUrl role page =
     ebind (parse_athenz_role role) (\<lambda>(domain, name).
     Inr (athenzUiUrl @ entity_path domain ''role'' name @ ''/'' @ page))"

definition status_of_lookup :: "(string, string list) result \<Rightarrow> string \<Rightarrow> check_status" where
  "status_of_lookup found wanted =
     (case found of Inl m \<Rightarrow> Unavailable | Inr xs \<Rightarrow> if wanted \<in> set xs then Ready else Missing)"

definition policy_assertion_of :: "policy_requirement \<Rightarrow> zms_assertion" where
  "policy_assertion_of p = \<lparr>zp_action = pp_action p, zp_effect = pp_effect p, zp_resource = pp_resource p, zp_role = pp_role p\<rparr>"

definition requirement_status :: "hub_settings \<Rightarrow> zms_reader \<Rightarrow> permission_requirement \<Rightarrow> check_status" where
  "requirement_status hs zr r =
     (if hs_credentials hs then status_of_lookup (fetch_principal_roles zr (pq_member r)) (pq_role r) else Unavailable)"

definition policy_status :: "hub_settings \<Rightarrow> zms_reader \<Rightarrow> policy_requirement \<Rightarrow> check_status" where
  "policy_status hs zr p =
     (if hs_credentials hs
      then status_of_lookup (ebind (parse_athenz_role (pp_role p)) (\<lambda>(domain, _). fetch_domain_assertions zr domain))
             (assertion_key (policy_assertion_of p))
      else Unavailable)"

text \<open>The policies of a group, none if it has no list.\<close>

definition listed_policies :: "preset_group \<Rightarrow> policy_requirement list" where
  "listed_policies g = (case pg_policies g of None \<Rightarrow> [] | Some ps \<Rightarrow> ps)"

definition check_group :: "hub_settings \<Rightarrow> zms_reader \<Rightarrow> preset_group \<Rightarrow> (string, checked_group) result" where
  "check_group hs zr g =
     ebind (emap (\<lambda>p. ebind (role_url (hs_athenzUiUrl hs) (pp_role p) ''policy'') (\<lambda>u.
              Inr \<lparr>kp_policy = p, kp_roleUrl = u, kp_status = policy_status hs zr p\<rparr>)) (listed_policies g)) (\<lambda>policies.
     ebind (emap (\<lambda>r. ebind (role_url (hs_athenzUiUrl hs) (pq_role r) ''members'') (\<lambda>u.
              Inr \<lparr>kq_requirement = r, kq_roleUrl = u, kq_status = requirement_status hs zr r\<rparr>)) (pg_requirements g)) (\<lambda>requirements.
     Inr \<lparr>kg_group = g, kg_policies = policies, kg_requirements = requirements\<rparr>))"

definition group_statuses :: "checked_group \<Rightarrow> check_status list" where
  "group_statuses g = map kq_status (kg_requirements g) @ map kp_status (kg_policies g)"

definition overall_status :: "check_status list \<Rightarrow> check_status" where
  "overall_status statuses =
     (if Unavailable \<in> set statuses then Unavailable else if Missing \<in> set statuses then Missing else Ready)"

text \<open>
  Without certificates everything is unavailable, also a definition without any requirement; with them,
  the domains of all policies are taken from their roles first.
\<close>

definition permission_readiness ::
  "hub_settings \<Rightarrow> zms_reader \<Rightarrow> string \<Rightarrow> string \<Rightarrow> string option \<Rightarrow> string option \<Rightarrow> unknown \<Rightarrow> string option \<Rightarrow> (string, readiness) result" where
  "permission_readiness hs zr serverId username routeAccessScope routeAccessAudience overrides servicePrincipal =
     (case permission_definition hs serverId username routeAccessScope routeAccessAudience overrides servicePrincipal of
        No_Definition \<Rightarrow> Inr No_Readiness
      | Configuration_Error m \<Rightarrow> Inr (Readiness_Error m)
      | Defined preset \<Rightarrow>
          ebind (if hs_credentials hs then emap (\<lambda>p. parse_athenz_role (pp_role p)) (concat (map listed_policies (ps_groups preset))) else Inr []) (\<lambda>_.
          ebind (emap (check_group hs zr) (ps_groups preset)) (\<lambda>groups.
          Inr (Readiness (ps_default preset) groups
            (if hs_credentials hs then overall_status (concat (map group_statuses groups)) else Unavailable)))))"

section \<open>The presets and the roles\<close>

definition preset_of_config_map ::
  "(string \<Rightarrow> json option) \<Rightarrow> string \<Rightarrow> string \<Rightarrow> string \<Rightarrow> (string \<times> string) list option \<Rightarrow> (string, unknown) result" where
  "preset_of_config_map parseYaml namespace name key mapData =
     (let what = ''ConfigMap '' @ namespace @ ''/'' @ name; text_of = (case mapData of None \<Rightarrow> None | Some kvs \<Rightarrow> map_of kvs key) in
      case text_of of
        Some (c # cs) \<Rightarrow>
          (case parseYaml (c # cs) of
             None \<Rightarrow> Inl (what @ '' data key '' @ key @ '' is not valid YAML'')
           | Some v \<Rightarrow> Inr (Some v))
      | _ \<Rightarrow> Inl (what @ '' is missing data key '' @ key))"

definition is_selectable_role :: "string \<Rightarrow> bool" where
  "is_selectable_role role =
     (let normalized = to_lower role in
      normalized \<noteq> ''admin'' \<and> normalized \<noteq> launch_provider \<and> \<not> ends_with ''-exchanger'' normalized)"

text \<open>\<^verbatim>\<open>sort\<close> by \<^verbatim>\<open>localeCompare\<close> is an argument.\<close>

definition selectable_roles :: "(string list \<Rightarrow> string list) \<Rightarrow> unknown \<Rightarrow> string \<Rightarrow> (string, string list) result" where
  "selectable_roles localeSort v domain =
     (case as_record v of
        None \<Rightarrow> Inl ''ZMS returned an invalid role list''
      | Some fs \<Rightarrow>
          (case map_of fs ''names'' of
             Some (JArr vs) \<Rightarrow>
               ebind (emap (\<lambda>x. case as_string (Some x) of
                   None \<Rightarrow> Inl ''ZMS returned an invalid role name''
                 | Some s \<Rightarrow>
                     let prefix = domain @ '':role.''; role = (if starts_with prefix s then drop (length prefix) s else s) in
                     if dotted_name role then Inr role else Inl ''ZMS returned an invalid role name'') vs) (\<lambda>roles.
               Inr (localeSort (uniq (filter is_selectable_role roles))))
           | _ \<Rightarrow> Inl ''ZMS returned an invalid role list''))"

end
