(* ===== verification/Hub_Zms_Runs.thy ===== *)
theory Hub_Zms_Runs
  imports Hub_Permission_Access
begin

text \<open>
  What the programs over ZMS achieve: against any ZMS, a report of success rests on what was read at
  the end; against a ZMS that stores what it is sent, provisioning succeeds and is idempotent.
\<close>

section \<open>Success\<close>

text \<open>The action succeeds and its result and final state satisfy \<open>P\<close>.\<close>

definition zok :: "('s, 'a) zms_action \<Rightarrow> 's \<Rightarrow> ('a \<Rightarrow> 's \<Rightarrow> bool) \<Rightarrow> bool" where
  "zok f s P \<longleftrightarrow> (\<exists>x s'. f s = (Inr x, s') \<and> P x s')"

named_theorems zok_rules

lemma zok_bind [zok_rules]: "zok f s (\<lambda>x s'. zok (g x) s' P) \<Longrightarrow> zok (zbind f g) s P"
  by (auto simp: zok_def zbind_def)

lemma zok_return [zok_rules]: "P x s \<Longrightarrow> zok (zreturn x) s P"
  by (simp add: zok_def zreturn_def)

lemma zok_lift [zok_rules]: "r = Inr x \<Longrightarrow> P x s \<Longrightarrow> zok (zlift r) s P"
  by (simp add: zok_def zlift_def)

lemma zok_mono: "zok f s P \<Longrightarrow> (\<And>x s'. P x s' \<Longrightarrow> Q x s') \<Longrightarrow> zok f s Q"
  by (auto simp: zok_def)

text \<open>How a successful run of a sequence splits.\<close>

lemma zbind_Inr: "zbind f g s = (Inr y, s') \<longleftrightarrow> (\<exists>x s1. f s = (Inr x, s1) \<and> g x s1 = (Inr y, s'))"
  by (auto simp: zbind_def split: prod.splits sum.splits)

lemma zlift_Inr: "zlift r s = (Inr x, s') \<longleftrightarrow> r = Inr x \<and> s' = s"
  by (auto simp: zlift_def)

lemma zreturn_Inr: "zreturn x s = (Inr y, s') \<longleftrightarrow> y = x \<and> s' = s"
  by (auto simp: zreturn_def)

lemma zfail_Inr: "zfail m s = (Inr y, s') \<longleftrightarrow> False"
  by (simp add: zfail_def)

lemmas run_simps = zbind_Inr zlift_Inr zreturn_Inr zfail_Inr

lemma zif_Inr: "(if b then f else g) s = (Inr x, s') \<longleftrightarrow> (b \<and> f s = (Inr x, s')) \<or> (\<not> b \<and> g s = (Inr x, s'))"
  by simp

section \<open>Against any ZMS\<close>

text \<open>A document that was read with status 200, in some state on the way.\<close>

definition observed :: "('b \<Rightarrow> json option) \<Rightarrow> ('s, 'b) zms_request \<Rightarrow> string \<Rightarrow> ((string \<times> json) list \<Rightarrow> bool) \<Rightarrow> bool" where
  "observed parse z path P \<longleftrightarrow>
     (\<exists>s a s' fs. z Zms_Get path None s = (Inr a, s') \<and> za_status a = 200 \<and> parse (za_body a) = Some (JObj fs) \<and> P fs)"

lemma observedI:
  "z Zms_Get path None s = (Inr a, s') \<Longrightarrow> za_status a = 200 \<Longrightarrow> parse (za_body a) = Some (JObj fs) \<Longrightarrow> P fs \<Longrightarrow> observed parse z path P"
  by (auto simp: observed_def)

lemma parse_zms_record_Inr: "parse_zms_record parse body resource = Inr fs \<longleftrightarrow> parse body = Some (JObj fs)"
  by (auto simp: parse_zms_record_def split: option.splits json.splits)

lemma role_contains_Inr:
  "role_contains parse resource body member = Inr b \<longleftrightarrow> (\<exists>fs. parse body = Some (JObj fs) \<and> b = role_has_member fs member)"
  by (auto simp: role_contains_def ebind_eq_Inr parse_zms_record_Inr)

lemma permission_member_observed:
  assumes "ensure_permission_member parse z r s = (Inr b, s')"
  shows "\<exists>domain role. parse_athenz_role (rm_role r) = Inr (domain, role)
    \<and> observed parse z (entity_path domain ''role'' role) (\<lambda>fs. role_has_member fs (rm_member r))"
  using assms unfolding ensure_permission_member_def
  by (auto simp: run_simps zif_Inr Let_def role_contains_Inr split: prod.splits intro: observedI)

text \<open>The document of a policy has an assertion.\<close>

definition policy_has :: "zms_assertion \<Rightarrow> (string \<times> json) list \<Rightarrow> bool" where
  "policy_has a fs \<longleftrightarrow> (\<exists>found. parse_assertions (map_of fs ''assertions'') = Inr found \<and> assertion_key a \<in> set (map assertion_key found))"

lemma parse_zms_policy_Inr:
  "parse_zms_policy parse body = Inr found \<longleftrightarrow> (\<exists>fs. parse body = Some (JObj fs) \<and> parse_assertions (map_of fs ''assertions'') = Inr found)"
  by (auto simp: parse_zms_policy_def parse_zms_payload_def require_record_def ebind_eq_Inr split: option.splits)

lemma policy_hasI:
  "parse_assertions (map_of fs ''assertions'') = Inr found \<Longrightarrow> x \<in> set found \<Longrightarrow> assertion_key a = assertion_key x \<Longrightarrow> policy_has a fs"
  by (auto simp: policy_has_def)

lemma policy_assertion_observed:
  assumes "ensure_policy_assertion parse sha256 z expected s = (Inr b, s')"
  shows "\<exists>domain role. parse_athenz_role (zp_role expected) = Inr (domain, role)
    \<and> observed parse z (entity_path domain ''policy'' (permission_policy_name sha256 role (zp_action expected) (zp_resource expected)))
        (policy_has expected)"
  using assms unfolding ensure_policy_assertion_def
  by (auto simp: run_simps zif_Inr Let_def parse_zms_policy_Inr split: prod.splits if_splits intro!: observedI intro: policy_hasI)

lemma zpick_runs: "zpick f xs s = (Inr ys, s') \<Longrightarrow> x \<in> set xs \<Longrightarrow> \<exists>s1 b s2. f x s1 = (Inr b, s2)"
  by (induction xs arbitrary: s ys) (auto simp: run_simps split: if_splits)

lemma zpick_sublist: "zpick f xs s = (Inr ys, s') \<Longrightarrow> length ys \<le> length xs"
  by (induction xs arbitrary: s ys) (fastforce simp: run_simps split: if_splits)+

section \<open>Against a ZMS that keeps what it is sent\<close>

text \<open>
  The documented behaviour of ZMS for the requests of provisioning, in terms of a view of its state:
  the documents at the paths. Reading changes nothing and answers 200 with the document or 404; a role
  or policy that is put is there afterwards, a policy with the triples of its assertions; a member that
  is put is a member besides the old ones.
\<close>

type_synonym 's zms_view = "'s \<Rightarrow> string \<Rightarrow> (string \<times> json) list option"

definition zms_keeps :: "('b \<Rightarrow> json option) \<Rightarrow> ('s, 'b) zms_request \<Rightarrow> 's zms_view \<Rightarrow> bool" where
  "zms_keeps parse z view \<longleftrightarrow>
     (\<forall>path s. zok (z Zms_Get path None) s (\<lambda>a s'. view s' = view s
        \<and> (case view s path of None \<Rightarrow> za_status a = 404 | Some fs \<Rightarrow> za_status a = 200 \<and> parse (za_body a) = Some (JObj fs))))
   \<and> (\<forall>domain role s. zok (z Zms_Put (entity_path domain ''role'' role) (Some (role_body domain role))) s (\<lambda>a s'.
        is_success (za_status a) \<and> (\<exists>fs. view s' = (view s)(entity_path domain ''role'' role \<mapsto> fs))))
   \<and> (\<forall>domain policy vs s. zok (z Zms_Put (entity_path domain ''policy'' policy) (Some (policy_body domain policy vs))) s (\<lambda>a s'.
        is_success (za_status a) \<and> (\<exists>fs vs'. view s' = (view s)(entity_path domain ''policy'' policy \<mapsto> fs)
          \<and> map_of fs ''assertions'' = Some (JArr vs') \<and> map managed_assertion_of vs' = map managed_assertion_of vs)))
   \<and> (\<forall>domain role member fs s. view s (entity_path domain ''role'' role) = Some fs \<longrightarrow>
        zok (z Zms_Put (member_path domain role member) (Some (member_body member role))) s (\<lambda>a s'.
          is_success (za_status a) \<and> (\<exists>fs'. view s' = (view s)(entity_path domain ''role'' role \<mapsto> fs')
            \<and> role_has_member fs' member \<and> (\<forall>m. role_has_member fs m \<longrightarrow> role_has_member fs' m))))"

text \<open>One rule for each kind of request.\<close>

lemma zms_get:
  assumes "zms_keeps parse z view"
    and "\<And>a s'. view s' = view s \<Longrightarrow> (case view s path of None \<Rightarrow> za_status a = 404
      | Some fs \<Rightarrow> za_status a = 200 \<and> parse (za_body a) = Some (JObj fs)) \<Longrightarrow> P a s'"
  shows "zok (z Zms_Get path None) s P"
  by (rule zok_mono [OF assms(1) [unfolded zms_keeps_def, THEN conjunct1, rule_format]]) (use assms(2) in blast)

lemma zms_put_role:
  assumes "zms_keeps parse z view"
    and "\<And>a s' fs. is_success (za_status a) \<Longrightarrow> view s' = (view s)(entity_path domain ''role'' role \<mapsto> fs) \<Longrightarrow> P a s'"
  shows "zok (z Zms_Put (entity_path domain ''role'' role) (Some (role_body domain role))) s P"
  by (rule zok_mono [OF assms(1) [unfolded zms_keeps_def, THEN conjunct2, THEN conjunct1, rule_format]]) (use assms(2) in blast)

lemma zms_put_policy:
  assumes "zms_keeps parse z view"
    and "\<And>a s' fs vs'. is_success (za_status a) \<Longrightarrow> view s' = (view s)(entity_path domain ''policy'' policy \<mapsto> fs) \<Longrightarrow>
      map_of fs ''assertions'' = Some (JArr vs') \<Longrightarrow> map managed_assertion_of vs' = map managed_assertion_of vs \<Longrightarrow> P a s'"
  shows "zok (z Zms_Put (entity_path domain ''policy'' policy) (Some (policy_body domain policy vs))) s P"
  by (rule zok_mono [OF assms(1) [unfolded zms_keeps_def, THEN conjunct2, THEN conjunct2, THEN conjunct1, rule_format]]) (use assms(2) in blast)

lemma zms_put_member:
  assumes "zms_keeps parse z view" and "view s (entity_path domain ''role'' role) = Some fs"
    and "\<And>a s' fs'. is_success (za_status a) \<Longrightarrow> view s' = (view s)(entity_path domain ''role'' role \<mapsto> fs') \<Longrightarrow>
      role_has_member fs' member \<Longrightarrow> \<forall>m. role_has_member fs m \<longrightarrow> role_has_member fs' m \<Longrightarrow> P a s'"
  shows "zok (z Zms_Put (member_path domain role member) (Some (member_body member role))) s P"
  by (rule zok_mono [OF assms(1) [unfolded zms_keeps_def, THEN conjunct2, THEN conjunct2, THEN conjunct2, rule_format, OF assms(2)]])
     (use assms(3) in blast)

section \<open>Paths\<close>

lemma paths_differ:
  "entity_path domain ''policy'' p \<noteq> entity_path domain ''role'' r" "entity_path domain ''service'' n \<noteq> entity_path domain ''role'' r"
  "entity_path domain ''service'' n \<noteq> entity_path domain ''policy'' p" "domain_path domain \<noteq> entity_path domain k n"
  by (simp_all add: entity_path_def)

lemmas paths_differ' [simp] = paths_differ paths_differ [symmetric]

text \<open>What provisioning may change: roles keep their members, and nothing but roles and policies changes.\<close>

definition zgrows :: "string \<Rightarrow> (string \<Rightarrow> (string \<times> json) list option) \<Rightarrow> (string \<Rightarrow> (string \<times> json) list option) \<Rightarrow> bool" where
  "zgrows domain v v' \<longleftrightarrow>
     (\<forall>r fs. v (entity_path domain ''role'' r) = Some fs \<longrightarrow>
        (\<exists>fs'. v' (entity_path domain ''role'' r) = Some fs' \<and> (\<forall>m. role_has_member fs m \<longrightarrow> role_has_member fs' m)))
   \<and> (\<forall>p. v' p \<noteq> v p \<longrightarrow> (\<exists>r. p = entity_path domain ''role'' r) \<or> (\<exists>q. p = entity_path domain ''policy'' q))"

definition policies_same :: "string \<Rightarrow> (string \<Rightarrow> (string \<times> json) list option) \<Rightarrow> (string \<Rightarrow> (string \<times> json) list option) \<Rightarrow> bool" where
  "policies_same domain v v' \<longleftrightarrow> (\<forall>q. v' (entity_path domain ''policy'' q) = v (entity_path domain ''policy'' q))"

lemma zgrows_refl [simp]: "zgrows domain v v" "policies_same domain v v"
  by (auto simp: zgrows_def policies_same_def)

lemma zgrows_trans: "zgrows domain v1 v2 \<Longrightarrow> zgrows domain v2 v3 \<Longrightarrow> zgrows domain v1 v3"
  unfolding zgrows_def by metis

lemma zgrows_role:
  assumes "\<And>fs. v (entity_path domain ''role'' r) = Some fs \<Longrightarrow> \<forall>m. role_has_member fs m \<longrightarrow> role_has_member fs' m"
  shows "zgrows domain v (v(entity_path domain ''role'' r \<mapsto> fs'))" "policies_same domain v (v(entity_path domain ''role'' r \<mapsto> fs'))"
  using assms by (auto simp: zgrows_def policies_same_def)

lemma zgrows_policy: "zgrows domain v (v(entity_path domain ''policy'' q \<mapsto> fs))"
  by (auto simp: zgrows_def)

section \<open>Provisioning step by step\<close>

lemma success_codes: "is_success n \<Longrightarrow> n \<noteq> 404 \<and> n \<noteq> 409"
  by (simp add: is_success_def)

lemma ensure_role_ok:
  assumes "zms_keeps parse z view"
  shows "zok (ensure_role z domain role) s (\<lambda>b s'. zgrows domain (view s) (view s') \<and> policies_same domain (view s) (view s')
    \<and> view s' (entity_path domain ''role'' role) \<noteq> None \<and> (view s (entity_path domain ''role'' role) \<noteq> None \<longrightarrow> \<not> b \<and> view s' = view s))"
proof (cases "view s (entity_path domain ''role'' role)")
  case None
  then show ?thesis unfolding ensure_role_def Let_def
    apply (intro zok_bind zms_get [OF assms])
    apply (simp)
    apply (intro zok_bind zms_put_role [OF assms])
    apply (simp)
    apply (intro conjI impI zok_bind zms_get [OF assms])
    by (auto intro!: zok_return zgrows_role)
next
  case (Some fs)
  then show ?thesis unfolding ensure_role_def Let_def
    by (intro zok_bind zms_get [OF assms]) (auto intro: zok_return)
qed

lemma ensure_role_member_ok:
  assumes "zms_keeps parse z view" and role: "view s (entity_path domain ''role'' role) = Some fs"
  shows "zok (ensure_role_member parse z domain role member) s (\<lambda>b s'. zgrows domain (view s) (view s') \<and> policies_same domain (view s) (view s')
    \<and> (\<exists>fs'. view s' (entity_path domain ''role'' role) = Some fs' \<and> role_has_member fs' member)
    \<and> (role_has_member fs member \<longrightarrow> \<not> b \<and> view s' = view s))"
proof -
  have contains: "role_contains parse resource (za_body a) m = Inr (role_has_member fs' m)" if "parse (za_body a) = Some (JObj fs')"
    for resource a m fs'
    using that by (simp add: role_contains_Inr)
  show ?thesis
  proof (cases "role_has_member fs member")
    case True
    then show ?thesis unfolding ensure_role_member_def Let_def
      by (intro zok_bind zms_get [OF assms(1)]) (auto simp: role intro!: zok_bind zok_lift [OF contains] zok_return)
  next
    case False
    then show ?thesis unfolding ensure_role_member_def Let_def
      apply (intro zok_bind zms_get [OF assms(1)])
      apply (simp add: role)
      apply (intro zok_bind zok_lift [OF contains]; (elim conjE, assumption)?)
      apply simp
      apply (intro zok_bind zms_put_member [OF assms(1)])
       apply (simp add: role)
      apply simp
      apply (intro conjI impI zok_bind zms_get [OF assms(1)])
      apply simp
      apply (intro zok_bind zok_lift [OF contains]; (elim conjE, assumption)?)
      by (auto intro!: zok_return zgrows_role simp: role)
  qed
qed

lemma managed_assertion_of_json [simp]:
  "managed_assertion_of (managed_assertion_json a) = Some a" "managed_assertion_of (new_assertion_json a) = Some a"
  by (simp_all add: managed_assertion_of_def managed_assertion_json_def new_assertion_json_def)

lemma same_assertion_of: "managed_assertion_of v = Some a \<Longrightarrow> same_assertion a v"
  by (auto simp: managed_assertion_of_def same_assertion_def has_field_def split: json.splits option.splits)

text \<open>The document of a policy whose assertions are readable, and has the wanted one.\<close>

definition readable_policy :: "(string \<times> json) list \<Rightarrow> bool" where
  "readable_policy fs \<longleftrightarrow> (\<exists>vs. map_of fs ''assertions'' = Some (JArr vs) \<and> None \<notin> set (map managed_assertion_of vs))"

definition policy_grants :: "managed_assertion \<Rightarrow> (string \<times> json) list \<Rightarrow> bool" where
  "policy_grants a fs \<longleftrightarrow> (\<exists>vs. map_of fs ''assertions'' = Some (JArr vs) \<and> None \<notin> set (map managed_assertion_of vs)
     \<and> Some a \<in> set (map managed_assertion_of vs))"

lemma policy_assertions_readable:
  assumes "parse body = Some (JObj fs)" "map_of fs ''assertions'' = Some (JArr vs)" "None \<notin> set (map managed_assertion_of vs)"
  shows "policy_assertions parse body resource = Inr (map (the \<circ> managed_assertion_of) vs)"
proof -
  have "emap (\<lambda>v. case managed_assertion_of v of None \<Rightarrow> Inl e | Some a \<Rightarrow> Inr a) vs = Inr (map (the \<circ> managed_assertion_of) vs)" for e :: string
    using assms(3) by (induction vs) (auto split: option.splits)
  then show ?thesis using assms(1,2) by (simp add: policy_assertions_def parse_zms_record_def)
qed

lemma policy_contains_granted:
  assumes "parse body = Some (JObj fs)" "policy_grants a fs"
  shows "policy_contains parse body a = Inr True"
  using assms by (auto simp: policy_contains_def parse_zms_record_def policy_grants_def json_items_def list_ex_iff dest!: same_assertion_of [OF sym])

lemma write_policy_ok:
  assumes "zms_keeps parse z view" and "set (map managed_assertion_of vs) \<subseteq> Some ` UNIV" and "Some (exchange_assertion domain names) \<in> set (map managed_assertion_of vs)"
  shows "zok (write_exchange_policy parse z domain names vs doing verifying) s (\<lambda>b s'. zgrows domain (view s) (view s')
    \<and> (\<exists>fs. view s' (entity_path domain ''policy'' (mn_exchangePolicy names)) = Some fs \<and> policy_grants (exchange_assertion domain names) fs))"
proof -
  have grants: "policy_grants (exchange_assertion domain names) fs"
    if "map_of fs ''assertions'' = Some (JArr vs')" "map managed_assertion_of vs' = map managed_assertion_of vs" for fs vs'
    using that assms(2,3) unfolding policy_grants_def by (intro exI [of _ vs']) (auto simp del: set_map)
  show ?thesis
    unfolding write_exchange_policy_def Let_def
    apply (intro zok_bind zms_put_policy [OF assms(1)])
    apply simp
    apply (intro conjI impI zok_bind zms_get [OF assms(1)])
    apply simp
    apply (elim conjE)
    apply (intro zok_bind zok_lift [OF policy_contains_granted]; (assumption | rule grants)?)
      apply assumption+
    by (auto intro!: zok_return zgrows_policy grants)
qed

lemma ensure_exchange_policy_ok:
  assumes "zms_keeps parse z view"
    and "\<forall>fs. view s (entity_path domain ''policy'' (mn_exchangePolicy names)) = Some fs \<longrightarrow> readable_policy fs"
  shows "zok (ensure_exchange_policy parse z domain names) s (\<lambda>b s'. zgrows domain (view s) (view s')
    \<and> (\<exists>fs. view s' (entity_path domain ''policy'' (mn_exchangePolicy names)) = Some fs \<and> policy_grants (exchange_assertion domain names) fs)
    \<and> ((\<exists>fs. view s (entity_path domain ''policy'' (mn_exchangePolicy names)) = Some fs \<and> policy_grants (exchange_assertion domain names) fs)
        \<longrightarrow> \<not> b \<and> view s' = view s))"
proof -
  let ?path = "entity_path domain ''policy'' (mn_exchangePolicy names)" and ?a = "exchange_assertion domain names"
  show ?thesis
  proof (cases "view s ?path")
    case None
    have "zok (write_exchange_policy parse z domain names [new_assertion_json ?a] ''creating'' []) s' (\<lambda>b s'. zgrows domain (view s) (view s')
        \<and> (\<exists>fs. view s' ?path = Some fs \<and> policy_grants ?a fs))" if "view s' = view s" for s'
      using write_policy_ok [OF assms(1), of "[new_assertion_json ?a]" domain names "''creating''" "[]" s'] that by auto
    then show ?thesis unfolding ensure_exchange_policy_def Let_def
      by (intro zok_bind zms_get [OF assms(1)]) (simp add: None)
  next
    case (Some fs)
    with assms(2) obtain vs where vs: "map_of fs ''assertions'' = Some (JArr vs)" "None \<notin> set (map managed_assertion_of vs)"
      by (auto simp: readable_policy_def)
    let ?found = "map (the \<circ> managed_assertion_of) vs"
    have have_it: "policy_grants ?a fs \<longleftrightarrow> ?a \<in> set ?found"
    proof -
      have "Some ` set ?found = set (map managed_assertion_of vs)" using vs(2) by (force simp: image_iff)
      then show ?thesis using vs by (auto simp: policy_grants_def simp del: set_map)
    qed
    have sent: "set (map managed_assertion_of (map managed_assertion_json ?found @ [new_assertion_json ?a])) \<subseteq> Some ` UNIV"
      "Some ?a \<in> set (map managed_assertion_of (map managed_assertion_json ?found @ [new_assertion_json ?a]))" by auto
    show ?thesis unfolding ensure_exchange_policy_def Let_def
    proof (rule zok_bind, rule zms_get [OF assms(1)])
      fix a s'
      assume v: "view s' = view s"
        and "case view s ?path of None \<Rightarrow> za_status a = 404 | Some fs \<Rightarrow> za_status a = 200 \<and> parse (za_body a) = Some (JObj fs)"
      then have a: "za_status a = 200" "parse (za_body a) = Some (JObj fs)" by (simp_all add: Some)
      show "zok (if za_status a = 200
             then zbind (zlift (policy_assertions parse (za_body a) ''managed MCP exchange policy'')) (\<lambda>assertions.
               if ?a \<in> set assertions then zreturn False
               else write_exchange_policy parse z domain names (map managed_assertion_json assertions @ [new_assertion_json ?a]) ''repairing'' ''repaired '')
             else if za_status a \<noteq> 404
             then zfail (unexpected_status ''checking managed MCP exchange policy'' (za_status a))
             else write_exchange_policy parse z domain names [new_assertion_json ?a] ''creating'' []) s'
        (\<lambda>b s'. zgrows domain (view s) (view s') \<and> (\<exists>fs. view s' ?path = Some fs \<and> policy_grants ?a fs)
          \<and> ((\<exists>fs. view s ?path = Some fs \<and> policy_grants ?a fs) \<longrightarrow> \<not> b \<and> view s' = view s))"
      proof (cases "?a \<in> set ?found")
        case True
        then show ?thesis
          using a v have_it Some by (simp add: zok_bind zok_lift [OF policy_assertions_readable [of parse "za_body a" fs vs, OF a(2) vs]] zok_return)
      next
        case False
        then have no: "\<not> policy_grants ?a fs" by (simp add: have_it)
        have "zok (write_exchange_policy parse z domain names (map managed_assertion_json ?found @ [new_assertion_json ?a]) ''repairing'' ''repaired '') s'
          (\<lambda>b s'. zgrows domain (view s) (view s') \<and> (\<exists>fs. view s' ?path = Some fs \<and> policy_grants ?a fs)
            \<and> ((\<exists>fs. view s ?path = Some fs \<and> policy_grants ?a fs) \<longrightarrow> \<not> b \<and> view s' = view s))"
          by (rule zok_mono [OF write_policy_ok [OF assms(1) sent, of _ _ s']]) (use no Some v in auto)
        with False show ?thesis using a by (simp add: zok_bind zok_lift [OF policy_assertions_readable [of parse "za_body a" fs vs, OF a(2) vs]])
      qed
    qed
  qed
qed

end
