(* ===== verification/Hub_Managed_Access.thy ===== *)
theory Hub_Managed_Access
  imports Hub_Zms_Runs
begin

text \<open>
  Provisioning of managed MCP access (\<^verbatim>\<open>ensureMcpManagedAccess\<close>) against a ZMS that keeps what it
  is sent: what is in place afterwards, and that a second run changes nothing.
\<close>

section \<open>What provisioning establishes\<close>

definition member_in_place :: "(string \<Rightarrow> (string \<times> json) list option) \<Rightarrow> string \<Rightarrow> string \<Rightarrow> string \<Rightarrow> bool" where
  "member_in_place v domain role member \<longleftrightarrow>
     (\<exists>fs. v (entity_path domain ''role'' role) = Some fs \<and> role_has_member fs member)"

definition exchange_in_place :: "(string \<Rightarrow> (string \<times> json) list option) \<Rightarrow> string \<Rightarrow> managed_names \<Rightarrow> bool" where
  "exchange_in_place v domain names \<longleftrightarrow>
     (\<exists>fs. v (entity_path domain ''policy'' (mn_exchangePolicy names)) = Some fs \<and> policy_grants (exchange_assertion domain names) fs)"

definition access_in_place :: "(string \<Rightarrow> (string \<times> json) list option) \<Rightarrow> string \<Rightarrow> managed_names \<Rightarrow> string \<Rightarrow> string \<Rightarrow> bool" where
  "access_in_place v domain names gateway account \<longleftrightarrow>
     v (entity_path domain ''role'' (mn_accessorRole names)) \<noteq> None
     \<and> member_in_place v domain (mn_exchangerRole names) gateway
     \<and> exchange_in_place v domain names
     \<and> member_in_place v domain (mn_sourceExchangerRole names) account"

text \<open>The documents that must be there before: the domain and the service account, and no unreadable policy.\<close>

definition can_provision :: "(string \<Rightarrow> (string \<times> json) list option) \<Rightarrow> string \<Rightarrow> string \<Rightarrow> managed_names \<Rightarrow> bool" where
  "can_provision v domain serviceName names \<longleftrightarrow>
     v (domain_path domain) \<noteq> None \<and> v (entity_path domain ''service'' serviceName) \<noteq> None
     \<and> (case v (entity_path domain ''policy'' (mn_exchangePolicy names)) of None \<Rightarrow> True | Some fs \<Rightarrow> readable_policy fs)"

lemma member_grows: "member_in_place v domain role member \<Longrightarrow> zgrows domain v v' \<Longrightarrow> member_in_place v' domain role member"
  unfolding member_in_place_def zgrows_def by metis

lemma role_grows: "v (entity_path domain ''role'' r) \<noteq> None \<Longrightarrow> zgrows domain v v' \<Longrightarrow> v' (entity_path domain ''role'' r) \<noteq> None"
  unfolding zgrows_def by blast

lemma exchange_stays: "exchange_in_place v domain names \<Longrightarrow> policies_same domain v v' \<Longrightarrow> exchange_in_place v' domain names"
  by (auto simp: exchange_in_place_def policies_same_def)

lemma policies_same_trans: "policies_same domain v1 v2 \<Longrightarrow> policies_same domain v2 v3 \<Longrightarrow> policies_same domain v1 v3"
  by (simp add: policies_same_def)

section \<open>The steps, as rules\<close>

lemma zok_step:
  "zok f s P \<Longrightarrow> (\<And>x s'. P x s' \<Longrightarrow> zok (g x) s' Q) \<Longrightarrow> zok (zbind f g) s Q"
  by (blast intro: zok_bind zok_mono)

lemma require_domain_ok:
  assumes "zms_keeps parse z view" and "view s (domain_path domain) \<noteq> None"
  shows "zok (require_domain z domain) s (\<lambda>_ s'. view s' = view s)"
  unfolding require_domain_def using assms(2)
  by (auto intro!: zok_bind zms_get [OF assms(1)] zok_return)

lemma require_service_ok:
  assumes "zms_keeps parse z view" and "view s (entity_path domain ''service'' serviceName) \<noteq> None"
  shows "zok (require_service z domain serviceName account) s (\<lambda>_ s'. view s' = view s)"
  unfolding require_service_def using assms(2)
  by (auto intro!: zok_bind zms_get [OF assms(1)] zok_return)

lemma member_step:
  assumes "zms_keeps parse z view" and "view s (entity_path domain ''role'' role) \<noteq> None"
  shows "zok (ensure_role_member parse z domain role member) s (\<lambda>b s'. zgrows domain (view s) (view s')
    \<and> policies_same domain (view s) (view s') \<and> member_in_place (view s') domain role member
    \<and> (member_in_place (view s) domain role member \<longrightarrow> \<not> b \<and> view s' = view s))"
proof -
  from assms(2) obtain fs where fs: "view s (entity_path domain ''role'' role) = Some fs" by blast
  show ?thesis
    by (rule zok_mono [OF ensure_role_member_ok [OF assms(1) fs]]) (auto simp: member_in_place_def fs)
qed

lemma policy_step:
  assumes "zms_keeps parse z view"
    and "case view s (entity_path domain ''policy'' (mn_exchangePolicy names)) of None \<Rightarrow> True | Some fs \<Rightarrow> readable_policy fs"
  shows "zok (ensure_exchange_policy parse z domain names) s (\<lambda>b s'. zgrows domain (view s) (view s')
    \<and> exchange_in_place (view s') domain names \<and> (exchange_in_place (view s) domain names \<longrightarrow> \<not> b \<and> view s' = view s))"
  unfolding exchange_in_place_def
  by (rule ensure_exchange_policy_ok [OF assms(1)]) (use assms(2) in \<open>auto split: option.splits\<close>)

lemma provisioning_succeeds:
  assumes keeps: "zms_keeps parse z view"
    and names: "is_dns_label project" "managed_access_names mcpKeyName = Inr names"
      "service_name_in_domain account (managed_domain project) = Inr serviceName" "is_principal_name gateway"
    and there: "can_provision (view s) (managed_domain project) serviceName names"
  shows "zok (ensure_managed_access parse z gateway project mcpKeyName account) s (\<lambda>_ s'.
    access_in_place (view s') (managed_domain project) names gateway account \<and> zgrows (managed_domain project) (view s) (view s'))"
proof -
  let ?d = "managed_domain project"
  have there': "view s (domain_path ?d) \<noteq> None" "view s (entity_path ?d ''service'' serviceName) \<noteq> None"
    "case view s (entity_path ?d ''policy'' (mn_exchangePolicy names)) of None \<Rightarrow> True | Some fs \<Rightarrow> readable_policy fs"
    using there by (simp_all add: can_provision_def)
  have readable: "case view s' (entity_path ?d ''policy'' (mn_exchangePolicy names)) of None \<Rightarrow> True | Some fs \<Rightarrow> readable_policy fs"
    if "policies_same ?d (view s) (view s')" for s'
    using there'(3) that by (simp add: policies_same_def)
  show ?thesis
    unfolding ensure_managed_access_def Let_def
    apply (simp add: names(1,4))
    apply (rule zok_bind, rule zok_lift [OF names(2)])
    apply (rule zok_bind, rule zok_lift [OF names(3)])
    apply (rule zok_step [OF require_domain_ok [OF keeps]], rule there')
    apply (rule zok_step [OF require_service_ok [OF keeps]], simp add: there')
    apply (rule zok_step [OF ensure_role_ok [OF keeps]])
    apply (rule zok_step [OF ensure_role_ok [OF keeps]])
    apply (rule zok_step [OF member_step [OF keeps]], simp)
    apply (rule zok_step [OF policy_step [OF keeps]], rule readable, elim conjE, simp add: policies_same_def)
    apply (rule zok_step [OF ensure_role_ok [OF keeps]])
    apply (rule zok_step [OF member_step [OF keeps]], simp)
    apply (rule zok_return)
    apply (elim conjE)
    subgoal for d1 s1 d2 s2 b1 s3 b2 s4 b3 s5 b4 s6 b5 s7 b6 s8
      unfolding access_in_place_def
      by (simp only:) (meson member_grows role_grows exchange_stays policies_same_trans zgrows_trans)
    done
qed

lemma provisioning_again:
  assumes keeps: "zms_keeps parse z view"
    and names: "is_dns_label project" "managed_access_names mcpKeyName = Inr names"
      "service_name_in_domain account (managed_domain project) = Inr serviceName" "is_principal_name gateway"
    and there: "can_provision (view s) (managed_domain project) serviceName names"
    and placed: "access_in_place (view s) (managed_domain project) names gateway account"
  shows "zok (ensure_managed_access parse z gateway project mcpKeyName account) s (\<lambda>report s'. view s' = view s
    \<and> report = \<lparr>mr_exchangePolicyCreated = False, mr_exchangerMemberAdded = False, mr_exchangerRoleCreated = False,
                mr_roleCreated = False, mr_sourceExchangerMemberAdded = False, mr_sourceExchangerRoleCreated = False\<rparr>)"
proof -
  let ?d = "managed_domain project"
  have there': "view s (domain_path ?d) \<noteq> None" "view s (entity_path ?d ''service'' serviceName) \<noteq> None"
    "case view s (entity_path ?d ''policy'' (mn_exchangePolicy names)) of None \<Rightarrow> True | Some fs \<Rightarrow> readable_policy fs"
    using there by (simp_all add: can_provision_def)
  from placed have p: "view s (entity_path ?d ''role'' (mn_accessorRole names)) \<noteq> None"
    "member_in_place (view s) ?d (mn_exchangerRole names) gateway" "exchange_in_place (view s) ?d names"
    "member_in_place (view s) ?d (mn_sourceExchangerRole names) account"
    by (auto simp: access_in_place_def)
  have r: "view s (entity_path ?d ''role'' (mn_exchangerRole names)) \<noteq> None"
    "view s (entity_path ?d ''role'' (mn_sourceExchangerRole names)) \<noteq> None"
    using p(2,4) by (auto simp: member_in_place_def)
  have role: "zok (ensure_role z ?d role) s' (\<lambda>b s''. \<not> b \<and> view s'' = view s)"
    if "view s' = view s" "view s (entity_path ?d ''role'' role) \<noteq> None" for s' role
    by (rule zok_mono [OF ensure_role_ok [OF keeps]]) (use that in auto)
  have member: "zok (ensure_role_member parse z ?d role m) s' (\<lambda>b s''. \<not> b \<and> view s'' = view s)"
    if "view s' = view s" "member_in_place (view s) ?d role m" for s' role m
    by (rule zok_mono [OF member_step [OF keeps]]) (use that in \<open>auto simp: member_in_place_def\<close>)
  have policy: "zok (ensure_exchange_policy parse z ?d names) s' (\<lambda>b s''. \<not> b \<and> view s'' = view s)" if "view s' = view s" for s'
    by (rule zok_mono [OF policy_step [OF keeps]]) (use that there'(3) p(3) in auto)
  show ?thesis
    unfolding ensure_managed_access_def Let_def
    apply (simp add: names(1,4))
    apply (rule zok_bind, rule zok_lift [OF names(2)])
    apply (rule zok_bind, rule zok_lift [OF names(3)])
    apply (rule zok_step [OF require_domain_ok [OF keeps]], rule there')
    apply (rule zok_step [OF require_service_ok [OF keeps]], simp add: there')
    apply (rule zok_step [OF role], simp, rule p(1))
    apply (rule zok_step [OF role], simp, rule r(1))
    apply (rule zok_step [OF member], simp, rule p(2))
    apply (rule zok_step [OF policy], simp)
    apply (rule zok_step [OF role], simp, rule r(2))
    apply (rule zok_step [OF member], simp, rule p(4))
    apply (rule zok_return)
    apply simp
    done
qed

section \<open>The properties\<close>

lemma grown_can_provision:
  assumes "can_provision v domain serviceName names" "zgrows domain v v'" "exchange_in_place v' domain names"
  shows "can_provision v' domain serviceName names"
proof -
  have "v' (domain_path domain) = v (domain_path domain)"
    "v' (entity_path domain ''service'' serviceName) = v (entity_path domain ''service'' serviceName)"
    using assms(2) unfolding zgrows_def by (metis paths_differ')+
  with assms(1,3) show ?thesis
    by (auto simp: can_provision_def exchange_in_place_def policy_grants_def readable_policy_def)
qed

text \<open>
  C33: provisioning grants the access it promises, once. With valid names, against a ZMS that keeps what
  it is sent, has the domain and the service account, and holds no unreadable exchange policy,
  \<open>ensure_managed_access\<close> succeeds. Afterwards the accessor role exists, the gateway is a member of the
  exchanger role, the policy lets that role exchange for the accessor role, and the service account is a
  member of the source exchanger role; no role lost a member and nothing but roles and policies changed.
  Running it again succeeds too, reports that nothing was created, and leaves ZMS as it is.
\<close>

theorem provisioning_grants_access:
  assumes "zms_keeps parse z view" and "is_dns_label project" "managed_access_names mcpKeyName = Inr names"
    and "service_name_in_domain account (managed_domain project) = Inr serviceName" "is_principal_name gateway"
    and "can_provision (view s) (managed_domain project) serviceName names"
  shows "\<exists>report s'. ensure_managed_access parse z gateway project mcpKeyName account s = (Inr report, s')
    \<and> access_in_place (view s') (managed_domain project) names gateway account
    \<and> zgrows (managed_domain project) (view s) (view s')
    \<and> (\<exists>s''. view s'' = view s' \<and> ensure_managed_access parse z gateway project mcpKeyName account s' =
         (Inr \<lparr>mr_exchangePolicyCreated = False, mr_exchangerMemberAdded = False, mr_exchangerRoleCreated = False,
               mr_roleCreated = False, mr_sourceExchangerMemberAdded = False, mr_sourceExchangerRoleCreated = False\<rparr>, s''))"
proof -
  from provisioning_succeeds [OF assms] obtain report s' where first:
    "ensure_managed_access parse z gateway project mcpKeyName account s = (Inr report, s')"
    "access_in_place (view s') (managed_domain project) names gateway account" "zgrows (managed_domain project) (view s) (view s')"
    unfolding zok_def by blast
  then have "can_provision (view s') (managed_domain project) serviceName names"
    using grown_can_provision [OF assms(6)] by (simp add: access_in_place_def)
  from provisioning_again [OF assms(1-5) this first(2)] first show ?thesis
    unfolding zok_def by blast
qed

text \<open>A ZMS whose state is its documents: roles and policies are kept as sent, a member is added.\<close>

definition sample_add_member :: "string \<Rightarrow> (string \<times> json) list \<Rightarrow> (string \<times> json) list" where
  "sample_add_member member fs =
     (''roleMembers'', JArr (JObj [(''memberName'', JStr member)] # json_items (map_of fs ''roleMembers''))) # fs"

definition sample_role_path :: "string \<Rightarrow> string \<Rightarrow> string" where
  "sample_role_path path member = take (length path - length (''/member/'' @ encode_uri_component member)) path"

definition sample_zms :: "(string \<Rightarrow> (string \<times> json) list option, json) zms_request" where
  "sample_zms method path body s =
     (case (method, body) of
        (Zms_Get, _) \<Rightarrow> (case s path of
            None \<Rightarrow> (Inr \<lparr>za_status = 404, za_body = JNull\<rparr>, s)
          | Some fs \<Rightarrow> (Inr \<lparr>za_status = 200, za_body = JObj fs\<rparr>, s))
      | (Zms_Put, Some (JObj fs)) \<Rightarrow>
          (case map_of fs ''memberName'' of
             Some (JStr member) \<Rightarrow>
               (case s (sample_role_path path member) of
                  None \<Rightarrow> (Inr \<lparr>za_status = 404, za_body = JNull\<rparr>, s)
                | Some old \<Rightarrow> (Inr \<lparr>za_status = 200, za_body = JNull\<rparr>, s(sample_role_path path member \<mapsto> sample_add_member member old)))
           | _ \<Rightarrow> (Inr \<lparr>za_status = 200, za_body = JNull\<rparr>, s(path \<mapsto> fs)))
      | _ \<Rightarrow> (Inl ''no answer'', s))"

lemma sample_role_path [simp]: "sample_role_path (member_path domain role member) member = entity_path domain ''role'' role"
  by (simp add: sample_role_path_def member_path_def)

lemma sample_add_member:
  "role_has_member (sample_add_member m fs) m" "role_has_member fs n \<Longrightarrow> role_has_member (sample_add_member m fs) n"
  by (auto simp: sample_add_member_def role_has_member_def json_items_def has_field_def)

lemma sample_zms_keeps: "zms_keeps Some sample_zms (\<lambda>s. s)"
  unfolding zms_keeps_def
  apply (intro conjI allI impI)
     apply (simp add: zok_def sample_zms_def split: option.split)
    apply (force simp: zok_def sample_zms_def role_body_def is_success_def)
   apply (force simp: zok_def sample_zms_def policy_body_def is_success_def)
  apply (simp add: zok_def sample_zms_def member_body_def is_success_def)
  apply (blast intro: sample_add_member)
  done

definition sample_documents :: "string \<Rightarrow> (string \<times> json) list option" where
  "sample_documents = [domain_path (managed_domain ''p'') \<mapsto> [], entity_path (managed_domain ''p'') ''service'' ''app'' \<mapsto> []]"

definition sample_managed_names :: managed_names where
  "sample_managed_names =
     \<lparr>mn_accessorRole = ''m-accessor'', mn_exchangePolicy = ''m-accessor-jag-exchanger_zts_jag_exchange_role_m-accessor'',
      mn_exchangerRole = ''m-accessor-jag-exchanger'',
      mn_sourceExchangePolicy = ''m-accessor-source-exchanger_zts_token_source_exchange'',
      mn_sourceExchangerRole = ''m-accessor-source-exchanger''\<rparr>"

lemma sample_can_provision: "can_provision sample_documents (managed_domain ''p'') ''app'' sample_managed_names"
  by (simp add: can_provision_def sample_documents_def)

lemma provisioning_grants_access_witness:
  "\<exists>report s'. ensure_managed_access Some sample_zms ''gateway'' ''p'' ''m'' ''mcp-hub.mcps.p.app'' sample_documents = (Inr report, s')
    \<and> access_in_place s' (managed_domain ''p'') sample_managed_names ''gateway'' ''mcp-hub.mcps.p.app''"
proof -
  have "is_dns_label ''p''" by code_simp
  moreover have "managed_access_names ''m'' = Inr sample_managed_names" by code_simp
  moreover have "service_name_in_domain ''mcp-hub.mcps.p.app'' (managed_domain ''p'') = Inr ''app''" by code_simp
  moreover have "is_principal_name ''gateway''" by code_simp
  ultimately show ?thesis
    using provisioning_grants_access [of Some sample_zms "\<lambda>s. s" "''p''" "''m''" sample_managed_names "''mcp-hub.mcps.p.app''" "''app''" "''gateway''"
      sample_documents, OF sample_zms_keeps _ _ _ _ sample_can_provision] by blast
qed

text \<open>
  C34: access that is reported was read back. Whatever ZMS answers, if the request of a tool's
  permissions succeeds, then no status was unavailable; for every missing membership outside the
  managed ones, the role's document was read with the member in it; for every missing helper policy, the
  policy's document was read with exactly that assertion, its effect included; and if nothing was
  missing, no request was sent and nothing is reported as changed.
\<close>

theorem requested_access_is_observed:
  assumes "request_tool_access parse sha256 z requirements policies s = (Inr report, s')"
  shows "(\<forall>r \<in> set requirements. rm_source r \<noteq> Managed \<longrightarrow> rm_status r \<noteq> Unavailable \<and> (rm_status r = Missing \<longrightarrow>
      (\<exists>domain role. parse_athenz_role (rm_role r) = Inr (domain, role)
         \<and> observed parse z (entity_path domain ''role'' role) (\<lambda>fs. role_has_member fs (rm_member r)))))
    \<and> (\<forall>p \<in> set policies. rp_source p = Helper \<longrightarrow> rp_check p \<noteq> Unavailable \<and> (rp_check p = Missing \<longrightarrow>
      (\<exists>domain role. parse_athenz_role (zp_role (rp_assertion p)) = Inr (domain, role)
         \<and> observed parse z (entity_path domain ''policy''
             (permission_policy_name sha256 role (zp_action (rp_assertion p)) (zp_resource (rp_assertion p)))) (policy_has (rp_assertion p)))))
    \<and> ((\<forall>r \<in> set requirements. rm_status r = Ready) \<and> (\<forall>p \<in> set policies. rp_check p = Ready) \<longrightarrow>
        s' = s \<and> report = \<lparr>ac_changed = False, ac_membershipsAdded = 0, ac_policiesUpdated = 0\<rparr>)"
proof -
  let ?rs = "filter (\<lambda>r. rm_source r \<noteq> Managed) requirements" and ?ps = "filter (\<lambda>p. rp_source p = Helper) policies"
  from assms obtain added s1 updated where available: "Unavailable \<notin> set (map rm_status ?rs @ map rp_check ?ps)"
    and a: "zpick (ensure_permission_member parse z) (filter (\<lambda>r. rm_status r = Missing) ?rs) s = (Inr added, s1)"
    and u: "zpick (\<lambda>p. ensure_policy_assertion parse sha256 z (rp_assertion p)) (filter (\<lambda>p. rp_check p = Missing) ?ps) s1 = (Inr updated, s')"
    and report: "report = \<lparr>ac_changed = (added \<noteq> [] \<or> updated \<noteq> []), ac_membershipsAdded = length added, ac_policiesUpdated = length updated\<rparr>"
    unfolding request_tool_access_def Let_def by (auto simp: run_simps zif_Inr)
  have members: "\<exists>domain role. parse_athenz_role (rm_role r) = Inr (domain, role)
      \<and> observed parse z (entity_path domain ''role'' role) (\<lambda>fs. role_has_member fs (rm_member r))"
    if "r \<in> set requirements" "rm_source r \<noteq> Managed" "rm_status r = Missing" for r
    using zpick_runs [OF a, of r] that by (auto dest: permission_member_observed)
  have assertions: "\<exists>domain role. parse_athenz_role (zp_role (rp_assertion p)) = Inr (domain, role)
      \<and> observed parse z (entity_path domain ''policy''
             (permission_policy_name sha256 role (zp_action (rp_assertion p)) (zp_resource (rp_assertion p)))) (policy_has (rp_assertion p))"
    if "p \<in> set policies" "rp_source p = Helper" "rp_check p = Missing" for p
    using zpick_runs [OF u, of p] that by (auto dest: policy_assertion_observed)
  have idle: "s' = s \<and> report = \<lparr>ac_changed = False, ac_membershipsAdded = 0, ac_policiesUpdated = 0\<rparr>"
    if "\<forall>r \<in> set requirements. rm_status r = Ready" "\<forall>p \<in> set policies. rp_check p = Ready"
  proof -
    from that have "filter (\<lambda>r. rm_status r = Missing) ?rs = []" "filter (\<lambda>p. rp_check p = Missing) ?ps = []"
      by (auto simp: filter_empty_conv)
    with a u report show ?thesis by (simp add: zreturn_Inr)
  qed
  have "\<forall>r \<in> set requirements. rm_source r \<noteq> Managed \<longrightarrow> rm_status r \<noteq> Unavailable"
    "\<forall>p \<in> set policies. rp_source p = Helper \<longrightarrow> rp_check p \<noteq> Unavailable"
    using available by (force simp: image_iff)+
  with members assertions idle show ?thesis by blast
qed

definition sample_missing_member :: requested_member where
  "sample_missing_member = \<lparr>rm_member = ''user.ann'', rm_role = ''d:role.r'', rm_source = Helper, rm_status = Missing\<rparr>"

lemma requested_access_is_observed_witness:
  "observed Some sample_zms (entity_path ''d'' ''role'' ''r'') (\<lambda>fs. role_has_member fs ''user.ann'')"
proof -
  let ?s = "[entity_path ''d'' ''role'' ''r'' \<mapsto> []] :: string \<Rightarrow> (string \<times> json) list option"
  let ?s' = "[entity_path ''d'' ''role'' ''r'' \<mapsto> sample_add_member ''user.ann'' []] :: string \<Rightarrow> (string \<times> json) list option"
  have role: "parse_athenz_role ''d:role.r'' = Inr (''d'', ''r'')" by code_simp
  have "request_tool_access Some (\<lambda>s. s) sample_zms [sample_missing_member] [] ?s
      = (Inr \<lparr>ac_changed = True, ac_membershipsAdded = 1, ac_policiesUpdated = 0\<rparr>, ?s')"
    by (simp add: request_tool_access_def sample_missing_member_def ensure_permission_member_def zbind_def zlift_def zreturn_def
        role sample_zms_def member_body_def role_contains_def parse_zms_record_def Let_def is_success_def sample_add_member) (simp add: role_has_member_def json_items_def)
  from requested_access_is_observed [OF this] role show ?thesis
    by (simp add: sample_missing_member_def)
qed

text \<open>An assertion of ZMS that denies.\<close>

definition denying_json :: "managed_assertion \<Rightarrow> json" where
  "denying_json x = JObj [(''action'', JStr (ms_action x)), (''effect'', JStr ''DENY''),
     (''resource'', JStr (ms_resource x)), (''role'', JStr (ms_role x))]"

lemma managed_denying [simp]: "managed_assertion_of (denying_json x) = Some x"
  by (simp add: managed_assertion_of_def denying_json_def)

text \<open>
  C35: the effect of an assertion is lost. If the exchange policy that ZMS returns has one assertion and
  that denies, then \<open>ensure_exchange_policy\<close> reports that the policy is in place after that single read
  when it has the wanted action, resource and role; otherwise it rewrites the policy, and
  the assertion it sends back in its place is read as one that allows the same.
\<close>

theorem denied_exchange_counts_as_granted:
  assumes "z Zms_Get (entity_path domain ''policy'' (mn_exchangePolicy names)) None s = (Inr a, s')"
    and "za_status a = 200" "parse (za_body a) = Some (JObj [(''assertions'', JArr [denying_json x])])"
    and "parse_assertion (denying_json x) = Inr p"
  shows "zp_effect p = Deny
    \<and> ensure_exchange_policy parse z domain names s =
      (if x = exchange_assertion domain names then (Inr False, s')
       else write_exchange_policy parse z domain names
         [managed_assertion_json x, new_assertion_json (exchange_assertion domain names)] ''repairing'' ''repaired '' s')
    \<and> parse_assertion (managed_assertion_json x) = Inr (p\<lparr>zp_effect := Allow\<rparr>)"
proof (intro conjI)
  have "policy_assertions parse (za_body a) ''managed MCP exchange policy'' = Inr [x]"
    using assms(3) by (simp add: policy_assertions_def parse_zms_record_def)
  then show "ensure_exchange_policy parse z domain names s =
      (if x = exchange_assertion domain names then (Inr False, s')
       else write_exchange_policy parse z domain names
         [managed_assertion_json x, new_assertion_json (exchange_assertion domain names)] ''repairing'' ''repaired '' s')"
    using assms(1,2) by (simp add: ensure_exchange_policy_def zbind_def zlift_def zreturn_def Let_def)
  show "zp_effect p = Deny" "parse_assertion (managed_assertion_json x) = Inr (p\<lparr>zp_effect := Allow\<rparr>)"
    using assms(4)
    by (auto simp: parse_assertion_def denying_json_def managed_assertion_json_def ebind_eq_Inr assertion_effect_def require_record_def)
qed

definition sample_denial :: "string \<Rightarrow> (string \<times> json) list option" where
  "sample_denial = [entity_path ''d'' ''policy'' (mn_exchangePolicy sample_managed_names) \<mapsto>
     [(''assertions'', JArr [denying_json (exchange_assertion ''d'' sample_managed_names)])]]"

lemma denied_exchange_counts_as_granted_witness:
  "ensure_exchange_policy Some sample_zms ''d'' sample_managed_names sample_denial = (Inr False, sample_denial)"
proof -
  let ?x = "exchange_assertion ''d'' sample_managed_names"
  have "sample_zms Zms_Get (entity_path ''d'' ''policy'' (mn_exchangePolicy sample_managed_names)) None sample_denial
    = (Inr \<lparr>za_status = 200, za_body = JObj [(''assertions'', JArr [denying_json ?x])]\<rparr>, sample_denial)"
    by (simp add: sample_zms_def sample_denial_def)
  moreover have "parse_assertion (denying_json ?x) = Inr \<lparr>zp_action = ''zts.jag_exchange'', zp_effect = Deny,
      zp_resource = ''d:role.m-accessor'', zp_role = ''d:role.m-accessor-jag-exchanger''\<rparr>" by code_simp
  ultimately show ?thesis
    using denied_exchange_counts_as_granted [of sample_zms "''d''" sample_managed_names sample_denial
      "\<lparr>za_status = 200, za_body = JObj [(''assertions'', JArr [denying_json ?x])]\<rparr>" sample_denial Some ?x] by simp
qed

end
