(* ===== verification/Hub_Readiness.thy ===== *)
theory Hub_Readiness
  imports Hub_Permission_Access
begin

text \<open>
  What a checked definition of permissions means: the statuses are those of the lookups, and a
  definition that is ready has every role and every assertion in ZMS.
\<close>

lemma status_of_lookup_Ready: "status_of_lookup found wanted = Ready \<longleftrightarrow> (\<exists>xs. found = Inr xs \<and> wanted \<in> set xs)"
  by (auto simp: status_of_lookup_def split: sum.splits)

lemma overall_status_Ready: "overall_status statuses = Ready \<longleftrightarrow> set statuses \<subseteq> {Ready}"
  unfolding overall_status_def by (auto, metis check_status.exhaust)

lemma emap_projects: "emap f xs = Inr ys \<Longrightarrow> (\<And>x y. x \<in> set xs \<Longrightarrow> f x = Inr y \<Longrightarrow> p y = q x) \<Longrightarrow> map p ys = map q xs"
  by (induction xs arbitrary: ys) (auto simp: ebind_eq_Inr)

lemma check_group_Inr:
  assumes "check_group hs zr g = Inr c"
  shows "kg_group c = g" "group_statuses c = map (requirement_status hs zr) (pg_requirements g) @ map (policy_status hs zr) (listed_policies g)"
proof -
  from assms obtain rs ps where c: "c = \<lparr>kg_group = g, kg_policies = ps, kg_requirements = rs\<rparr>"
    and rs: "emap (\<lambda>r. ebind (role_url (hs_athenzUiUrl hs) (pq_role r) ''members'') (\<lambda>u.
              Inr \<lparr>kq_requirement = r, kq_roleUrl = u, kq_status = requirement_status hs zr r\<rparr>)) (pg_requirements g) = Inr rs"
    and ps: "emap (\<lambda>p. ebind (role_url (hs_athenzUiUrl hs) (pp_role p) ''policy'') (\<lambda>u.
              Inr \<lparr>kp_policy = p, kp_roleUrl = u, kp_status = policy_status hs zr p\<rparr>)) (listed_policies g) = Inr ps"
    by (auto simp: check_group_def ebind_eq_Inr)
  show "kg_group c = g" by (simp add: c)
  have "map kq_status rs = map (requirement_status hs zr) (pg_requirements g)"
    by (rule emap_projects [OF rs]) (auto simp: ebind_eq_Inr)
  moreover have "map kp_status ps = map (policy_status hs zr) (listed_policies g)"
    by (rule emap_projects [OF ps]) (auto simp: ebind_eq_Inr)
  ultimately show "group_statuses c = map (requirement_status hs zr) (pg_requirements g) @ map (policy_status hs zr) (listed_policies g)"
    by (simp add: group_statuses_def c)
qed

section \<open>What ZMS answered\<close>

text \<open>An assertion as ZMS writes it; an assertion without an effect allows.\<close>

definition json_assertion :: "json \<Rightarrow> policy_effect \<Rightarrow> string \<Rightarrow> string \<Rightarrow> string \<Rightarrow> bool" where
  "json_assertion v effect action role resource \<longleftrightarrow>
     (\<exists>fs. v = JObj fs \<and> map_of fs ''action'' = Some (JStr action) \<and> map_of fs ''role'' = Some (JStr role)
       \<and> map_of fs ''resource'' = Some (JStr resource)
       \<and> map_of fs ''effect'' \<in> (case effect of Allow \<Rightarrow> {None, Some (JStr ''ALLOW'')} | Deny \<Rightarrow> {Some (JStr ''DENY'')}))"

definition holds_assertion :: "(string \<times> json) list \<Rightarrow> policy_effect \<Rightarrow> string \<Rightarrow> string \<Rightarrow> string \<Rightarrow> bool" where
  "holds_assertion fs effect action role resource \<longleftrightarrow>
     (\<exists>vs v. map_of fs ''assertions'' = Some (JArr vs) \<and> v \<in> set vs \<and> json_assertion v effect action role resource)"

text \<open>A request of a path was answered with an object.\<close>

definition answered :: "zms_reader \<Rightarrow> string \<Rightarrow> (string \<times> json) list \<Rightarrow> bool" where
  "answered zr path fs \<longleftrightarrow>
     (\<exists>a. zr_get zr path = Inr a \<and> za_status a = 200 \<and> zr_parse zr (za_body a) = Some (JObj fs))"

definition names_policy :: "(string \<times> json) list \<Rightarrow> string \<Rightarrow> bool" where
  "names_policy fs name \<longleftrightarrow>
     (\<exists>vs. map_of fs ''names'' = Some (JArr vs) \<and> JStr name \<in> set vs) \<or>
     (\<exists>ps. map_of fs ''policies'' = Some (JArr ps) \<and>
        (JStr name \<in> set ps \<or> (\<exists>pf. JObj pf \<in> set ps \<and> map_of pf ''name'' = Some (JStr name) \<and> trim name \<noteq> [])))"

text \<open>The assertion stands in the list of the domain's policies, or in a policy that the list names.\<close>

definition zms_shows_assertion :: "zms_reader \<Rightarrow> string \<Rightarrow> policy_effect \<Rightarrow> string \<Rightarrow> string \<Rightarrow> string \<Rightarrow> bool" where
  "zms_shows_assertion zr domain effect action role resource \<longleftrightarrow>
     (\<exists>fs. answered zr (domain_path domain @ ''/policy'') fs \<and>
       ((\<exists>ps pf. map_of fs ''policies'' = Some (JArr ps) \<and> JObj pf \<in> set ps \<and> holds_assertion pf effect action role resource) \<or>
        (\<exists>name gs. names_policy fs name \<and> answered zr (entity_path domain ''policy'' (simple_policy_name domain name)) gs
           \<and> holds_assertion gs effect action role resource)))"

text \<open>The membership stands in the roles of the member, with its full name or as domain and name.\<close>

definition zms_shows_membership :: "zms_reader \<Rightarrow> string \<Rightarrow> string \<Rightarrow> bool" where
  "zms_shows_membership zr member role \<longleftrightarrow>
     (\<exists>a fs vs m. zr_roles zr member = Inr a \<and> za_status a = 200 \<and> zr_parse zr (za_body a) = Some (JObj fs)
       \<and> map_of fs ''memberRoles'' = Some (JArr vs) \<and> JObj m \<in> set vs
       \<and> (map_of m ''roleName'' = Some (JStr role) \<and> has_role_marker role
          \<or> (\<exists>domain name. map_of m ''domainName'' = Some (JStr domain) \<and> domain \<noteq> [] \<and> map_of m ''roleName'' = Some (JStr name)
               \<and> name \<noteq> [] \<and> \<not> has_role_marker name \<and> role = domain @ '':role.'' @ name)))"

lemma parse_assertion_Inr:
  "parse_assertion v = Inr x \<Longrightarrow> x = \<lparr>zp_action = a, zp_effect = e, zp_resource = s, zp_role = r\<rparr> \<longleftrightarrow> json_assertion v e a r s"
  by (cases e) (auto simp: parse_assertion_def json_assertion_def require_record_def require_text_def assertion_effect_def ebind_eq_Inr
      split: option.splits if_splits)

lemma emap_member:
  assumes "emap f xs = Inr ys"
  shows "y \<in> set ys \<longleftrightarrow> (\<exists>x \<in> set xs. f x = Inr y)"
  using emap_Inr_set [OF assms] emap_Inr_mem [OF assms] by (metis sum.inject(2))

lemma emap_defined: "emap f xs = Inr ys \<Longrightarrow> x \<in> set xs \<Longrightarrow> \<exists>y. f x = Inr y"
  using emap_Inr_mem [of f xs ys x] by blast

lemma emap_Ex:
  assumes "emap f xs = Inr ys" and same: "\<And>x y. x \<in> set xs \<Longrightarrow> f x = Inr y \<Longrightarrow> P y \<longleftrightarrow> Q x"
  shows "(\<exists>y \<in> set ys. P y) \<longleftrightarrow> (\<exists>x \<in> set xs. Q x)"
proof
  assume "\<exists>y \<in> set ys. P y"
  then obtain x y where "x \<in> set xs" "f x = Inr y" "P y" by (auto simp: emap_member [OF assms(1)])
  with same [of x y] show "\<exists>x \<in> set xs. Q x" by auto
next
  assume "\<exists>x \<in> set xs. Q x"
  then obtain x where x: "x \<in> set xs" "Q x" by auto
  with emap_defined [OF assms(1)] obtain y where y: "f x = Inr y" by blast
  with x same [of x y] emap_member [OF assms(1), of y] show "\<exists>y \<in> set ys. P y" by auto
qed

lemma parse_assertions_member:
  assumes "parse_assertions (map_of fs ''assertions'') = Inr xs"
  shows "\<lparr>zp_action = a, zp_effect = e, zp_resource = s, zp_role = r\<rparr> \<in> set xs \<longleftrightarrow> holds_assertion fs e a r s"
proof (cases "map_of fs ''assertions''")
  case None
  with assms show ?thesis by (simp add: parse_assertions_def holds_assertion_def)
next
  case (Some v)
  with assms obtain vs where v: "v = JArr vs" "emap parse_assertion vs = Inr xs"
    by (cases v) (simp_all add: parse_assertions_def)
  have "json_assertion w e a r s \<longleftrightarrow> parse_assertion w = Inr \<lparr>zp_action = a, zp_effect = e, zp_resource = s, zp_role = r\<rparr>"
    if "w \<in> set vs" for w
    using emap_defined [OF v(2) that] parse_assertion_Inr [of w] by metis
  with Some v emap_member [OF v(2)] show ?thesis by (auto simp: holds_assertion_def)
qed

lemma parse_listed_member:
  assumes "parse_listed_policy v = Inr (ns, xs)"
  shows "n \<in> set ns \<longleftrightarrow> v = JStr n \<or> (\<exists>pf. v = JObj pf \<and> map_of pf ''name'' = Some (JStr n) \<and> trim n \<noteq> [])"
    and "\<lparr>zp_action = a, zp_effect = e, zp_resource = s, zp_role = r\<rparr> \<in> set xs \<longleftrightarrow> (\<exists>pf. v = JObj pf \<and> holds_assertion pf e a r s)"
proof -
  have "(n \<in> set ns \<longleftrightarrow> v = JStr n \<or> (\<exists>pf. v = JObj pf \<and> map_of pf ''name'' = Some (JStr n) \<and> trim n \<noteq> []))
    \<and> (\<lparr>zp_action = a, zp_effect = e, zp_resource = s, zp_role = r\<rparr> \<in> set xs \<longleftrightarrow> (\<exists>pf. v = JObj pf \<and> holds_assertion pf e a r s))"
  proof (cases v)
    case (JObj fs)
    with assms obtain ys where "parse_assertions (map_of fs ''assertions'') = Inr ys"
      and r: "xs = ys" "ns = (case as_string (map_of fs ''name'') of None \<Rightarrow> [] | Some n \<Rightarrow> if trim n = [] then [] else [n])"
      by (auto simp: parse_listed_policy_def require_record_def ebind_eq_Inr)
    from parse_assertions_member [OF this(1)] r JObj show ?thesis by (auto split: option.splits if_splits)
  qed (use assms in \<open>auto simp: parse_listed_policy_def require_record_def require_text_def ebind_eq_Inr split: if_splits\<close>)
  then show "n \<in> set ns \<longleftrightarrow> v = JStr n \<or> (\<exists>pf. v = JObj pf \<and> map_of pf ''name'' = Some (JStr n) \<and> trim n \<noteq> [])"
    "\<lparr>zp_action = a, zp_effect = e, zp_resource = s, zp_role = r\<rparr> \<in> set xs \<longleftrightarrow> (\<exists>pf. v = JObj pf \<and> holds_assertion pf e a r s)" by blast+
qed

text \<open>The values of a list, where there is one.\<close>

definition listed_values :: "unknown \<Rightarrow> json list" where
  "listed_values v = (case v of Some (JArr vs) \<Rightarrow> vs | _ \<Rightarrow> [])"

lemma in_listed: "v \<in> set (listed_values x) \<longleftrightarrow> (\<exists>vs. x = Some (JArr vs) \<and> v \<in> set vs)"
  by (auto simp: listed_values_def split: option.splits json.splits)

lemma parse_list_member:
  assumes "parse_zms_policy_list parse body = Inr (xs, names)"
  obtains fs where "parse body = Some (JObj fs)"
    "\<And>n. n \<in> set names \<longleftrightarrow> names_policy fs n"
    "\<And>a e s r. \<lparr>zp_action = a, zp_effect = e, zp_resource = s, zp_role = r\<rparr> \<in> set xs
       \<longleftrightarrow> (\<exists>ps pf. map_of fs ''policies'' = Some (JArr ps) \<and> JObj pf \<in> set ps \<and> holds_assertion pf e a r s)"
proof -
  from assms obtain fs ns ps where fs: "parse body = Some (JObj fs)"
    and ns: "emap (\<lambda>v. require_text (Some v) ''policy name'') (listed_values (map_of fs ''names'')) = Inr ns"
    and ps: "emap parse_listed_policy (listed_values (map_of fs ''policies'')) = Inr ps"
    and r: "xs = concat (map snd ps)" "names = uniq (ns @ concat (map fst ps))"
    by (auto simp: parse_zms_policy_list_def parse_zms_payload_def require_record_def ebind_eq_Inr Let_def listed_values_def
        split: option.splits json.splits if_splits)
  have names: "n \<in> set ns \<longleftrightarrow> JStr n \<in> set (listed_values (map_of fs ''names''))" for n
    using emap_member [OF ns, of n] emap_defined [OF ns, of "JStr n"] by (auto simp: require_text_def split: if_splits option.splits)
  have each: "(\<exists>q \<in> set ps. P q) \<longleftrightarrow> (\<exists>v \<in> set (listed_values (map_of fs ''policies'')). Q v)"
    if "\<And>v ns xs. v \<in> set (listed_values (map_of fs ''policies'')) \<Longrightarrow> parse_listed_policy v = Inr (ns, xs) \<Longrightarrow> P (ns, xs) \<longleftrightarrow> Q v" for P Q
  proof (rule emap_Ex [OF ps])
    fix v q assume "v \<in> set (listed_values (map_of fs ''policies''))" "parse_listed_policy v = Inr q"
    then show "P q \<longleftrightarrow> Q v" using that [of v "fst q" "snd q"] by simp
  qed
  have n: "n \<in> set names \<longleftrightarrow> names_policy fs n" for n
  proof -
    have "(\<exists>q \<in> set ps. n \<in> set (fst q)) \<longleftrightarrow> (\<exists>v \<in> set (listed_values (map_of fs ''policies'')).
        v = JStr n \<or> (\<exists>pf. v = JObj pf \<and> map_of pf ''name'' = Some (JStr n) \<and> trim n \<noteq> []))"
      by (rule each) (simp add: parse_listed_member(1))
    moreover have "n \<in> set names \<longleftrightarrow> n \<in> set ns \<or> (\<exists>q \<in> set ps. n \<in> set (fst q))" by (simp add: r)
    ultimately show ?thesis unfolding names_policy_def names Bex_def in_listed by blast
  qed
  have "(\<exists>q \<in> set ps. \<lparr>zp_action = a, zp_effect = e, zp_resource = s, zp_role = r\<rparr> \<in> set (snd q))
      \<longleftrightarrow> (\<exists>v \<in> set (listed_values (map_of fs ''policies'')). \<exists>pf. v = JObj pf \<and> holds_assertion pf e a r s)" for a e s r
    by (rule each) (simp add: parse_listed_member(2))
  moreover have "x \<in> set xs \<longleftrightarrow> (\<exists>q \<in> set ps. x \<in> set (snd q))" for x by (simp add: r)
  ultimately have "\<lparr>zp_action = a, zp_effect = e, zp_resource = s, zp_role = r\<rparr> \<in> set xs
       \<longleftrightarrow> (\<exists>ps pf. map_of fs ''policies'' = Some (JArr ps) \<and> JObj pf \<in> set ps \<and> holds_assertion pf e a r s)" for a e s r
    unfolding Bex_def in_listed by blast
  with that fs n show ?thesis by blast
qed

lemma fetch_policy_member:
  assumes "fetch_policy zr domain name = Inr xs"
  shows "\<lparr>zp_action = a, zp_effect = e, zp_resource = s, zp_role = r\<rparr> \<in> set xs
    \<longleftrightarrow> (\<exists>gs. answered zr (entity_path domain ''policy'' (simple_policy_name domain name)) gs \<and> holds_assertion gs e a r s)"
proof -
  from assms obtain ans where ans: "zr_get zr (entity_path domain ''policy'' (simple_policy_name domain name)) = Inr ans"
    and "za_status ans = 404 \<and> xs = [] \<or> za_status ans = 200 \<and> parse_zms_policy (zr_parse zr) (za_body ans) = Inr xs"
    by (auto simp: fetch_policy_def ebind_eq_Inr split: if_splits)
  from this(2) show ?thesis
  proof (elim disjE conjE)
    assume "za_status ans = 200" "parse_zms_policy (zr_parse zr) (za_body ans) = Inr xs"
    then obtain gs where gs: "zr_parse zr (za_body ans) = Some (JObj gs)" "parse_assertions (map_of gs ''assertions'') = Inr xs"
      by (auto simp: parse_zms_policy_def parse_zms_payload_def require_record_def ebind_eq_Inr split: option.splits)
    with ans \<open>za_status ans = 200\<close> parse_assertions_member [OF gs(2)] show ?thesis by (simp add: answered_def)
  qed (use ans in \<open>simp add: answered_def\<close>)
qed

text \<open>The keys of assertions, joined with line breaks, tell assertions apart from one without line breaks.\<close>

definition no_line_break :: "string \<Rightarrow> bool" where
  "no_line_break s \<longleftrightarrow> CHR 0x0A \<notin> set s"

lemma policy_identity_inj:
  assumes "policy_identity e a r s = policy_identity e' a' r' s'" "no_line_break a" "no_line_break r" "no_line_break s"
  shows "e' = e \<and> a' = a \<and> r' = r \<and> s' = s"
proof -
  have effect: "CHR 0x0A \<notin> set (effect_text x)" for x by (cases x) (simp_all add: effect_text_def)
  have "split_char (CHR 0x0A) (policy_identity e a r s) = [effect_text e, a, r, s]"
    using assms(2-4) effect by (simp add: policy_identity_def newline_def split_char_append split_char_word no_line_break_def)
  moreover have "split_char (CHR 0x0A) (policy_identity e' a' r' s') =
      effect_text e' # split_char (CHR 0x0A) a' @ split_char (CHR 0x0A) r' @ split_char (CHR 0x0A) s'"
    using effect by (simp add: policy_identity_def newline_def split_char_append split_char_word)
  ultimately have eq: "effect_text e = effect_text e'"
    "split_char (CHR 0x0A) a' @ split_char (CHR 0x0A) r' @ split_char (CHR 0x0A) s' = [a, r, s]"
    using assms(1) by simp_all
  have "split_char (CHR 0x0A) a' = [a] \<and> split_char (CHR 0x0A) r' = [r] \<and> split_char (CHR 0x0A) s' = [s]"
    using eq(2) split_char_not_Nil [of "CHR 0x0A"]
    by (cases "split_char (CHR 0x0A) a'"; cases "split_char (CHR 0x0A) r'"; cases "split_char (CHR 0x0A) s'")
       (auto simp: append_eq_Cons_conv)
  then have "a' = a" "r' = r" "s' = s" by (metis split_char_join join.simps(2))+
  moreover from eq(1) have "e' = e" by (cases e; cases e') (simp_all add: effect_text_def)
  ultimately show ?thesis by blast
qed

lemma domain_assertions_member:
  assumes "fetch_domain_assertions zr domain = Inr found"
    and "no_line_break (pp_action p)" "no_line_break (pp_role p)" "no_line_break (pp_resource p)"
  shows "assertion_key (policy_assertion_of p) \<in> set found
    \<longleftrightarrow> zms_shows_assertion zr domain (pp_effect p) (pp_action p) (pp_role p) (pp_resource p)"
proof -
  let ?path = "domain_path domain @ ''/policy''"
  from assms(1) obtain ans where ans: "zr_get zr ?path = Inr ans" and
    "za_status ans = 404 \<and> found = [] \<or> za_status ans = 200 \<and>
      (\<exists>xs names details. parse_zms_policy_list (zr_parse zr) (za_body ans) = Inr (xs, names)
        \<and> emap (fetch_policy zr domain) names = Inr details \<and> found = map assertion_key (xs @ concat details))"
    by (auto simp: fetch_domain_assertions_def ebind_eq_Inr split: if_splits prod.splits)
  from this(2) show ?thesis
  proof (elim disjE conjE exE)
    fix xs names details
    assume st: "za_status ans = 200" and l: "parse_zms_policy_list (zr_parse zr) (za_body ans) = Inr (xs, names)"
      and d: "emap (fetch_policy zr domain) names = Inr details" and found: "found = map assertion_key (xs @ concat details)"
    from l obtain fs where fs: "zr_parse zr (za_body ans) = Some (JObj fs)"
      "\<And>n. n \<in> set names \<longleftrightarrow> names_policy fs n"
      "\<And>a e s r. \<lparr>zp_action = a, zp_effect = e, zp_resource = s, zp_role = r\<rparr> \<in> set xs
         \<longleftrightarrow> (\<exists>ps pf. map_of fs ''policies'' = Some (JArr ps) \<and> JObj pf \<in> set ps \<and> holds_assertion pf e a r s)"
      by (rule parse_list_member) blast
    have only: "answered zr ?path gs \<longleftrightarrow> gs = fs" for gs using ans st fs(1) by (auto simp: answered_def)
    have key: "assertion_key x = assertion_key (policy_assertion_of p) \<longleftrightarrow> x = policy_assertion_of p" for x
    proof
      assume "assertion_key x = assertion_key (policy_assertion_of p)"
      then have "policy_identity (pp_effect p) (pp_action p) (pp_role p) (pp_resource p)
          = policy_identity (zp_effect x) (zp_action x) (zp_role x) (zp_resource x)"
        by (simp add: assertion_key_def policy_assertion_of_def)
      from policy_identity_inj [OF this assms(2-4)] show "x = policy_assertion_of p"
        by (cases x) (simp add: policy_assertion_of_def)
    qed simp
    have "assertion_key (policy_assertion_of p) \<in> set found \<longleftrightarrow> policy_assertion_of p \<in> set xs \<or> policy_assertion_of p \<in> set (concat details)"
      unfolding found using key by (auto simp: image_iff) metis+
    also have "policy_assertion_of p \<in> set xs \<longleftrightarrow> (\<exists>ps pf. map_of fs ''policies'' = Some (JArr ps) \<and> JObj pf \<in> set ps
        \<and> holds_assertion pf (pp_effect p) (pp_action p) (pp_role p) (pp_resource p))"
      unfolding policy_assertion_of_def fs(3) ..
    also have "policy_assertion_of p \<in> set (concat details) \<longleftrightarrow> (\<exists>name gs. names_policy fs name
        \<and> answered zr (entity_path domain ''policy'' (simple_policy_name domain name)) gs
        \<and> holds_assertion gs (pp_effect p) (pp_action p) (pp_role p) (pp_resource p))"
      using emap_member [OF d] emap_defined [OF d] fetch_policy_member [of zr domain] fs(2)
      unfolding policy_assertion_of_def set_concat UN_iff by metis
    finally show ?thesis unfolding zms_shows_assertion_def by (simp add: only)
  qed (use ans in \<open>auto simp: zms_shows_assertion_def answered_def\<close>)
qed

definition membership_names :: "(string \<times> json) list \<Rightarrow> string \<Rightarrow> bool" where
  "membership_names m role \<longleftrightarrow> (map_of m ''roleName'' = Some (JStr role) \<and> has_role_marker role
     \<or> (\<exists>domain name. map_of m ''domainName'' = Some (JStr domain) \<and> domain \<noteq> [] \<and> map_of m ''roleName'' = Some (JStr name)
          \<and> name \<noteq> [] \<and> \<not> has_role_marker name \<and> role = domain @ '':role.'' @ name))"

lemma role_of_membership_names:
  assumes "role_of_membership v = Inr r"
  shows "r = role \<longleftrightarrow> (\<exists>m. v = JObj m \<and> membership_names m role)"
proof -
  have "\<exists>m. v = JObj m \<and> membership_names m r" unfolding membership_names_def using assms
    by (cases v) (auto simp: role_of_membership_def non_empty_string_def ebind_eq_Inr split: option.splits if_splits prod.splits)
  then show ?thesis by (auto simp: membership_names_def)
qed

lemma principal_roles_member:
  assumes "fetch_principal_roles zr member = Inr roles"
  shows "role \<in> set roles \<longleftrightarrow> zms_shows_membership zr member role"
proof -
  from assms obtain ans where ans: "zr_roles zr member = Inr ans" and
    "za_status ans = 404 \<and> roles = [] \<or> za_status ans = 200 \<and>
      (\<exists>fs vs. zr_parse zr (za_body ans) = Some (JObj fs) \<and> map_of fs ''memberRoles'' = Some (JArr vs) \<and> emap role_of_membership vs = Inr roles)"
    by (auto simp: fetch_principal_roles_def ebind_eq_Inr split: if_splits option.splits json.splits)
  from this(2) show ?thesis
  proof (elim disjE conjE exE)
    fix fs vs
    assume st: "za_status ans = 200" and fs: "zr_parse zr (za_body ans) = Some (JObj fs)" "map_of fs ''memberRoles'' = Some (JArr vs)"
      and e: "emap role_of_membership vs = Inr roles"
    have "(\<exists>r \<in> set roles. r = role) \<longleftrightarrow> (\<exists>v \<in> set vs. \<exists>m. v = JObj m \<and> membership_names m role)"
      by (rule emap_Ex [OF e]) (rule role_of_membership_names)
    with ans st fs show ?thesis by (auto simp: zms_shows_membership_def membership_names_def)
  qed (use ans in \<open>simp add: zms_shows_membership_def\<close>)
qed

section \<open>Readiness\<close>

text \<open>What a lookup that says \<open>Ready\<close> saw: it could be read, and what was asked for stood in the answers.\<close>

definition membership_listed :: "zms_reader \<Rightarrow> permission_requirement \<Rightarrow> bool" where
  "membership_listed zr r \<longleftrightarrow> (\<exists>roles. fetch_principal_roles zr (pq_member r) = Inr roles)
     \<and> zms_shows_membership zr (pq_member r) (pq_role r)"

definition assertion_listed :: "zms_reader \<Rightarrow> policy_requirement \<Rightarrow> bool" where
  "assertion_listed zr p \<longleftrightarrow> (\<exists>domain role found. parse_athenz_role (pp_role p) = Inr (domain, role)
     \<and> fetch_domain_assertions zr domain = Inr found
     \<and> zms_shows_assertion zr domain (pp_effect p) (pp_action p) (pp_role p) (pp_resource p))"

lemma requirement_status_Ready: "requirement_status hs zr r = Ready \<longleftrightarrow> hs_credentials hs \<and> membership_listed zr r"
  using principal_roles_member by (auto simp: requirement_status_def status_of_lookup_Ready membership_listed_def)

lemma policy_status_Ready:
  "no_line_break (pp_action p) \<Longrightarrow> no_line_break (pp_role p) \<Longrightarrow> no_line_break (pp_resource p) \<Longrightarrow>
   policy_status hs zr p = Ready \<longleftrightarrow> hs_credentials hs \<and> assertion_listed zr p"
  using domain_assertions_member
  by (auto simp: policy_status_def status_of_lookup_Ready assertion_listed_def ebind_eq_Inr split: prod.splits)

text \<open>
  C36: ready means granted. For policies whose action, role and resource have no line break, the
  readiness of a definition is \<open>Ready\<close> exactly when the hub has its certificates, every lookup could be
  read, every requirement of every group stands in the roles that ZMS answered for its member, and
  every policy stands, with its own effect, action, role and resource, in an assertion that ZMS answered
  for the domain of its role; the groups reported are those of the definition, in order.
\<close>

theorem readiness_is_exact:
  assumes "permission_definition hs serverId username scope audience overrides service = Defined preset"
    and "permission_readiness hs zr serverId username scope audience overrides service = Inr (Readiness d groups status)"
    and names: "\<forall>g \<in> set (ps_groups preset). \<forall>p \<in> set (listed_policies g).
       no_line_break (pp_action p) \<and> no_line_break (pp_role p) \<and> no_line_break (pp_resource p)"
  shows "map kg_group groups = ps_groups preset
    \<and> (status = Ready \<longleftrightarrow> hs_credentials hs
        \<and> (\<forall>g \<in> set (ps_groups preset).
             (\<forall>r \<in> set (pg_requirements g). (\<exists>roles. fetch_principal_roles zr (pq_member r) = Inr roles)
                \<and> zms_shows_membership zr (pq_member r) (pq_role r))
             \<and> (\<forall>p \<in> set (listed_policies g). \<exists>domain role found. parse_athenz_role (pp_role p) = Inr (domain, role)
                \<and> fetch_domain_assertions zr domain = Inr found
                \<and> zms_shows_assertion zr domain (pp_effect p) (pp_action p) (pp_role p) (pp_resource p))))"
proof -
  from assms have groups: "emap (check_group hs zr) (ps_groups preset) = Inr groups"
    and status: "status = (if hs_credentials hs then overall_status (concat (map group_statuses groups)) else Unavailable)"
    by (auto simp: permission_readiness_def ebind_eq_Inr)
  have "map kg_group groups = map (\<lambda>g. g) (ps_groups preset)"
    by (rule emap_projects [OF groups]) (rule check_group_Inr)
  moreover have "map group_statuses groups =
      map (\<lambda>g. map (requirement_status hs zr) (pg_requirements g) @ map (policy_status hs zr) (listed_policies g)) (ps_groups preset)"
    by (rule emap_projects [OF groups]) (rule check_group_Inr)
  moreover have "(\<forall>p \<in> set (listed_policies g). policy_status hs zr p = Ready)
      \<longleftrightarrow> (\<forall>p \<in> set (listed_policies g). hs_credentials hs \<and> assertion_listed zr p)" if "g \<in> set (ps_groups preset)" for g
    using names that policy_status_Ready by blast
  ultimately have "map kg_group groups = ps_groups preset \<and> (status = Ready \<longleftrightarrow> hs_credentials hs
      \<and> (\<forall>g \<in> set (ps_groups preset). (\<forall>r \<in> set (pg_requirements g). membership_listed zr r)
           \<and> (\<forall>p \<in> set (listed_policies g). assertion_listed zr p)))"
    by (auto simp: status overall_status_Ready subset_eq ball_Un requirement_status_Ready)
  then show ?thesis unfolding membership_listed_def assertion_listed_def .
qed

text \<open>A definition with two roles and a policy, which ZMS lists; and the same with the policy denied.\<close>

definition sample_tool_presets :: json where
  "sample_tool_presets = JObj [(''version'', JNum (Finite 1)), (''servers'', JObj [(''docs'', JObj [(''tools'', JObj [(''get'', JObj
     [(''requirements'', JArr [JObj [(''member'', JStr signed_in_user), (''role'', JStr ''api:role.reader''),
        (''includeExchangeHelpers'', JBool True), (''exchangeHelperRequirements'', JArr [JObj [(''member'', JStr ''hub.gateway''),
          (''role'', JStr ''api:role.helper''), (''policies'', JArr [JObj [(''action'', JStr ''read''), (''effect'', JStr ''ALLOW''),
             (''resource'', JStr ''api:docs'')]])]])]])])])])])]"

definition sample_hub :: hub_settings where
  "sample_hub = \<lparr>hs_presets = Inr (Some sample_tool_presets), hs_userDomain = ''user'', hs_gatewayPrincipal = ''hub.gateway'',
     hs_athenzUiUrl = ''https://ui'', hs_credentials = True\<rparr>"

definition sample_zms_reader :: "string \<Rightarrow> zms_reader" where
  "sample_zms_reader effect = \<lparr>zr_roles = (\<lambda>_. Inr \<lparr>za_status = 200, za_body = []\<rparr>), zr_get = (\<lambda>_. Inr \<lparr>za_status = 200, za_body = []\<rparr>),
     zr_parse = (\<lambda>_. Some (JObj [(''memberRoles'', JArr [JObj [(''roleName'', JStr ''api:role.reader'')],
          JObj [(''domainName'', JStr ''api''), (''roleName'', JStr ''helper'')]]),
        (''policies'', JArr [JObj [(''assertions'', JArr [JObj [(''action'', JStr ''read''), (''effect'', JStr effect),
          (''resource'', JStr ''api:docs''), (''role'', JStr ''api:role.helper'')]])]])]))\<rparr>"

definition sample_defined :: permission_preset where
  "sample_defined = (case permission_definition sample_hub ''docs'' ''ann'' None None None None of Defined p \<Rightarrow> p
     | _ \<Rightarrow> \<lparr>ps_default = None, ps_groups = [], ps_serverId = []\<rparr>)"

definition sample_checked :: "string \<Rightarrow> checked_group list" where
  "sample_checked effect = (case permission_readiness sample_hub (sample_zms_reader effect) ''docs'' ''ann'' None None None None of
       Inr (Readiness _ groups _) \<Rightarrow> groups | _ \<Rightarrow> [])"

lemma sample_readiness:
  "permission_definition sample_hub ''docs'' ''ann'' None None None None = Defined sample_defined"
  "permission_readiness sample_hub (sample_zms_reader ''ALLOW'') ''docs'' ''ann'' None None None None
     = Inr (Readiness None (sample_checked ''ALLOW'') Ready)"
  "permission_readiness sample_hub (sample_zms_reader ''DENY'') ''docs'' ''ann'' None None None None
     = Inr (Readiness None (sample_checked ''DENY'') Missing)"
  "map (map pp_action \<circ> listed_policies) (ps_groups sample_defined) = [[''read'']]"
  "list_all (list_all (\<lambda>p. no_line_break (pp_action p) \<and> no_line_break (pp_role p) \<and> no_line_break (pp_resource p)) \<circ> listed_policies)
     (ps_groups sample_defined)"
  by code_simp+

theorem readiness_is_exact_witness:
  "\<exists>g p domain. ps_groups sample_defined = [g] \<and> listed_policies g = [p] \<and> map kg_group (sample_checked ''ALLOW'') = [g]
    \<and> zms_shows_assertion (sample_zms_reader ''ALLOW'') domain (pp_effect p) (pp_action p) (pp_role p) (pp_resource p)
    \<and> map kg_group (sample_checked ''DENY'') = [g]"
proof -
  from sample_readiness(4) obtain g p where g: "ps_groups sample_defined = [g]" "listed_policies g = [p]"
    by (auto simp: map_eq_Cons_conv)
  have names: "\<forall>g \<in> set (ps_groups sample_defined). \<forall>p \<in> set (listed_policies g).
      no_line_break (pp_action p) \<and> no_line_break (pp_role p) \<and> no_line_break (pp_resource p)"
    using sample_readiness(5) by (simp add: list_all_iff)
  from readiness_is_exact [OF sample_readiness(1,2) names] readiness_is_exact [OF sample_readiness(1,3) names] g show ?thesis
    by auto
qed

end
