(* ===== verification/Hub_Drafts.thy ===== *)
theory Hub_Drafts
  imports Hub_Permissions
begin

text \<open>
  \<^verbatim>\<open>permissions/lib/toolPermissionDraft.ts\<close>: the form in which tool permissions are edited, the settings
  that come of it, and the values settings are stored as. \<^verbatim>\<open>JSON.stringify\<close> is an argument; so is the
  arrow of the printed settings, which is no Latin-1 character.
\<close>

section \<open>Settings as JSON\<close>

text \<open>The objects that the parsers of permission settings build, in the order of their properties.\<close>

definition policy_json :: "exchange_policy \<Rightarrow> json" where
  "policy_json p = JObj
     [(''action'', JStr (xp_action p)), (''effect'', JStr (effect_text (xp_effect p))), (''resource'', JStr (xp_resource p))]"

definition helper_json :: "configured_helper \<Rightarrow> json" where
  "helper_json h = JObj
     ([(''label'', JStr (ch_label h)), (''member'', JStr (ch_member h))]
      @ (case ch_policies h of None \<Rightarrow> [] | Some ps \<Rightarrow> [(''policies'', JArr (map policy_json ps))])
      @ [(''role'', JStr (ch_role h))])"

definition requirement_json :: "configured_requirement \<Rightarrow> json" where
  "requirement_json r = JObj
     ((case cr_helpers r of None \<Rightarrow> [] | Some hs \<Rightarrow> [(''exchangeHelperRequirements'', JArr (map helper_json hs))])
      @ (case cr_includeHelpers r of None \<Rightarrow> [] | Some b \<Rightarrow> [(''includeExchangeHelpers'', JBool b)])
      @ [(''label'', JStr (cr_label r)), (''member'', JStr (cr_member r)), (''role'', JStr (cr_role r))])"

definition tool_json :: "string \<times> configured_requirement list \<Rightarrow> string \<times> json" where
  "tool_json = (\<lambda>(name, rs). (name, JObj [(''requirements'', JArr (map requirement_json rs))]))"

definition default_permission_text :: "permission_default \<Rightarrow> string" where
  "default_permission_text d = (case d of Default_None \<Rightarrow> ''none'' | Default_Not_Defined \<Rightarrow> ''not-defined'')"

definition settings_json :: "tool_settings \<Rightarrow> json" where
  "settings_json s = JObj
     ((case ts_default s of None \<Rightarrow> [] | Some d \<Rightarrow> [(''defaultPermission'', JStr (default_permission_text d))])
      @ [(''version'', JNum (Finite 1)), (''tools'', JObj (map tool_json (ts_tools s)))])"

section \<open>Drafts\<close>

datatype member_kind = Signed_In_Member | Service_Member

datatype helper_kind = Custom_Helper | Gateway_Helper | Mcp_Service_Helper

record editable_helper =
  eh_label :: string
  eh_member :: string
  eh_kind :: helper_kind
  eh_policies :: "exchange_policy list"
  eh_role :: string

record editable_requirement =
  ed_audience :: string
  ed_customized :: bool
  ed_helpers :: "editable_helper list"
  ed_label :: string
  ed_member :: string
  ed_kind :: member_kind
  ed_role :: string

record tool_draft =
  td_id :: nat
  td_requirements :: "editable_requirement list"
  td_toolName :: string

definition template_iam_member :: string where
  "template_iam_member = ''mcp-hub.template-mcp-iam-account''"

definition configured_role :: "string \<Rightarrow> string \<Rightarrow> string" where
  "configured_role audience role = trim audience @ '':role.'' @ trim role"

definition editable_role :: "string \<Rightarrow> string \<times> string" where
  "editable_role role =
     (case index_of '':role.'' role of
        None \<Rightarrow> ([], role)
      | Some i \<Rightarrow> if 0 < i then (take i role, drop (i + length '':role.'') role) else ([], role))"

text \<open>An optional principal counts as missing when it is empty.\<close>

definition given :: "string option \<Rightarrow> string option" where
  "given s = (case s of Some (c # cs) \<Rightarrow> Some (c # cs) | _ \<Rightarrow> None)"

definition helper_kind_of :: "string \<Rightarrow> string option \<Rightarrow> helper_kind" where
  "helper_kind_of member servicePrincipal =
     (if member = default_gateway_principal then Gateway_Helper
      else if member = template_iam_member then Mcp_Service_Helper
      else if given servicePrincipal = Some member then Mcp_Service_Helper
      else Custom_Helper)"

definition configured_policy_of :: "exchange_policy \<Rightarrow> exchange_policy" where
  "configured_policy_of p = \<lparr>xp_action = trim (xp_action p), xp_effect = xp_effect p, xp_resource = trim (xp_resource p)\<rparr>"

definition configured_helper_of :: "string option \<Rightarrow> editable_helper \<Rightarrow> configured_helper" where
  "configured_helper_of servicePrincipal h =
     \<lparr>ch_label = trim (eh_label h),
      ch_member = (case given servicePrincipal of
          Some p \<Rightarrow> if eh_kind h = Mcp_Service_Helper then p else trim (eh_member h)
        | None \<Rightarrow> trim (eh_member h)),
      ch_policies = Some (map configured_policy_of (eh_policies h)), ch_role = trim (eh_role h)\<rparr>"

definition configured_of_draft :: "bool \<Rightarrow> string option \<Rightarrow> editable_requirement \<Rightarrow> configured_requirement" where
  "configured_of_draft includeHelpers servicePrincipal r =
     (let manages = (ed_kind r = Signed_In_Member \<and> includeHelpers) in
      \<lparr>cr_helpers = (if manages \<and> ed_customized r then Some (map (configured_helper_of servicePrincipal) (ed_helpers r)) else None),
       cr_includeHelpers = (if manages then Some True else None),
       cr_label = (if trim (ed_label r) = [] then ''Signed-in user can call the downstream API'' else trim (ed_label r)),
       cr_member = (if ed_kind r = Signed_In_Member then signed_in_user else trim (ed_member r)),
       cr_role = configured_role (ed_audience r) (ed_role r)\<rparr>)"

text \<open>
  The loop over the tools; \<open>i\<close> counts from 1. \<^verbatim>\<open>configuredTools[toolName]\<close> also finds what every object
  inherits, and \<^verbatim>\<open>__proto__\<close>.
\<close>

fun draft_tools ::
  "bool \<Rightarrow> string option \<Rightarrow> nat \<Rightarrow> (string \<times> configured_requirement list) list \<Rightarrow> tool_draft list
   \<Rightarrow> (string, (string \<times> configured_requirement list) list) result" where
  "draft_tools includeHelpers servicePrincipal i configured [] = Inr configured"
| "draft_tools includeHelpers servicePrincipal i configured (t # ts) =
     (let toolName = trim (td_toolName t) in
      if toolName = [] then Inl (''Tool '' @ nat_text i @ '' name is required'')
      else if toolName \<in> set (map fst configured) \<or> toolName \<in> set inherited_names then Inl (''Tool names must be unique: '' @ toolName)
      else if list_ex (\<lambda>r. trim (ed_audience r) = [] \<or> trim (ed_role r) = []) (td_requirements t)
      then Inl (''Enter both an audience and required role for '' @ toolName)
      else draft_tools includeHelpers servicePrincipal (Suc i)
        (configured @ [(toolName, map (configured_of_draft includeHelpers servicePrincipal) (td_requirements t))]) ts)"

definition validate_draft ::
  "tool_draft list \<Rightarrow> bool \<Rightarrow> string option \<Rightarrow> permission_default option \<Rightarrow> (string, tool_settings option) result" where
  "validate_draft tools includeHelpers servicePrincipal defaultPermission =
     (if tools = [] \<and> defaultPermission = None then Inr None
      else ebind (draft_tools includeHelpers servicePrincipal 1 [] tools) (\<lambda>configured.
           ebind (parse_tool_settings (Some (settings_json \<lparr>ts_default = defaultPermission, ts_tools = property_order configured\<rparr>))) (\<lambda>s.
           Inr (Some s))))"

definition default_of_settings :: "tool_settings option \<Rightarrow> permission_default" where
  "default_of_settings settings =
     (case settings of None \<Rightarrow> Default_Not_Defined
      | Some s \<Rightarrow> (case ts_default s of None \<Rightarrow> Default_Not_Defined | Some d \<Rightarrow> d))"

definition editable_helper_of :: "string option \<Rightarrow> configured_helper \<Rightarrow> editable_helper" where
  "editable_helper_of servicePrincipal h =
     \<lparr>eh_label = ch_label h, eh_member = ch_member h, eh_kind = helper_kind_of (ch_member h) servicePrincipal,
      eh_policies = (case ch_policies h of None \<Rightarrow> [] | Some ps \<Rightarrow> ps), eh_role = ch_role h\<rparr>"

definition editable_of_configured :: "string option \<Rightarrow> configured_requirement \<Rightarrow> editable_requirement" where
  "editable_of_configured servicePrincipal r =
     \<lparr>ed_audience = fst (editable_role (cr_role r)),
      ed_customized = (cr_helpers r \<noteq> None \<or> cr_includeHelpers r = Some False),
      ed_helpers = map (editable_helper_of servicePrincipal) (case cr_helpers r of None \<Rightarrow> [] | Some hs \<Rightarrow> hs),
      ed_label = cr_label r, ed_member = cr_member r,
      ed_kind = (if cr_member r = signed_in_user then Signed_In_Member else Service_Member),
      ed_role = snd (editable_role (cr_role r))\<rparr>"

definition draft_of_settings :: "tool_settings option \<Rightarrow> string option \<Rightarrow> tool_draft list" where
  "draft_of_settings settings servicePrincipal =
     map (\<lambda>(i, toolName, rs). \<lparr>td_id = i, td_requirements = map (editable_of_configured servicePrincipal) rs, td_toolName = toolName\<rparr>)
       (enumerate 1 (case settings of None \<Rightarrow> [] | Some s \<Rightarrow> ts_tools s))"

definition empty_requirement :: editable_requirement where
  "empty_requirement =
     \<lparr>ed_audience = [], ed_customized = False, ed_helpers = [], ed_label = [], ed_member = signed_in_user,
      ed_kind = Signed_In_Member, ed_role = []\<rparr>"

section \<open>The helpers of a requirement\<close>

text \<open>\<^verbatim>\<open>policiesByRole\<close>: the policies of a role, in the order of the rules.\<close>

definition policies_by_role :: "exchange_rule list \<Rightarrow> string \<Rightarrow> exchange_policy list" where
  "policies_by_role rules role =
     map (\<lambda>e. \<lparr>xp_action = er_action e, xp_effect = er_effect e, xp_resource = er_resource e\<rparr>) (filter (\<lambda>e. er_role e = role) rules)"

definition direct_requirement :: "editable_requirement \<Rightarrow> configured_requirement" where
  "direct_requirement r =
     \<lparr>cr_helpers = None, cr_includeHelpers = None, cr_label = (if ed_label r = [] then ''Required role membership'' else ed_label r),
      cr_member = signed_in_user, cr_role = configured_role (ed_audience r) (ed_role r)\<rparr>"

definition generated_helper_drafts ::
  "editable_requirement \<Rightarrow> string option \<Rightarrow> string option \<Rightarrow> editable_helper list" where
  "generated_helper_drafts r servicePrincipal sourceAudience =
     (case (given servicePrincipal, given sourceAudience) of
        (Some service, Some source) \<Rightarrow>
          (case ebind (exchange_rules (configured_role (ed_audience r) (ed_role r)) source None) (\<lambda>rules.
                ebind (exchange_helpers [direct_requirement r] service default_gateway_principal) (\<lambda>helpers.
                Inr (map (\<lambda>h. \<lparr>eh_label = ch_label h, eh_member = ch_member h, eh_kind = helper_kind_of (ch_member h) (Some service),
                               eh_policies = policies_by_role rules (ch_role h), eh_role = ch_role h\<rparr>) helpers))) of
             Inl _ \<Rightarrow> []
           | Inr hs \<Rightarrow> hs)
      | _ \<Rightarrow> [])"

definition helper_drafts :: "editable_requirement \<Rightarrow> string option \<Rightarrow> string option \<Rightarrow> editable_helper list" where
  "helper_drafts r servicePrincipal sourceAudience =
     (if ed_customized r
      then map (\<lambda>h. case given servicePrincipal of
             Some p \<Rightarrow> if eh_kind h = Mcp_Service_Helper then h\<lparr>eh_member := p\<rparr> else h
           | None \<Rightarrow> h) (ed_helpers r)
      else generated_helper_drafts r servicePrincipal sourceAudience)"

section \<open>Reading settings\<close>

definition helper_lines :: "string \<Rightarrow> configured_helper \<Rightarrow> string list" where
  "helper_lines arrow h =
     (''  Helper: '' @ (if ch_member h = template_iam_member then ''MCP IAM account selected during server creation'' else ch_member h)
        @ '' '' @ arrow @ '' '' @ ch_role h)
     # map (\<lambda>p. ''    Policy: '' @ effect_text (xp_effect p) @ '' '' @ xp_action p @ '' '' @ xp_resource p)
         (case ch_policies h of None \<Rightarrow> [] | Some ps \<Rightarrow> ps)"

definition requirement_lines :: "string \<Rightarrow> configured_requirement \<Rightarrow> string list" where
  "requirement_lines arrow r =
     (''Direct: '' @ cr_member r @ '' '' @ arrow @ '' '' @ cr_role r)
     # concat (map (helper_lines arrow) (case cr_helpers r of None \<Rightarrow> [] | Some hs \<Rightarrow> hs))
     @ (if cr_includeHelpers r = Some True \<and> cr_helpers r = None
        then [''  Helpers: generated when an MCP IAM account is selected''] else [])"

definition settings_text :: "string \<Rightarrow> tool_settings option \<Rightarrow> string" where
  "settings_text arrow settings =
     (case settings of
        None \<Rightarrow> ''Not configured''
      | Some s \<Rightarrow>
          let unlisted = (if ts_default s = Some Default_None then ''No additional permission for unlisted tools''
                         else ''Not defined for unlisted tools'');
              tools = join (newline @ newline) (map (\<lambda>(toolName, rs).
                let lines = join newline (concat (map (requirement_lines arrow) rs)) in
                toolName @ newline @ (if lines = [] then ''No additional permission required'' else lines)) (ts_tools s)) in
          ''Default: '' @ unlisted @ (if tools = [] then [] else newline @ newline @ tools))"

definition settings_fingerprint :: "(json \<Rightarrow> string) \<Rightarrow> tool_settings option \<Rightarrow> string" where
  "settings_fingerprint stringify settings = stringify (case settings of None \<Rightarrow> JNull | Some s \<Rightarrow> settings_json s)"

definition signed_in_audiences :: "tool_settings option \<Rightarrow> string list" where
  "signed_in_audiences settings =
     (case settings of
        None \<Rightarrow> []
      | Some s \<Rightarrow>
          canonical ((filter (\<lambda>a. a \<noteq> []) (map (\<lambda>r. fst (editable_role (cr_role r)))
            (filter (\<lambda>r. cr_member r = signed_in_user) (concat (map snd (ts_tools s))))))))"

definition has_unresolved_iam_member :: "tool_settings option \<Rightarrow> bool" where
  "has_unresolved_iam_member settings =
     (case settings of
        None \<Rightarrow> False
      | Some s \<Rightarrow> list_ex (\<lambda>(_, rs). list_ex (\<lambda>r. cr_member r = template_iam_member
          \<or> (case cr_helpers r of None \<Rightarrow> False | Some hs \<Rightarrow> list_ex (\<lambda>h. ch_member h = template_iam_member) hs)) rs) (ts_tools s))"

end
