(* ===== verification/Hub_Settings_Again.thy ===== *)
theory Hub_Settings_Again
  imports Hub_Drafts Hub_Permission_Rules
begin

text \<open>
  Permission settings are stored as the JSON of what was parsed: what is stored is parsed to the same
  settings again, whatever they came from.
\<close>

section \<open>Settings that were parsed\<close>

definition helper_stored :: "configured_helper \<Rightarrow> bool" where
  "helper_stored h \<longleftrightarrow> trim (ch_label h) \<noteq> [] \<and> trim (ch_member h) \<noteq> [] \<and> trim (ch_role h) \<noteq> []
     \<and> is_principal (ch_member h) \<and> is_role_scope (ch_role h)
     \<and> (case ch_policies h of None \<Rightarrow> True | Some ps \<Rightarrow> list_all policy_ok ps \<and> distinct (map exchange_policy_identity ps))"

definition helpers_stored :: "configured_helper list \<Rightarrow> bool" where
  "helpers_stored hs \<longleftrightarrow> list_all helper_stored hs \<and> distinct (map (\<lambda>h. member_identity (ch_member h) (ch_role h)) hs)"

definition requirement_stored :: "configured_requirement \<Rightarrow> bool" where
  "requirement_stored r \<longleftrightarrow> trim (cr_label r) \<noteq> [] \<and> trim (cr_member r) \<noteq> [] \<and> trim (cr_role r) \<noteq> []
     \<and> (cr_member r = signed_in_user \<or> is_principal (cr_member r)) \<and> is_role_scope (cr_role r)
     \<and> (cr_includeHelpers r \<noteq> None \<longrightarrow> cr_member r = signed_in_user)
     \<and> (case cr_helpers r of None \<Rightarrow> True | Some hs \<Rightarrow> cr_includeHelpers r = Some True \<and> helpers_stored hs)"

definition requirements_stored :: "configured_requirement list \<Rightarrow> bool" where
  "requirements_stored rs \<longleftrightarrow> list_all requirement_stored rs \<and> distinct (map (\<lambda>r. member_identity (cr_member r) (cr_role r)) rs)"

definition settings_stored :: "tool_settings \<Rightarrow> bool" where
  "settings_stored s \<longleftrightarrow> list_all (\<lambda>(name, rs). trim name \<noteq> [] \<and> name \<noteq> ''__proto__'' \<and> requirements_stored rs) (ts_tools s)
     \<and> (ts_tools s \<noteq> [] \<or> ts_default s \<noteq> None)"

lemma array_items_stored:
  assumes "ebind (array_at v location) (unique_items parse identity repeated 0 []) = Inr xs" "\<And>i v x. parse i v = Inr x \<Longrightarrow> P x"
  shows "list_all P xs \<and> distinct (map identity xs)"
proof -
  from assms(1) obtain vs where "unique_items parse identity repeated 0 [] vs = Inr xs" by (auto simp: ebind_eq_Inr)
  from unique_items_Inr [OF this, where P = P] assms(2) show ?thesis by blast
qed

lemma parse_policies_stored:
  "parse_exchange_policies v location = Inr ps \<Longrightarrow> list_all policy_ok ps \<and> distinct (map exchange_policy_identity ps)"
  unfolding parse_exchange_policies_def
  by (rule array_items_stored) (auto intro: parse_exchange_policy_ok)

lemma helper_policies_stored:
  "helper_policies requirement location = Inr ps \<Longrightarrow>
     (case ps of None \<Rightarrow> True | Some ps \<Rightarrow> list_all policy_ok ps \<and> distinct (map exchange_policy_identity ps))"
  by (auto simp: helper_policies_def Let_def result_simps parse_exchange_policy_ok split: if_splits dest: parse_policies_stored)

lemma trim_literals [simp]:
  "trim ''ALLOW'' = ''ALLOW''" "trim ''DENY'' = ''DENY''" "trim ''Required role membership'' = ''Required role membership''"
  by code_simp+

lemma label_at_Inr: "label_at v location = Inr s \<Longrightarrow> trim s \<noteq> []"
  by (auto simp: label_at_def split: if_splits)

lemma parse_helper_stored: "parse_helper location i v = Inr h \<Longrightarrow> helper_stored h"
  unfolding parse_helper_def Let_def helper_stored_def
  by (auto simp: ebind_eq_Inr split: if_split_asm dest: helper_policies_stored label_at_Inr)

lemma parse_helpers_stored: "parse_helpers v location = Inr hs \<Longrightarrow> helpers_stored hs"
  unfolding parse_helpers_def helpers_stored_def
  by (rule array_items_stored) (auto intro: parse_helper_stored)

lemma optional_helpers_stored:
  "optional_helpers v location = Inr hs \<Longrightarrow> (case hs of None \<Rightarrow> True | Some hs \<Rightarrow> helpers_stored hs)"
  by (auto simp: optional_helpers_def result_simps parse_helpers_stored split: if_splits)

lemma parse_requirement_stored: "parse_requirement location i v = Inr r \<Longrightarrow> requirement_stored r"
  unfolding parse_requirement_def Let_def requirement_stored_def
  by (auto simp: ebind_eq_Inr split: if_split_asm option.splits dest!: optional_helpers_stored dest: label_at_Inr)

lemma parse_requirements_stored: "parse_requirements v location = Inr rs \<Longrightarrow> requirements_stored rs"
  unfolding parse_requirements_def requirements_stored_def
  by (rule array_items_stored) (auto intro: parse_requirement_stored)

lemma legacy_helpers_stored:
  assumes "legacy_helpers toolName b hs rs = Inr rs'" "requirements_stored rs" "case hs of None \<Rightarrow> True | Some hs \<Rightarrow> helpers_stored hs"
  shows "requirements_stored rs'"
proof (cases "b = None \<and> hs = None")
  case True
  with assms show ?thesis by (simp add: legacy_helpers_def)
next
  case False
  let ?f = "\<lambda>r. if cr_member r = signed_in_user
      then r\<lparr>cr_helpers := (if hs \<noteq> None then hs else cr_helpers r), cr_includeHelpers := b\<rparr> else r"
  from assms(1) False have b: "hs = None \<or> b = Some True" and none: "list_all (\<lambda>r. cr_includeHelpers r = None \<and> cr_helpers r = None) rs"
    and rs': "rs' = map ?f rs"
    unfolding legacy_helpers_def Let_def by (auto split: if_split_asm simp: list_all_iff list_ex_iff)
  have "requirement_stored (?f r)" if "r \<in> set rs" for r
    using that assms(2,3) none b by (auto simp: requirements_stored_def requirement_stored_def list_all_iff split: option.splits)
  moreover have "map (\<lambda>r. member_identity (cr_member r) (cr_role r)) rs' = map (\<lambda>r. member_identity (cr_member r) (cr_role r)) rs"
    by (simp add: rs')
  ultimately show ?thesis using assms(2) unfolding requirements_stored_def rs' by (simp only: list_all_iff set_map) blast
qed

lemma parse_tool_stored: "parse_tool t = Inr (name, rs) \<Longrightarrow> trim name \<noteq> [] \<and> requirements_stored rs"
  unfolding parse_tool_def
  by (auto simp: ebind_eq_Inr split: if_split_asm prod.split_asm dest!: parse_requirements_stored optional_helpers_stored intro: legacy_helpers_stored)

lemma parse_settings_stored:
  assumes "parse_tool_settings v = Inr s"
  shows "settings_stored s"
proof -
  from assms obtain configured parsed where p: "emap parse_tool configured = Inr parsed" "ts_tools s = own_tools parsed"
    "own_tools parsed \<noteq> [] \<or> ts_default s \<noteq> None"
    unfolding parse_tool_settings_def by (auto simp: ebind_eq_Inr split: if_split_asm)
  have "trim name \<noteq> [] \<and> name \<noteq> ''__proto__'' \<and> requirements_stored rs" if "(name, rs) \<in> set (ts_tools s)" for name rs
    using that p(2) emap_Inr_set [OF p(1), of "(name, rs)"] parse_tool_stored by (auto simp: own_tools_def)
  with p show ?thesis by (auto simp: settings_stored_def list_all_iff)
qed

section \<open>Reading them again\<close>

lemma unique_items_again:
  assumes "\<And>x i. x \<in> set xs \<Longrightarrow> parse i (f x) = Inr x" "distinct (map identity xs)" "set (map identity xs) \<inter> set seen = {}"
  shows "unique_items parse identity repeated i seen (map f xs) = Inr xs"
  using assms by (induction xs arbitrary: i seen) auto

lemma validate_member_ok: "m = signed_in_user \<or> is_principal m \<Longrightarrow> validate_configured_member m location = Inr ()"
  by simp

lemma parse_policy_again [simp]:
  assumes "policy_ok p"
  shows "parse_exchange_policy (Some (policy_json p)) location = Inr p"
  using assms
  by (cases "xp_effect p")
     (simp_all add: parse_exchange_policy_def policy_json_def policy_ok_def record_at_def only_keys_def text_at_def effect_text_def)

lemma parse_policies_again:
  "list_all policy_ok ps \<Longrightarrow> distinct (map exchange_policy_identity ps) \<Longrightarrow>
   parse_exchange_policies (Some (JArr (map policy_json ps))) location = Inr ps"
  by (simp add: parse_exchange_policies_def array_at_def unique_items_again list_all_iff)

lemma parse_helper_again: "helper_stored h \<Longrightarrow> parse_helper location i (helper_json h) = Inr h"
  by (cases "ch_policies h")
     (auto simp: parse_helper_def helper_json_def helper_stored_def record_at_def only_keys_def text_at_def label_at_def helper_policies_def
       parse_policies_again parse_athenz_role_def validate_member_ok Let_def dest: principal_not_placeholder)

lemma parse_helpers_again: "helpers_stored hs \<Longrightarrow> parse_helpers (Some (JArr (map helper_json hs))) location = Inr hs"
  by (simp add: parse_helpers_def array_at_def unique_items_again parse_helper_again helpers_stored_def list_all_iff)

lemma optional_helpers_again:
  "optional_helpers None location = Inr None"
  "helpers_stored hs \<Longrightarrow> optional_helpers (Some (JArr (map helper_json hs))) location = Inr (Some hs)"
  by (simp_all add: optional_helpers_def parse_helpers_again)

lemma boolean_at_again [simp]: "boolean_at None location = Inr None" "boolean_at (Some (JBool b)) location = Inr (Some b)"
  by (simp_all add: boolean_at_def)

lemma parse_requirement_again: "requirement_stored r \<Longrightarrow> parse_requirement location i (requirement_json r) = Inr r"
  by (cases "cr_helpers r"; cases "cr_includeHelpers r")
     (auto simp: parse_requirement_def requirement_json_def requirement_stored_def record_at_def only_keys_def text_at_def label_at_def
       optional_helpers_again parse_athenz_role_def validate_member_ok Let_def)

lemma parse_requirements_again:
  "requirements_stored rs \<Longrightarrow> parse_requirements (Some (JArr (map requirement_json rs))) location = Inr rs"
  by (simp add: parse_requirements_def array_at_def unique_items_again parse_requirement_again requirements_stored_def list_all_iff)

lemma parse_tool_again:
  "trim name \<noteq> [] \<Longrightarrow> requirements_stored rs \<Longrightarrow> parse_tool (tool_json (name, rs)) = Inr (name, rs)"
  by (simp add: parse_tool_def tool_json_def record_at_def only_keys_def parse_requirements_again optional_helpers_again legacy_helpers_def)

lemma parse_default_again:
  "parse_default None = Inr None" "parse_default (Some (JStr (default_permission_text d))) = Inr (Some d)"
  by (cases d; simp add: parse_default_def default_permission_text_def)+

lemma parse_settings_again: "settings_stored s \<Longrightarrow> parse_tool_settings (Some (settings_json s)) = Inr s"
proof -
  assume s: "settings_stored s"
  then have "emap parse_tool (map tool_json (ts_tools s)) = Inr (ts_tools s)"
    by (intro emap_map_Inr) (auto simp: settings_stored_def list_all_iff parse_tool_again)
  moreover have "own_tools (ts_tools s) = ts_tools s"
    using s unfolding own_tools_def settings_stored_def by (intro filter_True) (auto simp: list_all_iff)
  ultimately show ?thesis
    using s by (cases "ts_default s")
      (auto simp: parse_tool_settings_def settings_json_def record_at_def only_keys_def preset_version_def parse_default_again settings_stored_def)
qed

text \<open>
  Stored permission settings are read back unchanged. Whatever value settings were parsed from, the
  JSON they are stored as is parsed to the same settings again.
\<close>

theorem stored_settings_are_read_back:
  assumes "parse_tool_settings v = Inr s"
  shows "parse_tool_settings (Some (settings_json s)) = Inr s"
  by (rule parse_settings_again [OF parse_settings_stored [OF assms]])

end
