(* ===== verification/Hub_Draft_Rules.thy ===== *)
theory Hub_Draft_Rules
  imports Hub_Settings_Again
begin

text \<open>
  What editing does to permission settings: a requirement that is opened and saved without a change, and
  the settings for which that is no change at all.
\<close>

section \<open>Text without blanks\<close>

lemma trim_no_ws: "list_all (\<lambda>c. \<not> is_ws c) s \<Longrightarrow> trim s = s"
proof -
  assume no: "list_all (\<lambda>c. \<not> is_ws c) s"
  have "dropWhile is_ws t = t" if "list_all (\<lambda>c. \<not> is_ws c) t" for t using that by (cases t) auto
  with no show ?thesis by (simp add: trim_def)
qed

lemma trim_dotted: "dotted_name s \<Longrightarrow> trim s = s"
  by (intro trim_no_ws dotted_no_ws)

lemma trim_role: "is_role_scope s \<Longrightarrow> trim s = s"
  using role_scope_is_word by (intro trim_no_ws) (simp add: is_word_def)

lemma trim_principal: "is_principal s \<Longrightarrow> trim s = s"
  by (intro trim_no_ws) (auto simp: list_all_iff dest!: principal_chars name_char_not_ws)

text \<open>A role in two fields and back.\<close>

lemma editable_role_parts: "is_role_scope s \<Longrightarrow> editable_role s = (scope_audience s, scope_role s)"
proof -
  assume r: "is_role_scope s"
  then obtain i where i: "index_of '':role.'' s = Some i" "dotted_name (take i s)"
    by (auto simp: is_role_scope_def role_separator_def split: option.splits)
  from i(2) have "0 < i" by (auto simp: dotted_name_def)
  with i show ?thesis by (simp add: editable_role_def scope_audience_def scope_role_def role_separator_def)
qed

lemma role_fields_back: "is_role_scope s \<Longrightarrow> configured_role (fst (editable_role s)) (snd (editable_role s)) = s"
  using role_scope_parts [of s] by (simp add: editable_role_parts configured_role_def trim_dotted role_separator_def)

section \<open>A requirement that is saved as it was opened\<close>

definition saved_helper :: "string option \<Rightarrow> configured_helper \<Rightarrow> configured_helper" where
  "saved_helper service h = h\<lparr>ch_label := trim (ch_label h),
     ch_member := (case given service of
         Some p \<Rightarrow> if helper_kind_of (ch_member h) service = Mcp_Service_Helper then p else ch_member h
       | None \<Rightarrow> ch_member h),
     ch_policies := Some (map configured_policy_of (case ch_policies h of None \<Rightarrow> [] | Some ps \<Rightarrow> ps))\<rparr>"

definition saved_requirement :: "string option \<Rightarrow> configured_requirement \<Rightarrow> configured_requirement" where
  "saved_requirement service r =
     (if cr_member r \<noteq> signed_in_user then r\<lparr>cr_label := trim (cr_label r)\<rparr>
      else r\<lparr>cr_label := trim (cr_label r), cr_includeHelpers := Some True,
             cr_helpers := (case cr_helpers r of
                 Some hs \<Rightarrow> Some (map (saved_helper service) hs)
               | None \<Rightarrow> if cr_includeHelpers r = Some False then Some [] else None)\<rparr>)"

lemma saved_helper_draft: "helper_stored h \<Longrightarrow> configured_helper_of service (editable_helper_of service h) = saved_helper service h"
  by (auto simp: configured_helper_of_def editable_helper_of_def saved_helper_def helper_stored_def trim_role trim_principal
      split: option.splits)

lemma saved_requirement_draft:
  assumes "requirement_stored r"
  shows "configured_of_draft True service (editable_of_configured service r) = saved_requirement service r"
proof -
  have role: "configured_role (fst (editable_role (cr_role r))) (snd (editable_role (cr_role r))) = cr_role r"
    and label: "trim (cr_label r) \<noteq> []"
    using assms by (simp_all add: requirement_stored_def role_fields_back)
  show ?thesis
  proof (cases "cr_member r = signed_in_user")
    case True
    have "map (configured_helper_of service) (map (editable_helper_of service) hs) = map (saved_helper service) hs" if "cr_helpers r = Some hs" for hs
      using assms that by (auto simp: requirement_stored_def helpers_stored_def list_all_iff saved_helper_draft)
    with True role label show ?thesis
      by (cases "cr_helpers r")
         (auto simp: configured_of_draft_def editable_of_configured_def saved_requirement_def simp del: map_map)
  next
    case False
    with assms have "trim (cr_member r) = cr_member r" "cr_includeHelpers r = None" "cr_helpers r = None"
      by (auto simp: requirement_stored_def trim_principal split: option.splits)
    with False role label show ?thesis
      by (simp add: configured_of_draft_def editable_of_configured_def saved_requirement_def)
  qed
qed

section \<open>Settings that stay\<close>

text \<open>
  Every requirement of the signed-in user asks for helpers, and those it lists have complete policies and
  do not stand for the service account to come; text has no blanks around it.
\<close>

definition editor_helper :: "string option \<Rightarrow> configured_helper \<Rightarrow> bool" where
  "editor_helper service h \<longleftrightarrow> trim (ch_label h) = ch_label h
     \<and> (ch_member h \<noteq> template_iam_member \<or> given service = None \<or> given service = Some template_iam_member)
     \<and> (case ch_policies h of None \<Rightarrow> False | Some ps \<Rightarrow>
          list_all (\<lambda>p. trim (xp_action p) = xp_action p \<and> trim (xp_resource p) = xp_resource p) ps)"

definition editor_requirement :: "string option \<Rightarrow> configured_requirement \<Rightarrow> bool" where
  "editor_requirement service r \<longleftrightarrow> trim (cr_label r) = cr_label r
     \<and> (cr_member r = signed_in_user \<longrightarrow> cr_includeHelpers r = Some True)
     \<and> (case cr_helpers r of None \<Rightarrow> True | Some hs \<Rightarrow> list_all (editor_helper service) hs)"

definition editor_settings :: "string option \<Rightarrow> tool_settings \<Rightarrow> bool" where
  "editor_settings service s \<longleftrightarrow> distinct (map fst (ts_tools s)) \<and> property_order (ts_tools s) = ts_tools s
     \<and> list_all (\<lambda>(name, rs). trim name = name \<and> name \<notin> set inherited_names \<and> list_all (editor_requirement service) rs) (ts_tools s)"

lemma kind_of_service: "helper_kind_of m service = Mcp_Service_Helper \<Longrightarrow> m \<noteq> template_iam_member \<Longrightarrow> given service = Some m"
  by (auto simp: helper_kind_of_def split: if_splits)

lemma saved_helper_same:
  assumes "editor_helper service h"
  shows "saved_helper service h = h"
proof -
  from assms obtain ps where ps: "ch_policies h = Some ps" "\<forall>p \<in> set ps. trim (xp_action p) = xp_action p \<and> trim (xp_resource p) = xp_resource p"
    by (auto simp: editor_helper_def list_all_iff split: option.splits)
  then have "map configured_policy_of ps = ps" by (intro map_idI) (simp add: configured_policy_of_def)
  moreover have "(case given service of Some p \<Rightarrow> if helper_kind_of (ch_member h) service = Mcp_Service_Helper then p else ch_member h
       | None \<Rightarrow> ch_member h) = ch_member h"
    using assms kind_of_service [of "ch_member h" service]
    by (cases "ch_member h = template_iam_member") (auto simp: editor_helper_def split: option.splits)
  ultimately show ?thesis using assms ps(1) by (simp add: saved_helper_def editor_helper_def)
qed

lemma saved_requirement_same:
  assumes "editor_requirement service r"
  shows "saved_requirement service r = r"
proof (cases "cr_helpers r")
  case None
  with assms show ?thesis by (simp add: saved_requirement_def editor_requirement_def)
next
  case (Some hs)
  with assms have "map (saved_helper service) hs = hs"
    by (intro map_idI saved_helper_same) (simp add: editor_requirement_def list_all_iff)
  with assms Some show ?thesis by (simp add: saved_requirement_def editor_requirement_def)
qed

lemma draft_tools_same:
  assumes "list_all (\<lambda>(name, rs). trim name = name \<and> name \<noteq> [] \<and> name \<notin> set inherited_names
      \<and> list_all (editor_requirement service) rs \<and> list_all requirement_stored rs) ts"
    and "distinct (map fst (done_tools @ ts))"
  shows "draft_tools True service i done_tools
    (map (\<lambda>(j, name, rs). \<lparr>td_id = j, td_requirements = map (editable_of_configured service) rs, td_toolName = name\<rparr>) (enumerate n ts))
    = Inr (done_tools @ ts)"
  using assms
proof (induction ts arbitrary: done_tools i n)
  case (Cons t ts)
  obtain name rs where t: "t = (name, rs)" by (cases t)
  from Cons.prems(1) have name: "trim name = name" "name \<noteq> []" "name \<notin> set inherited_names"
    and rs: "\<forall>r \<in> set rs. editor_requirement service r \<and> requirement_stored r" by (auto simp: t list_all_iff)
  have new: "name \<notin> fst ` set done_tools" using Cons.prems(2) by (auto simp: t)
  have "map (configured_of_draft True service) (map (editable_of_configured service) rs) = rs"
    using rs by (auto intro!: map_idI simp: saved_requirement_draft saved_requirement_same)
  moreover have "\<not> list_ex (\<lambda>r. trim (ed_audience r) = [] \<or> trim (ed_role r) = []) (map (editable_of_configured service) rs)"
  proof -
    have "trim (ed_audience (editable_of_configured service r)) \<noteq> [] \<and> trim (ed_role (editable_of_configured service r)) \<noteq> []" if "r \<in> set rs" for r
    proof -
      from rs that have "is_role_scope (cr_role r)" by (simp add: requirement_stored_def)
      from role_scope_parts [OF this] editable_role_parts [OF this] show ?thesis
        by (simp add: editable_of_configured_def trim_dotted) (simp add: dotted_name_def)
    qed
    then show ?thesis by (auto simp: list_ex_iff)
  qed
  ultimately show ?case
    using Cons.IH [of "done_tools @ [(name, rs)]" "Suc i" "Suc n"] Cons.prems name new by (simp add: t Let_def)
qed simp

text \<open>
  Permissions that are opened and saved unchanged stay what they are. For settings that were parsed,
  whose requirements of the signed-in user ask for helpers, whose listed helpers have their policies, and
  whose texts have no blanks around them, validating the draft made of the settings gives the settings
  back; and every requirement is saved as \<open>saved_requirement\<close> says, whatever it was.
\<close>

theorem unedited_settings_are_kept:
  assumes "parse_tool_settings v = Inr s" and "editor_settings service s"
  shows "validate_draft (draft_of_settings (Some s) service) True service (ts_default s) = Inr (Some s)
    \<and> (\<forall>(name, rs) \<in> set (ts_tools s). \<forall>r \<in> set rs.
         configured_of_draft True service (editable_of_configured service r) = saved_requirement service r)"
proof
  from assms(1) have s: "settings_stored s" by (rule parse_settings_stored)
  from s assms(2) have "list_all (\<lambda>(name, rs). trim name = name \<and> name \<noteq> [] \<and> name \<notin> set inherited_names
      \<and> list_all (editor_requirement service) rs \<and> list_all requirement_stored rs) (ts_tools s)"
    by (auto simp: settings_stored_def editor_settings_def requirements_stored_def list_all_iff)
  from draft_tools_same [OF this, of "[]" 1 1] assms(2)
  have "draft_tools True service 1 [] (draft_of_settings (Some s) service) = Inr (ts_tools s)"
    by (simp add: editor_settings_def draft_of_settings_def)
  moreover have "ts_tools s = [] \<Longrightarrow> ts_default s \<noteq> None" using s by (simp add: settings_stored_def)
  moreover have "draft_of_settings (Some s) service = [] \<longleftrightarrow> ts_tools s = []" by (cases "ts_tools s") (simp_all add: draft_of_settings_def)
  ultimately show "validate_draft (draft_of_settings (Some s) service) True service (ts_default s) = Inr (Some s)"
    using assms(2) parse_settings_again [OF s] unfolding validate_draft_def editor_settings_def
    by (cases s) auto
  show "\<forall>(name, rs) \<in> set (ts_tools s). \<forall>r \<in> set rs.
         configured_of_draft True service (editable_of_configured service r) = saved_requirement service r"
    using s by (fastforce simp: settings_stored_def requirements_stored_def list_all_iff intro!: saved_requirement_draft)
qed

definition editor_sample :: json where
  "editor_sample = JObj [(''version'', JNum (Finite 1)), (''tools'', JObj [(''get'', JObj [(''requirements'', JArr
     [JObj [(''member'', JStr signed_in_user), (''role'', JStr ''api:role.reader''), (''label'', JStr ''Read''),
       (''includeExchangeHelpers'', JBool True)]])])])]"

definition editor_sample_settings :: tool_settings where
  "editor_sample_settings = \<lparr>ts_default = None, ts_tools = [(''get'', [\<lparr>cr_helpers = None, cr_includeHelpers = Some True,
     cr_label = ''Read'', cr_member = signed_in_user, cr_role = ''api:role.reader''\<rparr>])]\<rparr>"

lemma unedited_settings_are_kept_witness:
  "validate_draft (draft_of_settings (Some editor_sample_settings) (Some ''hub.app'')) True (Some ''hub.app'') None
     = Inr (Some editor_sample_settings)"
proof -
  have "parse_tool_settings (Some editor_sample) = Inr editor_sample_settings" by code_simp
  moreover have "editor_settings (Some ''hub.app'') editor_sample_settings" by code_simp
  ultimately show ?thesis
    using unedited_settings_are_kept [of "Some editor_sample" editor_sample_settings "Some ''hub.app''"]
    by (simp add: editor_sample_settings_def)
qed

section \<open>What saving returns\<close>

text \<open>A value that was printed is parsed to itself, if it is parsed at all.\<close>

lemma parse_policy_printed: "parse_exchange_policy (Some (policy_json p)) location = Inr q \<Longrightarrow> q = p"
  by (cases "xp_effect p")
     (auto simp: parse_exchange_policy_def policy_json_def record_at_def only_keys_def text_at_def effect_text_def ebind_eq_Inr split: if_split_asm)

lemma unique_items_printed:
  assumes "unique_items parse identity repeated i seen (map f xs) = Inr ys" and "\<And>i x y. parse i (f x) = Inr y \<Longrightarrow> y = x"
  shows "ys = xs"
  using assms(1) by (induction xs arbitrary: i seen ys) (auto simp: ebind_eq_Inr split: if_split_asm dest: assms(2))

lemma parse_policies_printed: "parse_exchange_policies (Some (JArr (map policy_json ps))) location = Inr qs \<Longrightarrow> qs = ps"
  unfolding parse_exchange_policies_def array_at_def
  by (auto elim!: unique_items_printed dest: parse_policy_printed)

lemma parse_helper_printed:
  assumes "parse_helper location i (helper_json h) = Inr h'"
  shows "h' = h"
proof (cases "ch_policies h")
  case None
  with assms show ?thesis
    by (auto simp: parse_helper_def helper_json_def record_at_def only_keys_def text_at_def label_at_def helper_policies_def Let_def ebind_eq_Inr
        split: if_split_asm)
next
  case (Some ps)
  with assms show ?thesis
    by (auto simp: parse_helper_def helper_json_def record_at_def only_keys_def text_at_def label_at_def helper_policies_def Let_def ebind_eq_Inr
        split: if_split_asm dest: parse_policies_printed)
qed

lemma parse_helpers_printed: "parse_helpers (Some (JArr (map helper_json hs))) location = Inr hs' \<Longrightarrow> hs' = hs"
  unfolding parse_helpers_def array_at_def
  by (auto elim!: unique_items_printed dest: parse_helper_printed)

lemma parse_requirement_printed: "parse_requirement location i (requirement_json r) = Inr r' \<Longrightarrow> r' = r"
  by (cases "cr_helpers r"; cases "cr_includeHelpers r")
     (auto simp: parse_requirement_def requirement_json_def record_at_def only_keys_def text_at_def label_at_def optional_helpers_def Let_def
       ebind_eq_Inr split: if_split_asm dest: parse_helpers_printed)

lemma parse_requirements_printed: "parse_requirements (Some (JArr (map requirement_json rs))) location = Inr rs' \<Longrightarrow> rs' = rs"
  unfolding parse_requirements_def array_at_def
  by (auto elim!: unique_items_printed dest: parse_requirement_printed)

lemma parse_tool_printed: "parse_tool (tool_json t) = Inr t' \<Longrightarrow> t' = t"
  by (cases t) (auto simp: parse_tool_def tool_json_def record_at_def only_keys_def optional_helpers_def legacy_helpers_def ebind_eq_Inr
      split: if_split_asm dest: parse_requirements_printed)

lemma parse_tools_printed: "emap parse_tool (map tool_json ts) = Inr ts' \<Longrightarrow> ts' = ts"
  by (induction ts arbitrary: ts') (auto simp: ebind_eq_Inr dest: parse_tool_printed)

lemma parse_settings_printed:
  "parse_tool_settings (Some (settings_json s)) = Inr s' \<Longrightarrow> ts_tools s' = own_tools (ts_tools s)"
  by (cases "ts_default s")
     (auto simp: parse_tool_settings_def settings_json_def record_at_def only_keys_def ebind_eq_Inr split: if_split_asm dest: parse_tools_printed)

lemma draft_tools_Inr:
  "draft_tools b service i configured ts = Inr out \<Longrightarrow>
   out = configured @ map (\<lambda>t. (trim (td_toolName t), map (configured_of_draft b service) (td_requirements t))) ts
   \<and> (\<forall>t \<in> set ts. trim (td_toolName t) \<notin> set inherited_names)"
proof (induction ts arbitrary: i configured)
  case (Cons t ts)
  then have "trim (td_toolName t) \<notin> set inherited_names" and
    "draft_tools b service (Suc i) (configured @ [(trim (td_toolName t), map (configured_of_draft b service) (td_requirements t))]) ts = Inr out"
    by (simp_all add: Let_def split: if_split_asm)
  with Cons.IH [OF this(2)] show ?case by simp
qed simp

text \<open>Every tool of the draft is saved, with each of its requirements.\<close>

lemma validate_draft_saves:
  assumes "validate_draft ts b service d = Inr (Some s')" "t \<in> set ts"
  shows "(trim (td_toolName t), map (configured_of_draft b service) (td_requirements t)) \<in> set (ts_tools s')"
proof -
  from assms obtain out where out: "draft_tools b service 1 [] ts = Inr out"
    and "parse_tool_settings (Some (settings_json \<lparr>ts_default = d, ts_tools = property_order out\<rparr>)) = Inr s'"
    by (auto simp: validate_draft_def ebind_eq_Inr split: if_split_asm)
  from parse_settings_printed [OF this(2)] have "ts_tools s' = own_tools (property_order out)" by simp
  moreover have "trim (td_toolName t) \<noteq> ''__proto__''" using draft_tools_Inr [OF out] assms(2) by (auto simp: inherited_names_def)
  ultimately show ?thesis using draft_tools_Inr [OF out] assms(2) by (auto simp: own_tools_def)
qed

text \<open>What becomes of one requirement.\<close>

lemma edited_requirement:
  assumes "requirement_stored r"
  shows "let r' = configured_of_draft True service (editable_of_configured service r) in
     cr_member r' = cr_member r \<and> cr_role r' = cr_role r
     \<and> (if cr_member r \<noteq> signed_in_user then cr_includeHelpers r' = None \<and> cr_helpers r' = None
        else cr_includeHelpers r' = Some True \<and>
          (case cr_helpers r of
             None \<Rightarrow> cr_helpers r' = (if cr_includeHelpers r = Some False then Some [] else None)
           | Some hs \<Rightarrow> \<exists>hs'. cr_helpers r' = Some hs' \<and> map ch_role hs' = map ch_role hs
               \<and> map ch_policies hs' = map (\<lambda>h. case ch_policies h of None \<Rightarrow> Some []
                    | Some ps \<Rightarrow> Some (map (\<lambda>p. p\<lparr>xp_action := trim (xp_action p), xp_resource := trim (xp_resource p)\<rparr>) ps)) hs))"
proof -
  have policy: "configured_policy_of p = p\<lparr>xp_action := trim (xp_action p), xp_resource := trim (xp_resource p)\<rparr>" for p
    by (simp add: configured_policy_of_def)
  have "cr_member r \<noteq> signed_in_user \<Longrightarrow> cr_includeHelpers r = None \<and> cr_helpers r = None"
    using assms by (auto simp: requirement_stored_def split: option.splits)
  then show ?thesis unfolding saved_requirement_draft [OF assms] Let_def
    by (auto simp: saved_requirement_def saved_helper_def policy split: option.splits)
qed

text \<open>
  C40: saving what was opened in the editor is not the identity. When the settings of a server are
  opened and saved without a change, every requirement keeps its member and its role, but one of the
  signed-in user asks for helpers afterwards, whether it did before or not: a requirement that declined
  them is pinned to an empty list of helpers, one that said nothing has them derived from now on, and one
  that listed its helpers lists the same roles, a helper without policies, whose policies the hub would
  derive, now with an empty list of its own.
\<close>

theorem editing_customizes_helpers:
  assumes "parse_tool_settings v = Inr s"
    and "validate_draft (draft_of_settings (Some s) service) True service (ts_default s) = Inr (Some s')"
    and "(name, rs) \<in> set (ts_tools s)"
  shows "\<exists>rs'. (trim name, rs') \<in> set (ts_tools s') \<and> list_all2 (\<lambda>r r'.
     cr_member r' = cr_member r \<and> cr_role r' = cr_role r
     \<and> (if cr_member r \<noteq> signed_in_user then cr_includeHelpers r' = None \<and> cr_helpers r' = None
        else cr_includeHelpers r' = Some True \<and>
          (case cr_helpers r of
             None \<Rightarrow> cr_helpers r' = (if cr_includeHelpers r = Some False then Some [] else None)
           | Some hs \<Rightarrow> \<exists>hs'. cr_helpers r' = Some hs' \<and> map ch_role hs' = map ch_role hs
               \<and> map ch_policies hs' = map (\<lambda>h. case ch_policies h of None \<Rightarrow> Some []
                    | Some ps \<Rightarrow> Some (map (\<lambda>p. p\<lparr>xp_action := trim (xp_action p), xp_resource := trim (xp_resource p)\<rparr>) ps)) hs)))
     rs rs'"
proof -
  have "(name, rs) \<in> snd ` set (enumerate 1 (ts_tools s))" using assms(3) by (simp flip: set_map)
  then obtain i where "(i, name, rs) \<in> set (enumerate 1 (ts_tools s))" by auto
  then have "\<lparr>td_id = i, td_requirements = map (editable_of_configured service) rs, td_toolName = name\<rparr> \<in> set (draft_of_settings (Some s) service)"
    by (force simp: draft_of_settings_def)
  from validate_draft_saves [OF assms(2) this]
  have saved: "(trim name, map (\<lambda>r. configured_of_draft True service (editable_of_configured service r)) rs) \<in> set (ts_tools s')"
    by (simp add: comp_def)
  have stored: "requirement_stored r" if "r \<in> set rs" for r
    using that parse_settings_stored [OF assms(1)] assms(3) by (auto simp: settings_stored_def requirements_stored_def list_all_iff)
  show ?thesis
    by (intro exI conjI, rule saved, unfold list_all2_map2, rule list.rel_refl_strong, rule edited_requirement [unfolded Let_def], rule stored)
qed

text \<open>One requirement of each kind, of which only the last is saved as it was.\<close>

definition editor_requirement_of :: "string \<Rightarrow> bool option \<Rightarrow> configured_helper list option \<Rightarrow> configured_requirement" where
  "editor_requirement_of role includes helpers = \<lparr>cr_helpers = helpers, cr_includeHelpers = includes, cr_label = ''Call'',
     cr_member = signed_in_user, cr_role = role\<rparr>"

definition customized_sample :: tool_settings where
  "customized_sample = \<lparr>ts_default = None, ts_tools = [(''get'',
     [editor_requirement_of ''api:role.declines'' (Some False) None, editor_requirement_of ''api:role.silent'' None None,
      editor_requirement_of ''api:role.lists'' (Some True) (Some [\<lparr>ch_label = ''Gateway'', ch_member = ''mcp-hub.mcp-gateway'',
        ch_policies = None, ch_role = ''api:role.lists-jag-exchanger''\<rparr>]),
      editor_requirement_of ''api:role.asks'' (Some True) None])]\<rparr>"

definition customized_saved :: tool_settings where
  "customized_saved = \<lparr>ts_default = None, ts_tools = [(''get'',
     [editor_requirement_of ''api:role.declines'' (Some True) (Some []), editor_requirement_of ''api:role.silent'' (Some True) None,
      editor_requirement_of ''api:role.lists'' (Some True) (Some [\<lparr>ch_label = ''Gateway'', ch_member = ''mcp-hub.mcp-gateway'',
        ch_policies = Some [], ch_role = ''api:role.lists-jag-exchanger''\<rparr>]),
      editor_requirement_of ''api:role.asks'' (Some True) None])]\<rparr>"

theorem editing_customizes_helpers_witness:
  "\<exists>rs rs'. map_of (ts_tools customized_sample) ''get'' = Some rs \<and> (''get'', rs') \<in> set (ts_tools customized_saved)
    \<and> map cr_includeHelpers rs = [Some False, None, Some True, Some True]
    \<and> list_all2 (\<lambda>r r'. cr_role r' = cr_role r \<and> cr_includeHelpers r' = Some True) rs rs'"
proof -
  have parsed: "parse_tool_settings (Some (settings_json customized_sample)) = Inr customized_sample" by code_simp
  have saved: "validate_draft (draft_of_settings (Some customized_sample) None) True None (ts_default customized_sample) = Inr (Some customized_saved)"
    by code_simp
  obtain rs where rs: "map_of (ts_tools customized_sample) ''get'' = Some rs" "map cr_includeHelpers rs = [Some False, None, Some True, Some True]"
    "list_all (\<lambda>r. cr_member r = signed_in_user) rs"
    by (simp add: customized_sample_def editor_requirement_of_def)
  from editing_customizes_helpers [OF parsed saved map_of_SomeD [OF rs(1)]] obtain rs' where
    "(trim ''get'', rs') \<in> set (ts_tools customized_saved)" and
    all: "list_all2 (\<lambda>r r'. cr_role r' = cr_role r \<and> (cr_member r = signed_in_user \<longrightarrow> cr_includeHelpers r' = Some True)) rs rs'"
    by (elim exE conjE) (rule that, assumption, erule list_all2_mono, auto split: if_splits)
  moreover have "list_all2 (\<lambda>r r'. cr_role r' = cr_role r \<and> cr_includeHelpers r' = Some True) rs rs'"
    using all rs(3) by (auto simp: list_all2_conv_all_nth list_all_length)
  moreover have "trim ''get'' = ''get''" by code_simp
  ultimately show ?thesis using rs by auto
qed

end
