(* ===== verification/Hub_Registration.thy ===== *)
theory Hub_Registration
  imports Hub_Drafts Hub_Zms
begin

text \<open>
  \<^verbatim>\<open>registration/lib/registrationInput.ts\<close> and the icon names of \<^verbatim>\<open>mcp-servers/lib/mcpIcons.ts\<close>: what a
  request to create or to change an MCP server must be. \<^verbatim>\<open>Number\<close> and \<^verbatim>\<open>new URL\<close> are arguments.
\<close>

section \<open>The input\<close>

datatype access_management = Hub_Access | Server_Access

datatype creation_method = Direct_Setup | From_Template

datatype visibility = Personal | Project_Wide

text \<open>\<open>ev_preserve\<close>: \<^verbatim>\<open>preserveExistingSecret\<close>, the value stays what it is.\<close>

record env_variable =
  ev_key :: string
  ev_value :: string
  ev_secret :: bool
  ev_preserve :: bool

record mcp_input =
  mi_accessManagement :: access_management
  mi_arguments :: "string list"
  mi_command :: string
  mi_creationMethod :: creation_method
  mi_description :: string
  mi_environment :: "env_variable list"
  mi_iconId :: string
  mi_image :: string
  mi_mcpKeyName :: string
  mi_path :: string
  mi_guideLabel :: string
  mi_guideUrl :: string
  mi_port :: string
  mi_project :: string
  mi_serverName :: string
  mi_serviceAccount :: string
  mi_templateKey :: string
  mi_toolPermissions :: "tool_settings option"
  mi_visibility :: visibility

text \<open>What the platform computes: numbers from text and URLs.\<close>

type_synonym text_number = "string \<Rightarrow> js_number"

section \<open>Parts\<close>

definition trimmed_text :: "unknown \<Rightarrow> string option" where
  "trimmed_text v = map_option trim (as_string v)"

text \<open>\<^verbatim>\<open>value ?? text\<close>\<close>

definition nullish_text :: "unknown \<Rightarrow> string \<Rightarrow> unknown" where
  "nullish_text v s = (case v of None \<Rightarrow> Some (JStr s) | Some JNull \<Rightarrow> Some (JStr s) | Some x \<Rightarrow> Some x)"

definition has_text :: "string option \<Rightarrow> bool" where
  "has_text s \<longleftrightarrow> s \<noteq> None \<and> s \<noteq> Some []"

definition is_env_key :: "string \<Rightarrow> bool" where
  "is_env_key s \<longleftrightarrow> s \<noteq> [] \<and> \<not> is_digit (hd s) \<and> list_all (\<lambda>c. is_alnum c \<or> c = CHR ''_'') s"

definition icon_extensions :: "string list" where
  "icon_extensions = [''avif'', ''gif'', ''jpg'', ''jpeg'', ''png'', ''webp'']"

text \<open>\<^verbatim>\<open>/^[A-Za-z0-9][A-Za-z0-9._-]{0,127}\.(?:avif|gif|jpe?g|png|webp)$/i\<close>\<close>

definition is_icon_id :: "string \<Rightarrow> bool" where
  "is_icon_id s \<longleftrightarrow> list_ex (\<lambda>ext.
     let stem = take (length s - length ext - 1) s in
     ends_with (CHR ''.'' # ext) (to_lower s) \<and> stem \<noteq> [] \<and> length stem \<le> 128 \<and> is_alnum (hd stem) \<and> list_all is_name_char stem)
     icon_extensions"

definition is_service_in_domain :: "string \<Rightarrow> string \<Rightarrow> bool" where
  "is_service_in_domain serviceAccount domain \<longleftrightarrow>
     (let serviceName = drop (length domain + 1) serviceAccount in
      starts_with (domain @ ''.'') serviceAccount \<and> serviceName \<noteq> [] \<and> length serviceName \<le> 255 \<and> is_principal_name serviceName)"

definition is_optional_http_url :: "platform \<Rightarrow> string \<Rightarrow> bool" where
  "is_optional_http_url pf s \<longleftrightarrow> s = [] \<or> length s \<le> 2048 \<and>
     (case pf_parse_url pf s of None \<Rightarrow> False | Some u \<Rightarrow> url_protocol u = ''http:'' \<or> url_protocol u = ''https:'')"

text \<open>\<^verbatim>\<open>Number.isInteger(n) && n >= 1 && n <= 65535\<close>, and the number.\<close>

definition port_number :: "text_number \<Rightarrow> string \<Rightarrow> nat option" where
  "port_number number s =
     (case number s of
        Finite q \<Rightarrow> if is_integer q \<and> 1 \<le> q \<and> q \<le> 65535 then Some (nat \<lfloor>q\<rfloor>) else None
      | _ \<Rightarrow> None)"

definition invalid_arguments :: string where
  "invalid_arguments = ''Container arguments are invalid''"

definition container_argument :: "json \<Rightarrow> (string, string) result" where
  "container_argument v =
     (case as_string (Some v) of
        None \<Rightarrow> Inl invalid_arguments
      | Some s \<Rightarrow> if length (trim s) > 4096 then Inl invalid_arguments else Inr (trim s))"

definition container_arguments :: "(string \<times> json) list \<Rightarrow> (string, string list) result" where
  "container_arguments payload =
     (case map_of payload ''arguments'' of
        None \<Rightarrow>
          (case trimmed_text (map_of payload ''argument'') of
             None \<Rightarrow> Inl invalid_arguments
           | Some s \<Rightarrow> if length s > 4096 then Inl invalid_arguments else Inr (if s = [] then [] else [s]))
      | Some (JArr vs) \<Rightarrow>
          if length vs > 50 then Inl invalid_arguments
          else ebind (emap container_argument vs) (\<lambda>ss. Inr (filter (\<lambda>s. s \<noteq> []) ss))
      | _ \<Rightarrow> Inl invalid_arguments)"

definition env_error :: "nat \<Rightarrow> string \<Rightarrow> string" where
  "env_error i what = ''Environment variable '' @ nat_text (i + 1) @ what"

definition as_bool :: "unknown \<Rightarrow> bool option" where
  "as_bool v = (case v of Some (JBool b) \<Rightarrow> Some b | _ \<Rightarrow> None)"

text \<open>The loop over the variables, with the keys seen.\<close>

fun env_variables :: "nat \<Rightarrow> string list \<Rightarrow> json list \<Rightarrow> (string, env_variable list) result" where
  "env_variables i keys [] = Inr []"
| "env_variables i keys (v # vs) =
     (case as_record (Some v) of
        None \<Rightarrow> Inl (env_error i '' is invalid'')
      | Some variable \<Rightarrow>
          (case (trimmed_text (map_of variable ''key''), as_string (map_of variable ''value''), as_bool (map_of variable ''secret'')) of
             (Some key, Some val, Some secret) \<Rightarrow>
               if key = [] \<and> val = [] then env_variables (Suc i) keys vs
               else if key = [] \<or> val = [] then Inl (env_error i '' key and value must be provided together'')
               else if \<not> is_env_key key then Inl (env_error i '' key is invalid'')
               else if length val > 32768 then Inl (env_error i '' value is too long'')
               else if key \<in> set keys then Inl ''Environment variable keys must be unique''
               else ebind (env_variables (Suc i) (key # keys) vs) (\<lambda>rest.
                    Inr (\<lparr>ev_key = key, ev_value = val, ev_secret = secret, ev_preserve = False\<rparr> # rest))
           | _ \<Rightarrow> Inl (env_error i '' is invalid'')))"

definition environment_of :: "unknown \<Rightarrow> (string, env_variable list) result" where
  "environment_of v =
     (case v of
        Some (JArr vs) \<Rightarrow> if length vs > 50 then Inl ''Environment variables are invalid'' else env_variables 0 [] vs
      | _ \<Rightarrow> Inl ''Environment variables are invalid'')"

section \<open>Validation\<close>

definition required_text :: "string option \<Rightarrow> (string \<Rightarrow> bool) \<Rightarrow> string \<Rightarrow> (string, string) result" where
  "required_text s P message = (case s of Some x \<Rightarrow> if x \<noteq> [] \<and> P x then Inr x else Inl message | None \<Rightarrow> Inl message)"

definition optional_text :: "string option \<Rightarrow> (string \<Rightarrow> bool) \<Rightarrow> string \<Rightarrow> (string, string) result" where
  "optional_text s P message = (case s of Some x \<Rightarrow> if P x then Inr x else Inl message | None \<Rightarrow> Inl message)"

definition creation_of :: "unknown \<Rightarrow> (string, creation_method) result" where
  "creation_of v =
     (if v = Some (JStr ''direct'') then Inr Direct_Setup else if v = Some (JStr ''template'') then Inr From_Template
      else Inl ''Creation method is invalid'')"

definition visibility_of :: "unknown \<Rightarrow> (string, visibility) result" where
  "visibility_of v =
     (if v = Some (JStr ''personal'') then Inr Personal else if v = Some (JStr ''project'') then Inr Project_Wide
      else Inl ''Visibility is invalid'')"

definition access_of :: "unknown \<Rightarrow> (string, access_management) result" where
  "access_of v =
     (if v = Some (JStr ''hub'') then Inr Hub_Access else if v = Some (JStr ''server'') then Inr Server_Access
      else Inl ''Access management setting is invalid'')"

definition permissions_of :: "unknown \<Rightarrow> (string, tool_settings option) result" where
  "permissions_of v =
     (if v = None then Inr None
      else case parse_tool_settings v of Inl m \<Rightarrow> Inl (''Tool permissions are invalid: '' @ m) | Inr s \<Rightarrow> Inr (Some s))"

definition template_key_of :: "string option \<Rightarrow> creation_method \<Rightarrow> (string, string) result" where
  "template_key_of v creation =
     (case v of
        None \<Rightarrow> Inl ''MCP template key is invalid''
      | Some key \<Rightarrow>
          if creation = From_Template \<and> \<not> is_dns_label key then Inl ''MCP template key is invalid''
          else if creation = Direct_Setup \<and> key \<noteq> [] then Inl ''Direct setup cannot reference an MCP template''
          else Inr key)"

definition validate_registration :: "platform \<Rightarrow> text_number \<Rightarrow> unknown \<Rightarrow> (string, mcp_input) result" where
  "validate_registration pf number v =
     (case as_record v of
        None \<Rightarrow> Inl ''Invalid registration request''
      | Some payload \<Rightarrow>
     let field = (\<lambda>name. trimmed_text (map_of payload name)) in
     ebind (required_text (field ''project'') is_dns_label ''Project must be a lowercase Kubernetes DNS name'') (\<lambda>project.
     ebind (required_text (field ''mcpKeyName'') is_dns_label ''MCP key name must be a lowercase Kubernetes DNS name'') (\<lambda>mcpKeyName.
     ebind (required_text (field ''serverName'') (\<lambda>s. length s \<le> 128) ''MCP server name is required'') (\<lambda>serverName.
     ebind (required_text (field ''image'') (\<lambda>s. length s \<le> 512 \<and> \<not> list_ex is_ws s) ''Container image URL is invalid'') (\<lambda>image.
     ebind (required_text (field ''path'') (\<lambda>s. length s \<le> 2048 \<and> starts_with ''/'' s) ''MCP path must start with /'') (\<lambda>path.
     ebind (optional_text (trimmed_text (nullish_text (map_of payload ''permissionGuideUrl'') [])) (is_optional_http_url pf)
              ''Permission guide URL is invalid'') (\<lambda>guideUrl.
     ebind (optional_text (trimmed_text (nullish_text (map_of payload ''permissionGuideLabel'') ''Permission guide''))
              (\<lambda>s. length s \<le> 80) ''Permission guide link name is invalid'') (\<lambda>guideLabel.
     ebind (require (guideUrl = [] \<or> guideLabel \<noteq> []) ''Permission guide link name is required'') (\<lambda>_.
     ebind (required_text (field ''port'') (\<lambda>s. port_number number s \<noteq> None) ''Target port must be an integer from 1 to 65535'') (\<lambda>port.
     ebind (optional_text (field ''command'') (\<lambda>s. length s \<le> 4096) ''Container command is invalid'') (\<lambda>command.
     ebind (container_arguments payload) (\<lambda>arguments.
     ebind (creation_of (nullish_text (map_of payload ''creationMethod'') ''direct'')) (\<lambda>creationMethod.
     ebind (optional_text (trimmed_text (nullish_text (map_of payload ''description'') [])) (\<lambda>s. length s \<le> 2000)
              ''Description is invalid'') (\<lambda>description.
     ebind (optional_text (trimmed_text (nullish_text (map_of payload ''iconId'') [])) (\<lambda>s. s = [] \<or> is_icon_id s)
              ''MCP icon ID is invalid'') (\<lambda>iconId.
     ebind (template_key_of (trimmed_text (nullish_text (map_of payload ''templateKey'') [])) creationMethod) (\<lambda>templateKey.
     ebind (visibility_of (nullish_text (map_of payload ''visibility'') ''personal'')) (\<lambda>visibility.
     ebind (require (creationMethod = From_Template \<or> visibility = Personal) ''Direct setup visibility must be Personal'') (\<lambda>_.
     ebind (environment_of (map_of payload ''environmentVariables'')) (\<lambda>environment.
     ebind (permissions_of (map_of payload ''toolPermissions'')) (\<lambda>toolPermissions.
     ebind (access_of (map_of payload ''accessManagement'')) (\<lambda>access.
     ebind (optional_text (field ''serviceAccount'') (\<lambda>_. True) ''IAM service account is invalid'') (\<lambda>serviceAccount.
     let serviceDomain = managed_domain project in
     ebind (require (access = Server_Access \<or> serviceAccount \<noteq> []) ''Hub-managed access requires an IAM service account'') (\<lambda>_.
     ebind (require (access = Hub_Access \<or> toolPermissions = None) ''Tool permissions require Hub-managed access'') (\<lambda>_.
     ebind (require (\<not> has_unresolved_iam_member toolPermissions)
              ''Template MCP IAM account must be resolved during server creation'') (\<lambda>_.
     ebind (require (serviceAccount = [] \<or> is_service_in_domain serviceAccount serviceDomain)
              (''IAM service account must belong to '' @ serviceDomain)) (\<lambda>_.
     Inr \<lparr>mi_accessManagement = access, mi_arguments = arguments, mi_command = command, mi_creationMethod = creationMethod,
          mi_description = description, mi_environment = environment, mi_iconId = iconId, mi_image = image, mi_mcpKeyName = mcpKeyName,
          mi_path = path, mi_guideLabel = guideLabel, mi_guideUrl = guideUrl, mi_port = port, mi_project = project,
          mi_serverName = serverName, mi_serviceAccount = serviceAccount, mi_templateKey = templateKey,
          mi_toolPermissions = toolPermissions, mi_visibility = visibility\<rparr>))))))))))))))))))))))))))"

section \<open>Changes\<close>

definition preserved_secret :: string where
  "preserved_secret = ''__preserve_existing_secret__''"

definition existing_secrets :: "mcp_input \<Rightarrow> string list" where
  "existing_secrets existing = map ev_key (filter ev_secret (mi_environment existing))"

text \<open>The key of a variable that asks to keep its secret.\<close>

definition kept_secret_key :: "mcp_input \<Rightarrow> json \<Rightarrow> string option" where
  "kept_secret_key existing v =
     (case as_record (Some v) of
        None \<Rightarrow> None
      | Some variable \<Rightarrow>
          (case trimmed_text (map_of variable ''key'') of
             None \<Rightarrow> None
           | Some key \<Rightarrow>
               if key \<noteq> [] \<and> map_of variable ''secret'' = Some (JBool True) \<and> map_of variable ''value'' = Some (JStr [])
                  \<and> key \<in> set (existing_secrets existing) then Some key else None))"

definition with_placeholder :: "mcp_input \<Rightarrow> json \<Rightarrow> json" where
  "with_placeholder existing v =
     (case (kept_secret_key existing v, v) of
        (Some _, JObj variable) \<Rightarrow> JObj (AList.update ''value'' (JStr preserved_secret) variable)
      | _ \<Rightarrow> v)"

definition same_identity :: "mcp_input \<Rightarrow> mcp_input \<Rightarrow> bool" where
  "same_identity x existing \<longleftrightarrow> mi_project x = mi_project existing \<and> mi_mcpKeyName x = mi_mcpKeyName existing
     \<and> mi_creationMethod x = mi_creationMethod existing \<and> mi_visibility x = mi_visibility existing
     \<and> mi_templateKey x = mi_templateKey existing"

definition identity_error :: string where
  "identity_error = ''MCP server identity and creation settings cannot be changed''"

definition validate_update :: "platform \<Rightarrow> text_number \<Rightarrow> unknown \<Rightarrow> mcp_input \<Rightarrow> (string, mcp_input) result" where
  "validate_update pf number v existing =
     (case v of
        Some (JObj payload) \<Rightarrow>
          (case map_of payload ''environmentVariables'' of
             Some (JArr vs) \<Rightarrow>
               let kept = List.map_filter (kept_secret_key existing) vs in
               ebind (validate_registration pf number
                 (Some (JObj (AList.update ''environmentVariables'' (JArr (map (with_placeholder existing) vs)) payload)))) (\<lambda>x.
               if \<not> same_identity x existing then Inl identity_error
               else Inr (x\<lparr>mi_environment := map (\<lambda>e. if ev_key e \<in> set kept then e\<lparr>ev_value := [], ev_preserve := True\<rparr> else e)
                              (mi_environment x)\<rparr>))
           | _ \<Rightarrow> Inl ''Invalid MCP server update request'')
      | _ \<Rightarrow> Inl ''Invalid MCP server update request'')"

end
