(* ===== verification/Hub_Manifest.thy ===== *)
theory Hub_Manifest
  imports Hub_Registration
begin

text \<open>
  \<^verbatim>\<open>registration/lib/kubernetesManifest.ts\<close>: the Kubernetes objects of an MCP server, as the JSON that is
  sent. \<^verbatim>\<open>JSON.stringify\<close>, \<^verbatim>\<open>Number\<close>, SHA-256 and the printing of YAML are arguments.
\<close>

section \<open>Names and options\<close>

definition runtime_proxy_image :: string where
  "runtime_proxy_image = ''ghcr.io/mlajkim/mcp-runtime-proxy:latest''"

definition runtime_proxy_port :: nat where
  "runtime_proxy_port = 8082"

definition certificate_file :: string where
  "certificate_file = ''service.cert.pem''"

definition private_key_file :: string where
  "private_key_file = ''service.key.pem''"

definition access_token_directory :: string where
  "access_token_directory = ''/var/run/idthw-access-tokens''"

definition proxy_ca_config_map :: string where
  "proxy_ca_config_map = ''mcp-runtime-proxy-athenz-ca''"

definition identity_annotation :: string where
  "identity_annotation = ''mcp.idthw.dev/managed-identity-secret''"

text \<open>\<open>mo_managedIdentity\<close> is false only where the option is given as \<^verbatim>\<open>false\<close>.\<close>

record manifest_options =
  mo_privateKey :: "string option"
  mo_includeSecrets :: bool
  mo_managedIdentity :: bool
  mo_keyId :: "string option"
  mo_proxyImage :: "string option"
  mo_pullPolicy :: "string option"

definition managed_scope :: "string \<Rightarrow> string \<Rightarrow> (string, string) result" where
  "managed_scope project mcpKeyName = ebind (managed_role mcpKeyName) (\<lambda>role. Inr (managed_domain project @ '':role.'' @ role))"

definition or_else :: "string \<Rightarrow> string \<Rightarrow> string" where
  "or_else s d = (if s = [] then d else s)"

definition server_name :: "mcp_input \<Rightarrow> string" where
  "server_name x = or_else (mi_mcpKeyName x) ''mcp-server-name-required''"

definition container_port :: "text_number \<Rightarrow> string \<Rightarrow> nat" where
  "container_port number s = (case port_number number s of None \<Rightarrow> 8080 | Some p \<Rightarrow> p)"

definition managed_identity :: "mcp_input \<Rightarrow> manifest_options \<Rightarrow> bool" where
  "managed_identity x opts \<longleftrightarrow> mi_accessManagement x = Hub_Access \<and> mo_managedIdentity opts"

definition jnat :: "nat \<Rightarrow> json" where
  "jnat n = JNum (Finite (of_nat n))"

definition text_object :: "(string \<times> string) list \<Rightarrow> json" where
  "text_object kvs = JObj (map (\<lambda>(k, v). (k, JStr v)) kvs)"

definition app_labels :: "mcp_input \<Rightarrow> json" where
  "app_labels x = text_object
     [(''app.kubernetes.io/name'', server_name x), (''app.kubernetes.io/part-of'', ''mcp-hub''), (''mcp.idthw.dev/project'', mi_project x)]"

section \<open>Annotations\<close>

definition access_text :: "access_management \<Rightarrow> string" where
  "access_text a = (case a of Hub_Access \<Rightarrow> ''hub'' | Server_Access \<Rightarrow> ''server'')"

definition creation_text :: "creation_method \<Rightarrow> string" where
  "creation_text c = (case c of Direct_Setup \<Rightarrow> ''direct'' | From_Template \<Rightarrow> ''template'')"

definition visibility_text :: "visibility \<Rightarrow> string" where
  "visibility_text v = (case v of Personal \<Rightarrow> ''personal'' | Project_Wide \<Rightarrow> ''project'')"

text \<open>An entry that is only there if its text is not empty.\<close>

definition entry_if :: "string \<Rightarrow> string \<Rightarrow> (string \<times> string) list" where
  "entry_if k v = (if v = [] then [] else [(k, v)])"

definition identity_secret_name :: "mcp_input \<Rightarrow> string" where
  "identity_secret_name x = server_name x @ ''-athenz-identity''"

definition bootstrap_secret_name :: "mcp_input \<Rightarrow> string" where
  "bootstrap_secret_name x = server_name x @ ''-athenz-bootstrap''"

definition base_annotations :: "mcp_input \<Rightarrow> (string \<times> string) list" where
  "base_annotations x =
     [(''mcp.idthw.dev/id'', server_name x), (''mcp.idthw.dev/alias'', or_else (mi_serverName x) (server_name x)),
      (''mcp.idthw.dev/path'', or_else (mi_path x) ''/mcp''), (''mcp.idthw.dev/transport'', ''streamable-http''),
      (''mcp.idthw.dev/access-management'', access_text (mi_accessManagement x)),
      (''mcp.idthw.dev/creation-method'', creation_text (mi_creationMethod x)),
      (''mcp.idthw.dev/visibility'', visibility_text (mi_visibility x))]"

definition guide_annotations :: "mcp_input \<Rightarrow> (string \<times> string) list" where
  "guide_annotations x =
     (if mi_guideUrl x = [] then []
      else [(''mcp.idthw.dev/permission-guide-label'', or_else (mi_guideLabel x) ''Permission guide''),
            (''mcp.idthw.dev/permission-guide-url'', mi_guideUrl x)])"

definition template_annotations :: "mcp_input \<Rightarrow> (string \<times> string) list" where
  "template_annotations x =
     (if mi_creationMethod x = From_Template then entry_if ''mcp.idthw.dev/template-key'' (mi_templateKey x) else [])"

definition access_annotations :: "mcp_input \<Rightarrow> (string, (string \<times> string) list) result" where
  "access_annotations x =
     (if mi_accessManagement x = Hub_Access
      then ebind (managed_scope (mi_project x) (server_name x)) (\<lambda>scope.
        Inr [(''mcp.idthw.dev/access-audience'', managed_domain (mi_project x)), (''mcp.idthw.dev/access-scope'', scope)])
      else Inr [])"

definition permission_annotations :: "(json \<Rightarrow> string) \<Rightarrow> mcp_input \<Rightarrow> (string \<times> string) list" where
  "permission_annotations stringify x =
     (case mi_toolPermissions x of None \<Rightarrow> [] | Some s \<Rightarrow> [(''mcp.idthw.dev/tool-permissions'', stringify (settings_json s))])"

definition identity_annotations :: "mcp_input \<Rightarrow> manifest_options \<Rightarrow> (string \<times> string) list" where
  "identity_annotations x opts = (if managed_identity x opts then [(identity_annotation, identity_secret_name x)] else [])"

definition manifest_annotations ::
  "(json \<Rightarrow> string) \<Rightarrow> mcp_input \<Rightarrow> manifest_options \<Rightarrow> (string, (string \<times> string) list) result" where
  "manifest_annotations stringify x opts =
     ebind (access_annotations x) (\<lambda>access.
     Inr (base_annotations x @ entry_if ''mcp.idthw.dev/description'' (mi_description x) @ entry_if ''mcp.idthw.dev/icon'' (mi_iconId x)
        @ guide_annotations x @ template_annotations x @ entry_if ''mcp.idthw.dev/iam-service-account'' (mi_serviceAccount x)
        @ access @ permission_annotations stringify x @ identity_annotations x opts))"

section \<open>Containers\<close>

definition env_value :: "string \<times> string \<Rightarrow> json" where
  "env_value = (\<lambda>(name, v). JObj [(''name'', JStr name), (''value'', JStr v)])"

definition set_variables :: "mcp_input \<Rightarrow> env_variable list" where
  "set_variables x = filter (\<lambda>e. ev_key e \<noteq> [] \<and> ev_value e \<noteq> []) (mi_environment x)"

definition env_secret_name :: "mcp_input \<Rightarrow> string" where
  "env_secret_name x = server_name x @ ''-env''"

definition secret_ref :: "string \<Rightarrow> string \<Rightarrow> json" where
  "secret_ref secretName key = JObj [(''secretKeyRef'', JObj [(''name'', JStr secretName), (''key'', JStr key)])]"

definition variable_json :: "mcp_input \<Rightarrow> env_variable \<Rightarrow> json" where
  "variable_json x e =
     (if ev_secret e then JObj [(''name'', JStr (ev_key e)), (''valueFrom'', secret_ref (env_secret_name x) (ev_key e))]
      else env_value (ev_key e, ev_value e))"

definition volume_mount :: "string \<Rightarrow> string \<Rightarrow> bool \<Rightarrow> json" where
  "volume_mount name path readOnly =
     JObj ([(''name'', JStr name), (''mountPath'', JStr path)] @ (if readOnly then [(''readOnly'', JBool True)] else []))"

definition identity_mount :: json where
  "identity_mount = volume_mount ''athenz-service-identity'' ''/var/run/athenz'' True"

definition main_arguments :: "mcp_input \<Rightarrow> string list" where
  "main_arguments x = filter (\<lambda>s. s \<noteq> []) (map trim (mi_arguments x))"

definition main_container :: "text_number \<Rightarrow> mcp_input \<Rightarrow> manifest_options \<Rightarrow> (string \<times> json) list" where
  "main_container number x opts =
     [(''name'', JStr (server_name x)), (''image'', JStr (or_else (mi_image x) ''<container-image-required>'')),
      (''ports'', JArr [JObj [(''name'', JStr ''http''), (''containerPort'', jnat (container_port number (mi_port x)))]])]
     @ (if mi_command x = [] then [] else [(''command'', JArr [JStr (mi_command x)])])
     @ (if main_arguments x = [] then [] else [(''args'', JArr (map JStr (main_arguments x)))])
     @ (if managed_identity x opts
        then [(''volumeMounts'', JArr [identity_mount, volume_mount ''downstream-access-tokens'' access_token_directory True])] else [])
     @ (if set_variables x = [] then [] else [(''env'', JArr (map (variable_json x) (set_variables x)))])"

definition proxy_environment :: "text_number \<Rightarrow> mcp_input \<Rightarrow> string \<Rightarrow> (string \<times> string) list" where
  "proxy_environment number x requiredScope =
     [(''PORT'', nat_text runtime_proxy_port),
      (''MCP_TARGET_URL'', ''http://127.0.0.1:'' @ nat_text (container_port number (mi_port x))),
      (''MCP_READINESS_PATH'', or_else (mi_path x) ''/mcp''),
      (''ATHENZ_JWKS_URL'', ''https://athenz-zts-server.athenz:4443/zts/v1/oauth2/keys?rfc=true''),
      (''ATHENZ_JWKS_CA_PATH'', ''/var/run/athenz/ca.crt''),
      (''ATHENZ_EXPECTED_AUDIENCE'', managed_domain (mi_project x)),
      (''ATHENZ_REQUIRED_SCOPE'', requiredScope)]"

definition service_name_of :: "mcp_input \<Rightarrow> string" where
  "service_name_of x =
     (let prefix = managed_domain (mi_project x) @ ''.'' in
      if starts_with prefix (mi_serviceAccount x) then drop (length prefix) (mi_serviceAccount x) else ''service-account-required'')"

definition identity_environment :: "mcp_input \<Rightarrow> string \<Rightarrow> (string \<times> string) list" where
  "identity_environment x keyId =
     [(''ATHENZ_SERVICE_DOMAIN'', managed_domain (mi_project x)), (''ATHENZ_SERVICE_NAME'', service_name_of x),
      (''ATHENZ_SERVICE_KEY_ID'', keyId), (''ATHENZ_ZTS_URL'', ''https://athenz-zts-server.athenz:4443/zts/v1''),
      (''ATHENZ_ZTS_CA_PATH'', ''/var/run/athenz/ca.crt''), (''ATHENZ_ZTS_DNS_DOMAIN'', ''zts.athenz.cloud''),
      (''ATHENZ_BOOTSTRAP_PRIVATE_KEY_PATH'', ''/var/run/athenz-bootstrap/'' @ private_key_file),
      (''ATHENZ_PUBLISHED_CERT_PATH'', ''/var/run/athenz/'' @ certificate_file),
      (''ATHENZ_IDENTITY_REFRESH_SECONDS'', ''86400''), (''ATHENZ_IDENTITY_RETRY_SECONDS'', ''300''),
      (''ATHENZ_TOKEN_EXCHANGE_URL'', ''https://athenz-zts-server.athenz:4443/zts/v1/oauth2/token''),
      (''ATHENZ_TOKEN_EXCHANGE_CERT_PATH'', ''/var/run/athenz/service.cert.pem''),
      (''ATHENZ_TOKEN_EXCHANGE_KEY_PATH'', ''/var/run/athenz/service.key.pem''),
      (''ATHENZ_TOKEN_EXCHANGE_CA_PATH'', ''/var/run/athenz/ca.crt''),
      (''ATHENZ_TOKEN_FILE_DIR'', access_token_directory),
      (''KUBERNETES_IDENTITY_SECRET_NAME'', identity_secret_name x)]"

definition field_env :: "string \<times> string \<Rightarrow> json" where
  "field_env = (\<lambda>(name, path). JObj [(''name'', JStr name),
     (''valueFrom'', JObj [(''fieldRef'', JObj [(''fieldPath'', JStr path)])])])"

definition http_probe :: "string \<Rightarrow> nat \<Rightarrow> nat \<Rightarrow> nat \<Rightarrow> json" where
  "http_probe path failures period timeout = JObj
     [(''httpGet'', JObj [(''path'', JStr path), (''port'', JStr ''proxy-http'')]), (''failureThreshold'', jnat failures),
      (''periodSeconds'', jnat period), (''timeoutSeconds'', jnat timeout)]"

definition default_to :: "string option \<Rightarrow> string \<Rightarrow> string" where
  "default_to s d = (case s of None \<Rightarrow> d | Some x \<Rightarrow> x)"

definition proxy_mounts :: "bool \<Rightarrow> json list" where
  "proxy_mounts managed =
     (if managed
      then [identity_mount, volume_mount ''athenz-bootstrap-key'' ''/var/run/athenz-bootstrap'' True,
            volume_mount ''runtime-proxy-kube-api'' ''/var/run/secrets/kubernetes.io/serviceaccount'' True,
            volume_mount ''runtime-proxy-tmp'' ''/tmp'' False, volume_mount ''downstream-access-tokens'' access_token_directory False]
      else [volume_mount ''athenz-ca'' ''/var/run/athenz'' True])"

definition proxy_container :: "text_number \<Rightarrow> mcp_input \<Rightarrow> manifest_options \<Rightarrow> string \<Rightarrow> string \<Rightarrow> json" where
  "proxy_container number x opts requiredScope keyId =
     (let managed = managed_identity x opts in JObj
       ([(''name'', JStr ''mcp-runtime-proxy''), (''image'', JStr (default_to (mo_proxyImage opts) runtime_proxy_image)),
         (''imagePullPolicy'', JStr (default_to (mo_pullPolicy opts) ''Always'')),
         (''env'', JArr (map env_value (proxy_environment number x requiredScope)
            @ (if managed
               then map env_value (identity_environment x keyId)
                    @ map field_env [(''POD_NAME'', ''metadata.name''), (''POD_NAMESPACE'', ''metadata.namespace'')]
               else []))),
         (''livenessProbe'', http_probe ''/healthz'' 3 10 2),
         (''ports'', JArr [JObj [(''name'', JStr ''proxy-http''), (''containerPort'', jnat runtime_proxy_port)]]),
         (''readinessProbe'', http_probe ''/readyz'' 2 5 5),
         (''volumeMounts'', JArr (proxy_mounts managed))]
        @ (if managed
           then [(''securityContext'', JObj
             [(''allowPrivilegeEscalation'', JBool False), (''capabilities'', JObj [(''drop'', JArr [JStr ''ALL''])]),
              (''readOnlyRootFilesystem'', JBool True), (''runAsNonRoot'', JBool True), (''runAsGroup'', jnat 1000), (''runAsUser'', jnat 1000)])]
           else [])))"

section \<open>The pod\<close>

definition key_path :: "string \<Rightarrow> string \<Rightarrow> json" where
  "key_path key path = JObj [(''key'', JStr key), (''path'', JStr path)]"

definition config_map_source :: "string \<Rightarrow> json list \<Rightarrow> json" where
  "config_map_source name items = JObj [(''name'', JStr name), (''items'', JArr items)]"

definition pod_volumes :: "mcp_input \<Rightarrow> manifest_options \<Rightarrow> json list" where
  "pod_volumes x opts =
     (if \<not> managed_identity x opts
      then [JObj [(''name'', JStr ''athenz-ca''), (''configMap'', config_map_source proxy_ca_config_map [key_path ''ca.crt'' ''ca.crt''])]]
      else
       [JObj [(''name'', JStr ''athenz-bootstrap-key''),
          (''secret'', JObj [(''secretName'', JStr (bootstrap_secret_name x)), (''items'', JArr [key_path private_key_file private_key_file])])],
        JObj [(''name'', JStr ''athenz-service-identity''),
          (''projected'', JObj [(''sources'', JArr
            [JObj [(''secret'', JObj [(''name'', JStr (identity_secret_name x)),
               (''items'', JArr [key_path certificate_file certificate_file, key_path private_key_file private_key_file])])],
             JObj [(''configMap'', config_map_source proxy_ca_config_map [key_path ''ca.crt'' ''ca.crt'', key_path ''ca.crt'' ''ca.cert.pem''])]])])],
        JObj [(''name'', JStr ''runtime-proxy-kube-api''),
          (''projected'', JObj [(''defaultMode'', jnat 420), (''sources'', JArr
            [JObj [(''serviceAccountToken'', JObj [(''audience'', JStr ''https://kubernetes.default.svc.cluster.local''),
               (''expirationSeconds'', jnat 3600), (''path'', JStr ''token'')])],
             JObj [(''configMap'', config_map_source ''kube-root-ca.crt'' [key_path ''ca.crt'' ''ca.crt''])]])])],
        JObj [(''name'', JStr ''runtime-proxy-tmp''), (''emptyDir'', JObj [])],
        JObj [(''name'', JStr ''downstream-access-tokens''), (''emptyDir'', JObj [])]])"

definition proxy_account_name :: "mcp_input \<Rightarrow> string" where
  "proxy_account_name x = server_name x @ ''-runtime-proxy''"

definition proxy_role_name :: "mcp_input \<Rightarrow> string" where
  "proxy_role_name x = server_name x @ ''-runtime-proxy-identity''"

definition pod_containers ::
  "text_number \<Rightarrow> mcp_input \<Rightarrow> manifest_options \<Rightarrow> string \<Rightarrow> (string, json list) result" where
  "pod_containers number x opts keyId =
     (if mi_accessManagement x = Hub_Access
      then ebind (managed_scope (mi_project x) (server_name x)) (\<lambda>scope.
        Inr [JObj (main_container number x opts), proxy_container number x opts scope keyId])
      else Inr [JObj (main_container number x opts)])"

definition pod_spec :: "mcp_input \<Rightarrow> manifest_options \<Rightarrow> json list \<Rightarrow> (string \<times> json) list" where
  "pod_spec x opts containers =
     [(''containers'', JArr containers)]
     @ (if managed_identity x opts
        then [(''automountServiceAccountToken'', JBool False),
              (''securityContext'', JObj [(''fsGroup'', jnat 1000), (''fsGroupChangePolicy'', JStr ''OnRootMismatch'')]),
              (''serviceAccountName'', JStr (proxy_account_name x))] else [])
     @ (if mi_accessManagement x = Hub_Access then [(''volumes'', JArr (pod_volumes x opts))] else [])"

section \<open>Resources\<close>

definition kube_object :: "string \<Rightarrow> string \<Rightarrow> (string \<times> json) list \<Rightarrow> (string \<times> json) list \<Rightarrow> json" where
  "kube_object apiVersion kind metadata rest =
     JObj ([(''apiVersion'', JStr apiVersion), (''kind'', JStr kind), (''metadata'', JObj metadata)] @ rest)"

definition labelled :: "mcp_input \<Rightarrow> string \<Rightarrow> (string \<times> json) list" where
  "labelled x name = [(''name'', JStr name), (''namespace'', JStr (mi_project x)), (''labels'', app_labels x)]"

definition env_secret :: "mcp_input \<Rightarrow> manifest_options \<Rightarrow> json list" where
  "env_secret x opts =
     (let secrets = filter ev_secret (set_variables x) in
      if secrets = [] then []
      else [kube_object ''v1'' ''Secret'' [(''name'', JStr (env_secret_name x)), (''namespace'', JStr (mi_project x))]
              [(''type'', JStr ''Opaque''),
               (''stringData'', JObj (spread [] (map (\<lambda>e. (ev_key e, JStr (if mo_includeSecrets opts then ev_value e else ''<redacted in preview>''))) secrets)))]])"

definition required_private_key :: "string option \<Rightarrow> (string, string) result" where
  "required_private_key key =
     (case key of
        Some k \<Rightarrow> if trim k = [] then Inl ''Generated MCP service private key is required'' else Inr k
      | None \<Rightarrow> Inl ''Generated MCP service private key is required'')"

definition identity_resources :: "mcp_input \<Rightarrow> manifest_options \<Rightarrow> (string, json list) result" where
  "identity_resources x opts =
     (if \<not> managed_identity x opts then Inr []
      else ebind (if mo_includeSecrets opts then required_private_key (mo_privateKey opts)
                  else Inr ''<generated during server creation>'') (\<lambda>privateKey.
        let published = (if mo_includeSecrets opts then [] else ''<issued by MCP Runtime Proxy>'') in Inr
        [kube_object ''v1'' ''Secret'' (labelled x (bootstrap_secret_name x))
           [(''immutable'', JBool True), (''type'', JStr ''Opaque''), (''stringData'', text_object [(private_key_file, privateKey)])],
         kube_object ''v1'' ''Secret'' (labelled x (identity_secret_name x))
           [(''type'', JStr ''Opaque''), (''stringData'', text_object [(certificate_file, published), (private_key_file, published)])],
         kube_object ''v1'' ''ServiceAccount'' (labelled x (proxy_account_name x)) [(''automountServiceAccountToken'', JBool False)],
         kube_object ''rbac.authorization.k8s.io/v1'' ''Role'' (labelled x (proxy_role_name x))
           [(''rules'', JArr [JObj [(''apiGroups'', JArr [JStr []]), (''resources'', JArr [JStr ''secrets'']),
              (''resourceNames'', JArr [JStr (identity_secret_name x)]), (''verbs'', JArr [JStr ''get'', JStr ''patch'', JStr ''update''])]])],
         kube_object ''rbac.authorization.k8s.io/v1'' ''RoleBinding'' (labelled x (proxy_role_name x))
           [(''roleRef'', text_object [(''apiGroup'', ''rbac.authorization.k8s.io''), (''kind'', ''Role''), (''name'', proxy_role_name x)]),
            (''subjects'', JArr [text_object [(''kind'', ''ServiceAccount''), (''name'', proxy_account_name x), (''namespace'', mi_project x)]])]]))"

definition name_selector :: "mcp_input \<Rightarrow> json" where
  "name_selector x = text_object [(''app.kubernetes.io/name'', server_name x)]"

definition deployment_json :: "mcp_input \<Rightarrow> (string \<times> string) list \<Rightarrow> (string \<times> json) list \<Rightarrow> json" where
  "deployment_json x annotations podSpec =
     kube_object ''apps/v1'' ''Deployment'' (labelled x (server_name x) @ [(''annotations'', text_object annotations)])
       [(''spec'', JObj [(''progressDeadlineSeconds'', jnat 120), (''replicas'', jnat 1), (''selector'', JObj [(''matchLabels'', name_selector x)]),
          (''template'', JObj [(''metadata'', JObj [(''labels'', app_labels x)]), (''spec'', JObj podSpec)])])]"

definition service_json :: "text_number \<Rightarrow> mcp_input \<Rightarrow> json" where
  "service_json number x =
     kube_object ''v1'' ''Service'' (labelled x (server_name x))
       [(''spec'', JObj [(''selector'', name_selector x), (''ports'', JArr [JObj [(''name'', JStr ''http''),
          (''port'', jnat (container_port number (mi_port x))),
          (''targetPort'', jnat (if mi_accessManagement x = Hub_Access then runtime_proxy_port else container_port number (mi_port x)))]])])]"

definition namespace_json :: "mcp_input \<Rightarrow> json" where
  "namespace_json x = kube_object ''v1'' ''Namespace'' [(''name'', JStr (mi_project x))] []"

definition service_key_of :: "(string \<Rightarrow> string) \<Rightarrow> mcp_input \<Rightarrow> manifest_options \<Rightarrow> (string, string) result" where
  "service_key_of sha256 x opts = (case mo_keyId opts of Some k \<Rightarrow> Inr k | None \<Rightarrow> service_key_id sha256 (server_name x))"

definition build_resources ::
  "(json \<Rightarrow> string) \<Rightarrow> text_number \<Rightarrow> (string \<Rightarrow> string) \<Rightarrow> mcp_input \<Rightarrow> manifest_options \<Rightarrow> (string, json list) result" where
  "build_resources stringify number sha256 x opts =
     ebind (service_key_of sha256 x opts) (\<lambda>keyId.
     ebind (manifest_annotations stringify x opts) (\<lambda>annotations.
     ebind (pod_containers number x opts keyId) (\<lambda>containers.
     ebind (identity_resources x opts) (\<lambda>identity.
     Inr ([namespace_json x] @ env_secret x opts @ identity
          @ [deployment_json x annotations (pod_spec x opts containers), service_json number x])))))"

text \<open>The preview; \<open>yaml\<close> prints one object.\<close>

definition manifest_text :: "(json \<Rightarrow> string) \<Rightarrow> json list \<Rightarrow> string" where
  "manifest_text yaml resources =
     join (newline @ ''---'' @ newline) (map (\<lambda>r. rev (dropWhile is_ws (rev (yaml r)))) resources)"

definition default_options :: manifest_options where
  "default_options = \<lparr>mo_privateKey = None, mo_includeSecrets = False, mo_managedIdentity = True, mo_keyId = None,
     mo_proxyImage = None, mo_pullPolicy = None\<rparr>"

definition manifest_preview ::
  "(json \<Rightarrow> string) \<Rightarrow> (json \<Rightarrow> string) \<Rightarrow> text_number \<Rightarrow> (string \<Rightarrow> string) \<Rightarrow> mcp_input \<Rightarrow> (string, string) result" where
  "manifest_preview yaml stringify number sha256 x =
     ebind (build_resources stringify number sha256 x default_options) (\<lambda>resources. Inr (manifest_text yaml resources))"

end
