(* ===== verification/Hub_Solutions.thy ===== *)
theory Hub_Solutions
  imports Hub_Manifest
begin

text \<open>
  \<^verbatim>\<open>registration/api/mcpSolutionTemplates.ts\<close>: the solution templates that give an MCP server its access in
  ZMS, and the check that the exchange helpers are in place afterwards. \<^verbatim>\<open>localeCompare\<close> is an argument.
\<close>

definition managed_access_template :: string where
  "managed_access_template = ''mcp_hub_managed_access''"

definition exchange_helpers_template :: string where
  "exchange_helpers_template = ''mcp_exchange_helpers''"

text \<open>\<^verbatim>\<open>new Map(...)\<close> keeps the place of the first entry of a key and its last value, which is the same here.\<close>

definition exchange_targets ::
  "((string \<times> string) list \<Rightarrow> (string \<times> string) list) \<Rightarrow> tool_settings option \<Rightarrow> (string, (string \<times> string) list) result" where
  "exchange_targets localeSort settings =
     (case settings of
        None \<Rightarrow> Inr []
      | Some s \<Rightarrow>
          ebind (emap (\<lambda>r. parse_athenz_role (cr_role r))
            (filter (\<lambda>r. cr_includeHelpers r = Some True \<and> cr_member r = signed_in_user) (concat (map snd (ts_tools s))))) (\<lambda>targets.
          Inr (localeSort (uniq targets))))"

definition require_resource :: "('s, 'b) zms_request \<Rightarrow> string \<Rightarrow> string \<Rightarrow> ('s, unit) zms_action" where
  "require_resource z path missing =
     zbind (z Zms_Get path None) (\<lambda>a.
       if za_status a = 200 then zreturn ()
       else if za_status a = 404 then zfail missing
       else zfail (http_status_text (za_status a) @ '' while checking solution-template prerequisites''))"

definition template_body :: "(string \<times> string) list \<Rightarrow> string \<Rightarrow> json" where
  "template_body params templateName = JObj
     [(''params'', JArr (map (\<lambda>(n, v). text_object [(''name'', n), (''value'', v)]) params)), (''templateNames'', JArr [JStr templateName])]"

definition apply_template :: "('s, 'b) zms_request \<Rightarrow> string \<Rightarrow> string \<Rightarrow> (string \<times> string) list \<Rightarrow> ('s, unit) zms_action" where
  "apply_template z domain templateName params =
     zbind (z Zms_Put (domain_path domain @ ''/template'') (Some (template_body params templateName))) (\<lambda>a.
       if is_success (za_status a) then zreturn ()
       else zfail (http_status_text (za_status a) @ '' while applying '' @ templateName @ '' to '' @ domain))"

definition apply_managed_access :: "('s, 'b) zms_request \<Rightarrow> string \<Rightarrow> string \<Rightarrow> string \<Rightarrow> ('s, unit) zms_action" where
  "apply_managed_access z project mcpKeyName serviceAccount =
     (if \<not> is_dns_label project \<or> \<not> is_dns_label mcpKeyName then zfail ''Managed MCP solution-template parameters are invalid'' else
      let domain = managed_domain project in
      zbind (zlift (service_name_in_domain serviceAccount domain)) (\<lambda>service.
      zbind (require_resource z (domain_path domain) (''Athenz domain '' @ domain @ '' does not exist'')) (\<lambda>_.
      zbind (require_resource z (entity_path domain ''service'' service) (''Athenz service account '' @ serviceAccount @ '' does not exist'')) (\<lambda>_.
      apply_template z domain managed_access_template [(''mcp_key'', mcpKeyName), (''source_service'', service)]))))"

section \<open>Exchange helpers\<close>

text \<open>The checks run in order and stop at the first that fails.\<close>

fun zeach :: "('a \<Rightarrow> ('s, unit) zms_action) \<Rightarrow> 'a list \<Rightarrow> ('s, unit) zms_action" where
  "zeach f [] = zreturn ()"
| "zeach f (x # xs) = zbind (f x) (\<lambda>_. zeach f xs)"

definition helper_members :: "string \<Rightarrow> string \<Rightarrow> (string \<times> string) list" where
  "helper_members role sourcePrincipal = [(role @ ''-exchanger'', sourcePrincipal), (role @ ''-jag-exchanger'', ''mcp-hub.mcp-gateway'')]"

definition helper_assertions :: "string \<Rightarrow> string \<Rightarrow> string \<Rightarrow> (string \<times> managed_assertion) list" where
  "helper_assertions domain role sourceDomain =
     [(role @ ''-exchanger'', \<lparr>ms_action = ''zts.token_target_exchange'', ms_resource = domain @ '':'' @ sourceDomain @ '':role.'' @ role,
         ms_role = domain @ '':role.'' @ role @ ''-exchanger''\<rparr>),
      (role @ ''-jag-exchanger'', \<lparr>ms_action = ''zts.jag_exchange'', ms_resource = domain @ '':role.'' @ role,
         ms_role = domain @ '':role.'' @ role @ ''-jag-exchanger''\<rparr>)]"

definition solution_policy_contains :: "('b \<Rightarrow> json option) \<Rightarrow> 'b \<Rightarrow> managed_assertion \<Rightarrow> (string, bool) result" where
  "solution_policy_contains parse body a =
     ebind (parse_zms_record parse body ''Athenz policy'') (\<lambda>fs.
       Inr (list_ex (same_assertion a) (json_items (map_of fs ''assertions''))))"

definition verify_member :: "('b \<Rightarrow> json option) \<Rightarrow> ('s, 'b) zms_request \<Rightarrow> string \<Rightarrow> string \<times> string \<Rightarrow> ('s, unit) zms_action" where
  "verify_member parse z domain = (\<lambda>(role, member).
     zbind (z Zms_Get (entity_path domain ''role'' role) None) (\<lambda>a.
     if za_status a \<noteq> 200 then zfail (''Unable to verify '' @ domain @ '':role.'' @ role)
     else zbind (zlift (role_contains parse ''Athenz role'' (za_body a) member)) (\<lambda>present.
       if present then zreturn () else zfail (''Unable to verify '' @ domain @ '':role.'' @ role))))"

definition verify_assertion ::
  "('b \<Rightarrow> json option) \<Rightarrow> ('s, 'b) zms_request \<Rightarrow> string \<Rightarrow> string \<times> managed_assertion \<Rightarrow> ('s, unit) zms_action" where
  "verify_assertion parse z domain = (\<lambda>(policy, assertion).
     zbind (z Zms_Get (entity_path domain ''policy'' policy) None) (\<lambda>a.
     if za_status a \<noteq> 200 then zfail (''Unable to verify '' @ domain @ '':policy.'' @ policy)
     else zbind (zlift (solution_policy_contains parse (za_body a) assertion)) (\<lambda>present.
       if present then zreturn () else zfail (''Unable to verify '' @ domain @ '':policy.'' @ policy))))"

definition verify_helpers ::
  "('b \<Rightarrow> json option) \<Rightarrow> ('s, 'b) zms_request \<Rightarrow> string \<times> string \<Rightarrow> string \<Rightarrow> string \<Rightarrow> ('s, unit) zms_action" where
  "verify_helpers parse z = (\<lambda>(domain, role) sourceDomain sourcePrincipal.
     zbind (zeach (verify_member parse z domain) (helper_members role sourcePrincipal)) (\<lambda>_.
     zeach (verify_assertion parse z domain) (helper_assertions domain role sourceDomain)))"

definition apply_helper_target ::
  "('b \<Rightarrow> json option) \<Rightarrow> ('s, 'b) zms_request \<Rightarrow> string \<Rightarrow> string \<Rightarrow> string \<times> string \<Rightarrow> ('s, unit) zms_action" where
  "apply_helper_target parse z sourceDomain sourcePrincipal = (\<lambda>(domain, role).
     zbind (require_resource z (entity_path domain ''role'' role) (''Required Athenz role '' @ domain @ '':role.'' @ role @ '' does not exist'')) (\<lambda>_.
     zbind (apply_template z domain exchange_helpers_template
       [(''target_role'', role), (''source_audience'', sourceDomain), (''source_principal'', sourcePrincipal)]) (\<lambda>_.
     verify_helpers parse z (domain, role) sourceDomain sourcePrincipal)))"

definition apply_exchange_helpers ::
  "((string \<times> string) list \<Rightarrow> (string \<times> string) list) \<Rightarrow> ('b \<Rightarrow> json option) \<Rightarrow> ('s, 'b) zms_request \<Rightarrow> tool_settings option
   \<Rightarrow> string \<Rightarrow> string \<Rightarrow> ('s, (string \<times> string) list) zms_action" where
  "apply_exchange_helpers localeSort parse z settings sourceDomain sourceServiceAccount =
     (if \<not> dotted_name sourceDomain then zfail ''MCP exchange-helper source domain is invalid'' else
      zbind (zlift (service_name_in_domain sourceServiceAccount sourceDomain)) (\<lambda>sourceService.
      let sourcePrincipal = sourceDomain @ ''.'' @ sourceService in
      zbind (zlift (exchange_targets localeSort settings)) (\<lambda>targets.
      zbind (zeach (apply_helper_target parse z sourceDomain sourcePrincipal) targets) (\<lambda>_.
      zreturn targets))))"

end
