(* ===== verification/Hub_Resources.thy ===== *)
theory Hub_Resources
  imports Hub_Solutions
begin

text \<open>
  \<^verbatim>\<open>kubernetes/api/kubectl.ts\<close>, \<^verbatim>\<open>registration/api/mcpResources.ts\<close>, \<^verbatim>\<open>createMcpResources.ts\<close> and
  \<^verbatim>\<open>mcpRuntimeProxy.ts\<close>: reading, creating, changing and deleting the Kubernetes objects of an MCP
  server. A command of \<^verbatim>\<open>kubectl\<close> is a function of its arguments, its standard input and the files of
  the temporary directory that it is given; the directory itself is not in the state.
\<close>

section \<open>kubectl\<close>

datatype kube_fault =
    Kube_Message string          \<comment> \<open>any other error\<close>
  | Kube_Failed string           \<comment> \<open>\<^verbatim>\<open>KubectlCommandError\<close> with its standard error\<close>
  | Kube_Conflict string
  | Kube_Not_Found string

type_synonym ('s, 'a) kube_action = "('s, kube_fault, 'a) program"

type_synonym 's kubectl = "string list \<Rightarrow> string option \<Rightarrow> (string \<times> json) list \<Rightarrow> ('s, string) kube_action"

definition kubectl_args :: "string option \<Rightarrow> string option \<Rightarrow> string list \<Rightarrow> string list" where
  "kubectl_args server tlsServerName args =
     (case given server of None \<Rightarrow> [] | Some s \<Rightarrow> [''--server'', s])
     @ (case given tlsServerName of None \<Rightarrow> [] | Some s \<Rightarrow> [''--tls-server-name'', s]) @ args"

definition contains_text :: "string \<Rightarrow> string \<Rightarrow> bool" where
  "contains_text p s \<longleftrightarrow> index_of p s \<noteq> None"

definition is_already_exists :: "kube_fault \<Rightarrow> bool" where
  "is_already_exists e =
     (case e of
        Kube_Failed stderr \<Rightarrow> contains_text ''alreadyexists'' (to_lower stderr) \<or> contains_text ''already exists'' (to_lower stderr)
      | _ \<Rightarrow> False)"

text \<open>\<^verbatim>\<open>catch\<close>, and a program with other errors as part of one.\<close>

definition zcatch :: "('s, 'e, 'a) program \<Rightarrow> ('e \<Rightarrow> ('s, 'e, 'a) program) \<Rightarrow> ('s, 'e, 'a) program" where
  "zcatch f handler s = (case f s of (Inl e, s') \<Rightarrow> handler e s' | (Inr x, s') \<Rightarrow> (Inr x, s'))"

definition with_message :: "('s, 'a) zms_action \<Rightarrow> ('s, 'a) kube_action" where
  "with_message f s = (case f s of (Inl m, s') \<Rightarrow> (Inl (Kube_Message m), s') | (Inr x, s') \<Rightarrow> (Inr x, s'))"

definition message_result :: "(string, 'a) result \<Rightarrow> (kube_fault, 'a) result" where
  "message_result r = (case r of Inl m \<Rightarrow> Inl (Kube_Message m) | Inr x \<Rightarrow> Inr x)"

section \<open>Options of the runtime proxy\<close>

definition runtime_proxy_options :: "string option \<Rightarrow> string option \<Rightarrow> (string, string option \<times> string option) result" where
  "runtime_proxy_options proxyImage pullPolicy =
     (let configured = given (map_option trim pullPolicy) in
      case configured of
        Some p \<Rightarrow> if p \<notin> {''Always'', ''IfNotPresent'', ''Never''} then Inl ''MCP Hub Runtime Proxy image pull policy is invalid''
                  else Inr (given (map_option trim proxyImage), Some p)
      | None \<Rightarrow> Inr (given (map_option trim proxyImage), map_option trim pullPolicy))"

definition ensure_proxy_trust :: "'s kubectl \<Rightarrow> string \<Rightarrow> string \<Rightarrow> ('s, unit) kube_action" where
  "ensure_proxy_trust k caPath project =
     (if \<not> is_dns_label project then zfail (Kube_Message ''Managed MCP project is invalid'') else
      zbind (k [''create'', ''configmap'', proxy_ca_config_map, ''--namespace'', project, ''--from-file=ca.crt='' @ caPath,
                ''--dry-run=client'', ''--output=yaml''] None []) (\<lambda>rendered.
      if trim rendered = [] then zfail (Kube_Message ''Unable to render the MCP Runtime Proxy trust bundle'')
      else zbind (k [''apply'', ''-f'', ''-''] (Some rendered) []) (\<lambda>_. zreturn ())))"

section \<open>Reading a deployment\<close>

text \<open>\<^verbatim>\<open>value?.name\<close>, for the objects that \<^verbatim>\<open>kubectl\<close> prints\<close>

definition kfield :: "unknown \<Rightarrow> string \<Rightarrow> unknown" where
  "kfield v name = (case v of Some (JObj fs) \<Rightarrow> map_of fs name | _ \<Rightarrow> None)"

definition annotation :: "json \<Rightarrow> string \<Rightarrow> string option" where
  "annotation d name = as_string (kfield (kfield (kfield (Some d) ''metadata'') ''annotations'') name)"

definition label :: "json \<Rightarrow> string \<Rightarrow> string option" where
  "label d name = as_string (kfield (kfield (kfield (Some d) ''metadata'') ''labels'') name)"

definition is_named :: "string \<Rightarrow> json \<Rightarrow> bool" where
  "is_named name v \<longleftrightarrow> kfield (Some v) ''name'' = Some (JStr name)"

definition containers_of :: "json \<Rightarrow> json list" where
  "containers_of d = json_items (kfield (kfield (kfield (kfield (Some d) ''spec'') ''template'') ''spec'') ''containers'')"

definition find_container :: "json \<Rightarrow> string \<Rightarrow> unknown" where
  "find_container d name = find (is_named name) (containers_of d)"

definition string_array :: "unknown \<Rightarrow> string \<Rightarrow> (string, string list) result" where
  "string_array v field =
     (case v of
        None \<Rightarrow> Inr []
      | Some (JArr vs) \<Rightarrow> (case all_strings vs of None \<Rightarrow> Inl (''MCP server container '' @ field @ '' is invalid'') | Some ss \<Rightarrow> Inr ss)
      | _ \<Rightarrow> Inl (''MCP server container '' @ field @ '' is invalid''))"

definition secret_key_ref :: "json \<Rightarrow> bool" where
  "secret_key_ref v \<longleftrightarrow>
     (let ref = kfield (kfield (Some v) ''valueFrom'') ''secretKeyRef'' in
      given (as_string (kfield ref ''name'')) \<noteq> None \<and> given (as_string (kfield ref ''key'')) \<noteq> None)"

definition variable_of_deployment :: "json \<Rightarrow> (string, env_variable) result" where
  "variable_of_deployment v =
     (case given (as_string (kfield (Some v) ''name'')) of
        None \<Rightarrow> Inl ''MCP server deployment has an invalid environment variable''
      | Some name \<Rightarrow>
          (case as_string (kfield (Some v) ''value'') of
             Some s \<Rightarrow> Inr \<lparr>ev_key = name, ev_value = s, ev_secret = False, ev_preserve = False\<rparr>
           | None \<Rightarrow>
               if secret_key_ref v then Inr \<lparr>ev_key = name, ev_value = [], ev_secret = True, ev_preserve = True\<rparr>
               else Inl (''Environment variable '' @ name @ '' uses an unsupported value source'')))"

definition deployed_port :: "unknown \<Rightarrow> nat option" where
  "deployed_port container =
     (case json_items (kfield container ''ports'') of
        [] \<Rightarrow> None
      | p # _ \<Rightarrow>
          (case as_finite (kfield (Some p) ''containerPort'') of
             None \<Rightarrow> None
           | Some q \<Rightarrow> if is_integer q \<and> 1 \<le> q \<and> q \<le> 65535 then Some (nat \<lfloor>q\<rfloor>) else None))"

text \<open>\<^verbatim>\<open>normalizeMcpIconId\<close>; \<open>decode\<close> is \<^verbatim>\<open>decodeURIComponent\<close>\<close>

definition legacy_icon :: "string \<Rightarrow> string option" where
  "legacy_icon s =
     (case map (\<lambda>p. drop (length p) s) (filter (\<lambda>p. starts_with p s) [''/icons/'', ''/mcp_icons/'']) of
        fileName # _ \<Rightarrow> if fileName \<noteq> [] \<and> CHR ''/'' \<notin> set fileName then Some fileName else None
      | [] \<Rightarrow> None)"

definition normalize_icon :: "(string \<Rightarrow> string option) \<Rightarrow> string option \<Rightarrow> string" where
  "normalize_icon decode v =
     (let configured = (case v of None \<Rightarrow> [] | Some s \<Rightarrow> trim s) in
      if is_icon_id configured then configured
      else case legacy_icon configured of
        None \<Rightarrow> []
      | Some f \<Rightarrow> (case decode f of Some g \<Rightarrow> if is_icon_id g then g else [] | None \<Rightarrow> []))"

text \<open>\<open>parseJson\<close> is \<^verbatim>\<open>JSON.parse\<close> with the message of its error.\<close>

definition stored_permissions :: "(string \<Rightarrow> (string, json) result) \<Rightarrow> string option \<Rightarrow> (string, tool_settings option) result" where
  "stored_permissions parseJson v =
     (case given v of
        None \<Rightarrow> Inr None
      | Some s \<Rightarrow>
          (case ebind (parseJson s) (\<lambda>j. parse_tool_settings (Some j)) of
             Inl m \<Rightarrow> Inl (''Stored MCP tool permissions are invalid: '' @ m)
           | Inr settings \<Rightarrow> Inr (Some settings)))"

definition optional_http_url :: "platform \<Rightarrow> string option \<Rightarrow> string" where
  "optional_http_url pf v =
     (case given v of
        None \<Rightarrow> []
      | Some s \<Rightarrow> (case pf_parse_url pf s of
          None \<Rightarrow> []
        | Some u \<Rightarrow> if url_protocol u = ''http:'' \<or> url_protocol u = ''https:'' then s else []))"

definition not_found :: kube_fault where
  "not_found = Kube_Not_Found ''MCP server not found''"

definition is_server_of :: "json \<Rightarrow> string \<Rightarrow> string \<Rightarrow> bool" where
  "is_server_of d project mcpKeyName \<longleftrightarrow>
     kfield (kfield (Some d) ''metadata'') ''name'' = Some (JStr mcpKeyName)
     \<and> kfield (kfield (Some d) ''metadata'') ''namespace'' = Some (JStr project)
     \<and> label d ''app.kubernetes.io/part-of'' = Some ''mcp-hub'' \<and> label d ''mcp.idthw.dev/project'' = Some project
     \<and> default_to (annotation d ''mcp.idthw.dev/id'') mcpKeyName = mcpKeyName"

definition deployed_access :: "json \<Rightarrow> access_management" where
  "deployed_access d =
     (if annotation d ''mcp.idthw.dev/access-management'' = Some ''server'' then Server_Access
      else if find_container d ''mcp-runtime-proxy'' \<noteq> None then Hub_Access else Server_Access)"

definition deployed_creation :: "json \<Rightarrow> creation_method" where
  "deployed_creation d = (if annotation d ''mcp.idthw.dev/creation-method'' = Some ''template'' then From_Template else Direct_Setup)"

record deployment_reader =
  dr_platform :: platform
  dr_decode :: "string \<Rightarrow> string option"
  dr_parseJson :: "string \<Rightarrow> (string, json) result"

definition deployed_container :: "json \<Rightarrow> string \<Rightarrow> (string, json \<times> string) result" where
  "deployed_container d mcpKeyName =
     (case find_container d mcpKeyName of
        None \<Rightarrow> Inl ''MCP server deployment has no managed container''
      | Some c \<Rightarrow> (case given (as_string (kfield (Some c) ''image'')) of
          None \<Rightarrow> Inl ''MCP server deployment has no managed container''
        | Some img \<Rightarrow> Inr (c, img)))"

definition read_configuration :: "deployment_reader \<Rightarrow> json \<Rightarrow> string \<Rightarrow> string \<Rightarrow> (string, mcp_input) result" where
  "read_configuration dr d project mcpKeyName =
     ebind (deployed_container d mcpKeyName) (\<lambda>(container, img).
     ebind (string_array (kfield (Some container) ''command'') ''command'') (\<lambda>command.
     if length command > 1 then Inl ''MCP server container command is not editable by the Hub'' else
     ebind (string_array (kfield (Some container) ''args'') ''arguments'') (\<lambda>arguments.
     case deployed_port (Some container) of
       None \<Rightarrow> Inl ''MCP server deployment has no valid container port''
     | Some port \<Rightarrow>
     ebind (emap variable_of_deployment (json_items (kfield (Some container) ''env''))) (\<lambda>environment.
     ebind (stored_permissions (dr_parseJson dr) (annotation d ''mcp.idthw.dev/tool-permissions'')) (\<lambda>toolPermissions.
     Inr \<lparr>mi_accessManagement = deployed_access d, mi_arguments = arguments,
          mi_command = (case command of [] \<Rightarrow> [] | c # _ \<Rightarrow> c), mi_creationMethod = deployed_creation d,
          mi_description = default_to (annotation d ''mcp.idthw.dev/description'') [], mi_environment = environment,
          mi_iconId = normalize_icon (dr_decode dr) (annotation d ''mcp.idthw.dev/icon''), mi_image = img, mi_mcpKeyName = mcpKeyName,
          mi_path = default_to (annotation d ''mcp.idthw.dev/path'') ''/mcp'',
          mi_guideLabel = default_to (given (map_option trim (annotation d ''mcp.idthw.dev/permission-guide-label''))) ''Permission guide'',
          mi_guideUrl = optional_http_url (dr_platform dr) (annotation d ''mcp.idthw.dev/permission-guide-url''),
          mi_port = nat_text port, mi_project = project,
          mi_serverName = default_to (annotation d ''mcp.idthw.dev/alias'') mcpKeyName,
          mi_serviceAccount = default_to (annotation d ''mcp.idthw.dev/iam-service-account'') [],
          mi_templateKey = (if deployed_creation d = From_Template then default_to (annotation d ''mcp.idthw.dev/template-key'') [] else []),
          mi_toolPermissions = toolPermissions,
          mi_visibility = (if annotation d ''mcp.idthw.dev/visibility'' = Some ''project'' then Project_Wide else Personal)\<rparr>)))))"

definition configuration_of_deployment :: "deployment_reader \<Rightarrow> json \<Rightarrow> string \<Rightarrow> string \<Rightarrow> (kube_fault, mcp_input) result" where
  "configuration_of_deployment dr d project mcpKeyName =
     (if \<not> is_server_of d project mcpKeyName then Inl not_found else message_result (read_configuration dr d project mcpKeyName))"

end
