(* ===== verification/Hub_Changes.thy ===== *)
theory Hub_Changes
  imports Hub_Resources
begin

text \<open>
  \<^verbatim>\<open>registration/api/mcpResources.ts\<close> and \<^verbatim>\<open>createMcpResources.ts\<close>: the operations on the Kubernetes
  objects of an MCP server, as programs over \<^verbatim>\<open>kubectl\<close> and ZMS. Every change is sent as a dry run first.
\<close>

section \<open>Reading\<close>

definition read_deployment :: "deployment_reader \<Rightarrow> 's kubectl \<Rightarrow> string \<Rightarrow> string \<Rightarrow> ('s, json) kube_action" where
  "read_deployment dr k project mcpKeyName =
     zbind (k [''get'', ''deployment/'' @ mcpKeyName, ''--namespace'', project, ''--ignore-not-found'', ''-o'', ''json''] None []) (\<lambda>out.
     if trim out = [] then zfail not_found
     else case dr_parseJson dr out of
       Inl _ \<Rightarrow> zfail (Kube_Message ''MCP server deployment data is invalid'')
     | Inr d \<Rightarrow> zreturn d)"

definition get_configuration :: "deployment_reader \<Rightarrow> 's kubectl \<Rightarrow> string \<Rightarrow> string \<Rightarrow> ('s, mcp_input) kube_action" where
  "get_configuration dr k project mcpKeyName =
     zbind (read_deployment dr k project mcpKeyName) (\<lambda>d. zlift (configuration_of_deployment dr d project mcpKeyName))"

text \<open>A change to one object, from the files of the temporary directory: dry run, then the change.\<close>

definition dry_then_apply :: "'s kubectl \<Rightarrow> string list \<Rightarrow> (string \<times> json) list \<Rightarrow> ('s, unit) kube_action" where
  "dry_then_apply k args files =
     zbind (k (args @ [''--dry-run=server'']) None files) (\<lambda>_. zbind (k args None files) (\<lambda>_. zreturn ()))"

definition patch_args :: "string \<Rightarrow> string \<Rightarrow> string \<Rightarrow> string \<Rightarrow> string list" where
  "patch_args target project patchType path =
     [''patch'', target, ''--namespace'', project, ''--type='' @ patchType, ''--patch-file'', path]"

definition deployment_patch_file :: string where
  "deployment_patch_file = ''deployment-patch.json''"

section \<open>Managed access of a deployment\<close>

definition proxy_env_value :: "json \<Rightarrow> string \<Rightarrow> unknown" where
  "proxy_env_value d name =
     (case find (is_named name) (json_items (kfield (find_container d ''mcp-runtime-proxy'') ''env'')) of
        None \<Rightarrow> None
      | Some v \<Rightarrow> kfield (Some v) ''value'')"

definition reconcile_patch :: "string \<Rightarrow> string \<Rightarrow> string \<Rightarrow> bool \<Rightarrow> json" where
  "reconcile_patch now audience scope runtimeUpdate = JObj
     ([(''metadata'', JObj [(''annotations'', text_object
          [(''mcp.idthw.dev/access-audience'', audience), (''mcp.idthw.dev/access-scope'', scope)])])]
      @ (if runtimeUpdate
         then [(''spec'', JObj [(''template'', JObj
           [(''metadata'', JObj [(''annotations'', text_object [(''mcp.idthw.dev/updated-at'', now)])]),
            (''spec'', JObj [(''containers'', JArr [JObj [(''name'', JStr ''mcp-runtime-proxy''),
               (''env'', JArr (map env_value [(''ATHENZ_EXPECTED_AUDIENCE'', audience), (''ATHENZ_REQUIRED_SCOPE'', scope)]))]])])])])]
         else []))"

definition reconcile_access :: "deployment_reader \<Rightarrow> 's kubectl \<Rightarrow> string \<Rightarrow> string \<Rightarrow> string \<Rightarrow> ('s, bool) kube_action" where
  "reconcile_access dr k now project mcpKeyName =
     zbind (read_deployment dr k project mcpKeyName) (\<lambda>d.
     zbind (zlift (configuration_of_deployment dr d project mcpKeyName)) (\<lambda>configuration.
     if mi_accessManagement configuration \<noteq> Hub_Access then zfail (Kube_Message ''This MCP server does not use Hub-managed access'') else
     zbind (zlift (message_result (managed_scope project mcpKeyName))) (\<lambda>scope.
     let audience = managed_domain project;
         runtimeUpdate = (proxy_env_value d ''ATHENZ_REQUIRED_SCOPE'' \<noteq> Some (JStr scope)
                          \<or> proxy_env_value d ''ATHENZ_EXPECTED_AUDIENCE'' \<noteq> Some (JStr audience)) in
     if annotation d ''mcp.idthw.dev/access-scope'' = Some scope \<and> annotation d ''mcp.idthw.dev/access-audience'' = Some audience
        \<and> \<not> runtimeUpdate
     then zreturn False
     else zbind (dry_then_apply k (patch_args (''deployment/'' @ mcpKeyName) project ''strategic'' deployment_patch_file)
              [(deployment_patch_file, reconcile_patch now audience scope runtimeUpdate)]) (\<lambda>_.
          zreturn True))))"

section \<open>Changing a server\<close>

text \<open>\<^verbatim>\<open>/^[A-Za-z0-9][A-Za-z0-9._-]{0,127}$/\<close>\<close>

definition is_key_id :: "string \<Rightarrow> bool" where
  "is_key_id s \<longleftrightarrow> s \<noteq> [] \<and> length s \<le> 128 \<and> is_alnum (hd s) \<and> list_all is_name_char s"

definition has_managed_identity :: "json \<Rightarrow> bool" where
  "has_managed_identity d \<longleftrightarrow> given (annotation d identity_annotation) \<noteq> None"

definition deployed_key_id :: "json \<Rightarrow> (string, string option) result" where
  "deployed_key_id d =
     (if \<not> has_managed_identity d then Inr None
      else case proxy_env_value d ''ATHENZ_SERVICE_KEY_ID'' of
        None \<Rightarrow> Inr (Some ''idthw-hub-generated'')
      | Some (JStr s) \<Rightarrow> if is_key_id s then Inr (Some s) else Inl ''MCP Runtime Proxy has an invalid Athenz service key ID''
      | _ \<Rightarrow> Inl ''MCP Runtime Proxy has an invalid Athenz service key ID'')"

definition optional_annotations :: "string list" where
  "optional_annotations =
     [''mcp.idthw.dev/access-audience'', ''mcp.idthw.dev/access-scope'', ''mcp.idthw.dev/description'', ''mcp.idthw.dev/icon'',
      ''mcp.idthw.dev/iam-service-account'', ''mcp.idthw.dev/permission-guide-label'', ''mcp.idthw.dev/permission-guide-url'',
      ''mcp.idthw.dev/template-key'', ''mcp.idthw.dev/tool-permissions'', identity_annotation]"

text \<open>The references to secrets of the container as it is: name and \<^verbatim>\<open>valueFrom\<close>; the last of a name counts.\<close>

definition existing_references :: "json \<Rightarrow> (string \<times> json) list" where
  "existing_references container =
     List.map_filter (\<lambda>v. case (given (as_string (kfield (Some v) ''name'')), kfield (Some v) ''valueFrom'') of
        (Some name, Some from) \<Rightarrow> if secret_key_ref v then Some (name, from) else None
      | _ \<Rightarrow> None) (json_items (kfield (Some container) ''env''))"

definition updated_variable :: "mcp_input \<Rightarrow> (string \<times> json) list \<Rightarrow> env_variable \<Rightarrow> (string, json) result" where
  "updated_variable x references e =
     (if ev_preserve e
      then (case map_of (rev references) (ev_key e) of
              None \<Rightarrow> Inl (''Environment variable '' @ ev_key e @ '' has no existing secret value'')
            | Some from \<Rightarrow> Inr (JObj [(''name'', JStr (ev_key e)), (''valueFrom'', from)]))
      else if ev_secret e
      then Inr (JObj [(''name'', JStr (ev_key e)), (''valueFrom'', secret_ref (mi_mcpKeyName x @ ''-env'') (ev_key e))])
      else Inr (env_value (ev_key e, ev_value e)))"

definition updated_environment :: "mcp_input \<Rightarrow> json \<Rightarrow> (string, json list) result" where
  "updated_environment x container =
     emap (updated_variable x (existing_references container))
       (filter (\<lambda>e. ev_key e \<noteq> [] \<and> (ev_value e \<noteq> [] \<or> ev_preserve e)) (mi_environment x))"

text \<open>\<^verbatim>\<open>container.env = ...\<close> for the first container of the name.\<close>

definition set_env :: "json list \<Rightarrow> json \<Rightarrow> json" where
  "set_env env v = (case v of JObj fs \<Rightarrow> JObj (AList.update ''env'' (JArr env) fs) | _ \<Rightarrow> v)"

fun update_named :: "string \<Rightarrow> (json \<Rightarrow> json) \<Rightarrow> json list \<Rightarrow> json list" where
  "update_named name f [] = []"
| "update_named name f (v # vs) = (if is_named name v then f v # vs else v # update_named name f vs)"

definition patched_annotations :: "(string \<times> string) list \<Rightarrow> json" where
  "patched_annotations annotations =
     JObj (map (\<lambda>(k, v). (k, JStr v)) annotations
       @ map (\<lambda>k. (k, JNull)) (filter (\<lambda>k. k \<notin> set (map fst annotations)) optional_annotations))"

definition field_or_null :: "(string \<times> json) list \<Rightarrow> string \<Rightarrow> string \<times> json" where
  "field_or_null fs name = (name, case map_of fs name of None \<Rightarrow> JNull | Some v \<Rightarrow> v)"

record resource_update =
  ru_deploymentPatch :: json
  ru_servicePatch :: json
  ru_newSecretValues :: "(string \<times> json) list"

definition update_deployment_patch :: "string \<Rightarrow> mcp_input \<Rightarrow> (string \<times> string) list \<Rightarrow> (string \<times> json) list \<Rightarrow> json" where
  "update_deployment_patch now x annotations podSpec = JObj
     [(''metadata'', JObj [(''labels'', app_labels x), (''annotations'', patched_annotations annotations)]),
      (''spec'', JObj [(''template'', JObj
        [(''metadata'', JObj [(''labels'', app_labels x), (''annotations'', text_object [(''mcp.idthw.dev/updated-at'', now)])]),
         (''spec'', JObj (map (field_or_null podSpec) [''automountServiceAccountToken''] @
            [field_or_null podSpec ''containers''] @
            map (field_or_null podSpec) [''securityContext'', ''serviceAccountName'', ''volumes'']))])])]"

definition update_options :: "json \<Rightarrow> string option \<times> string option \<Rightarrow> string option \<Rightarrow> manifest_options" where
  "update_options d proxyOptions keyId =
     \<lparr>mo_privateKey = None, mo_includeSecrets = False, mo_managedIdentity = has_managed_identity d, mo_keyId = keyId,
      mo_proxyImage = fst proxyOptions, mo_pullPolicy = snd proxyOptions\<rparr>"

definition build_update ::
  "(json \<Rightarrow> string) \<Rightarrow> text_number \<Rightarrow> (string \<Rightarrow> string) \<Rightarrow> (string, string option \<times> string option) result \<Rightarrow> string
   \<Rightarrow> mcp_input \<Rightarrow> json \<Rightarrow> (string, resource_update) result" where
  "build_update stringify number sha256 proxyOptions now x d =
     ebind proxyOptions (\<lambda>po.
     ebind (deployed_key_id d) (\<lambda>deployedKey.
     let opts = update_options d po deployedKey in
     ebind (service_key_of sha256 x opts) (\<lambda>keyId.
     ebind (manifest_annotations stringify x opts) (\<lambda>annotations.
     ebind (pod_containers number x opts keyId) (\<lambda>containers.
     case (find (is_named (mi_mcpKeyName x)) containers, find_container d (mi_mcpKeyName x)) of
       (Some _, Some current) \<Rightarrow>
         ebind (updated_environment x current) (\<lambda>env.
         Inr \<lparr>ru_deploymentPatch = update_deployment_patch now x annotations
                (pod_spec x opts (update_named (mi_mcpKeyName x) (set_env env) containers)),
              ru_servicePatch = JObj (filter (\<lambda>(k, _). k = ''metadata'' \<or> k = ''spec'')
                (case service_json number x of JObj fs \<Rightarrow> fs | _ \<Rightarrow> [])),
              ru_newSecretValues = spread [] (map (\<lambda>e. (ev_key e, JStr (ev_value e)))
                (filter (\<lambda>e. ev_secret e \<and> ev_value e \<noteq> []) (mi_environment x)))\<rparr>)
     | _ \<Rightarrow> Inl ''MCP server deployment has no managed container'')))))"

definition env_secret_json :: "mcp_input \<Rightarrow> (string \<times> json) list \<Rightarrow> json" where
  "env_secret_json x stringData =
     kube_object ''v1'' ''Secret'' [(''name'', JStr (mi_mcpKeyName x @ ''-env'')), (''namespace'', JStr (mi_project x))]
       [(''type'', JStr ''Opaque''), (''stringData'', JObj stringData)]"

text \<open>The command for the secret: its dry run, itself, and the file it reads.\<close>

definition prepare_secret :: "'s kubectl \<Rightarrow> mcp_input \<Rightarrow> (string \<times> json) list \<Rightarrow> ('s, string list \<times> string list \<times> json) kube_action" where
  "prepare_secret k x stringData =
     (let target = ''secret/'' @ mi_mcpKeyName x @ ''-env'' in
      zbind (k [''get'', target, ''--namespace'', mi_project x, ''--ignore-not-found'', ''-o'', ''name''] None []) (\<lambda>out.
      if trim out \<noteq> []
      then let args = patch_args target (mi_project x) ''merge'' ''secret.json'' in
        zreturn (args @ [''--dry-run=server''], args, JObj [(''stringData'', JObj stringData)])
      else zreturn ([''create'', ''--dry-run=server'', ''-f'', ''secret.json''], [''create'', ''-f'', ''secret.json''], env_secret_json x stringData)))"

definition when_some :: "'a option \<Rightarrow> ('a \<Rightarrow> ('s, 'e, unit) program) \<Rightarrow> ('s, 'e, unit) program" where
  "when_some v f = (case v of None \<Rightarrow> zreturn () | Some x \<Rightarrow> f x)"

definition update_resources ::
  "deployment_reader \<Rightarrow> (json \<Rightarrow> string) \<Rightarrow> text_number \<Rightarrow> (string \<Rightarrow> string) \<Rightarrow> (string, string option \<times> string option) result \<Rightarrow> string
   \<Rightarrow> 's kubectl \<Rightarrow> mcp_input \<Rightarrow> ('s, unit) kube_action" where
  "update_resources dr stringify number sha256 proxyOptions now k x =
     zbind (read_deployment dr k (mi_project x) (mi_mcpKeyName x)) (\<lambda>d.
     zbind (zlift (configuration_of_deployment dr d (mi_project x) (mi_mcpKeyName x))) (\<lambda>existing.
     if \<not> same_identity x existing then zfail (Kube_Message identity_error) else
     zbind (zlift (message_result (build_update stringify number sha256 proxyOptions now x d))) (\<lambda>u.
     let deploymentArgs = patch_args (''deployment/'' @ mi_mcpKeyName x) (mi_project x) ''merge'' deployment_patch_file;
         serviceArgs = patch_args (''service/'' @ mi_mcpKeyName x) (mi_project x) ''merge'' ''service-patch.json'';
         files = [(deployment_patch_file, ru_deploymentPatch u), (''service-patch.json'', ru_servicePatch u)] in
     zbind (if ru_newSecretValues u = [] then zreturn None
            else zbind (prepare_secret k x (ru_newSecretValues u)) (\<lambda>op. zreturn (Some op))) (\<lambda>secretOperation.
     let allFiles = files @ (case secretOperation of None \<Rightarrow> [] | Some (_, _, f) \<Rightarrow> [(''secret.json'', f)]) in
     zbind (when_some secretOperation (\<lambda>(dryRun, _, _). zbind (k dryRun None allFiles) (\<lambda>_. zreturn ()))) (\<lambda>_.
     zbind (k (deploymentArgs @ [''--dry-run=server'']) None allFiles) (\<lambda>_.
     zbind (k (serviceArgs @ [''--dry-run=server'']) None allFiles) (\<lambda>_.
     zbind (when_some secretOperation (\<lambda>(_, apply, _). zbind (k apply None allFiles) (\<lambda>_. zreturn ()))) (\<lambda>_.
     zbind (k deploymentArgs None allFiles) (\<lambda>_.
     zbind (k serviceArgs None allFiles) (\<lambda>_. zreturn ()))))))))))"

section \<open>Tool permissions\<close>

definition max_annotation_bytes :: nat where
  "max_annotation_bytes = 131072"

text \<open>UTF-8 bytes of Latin-1 text\<close>

definition utf8_bytes :: "string \<Rightarrow> nat" where
  "utf8_bytes s = sum_list (map (\<lambda>c. if of_char c < (128 :: nat) then 1 else 2) s)"

definition check_helper_requirements ::
  "mcp_input \<Rightarrow> string \<Rightarrow> configured_requirement list \<Rightarrow> (string, unit) result" where
  "check_helper_requirements configuration gatewayPrincipal requirements =
     (let helpers = filter (\<lambda>r. cr_includeHelpers r = Some True) requirements; account = mi_serviceAccount configuration in
      if helpers \<noteq> [] \<and> (account = [] \<or> mi_accessManagement configuration \<noteq> Hub_Access)
      then Inl ''Exchange helpers require a Hub-managed IAM service account''
      else ebind (emap (\<lambda>r. if cr_helpers r \<noteq> None then Inr ()
             else ebind (exchange_helpers [r] account gatewayPrincipal) (\<lambda>_. Inr ())) helpers) (\<lambda>_. Inr ()))"

definition with_tool :: "tool_settings option \<Rightarrow> string \<Rightarrow> configured_requirement list \<Rightarrow> tool_settings" where
  "with_tool current toolName requirements =
     \<lparr>ts_default = (case current of None \<Rightarrow> None | Some s \<Rightarrow> ts_default s),
      ts_tools = spread (case current of None \<Rightarrow> [] | Some s \<Rightarrow> ts_tools s) [(toolName, requirements)]\<rparr>"

definition provision_tool_access ::
  "((string \<times> string) list \<Rightarrow> (string \<times> string) list) \<Rightarrow> ('b \<Rightarrow> json option) \<Rightarrow> ('s, 'b) zms_request \<Rightarrow> string \<Rightarrow> string \<Rightarrow> string
   \<Rightarrow> mcp_input \<Rightarrow> configured_requirement list \<Rightarrow> ('s, unit) zms_action" where
  "provision_tool_access localeSort parse z project mcpKeyName toolName configuration requirements =
     (let direct = filter (\<lambda>r. cr_member r = signed_in_user) requirements; account = mi_serviceAccount configuration in
      if direct = [] \<or> account = [] \<or> mi_accessManagement configuration \<noteq> Hub_Access then zreturn ()
      else zbind (apply_exchange_helpers localeSort parse z (Some \<lparr>ts_default = None, ts_tools = [(toolName, requirements)]\<rparr>)
               (managed_domain project) account) (\<lambda>_.
           zbind (zlift (emap (\<lambda>r. ebind (parse_athenz_role (cr_role r)) (\<lambda>(domain, _). Inr domain)) direct)) (\<lambda>domains.
           zbind (ensure_source_exchange parse z project mcpKeyName account domains) (\<lambda>_. zreturn ()))))"

definition update_tool_permissions ::
  "deployment_reader \<Rightarrow> (json \<Rightarrow> string) \<Rightarrow> ((string \<times> string) list \<Rightarrow> (string \<times> string) list) \<Rightarrow> ('b \<Rightarrow> json option)
   \<Rightarrow> 's kubectl \<Rightarrow> ('s, 'b) zms_request \<Rightarrow> string \<Rightarrow> string \<Rightarrow> string \<Rightarrow> string \<Rightarrow> configured_requirement list
   \<Rightarrow> ('s, tool_settings) kube_action" where
  "update_tool_permissions dr stringify localeSort parse k z gatewayPrincipal project mcpKeyName toolName requirements =
     zbind (read_deployment dr k project mcpKeyName) (\<lambda>d.
     zbind (zlift (configuration_of_deployment dr d project mcpKeyName)) (\<lambda>configuration.
     zbind (zlift (message_result (check_helper_requirements configuration gatewayPrincipal requirements))) (\<lambda>_.
     zbind (with_message (provision_tool_access localeSort parse z project mcpKeyName toolName configuration requirements)) (\<lambda>_.
     zbind (zlift (message_result (stored_permissions (dr_parseJson dr) (annotation d ''mcp.idthw.dev/tool-permissions'')))) (\<lambda>current.
     zbind (zlift (message_result (parse_tool_settings (Some (settings_json (with_tool current toolName requirements)))))) (\<lambda>settings.
     let serialized = stringify (settings_json settings) in
     if utf8_bytes serialized > max_annotation_bytes
     then zfail (Kube_Message ''Tool permission settings exceed the Kubernetes annotation size limit'')
     else zbind (dry_then_apply k (patch_args (''deployment/'' @ mcpKeyName) project ''merge'' deployment_patch_file)
            [(deployment_patch_file, JObj [(''metadata'', JObj [(''annotations'',
               text_object [(''mcp.idthw.dev/tool-permissions'', serialized)])])])]) (\<lambda>_.
          zreturn settings)))))))"

section \<open>Deleting\<close>

definition deletion_targets :: "json \<Rightarrow> string \<Rightarrow> string list" where
  "deletion_targets d mcpKeyName =
     [''deployment/'' @ mcpKeyName, ''service/'' @ mcpKeyName, ''secret/'' @ mcpKeyName @ ''-env'']
     @ (if annotation d identity_annotation = Some (mcpKeyName @ ''-athenz-identity'')
        then [''secret/'' @ mcpKeyName @ ''-athenz-bootstrap'', ''secret/'' @ mcpKeyName @ ''-athenz-identity'',
              ''serviceaccount/'' @ mcpKeyName @ ''-runtime-proxy'', ''role/'' @ mcpKeyName @ ''-runtime-proxy-identity'',
              ''rolebinding/'' @ mcpKeyName @ ''-runtime-proxy-identity''] else [])"

definition delete_resources :: "deployment_reader \<Rightarrow> 's kubectl \<Rightarrow> string \<Rightarrow> string \<Rightarrow> ('s, unit) kube_action" where
  "delete_resources dr k project mcpKeyName =
     zbind (read_deployment dr k project mcpKeyName) (\<lambda>d.
     zbind (zlift (configuration_of_deployment dr d project mcpKeyName)) (\<lambda>_.
     dry_then_apply k ([''delete''] @ deletion_targets d mcpKeyName @ [''--namespace'', project, ''--ignore-not-found'', ''--wait=true'']) []))"

section \<open>Creating\<close>

definition none_column :: string where
  "none_column = ''<none>''"

definition line_has_route :: "string \<Rightarrow> string \<Rightarrow> bool" where
  "line_has_route expected line =
     (case words line of
        r # n # rest \<Rightarrow> take 2 rest \<noteq> [none_column, none_column] \<and> (if r = none_column then n else r) = expected
      | _ \<Rightarrow> False)"

definition has_route_id :: "string \<Rightarrow> string \<Rightarrow> bool" where
  "has_route_id out expected \<longleftrightarrow> list_ex (line_has_route expected) (split_char (CHR 0x0A) out)"

definition key_conflict :: kube_fault where
  "key_conflict = Kube_Conflict ''An MCP server with this key already exists''"

definition create_options :: "string option \<Rightarrow> string option \<times> string option \<Rightarrow> manifest_options" where
  "create_options privateKey proxyOptions =
     \<lparr>mo_privateKey = privateKey, mo_includeSecrets = True, mo_managedIdentity = True, mo_keyId = None,
      mo_proxyImage = fst proxyOptions, mo_pullPolicy = snd proxyOptions\<rparr>"

definition routes_columns :: string where
  "routes_columns = ''custom-columns=ROUTE_ID:.metadata.annotations.mcp'' @ [CHR 0x5C] @ ''.idthw'' @ [CHR 0x5C]
     @ ''.dev/id,NAME:.metadata.name,PROJECT_LABEL:.metadata.labels.mcp'' @ [CHR 0x5C] @ ''.idthw'' @ [CHR 0x5C]
     @ ''.dev/project,PROJECT_ANNOTATION:.metadata.annotations.mcp'' @ [CHR 0x5C] @ ''.idthw'' @ [CHR 0x5C] @ ''.dev/project''"

text \<open>\<open>identity\<close> is the generated key pair, private and public; \<open>beforeCreate\<close> runs between dry run and creation.\<close>

definition create_resources ::
  "(json \<Rightarrow> string) \<Rightarrow> (json \<Rightarrow> string) \<Rightarrow> text_number \<Rightarrow> (string \<Rightarrow> string) \<Rightarrow> (string, string option \<times> string option) result
   \<Rightarrow> string \<times> string \<Rightarrow> ((string \<times> string) option \<Rightarrow> ('s, unit) kube_action) \<Rightarrow> 's kubectl \<Rightarrow> mcp_input \<Rightarrow> ('s, unit) kube_action" where
  "create_resources yaml stringify number sha256 proxyOptions keyPair beforeCreate k x =
     zbind (k [''get'', ''deployments'', ''--all-namespaces'', ''--selector'', ''app.kubernetes.io/part-of=mcp-hub'', ''-o'',
               routes_columns, ''--no-headers''] None []) (\<lambda>routes.
     if has_route_id routes (mi_mcpKeyName x) then zfail key_conflict else
     zbind (k [''get'', ''namespace'', mi_project x, ''--ignore-not-found'', ''-o'', ''name''] None []) (\<lambda>namespace.
     zbind (if trim namespace \<noteq> [] then zreturn ()
            else zcatch (zbind (k [''create'', ''namespace'', mi_project x] None []) (\<lambda>_. zreturn ()))
                   (\<lambda>e. if is_already_exists e then zreturn () else zfail e)) (\<lambda>_.
     zbind (k [''get'', ''deployment/'' @ mi_mcpKeyName x, ''service/'' @ mi_mcpKeyName x, ''--namespace'', mi_project x,
               ''--ignore-not-found'', ''-o'', ''name''] None []) (\<lambda>collision.
     if trim collision \<noteq> [] then zfail key_conflict else
     let identity = (if mi_accessManagement x = Hub_Access then Some keyPair else None) in
     zbind (zlift (message_result (ebind proxyOptions (\<lambda>po.
              build_resources stringify number sha256 x (create_options (map_option fst identity) po))))) (\<lambda>resources.
     let manifest = manifest_text yaml (tl resources) in
     zcatch
       (zbind (k [''create'', ''--dry-run=server'', ''-f'', ''-''] (Some manifest) []) (\<lambda>_.
        zbind (beforeCreate identity) (\<lambda>_.
        zbind (k [''create'', ''-f'', ''-''] (Some manifest) []) (\<lambda>_. zreturn ()))))
       (\<lambda>e. if is_already_exists e then zfail key_conflict else zfail e))))))"

end
