(* ===== verification/Hub_Registration_Rules.thy ===== *)
theory Hub_Registration_Rules
  imports Hub_Changes Hub_Settings_Again Samples
begin

text \<open>
  What a validated registration is, and that a server that was created with it is read back as it was
  registered, but for its secrets.
\<close>

section \<open>Validated registrations\<close>

lemma trim_trim [simp]: "trim (trim s) = trim s"
proof -
  define m where "m = dropWhile is_ws s"
  define t where "t = dropWhile is_ws (rev m)"
  have t: "dropWhile is_ws t = t" by (simp add: t_def)
  have "dropWhile is_ws (rev t) = rev t"
  proof (cases "rev t")
    case (Cons c cs)
    have "m = rev t @ rev (takeWhile is_ws (rev m))" unfolding t_def by (metis rev_append rev_rev_ident takeWhile_dropWhile_id)
    with Cons have "m = c # cs @ rev (takeWhile is_ws (rev m))" by simp
    then have "\<not> is_ws c" unfolding m_def by (metis dropWhile_eq_Cons_conv)
    with Cons show ?thesis by simp
  qed simp
  with t show ?thesis by (simp add: trim_def flip: m_def t_def)
qed

lemma trimmed_text_Some: "trimmed_text v = Some s \<longleftrightarrow> (\<exists>t. v = Some (JStr t) \<and> s = trim t)"
  by (auto simp: trimmed_text_def)

lemma required_text_Inr: "required_text s P m = Inr x \<longleftrightarrow> s = Some x \<and> x \<noteq> [] \<and> P x"
  by (auto simp: required_text_def split: option.splits)

lemma optional_text_Inr: "optional_text s P m = Inr x \<longleftrightarrow> s = Some x \<and> P x"
  by (auto simp: optional_text_def split: option.splits)

definition variables_ok :: "env_variable list \<Rightarrow> bool" where
  "variables_ok es \<longleftrightarrow> distinct (map ev_key es) \<and>
     list_all (\<lambda>e. is_env_key (ev_key e) \<and> ev_value e \<noteq> [] \<and> length (ev_value e) \<le> 32768 \<and> \<not> ev_preserve e) es"

lemma env_variables_Inr:
  "env_variables i keys vs = Inr es \<Longrightarrow> variables_ok es \<and> set (map ev_key es) \<inter> set keys = {}"
proof (induction vs arbitrary: i keys es)
  case (Cons v vs)
  from Cons.prems obtain fs key val secret where parts: "as_record (Some v) = Some fs" "trimmed_text (map_of fs ''key'') = Some key"
    "as_string (map_of fs ''value'') = Some val" "as_bool (map_of fs ''secret'') = Some secret"
    by (auto split: option.splits)
  show ?case
  proof (cases "key = [] \<and> val = []")
    case True
    with parts Cons.prems have "env_variables (Suc i) keys vs = Inr es" by auto
    then show ?thesis by (rule Cons.IH)
  next
    case False
    with parts Cons.prems obtain rest where rest: "env_variables (Suc i) (key # keys) vs = Inr rest"
      and es: "es = \<lparr>ev_key = key, ev_value = val, ev_secret = secret, ev_preserve = False\<rparr> # rest"
      and ok: "is_env_key key" "val \<noteq> []" "length val \<le> 32768" "key \<notin> set keys"
      by (auto simp: ebind_eq_Inr split: if_split_asm)
    from Cons.IH [OF rest] es ok show ?thesis by (auto simp: variables_ok_def)
  qed
qed (simp add: variables_ok_def)

lemma environment_Inr: "environment_of v = Inr es \<Longrightarrow> variables_ok es"
  by (auto simp: environment_of_def split: option.splits json.splits if_splits dest: env_variables_Inr)

lemma container_arguments_Inr:
  assumes "container_arguments payload = Inr ss"
  shows "list_all (\<lambda>s. s \<noteq> [] \<and> trim s = s) ss"
proof (cases "map_of payload ''arguments''")
  case None
  with assms show ?thesis by (auto simp: container_arguments_def trimmed_text_Some split: option.splits if_splits)
next
  case (Some v)
  with assms obtain vs where v: "v = JArr vs" by (cases v) (auto simp: container_arguments_def)
  with assms Some obtain ts where ts: "emap container_argument vs = Inr ts" "ss = filter (\<lambda>s. s \<noteq> []) ts"
    by (auto simp: container_arguments_def ebind_eq_Inr split: if_splits)
  have "trim t = t" if "t \<in> set ts" for t
    using emap_Inr_set [OF ts(1) that] by (auto simp: container_argument_def split: option.splits if_splits)
  with ts(2) show ?thesis by (auto simp: list_all_iff)
qed

lemma permissions_Inr: "permissions_of v = Inr (Some s) \<Longrightarrow> settings_stored s"
  by (auto simp: permissions_of_def split: sum.splits if_splits dest: parse_settings_stored)

lemma template_key_Inr:
  "template_key_of v c = Inr key \<Longrightarrow> (c = From_Template \<longrightarrow> is_dns_label key) \<and> (c = Direct_Setup \<longrightarrow> key = [])"
  by (auto simp: template_key_of_def split: option.splits if_splits)

text \<open>What every part of a validated registration satisfies.\<close>

definition registration_ok :: "platform \<Rightarrow> text_number \<Rightarrow> mcp_input \<Rightarrow> bool" where
  "registration_ok pf number x \<longleftrightarrow>
     is_dns_label (mi_project x) \<and> is_dns_label (mi_mcpKeyName x) \<and> mi_serverName x \<noteq> []
     \<and> mi_image x \<noteq> [] \<and> \<not> list_ex is_ws (mi_image x) \<and> starts_with ''/'' (mi_path x) \<and> mi_path x \<noteq> []
     \<and> port_number number (mi_port x) \<noteq> None
     \<and> list_all (\<lambda>s. s \<noteq> [] \<and> trim s = s) (mi_arguments x) \<and> variables_ok (mi_environment x)
     \<and> trim (mi_iconId x) = mi_iconId x \<and> (mi_iconId x = [] \<or> is_icon_id (mi_iconId x))
     \<and> is_optional_http_url pf (mi_guideUrl x) \<and> trim (mi_guideLabel x) = mi_guideLabel x \<and> (mi_guideUrl x = [] \<or> mi_guideLabel x \<noteq> [])
     \<and> (case mi_creationMethod x of Direct_Setup \<Rightarrow> mi_templateKey x = [] \<and> mi_visibility x = Personal
        | From_Template \<Rightarrow> is_dns_label (mi_templateKey x))
     \<and> (mi_accessManagement x = Hub_Access \<longrightarrow> is_service_in_domain (mi_serviceAccount x) (managed_domain (mi_project x)))
     \<and> (mi_serviceAccount x = [] \<or> is_service_in_domain (mi_serviceAccount x) (managed_domain (mi_project x)))
     \<and> (case mi_toolPermissions x of None \<Rightarrow> True
        | Some s \<Rightarrow> mi_accessManagement x = Hub_Access \<and> settings_stored s \<and> \<not> has_unresolved_iam_member (Some s))"

lemma trimmed_text_trim: "trimmed_text v = Some s \<Longrightarrow> trim s = s"
  by (auto simp: trimmed_text_Some)

lemma creation_parts:
  "(c = From_Template \<longrightarrow> is_dns_label key) \<and> (c = Direct_Setup \<longrightarrow> key = []) \<Longrightarrow> c = From_Template \<or> vis = Personal \<Longrightarrow>
   case c of Direct_Setup \<Rightarrow> key = [] \<and> vis = Personal | From_Template \<Rightarrow> is_dns_label key"
  by (cases c) auto

lemma account_part: "a = Server_Access \<or> t \<noteq> [] \<Longrightarrow> t = [] \<or> P t \<Longrightarrow> a = Hub_Access \<longrightarrow> P t"
  by auto

lemma permissions_part:
  "permissions_of v = Inr r \<Longrightarrow> a = Hub_Access \<or> r = None \<Longrightarrow> \<not> has_unresolved_iam_member r \<Longrightarrow>
   case r of None \<Rightarrow> True | Some s \<Rightarrow> a = Hub_Access \<and> settings_stored s \<and> \<not> has_unresolved_iam_member (Some s)"
  by (cases r) (auto dest: permissions_Inr)

lemmas registration_parts = creation_parts account_part permissions_part trimmed_text_trim

lemma validated_registration_ok:
  assumes "validate_registration pf number v = Inr x"
  shows "registration_ok pf number x"
proof -
  from assms obtain payload where v: "v = Some (JObj payload)"
    by (auto simp: validate_registration_def split: option.splits)
  from assms show ?thesis
    unfolding v validate_registration_def
    apply (simp only: as_record.simps option.case Let_def ebind_eq_Inr required_text_Inr optional_text_Inr require_eq_Inr sum.inject)
    apply (elim exE conjE)
    apply (drule environment_Inr container_arguments_Inr template_key_Inr)+
    apply hypsubst
    apply (simp only: registration_ok_def mcp_input.simps)
    apply (intro conjI)
    apply simp_all
    apply (rule registration_parts; assumption)+
    done
qed

section \<open>Accepted changes\<close>

lemma env_variables_entry:
  assumes "env_variables i keys vs = Inr es" "v \<in> set vs" "as_record (Some v) = Some fs" "trimmed_text (map_of fs ''key'') = Some k" "k \<noteq> []"
  shows "\<exists>e \<in> set es. ev_key e = k \<and> as_bool (map_of fs ''secret'') = Some (ev_secret e)"
  using assms(1,2)
proof (induction vs arbitrary: i keys es)
  case (Cons w vs)
  show ?case
  proof (cases "w = v")
    case True
    with Cons.prems assms(3-5) show ?thesis by (auto simp: ebind_eq_Inr split: option.splits if_splits)
  next
    case False
    have "\<exists>j ks rest. env_variables j ks vs = Inr rest \<and> set rest \<subseteq> set es"
      using Cons.prems(1) by (auto simp: ebind_eq_Inr split: option.splits if_splits) blast+
    then obtain j ks rest where rest: "env_variables j ks vs = Inr rest" "set rest \<subseteq> set es" by blast
    with False Cons.prems(2) Cons.IH [OF rest(1)] show ?thesis by auto
  qed
qed simp

lemma validated_environment:
  assumes "validate_registration pf number (Some (JObj payload)) = Inr x"
  shows "environment_of (map_of payload ''environmentVariables'') = Inr (mi_environment x)"
proof -
  from assms show ?thesis
    unfolding validate_registration_def
    apply (simp only: as_record.simps option.case Let_def ebind_eq_Inr sum.inject)
    apply (elim exE conjE)
    apply hypsubst
    apply (simp only: mcp_input.simps)
    done
qed

lemma kept_secret_keyD:
  assumes "kept_secret_key existing v = Some k"
  obtains fs where "v = JObj fs" "trimmed_text (map_of fs ''key'') = Some k" "k \<noteq> []" "map_of fs ''secret'' = Some (JBool True)"
    "k \<in> set (existing_secrets existing)"
proof (cases v)
  case (JObj fs)
  with assms show thesis by (intro that [of fs]) (auto simp: kept_secret_key_def split: option.splits if_splits)
qed (use assms in \<open>auto simp: kept_secret_key_def\<close>)

text \<open>A kept key is that of a secret variable of the server, and the accepted entry of that key is a secret.\<close>

lemma kept_variable:
  assumes "environment_of (Some (JArr (map (with_placeholder existing) vs))) = Inr es" "kept_secret_key existing v = Some k" "v \<in> set vs"
    "e \<in> set es" "ev_key e = k"
  shows "k \<in> set (existing_secrets existing) \<and> ev_secret e"
proof -
  from assms(2) obtain fs where fs: "v = JObj fs" "trimmed_text (map_of fs ''key'') = Some k" "k \<noteq> []"
    "map_of fs ''secret'' = Some (JBool True)" "k \<in> set (existing_secrets existing)" by (rule kept_secret_keyD)
  let ?fs = "AList.update ''value'' (JStr preserved_secret) fs"
  have "with_placeholder existing v = JObj ?fs" using assms(2) fs(1) by (simp add: with_placeholder_def)
  then have "JObj ?fs \<in> set (map (with_placeholder existing) vs)" using assms(3) by (metis image_eqI set_map)
  moreover have "trimmed_text (map_of ?fs ''key'') = Some k" "as_bool (map_of ?fs ''secret'') = Some True"
    using fs by (simp_all add: update_conv as_bool_def)
  moreover have all: "env_variables 0 [] (map (with_placeholder existing) vs) = Inr es"
    using assms(1) by (simp add: environment_of_def split: if_splits)
  ultimately obtain f where f: "f \<in> set es" "ev_key f = k" "ev_secret f"
    using env_variables_entry [OF all, of "JObj ?fs" ?fs k] fs(3) by auto
  moreover have "distinct (map ev_key es)" using env_variables_Inr [OF all] by (simp add: variables_ok_def)
  ultimately have "e = f" using assms(4,5) by (metis distinct_map inj_on_eq_iff)
  with f fs(5) show ?thesis by simp
qed

text \<open>What every variable of an accepted update satisfies.\<close>

definition updated_variable_ok :: "mcp_input \<Rightarrow> env_variable \<Rightarrow> bool" where
  "updated_variable_ok existing e \<longleftrightarrow> is_env_key (ev_key e) \<and>
     (if ev_preserve e then ev_secret e \<and> ev_value e = [] \<and> ev_key e \<in> set (existing_secrets existing) else ev_value e \<noteq> [])"

lemma accepted_update:
  assumes "validate_update pf number v existing = Inr x"
  shows "same_identity x existing" "list_all (updated_variable_ok existing) (mi_environment x)" "distinct (map ev_key (mi_environment x))"
    "registration_ok pf number (x\<lparr>mi_environment := []\<rparr>)"
proof -
  from assms obtain payload vs y where y: "validate_registration pf number
      (Some (JObj (AList.update ''environmentVariables'' (JArr (map (with_placeholder existing) vs)) payload))) = Inr y"
    and same: "same_identity y existing"
    and x: "x = y\<lparr>mi_environment := map (\<lambda>e. if ev_key e \<in> set (List.map_filter (kept_secret_key existing) vs)
        then e\<lparr>ev_value := [], ev_preserve := True\<rparr> else e) (mi_environment y)\<rparr>"
    by (auto simp: validate_update_def Let_def ebind_eq_Inr split: option.splits json.splits if_splits)
  have env: "environment_of (Some (JArr (map (with_placeholder existing) vs))) = Inr (mi_environment y)"
    using validated_environment [OF y] by (simp add: update_conv)
  have ok: "registration_ok pf number y" by (rule validated_registration_ok [OF y])
  then have vars: "variables_ok (mi_environment y)" by (simp add: registration_ok_def)
  show "same_identity x existing" using same by (simp add: x same_identity_def)
  show "distinct (map ev_key (mi_environment x))"
  proof -
    have "map ev_key (mi_environment x) = map ev_key (mi_environment y)" by (simp add: x)
    with vars show ?thesis by (simp only: variables_ok_def)
  qed
  show "registration_ok pf number (x\<lparr>mi_environment := []\<rparr>)" using ok by (simp add: x registration_ok_def variables_ok_def split: creation_method.splits option.splits)
  show "list_all (updated_variable_ok existing) (mi_environment x)"
    using vars kept_variable [OF env] by (auto simp: x list_all_iff variables_ok_def updated_variable_ok_def List.map_filter_def)
qed

text \<open>
  C37: accepted registrations are well formed. Whatever value a registration was accepted from, its
  names are DNS labels, its port, path, icon and guide are valid, its variables have distinct, valid
  keys and values, its service account is in the project's domain, and its tool permissions are parsed
  settings without the placeholder of a template. An accepted update keeps the identity of the server,
  is as well formed, and keeps a secret without a value only where the server already has a secret of
  that key.
\<close>

theorem accepted_registrations_are_well_formed:
  "(validate_registration pf number v = Inr x \<longrightarrow> registration_ok pf number x)
   \<and> (validate_update pf number w existing = Inr y \<longrightarrow>
        same_identity y existing \<and> registration_ok pf number (y\<lparr>mi_environment := []\<rparr>)
        \<and> distinct (map ev_key (mi_environment y)) \<and> list_all (updated_variable_ok existing) (mi_environment y))"
  by (auto intro: validated_registration_ok dest: accepted_update)

section \<open>A registration\<close>

definition sample_variable :: "string \<Rightarrow> string \<Rightarrow> bool \<Rightarrow> json" where
  "sample_variable k v secret = JObj [(''key'', JStr k), (''value'', JStr v), (''secret'', JBool secret)]"

definition server_sample_settings :: tool_settings where
  "server_sample_settings = \<lparr>ts_default = None, ts_tools = [(''t'', [])]\<rparr>"

definition server_sample_payload :: "json list \<Rightarrow> json" where
  "server_sample_payload env = JObj
     [(''project'', JStr ''p''), (''mcpKeyName'', JStr ''k''), (''serverName'', JStr ''Server''), (''image'', JStr ''img''),
      (''path'', JStr ''/mcp''), (''port'', JStr '' 80''), (''command'', JStr []), (''arguments'', JArr [JStr ''-v '']),
      (''serviceAccount'', JStr ''mcp-hub.mcps.p.s''), (''accessManagement'', JStr ''hub''), (''environmentVariables'', JArr env),
      (''toolPermissions'', settings_json server_sample_settings)]"

definition server_sample :: "env_variable list \<Rightarrow> mcp_input" where
  "server_sample env =
     \<lparr>mi_accessManagement = Hub_Access, mi_arguments = [''-v''], mi_command = [], mi_creationMethod = Direct_Setup, mi_description = [],
      mi_environment = env, mi_iconId = [], mi_image = ''img'', mi_mcpKeyName = ''k'', mi_path = ''/mcp'',
      mi_guideLabel = ''Permission guide'', mi_guideUrl = [], mi_port = ''80'', mi_project = ''p'', mi_serverName = ''Server'',
      mi_serviceAccount = ''mcp-hub.mcps.p.s'', mi_templateKey = [], mi_toolPermissions = Some server_sample_settings, mi_visibility = Personal\<rparr>"

definition sample_secret :: "string \<Rightarrow> bool \<Rightarrow> env_variable" where
  "sample_secret v preserve = \<lparr>ev_key = ''A'', ev_value = v, ev_secret = True, ev_preserve = preserve\<rparr>"

definition sample_number :: text_number where
  "sample_number s = (if s = ''80'' then Finite 80 else Not_A_Number)"

lemma server_sample_payload_Inr:
  "validate_registration sample_platform sample_number (Some (server_sample_payload [sample_variable ''A'' ''x'' True])) = Inr (server_sample [sample_secret ''x'' False])"
  by code_simp

lemma sample_update_Inr:
  "validate_update sample_platform sample_number (Some (server_sample_payload [sample_variable ''A'' [] True])) (server_sample [sample_secret [] True])
     = Inr (server_sample [sample_secret [] True])"
  by code_simp

lemma accepted_registrations_are_well_formed_witness:
  "registration_ok sample_platform sample_number (server_sample [sample_secret ''x'' False])
   \<and> list_all (updated_variable_ok (server_sample [sample_secret [] True])) (mi_environment (server_sample [sample_secret [] True]))"
  using accepted_registrations_are_well_formed [of sample_platform sample_number
      "Some (server_sample_payload [sample_variable ''A'' ''x'' True])" "server_sample [sample_secret ''x'' False]"
      "Some (server_sample_payload [sample_variable ''A'' [] True])" "server_sample [sample_secret [] True]" "server_sample [sample_secret [] True]"]
    server_sample_payload_Inr sample_update_Inr by blast

end
