(* ===== verification/Hub_Deployment_Rules.thy ===== *)
theory Hub_Deployment_Rules
  imports Hub_Registration_Rules
begin

text \<open>
  The Kubernetes objects of a registration: what is read back from the deployment, and what does not
  depend on the values of secrets.
\<close>

section \<open>Fields of the objects\<close>

lemma kfield_simps [simp]: "kfield (Some (JObj fs)) name = map_of fs name" "kfield None name = None"
  by (simp_all add: kfield_def)

lemma map_of_text [simp]: "map_of (map (\<lambda>(k, v). (k, JStr v)) kvs) k = map_option JStr (map_of kvs k)"
  by (induction kvs) auto

lemma kfield_text [simp]: "kfield (Some (text_object kvs)) k = map_option JStr (map_of kvs k)"
  by (simp add: text_object_def)

lemma as_string_text [simp]: "as_string (map_option JStr s) = s"
  by (cases s) auto

lemma map_of_entry [simp]: "map_of (entry_if k v) k' = (if k' = k \<and> v \<noteq> [] then Some v else None)"
  by (simp add: entry_if_def)

lemma dns_not_Nil: "is_dns_label s \<Longrightarrow> s \<noteq> []"
  by (simp add: is_dns_label_def)

lemma server_name_dns [simp]: "is_dns_label (mi_mcpKeyName x) \<Longrightarrow> server_name x = mi_mcpKeyName x"
  by (simp add: server_name_def or_else_def dns_not_Nil)

lemma deployment_metadata:
  "kfield (Some (deployment_json x annotations ps)) ''metadata'' = Some (JObj (labelled x (server_name x) @ [(''annotations'', text_object annotations)]))"
  "kfield (kfield (kfield (Some (deployment_json x annotations ps)) ''spec'') ''template'') ''spec'' = Some (JObj ps)"
  by (simp_all add: deployment_json_def kube_object_def)

lemma annotation_of_deployment [simp]: "annotation (deployment_json x annotations ps) k = map_of annotations k"
  unfolding annotation_def deployment_metadata by (simp add: labelled_def)

lemma label_of_deployment:
  "label (deployment_json x annotations ps) ''app.kubernetes.io/part-of'' = Some ''mcp-hub''"
  "label (deployment_json x annotations ps) ''mcp.idthw.dev/project'' = Some (mi_project x)"
  unfolding label_def deployment_metadata by (simp_all add: labelled_def app_labels_def)

lemma containers_of_deployment [simp]: "containers_of (deployment_json x annotations (pod_spec x opts cs)) = cs"
  unfolding containers_of_def deployment_metadata by (simp add: pod_spec_def json_items_def)

section \<open>The annotations\<close>

lemma guide_annotations_at: "map_of (guide_annotations x) k = (if mi_guideUrl x = [] then None
    else if k = ''mcp.idthw.dev/permission-guide-label'' then Some (or_else (mi_guideLabel x) ''Permission guide'')
    else if k = ''mcp.idthw.dev/permission-guide-url'' then Some (mi_guideUrl x) else None)"
  by (simp add: guide_annotations_def)

lemma template_annotations_at: "map_of (template_annotations x) k =
    (if k = ''mcp.idthw.dev/template-key'' \<and> mi_creationMethod x = From_Template \<and> mi_templateKey x \<noteq> [] then Some (mi_templateKey x) else None)"
  by (simp add: template_annotations_def)

lemma permission_annotations_at: "map_of (permission_annotations stringify x) k =
    (if k = ''mcp.idthw.dev/tool-permissions'' then map_option (\<lambda>s. stringify (settings_json s)) (mi_toolPermissions x) else None)"
  by (simp add: permission_annotations_def split: option.split)

lemma identity_annotations_at: "map_of (identity_annotations x opts) k =
    (if k = identity_annotation \<and> managed_identity x opts then Some (identity_secret_name x) else None)"
  by (simp add: identity_annotations_def)

lemma access_annotations_at:
  "access_annotations x = Inr access \<Longrightarrow> k \<noteq> ''mcp.idthw.dev/access-audience'' \<Longrightarrow> k \<noteq> ''mcp.idthw.dev/access-scope'' \<Longrightarrow> map_of access k = None"
  unfolding access_annotations_def by (auto simp: ebind_eq_Inr split: if_split_asm)

lemma base_annotations_at:
  assumes "is_dns_label (mi_mcpKeyName x)"
  shows "map_of (base_annotations x) k =
    (if k = ''mcp.idthw.dev/id'' then Some (mi_mcpKeyName x) else if k = ''mcp.idthw.dev/alias'' then Some (or_else (mi_serverName x) (mi_mcpKeyName x))
     else if k = ''mcp.idthw.dev/path'' then Some (or_else (mi_path x) ''/mcp'') else if k = ''mcp.idthw.dev/transport'' then Some ''streamable-http''
     else if k = ''mcp.idthw.dev/access-management'' then Some (access_text (mi_accessManagement x))
     else if k = ''mcp.idthw.dev/creation-method'' then Some (creation_text (mi_creationMethod x))
     else if k = ''mcp.idthw.dev/visibility'' then Some (visibility_text (mi_visibility x)) else None)"
  unfolding base_annotations_def server_name_dns [OF assms] by simp

lemma annotations_Inr:
  assumes "manifest_annotations stringify x opts = Inr annotations" "is_dns_label (mi_mcpKeyName x)"
  shows "map_of annotations ''mcp.idthw.dev/id'' = Some (mi_mcpKeyName x)"
    "map_of annotations ''mcp.idthw.dev/access-management'' = Some (access_text (mi_accessManagement x))"
    "map_of annotations ''mcp.idthw.dev/creation-method'' = Some (creation_text (mi_creationMethod x))"
    "map_of annotations ''mcp.idthw.dev/visibility'' = Some (visibility_text (mi_visibility x))"
    "map_of annotations ''mcp.idthw.dev/alias'' = Some (or_else (mi_serverName x) (mi_mcpKeyName x))"
    "map_of annotations ''mcp.idthw.dev/path'' = Some (or_else (mi_path x) ''/mcp'')"
    "map_of annotations ''mcp.idthw.dev/description'' = (if mi_description x = [] then None else Some (mi_description x))"
    "map_of annotations ''mcp.idthw.dev/icon'' = (if mi_iconId x = [] then None else Some (mi_iconId x))"
    "map_of annotations ''mcp.idthw.dev/permission-guide-label'' =
       (if mi_guideUrl x = [] then None else Some (or_else (mi_guideLabel x) ''Permission guide''))"
    "map_of annotations ''mcp.idthw.dev/permission-guide-url'' = (if mi_guideUrl x = [] then None else Some (mi_guideUrl x))"
    "map_of annotations ''mcp.idthw.dev/template-key'' =
       (if mi_creationMethod x = From_Template \<and> mi_templateKey x \<noteq> [] then Some (mi_templateKey x) else None)"
    "map_of annotations ''mcp.idthw.dev/iam-service-account'' = (if mi_serviceAccount x = [] then None else Some (mi_serviceAccount x))"
    "map_of annotations ''mcp.idthw.dev/tool-permissions'' = map_option (\<lambda>s. stringify (settings_json s)) (mi_toolPermissions x)"
proof -
  from assms(1) obtain access where access: "access_annotations x = Inr access"
    and a: "annotations = base_annotations x @ entry_if ''mcp.idthw.dev/description'' (mi_description x) @ entry_if ''mcp.idthw.dev/icon'' (mi_iconId x)
        @ guide_annotations x @ template_annotations x @ entry_if ''mcp.idthw.dev/iam-service-account'' (mi_serviceAccount x)
        @ access @ permission_annotations stringify x @ identity_annotations x opts"
    unfolding manifest_annotations_def ebind_eq_Inr sum.inject by blast
  note parts = map_of_append map_add_def guide_annotations_at template_annotations_at permission_annotations_at identity_annotations_at
    access_annotations_at [OF access] base_annotations_at [OF assms(2)] map_of_entry identity_annotation_def
  show "map_of annotations ''mcp.idthw.dev/id'' = Some (mi_mcpKeyName x)"
    "map_of annotations ''mcp.idthw.dev/access-management'' = Some (access_text (mi_accessManagement x))"
    "map_of annotations ''mcp.idthw.dev/creation-method'' = Some (creation_text (mi_creationMethod x))"
    "map_of annotations ''mcp.idthw.dev/visibility'' = Some (visibility_text (mi_visibility x))"
    "map_of annotations ''mcp.idthw.dev/alias'' = Some (or_else (mi_serverName x) (mi_mcpKeyName x))"
    "map_of annotations ''mcp.idthw.dev/path'' = Some (or_else (mi_path x) ''/mcp'')"
    unfolding a by (simp_all add: parts)
  show "map_of annotations ''mcp.idthw.dev/description'' = (if mi_description x = [] then None else Some (mi_description x))"
    "map_of annotations ''mcp.idthw.dev/icon'' = (if mi_iconId x = [] then None else Some (mi_iconId x))"
    "map_of annotations ''mcp.idthw.dev/iam-service-account'' = (if mi_serviceAccount x = [] then None else Some (mi_serviceAccount x))"
    unfolding a by (simp_all add: parts)
  show "map_of annotations ''mcp.idthw.dev/permission-guide-label'' =
       (if mi_guideUrl x = [] then None else Some (or_else (mi_guideLabel x) ''Permission guide''))"
    "map_of annotations ''mcp.idthw.dev/permission-guide-url'' = (if mi_guideUrl x = [] then None else Some (mi_guideUrl x))"
    "map_of annotations ''mcp.idthw.dev/template-key'' =
       (if mi_creationMethod x = From_Template \<and> mi_templateKey x \<noteq> [] then Some (mi_templateKey x) else None)"
    "map_of annotations ''mcp.idthw.dev/tool-permissions'' = map_option (\<lambda>s. stringify (settings_json s)) (mi_toolPermissions x)"
    unfolding a by (simp_all add: parts split: option.split)
qed

end
