(* ===== verification/Hub_Read_Back.thy ===== *)
theory Hub_Read_Back
  imports Hub_Deployment_Rules
begin

text \<open>
  A server that the hub deployed is read back as it was registered, and nothing but the secrets depends on
  the values of secret variables.
\<close>

section \<open>The container of the server\<close>

lemma of_nat_integer [simp]: "is_integer (of_nat n)"
  by (simp add: is_integer_def)

lemma container_port_bounds: "1 \<le> container_port number s \<and> container_port number s \<le> 65535"
proof (cases "port_number number s")
  case (Some p)
  then obtain q where "is_integer q" "1 \<le> q" "q \<le> 65535" "p = nat \<lfloor>q\<rfloor>"
    by (auto simp: port_number_def split: js_number.splits if_splits)
  then have "1 \<le> \<lfloor>q\<rfloor>" "\<lfloor>q\<rfloor> \<le> 65535" "p = nat \<lfloor>q\<rfloor>" by (simp_all add: le_floor_iff floor_le_iff)
  then have "1 \<le> p \<and> p \<le> 65535" by (simp add: le_nat_iff nat_le_iff)
  with Some show ?thesis by (simp add: container_port_def)
qed (simp add: container_port_def)

lemma main_container_fields:
  "map_of (main_container number x opts) ''name'' = Some (JStr (server_name x))"
  "map_of (main_container number x opts) ''image'' = Some (JStr (or_else (mi_image x) ''<container-image-required>''))"
  "map_of (main_container number x opts) ''ports'' =
     Some (JArr [JObj [(''name'', JStr ''http''), (''containerPort'', jnat (container_port number (mi_port x)))]])"
  "map_of (main_container number x opts) ''command'' = (if mi_command x = [] then None else Some (JArr [JStr (mi_command x)]))"
  "map_of (main_container number x opts) ''args'' = (if main_arguments x = [] then None else Some (JArr (map JStr (main_arguments x))))"
  "map_of (main_container number x opts) ''env'' =
     (if set_variables x = [] then None else Some (JArr (map (variable_json x) (set_variables x))))"
  unfolding main_container_def map_of_append map_add_def by (simp_all del: map_of_append)

lemma deployed_port_main: "deployed_port (Some (JObj (main_container number x opts))) = Some (container_port number (mi_port x))"
proof -
  let ?p = "container_port number (mi_port x)"
  have "(of_nat 1 :: rat) \<le> of_nat ?p" "(of_nat ?p :: rat) \<le> of_nat 65535"
    using container_port_bounds [of number "mi_port x"] by (simp_all only: of_nat_le_iff)
  then have "(1 :: rat) \<le> of_nat ?p" "(of_nat ?p :: rat) \<le> 65535" by (simp_all only: of_nat_1 of_nat_numeral)
  then show ?thesis by (simp add: deployed_port_def main_container_fields json_items_def jnat_def)
qed

lemma command_main: "string_array (map_of (main_container number x opts) ''command'') field = Inr (if mi_command x = [] then [] else [mi_command x])"
  by (cases "mi_command x = []") (simp_all add: main_container_fields string_array_def)

lemma arguments_main: "string_array (map_of (main_container number x opts) ''args'') field = Inr (main_arguments x)"
  by (simp add: main_container_fields string_array_def)

definition secret_kept :: "env_variable \<Rightarrow> env_variable" where
  "secret_kept e = (if ev_secret e then e\<lparr>ev_value := [], ev_preserve := True\<rparr> else e)"

lemma given_text: "s \<noteq> [] \<Longrightarrow> given (Some s) = Some s"
  by (cases s) (simp_all add: given_def)

lemma variable_main: "ev_key e \<noteq> [] \<Longrightarrow> \<not> ev_preserve e \<Longrightarrow> variable_of_deployment (variable_json x e) = Inr (secret_kept e)"
  by (auto simp: variable_of_deployment_def variable_json_def env_value_def given_text secret_key_ref_def secret_ref_def
      env_secret_name_def secret_kept_def intro!: env_variable.equality)

lemma environment_main:
  assumes "variables_ok (mi_environment x)"
  shows "emap variable_of_deployment (json_items (map_of (main_container number x opts) ''env'')) = Inr (map secret_kept (mi_environment x))"
proof -
  have ok: "is_env_key (ev_key e) \<and> ev_value e \<noteq> [] \<and> \<not> ev_preserve e" if "e \<in> set (mi_environment x)" for e
    using assms that by (auto simp: variables_ok_def list_all_iff)
  then have "set_variables x = mi_environment x"
    unfolding set_variables_def by (intro filter_True) (auto simp: is_env_key_def)
  moreover have "emap variable_of_deployment (map (variable_json x) es) = Inr (map secret_kept es)" if "set es \<subseteq> set (mi_environment x)" for es
    using that ok by (induction es) (auto simp: variable_main is_env_key_def ebind_eq_Inr)
  ultimately show ?thesis by (simp add: main_container_fields json_items_def)
qed

section \<open>The deployment\<close>

lemma find_main:
  assumes "pod_containers number x opts keyId = Inr containers"
  shows "find (is_named (server_name x)) containers = Some (JObj (main_container number x opts))"
  using assms by (auto simp: pod_containers_def ebind_eq_Inr is_named_def main_container_fields split: if_splits)

lemma proxy_named: "is_named ''mcp-runtime-proxy'' (proxy_container number x opts scope keyId)"
  by (simp add: is_named_def proxy_container_def Let_def)

lemma find_proxy:
  assumes "pod_containers number x opts keyId = Inr containers" "mi_accessManagement x = Hub_Access"
  shows "find (is_named ''mcp-runtime-proxy'') containers \<noteq> None"
  using assms proxy_named [of number x opts _ keyId] by (auto simp: pod_containers_def ebind_eq_Inr)

lemma icon_read:
  assumes "trim i = i" "i = [] \<or> is_icon_id i"
  shows "normalize_icon decode (if i = [] then None else Some i) = i"
proof (cases "i = []")
  case True
  then show ?thesis by (simp add: normalize_icon_def legacy_icon_def)
next
  case False
  with assms show ?thesis by (simp add: normalize_icon_def)
qed

lemma url_read: "is_optional_http_url pf u \<Longrightarrow> optional_http_url pf (if u = [] then None else Some u) = u"
  by (cases "u = []") (auto simp: is_optional_http_url_def optional_http_url_def given_text given_def [of None] split: option.splits)

lemma permissions_read:
  assumes "\<And>s. p = Some s \<Longrightarrow> settings_stored s \<and> stringify (settings_json s) \<noteq> [] \<and> parseJson (stringify (settings_json s)) = Inr (settings_json s)"
  shows "stored_permissions parseJson (map_option (\<lambda>s. stringify (settings_json s)) p) = Inr p"
  using assms by (cases p) (simp_all add: stored_permissions_def given_text given_def [of None] parse_settings_again)

text \<open>
  What a registration is once it is deployed: the values of its secret variables are only in the secret,
  the port is the number that was read from the text, and without a guide its link name is the default.
\<close>

definition as_deployed :: "text_number \<Rightarrow> mcp_input \<Rightarrow> mcp_input" where
  "as_deployed number x = x\<lparr>mi_environment := map secret_kept (mi_environment x),
     mi_guideLabel := (if mi_guideUrl x = [] then ''Permission guide'' else mi_guideLabel x),
     mi_port := nat_text (container_port number (mi_port x))\<rparr>"

definition is_deployment :: "json \<Rightarrow> bool" where
  "is_deployment d \<longleftrightarrow> kfield (Some d) ''kind'' = Some (JStr ''Deployment'')"

lemma not_deployments:
  "\<not> is_deployment (namespace_json x)" "d \<in> set (env_secret x opts) \<Longrightarrow> \<not> is_deployment d"
  "identity_resources x opts = Inr identity \<Longrightarrow> d \<in> set identity \<Longrightarrow> \<not> is_deployment d"
  by (auto simp: is_deployment_def namespace_json_def kube_object_def env_secret_def identity_resources_def Let_def ebind_eq_Inr split: if_splits)

lemma deployment_is: "is_deployment (deployment_json x annotations ps)"
  by (simp add: is_deployment_def deployment_json_def kube_object_def)

lemma find_deployment:
  assumes "build_resources stringify number sha256 x opts = Inr resources"
  obtains keyId annotations containers where "manifest_annotations stringify x opts = Inr annotations"
    "pod_containers number x opts keyId = Inr containers"
    "find is_deployment resources = Some (deployment_json x annotations (pod_spec x opts containers))"
proof -
  from assms obtain keyId annotations containers identity
    where parts: "manifest_annotations stringify x opts = Inr annotations" "pod_containers number x opts keyId = Inr containers"
      "identity_resources x opts = Inr identity"
      and r: "resources = [namespace_json x] @ env_secret x opts @ identity @ [deployment_json x annotations (pod_spec x opts containers), service_json number x]"
    unfolding build_resources_def ebind_eq_Inr sum.inject by blast
  have none: "find is_deployment (env_secret x opts) = None" "find is_deployment identity = None"
    using not_deployments(2) not_deployments(3) [OF parts(3)] by (auto simp: find_None_iff)
  have "find is_deployment (xs @ ys) = find is_deployment ys" if "find is_deployment xs = None" for xs ys :: "json list"
    using that by (induction xs) (auto split: if_splits)
  with none have "find is_deployment resources = Some (deployment_json x annotations (pod_spec x opts containers))"
    by (simp add: r not_deployments(1) deployment_is)
  with parts(1,2) show thesis by (intro that)
qed

section \<open>Reading it back\<close>

lemma or_else_given [simp]: "s \<noteq> [] \<Longrightarrow> or_else s d = s"
  by (simp add: or_else_def)

lemma default_to_simps [simp]: "default_to (Some s) d = s" "default_to None d = d"
  by (simp_all add: default_to_def)

lemma default_to_if [simp]: "default_to (if s = [] then None else Some s) [] = s"
  by simp

lemma enum_texts [simp]:
  "access_text a = ''server'' \<longleftrightarrow> a = Server_Access" "creation_text c = ''template'' \<longleftrightarrow> c = From_Template"
  "visibility_text vis = ''project'' \<longleftrightarrow> vis = Project_Wide"
  by (simp_all add: access_text_def creation_text_def visibility_text_def
      split: access_management.split creation_method.split visibility.split)

lemma guide_label_read:
  assumes "trim l = l" "u = [] \<or> l \<noteq> []"
  shows "default_to (given (map_option trim (if u = [] then None else Some (or_else l ''Permission guide'')))) ''Permission guide''
    = (if u = [] then ''Permission guide'' else l)"
proof (cases "u = []")
  case False
  with assms have "l \<noteq> []" by simp
  then have "or_else l ''Permission guide'' = l" by (rule or_else_given)
  with False assms(1) \<open>l \<noteq> []\<close> show ?thesis by (simp add: given_text)
qed (simp add: given_def)

lemma arguments_kept: "list_all (\<lambda>s. s \<noteq> [] \<and> trim s = s) (mi_arguments x) \<Longrightarrow> main_arguments x = mi_arguments x"
proof -
  assume a: "list_all (\<lambda>s. s \<noteq> [] \<and> trim s = s) (mi_arguments x)"
  then have "map trim (mi_arguments x) = mi_arguments x" by (intro map_idI) (simp add: list_all_iff)
  with a show ?thesis by (simp add: main_arguments_def list_all_iff)
qed

lemma deployed_fields:
  assumes annotations: "manifest_annotations stringify x opts = Inr annotations"
    and containers: "pod_containers number x opts keyId = Inr containers" and ok: "registration_ok pf number x"
  defines "d \<equiv> deployment_json x annotations (pod_spec x opts containers)"
  shows "is_server_of d (mi_project x) (mi_mcpKeyName x)"
    "deployed_container d (mi_mcpKeyName x) = Inr (JObj (main_container number x opts), mi_image x)"
    "deployed_access d = mi_accessManagement x" "deployed_creation d = mi_creationMethod x"
proof -
  have dns: "is_dns_label (mi_mcpKeyName x)" and img: "mi_image x \<noteq> []" using ok by (simp_all add: registration_ok_def)
  note a = annotations_Inr [OF annotations dns]
  have name: "server_name x = mi_mcpKeyName x" by (rule server_name_dns [OF dns])
  have main: "find_container d (mi_mcpKeyName x) = Some (JObj (main_container number x opts))"
    using find_main [OF containers] by (simp add: find_container_def d_def name)
  show "is_server_of d (mi_project x) (mi_mcpKeyName x)"
    unfolding is_server_of_def d_def annotation_of_deployment a label_of_deployment deployment_metadata by (simp add: labelled_def name)
  show "deployed_container d (mi_mcpKeyName x) = Inr (JObj (main_container number x opts), mi_image x)"
    using img by (simp add: deployed_container_def main main_container_fields given_text)
  show "deployed_access d = mi_accessManagement x"
    using find_proxy [OF containers] by (cases "mi_accessManagement x") (simp_all add: deployed_access_def find_container_def d_def a)
  show "deployed_creation d = mi_creationMethod x"
    by (cases "mi_creationMethod x") (simp_all add: deployed_creation_def d_def a)
qed

text \<open>
  C38: a deployed server is read back as it was registered. Whatever registration was accepted, and
  whatever options its resources were built with, they have a deployment, and the configuration that the
  hub reads from that deployment is the registration, but for the values of its secret variables, which
  are marked as to be preserved, for the port, which is the number the text stood for, and for the link
  name of a guide without URL. The printing and parsing of the stored permissions are assumed to give
  back the JSON that was printed.
\<close>

theorem deployed_server_is_read_back:
  assumes "validate_registration (dr_platform dr) number v = Inr x"
    and "build_resources stringify number sha256 x opts = Inr resources"
    and "\<And>s. mi_toolPermissions x = Some s \<Longrightarrow>
      stringify (settings_json s) \<noteq> [] \<and> dr_parseJson dr (stringify (settings_json s)) = Inr (settings_json s)"
  shows "\<exists>d. find is_deployment resources = Some d
    \<and> configuration_of_deployment dr d (mi_project x) (mi_mcpKeyName x) = Inr (as_deployed number x)"
proof -
  have ok: "registration_ok (dr_platform dr) number x" by (rule validated_registration_ok [OF assms(1)])
  obtain keyId annotations containers where annotations: "manifest_annotations stringify x opts = Inr annotations"
    and containers: "pod_containers number x opts keyId = Inr containers"
    and d: "find is_deployment resources = Some (deployment_json x annotations (pod_spec x opts containers))"
    by (rule find_deployment [OF assms(2)])
  let ?d = "deployment_json x annotations (pod_spec x opts containers)"
  note a = annotations_Inr [OF annotations]
  note fields = deployed_fields [OF annotations containers ok]
  have permissions: "stored_permissions (dr_parseJson dr) (map_option (\<lambda>s. stringify (settings_json s)) (mi_toolPermissions x)) = Inr (mi_toolPermissions x)"
    using ok assms(3) by (intro permissions_read) (auto simp: registration_ok_def)
  have ok_parts: "is_dns_label (mi_mcpKeyName x)" "mi_serverName x \<noteq> []" "mi_path x \<noteq> []"
    "variables_ok (mi_environment x)" "is_optional_http_url (dr_platform dr) (mi_guideUrl x)"
    "mi_creationMethod x = From_Template \<Longrightarrow> mi_templateKey x \<noteq> []" "mi_creationMethod x = Direct_Setup \<Longrightarrow> mi_templateKey x = []"
    using ok by (auto simp: registration_ok_def dns_not_Nil split: creation_method.splits)
  have main: "main_arguments x = mi_arguments x" "normalize_icon (dr_decode dr) (if mi_iconId x = [] then None else Some (mi_iconId x)) = mi_iconId x"
    "default_to (given (map_option trim (if mi_guideUrl x = [] then None else Some (or_else (mi_guideLabel x) ''Permission guide'')))) ''Permission guide''
      = (if mi_guideUrl x = [] then ''Permission guide'' else mi_guideLabel x)"
    using ok by (simp_all add: registration_ok_def arguments_kept icon_read guide_label_read)
  have "read_configuration dr ?d (mi_project x) (mi_mcpKeyName x) = Inr (as_deployed number x)"
    unfolding read_configuration_def fields annotation_of_deployment a [OF ok_parts(1)]
    using ok_parts(2,3,6,7)
    by (cases "mi_creationMethod x"; cases "mi_visibility x")
      (simp_all add: command_main arguments_main deployed_port_main environment_main [OF ok_parts(4)] permissions main
        url_read [OF ok_parts(5)] as_deployed_def)
  with fields(1) show ?thesis by (simp add: d configuration_of_deployment_def message_result_def)
qed

definition server_sample_options :: manifest_options where
  "server_sample_options = default_options\<lparr>mo_keyId := Some ''key''\<rparr>"

definition sample_reader :: deployment_reader where
  "sample_reader = \<lparr>dr_platform = sample_platform, dr_decode = (\<lambda>s. Some s), dr_parseJson = (\<lambda>s. Inr (settings_json server_sample_settings))\<rparr>"

lemma sample_names: "is_dns_label ''k''" "mi_mcpKeyName (server_sample es) = ''k''" "mi_project (server_sample es) = ''p''"
  by (code_simp, simp_all add: server_sample_def)

lemma sample_resources: "\<exists>rs. build_resources (\<lambda>_. ''{}'') sample_number sha256 (server_sample es) server_sample_options = Inr rs"
proof -
  have name: "server_name (server_sample es) = ''k''" using server_name_dns [of "server_sample es"] by (simp add: sample_names)
  have scope: "\<exists>s. managed_scope ''p'' ''k'' = Inr s" by (simp add: managed_scope_def managed_role_def sample_names)
  have "service_key_of sha256 (server_sample es) server_sample_options = Inr ''key''" "\<exists>i. identity_resources (server_sample es) server_sample_options = Inr i"
    by (simp_all add: service_key_of_def server_sample_options_def identity_resources_def default_options_def Let_def)
  moreover have "\<exists>a. manifest_annotations (\<lambda>_. ''{}'') (server_sample es) server_sample_options = Inr a"
    "\<exists>c. pod_containers sample_number (server_sample es) server_sample_options ''key'' = Inr c"
    using scope by (auto simp: manifest_annotations_def access_annotations_def pod_containers_def name sample_names)
  ultimately show ?thesis by (auto simp: build_resources_def)
qed

lemma deployed_server_is_read_back_witness:
  "\<exists>rs d. build_resources (\<lambda>_. ''{}'') sample_number (\<lambda>s. s) (server_sample [sample_secret ''x'' False]) server_sample_options = Inr rs
     \<and> find is_deployment rs = Some d
     \<and> configuration_of_deployment sample_reader d ''p'' ''k'' = Inr (as_deployed sample_number (server_sample [sample_secret ''x'' False]))
     \<and> mi_environment (as_deployed sample_number (server_sample [sample_secret ''x'' False])) = [sample_secret [] True]"
proof -
  obtain rs where rs: "build_resources (\<lambda>_. ''{}'') sample_number (\<lambda>s. s) (server_sample [sample_secret ''x'' False]) server_sample_options = Inr rs"
    using sample_resources by blast
  have "\<exists>d. find is_deployment rs = Some d \<and> configuration_of_deployment sample_reader d (mi_project (server_sample [sample_secret ''x'' False]))
      (mi_mcpKeyName (server_sample [sample_secret ''x'' False])) = Inr (as_deployed sample_number (server_sample [sample_secret ''x'' False]))"
    using server_sample_payload_Inr
    by (intro deployed_server_is_read_back [OF _ rs, where v = "Some (server_sample_payload [sample_variable ''A'' ''x'' True])"])
      (simp_all add: sample_reader_def server_sample_def)
  with rs show ?thesis
    by (auto simp: server_sample_def as_deployed_def sample_secret_def secret_kept_def)
qed

end
