(* ===== verification/Hub_Secrets.thy ===== *)
theory Hub_Secrets
  imports Hub_Read_Back
begin

text \<open>
  The values of secret variables only reach the secret: the preview, the other resources and the patches
  of an update are the same whatever the values are.
\<close>

section \<open>Registrations that differ in their secrets\<close>

definition same_variable :: "env_variable \<Rightarrow> env_variable \<Rightarrow> bool" where
  "same_variable e f \<longleftrightarrow> ev_key e = ev_key f \<and> ev_secret e = ev_secret f \<and> ev_preserve e = ev_preserve f
     \<and> (ev_value e = [] \<longleftrightarrow> ev_value f = []) \<and> (ev_secret e \<or> ev_value e = ev_value f)"

definition same_but_secrets :: "mcp_input \<Rightarrow> mcp_input \<Rightarrow> bool" where
  "same_but_secrets x y \<longleftrightarrow> y = x\<lparr>mi_environment := mi_environment y\<rparr> \<and> list_all2 same_variable (mi_environment x) (mi_environment y)"

text \<open>Nothing but the list of variables depends on the variables.\<close>

lemma environment_names [simp]:
  "server_name (x\<lparr>mi_environment := es\<rparr>) = server_name x" "env_secret_name (x\<lparr>mi_environment := es\<rparr>) = env_secret_name x"
  "identity_secret_name (x\<lparr>mi_environment := es\<rparr>) = identity_secret_name x" "bootstrap_secret_name (x\<lparr>mi_environment := es\<rparr>) = bootstrap_secret_name x"
  "proxy_account_name (x\<lparr>mi_environment := es\<rparr>) = proxy_account_name x" "proxy_role_name (x\<lparr>mi_environment := es\<rparr>) = proxy_role_name x"
  "service_name_of (x\<lparr>mi_environment := es\<rparr>) = service_name_of x" "app_labels (x\<lparr>mi_environment := es\<rparr>) = app_labels x"
  "managed_identity (x\<lparr>mi_environment := es\<rparr>) opts = managed_identity x opts" "main_arguments (x\<lparr>mi_environment := es\<rparr>) = main_arguments x"
  "name_selector (x\<lparr>mi_environment := es\<rparr>) = name_selector x" "labelled (x\<lparr>mi_environment := es\<rparr>) n = labelled x n"
  "namespace_json (x\<lparr>mi_environment := es\<rparr>) = namespace_json x"
  by (simp_all add: server_name_def env_secret_name_def identity_secret_name_def bootstrap_secret_name_def proxy_account_name_def
      proxy_role_name_def service_name_of_def Let_def app_labels_def managed_identity_def main_arguments_def name_selector_def labelled_def
      namespace_json_def)

lemma environment_key [simp]: "service_key_of sha256 (x\<lparr>mi_environment := es\<rparr>) opts = service_key_of sha256 x opts"
  by (simp add: service_key_of_def split: option.split)

lemma environment_annotations [simp]: "manifest_annotations stringify (x\<lparr>mi_environment := es\<rparr>) opts = manifest_annotations stringify x opts"
  by (simp add: manifest_annotations_def access_annotations_def base_annotations_def guide_annotations_def template_annotations_def
      permission_annotations_def identity_annotations_def)

lemma environment_resources [simp]:
  "identity_resources (x\<lparr>mi_environment := es\<rparr>) opts = identity_resources x opts"
  "service_json number (x\<lparr>mi_environment := es\<rparr>) = service_json number x"
  "deployment_json (x\<lparr>mi_environment := es\<rparr>) annotations ps = deployment_json x annotations ps"
  "pod_spec (x\<lparr>mi_environment := es\<rparr>) opts cs = pod_spec x opts cs"
  "update_deployment_patch now (x\<lparr>mi_environment := es\<rparr>) annotations ps = update_deployment_patch now x annotations ps"
  by (simp_all add: identity_resources_def service_json_def deployment_json_def pod_spec_def pod_volumes_def update_deployment_patch_def)

lemma environment_proxy [simp]: "proxy_container number (x\<lparr>mi_environment := es\<rparr>) opts scope keyId = proxy_container number x opts scope keyId"
proof -
  have "proxy_environment number (x\<lparr>mi_environment := es\<rparr>) scope = proxy_environment number x scope"
    "identity_environment (x\<lparr>mi_environment := es\<rparr>) keyId = identity_environment x keyId"
    by (simp_all add: proxy_environment_def identity_environment_def)
  then show ?thesis by (simp add: proxy_container_def Let_def)
qed

lemma variable_json_same: "same_variable e f \<Longrightarrow> variable_json (x\<lparr>mi_environment := es\<rparr>) f = variable_json x e"
  by (auto simp: variable_json_def same_variable_def)

lemma list_all2_filter:
  "list_all2 R xs ys \<Longrightarrow> (\<And>x y. R x y \<Longrightarrow> P x = P y) \<Longrightarrow> list_all2 R (filter P xs) (filter P ys)"
  by (induction rule: list_all2_induct) auto

lemma list_all2_map_eq: "list_all2 R xs ys \<Longrightarrow> (\<And>x y. R x y \<Longrightarrow> f x = g y) \<Longrightarrow> map f xs = map g ys"
  by (induction rule: list_all2_induct) auto

lemma set_variables_same: "same_but_secrets x y \<Longrightarrow> list_all2 same_variable (set_variables x) (set_variables y)"
  unfolding set_variables_def by (intro list_all2_filter) (auto simp: same_but_secrets_def same_variable_def)

lemma main_container_same:
  assumes "same_but_secrets x y"
  shows "main_container number y opts = main_container number x opts"
proof -
  from assms obtain es where y: "y = x\<lparr>mi_environment := es\<rparr>" by (auto simp: same_but_secrets_def)
  note vs = set_variables_same [OF assms]
  have "map (variable_json y) (set_variables y) = map (variable_json x) (set_variables x)"
    using list_all2_map_eq [OF vs, of "variable_json x" "variable_json y"] by (simp add: y variable_json_same)
  moreover have "set_variables y = [] \<longleftrightarrow> set_variables x = []" using vs by auto
  ultimately show ?thesis unfolding main_container_def by (simp add: y)
qed

lemma pod_containers_same: "same_but_secrets x y \<Longrightarrow> pod_containers number y opts keyId = pod_containers number x opts keyId"
proof -
  assume same: "same_but_secrets x y"
  then obtain es where y: "y = x\<lparr>mi_environment := es\<rparr>" by (auto simp: same_but_secrets_def)
  show ?thesis unfolding pod_containers_def main_container_same [OF same] by (simp add: y)
qed

lemma env_secret_same:
  assumes "same_but_secrets x y" "\<not> mo_includeSecrets opts"
  shows "env_secret y opts = env_secret x opts"
proof -
  from assms(1) obtain es where y: "y = x\<lparr>mi_environment := es\<rparr>" by (auto simp: same_but_secrets_def)
  have vs: "list_all2 same_variable (filter ev_secret (set_variables x)) (filter ev_secret (set_variables y))"
    by (intro list_all2_filter set_variables_same [OF assms(1)]) (simp add: same_variable_def)
  have keys: "map (\<lambda>e. (ev_key e, v)) (filter ev_secret (set_variables x)) = map (\<lambda>e. (ev_key e, v)) (filter ev_secret (set_variables y))" for v :: json
    by (rule list_all2_map_eq [OF vs]) (simp add: same_variable_def)
  have "filter ev_secret (set_variables y) = [] \<longleftrightarrow> filter ev_secret (set_variables x) = []" using vs by (metis list_all2_Nil list_all2_Nil2)
  then show ?thesis using assms(2) keys by (simp add: env_secret_def Let_def y)
qed

section \<open>The patches of an update\<close>

lemma updated_variable_same:
  "same_variable e f \<Longrightarrow> updated_variable (x\<lparr>mi_environment := es\<rparr>) references f = updated_variable x references e"
  by (cases "map_of (rev references) (ev_key f)") (auto simp: updated_variable_def same_variable_def)

lemma updated_environment_same:
  assumes "same_but_secrets x y"
  shows "updated_environment y container = updated_environment x container"
proof -
  from assms obtain es where y: "y = x\<lparr>mi_environment := es\<rparr>" by (auto simp: same_but_secrets_def)
  have emap_same: "list_all2 same_variable as bs \<Longrightarrow> emap (updated_variable x references) as = emap (updated_variable y references) bs" for as bs references
    by (induction rule: list_all2_induct) (simp_all add: y updated_variable_same)
  have "list_all2 same_variable (filter (\<lambda>e. ev_key e \<noteq> [] \<and> (ev_value e \<noteq> [] \<or> ev_preserve e)) (mi_environment x))
    (filter (\<lambda>e. ev_key e \<noteq> [] \<and> (ev_value e \<noteq> [] \<or> ev_preserve e)) (mi_environment y))"
    using assms by (intro list_all2_filter) (auto simp: same_but_secrets_def same_variable_def)
  then show ?thesis unfolding updated_environment_def by (rule emap_same [symmetric])
qed

definition update_patches :: "(string, resource_update) result \<Rightarrow> (string, json \<times> json) result" where
  "update_patches u = ebind u (\<lambda>u. Inr (ru_deploymentPatch u, ru_servicePatch u))"

lemma ebind_assoc: "ebind (ebind m f) g = ebind m (\<lambda>x. ebind (f x) g)"
  by (cases m) simp_all

lemma update_patches_bind: "update_patches (ebind v f) = ebind v (\<lambda>w. update_patches (f w))"
  by (cases v) (simp_all add: update_patches_def)

lemma update_patches_Inl [simp]: "update_patches (Inl m) = Inl m"
  by (simp add: update_patches_def)

lemma patches_same:
  assumes "same_but_secrets x y"
  shows "update_patches (build_update stringify number sha256 po now y d) = update_patches (build_update stringify number sha256 po now x d)"
proof -
  from assms obtain es where y: "y = x\<lparr>mi_environment := es\<rparr>" by (auto simp: same_but_secrets_def)
  show ?thesis
    unfolding build_update_def Let_def update_patches_bind pod_containers_same [OF assms] updated_environment_same [OF assms]
    unfolding y environment_key environment_annotations
    by (intro arg_cong [of _ _ "ebind _"] ext)
      (simp add: update_patches_def ebind_assoc split: option.split)
qed

definition is_secret :: "json \<Rightarrow> bool" where
  "is_secret r \<longleftrightarrow> kfield (Some r) ''kind'' = Some (JStr ''Secret'')"

lemma env_secret_is_secret: "filter (\<lambda>r. \<not> is_secret r) (env_secret x opts) = []"
  by (simp add: env_secret_def Let_def is_secret_def kube_object_def)

lemma namespace_no_secret: "\<not> is_secret (namespace_json x)"
  by (simp add: namespace_json_def is_secret_def kube_object_def)

lemma resources_same:
  assumes "same_but_secrets x y"
  shows "\<not> mo_includeSecrets opts \<Longrightarrow> build_resources stringify number sha256 y opts = build_resources stringify number sha256 x opts"
    "ebind (build_resources stringify number sha256 y opts) (\<lambda>rs. Inr (filter (\<lambda>r. \<not> is_secret r) rs))
     = ebind (build_resources stringify number sha256 x opts) (\<lambda>rs. Inr (filter (\<lambda>r. \<not> is_secret r) rs))"
proof -
  from assms obtain es where y: "y = x\<lparr>mi_environment := es\<rparr>" by (auto simp: same_but_secrets_def)
  show "build_resources stringify number sha256 y opts = build_resources stringify number sha256 x opts" if "\<not> mo_includeSecrets opts"
    unfolding build_resources_def pod_containers_same [OF assms] env_secret_same [OF assms that]
    by (simp add: y)
  show "ebind (build_resources stringify number sha256 y opts) (\<lambda>rs. Inr (filter (\<lambda>r. \<not> is_secret r) rs))
     = ebind (build_resources stringify number sha256 x opts) (\<lambda>rs. Inr (filter (\<lambda>r. \<not> is_secret r) rs))"
    unfolding build_resources_def pod_containers_same [OF assms] ebind_assoc
    by (simp add: y env_secret_is_secret namespace_no_secret)
qed

text \<open>
  C39: secret values only reach the secret. For two registrations that differ in nothing but the values of
  their secret variables, the resources without secret values, which are what the preview shows, are the
  same; the resources with secret values are the same but for the Secret objects, so no deployment,
  annotation or environment of a container holds a secret value; and the patches of an update are the
  same. In particular the error is the same where one of them fails.
\<close>

theorem secret_values_stay_in_secrets:
  assumes "same_but_secrets x y"
  shows "manifest_preview yaml stringify number sha256 y = manifest_preview yaml stringify number sha256 x
    \<and> ebind (build_resources stringify number sha256 y opts) (\<lambda>rs. Inr (filter (\<lambda>r. \<not> is_secret r) rs))
       = ebind (build_resources stringify number sha256 x opts) (\<lambda>rs. Inr (filter (\<lambda>r. \<not> is_secret r) rs))
    \<and> update_patches (build_update stringify number sha256 po now y d) = update_patches (build_update stringify number sha256 po now x d)"
proof (intro conjI)
  have "\<not> mo_includeSecrets default_options" by (simp add: default_options_def)
  then show "manifest_preview yaml stringify number sha256 y = manifest_preview yaml stringify number sha256 x"
    unfolding manifest_preview_def by (simp add: resources_same(1) [OF assms])
qed (rule resources_same(2) [OF assms] patches_same [OF assms])+

lemma secret_values_stay_in_secrets_witness:
  "manifest_preview (\<lambda>_. ''r'') (\<lambda>_. ''{}'') sample_number (\<lambda>s. s) (server_sample [sample_secret ''other'' False])
     = manifest_preview (\<lambda>_. ''r'') (\<lambda>_. ''{}'') sample_number (\<lambda>s. s) (server_sample [sample_secret ''x'' False])"
  by (rule secret_values_stay_in_secrets [THEN conjunct1])
    (simp add: same_but_secrets_def same_variable_def server_sample_def sample_secret_def)

end
