(* ===== verification/Spec2Isabelle.thy ===== *)
theory Spec2Isabelle
  imports Gateway_OAuth_Flow Gateway_Internal Runtime_Auth_Runs Runtime_Publication Runtime_Proxy_Safety Runtime_Readiness Runtime_Identity_Refresh Hub_Registry GenAI_Limits
    Broker_Runs Broker_Login Demo_Flow Hub_Managed_Access Hub_Readiness Hub_Draft_Rules Hub_Secrets
begin

text \<open>
  Access to MCP servers with ID-JAG and Athenz: a model of the TypeScript services of the repository
  and the properties that make them correct.

  \<^bold>\<open>The program.\<close> A user logs in at the MCP gateway (\<^verbatim>\<open>src/components/mcp-gateway\<close>) through Keycloak and
  receives an opaque session token. For each request to an MCP server the gateway finds the server's
  route in the hub's registry, exchanges the session's ID token at Athenz for an ID-JAG and then for an
  access token of the needed scopes, and forwards the request with it. In front of the MCP server
  stands the runtime proxy (\<^verbatim>\<open>src/components/mcp-runtime-proxy\<close>): it verifies the access token, exchanges
  it for the downstream token of a tool call, hands that token to the server as a file for the time of
  the call, and keeps the service's certificate fresh. The hub (\<^verbatim>\<open>src/components/idthw_hub\<close>) publishes
  the servers with the scopes of their tools, which it derives from permission settings.

  \<^bold>\<open>Shared theories.\<close> \<open>Js_Prelude\<close>: results that carry exceptions as values (\<open>ebind\<close>, \<open>emap\<close>, \<open>efold\<close>), text,
  sets and maps of JavaScript, with the collections \<open>text_simps\<close> and \<open>result_simps\<close>. \<open>Js_Value\<close>: numbers,
  JSON, URLs, headers and replies, the record of platform functions, and what assigning the path of a
  URL does to its segments of dots. \<open>Js_Double\<close>: rounding to doubles, for the costs of the GenAI proxy,
  with a bound for each operation. \<open>Expiring_Store\<close>: a map whose entries expire, its invariants, and the
  locale of a store that redeems an entry once. \<open>Athenz_Names\<close>: domains, roles and scopes. \<open>Samples\<close>:
  concrete values for the witnesses.

  \<^bold>\<open>Gateway.\<close> \<open>Gateway_Env\<close> is \<^verbatim>\<open>config/env.ts\<close>; \<open>Gateway_Session_Store\<close> and \<open>Gateway_OAuth_Store\<close> are
  \<^verbatim>\<open>utils/sessionStore.ts\<close> and \<^verbatim>\<open>utils/oauthStore.ts\<close>; \<open>Gateway_OAuth_Routes\<close> is \<^verbatim>\<open>routes/oauth.ts\<close> with
  \<^verbatim>\<open>services/keycloak.ts\<close>, one definition for each handler, and \<open>Gateway_OAuth_Flow\<close> runs the handlers in
  any order (C1 to C4). \<open>Gateway_Athenz_Scopes\<close> and \<open>Gateway_Athenz_Manager\<close> are \<^verbatim>\<open>services/athenz.ts\<close>;
  since the handlers await ZTS, an issuance is a task that is begun, answered and finished, and
  \<open>Gateway_Athenz_Runs\<close> interleaves calls, answers and clean-up arbitrarily (C5, C6).
  \<open>Gateway_Registry\<close> is \<^verbatim>\<open>services/mcpRegistry.ts\<close>, \<open>Gateway_Protected\<close> is \<^verbatim>\<open>routes/protected.ts\<close>: what a
  forwarded request must have (C7) and where it goes (C8). \<open>Gateway_Internal\<close> is \<^verbatim>\<open>routes/internal.ts\<close>.

  \<^bold>\<open>Runtime proxy.\<close> \<open>Runtime_Auth\<close> is \<^verbatim>\<open>auth.ts\<close>: the verifier, and the resolver of signing keys cut at its
  awaits; \<open>Runtime_Auth_Runs\<close> states the interface of a key resolver as a locale, interprets it on the
  reachable states of the resolver and proves C9 and C10. \<open>Runtime_Token_Exchange\<close> is
  \<^verbatim>\<open>tokenExchange.ts\<close>, over a file system of files and directories whose calls may fail;
  \<open>Runtime_Publication\<close> proves what a published token file is (C11) and what a publication leaves behind
  (C12). \<open>Runtime_Proxy\<close> is \<^verbatim>\<open>proxy.ts\<close>, the whole request handler; \<open>Runtime_Proxy_Safety\<close> relies on the
  publisher through a locale, interpreted on the modelled file publisher, and proves C13 to C16.
  \<open>Runtime_Readiness\<close> is the readiness probe, \<open>Runtime_Identity\<close> is \<^verbatim>\<open>identity.ts\<close> and
  \<open>Runtime_Identity_Refresh\<close> proves C17 and C18.

  \<^bold>\<open>Permissions of the hub.\<close> \<open>Hub_Permissions\<close> is \<^verbatim>\<open>features/permissions/lib/permissionPreset.ts\<close>: parsing,
  merging and expanding permission settings; \<open>Hub_Permission_Rules\<close> proves C19. \<open>Hub_Registry\<close> is \<^verbatim>\<open>GET\<close> of
  \<^verbatim>\<open>app/api/mcp-servers/route.ts\<close>: what the hub publishes is what the gateway's client and the runtime
  proxy read (C20). \<open>Hub_Drafts\<close> is \<^verbatim>\<open>toolPermissionDraft.ts\<close>, the form in which settings are edited;
  \<open>Hub_Settings_Again\<close> shows that stored settings are read back, and \<open>Hub_Draft_Rules\<close> what opening and
  saving them changes (C40).

  \<^bold>\<open>The hub and ZMS.\<close> \<open>Hub_Zms\<close> is \<^verbatim>\<open>mcpManagedAccess.ts\<close> and \<^verbatim>\<open>mcpServiceIdentity.ts\<close>, as programs over the
  requests to ZMS; \<open>Hub_Zms_Runs\<close> has the rules for running them, and \<open>Hub_Managed_Access\<close> proves what
  provisioning brings about, with ZMS as an argument (C33 to C35). \<open>Hub_Permission_Access\<close> is
  \<^verbatim>\<open>requestToolPermissionAccess.ts\<close>, \<^verbatim>\<open>zmsPolicy.ts\<close> and \<^verbatim>\<open>fetchPermissionReadiness.ts\<close>; \<open>Hub_Readiness\<close> states
  readiness over the JSON that ZMS answered (C36).

  \<^bold>\<open>Registration of servers.\<close> \<open>Hub_Registration\<close> is \<^verbatim>\<open>registrationInput.ts\<close>, the validation of
  registrations and updates, and \<open>Hub_Registration_Rules\<close> what it accepts (C37). \<open>Hub_Manifest\<close> builds the
  Kubernetes objects (\<^verbatim>\<open>kubernetesManifest.ts\<close>), \<open>Hub_Resources\<close> and \<open>Hub_Changes\<close> read, create, change
  and delete them over \<^verbatim>\<open>kubectl\<close> (\<^verbatim>\<open>mcpResources.ts\<close>, \<^verbatim>\<open>createMcpResources.ts\<close>, \<^verbatim>\<open>mcpRuntimeProxy.ts\<close>), and
  \<open>Hub_Solutions\<close> is \<^verbatim>\<open>mcpSolutionTemplates.ts\<close>. \<open>Hub_Deployment_Rules\<close> has the lemmas on the objects. \<open>Hub_Read_Back\<close> proves that a deployed server is read back (C38) and \<open>Hub_Secrets\<close> that values
  of secrets stay in Secret objects (C39).

  \<^bold>\<open>GenAI proxy.\<close> \<open>GenAI_Usage\<close> is \<^verbatim>\<open>genai_proxy/src/usage.ts\<close> and \<^verbatim>\<open>billing.ts\<close>; \<open>GenAI_Accounts\<close> relates
  the stored totals to the history of recorded requests (C23) and \<open>GenAI_Saving\<close> shows that what is
  saved is loaded again (C24). \<open>GenAI_Proxy\<close> is \<^verbatim>\<open>auth.ts\<close> and \<^verbatim>\<open>server.ts\<close>; \<open>GenAI_Safety\<close> proves what a
  forwarded request must have (C21) and \<open>GenAI_Limits\<close> when the daily limit refuses a request (C22) and
  to which host it goes (C25).

  \<^bold>\<open>Connector.\<close> The connectors of one user (\<^verbatim>\<open>mcp-credential-broker\<close>) share the gateway's session through a
  file. \<open>Broker_Session\<close> is \<^verbatim>\<open>sharedSession.ts\<close>: a call is a machine over the credential file and the lock
  file, one phase for each file operation; \<open>Broker_Runs\<close> interleaves the calls of several processes, with
  failing operations and killed processes (C26 to C28). \<open>Broker_OAuth\<close> is \<^verbatim>\<open>oauth.ts\<close>,
  \<^verbatim>\<open>authenticatedFetch.ts\<close> and \<^verbatim>\<open>index.ts\<close>; \<open>Broker_Login\<close> shows that a login uses its own callback (C29) and
  composes it with the gateway's routes (C30).

  \<^bold>\<open>Demo services.\<close> \<open>Demo_Mcp\<close> is \<^verbatim>\<open>idthw-demo-api-mcp\<close>, the MCP server behind the runtime proxy, and \<open>Demo_Api\<close>
  is \<^verbatim>\<open>idthw-demo-api\<close>. \<open>Demo_Docs\<close> relates the documents of any run to the authorized changes (C31).
  \<open>Demo_Flow\<close> composes publisher, MCP server and API: the token the proxy publishes for a tool opens the
  documents for it (C32).

  \<^bold>\<open>Modelling.\<close> Handlers are functions of the stores and of what the program asks of its environment:
  the clock, random values, Keycloak, ZTS, ZMS, Kubernetes, files, \<^verbatim>\<open>JSON.parse\<close>, cryptography and URL
  parsing. These are arguments; no behaviour of theirs is assumed beyond what a theorem's hypotheses
  say. Exceptions are the left part of a result. Code between two awaits is one step, and the run
  relations allow every order of steps. Text is Latin-1. Costs are doubles, rounded after every
  operation; other numbers are exact rationals or non-finite, which for whole numbers below 2 to the
  53rd is the same; a size that the code bounds is compared as it is there.

  \<^bold>\<open>Termination and bounds.\<close> Every definition is total. Loops over data are structural; the wait for a
  projected certificate decreases the time to its deadline, and C18 bounds it by 120 reads, each
  at least a second apart within 120 seconds; a connector enters its waiting loop at most 4401 times
  with the defaults (C27). The key resolver refetches at most once for a key it does not find. There
  is no fuel.

  \<^bold>\<open>Not modelled.\<close> Sockets, TLS, streaming and logging; process start-up; text outside Latin-1; file
  modes. Of the hub, the storage of templates and workflow requests, the catalog, sign-in and the
  pages. The core MCP proxy is an independent service; the older demonstrations and the parts in Go,
  Java and shell are left out.

  \<^bold>\<open>Plan.\<close> Next the templates and the workflow requests of the hub, which end in the registration and
  the permissions modelled here, and then the core MCP proxy.
\<close>

end
